(* ===== verification/Prelude.thy ===== *)
theory Prelude
  imports Complex_Main "HOL-Library.List_Lexorder" "HOL-Library.Product_Lexorder" "HOL-Library.AList"
    "HOL-Library.Sublist"
begin

text \<open>
  What the components share: the error values Python's exceptions become, deduplication by a key,
  the loops that stop at a limit, insertion-ordered dictionaries (association lists with
  \<open>AList.update\<close>, which keeps an existing key in place and appends a new one, as a Python
  dict does), Python's rounding, and the collections of simplification rules the component
  theories use.
\<close>

named_theorems py_eval \<open>unfolds string literals and small helpers when a concrete input is evaluated\<close>

named_theorems py_loop \<open>unfolding equations of non-structural loops, for concrete inputs only\<close>

named_theorems dict_simps \<open>lookup and key facts of insertion-ordered dictionaries\<close>

section \<open>Errors\<close>

text \<open>
  One constructor per exception class that reaches a caller. The message is the source's, with
  the formatted parts as arguments where the code formats one.
\<close>

datatype py_error =
    ValueError string
  | LlmWikiUserError string
  | VectorSearchError string
  | OkfV02ValidationError string
  | RuntimeError string
  | KeyError string
  | OSError string
  | OverflowError string
  | TypeError string

type_synonym 'a res = "py_error + 'a"

definition bind_res :: "'a res \<Rightarrow> ('a \<Rightarrow> 'b res) \<Rightarrow> 'b res" where
  "bind_res r f = (case r of Inl e \<Rightarrow> Inl e | Inr x \<Rightarrow> f x)"

lemma bind_res_simps [simp]:
  "bind_res (Inl e) f = Inl e"
  "bind_res (Inr x) f = f x"
  by (simp_all add: bind_res_def)

lemma bind_res_Inr: "bind_res r f = Inr y \<longleftrightarrow> (\<exists>x. r = Inr x \<and> f x = Inr y)"
  by (cases r) auto

fun map_res :: "('a \<Rightarrow> 'b res) \<Rightarrow> 'a list \<Rightarrow> 'b list res" where
  "map_res f [] = Inr []"
| "map_res f (x # xs) = bind_res (f x) (\<lambda>y. bind_res (map_res f xs) (\<lambda>ys. Inr (y # ys)))"

lemma map_res_Inr: "map_res f xs = Inr ys \<longleftrightarrow> list_all2 (\<lambda>x y. f x = Inr y) xs ys"
  by (induction xs arbitrary: ys) (auto simp: bind_res_Inr list_all2_Cons1)

section \<open>Deduplication by a key\<close>

text \<open>
  The loop \<open>seen = set(); for x in xs: if key(x) in seen: continue; seen.add(key(x));
  result.append(x)\<close>, which the code writes out in several places.
\<close>

fun dedupe_on :: "('a \<Rightarrow> 'k) \<Rightarrow> 'k set \<Rightarrow> 'a list \<Rightarrow> 'a list" where
  "dedupe_on f seen [] = []"
| "dedupe_on f seen (x # xs) =
     (if f x \<in> seen then dedupe_on f seen xs else x # dedupe_on f (insert (f x) seen) xs)"

lemma set_dedupe_on: "set (dedupe_on f seen xs) \<subseteq> set xs"
  by (induction xs arbitrary: seen) auto

lemma subseq_dedupe_on: "subseq (dedupe_on f seen xs) xs"
  by (induction xs arbitrary: seen) auto

lemma dedupe_on_keys: "f ` set (dedupe_on f seen xs) = f ` set xs - seen"
  by (induction xs arbitrary: seen) auto

lemma dedupe_on_key: "x \<in> set (dedupe_on f seen xs) \<Longrightarrow> f x \<notin> seen"
  using dedupe_on_keys [of f seen xs] by blast

lemma distinct_dedupe_on: "distinct (map f (dedupe_on f seen xs))"
proof (induction xs arbitrary: seen)
  case Nil
  then show ?case by simp
next
  case (Cons x xs)
  then show ?case by (auto dest: dedupe_on_key)
qed

lemma dedupe_on_id:
  "distinct (map f xs) \<Longrightarrow> f ` set xs \<inter> seen = {} \<Longrightarrow> dedupe_on f seen xs = xs"
proof (induction xs arbitrary: seen)
  case Nil
  then show ?case by simp
next
  case (Cons x xs)
  then have "f ` set xs \<inter> insert (f x) seen = {}" by auto
  with Cons show ?case by auto
qed

lemma dedupe_on_idem: "dedupe_on f {} (dedupe_on f {} xs) = dedupe_on f {} xs"
  by (rule dedupe_on_id) (simp_all add: distinct_dedupe_on)

lemma length_dedupe_on: "length (dedupe_on f seen xs) \<le> length xs"
  by (induction xs arbitrary: seen) (auto intro: le_SucI)

text \<open>The first element with a given key is the one that is kept.\<close>

lemma find_dedupe_on:
  "k \<notin> seen \<Longrightarrow> List.find (\<lambda>x. f x = k) (dedupe_on f seen xs) = List.find (\<lambda>x. f x = k) xs"
  by (induction xs arbitrary: seen) auto

section \<open>Insertion-ordered dictionaries\<close>

type_synonym ('k, 'v) dict = "('k \<times> 'v) list"

definition dict_get :: "('k, 'v) dict \<Rightarrow> 'k \<Rightarrow> 'v \<Rightarrow> 'v" where
  "dict_get d k x = (case map_of d k of Some v \<Rightarrow> v | None \<Rightarrow> x)"

definition dict_setdefault :: "'k \<Rightarrow> 'v \<Rightarrow> ('k, 'v) dict \<Rightarrow> ('k, 'v) dict" where
  "dict_setdefault k v d = (case map_of d k of Some _ \<Rightarrow> d | None \<Rightarrow> d @ [(k, v)])"

text \<open>A dict comprehension or a loop of assignments: later bindings of a key win.\<close>

definition dict_of :: "('k \<times> 'v) list \<Rightarrow> ('k, 'v) dict" where
  "dict_of kvs = fold (\<lambda>(k, v) d. AList.update k v d) kvs []"

text \<open>\<open>d.setdefault(k, []).append(e)\<close>, and the counts of \<open>collections.Counter\<close>.\<close>

definition dict_append :: "'k \<Rightarrow> 'v \<Rightarrow> ('k, 'v list) dict \<Rightarrow> ('k, 'v list) dict" where
  "dict_append k e d = AList.update k (dict_get d k [] @ [e]) d"

definition counter_add :: "'k \<Rightarrow> ('k, nat) dict \<Rightarrow> ('k, nat) dict" where
  "counter_add k d = AList.update k (Suc (dict_get d k 0)) d"

definition counter :: "'k list \<Rightarrow> ('k, nat) dict" where
  "counter ks = fold counter_add ks []"

lemma map_of_update [simp, dict_simps]: "map_of (AList.update k v d) = (map_of d)(k \<mapsto> v)"
  by (rule update_conv')

lemma map_of_setdefault [dict_simps]:
  "map_of (dict_setdefault k v d) =
     (case map_of d k of Some _ \<Rightarrow> map_of d | None \<Rightarrow> (map_of d)(k \<mapsto> v))"
  by (rule ext) (auto simp: dict_setdefault_def map_add_def split: option.splits)

lemma map_of_fold_update:
  "map_of (fold (\<lambda>(k, v) d. AList.update k v d) kvs d) = map_of d ++ map_of (rev kvs)"
  by (induction kvs arbitrary: d) (auto simp: map_add_def fun_eq_iff split: option.splits)

lemma map_of_dict_of [dict_simps]: "map_of (dict_of kvs) = map_of (rev kvs)"
  by (simp add: dict_of_def map_of_fold_update)

lemma dict_get_append [dict_simps]:
  "dict_get (dict_append k e d) k' [] = (if k' = k then dict_get d k [] @ [e] else dict_get d k' [])"
  by (simp add: dict_append_def dict_get_def)

lemma dict_get_fold_append [dict_simps]:
  "dict_get (fold (\<lambda>x. dict_append (f x) (g x)) xs d) k [] =
     dict_get d k [] @ map g (filter (\<lambda>x. f x = k) xs)"
  by (induction xs arbitrary: d) (auto simp: dict_get_append)

lemma dict_get_counter_add:
  "dict_get (counter_add k d) k' 0 = dict_get d k' 0 + (if k' = k then 1 else 0)"
  by (simp add: counter_add_def dict_get_def)

lemma dict_get_fold_counter:
  "dict_get (fold counter_add ks d) k 0 = dict_get d k 0 + count_list ks k"
  by (induction ks arbitrary: d) (auto simp: dict_get_counter_add)

lemma dict_get_counter [dict_simps]: "dict_get (counter ks) k 0 = count_list ks k"
  by (simp add: counter_def dict_get_fold_counter) (simp add: dict_get_def)

lemma keys_counter: "fst ` set (counter ks) = set ks"
proof -
  have "fst ` set (fold counter_add ks d) = fst ` set d \<union> set ks" for d :: "('a, nat) dict"
    by (induction ks arbitrary: d) (auto simp: counter_add_def dom_update)
  then show ?thesis by (simp add: counter_def)
qed

lemma distinct_counter: "distinct (map fst (counter ks))"
proof -
  have "distinct (map fst (fold counter_add ks d))" if "distinct (map fst d)" for d :: "('a, nat) dict"
    using that by (induction ks arbitrary: d) (auto simp: counter_add_def distinct_update)
  then show ?thesis by (simp add: counter_def)
qed

lemma counter_entries: "(k, n) \<in> set (counter ks) \<longleftrightarrow> k \<in> set ks \<and> n = count_list ks k"
proof -
  have "(k, n) \<in> set (counter ks) \<longleftrightarrow> map_of (counter ks) k = Some n"
    by (rule map_of_eq_Some_iff [OF distinct_counter, symmetric])
  moreover have "map_of (counter ks) k = None \<longleftrightarrow> k \<notin> set ks"
    by (simp add: map_of_eq_None_iff keys_counter)
  ultimately show ?thesis
    using dict_get_counter [of ks k] by (auto simp: dict_get_def split: option.splits)
qed

lemma distinct_dict_of: "distinct (map fst (dict_of kvs))"
proof -
  have "distinct (map fst (fold (\<lambda>(k, v) d. AList.update k v d) kvs d))"
    if "distinct (map fst d)" for d :: "('a, 'b) dict"
    using that by (induction kvs arbitrary: d) (auto simp: distinct_update)
  then show ?thesis by (simp add: dict_of_def)
qed

lemma dom_dict_of: "dom (map_of (dict_of kvs)) = fst ` set kvs"
  by (simp add: map_of_dict_of dom_map_of_conv_image_fst)

section \<open>Stable sorting and prefixes\<close>

text \<open>
  \<open>sorted(xs, key=f)\<close> is \<open>sort_key\<close>, which is stable; the keys are tuples ordered
  lexicographically and strings ordered by code points (the orders of Product_Lexorder and
  List_Lexorder).
\<close>

lemma sorted_take_key: "sorted (map f xs) \<Longrightarrow> sorted (map f (take n xs))"
  by (simp add: take_map [symmetric] sorted_wrt_take)

lemma sort_key_prefix_best:
  assumes "x \<in> set (take n (sort_key f xs))" and "y \<in> set (drop n (sort_key f xs))"
  shows "f x \<le> f y"
proof -
  have "sorted (map f (take n (sort_key f xs) @ drop n (sort_key f xs)))"
    by simp
  with assms show ?thesis
    by (auto simp del: append_take_drop_id simp: sorted_append)
qed

section \<open>Python's round\<close>

text \<open>
  Scores are Python floats; the model computes them as exact real numbers. \<open>round(x, n)\<close>
  rounds half to even.
\<close>

definition round_half_even :: "real \<Rightarrow> int" where
  "round_half_even x =
     (let f = \<lfloor>x\<rfloor>; d = x - of_int f
      in if d < 1 / 2 then f else if d > 1 / 2 then f + 1 else if even f then f else f + 1)"

definition py_round :: "real \<Rightarrow> nat \<Rightarrow> real" where
  "py_round x n = of_int (round_half_even (x * 10 ^ n)) / 10 ^ n"

lemma round_half_even_error: "\<bar>of_int (round_half_even x) - x\<bar> \<le> 1 / 2"
proof -
  have "of_int \<lfloor>x\<rfloor> \<le> x" "x < of_int \<lfloor>x\<rfloor> + 1" by linarith+
  then show ?thesis
    by (auto simp: round_half_even_def Let_def abs_le_iff)
qed

lemma round_half_even_mono: "x \<le> y \<Longrightarrow> round_half_even x \<le> round_half_even y"
proof -
  assume le: "x \<le> y"
  then have fl: "\<lfloor>x\<rfloor> \<le> \<lfloor>y\<rfloor>" by (rule floor_mono)
  have x: "round_half_even x \<le> \<lfloor>x\<rfloor> + 1" and y: "\<lfloor>y\<rfloor> \<le> round_half_even y"
    by (auto simp: round_half_even_def Let_def)
  show ?thesis
  proof (cases "\<lfloor>x\<rfloor> = \<lfloor>y\<rfloor>")
    case True
    with le show ?thesis
      by (auto simp: round_half_even_def Let_def)
  next
    case False
    with fl have "\<lfloor>x\<rfloor> + 1 \<le> \<lfloor>y\<rfloor>" by linarith
    with x y show ?thesis by linarith
  qed
qed

lemma py_round_mono: "x \<le> y \<Longrightarrow> py_round x n \<le> py_round y n"
  by (auto simp: py_round_def intro!: divide_right_mono round_half_even_mono mult_right_mono)

lemma py_round_error: "\<bar>py_round x n - x\<bar> \<le> 1 / (2 * 10 ^ n)"
proof -
  have "\<bar>py_round x n - x\<bar> = \<bar>of_int (round_half_even (x * 10 ^ n)) - x * 10 ^ n\<bar> / 10 ^ n"
    by (simp add: py_round_def abs_div_pos diff_divide_distrib)
  also have "\<dots> \<le> (1 / 2) / 10 ^ n"
    by (intro divide_right_mono round_half_even_error) simp
  finally show ?thesis by simp
qed

lemma round_half_even_of_int [simp]: "round_half_even (of_int k) = k"
  by (simp add: round_half_even_def)

lemma py_round_zero [simp]: "py_round 0 n = 0"
  using round_half_even_of_int [of 0] by (simp add: py_round_def)

lemma py_round_nonneg: "0 \<le> x \<Longrightarrow> 0 \<le> py_round x n"
  using py_round_mono [of 0 x n] by simp

end
