(* ===== verification/PyStr.thy ===== *)
theory PyStr
  imports Prelude Unicode_Tables
begin

text \<open>
  Python strings: a string is the list of its code points, so \<open>len\<close>, slices and comparison are
  those of the list (comparison is the lexicographic order of List_Lexorder). Each definition is a
  \<open>str\<close> method or a regular-expression class the source uses. Case mapping and character classes
  are rules on ASCII and table lookup from code point 128 on. One mapping is simplified: \<open>lower\<close>
  maps a capital sigma to the medial small sigma in every position, where Python writes the final
  form at the end of a word.
\<close>

type_synonym ustr = "nat list"

text \<open>A literal of the source, from its characters.\<close>

definition lit :: "string \<Rightarrow> ustr" where
  "lit s = map of_char s"

lemma lit_Nil [simp]: "lit [] = []"
  by (simp add: lit_def)

lemma lit_append: "lit (s @ t) = lit s @ lit t"
  by (simp add: lit_def)

lemma lit_Cons [py_eval]: "lit (c # s) = of_char c # lit s"
  by (simp add: lit_def)

lemma length_lit [simp]: "length (lit s) = length s"
  by (simp add: lit_def)

lemma inj_lit: "lit s = lit t \<longleftrightarrow> s = t"
  by (simp add: lit_def inj_map_eq_map inj_of_char)

section \<open>Character classes\<close>

definition ascii_digit :: "nat \<Rightarrow> bool" where
  "ascii_digit c \<longleftrightarrow> 48 \<le> c \<and> c \<le> 57"

definition ascii_upper :: "nat \<Rightarrow> bool" where
  "ascii_upper c \<longleftrightarrow> 65 \<le> c \<and> c \<le> 90"

definition ascii_lower :: "nat \<Rightarrow> bool" where
  "ascii_lower c \<longleftrightarrow> 97 \<le> c \<and> c \<le> 122"

definition ascii_alnum :: "nat \<Rightarrow> bool" where
  "ascii_alnum c \<longleftrightarrow> ascii_digit c \<or> ascii_upper c \<or> ascii_lower c"

definition hangul :: "nat \<Rightarrow> bool" where
  "hangul c \<longleftrightarrow> 44032 \<le> c \<and> c \<le> 55203"

definition is_space :: "nat \<Rightarrow> bool" where
  "is_space c \<longleftrightarrow>
     (if c < 128 then (9 \<le> c \<and> c \<le> 13) \<or> (28 \<le> c \<and> c \<le> 32) else in_ranges space_ranges c)"

definition is_digit_char :: "nat \<Rightarrow> bool" where
  "is_digit_char c \<longleftrightarrow> (if c < 128 then ascii_digit c else in_ranges digit_ranges c)"

definition is_decimal_char :: "nat \<Rightarrow> bool" where
  "is_decimal_char c \<longleftrightarrow> (if c < 128 then ascii_digit c else in_ranges decimal_ranges c)"

definition is_alpha_char :: "nat \<Rightarrow> bool" where
  "is_alpha_char c \<longleftrightarrow>
     (if c < 128 then ascii_upper c \<or> ascii_lower c else in_ranges alpha_ranges c)"

text \<open>The class \<open>\w\<close> of a str pattern.\<close>

definition is_word_char :: "nat \<Rightarrow> bool" where
  "is_word_char c \<longleftrightarrow> (if c < 128 then ascii_alnum c \<or> c = 95 else in_ranges word_ranges c)"

text \<open>The code points at which \<open>splitlines\<close> ends a line.\<close>

definition is_line_break :: "nat \<Rightarrow> bool" where
  "is_line_break c \<longleftrightarrow>
     (10 \<le> c \<and> c \<le> 13) \<or> (28 \<le> c \<and> c \<le> 30) \<or> c = 133 \<or> c = 8232 \<or> c = 8233"

lemmas char_classes [py_eval] = ascii_digit_def ascii_upper_def ascii_lower_def ascii_alnum_def
  hangul_def is_space_def is_digit_char_def is_decimal_char_def is_alpha_char_def is_word_char_def
  is_line_break_def

lemma space_32 [simp]: "is_space 32"
  by (simp add: is_space_def)

section \<open>Case mapping\<close>

definition lower_char :: "nat \<Rightarrow> ustr" where
  "lower_char c =
     (if c < 128 then [if ascii_upper c then c + 32 else c]
      else map_case lower_rows lower_expansions c)"

definition casefold_char :: "nat \<Rightarrow> ustr" where
  "casefold_char c =
     (if c < 128 then [if ascii_upper c then c + 32 else c]
      else map_case casefold_rows casefold_expansions c)"

definition lower :: "ustr \<Rightarrow> ustr" where
  "lower s = concat (map lower_char s)"

definition casefold :: "ustr \<Rightarrow> ustr" where
  "casefold s = concat (map casefold_char s)"

lemma lower_simps [simp]: "lower [] = []" "lower (c # s) = lower_char c @ lower s"
  "lower (s @ t) = lower s @ lower t"
  by (simp_all add: lower_def)

lemma casefold_simps [simp]: "casefold [] = []" "casefold (c # s) = casefold_char c @ casefold s"
  "casefold (s @ t) = casefold s @ casefold t"
  by (simp_all add: casefold_def)

lemmas case_chars [py_eval] = lower_char_def casefold_char_def

section \<open>Stripping, splitting and joining\<close>

definition lstrip_by :: "(nat \<Rightarrow> bool) \<Rightarrow> ustr \<Rightarrow> ustr" where
  "lstrip_by p s = dropWhile p s"

definition rstrip_by :: "(nat \<Rightarrow> bool) \<Rightarrow> ustr \<Rightarrow> ustr" where
  "rstrip_by p s = rev (dropWhile p (rev s))"

definition strip_by :: "(nat \<Rightarrow> bool) \<Rightarrow> ustr \<Rightarrow> ustr" where
  "strip_by p s = rstrip_by p (lstrip_by p s)"

definition strip :: "ustr \<Rightarrow> ustr" where
  "strip s = strip_by is_space s"

definition rstrip :: "ustr \<Rightarrow> ustr" where
  "rstrip s = rstrip_by is_space s"

text \<open>\<open>s.strip(chars)\<close>: strips every code point that occurs in \<open>chars\<close>.\<close>

definition strip_chars :: "ustr \<Rightarrow> ustr \<Rightarrow> ustr" where
  "strip_chars cs s = strip_by (\<lambda>c. c \<in> set cs) s"

text \<open>
  \<open>split_by p s\<close>: the maximal runs of code points outside \<open>p\<close>. With \<open>is_space\<close> this is
  \<open>s.split()\<close>.
\<close>

fun split_acc :: "(nat \<Rightarrow> bool) \<Rightarrow> ustr \<Rightarrow> ustr \<Rightarrow> ustr list" where
  "split_acc p acc [] = (if acc = [] then [] else [rev acc])"
| "split_acc p acc (c # s) =
     (if p c then (if acc = [] then split_acc p [] s else rev acc # split_acc p [] s)
      else split_acc p (c # acc) s)"

definition split_ws :: "ustr \<Rightarrow> ustr list" where
  "split_ws s = split_acc is_space [] s"

text \<open>\<open>s.split(sep)\<close> for a one-character separator: always at least one part.\<close>

fun split_char :: "nat \<Rightarrow> ustr \<Rightarrow> ustr list" where
  "split_char sep [] = [[]]"
| "split_char sep (c # s) =
     (if c = sep then [] # split_char sep s
      else (case split_char sep s of [] \<Rightarrow> [[c]] | p # ps \<Rightarrow> (c # p) # ps))"

fun join :: "ustr \<Rightarrow> ustr list \<Rightarrow> ustr" where
  "join sep [] = []"
| "join sep [w] = w"
| "join sep (w # v # ws) = w @ sep @ join sep (v # ws)"

text \<open>\<open>" ".join(s.split())\<close>, which the source writes as \<open>clean_text\<close> and inline.\<close>

definition collapse_ws :: "ustr \<Rightarrow> ustr" where
  "collapse_ws s = join [32] (split_ws s)"

text \<open>\<open>splitlines(keepends=True)\<close>; a carriage return and line feed end one line together.\<close>

fun splitlines_acc :: "ustr \<Rightarrow> ustr \<Rightarrow> ustr list" where
  "splitlines_acc acc [] = (if acc = [] then [] else [rev acc])"
| "splitlines_acc acc (c # s) =
     (if c = 13 \<and> take 1 s = [10] then splitlines_acc (c # acc) s
      else if is_line_break c then rev (c # acc) # splitlines_acc [] s
      else splitlines_acc (c # acc) s)"

definition splitlines_keep :: "ustr \<Rightarrow> ustr list" where
  "splitlines_keep s = splitlines_acc [] s"

definition splitlines :: "ustr \<Rightarrow> ustr list" where
  "splitlines s = map (rstrip_by is_line_break) (splitlines_keep s)"

section \<open>Searching and replacing\<close>

fun starts_with :: "ustr \<Rightarrow> ustr \<Rightarrow> bool" where
  "starts_with s [] = True"
| "starts_with [] (c # p) = False"
| "starts_with (d # s) (c # p) = (c = d \<and> starts_with s p)"

definition ends_with :: "ustr \<Rightarrow> ustr \<Rightarrow> bool" where
  "ends_with s p = starts_with (rev s) (rev p)"

fun find_sub :: "ustr \<Rightarrow> ustr \<Rightarrow> nat option" where
  "find_sub [] p = (if p = [] then Some 0 else None)"
| "find_sub (c # s) p =
     (if starts_with (c # s) p then Some 0 else map_option Suc (find_sub s p))"

text \<open>\<open>s.find(p, start)\<close>, with None for -1; a start beyond the end finds nothing.\<close>

definition find_from :: "ustr \<Rightarrow> ustr \<Rightarrow> nat \<Rightarrow> nat option" where
  "find_from s p start =
     (if start > length s then None else map_option (\<lambda>i. start + i) (find_sub (drop start s) p))"

definition contains :: "ustr \<Rightarrow> ustr \<Rightarrow> bool" where
  "contains s p \<longleftrightarrow> find_sub s p \<noteq> None"

text \<open>\<open>s.rfind(c)\<close> for one code point, with None for -1.\<close>

fun rfind_char :: "nat \<Rightarrow> ustr \<Rightarrow> nat option" where
  "rfind_char x [] = None"
| "rfind_char x (c # s) =
     (case rfind_char x s of Some i \<Rightarrow> Some (Suc i) | None \<Rightarrow> if c = x then Some 0 else None)"

text \<open>\<open>s.rsplit(c, maxsplit=1)[0]\<close> and \<open>[-1]\<close>.\<close>

definition rsplit_head :: "nat \<Rightarrow> ustr \<Rightarrow> ustr" where
  "rsplit_head x s = (case rfind_char x s of None \<Rightarrow> s | Some i \<Rightarrow> take i s)"

definition rsplit_last :: "nat \<Rightarrow> ustr \<Rightarrow> ustr" where
  "rsplit_last x s = (case rfind_char x s of None \<Rightarrow> s | Some i \<Rightarrow> drop (Suc i) s)"

definition remove_prefix :: "ustr \<Rightarrow> ustr \<Rightarrow> ustr" where
  "remove_prefix p s = (if starts_with s p then drop (length p) s else s)"

text \<open>\<open>s.replace(c, r)\<close> for one code point.\<close>

definition replace_char :: "nat \<Rightarrow> ustr \<Rightarrow> ustr \<Rightarrow> ustr" where
  "replace_char x r s = concat (map (\<lambda>c. if c = x then r else [c]) s)"

text \<open>\<open>re.sub("[^...]+", r, s)\<close>: every maximal run of code points with \<open>p\<close> becomes \<open>r\<close>.\<close>

fun sub_runs :: "(nat \<Rightarrow> bool) \<Rightarrow> ustr \<Rightarrow> bool \<Rightarrow> ustr \<Rightarrow> ustr" where
  "sub_runs p r in_run [] = []"
| "sub_runs p r in_run (c # s) =
     (if p c then (if in_run then [] else r) @ sub_runs p r True s else c # sub_runs p r False s)"

definition is_digits :: "ustr \<Rightarrow> bool" where
  "is_digits s \<longleftrightarrow> s \<noteq> [] \<and> list_all is_digit_char s"

definition is_alpha :: "ustr \<Rightarrow> bool" where
  "is_alpha s \<longleftrightarrow> s \<noteq> [] \<and> list_all is_alpha_char s"

section \<open>Numbers as text\<close>

fun nat_str :: "nat \<Rightarrow> ustr" where
  "nat_str n = (if n < 10 then [48 + n] else nat_str (n div 10) @ [48 + n mod 10])"

declare nat_str.simps [simp del]

definition int_str :: "int \<Rightarrow> ustr" where
  "int_str i = (if i < 0 then 45 # nat_str (nat (- i)) else nat_str (nat i))"

lemmas nat_str_loop [py_loop] = nat_str.simps

lemmas str_defs [py_eval] = lstrip_by_def rstrip_by_def strip_by_def strip_def rstrip_def
  strip_chars_def split_ws_def collapse_ws_def splitlines_keep_def splitlines_def ends_with_def
  find_from_def contains_def rsplit_head_def rsplit_last_def remove_prefix_def replace_char_def
  is_digits_def is_alpha_def int_str_def

end
