(* ===== verification/Models.thy ===== *)
theory Models
  imports PyStr
begin

text \<open>
  The data of the program: \<open>models.py\<close>, with the validators and the visibility rule
  \<open>approved_for_serving\<close>. Literal types are datatypes, pydantic models are records, and a dynamically
  typed value (YAML front matter, JSON metadata) is a \<open>pyval\<close>.
\<close>

section \<open>Dynamically typed values\<close>

datatype pyval =
    PNone
  | PBool bool
  | PInt int
  | PFloat real
  | PStr ustr
  | PList "pyval list"
  | PDict "(ustr \<times> pyval) list"

text \<open>A float where it may be none of the real numbers.\<close>

datatype float_value = Finite real | Pos_inf | Neg_inf | Not_a_number

text \<open>Python truthiness: what \<open>or\<close> and \<open>if\<close> test.\<close>

fun truthy :: "pyval \<Rightarrow> bool" where
  "truthy PNone = False"
| "truthy (PBool b) = b"
| "truthy (PInt i) = (i \<noteq> 0)"
| "truthy (PFloat x) = (x \<noteq> 0)"
| "truthy (PStr s) = (s \<noteq> [])"
| "truthy (PList xs) = (xs \<noteq> [])"
| "truthy (PDict kvs) = (kvs \<noteq> [])"

text \<open>\<open>d.get(k)\<close>: None for a missing key.\<close>

definition pget :: "(ustr, pyval) dict \<Rightarrow> string \<Rightarrow> pyval" where
  "pget d k = dict_get d (lit k) PNone"

definition por :: "pyval \<Rightarrow> pyval \<Rightarrow> pyval" where
  "por a b = (if truthy a then a else b)"

text \<open>
  \<open>str(v)\<close>. The texts of floats and containers are produced by the interpreter's \<open>repr\<close>, a
  parameter here; nothing below depends on what it returns.
\<close>

fun py_str :: "(pyval \<Rightarrow> ustr) \<Rightarrow> pyval \<Rightarrow> ustr" where
  "py_str repr PNone = lit ''None''"
| "py_str repr (PBool b) = (if b then lit ''True'' else lit ''False'')"
| "py_str repr (PInt i) = int_str i"
| "py_str repr (PStr s) = s"
| "py_str repr v = repr v"

section \<open>Literal types\<close>

datatype page_role = Role_hot | Role_index | Role_overview | Role_topic

datatype review_state = Approved | Reviewed | Verified | Draft | Proposed | Needs_review | Unknown

datatype okf_document_role = Okf_concept | Okf_index | Okf_log

datatype okf_trust_tier = Unverified | Machine_confirmed | Human_reviewed

datatype direction = Dir_out | Dir_in | Dir_both

datatype graph_operation = Op_neighbors | Op_backlinks | Op_paths | Op_by_source_ref | Op_by_tag

datatype search_mode = Lexical | Literal | Vector | Hybrid

datatype action_decision = Act_stop | Act_read | Act_search | Act_graph | Act_ask_clarification

datatype guidance_status = Gs_ok | Gs_skipped | Gs_failed | Gs_unconfigured

datatype orientation_source = Authored | Projection_extractive | No_orientation

datatype fallback_mode = Fb_literal | Fb_hybrid | Fb_vector

fun role_str :: "page_role \<Rightarrow> ustr" where
  "role_str Role_hot = lit ''hot''"
| "role_str Role_index = lit ''index''"
| "role_str Role_overview = lit ''overview''"
| "role_str Role_topic = lit ''topic''"

fun review_state_str :: "review_state \<Rightarrow> ustr" where
  "review_state_str Approved = lit ''approved''"
| "review_state_str Reviewed = lit ''reviewed''"
| "review_state_str Verified = lit ''verified''"
| "review_state_str Draft = lit ''draft''"
| "review_state_str Proposed = lit ''proposed''"
| "review_state_str Needs_review = lit ''needs_review''"
| "review_state_str Unknown = lit ''unknown''"

section \<open>Records\<close>

record okf_actor_event =
  event_by :: ustr
  event_at :: ustr

record okf_source =
  src_id :: ustr
  src_resource :: ustr
  src_title :: ustr
  src_author :: ustr
  src_usage_count :: "real option"
  src_last_modified :: ustr
  src_usage_window :: "(ustr, pyval) dict"
  src_extra :: "(ustr, pyval) dict"

record okf_metadata =
  okf_version :: ustr
  okf_role :: okf_document_role
  okf_concept_type :: ustr
  okf_description :: ustr
  okf_resource :: ustr
  okf_generated :: "okf_actor_event option"
  okf_verified :: "okf_actor_event list"
  okf_tier :: okf_trust_tier
  okf_status :: ustr
  okf_stale_after :: ustr
  okf_usage_window :: "(ustr, pyval) dict"
  okf_runtime :: ustr
  okf_parameters :: "(ustr, pyval) dict list"
  okf_computation :: ustr
  okf_executor :: "(ustr, pyval) dict"
  okf_attester :: "(ustr, pyval) dict"
  okf_sources :: "okf_source list"
  okf_extra :: "(ustr, pyval) dict"

record wiki_page =
  page_id :: ustr
  page_title :: ustr
  page_path :: ustr
  page_role :: page_role
  page_text :: ustr
  page_summary :: ustr
  page_frontmatter :: "(ustr, pyval) dict"
  page_review_state :: review_state
  page_status :: ustr
  page_source_refs :: "ustr list"
  page_tags :: "ustr list"
  page_links :: "ustr list"
  page_headings :: "ustr list"
  page_updated_at :: ustr
  page_okf :: "okf_metadata option"

record graph_node =
  node_id :: ustr
  node_label :: ustr
  node_kind :: ustr
  node_path :: ustr
  node_metadata :: "(ustr, pyval) dict"

record graph_edge =
  edge_source :: ustr
  edge_target :: ustr
  edge_relation :: ustr
  edge_metadata :: "(ustr, pyval) dict"

record provider_capabilities =
  cap_backend_kind :: ustr
  cap_persistent :: bool
  cap_local_only :: bool
  cap_snapshot_cache :: bool
  cap_structured_query :: bool
  cap_raw_query :: bool
  cap_vector_search :: bool
  cap_full_text_search :: bool
  cap_safe_for_default :: bool
  cap_limitations :: "ustr list"

record graph_query_path =
  path_node_ids :: "ustr list"
  path_edges :: "graph_edge list"

record graph_query_request =
  req_operation :: graph_operation
  req_start :: ustr
  req_target :: ustr
  req_source_ref :: ustr
  req_tag :: ustr
  req_direction :: direction
  req_relations :: "ustr list"
  req_max_depth :: nat
  req_limit :: nat

text \<open>The field bounds of \<open>GraphQueryRequest\<close>: \<open>max_depth\<close> in 0..8, \<open>limit\<close> in 1..500.\<close>

definition valid_request :: "graph_query_request \<Rightarrow> bool" where
  "valid_request r \<longleftrightarrow> req_max_depth r \<le> 8 \<and> 1 \<le> req_limit r \<and> req_limit r \<le> 500"

record graph_query_response =
  resp_provider :: provider_capabilities
  resp_operation :: graph_operation
  resp_nodes :: "graph_node list"
  resp_edges :: "graph_edge list"
  resp_paths :: "graph_query_path list"

record search_result =
  res_page_id :: ustr
  res_title :: ustr
  res_path :: ustr
  res_score :: real
  res_snippet :: ustr
  res_role :: page_role
  res_source_refs :: "ustr list"
  res_route :: ustr

record folder_card =
  folder_path :: ustr
  folder_page_count :: nat
  folder_card_terms :: "ustr list"

record page_card =
  card_page_id :: ustr
  card_title :: ustr
  card_path :: ustr
  card_headings :: "ustr list"
  card_terms :: "ustr list"
  card_exact_identifiers :: "ustr list"
  card_excerpt :: ustr

record retrieval_guidance =
  rg_orientation_source :: orientation_source
  rg_character_budget :: nat
  rg_folder_cards :: "folder_card list"
  rg_page_cards :: "page_card list"
  rg_suggested_terms :: "ustr list"
  rg_exact_identifiers :: "ustr list"
  rg_fallback_modes :: "fallback_mode list"

record retrieval_action_guidance =
  ag_status :: guidance_status
  ag_recommended_action :: "action_decision option"
  ag_confidence :: "real option"
  ag_evidence_sufficiency_score :: "real option"
  ag_read_page_ids :: "ustr list"
  ag_search_queries :: "ustr list"
  ag_graph_seeds :: "ustr list"
  ag_reasons :: "ustr list"
  ag_diagnostics :: "ustr list"

record wiki_index =
  idx_root_name :: ustr
  idx_title :: ustr
  idx_description :: ustr
  idx_adapter :: ustr
  idx_implementation :: ustr
  idx_metadata :: "(ustr, pyval) dict"
  idx_pages :: "wiki_page list"
  idx_nodes :: "graph_node list"
  idx_edges :: "graph_edge list"

text \<open>A page with every optional field at its default.\<close>

definition mk_page :: "ustr \<Rightarrow> ustr \<Rightarrow> ustr \<Rightarrow> page_role \<Rightarrow> ustr \<Rightarrow> wiki_page" where
  "mk_page i t p r body = \<lparr>page_id = i, page_title = t, page_path = p, page_role = r,
     page_text = body, page_summary = [], page_frontmatter = [], page_review_state = Unknown,
     page_status = [], page_source_refs = [], page_tags = [], page_links = [],
     page_headings = [], page_updated_at = [], page_okf = None\<rparr>"

definition mk_node :: "ustr \<Rightarrow> ustr \<Rightarrow> ustr \<Rightarrow> ustr \<Rightarrow> graph_node" where
  "mk_node i l k p =
     \<lparr>node_id = i, node_label = l, node_kind = k, node_path = p, node_metadata = []\<rparr>"

definition mk_edge :: "ustr \<Rightarrow> ustr \<Rightarrow> ustr \<Rightarrow> graph_edge" where
  "mk_edge s t r =
     \<lparr>edge_source = s, edge_target = t, edge_relation = r, edge_metadata = []\<rparr>"

lemma mk_page_simps [simp]:
  "page_id (mk_page i t p r b) = i" "page_title (mk_page i t p r b) = t"
  "page_path (mk_page i t p r b) = p" "page_role (mk_page i t p r b) = r"
  "page_text (mk_page i t p r b) = b" "page_summary (mk_page i t p r b) = []"
  "page_frontmatter (mk_page i t p r b) = []" "page_review_state (mk_page i t p r b) = Unknown"
  "page_status (mk_page i t p r b) = []" "page_source_refs (mk_page i t p r b) = []"
  "page_tags (mk_page i t p r b) = []" "page_links (mk_page i t p r b) = []"
  "page_headings (mk_page i t p r b) = []" "page_okf (mk_page i t p r b) = None"
  by (simp_all add: mk_page_def)

lemma mk_node_simps [simp]:
  "node_id (mk_node i l k p) = i" "node_label (mk_node i l k p) = l"
  "node_kind (mk_node i l k p) = k" "node_path (mk_node i l k p) = p"
  "node_metadata (mk_node i l k p) = []"
  by (simp_all add: mk_node_def)

lemma mk_edge_simps [simp]:
  "edge_source (mk_edge s t r) = s" "edge_target (mk_edge s t r) = t"
  "edge_relation (mk_edge s t r) = r" "edge_metadata (mk_edge s t r) = []"
  by (simp_all add: mk_edge_def)

end
