(* ===== verification/PyStr_Facts.thy ===== *)
theory PyStr_Facts
  imports PyStr
begin

text \<open>
  Facts about the string operations that the component proofs use: what stripping, splitting,
  joining and searching return, the round trips between splitting and joining, and length bounds.
\<close>

section \<open>Searching\<close>

lemma starts_with_iff: "starts_with s p \<longleftrightarrow> (\<exists>t. s = p @ t)"
  by (induction s p rule: starts_with.induct) auto

lemma starts_with_append [simp]: "starts_with (p @ t) p"
  by (auto simp: starts_with_iff)

lemma starts_with_length: "starts_with s p \<Longrightarrow> length p \<le> length s"
  by (auto simp: starts_with_iff)

lemma ends_with_iff: "ends_with s p \<longleftrightarrow> (\<exists>t. s = t @ p)"
proof -
  have "ends_with s p \<longleftrightarrow> (\<exists>t. rev s = rev p @ t)"
    by (simp add: ends_with_def starts_with_iff)
  also have "\<dots> \<longleftrightarrow> (\<exists>t. s = t @ p)"
    by (metis rev_append rev_rev_ident)
  finally show ?thesis .
qed

lemma find_sub_starts: "find_sub s p = Some i \<Longrightarrow> starts_with (drop i s) p \<and> i \<le> length s"
  by (induction s p arbitrary: i rule: find_sub.induct) (auto split: if_splits)

lemma find_sub_bound: "find_sub s p = Some i \<Longrightarrow> i + length p \<le> length s"
  using find_sub_starts [of s p i] starts_with_length [of "drop i s" p] by simp linarith

lemma find_sub_first: "find_sub s p = Some i \<Longrightarrow> j < i \<Longrightarrow> \<not> starts_with (drop j s) p"
proof (induction s p arbitrary: i j rule: find_sub.induct)
  case (1 p)
  then show ?case by (auto split: if_splits)
next
  case (2 c s p)
  then show ?case by (cases j) (auto split: if_splits)
qed

lemma find_sub_None: "find_sub s p = None \<longleftrightarrow> (\<forall>j. \<not> starts_with (drop j s) p)"
proof (induction s p rule: find_sub.induct)
  case (1 p)
  then show ?case by (cases p) auto
next
  case (2 c s p)
  have "(\<forall>j. \<not> starts_with (drop j (c # s)) p) \<longleftrightarrow>
      \<not> starts_with (c # s) p \<and> (\<forall>j. \<not> starts_with (drop j s) p)"
    by (metis drop0 drop_Suc_Cons not0_implies_Suc)
  then show ?case using 2 by auto
qed

lemma contains_iff: "contains s p \<longleftrightarrow> (\<exists>a b. s = a @ p @ b)"
proof
  assume "contains s p"
  then obtain i where "find_sub s p = Some i" by (auto simp: contains_def)
  then obtain t where "drop i s = p @ t" using find_sub_starts starts_with_iff by blast
  then have "s = take i s @ p @ t" by (metis append_take_drop_id)
  then show "\<exists>a b. s = a @ p @ b" by blast
next
  assume "\<exists>a b. s = a @ p @ b"
  then obtain a b where "s = a @ p @ b" by blast
  then have "drop (length a) s = p @ b" by simp
  then have "starts_with (drop (length a) s) p" by simp
  then show "contains s p" using find_sub_None [of s p] unfolding contains_def by blast
qed

lemma contains_char: "contains s [c] \<longleftrightarrow> c \<in> set s"
  by (auto simp: contains_iff in_set_conv_decomp)

lemma find_from_bound: "find_from s p i = Some j \<Longrightarrow> i \<le> j \<and> j + length p \<le> length s"
  by (auto simp: find_from_def split: if_splits dest: find_sub_bound)

section \<open>Stripping\<close>

lemma strip_by_decomp: "\<exists>a b. s = a @ strip_by p s @ b \<and> list_all p a \<and> list_all p b"
proof -
  let ?m = "dropWhile p s"
  have 1: "s = takeWhile p s @ ?m" by simp
  have 2: "?m = rev (dropWhile p (rev ?m)) @ rev (takeWhile p (rev ?m))"
    by (metis rev_append rev_rev_ident takeWhile_dropWhile_id)
  have "s = takeWhile p s @ strip_by p s @ rev (takeWhile p (rev ?m))"
    using 1 2 by (simp add: strip_by_def rstrip_by_def lstrip_by_def)
  moreover have "list_all p (takeWhile p s)" "list_all p (rev (takeWhile p (rev ?m)))"
    by (auto simp: list_all_iff dest: set_takeWhileD)
  ultimately show ?thesis by blast
qed

lemma length_strip_by: "length (strip_by p s) \<le> length s"
  using strip_by_decomp [of s p] by (metis length_append le_add1 le_add2 order_trans)

lemma set_strip_by: "set (strip_by p s) \<subseteq> set s"
  using strip_by_decomp [of s p] by (metis Un_upper1 Un_upper2 set_append subset_trans)

definition trimmed :: "(nat \<Rightarrow> bool) \<Rightarrow> ustr \<Rightarrow> bool" where
  "trimmed p s \<longleftrightarrow> (s \<noteq> [] \<longrightarrow> \<not> p (hd s) \<and> \<not> p (last s))"

lemma trimmed_strip_by: "trimmed p (strip_by p s)"
proof -
  let ?m = "dropWhile p s"
  have last: "\<not> p (last (strip_by p s))" if "strip_by p s \<noteq> []"
    using that hd_dropWhile [of p "rev ?m"]
    by (simp add: strip_by_def rstrip_by_def lstrip_by_def last_rev)
  have hd: "\<not> p (hd (strip_by p s))" if ne: "strip_by p s \<noteq> []"
  proof -
    have m: "?m = strip_by p s @ rev (takeWhile p (rev ?m))"
      unfolding strip_by_def rstrip_by_def lstrip_by_def
      by (metis rev_append rev_rev_ident takeWhile_dropWhile_id)
    with ne have "?m \<noteq> []" "hd ?m = hd (strip_by p s)"
      by (metis append_is_Nil_conv) (metis hd_append2 m ne)
    then show ?thesis using hd_dropWhile [of p s] by simp
  qed
  from hd last show ?thesis by (simp add: trimmed_def)
qed

lemma strip_by_trimmed: "trimmed p s \<Longrightarrow> strip_by p s = s"
proof (cases "s = []")
  case True
  then show ?thesis by (simp add: strip_by_def rstrip_by_def lstrip_by_def)
next
  case False
  assume t: "trimmed p s"
  with False have 1: "dropWhile p s = s" by (cases s) (auto simp: trimmed_def)
  from t False have "\<not> p (hd (rev s))" by (simp add: trimmed_def hd_rev)
  with False have "dropWhile p (rev s) = rev s" by (cases "rev s") auto
  with 1 show ?thesis by (simp add: strip_by_def rstrip_by_def lstrip_by_def)
qed

lemma strip_by_idem [simp]: "strip_by p (strip_by p s) = strip_by p s"
  by (simp add: strip_by_trimmed trimmed_strip_by)

lemma strip_strip [simp]: "strip (strip s) = strip s"
  by (simp add: strip_def)

lemma length_strip: "length (strip s) \<le> length s"
  by (simp add: strip_def length_strip_by)

lemma set_strip: "set (strip s) \<subseteq> set s"
  by (simp add: strip_def set_strip_by)

section \<open>Splitting at whitespace\<close>

definition words_of :: "(nat \<Rightarrow> bool) \<Rightarrow> ustr list \<Rightarrow> bool" where
  "words_of p ws \<longleftrightarrow> (\<forall>w\<in>set ws. w \<noteq> [] \<and> (\<forall>c\<in>set w. \<not> p c))"

lemma words_of_simps [simp]:
  "words_of p []"
  "words_of p (w # ws) \<longleftrightarrow> w \<noteq> [] \<and> (\<forall>c\<in>set w. \<not> p c) \<and> words_of p ws"
  by (auto simp: words_of_def)

lemma split_acc_words: "\<forall>c\<in>set acc. \<not> p c \<Longrightarrow> words_of p (split_acc p acc s)"
  by (induction p acc s rule: split_acc.induct) auto

lemma split_ws_words: "words_of is_space (split_ws s)"
  by (simp add: split_ws_def split_acc_words)

lemma split_acc_word:
  "\<forall>c\<in>set w. \<not> p c \<Longrightarrow> split_acc p acc (w @ s) = split_acc p (rev w @ acc) s"
  by (induction w arbitrary: acc) auto

lemma split_acc_join:
  assumes "words_of p ws" and "p c"
  shows "split_acc p [] (join [c] ws) = ws"
  using assms(1)
proof (induction "[c]" ws rule: join.induct)
  case 1
  then show ?case by simp
next
  case (2 w)
  then show ?case using split_acc_word [of w p "[]" "[]"] by simp
next
  case (3 w v ws)
  then show ?case
    using assms(2) split_acc_word [of w p "[]" "c # join [c] (v # ws)"] by simp
qed

lemma split_ws_join: "words_of is_space ws \<Longrightarrow> split_ws (join [32] ws) = ws"
  by (simp add: split_ws_def split_acc_join)

lemma collapse_ws_idem [simp]: "collapse_ws (collapse_ws s) = collapse_ws s"
  by (simp add: collapse_ws_def split_ws_join split_ws_words)

lemma split_acc_concat: "concat (split_acc p acc s) = rev acc @ filter (\<lambda>c. \<not> p c) s"
  by (induction p acc s rule: split_acc.induct) auto

lemma split_acc_length:
  "sum_list (map length (split_acc p acc s)) + length (split_acc p acc s) \<le>
     length acc + length s + 1"
  by (induction p acc s rule: split_acc.induct) auto

lemma length_join: "ws \<noteq> [] \<Longrightarrow>
    length (join sep ws) = sum_list (map length ws) + length sep * (length ws - 1)"
  by (induction sep ws rule: join.induct) auto

lemma length_collapse_ws: "length (collapse_ws s) \<le> length s"
proof (cases "split_ws s = []")
  case True
  then show ?thesis by (simp add: collapse_ws_def)
next
  case False
  then have "length (collapse_ws s) + 1 = sum_list (map length (split_ws s)) + length (split_ws s)"
    by (cases "split_ws s") (simp_all add: collapse_ws_def length_join)
  then show ?thesis
    using split_acc_length [of is_space "[]" s] by (simp add: split_ws_def)
qed

lemma set_join: "set (join sep ws) \<subseteq> set sep \<union> (\<Union>w\<in>set ws. set w)"
  by (induction sep ws rule: join.induct) auto

lemma join_eq_Nil: "words_of p ws \<Longrightarrow> join sep ws = [] \<longleftrightarrow> ws = []"
  by (induction sep ws rule: join.induct) auto

lemma collapse_ws_Nil_iff: "collapse_ws s = [] \<longleftrightarrow> (\<forall>c\<in>set s. is_space c)"
proof -
  have "collapse_ws s = [] \<longleftrightarrow> split_ws s = []"
    unfolding collapse_ws_def by (rule join_eq_Nil [OF split_ws_words])
  also have "\<dots> \<longleftrightarrow> concat (split_ws s) = []"
    using split_ws_words [of s] by (auto simp: words_of_def)
  also have "\<dots> \<longleftrightarrow> (\<forall>c\<in>set s. is_space c)"
    by (auto simp: split_ws_def split_acc_concat filter_empty_conv)
  finally show ?thesis .
qed

lemma hd_join: "ws \<noteq> [] \<Longrightarrow> hd ws \<noteq> [] \<Longrightarrow> hd (join sep ws) = hd (hd ws)"
  by (induction sep ws rule: join.induct) auto

lemma last_join: "words_of p ws \<Longrightarrow> ws \<noteq> [] \<Longrightarrow> last (join sep ws) = last (last ws)"
proof (induction sep ws rule: join.induct)
  case (3 sep w v ws)
  then have "join sep (v # ws) \<noteq> []" using join_eq_Nil [of p "v # ws" sep] by simp
  with 3 show ?case by simp
qed auto

lemma trimmed_collapse_ws: "trimmed is_space (collapse_ws s)"
proof (cases "split_ws s = []")
  case True
  then show ?thesis by (simp add: collapse_ws_def trimmed_def)
next
  case False
  let ?ws = "split_ws s"
  have w: "words_of is_space ?ws" by (rule split_ws_words)
  with False have "hd ?ws \<in> set ?ws" "last ?ws \<in> set ?ws" by auto
  with w have ne: "hd ?ws \<noteq> []" "last ?ws \<noteq> []"
    and ns: "\<forall>c\<in>set (hd ?ws). \<not> is_space c" "\<forall>c\<in>set (last ?ws). \<not> is_space c"
    by (auto simp: words_of_def)
  then have "\<not> is_space (hd (hd ?ws))" "\<not> is_space (last (last ?ws))" by auto
  then show ?thesis
    using False ne hd_join [of ?ws "[32]"] last_join [OF w False, of "[32]"]
    by (simp add: trimmed_def collapse_ws_def)
qed

lemma strip_collapse_ws [simp]: "strip (collapse_ws s) = collapse_ws s"
  by (simp add: strip_def strip_by_trimmed trimmed_collapse_ws)

section \<open>Splitting at a separator\<close>

lemma split_char_ne [simp]: "split_char c s \<noteq> []"
  by (induction s) (auto split: list.splits)

lemma join_split_char: "join [c] (split_char c s) = s"
proof (induction s)
  case Nil
  then show ?case by simp
next
  case (Cons d s)
  then show ?case
    by (cases "split_char c s"; cases "tl (split_char c s)") auto
qed

lemma split_char_parts: "q \<in> set (split_char c s) \<Longrightarrow> c \<notin> set q"
  by (induction s arbitrary: q) (auto split: list.splits if_splits)

lemma split_char_no_sep: "c \<notin> set s \<Longrightarrow> split_char c s = [s]"
  by (induction s) auto

lemma split_char_append:
  "c \<notin> set q \<Longrightarrow> split_char c (q @ c # s) = q # split_char c s"
  by (induction q) auto

lemma split_char_join:
  "ps \<noteq> [] \<Longrightarrow> \<forall>q\<in>set ps. c \<notin> set q \<Longrightarrow> split_char c (join [c] ps) = ps"
  by (induction "[c]" ps rule: join.induct) (auto simp: split_char_no_sep split_char_append)

lemma hd_split_char: "hd (split_char c s) = takeWhile (\<lambda>d. d \<noteq> c) s"
  by (induction s) (auto split: list.splits)

section \<open>The last separator\<close>

lemma rfind_char_None: "rfind_char x s = None \<longleftrightarrow> x \<notin> set s"
  by (induction s) (auto split: option.splits)

lemma rfind_char_Some:
  "rfind_char x s = Some i \<Longrightarrow> i < length s \<and> s ! i = x \<and> x \<notin> set (drop (Suc i) s)"
  by (induction s arbitrary: i)
    (auto split: option.splits if_splits simp: rfind_char_None)

lemma rfind_char_append: "x \<notin> set t \<Longrightarrow> rfind_char x (s @ x # t) = Some (length s)"
proof (induction s)
  case Nil
  then show ?case by (simp add: rfind_char_None [THEN iffD2])
next
  case (Cons c s)
  then show ?case by simp
qed

lemma rsplit_head_append: "x \<notin> set t \<Longrightarrow> rsplit_head x (s @ x # t) = s"
  by (simp add: rsplit_head_def rfind_char_append)

section \<open>Replacing\<close>

lemma replace_char_id: "x \<notin> set s \<Longrightarrow> replace_char x r s = s"
  by (induction s) (auto simp: replace_char_def)

lemma set_replace_char: "set (replace_char x r s) \<subseteq> set s - {x} \<union> set r"
  by (auto simp: replace_char_def split: if_splits)

lemma set_sub_runs: "set (sub_runs p r b s) \<subseteq> {c \<in> set s. \<not> p c} \<union> set r"
  by (induction p r b s rule: sub_runs.induct) auto

lemma sub_runs_id: "\<forall>c\<in>set s. \<not> p c \<Longrightarrow> sub_runs p r b s = s"
  by (induction s arbitrary: b) auto

section \<open>Caseless code points\<close>

text \<open>The tables leave a range of code points alone when no row meets it.\<close>

lemma map_row_outside:
  "list_all (\<lambda>(lo, hi, step, offset). hi < a \<or> b < lo) rows \<Longrightarrow> a \<le> c \<Longrightarrow> c \<le> b \<Longrightarrow>
   map_row rows c = c"
  by (induction rows c rule: map_row.induct) auto

lemma map_of_outside:
  fixes c :: nat
  shows
  "list_all (\<lambda>(k, cs). k < a \<or> b < k) es \<Longrightarrow> a \<le> c \<Longrightarrow> c \<le> b \<Longrightarrow>
   map_of es c = (None :: nat list option)"
  by (induction es) auto

lemma map_case_outside:
  "list_all (\<lambda>(lo, hi, step, offset). hi < a \<or> b < lo) rows \<Longrightarrow>
   list_all (\<lambda>(k, cs). k < a \<or> b < k) es \<Longrightarrow> a \<le> c \<Longrightarrow> c \<le> b \<Longrightarrow> map_case rows es c = [c]"
  by (simp add: map_case_def map_row_outside map_of_outside)

text \<open>Han ideographs and Hangul syllables, 12352 to 42559 and 44032 to 64255, have no case.\<close>

lemma lower_char_cjk: "12352 \<le> c \<Longrightarrow> c \<le> 42559 \<Longrightarrow> lower_char c = [c]"
  using map_case_outside [of 12352 42559 lower_rows lower_expansions c]
  by (simp add: lower_char_def lower_rows_def lower_expansions_def)

lemma lower_char_hangul: "44032 \<le> c \<Longrightarrow> c \<le> 64255 \<Longrightarrow> lower_char c = [c]"
  using map_case_outside [of 44032 64255 lower_rows lower_expansions c]
  by (simp add: lower_char_def lower_rows_def lower_expansions_def)

lemma casefold_char_cjk: "12352 \<le> c \<Longrightarrow> c \<le> 42559 \<Longrightarrow> casefold_char c = [c]"
  using map_case_outside [of 12352 42559 casefold_rows casefold_expansions c]
  by (simp add: casefold_char_def casefold_rows_def casefold_expansions_def)

lemma casefold_char_hangul: "44032 \<le> c \<Longrightarrow> c \<le> 64255 \<Longrightarrow> casefold_char c = [c]"
  using map_case_outside [of 44032 64255 casefold_rows casefold_expansions c]
  by (simp add: casefold_char_def casefold_rows_def casefold_expansions_def)

lemmas caseless = lower_char_cjk lower_char_hangul casefold_char_cjk casefold_char_hangul

section \<open>Decimal texts\<close>

lemma nat_str_ne [simp]: "nat_str n \<noteq> []"
  by (subst nat_str.simps) simp

lemma nat_str_inj: "nat_str m = nat_str n \<Longrightarrow> m = n"
proof (induction m arbitrary: n rule: less_induct)
  case (less m)
  show ?case
  proof (cases "m < 10 \<or> n < 10")
    case True
    then show ?thesis
      using less.prems nat_str_ne [symmetric]
      by (auto simp: nat_str.simps [of m] nat_str.simps [of n] split: if_splits)
  next
    case False
    then have eq: "nat_str (m div 10) @ [48 + m mod 10] = nat_str (n div 10) @ [48 + n mod 10]"
      using less.prems by (simp add: nat_str.simps [of m] nat_str.simps [of n])
    then have "m div 10 = n div 10" using False by (intro less.IH) auto
    with eq show ?thesis by (metis add_left_cancel append1_eq_conv div_mult_mod_eq)
  qed
qed

lemma nat_str_digits: "c \<in> set (nat_str n) \<Longrightarrow> 48 \<le> c \<and> c \<le> 57"
proof (induction n rule: less_induct)
  case (less n)
  show ?case
  proof (cases "n < 10")
    case True
    then show ?thesis using less.prems by (simp add: nat_str.simps [of n])
  next
    case False
    then have "nat_str n = nat_str (n div 10) @ [48 + n mod 10]" by (simp add: nat_str.simps [of n])
    moreover have "n mod 10 < 10" by simp
    ultimately show ?thesis using less.IH [of "n div 10"] less.prems False by auto
  qed
qed

end
