(* ===== verification/Parser.thy ===== *)
theory Parser
  imports Models PyStr_Facts
begin

text \<open>
  \<open>parser.py\<close>: one Markdown or Org file to a \<open>WikiPage\<close>. Each regular expression of the module is a
  scanner over code points that returns what \<open>re\<close> returns, with the points where \<open>re\<close> surprises
  kept: \<open>\s\<close> crosses line ends, so a heading marker alone on its line takes its text from the next
  line that has any. YAML is third-party code, a parameter \<open>yaml\<close> from the block to the parsed
  value, None for a \<open>YAMLError\<close>; \<open>repr\<close> is the parameter of \<open>py_str\<close>.
\<close>

section \<open>Text helpers\<close>

definition clean_text :: "ustr \<Rightarrow> ustr" where
  "clean_text value = collapse_ws value"

definition strip_md_suffix :: "ustr \<Rightarrow> ustr" where
  "strip_md_suffix v =
     (if ends_with v (lit ''.md'') \<or> ends_with v (lit ''.org'') then rsplit_head 46 v else v)"

definition clean_id :: "ustr \<Rightarrow> ustr" where
  "clean_id value = strip_md_suffix (replace_char 92 [47] (strip value))"

definition key_char :: "nat \<Rightarrow> bool" where
  "key_char c \<longleftrightarrow> ascii_lower c \<or> ascii_digit c \<or> hangul c"

definition slug_char :: "nat \<Rightarrow> bool" where
  "slug_char c \<longleftrightarrow> ascii_alnum c \<or> hangul c \<or> c = 46 \<or> c = 95 \<or> c = 45"

definition parser_normalize_key :: "ustr \<Rightarrow> ustr" where
  "parser_normalize_key value = filter key_char (lower value)"

definition slug :: "ustr \<Rightarrow> ustr" where
  "slug value =
     (let slugged = strip_chars [45] (sub_runs (\<lambda>c. \<not> slug_char c) [45] False (strip value))
      in if slugged = [] then lit ''item'' else slugged)"

text \<open>\<open>unique\<close> compares case-insensitively and drops the empty string.\<close>

definition unique :: "ustr list \<Rightarrow> ustr list" where
  "unique values = dedupe_on lower {[]} values"

definition string_list :: "(pyval \<Rightarrow> ustr) \<Rightarrow> pyval \<Rightarrow> ustr list" where
  "string_list repr value =
     (case value of
        PStr s \<Rightarrow> unique (filter (\<lambda>t. t \<noteq> []) [clean_text s])
      | PList vs \<Rightarrow> unique (filter (\<lambda>t. t \<noteq> []) (map (\<lambda>v. clean_text (py_str repr v)) vs))
      | _ \<Rightarrow> [])"

section \<open>Front matter\<close>

definition split_frontmatter ::
  "(ustr \<Rightarrow> pyval option) \<Rightarrow> ustr \<Rightarrow> (ustr, pyval) dict \<times> ustr" where
  "split_frontmatter yaml raw =
     (if \<not> starts_with raw (lit ''---'' @ [10]) then ([], raw)
      else (case find_from raw (10 # lit ''---'') 4 of
          None \<Rightarrow> ([], raw)
        | Some end \<Rightarrow>
            (let block = drop 4 (take end raw); body = drop (end + 4) raw
             in (case yaml block of
                   None \<Rightarrow> ([], raw)
                 | Some (PDict data) \<Rightarrow> (data, body)
                 | Some _ \<Rightarrow> ([], body)))))"

definition normalize_review_state :: "(pyval \<Rightarrow> ustr) \<Rightarrow> (ustr, pyval) dict \<Rightarrow> review_state" where
  "normalize_review_state repr fm =
     (let v = por (por (pget fm ''review_state'') (pget fm ''state'')) (PStr []);
          value = lower (clean_text (py_str repr v))
      in if value = lit ''approved'' then Approved
         else if value = lit ''reviewed'' then Reviewed
         else if value = lit ''verified'' then Verified
         else if value = lit ''draft'' then Draft
         else if value = lit ''proposed'' then Proposed
         else if value = lit ''needs_review'' then Needs_review
         else Unknown)"

section \<open>Headings\<close>

definition line_of :: "ustr \<Rightarrow> ustr" where
  "line_of s = takeWhile (\<lambda>c. c \<noteq> 10) s"

definition next_line :: "ustr \<Rightarrow> ustr" where
  "next_line s = drop 1 (dropWhile (\<lambda>c. c \<noteq> 10) s)"

lemma length_next_line: "s \<noteq> [] \<Longrightarrow> length (next_line s) < length s"
  using length_dropWhile_le [of "\<lambda>c. c \<noteq> 10" s] by (cases s) (auto simp: next_line_def)

text \<open>
  \<open>HEADING_RE\<close> at the start of a line: one to six number signs, whitespace (over line ends), and
  the rest of the line reached, without trailing whitespace. When only whitespace is left to the
  end of the text, the text group is the last character of it that is no line feed, provided
  one remains for the mandatory whitespace before it. Returns the group and what follows the match.
\<close>

definition heading_match :: "ustr \<Rightarrow> (ustr \<times> ustr) option" where
  "heading_match s =
     (let h = length (takeWhile (\<lambda>c. c = 35) s);
          rest = drop h s;
          ws = takeWhile is_space rest;
          text = dropWhile is_space rest
      in if h < 1 \<or> 6 < h \<or> ws = [] then None
         else if text \<noteq> [] then Some (rstrip (line_of text), next_line text)
         else (case filter (\<lambda>c. c \<noteq> 10) (tl ws) of
                 [] \<Rightarrow> None
               | cs \<Rightarrow> Some ([last cs], [])))"

lemma heading_match_shorter:
  assumes "heading_match s = Some (g, rest)"
  shows "length rest < length s"
proof -
  define t where "t = dropWhile is_space (drop (length (takeWhile (\<lambda>c. c = 35) s)) s)"
  have ne: "s \<noteq> []" using assms by (auto simp: heading_match_def Let_def)
  have le: "length t \<le> length s"
    using length_dropWhile_le [of is_space "drop (length (takeWhile (\<lambda>c. c = 35) s)) s"]
    by (simp add: t_def)
  have "rest = next_line t \<and> t \<noteq> [] \<or> rest = []"
    using assms unfolding heading_match_def Let_def t_def [symmetric]
    by (auto split: if_splits list.splits)
  then show ?thesis
  proof
    assume "rest = next_line t \<and> t \<noteq> []"
    with le show ?thesis using length_next_line [of t] by simp
  qed (use ne in simp)
qed

function heading_groups :: "ustr \<Rightarrow> ustr list" where
  "heading_groups s =
     (if s = [] then []
      else (case heading_match s of
              Some (g, rest) \<Rightarrow> g # heading_groups rest
            | None \<Rightarrow> heading_groups (next_line s)))"
  by pat_completeness auto
termination
  by (relation "measure length") (auto simp: length_next_line dest: heading_match_shorter)

declare heading_groups.simps [simp del]

definition headings_of :: "ustr \<Rightarrow> ustr list" where
  "headings_of body = map clean_text (heading_groups body)"

definition first_heading :: "ustr \<Rightarrow> ustr" where
  "first_heading text = (case heading_groups text of [] \<Rightarrow> [] | g # _ \<Rightarrow> clean_text g)"

text \<open>\<open>re.sub(r"^#{1,6}\s+", "", text)\<close>, with a flag for the start of a line.\<close>

function drop_heading_marks :: "bool \<Rightarrow> ustr \<Rightarrow> ustr" where
  "drop_heading_marks bol s =
     (if s = [] then []
      else (let h = length (takeWhile (\<lambda>c. c = 35) s);
                ws = takeWhile is_space (drop h s)
            in if bol \<and> 1 \<le> h \<and> h \<le> 6 \<and> ws \<noteq> []
               then drop_heading_marks (last ws = 10) (drop (h + length ws) s)
               else hd s # drop_heading_marks (hd s = 10) (tl s)))"
  by pat_completeness auto
termination
  by (relation "measure (\<lambda>(b, s). length s)") (auto simp: Let_def)

declare drop_heading_marks.simps [simp del]

definition clip_ellipsis :: "nat \<Rightarrow> ustr \<Rightarrow> ustr" where
  "clip_ellipsis limit cleaned =
     (if length cleaned \<le> limit then cleaned else rstrip (take (limit - 1) cleaned) @ lit ''...'')"

definition summary_text :: "ustr \<Rightarrow> ustr" where
  "summary_text text = clip_ellipsis 360 (clean_text (drop_heading_marks True text))"

section \<open>Links\<close>

text \<open>\<open>WIKILINK_RE.findall\<close>.\<close>

function wikilink_groups :: "ustr \<Rightarrow> ustr list" where
  "wikilink_groups s =
     (if s = [] then []
      else (let rest = drop 2 s; g = takeWhile (\<lambda>c. c \<noteq> 93) rest; after = drop (length g) rest
            in if starts_with s [91, 91] \<and> g \<noteq> [] \<and> starts_with after [93, 93]
               then g # wikilink_groups (drop 2 after)
               else wikilink_groups (tl s)))"
  by pat_completeness auto
termination
  by (relation "measure length") (auto simp: Let_def)

declare wikilink_groups.simps [simp del]

text \<open>
  The target group of \<open>MD_LINK_RE\<close> inside the parentheses: the shortest prefix that ends in
  \<open>.md\<close> or \<open>.org\<close> after at least one character and is followed by nothing or by a fragment.
\<close>

definition md_target_ok :: "ustr \<Rightarrow> nat \<Rightarrow> bool" where
  "md_target_ok t e \<longleftrightarrow>
     (let u = take e t; v = drop e t
      in (ends_with u (lit ''.md'') \<and> 4 \<le> e \<or> ends_with u (lit ''.org'') \<and> 5 \<le> e) \<and>
         (v = [] \<or> hd v = 35 \<and> 2 \<le> length v))"

definition md_target :: "ustr \<Rightarrow> ustr option" where
  "md_target t =
     map_option (\<lambda>e. take e t) (List.find (md_target_ok t) [1..<Suc (length t)])"

function md_link_groups :: "ustr \<Rightarrow> ustr list" where
  "md_link_groups s =
     (if s = [] then []
      else (let g = takeWhile (\<lambda>c. c \<noteq> 93) (tl s);
                inner = drop (length g + 2) (tl s);
                t = takeWhile (\<lambda>c. c \<noteq> 41) inner;
                after = drop (length t) inner
            in if hd s = 91 \<and> g \<noteq> [] \<and> starts_with (drop (length g) (tl s)) [93, 40] \<and>
                  after \<noteq> [] \<and> md_target t \<noteq> None
               then the (md_target t) # md_link_groups (tl after)
               else md_link_groups (tl s)))"
  by pat_completeness auto
termination
  by (relation "measure length") (auto simp: Let_def)

declare md_link_groups.simps [simp del]

definition markdown_link_target :: "ustr \<Rightarrow> ustr" where
  "markdown_link_target value =
     remove_prefix (lit ''./'')
       (strip_md_suffix (replace_char 92 [47] (strip (hd (split_char 35 value)))))"

datatype wikilink_alias = Target_first | Target_last

definition wikilink_target :: "wikilink_alias \<Rightarrow> ustr \<Rightarrow> ustr" where
  "wikilink_target alias value =
     (let first = takeWhile (\<lambda>c. c \<noteq> 124) value; others = dropWhile (\<lambda>c. c \<noteq> 124) value
      in markdown_link_target (if alias = Target_last \<and> others \<noteq> [] then tl others else first))"

definition extract_links :: "wikilink_alias \<Rightarrow> ustr \<Rightarrow> ustr list" where
  "extract_links alias text =
     (let values = map (wikilink_target alias) (wikilink_groups text) @
                   map markdown_link_target (md_link_groups text)
      in unique (filter (\<lambda>v. v \<noteq> []) values))"

section \<open>Tags\<close>

definition tag_start :: "nat \<Rightarrow> bool" where
  "tag_start c \<longleftrightarrow> ascii_alnum c \<or> hangul c"

definition tag_char :: "nat \<Rightarrow> bool" where
  "tag_char c \<longleftrightarrow> tag_start c \<or> c = 95 \<or> c = 46 \<or> c = 47 \<or> c = 45"

text \<open>
  \<open>INLINE_TAG_RE.finditer\<close>; the first argument says whether the character before is a word
  character or a slash (the lookbehind).
\<close>

function inline_tag_groups :: "bool \<Rightarrow> ustr \<Rightarrow> ustr list" where
  "inline_tag_groups joined s =
     (if s = [] then []
      else (let g = takeWhile tag_char (tl s)
            in if hd s = 35 \<and> \<not> joined \<and> g \<noteq> [] \<and> tag_start (hd g)
               then g # inline_tag_groups (is_word_char (last g) \<or> last g = 47)
                          (drop (length g) (tl s))
               else inline_tag_groups (is_word_char (hd s) \<or> hd s = 47) (tl s)))"
  by pat_completeness auto
termination
  by (relation "measure (\<lambda>(b, s). length s)") (auto simp: Let_def)

declare inline_tag_groups.simps [simp del]

definition valid_inline_tag :: "ustr \<Rightarrow> bool" where
  "valid_inline_tag value = list_ex is_alpha_char value"

text \<open>
  \<open>tags::\<close> under \<open>re.IGNORECASE\<close>, which also lets the long s (code point 383) stand for an s.
\<close>

definition tags_keyword :: "ustr \<Rightarrow> bool" where
  "tags_keyword s \<longleftrightarrow>
     length s \<ge> 6 \<and> s ! 0 \<in> {84, 116} \<and> s ! 1 \<in> {65, 97} \<and> s ! 2 \<in> {71, 103} \<and>
     s ! 3 \<in> {83, 115, 383} \<and> s ! 4 = 58 \<and> s ! 5 = 58"

text \<open>
  \<open>LOGSEQ_TAGS_RE.finditer\<close>, from a line start: whitespace may cross lines before the keyword and
  before the value. When only whitespace is left after the keyword, the group is whitespace and
  yields no tag, so the model stops there.
\<close>

function logseq_tag_groups :: "ustr \<Rightarrow> ustr list" where
  "logseq_tag_groups s =
     (if s = [] then []
      else (let t = dropWhile is_space s; v = dropWhile is_space (drop 6 t)
            in if tags_keyword t
               then (if v = [] then [] else rstrip (line_of v) # logseq_tag_groups (next_line v))
               else logseq_tag_groups (next_line s)))"
  by pat_completeness auto
termination
proof (relation "measure length", simp_all add: Let_def length_next_line, goal_cases)
  case (1 s)
  let ?v = "dropWhile is_space (drop 6 (dropWhile is_space s))"
  have "length ?v \<le> length s"
    using length_dropWhile_le [of is_space "drop 6 (dropWhile is_space s)"]
      length_dropWhile_le [of is_space s] by simp
  with 1 length_next_line [of ?v] show ?case by simp
qed

declare logseq_tag_groups.simps [simp del]

definition extract_inline_tags :: "ustr \<Rightarrow> ustr list" where
  "extract_inline_tags text =
     (let inline = filter valid_inline_tag
                     (map (strip_chars (lit ''.,;:!?'')) (inline_tag_groups False text));
          logseq = concat (map (\<lambda>g. map (strip_chars [35]) (split_ws (replace_char 44 [32] g)))
                     (logseq_tag_groups text))
      in unique (filter (\<lambda>t. t \<noteq> [])
           (map (\<lambda>tag. clean_text (strip_chars [35] tag)) (inline @ logseq))))"

section \<open>Paths and roles\<close>

text \<open>A path is the list of its parts; \<open>PurePath.stem\<close> and \<open>name\<close> of its last part.\<close>

definition path_stem :: "ustr \<Rightarrow> ustr" where
  "path_stem name =
     (case rfind_char 46 name of
        Some i \<Rightarrow> if 0 < i \<and> i < length name - 1 then take i name else name
      | None \<Rightarrow> name)"

definition hub_role :: "ustr \<Rightarrow> page_role option" where
  "hub_role name =
     (let n = lower name
      in if n = lit ''hot.md'' then Some Role_hot
         else if n \<in> {lit ''index.md'', lit ''quickstart.md''} then Some Role_index
         else if n = lit ''overview.md'' then Some Role_overview
         else None)"

definition page_role_of :: "ustr list \<Rightarrow> ustr list \<Rightarrow> ustr list list \<Rightarrow> page_role" where
  "page_role_of root_parts path hub_roots =
     (case hub_role (last path) of
        None \<Rightarrow> Role_topic
      | Some role \<Rightarrow>
          if length (drop (length root_parts) path) = 1 then role
          else if list_ex (\<lambda>hub. take (length hub) path = hub \<and> length path = length hub + 1)
                    hub_roots
            then role
          else Role_topic)"

fun replace_triple_underscore :: "ustr \<Rightarrow> ustr" where
  "replace_triple_underscore (a # b # c # s) =
     (if a = 95 \<and> b = 95 \<and> c = 95 then 47 # replace_triple_underscore s
      else a # replace_triple_underscore (b # c # s))"
| "replace_triple_underscore s = s"

definition title_from_path :: "bool \<Rightarrow> ustr \<Rightarrow> ustr" where
  "title_from_path decode name =
     (let stem = path_stem name
      in replace_char 45 [32] (if decode then replace_triple_underscore stem else stem))"

section \<open>Pages\<close>

text \<open>
  \<open>parse_page\<close> on the text read from the file: \<open>root_parts\<close> and \<open>path\<close> as part lists, the
  file below the root.
\<close>

definition parse_page ::
  "(ustr \<Rightarrow> pyval option) \<Rightarrow> (pyval \<Rightarrow> ustr) \<Rightarrow> wikilink_alias \<Rightarrow> bool \<Rightarrow> ustr list list \<Rightarrow>
   ustr list \<Rightarrow> ustr list \<Rightarrow> ustr \<Rightarrow> wiki_page" where
  "parse_page yaml repr alias decode hub_roots root_parts path raw =
     (let (fm, body) = split_frontmatter yaml raw;
          rel = join [47] (drop (length root_parts) path);
          title_value = pget fm ''title'';
          title = clean_text
            (if truthy title_value then py_str repr title_value
             else if first_heading body \<noteq> [] then first_heading body
             else title_from_path decode (last path));
          id_value = por (pget fm ''id'') (pget fm ''object_id'')
      in \<lparr>page_id = clean_id (if truthy id_value then py_str repr id_value else rel),
          page_title = title,
          page_path = rel,
          page_role = page_role_of root_parts path hub_roots,
          page_text = strip body,
          page_summary = summary_text body,
          page_frontmatter = fm,
          page_review_state = normalize_review_state repr fm,
          page_status = clean_text (py_str repr (por (pget fm ''status'') (PStr []))),
          page_source_refs = string_list repr (por (pget fm ''source_refs'') (pget fm ''sources'')),
          page_tags = unique (string_list repr (pget fm ''tags'') @ extract_inline_tags body),
          page_links = extract_links alias body,
          page_headings = take 40 (headings_of body),
          page_updated_at = clean_text
            (py_str repr (por (por (pget fm ''updated_at'') (pget fm ''last_updated'')) (PStr []))),
          page_okf = None\<rparr>)"

definition include_page :: "ustr list \<Rightarrow> bool" where
  "include_page parts =
     (set parts \<inter> set (map lit [''.git'', ''node_modules'', ''.venv'', ''__pycache__'']) = {})"

definition wiki_metadata :: "(pyval \<Rightarrow> ustr) \<Rightarrow> ustr \<Rightarrow> wiki_page list \<Rightarrow> ustr \<times> ustr" where
  "wiki_metadata repr root_name pages =
     (let index = (case List.find (\<lambda>p. page_role p = Role_index) pages of
                     Some p \<Rightarrow> Some p
                   | None \<Rightarrow> List.find (\<lambda>p. page_role p = Role_overview) pages);
          fm = (case index of Some p \<Rightarrow> page_frontmatter p | None \<Rightarrow> []);
          fallback = (case index of Some p \<Rightarrow> page_title p | None \<Rightarrow> root_name);
          wt = pget fm ''wiki_title''
      in (if truthy wt then py_str repr wt else fallback,
          py_str repr (por (pget fm ''description'') (PStr []))))"

text \<open>\<open>parser.page_lookup\<close>: later pages win.\<close>

definition parser_page_lookup :: "wiki_page list \<Rightarrow> (ustr, wiki_page) dict" where
  "parser_page_lookup pages =
     dict_of (concat (map (\<lambda>p. map (\<lambda>key. (parser_normalize_key key, p))
       [page_id p, page_title p, path_stem (rsplit_last 47 (page_path p)), page_path p]) pages))"

definition parser_dedupe_nodes :: "graph_node list \<Rightarrow> graph_node list" where
  "parser_dedupe_nodes nodes = dedupe_on node_id {} nodes"

definition edge_key :: "graph_edge \<Rightarrow> ustr \<times> ustr \<times> ustr" where
  "edge_key e = (edge_source e, edge_target e, edge_relation e)"

definition parser_dedupe_edges :: "graph_edge list \<Rightarrow> graph_edge list" where
  "parser_dedupe_edges edges = dedupe_on edge_key {} edges"

lemmas parser_defs [py_eval] = clean_text_def strip_md_suffix_def clean_id_def key_char_def
  slug_char_def parser_normalize_key_def slug_def unique_def string_list_def split_frontmatter_def
  line_of_def next_line_def heading_match_def headings_of_def first_heading_def clip_ellipsis_def
  summary_text_def md_target_ok_def md_target_def markdown_link_target_def wikilink_target_def
  extract_links_def tag_start_def tag_char_def valid_inline_tag_def tags_keyword_def
  extract_inline_tags_def path_stem_def hub_role_def page_role_of_def title_from_path_def

lemmas parser_loops [py_loop] = heading_groups.simps drop_heading_marks.simps
  wikilink_groups.simps md_link_groups.simps inline_tag_groups.simps logseq_tag_groups.simps

end
