(* ===== verification/Projection.thy ===== *)
theory Projection
  imports Parser
begin

text \<open>
  \<open>projection.py\<close>: the loaded pages and sidecar facts to the normalised graph of a \<open>WikiIndex\<close>. The
  loops append to a node list and an edge list, which the model passes as a pair. The JSON dump of
  OKF metadata is pydantic's, a parameter of the two definitions that store it.
\<close>

section \<open>Loaded wikis\<close>

record sidecar_fact =
  fact_data :: "(ustr, pyval) dict"
  fact_path :: ustr
  fact_source :: ustr
  fact_confidence :: "pyval option"

record loaded_wiki =
  lw_root_name :: ustr
  lw_pages :: "wiki_page list"
  lw_title :: ustr
  lw_description :: ustr
  lw_adapter :: ustr
  lw_implementation :: ustr
  lw_metadata :: "(ustr, pyval) dict"
  lw_sidecar :: "sidecar_fact list"

section \<open>Python equality and metadata merging\<close>

fun py_number :: "pyval \<Rightarrow> real option" where
  "py_number (PBool b) = Some (if b then 1 else 0)"
| "py_number (PInt i) = Some (of_int i)"
| "py_number (PFloat x) = Some x"
| "py_number _ = None"

text \<open>
  \<open>==\<close> on dynamic values: numbers and truth values compare by their number, lists element by
  element, dicts regardless of order.
\<close>

function py_eq :: "pyval \<Rightarrow> pyval \<Rightarrow> bool" where
  "py_eq v w =
     (case (v, w) of
        (PNone, PNone) \<Rightarrow> True
      | (PStr s, PStr t) \<Rightarrow> s = t
      | (PList xs, PList ys) \<Rightarrow>
          length xs = length ys \<and> list_all (\<lambda>(x, y). py_eq x y) (zip xs ys)
      | (PDict a, PDict b) \<Rightarrow>
          length a = length b \<and>
          list_all (\<lambda>(k, x). case map_of b k of None \<Rightarrow> False | Some y \<Rightarrow> py_eq x y) a
      | _ \<Rightarrow> py_number v \<noteq> None \<and> py_number v = py_number w)"
  by pat_completeness auto
termination
proof (relation "measure (\<lambda>(v, w). size v)", goal_cases)
  case 1
  then show ?case by simp
next
  case (2 v w x y xs ys z x' y')
  then show ?case
    by (auto dest!: set_zip_leftD simp: less_Suc_eq_le intro: size_list_estimation')
next
  case (3 v w x y a b z k x' y')
  then have "size x' \<le> size_list (size_prod (\<lambda>x. 0) size) a"
    by (intro size_list_estimation' [of "(k, x')"]) auto
  with 3 show ?case by auto
qed

declare py_eq.simps [simp del]

definition merge_metadata_value :: "pyval \<Rightarrow> pyval \<Rightarrow> pyval" where
  "merge_metadata_value existing incoming =
     (let values = (case existing of PList xs \<Rightarrow> xs | v \<Rightarrow> [v])
      in PList (if list_ex (\<lambda>v. py_eq v incoming) values then values else values @ [incoming]))"

definition merge_step :: "(ustr, pyval) dict \<Rightarrow> ustr \<times> pyval \<Rightarrow> (ustr, pyval) dict" where
  "merge_step merged kv =
     (let (key, value) = kv
      in (case map_of merged key of
            None \<Rightarrow> AList.update key value merged
          | Some old \<Rightarrow>
              if old = PNone \<or> old = PStr [] then AList.update key value merged
              else if \<not> py_eq old value
                then AList.update key (merge_metadata_value old value) merged
              else merged))"

definition merge_metadata ::
  "(ustr, pyval) dict \<Rightarrow> (ustr, pyval) dict \<Rightarrow> (ustr, pyval) dict" where
  "merge_metadata existing incoming = foldl merge_step existing incoming"

section \<open>Keys and identifiers\<close>

definition normalize_key :: "ustr \<Rightarrow> ustr" where
  "normalize_key value =
     (let stem = (if ends_with value (lit ''.md'') then take (length value - 3) value else value)
      in filter key_char (lower stem))"

definition canonical_relation :: "ustr \<Rightarrow> ustr" where
  "canonical_relation value =
     (let relation = strip_chars [95]
            (sub_runs (\<lambda>c. \<not> (ascii_lower c \<or> ascii_digit c)) [95] False (lower value))
      in if relation = [] then lit ''related_to'' else relation)"

text \<open>The issue pattern, with \<open>$\<close> accepting one line feed at the end.\<close>

definition issue_key :: "ustr \<Rightarrow> bool" where
  "issue_key value =
     (let v = (if value \<noteq> [] \<and> last value = 10 then butlast value else value);
          number = (\<lambda>d. d \<noteq> [] \<and> list_all is_decimal_char d);
          a = takeWhile (\<lambda>c. ascii_upper c \<or> ascii_digit c) v;
          after = drop (length a) v
      in (v \<noteq> [] \<and> hd v = 35 \<and> number (tl v)) \<or>
         (2 \<le> length a \<and> ascii_upper (hd a) \<and> after \<noteq> [] \<and> hd after = 45 \<and> number (tl after)))"

definition external_node_kind :: "ustr \<Rightarrow> ustr" where
  "external_node_kind value =
     (if starts_with value (lit ''http://'') \<or> starts_with value (lit ''https://'')
        then lit ''external_ref''
      else if issue_key value then lit ''external_issue''
      else lit ''placeholder'')"

definition unresolved_node_id :: "ustr \<Rightarrow> ustr" where
  "unresolved_node_id value =
     (if starts_with (external_node_kind value) (lit ''external'') then lit ''external:''
      else lit ''placeholder:'') @ slug value"

definition page_node_id :: "wiki_page \<Rightarrow> ustr" where
  "page_node_id p = lit ''page:'' @ page_id p"

definition source_root_of :: "(ustr, pyval) dict \<Rightarrow> ustr" where
  "source_root_of md = (case map_of md (lit ''source_root'') of Some (PStr s) \<Rightarrow> s | _ \<Rightarrow> lit ''.'')"

definition page_keys :: "ustr \<Rightarrow> wiki_page \<Rightarrow> ustr list" where
  "page_keys source_root p =
     [page_id p, page_title p, page_path p, rsplit_last 47 (page_path p)] @
     (if source_root \<noteq> [] \<and> source_root \<noteq> lit ''.''
      then [rstrip_by (\<lambda>c. c = 47) source_root @ [47] @ page_id p,
            rstrip_by (\<lambda>c. c = 47) source_root @ [47] @ page_path p]
      else [])"

definition page_lookup :: "ustr \<Rightarrow> wiki_page list \<Rightarrow> (ustr, wiki_page) dict" where
  "page_lookup source_root pages =
     dict_of (concat (map (\<lambda>p. map (\<lambda>key. (normalize_key key, p)) (page_keys source_root p)) pages))"

section \<open>The graph state\<close>

type_synonym graph_state = "graph_node list \<times> graph_edge list"

definition add_node :: "graph_node \<Rightarrow> graph_state \<Rightarrow> graph_state" where
  "add_node n g = (fst g @ [n], snd g)"

definition add_edge :: "graph_edge \<Rightarrow> graph_state \<Rightarrow> graph_state" where
  "add_edge e g = (fst g, snd g @ [e])"

definition meta_edge :: "ustr \<Rightarrow> ustr \<Rightarrow> string \<Rightarrow> (string \<times> pyval) list \<Rightarrow> graph_edge" where
  "meta_edge s t r md = (mk_edge s t (lit r))\<lparr>edge_metadata := map (\<lambda>(k, v). (lit k, v)) md\<rparr>"

definition meta_node :: "ustr \<Rightarrow> ustr \<Rightarrow> ustr \<Rightarrow> ustr \<Rightarrow> (string \<times> pyval) list \<Rightarrow> graph_node" where
  "meta_node i l k p md = (mk_node i l k p)\<lparr>node_metadata := map (\<lambda>(k, v). (lit k, v)) md\<rparr>"

section \<open>Projection of one page\<close>

definition page_node ::
  "(okf_metadata \<Rightarrow> (ustr, pyval) dict) \<Rightarrow> loaded_wiki \<Rightarrow> wiki_page \<Rightarrow> graph_node" where
  "page_node dump loaded p =
     (mk_node (page_node_id p) (page_title p) (role_str (page_role p)) (page_path p))
       \<lparr>node_metadata := dict_of
          ([(lit ''adapter'', PStr (lw_adapter loaded)),
            (lit ''implementation'', PStr (lw_implementation loaded))] @ lw_metadata loaded @
           [(lit ''source_refs'', PList (map PStr (page_source_refs p))),
            (lit ''review_state'', PStr (review_state_str (page_review_state p))),
            (lit ''okf'', PDict (case page_okf p of Some m \<Rightarrow> dump m | None \<Rightarrow> []))])\<rparr>"

definition project_heading :: "wiki_page \<Rightarrow> ustr \<Rightarrow> graph_state \<Rightarrow> graph_state" where
  "project_heading p heading g =
     (let hid = lit ''heading:'' @ slug (page_id p @ [58] @ heading)
      in add_edge (meta_edge (page_node_id p) hid ''contains'' [])
           (add_node (mk_node hid heading (lit ''heading'') (page_path p)) g))"

definition okf_source_ref_key :: "okf_source \<Rightarrow> ustr" where
  "okf_source_ref_key s = (if src_id s \<noteq> [] then src_id s else src_resource s)"

definition okf_source_ref_label :: "okf_source \<Rightarrow> ustr" where
  "okf_source_ref_label s =
     (if src_title s \<noteq> [] then src_title s else if src_id s \<noteq> [] then src_id s else src_resource s)"

definition okf_profile :: pyval where
  "okf_profile = PStr (lit ''okf-v0.2'')"

definition project_okf_metadata :: "wiki_page \<Rightarrow> graph_state \<Rightarrow> graph_state" where
  "project_okf_metadata p g =
     (case page_okf p of
        None \<Rightarrow> g
      | Some okf \<Rightarrow>
          (let tid = lit ''okf_type:'' @ lower (slug (okf_concept_type okf));
               g1 = (if okf_concept_type okf \<noteq> [] then
                       add_edge (meta_edge (page_node_id p) tid ''typed_as''
                           [(''source'', PStr (lit ''okf.type'')), (''source_profile'', okf_profile)])
                         (add_node (meta_node tid (okf_concept_type okf) (lit ''okf_type'')
                             (page_path p) [(''source_profile'', okf_profile)]) g)
                     else g);
               rid = lit ''okf_resource:'' @ slug (okf_resource okf)
           in if okf_resource okf \<noteq> [] then
                add_edge (meta_edge (page_node_id p) rid ''describes''
                    [(''source'', PStr (lit ''okf.resource'')), (''source_profile'', okf_profile)])
                  (add_node (meta_node rid (okf_resource okf) (lit ''okf_resource'')
                      (page_path p) [(''source_profile'', okf_profile)]) g1)
              else g1))"

definition project_okf_source ::
  "(okf_source \<Rightarrow> (ustr, pyval) dict) \<Rightarrow> wiki_page \<Rightarrow> okf_source \<Rightarrow> graph_state \<Rightarrow> graph_state" where
  "project_okf_source dump_source p source g =
     (let sid = lit ''source:'' @ slug (okf_source_ref_key source)
      in add_edge (meta_edge (page_node_id p) sid ''cites''
             [(''source'', PStr (lit ''okf.sources'')), (''source_profile'', okf_profile)])
           (add_node (meta_node sid (okf_source_ref_label source) (lit ''source_ref'') (page_path p)
               [(''source_profile'', okf_profile), (''okf'', PDict (dump_source source))]) g))"

definition project_source_ref :: "wiki_page \<Rightarrow> ustr \<Rightarrow> graph_state \<Rightarrow> graph_state" where
  "project_source_ref p ref g =
     (let sid = lit ''source:'' @ slug ref
      in add_edge (meta_edge (page_node_id p) sid ''cites'' [])
           (add_node (mk_node sid ref (lit ''source_ref'') (page_path p)) g))"

definition project_tag :: "wiki_page \<Rightarrow> ustr \<Rightarrow> graph_state \<Rightarrow> graph_state" where
  "project_tag p tag g =
     (let label = strip_chars [35] tag; tid = lit ''tag:'' @ slug (lower label)
      in add_edge (meta_edge (page_node_id p) tid ''tagged'' [])
           (add_node (mk_node tid label (lit ''tag'') (page_path p)) g))"

definition project_link ::
  "(ustr, wiki_page) dict \<Rightarrow> wiki_page \<Rightarrow> ustr \<Rightarrow> graph_state \<Rightarrow> graph_state" where
  "project_link page_by_key p link g =
     (case map_of page_by_key (normalize_key link) of
        Some target \<Rightarrow> add_edge (meta_edge (page_node_id p) (page_node_id target) ''links_to'' []) g
      | None \<Rightarrow>
          (let nid = unresolved_node_id link
           in add_edge (meta_edge (page_node_id p) nid ''links_to'' [(''unresolved'', PBool True)])
                (add_node (meta_node nid link (external_node_kind link) (page_path p)
                   [(''unresolved'', PBool True), (''source'', PStr (lit ''wikilink''))]) g)))"

definition project_page ::
  "(okf_source \<Rightarrow> (ustr, pyval) dict) \<Rightarrow> (ustr, wiki_page) dict \<Rightarrow> wiki_page \<Rightarrow> graph_state \<Rightarrow>
   graph_state" where
  "project_page dump_source page_by_key p g =
     (let sources = (case page_okf p of Some m \<Rightarrow> okf_sources m | None \<Rightarrow> []);
          projected = okf_source_ref_key ` set sources;
          g1 = fold (project_heading p) (page_headings p) g;
          g2 = fold (project_okf_source dump_source p) sources (project_okf_metadata p g1);
          g3 = fold (project_source_ref p) (filter (\<lambda>ref. ref \<notin> projected) (page_source_refs p)) g2;
          g4 = fold (project_tag p) (page_tags p) g3
      in fold (project_link page_by_key p) (page_links p) g4)"

section \<open>Dendron hierarchy and graph.json facts\<close>

definition project_dendron_page ::
  "(ustr, wiki_page) dict \<Rightarrow> wiki_page \<Rightarrow> graph_state \<Rightarrow> graph_state" where
  "project_dendron_page page_by_key p g =
     (let stem = rsplit_head 46 (page_path p)
      in if 46 \<notin> set stem then g
         else (let parent_key = rsplit_head 46 stem;
                   (source_id, g1) =
                     (case map_of page_by_key (normalize_key parent_key) of
                        Some parent \<Rightarrow> (page_node_id parent, g)
                      | None \<Rightarrow> (unresolved_node_id parent_key,
                          add_node (meta_node (unresolved_node_id parent_key) parent_key
                            (lit ''placeholder'') (page_path p)
                            [(''unresolved'', PBool True),
                             (''source'', PStr (lit ''dendron_hierarchy''))]) g))
               in add_edge (meta_edge source_id (page_node_id p) ''parent_of''
                    [(''source'', PStr (lit ''dendron_hierarchy''))]) g1))"

definition project_dendron_hierarchy ::
  "loaded_wiki \<Rightarrow> (ustr, wiki_page) dict \<Rightarrow> graph_state \<Rightarrow> graph_state" where
  "project_dendron_hierarchy loaded page_by_key g =
     (if lw_adapter loaded \<noteq> lit ''dendron'' then g
      else fold (project_dendron_page page_by_key) (lw_pages loaded) g)"

definition endpoint_value :: "(pyval \<Rightarrow> ustr) \<Rightarrow> (ustr, pyval) dict \<Rightarrow> string \<Rightarrow> string \<Rightarrow> ustr" where
  "endpoint_value repr edge key1 key2 =
     (if pget edge key1 \<noteq> PNone then strip (py_str repr (pget edge key1))
      else if pget edge key2 \<noteq> PNone then strip (py_str repr (pget edge key2))
      else [])"

definition endpoint_path :: "wiki_page option \<Rightarrow> wiki_page option \<Rightarrow> ustr" where
  "endpoint_path primary fallback =
     (case primary of Some p \<Rightarrow> page_path p
      | None \<Rightarrow> (case fallback of Some p \<Rightarrow> page_path p | None \<Rightarrow> []))"

definition graph_endpoint ::
  "ustr \<Rightarrow> wiki_page option \<Rightarrow> ustr \<Rightarrow> graph_state \<Rightarrow> ustr \<times> graph_state" where
  "graph_endpoint value page path g =
     (case page of
        Some p \<Rightarrow> (page_node_id p, g)
      | None \<Rightarrow>
          (unresolved_node_id value,
           add_node (meta_node (unresolved_node_id value) value (external_node_kind value) path
             [(''unresolved'', PBool True), (''source'', PStr (lit ''graph.json''))]) g))"

definition project_fact ::
  "(pyval \<Rightarrow> ustr) \<Rightarrow> (ustr, wiki_page) dict \<Rightarrow> sidecar_fact \<Rightarrow> graph_state \<Rightarrow> graph_state" where
  "project_fact repr page_by_key fct g =
     (let raw = fact_data fct;
          source_value = endpoint_value repr raw ''from'' ''source'';
          target_value = endpoint_value repr raw ''to'' ''target''
      in if source_value = [] \<or> target_value = [] then g
         else (let source_page = map_of page_by_key (normalize_key source_value);
                   target_page = map_of page_by_key (normalize_key target_value);
                   (source_id, g1) = graph_endpoint source_value source_page
                       (endpoint_path source_page target_page) g;
                   (target_id, g2) = graph_endpoint target_value target_page
                       (endpoint_path target_page source_page) g1;
                   relation = canonical_relation
                       (py_str repr (por (pget raw ''type'') (PStr (lit ''related_to''))));
                   md = [(lit ''source'', PStr (fact_source fct)), (lit ''path'', PStr (fact_path fct))]
                        @ (case fact_confidence fct of None \<Rightarrow> [] | Some c \<Rightarrow> [(lit ''confidence'', c)])
               in add_edge ((mk_edge source_id target_id relation)\<lparr>edge_metadata := md\<rparr>) g2))"

section \<open>Deduplication and the whole projection\<close>

definition dedupe_nodes :: "graph_node list \<Rightarrow> graph_node list" where
  "dedupe_nodes nodes = dedupe_on node_id {} nodes"

definition dedupe_edge_step :: "graph_edge list \<Rightarrow> graph_edge \<Rightarrow> graph_edge list" where
  "dedupe_edge_step result edge =
     (if edge_key edge \<in> edge_key ` set result
      then map (\<lambda>x. if edge_key x = edge_key edge
                    then x\<lparr>edge_metadata := merge_metadata (edge_metadata x) (edge_metadata edge)\<rparr>
                    else x) result
      else result @ [edge])"

definition dedupe_edges :: "graph_edge list \<Rightarrow> graph_edge list" where
  "dedupe_edges edges = foldl dedupe_edge_step [] edges"

definition project_graph ::
  "(okf_metadata \<Rightarrow> (ustr, pyval) dict) \<Rightarrow> (okf_source \<Rightarrow> (ustr, pyval) dict) \<Rightarrow>
   (pyval \<Rightarrow> ustr) \<Rightarrow> loaded_wiki \<Rightarrow> graph_state" where
  "project_graph dump dump_source repr loaded =
     (let page_by_key = page_lookup (source_root_of (lw_metadata loaded)) (lw_pages loaded);
          g0 = (map (page_node dump loaded) (lw_pages loaded), []);
          g1 = fold (project_page dump_source page_by_key) (lw_pages loaded) g0;
          g2 = project_dendron_hierarchy loaded page_by_key g1
      in fold (project_fact repr page_by_key) (lw_sidecar loaded) g2)"

definition project_wiki ::
  "(okf_metadata \<Rightarrow> (ustr, pyval) dict) \<Rightarrow> (okf_source \<Rightarrow> (ustr, pyval) dict) \<Rightarrow>
   (pyval \<Rightarrow> ustr) \<Rightarrow> loaded_wiki \<Rightarrow> wiki_index" where
  "project_wiki dump dump_source repr loaded =
     (let (nodes, edges) = project_graph dump dump_source repr loaded
      in \<lparr>idx_root_name = lw_root_name loaded, idx_title = lw_title loaded,
          idx_description = lw_description loaded, idx_adapter = lw_adapter loaded,
          idx_implementation = lw_implementation loaded, idx_metadata = lw_metadata loaded,
          idx_pages = lw_pages loaded, idx_nodes = dedupe_nodes nodes,
          idx_edges = dedupe_edges edges\<rparr>)"

end
