(* ===== verification/Projection_Props.thy ===== *)
theory Projection_Props
  imports Projection
begin

text \<open>
  What the projection guarantees: every edge joins two nodes of the index, node identifiers and
  edge keys are unique, every page has its node and every outbound link of a page becomes exactly
  one kind of edge, and merging edge metadata keeps what was there.
\<close>

section \<open>Referential integrity\<close>

definition node_ids :: "graph_node list \<Rightarrow> ustr set" where
  "node_ids ns = node_id ` set ns"

definition closed_graph :: "graph_node list \<Rightarrow> graph_edge list \<Rightarrow> bool" where
  "closed_graph ns es \<longleftrightarrow> (\<forall>e\<in>set es. edge_source e \<in> node_ids ns \<and> edge_target e \<in> node_ids ns)"

text \<open>The invariant of the loops: closed so far, with every page of \<open>ps\<close> already a node.\<close>

definition graph_ok :: "wiki_page set \<Rightarrow> graph_state \<Rightarrow> bool" where
  "graph_ok ps g \<longleftrightarrow> closed_graph (fst g) (snd g) \<and> page_node_id ` ps \<subseteq> node_ids (fst g)"

named_theorems graph_intros \<open>steps that keep the graph invariant\<close>

lemma node_ids_simps [simp]:
  "node_ids [] = {}" "node_ids (n # ns) = insert (node_id n) (node_ids ns)"
  "node_ids (ms @ ns) = node_ids ms \<union> node_ids ns"
  by (auto simp: node_ids_def)

lemma meta_simps [simp]:
  "edge_source (meta_edge s t r md) = s" "edge_target (meta_edge s t r md) = t"
  "edge_relation (meta_edge s t r md) = lit r" "node_id (meta_node i l k p md) = i"
  "node_path (meta_node i l k p md) = p" "node_label (meta_node i l k p md) = l"
  "node_kind (meta_node i l k p md) = k"
  by (simp_all add: meta_edge_def meta_node_def)

lemma graph_ok_add_node [graph_intros]: "graph_ok ps g \<Longrightarrow> graph_ok ps (add_node n g)"
  by (auto simp: graph_ok_def closed_graph_def add_node_def)

lemma graph_ok_add_edge:
  "graph_ok ps g \<Longrightarrow> edge_source e \<in> node_ids (fst g) \<Longrightarrow> edge_target e \<in> node_ids (fst g) \<Longrightarrow>
   graph_ok ps (add_edge e g)"
  by (auto simp: graph_ok_def closed_graph_def add_edge_def)

lemma node_ids_add [simp]:
  "node_ids (fst (add_node n g)) = insert (node_id n) (node_ids (fst g))"
  "node_ids (fst (add_edge e g)) = node_ids (fst g)"
  by (auto simp: add_node_def add_edge_def)

lemma graph_ok_page: "graph_ok ps g \<Longrightarrow> p \<in> ps \<Longrightarrow> page_node_id p \<in> node_ids (fst g)"
  by (auto simp: graph_ok_def)

lemma graph_ok_fold [graph_intros]:
  "(\<And>x g. x \<in> set xs \<Longrightarrow> graph_ok ps g \<Longrightarrow> graph_ok ps (f x g)) \<Longrightarrow> graph_ok ps g \<Longrightarrow>
   graph_ok ps (fold f xs g)"
  by (induction xs arbitrary: g) auto

lemma page_lookup_range: "map_of (page_lookup r ps) k = Some p \<Longrightarrow> p \<in> set ps"
  by (auto simp: page_lookup_def map_of_dict_of dest!: map_of_SomeD)

lemma graph_ok_edge_to_new:
  "graph_ok ps g \<Longrightarrow> edge_source e \<in> insert (node_id n) (node_ids (fst g)) \<Longrightarrow>
   edge_target e \<in> insert (node_id n) (node_ids (fst g)) \<Longrightarrow>
   graph_ok ps (add_edge e (add_node n g))"
  by (rule graph_ok_add_edge) (auto intro: graph_ok_add_node)

lemma graph_ok_heading [graph_intros]:
  "p \<in> ps \<Longrightarrow> graph_ok ps g \<Longrightarrow> graph_ok ps (project_heading p h g)"
  unfolding project_heading_def Let_def
  by (rule graph_ok_edge_to_new) (auto simp: graph_ok_page)

lemma graph_ok_source_ref [graph_intros]:
  "p \<in> ps \<Longrightarrow> graph_ok ps g \<Longrightarrow> graph_ok ps (project_source_ref p r g)"
  unfolding project_source_ref_def Let_def
  by (rule graph_ok_edge_to_new) (auto simp: graph_ok_page)

lemma graph_ok_tag [graph_intros]:
  "p \<in> ps \<Longrightarrow> graph_ok ps g \<Longrightarrow> graph_ok ps (project_tag p t g)"
  unfolding project_tag_def Let_def
  by (rule graph_ok_edge_to_new) (auto simp: graph_ok_page)

lemma graph_ok_okf_source [graph_intros]:
  "p \<in> ps \<Longrightarrow> graph_ok ps g \<Longrightarrow> graph_ok ps (project_okf_source d p s g)"
  unfolding project_okf_source_def Let_def
  by (rule graph_ok_edge_to_new) (auto simp: graph_ok_page)

lemma graph_ok_okf_metadata [graph_intros]:
  "p \<in> ps \<Longrightarrow> graph_ok ps g \<Longrightarrow> graph_ok ps (project_okf_metadata p g)"
  unfolding project_okf_metadata_def Let_def
  by (auto split: option.splits intro!: graph_ok_edge_to_new simp: graph_ok_page)

lemma graph_ok_link [graph_intros]:
  assumes "p \<in> ps" and "graph_ok ps g" and "\<And>k q. map_of keys k = Some q \<Longrightarrow> q \<in> ps"
  shows "graph_ok ps (project_link keys p l g)"
  unfolding project_link_def Let_def
  using assms by (auto split: option.splits intro!: graph_ok_edge_to_new graph_ok_add_edge
      graph_ok_add_node simp: graph_ok_page)

lemma graph_ok_project_page [graph_intros]:
  assumes "p \<in> ps" and "graph_ok ps g" and "\<And>k q. map_of keys k = Some q \<Longrightarrow> q \<in> ps"
  shows "graph_ok ps (project_page d keys p g)"
  unfolding project_page_def Let_def by (intro graph_intros assms)

lemma graph_ok_dendron_page [graph_intros]:
  assumes "p \<in> ps" and "graph_ok ps g" and "\<And>k q. map_of keys k = Some q \<Longrightarrow> q \<in> ps"
  shows "graph_ok ps (project_dendron_page keys p g)"
  unfolding project_dendron_page_def Let_def
  using assms by (auto split: option.splits intro!: graph_ok_edge_to_new graph_ok_add_edge
      graph_ok_add_node simp: graph_ok_page)

lemma graph_ok_endpoint:
  assumes "graph_ok ps g" and "\<And>p. page = Some p \<Longrightarrow> p \<in> ps"
    and "graph_endpoint v page path g = (i, g')"
  shows "graph_ok ps g' \<and> i \<in> node_ids (fst g') \<and> node_ids (fst g) \<subseteq> node_ids (fst g')"
  using assms
  by (auto simp: graph_endpoint_def graph_ok_page graph_ok_add_node split: option.splits)

lemma graph_ok_fact [graph_intros]:
  assumes ok: "graph_ok ps g" and keys: "\<And>k q. map_of keys k = Some q \<Longrightarrow> q \<in> ps"
  shows "graph_ok ps (project_fact repr keys f g)"
proof -
  let ?sv = "endpoint_value repr (fact_data f) ''from'' ''source''"
  let ?tv = "endpoint_value repr (fact_data f) ''to'' ''target''"
  let ?sp = "map_of keys (normalize_key ?sv)" and ?tp = "map_of keys (normalize_key ?tv)"
  obtain si g1 where 1: "graph_endpoint ?sv ?sp (endpoint_path ?sp ?tp) g = (si, g1)"
    by (rule prod.exhaust)
  obtain ti g2 where 2: "graph_endpoint ?tv ?tp (endpoint_path ?tp ?sp) g1 = (ti, g2)"
    by (rule prod.exhaust)
  have "graph_ok ps g1 \<and> si \<in> node_ids (fst g1)"
    using graph_ok_endpoint [OF ok _ 1] keys by blast
  moreover from this have "graph_ok ps g2 \<and> ti \<in> node_ids (fst g2) \<and>
      node_ids (fst g1) \<subseteq> node_ids (fst g2)"
    using graph_ok_endpoint [OF _ _ 2] keys by blast
  ultimately show ?thesis
    using ok by (auto simp: project_fact_def Let_def 1 2 intro!: graph_ok_add_edge)
qed

lemma node_id_page_node [simp]: "node_id (page_node d l p) = page_node_id p"
  by (simp add: page_node_def)

lemma graph_ok_initial: "graph_ok (set ps) (map (page_node d l) ps, [])"
  by (simp add: graph_ok_def closed_graph_def node_ids_def image_image)

lemma project_graph_ok: "graph_ok (set (lw_pages l)) (project_graph d ds repr l)"
  unfolding project_graph_def Let_def project_dendron_hierarchy_def
  by (auto intro!: graph_intros graph_ok_initial elim: page_lookup_range)

section \<open>Deduplication\<close>

lemma dedupe_nodes_ids [simp]: "node_ids (dedupe_nodes ns) = node_ids ns"
  by (simp add: node_ids_def dedupe_nodes_def dedupe_on_keys)

lemma edge_key_metadata [simp]: "edge_key (e\<lparr>edge_metadata := m\<rparr>) = edge_key e"
  by (simp add: edge_key_def)

lemma dedupe_edge_step_keys:
  "map edge_key (dedupe_edge_step es e) =
     (if edge_key e \<in> edge_key ` set es then map edge_key es else map edge_key es @ [edge_key e])"
  by (auto simp: dedupe_edge_step_def)

lemma dedupe_edges_keys_acc:
  "distinct (map edge_key acc) \<Longrightarrow>
   distinct (map edge_key (foldl dedupe_edge_step acc es)) \<and>
   edge_key ` set (foldl dedupe_edge_step acc es) = edge_key ` (set acc \<union> set es)"
proof (induction es arbitrary: acc)
  case Nil
  then show ?case by simp
next
  case (Cons e es)
  have k: "map edge_key (dedupe_edge_step acc e) =
      (if edge_key e \<in> edge_key ` set acc then map edge_key acc
       else map edge_key acc @ [edge_key e])"
    by (rule dedupe_edge_step_keys)
  have d: "distinct (map edge_key (dedupe_edge_step acc e))"
    unfolding k using Cons.prems by auto
  have "edge_key ` set (dedupe_edge_step acc e) = insert (edge_key e) (edge_key ` set acc)"
    using k by (metis (no_types) image_set insert_absorb list.simps(15) rotate1.simps(2) set_rotate1)
  with Cons.IH [OF d] show ?case by auto
qed

lemma dedupe_edges_keys: "edge_key ` set (dedupe_edges es) = edge_key ` set es"
  and distinct_dedupe_edges: "distinct (map edge_key (dedupe_edges es))"
  using dedupe_edges_keys_acc [of "[]" es] by (simp_all add: dedupe_edges_def)

lemma closed_graph_dedupe:
  assumes "closed_graph ns es"
  shows "closed_graph (dedupe_nodes ns) (dedupe_edges es)"
  unfolding closed_graph_def dedupe_nodes_ids
proof
  fix e assume "e \<in> set (dedupe_edges es)"
  then have "edge_key e \<in> edge_key ` set es" using dedupe_edges_keys by blast
  then obtain e' where "e' \<in> set es" "edge_source e' = edge_source e" "edge_target e' = edge_target e"
    by (auto simp: edge_key_def)
  with assms show "edge_source e \<in> node_ids ns \<and> edge_target e \<in> node_ids ns"
    by (auto simp: closed_graph_def)
qed

lemma project_wiki_fields [simp]:
  "idx_pages (project_wiki d ds repr l) = lw_pages l"
  "idx_nodes (project_wiki d ds repr l) = dedupe_nodes (fst (project_graph d ds repr l))"
  "idx_edges (project_wiki d ds repr l) = dedupe_edges (snd (project_graph d ds repr l))"
  by (simp_all add: project_wiki_def split: prod.splits)

text \<open>
  C1: the projected index is a closed graph: both endpoints of every edge are nodes of the index,
  whatever the links, tags, citations, hierarchy and sidecar facts of the loaded wiki say.
\<close>

theorem project_wiki_closed:
  "closed_graph (idx_nodes (project_wiki d ds repr l)) (idx_edges (project_wiki d ds repr l))"
proof -
  have "closed_graph (fst (project_graph d ds repr l)) (snd (project_graph d ds repr l))"
    using project_graph_ok [of l d ds repr] by (simp add: graph_ok_def)
  then show ?thesis by (simp add: closed_graph_dedupe)
qed

text \<open>
  in the projected index node identifiers are unique, an edge is determined by its source,
  target and relation, and every loaded page has its page node.
\<close>

theorem project_wiki_unique:
  "distinct (map node_id (idx_nodes (project_wiki d ds repr l))) \<and>
   distinct (map edge_key (idx_edges (project_wiki d ds repr l))) \<and>
   page_node_id ` set (lw_pages l) \<subseteq> node_ids (idx_nodes (project_wiki d ds repr l))"
proof -
  have "page_node_id ` set (lw_pages l) \<subseteq> node_ids (fst (project_graph d ds repr l))"
    using project_graph_ok [of l d ds repr] by (simp add: graph_ok_def)
  moreover have "distinct (map node_id (dedupe_nodes ns))" for ns
    by (simp add: dedupe_nodes_def distinct_dedupe_on)
  ultimately show ?thesis by (simp add: distinct_dedupe_edges)
qed


section \<open>Links\<close>

text \<open>Every step of the projection keeps the edges there are.\<close>

definition grows :: "graph_state \<Rightarrow> graph_state \<Rightarrow> bool" where
  "grows g h \<longleftrightarrow> set (snd g) \<subseteq> set (snd h)"

lemma grows_refl [simp]: "grows g g"
  by (simp add: grows_def)

lemma grows_trans: "grows g h \<Longrightarrow> grows h k \<Longrightarrow> grows g k"
  by (auto simp: grows_def)

lemma grows_add [simp]: "grows g (add_edge e h) \<longleftrightarrow> set (snd g) \<subseteq> insert e (set (snd h))"
  "grows g (add_node n h) \<longleftrightarrow> grows g h"
  by (auto simp: grows_def add_edge_def add_node_def)

lemma snd_add [simp]: "snd (add_node n g) = snd g" "snd (add_edge e g) = snd g @ [e]"
  by (simp_all add: add_node_def add_edge_def)

lemma grows_fold: "(\<And>x g. grows g (f x g)) \<Longrightarrow> grows g (fold f xs g)"
proof (induction xs arbitrary: g)
  case Nil
  then show ?case by simp
next
  case (Cons x xs)
  have "grows g (f x g)" "grows (f x g) (fold f xs (f x g))"
    using Cons by auto
  then show ?case by (auto intro: grows_trans)
qed

lemma grows_steps [simp]:
  "grows g (project_heading p h g)" "grows g (project_source_ref p r g)" "grows g (project_tag p t g)"
  "grows g (project_okf_source ds p s g)" "grows g (project_okf_metadata p g)"
  "grows g (project_link keys p l g)" "grows g (project_dendron_page keys p g)"
  by (auto simp: project_heading_def project_source_ref_def project_tag_def project_okf_source_def
      project_okf_metadata_def project_link_def project_dendron_page_def Let_def grows_def
      split: option.splits)

lemma grows_endpoint: "graph_endpoint v page path g = (i, h) \<Longrightarrow> snd h = snd g"
  by (auto simp: graph_endpoint_def split: option.splits)

lemma grows_fact [simp]: "grows g (project_fact repr keys f g)"
  by (auto simp: project_fact_def Let_def dest!: grows_endpoint split: prod.splits)

lemma grows_page [simp]: "grows g (project_page ds keys p g)"
  unfolding project_page_def Let_def
  by (rule grows_trans [OF _ grows_fold], rule grows_trans [OF _ grows_fold],
      rule grows_trans [OF _ grows_fold], rule grows_trans [OF _ grows_fold],
      rule grows_trans [OF _ grows_steps(5)], rule grows_fold) simp_all

text \<open>The target of a link: the page its key resolves to, otherwise an unresolved node.\<close>

definition link_target :: "(ustr, wiki_page) dict \<Rightarrow> ustr \<Rightarrow> ustr" where
  "link_target keys l =
     (case map_of keys (normalize_key l) of Some q \<Rightarrow> page_node_id q | None \<Rightarrow> unresolved_node_id l)"

lemma fold_member_grows:
  assumes "x \<in> set xs" and "\<And>y g. grows g (f y g)" and "\<And>g. e \<in> edge_key ` set (snd (f x g))"
  shows "e \<in> edge_key ` set (snd (fold f xs g))"
proof -
  obtain ys zs where xs: "xs = ys @ x # zs" using assms(1) by (auto simp: in_set_conv_decomp)
  have "e \<in> edge_key ` set (snd (f x (fold f ys g)))" by (rule assms(3))
  moreover have "grows (f x (fold f ys g)) (fold f xs g)"
    by (simp add: xs grows_fold assms(2))
  ultimately show ?thesis by (auto simp: grows_def)
qed

lemma project_page_link:
  assumes "l \<in> set (page_links p)"
  shows "(page_node_id p, link_target keys l, lit ''links_to'') \<in>
     edge_key ` set (snd (project_page ds keys p g))"
  unfolding project_page_def Let_def
  using assms by (rule fold_member_grows)
    (auto simp: project_link_def link_target_def edge_key_def Let_def image_iff split: option.splits)

text \<open>
  Every outbound link of every page appears in the index as a \<open>links_to\<close> edge from the page's
  node, to the page the lookup resolves its normalised key to, or to the unresolved node of its
  text when the lookup has no such key.
\<close>

theorem project_wiki_links:
  assumes "p \<in> set (lw_pages loaded)" and "l \<in> set (page_links p)"
  shows "(page_node_id p,
          link_target (page_lookup (source_root_of (lw_metadata loaded)) (lw_pages loaded)) l,
          lit ''links_to'') \<in> edge_key ` set (idx_edges (project_wiki d ds repr loaded))"
proof -
  let ?keys = "page_lookup (source_root_of (lw_metadata loaded)) (lw_pages loaded)"
  let ?e = "(page_node_id p, link_target ?keys l, lit ''links_to'')"
  let ?g0 = "(map (page_node d loaded) (lw_pages loaded), [])"
  let ?g1 = "fold (project_page ds ?keys) (lw_pages loaded) ?g0"
  have 1: "?e \<in> edge_key ` set (snd ?g1)"
    using assms(1) by (rule fold_member_grows) (auto intro: project_page_link assms(2))
  have 2: "grows ?g1 (project_dendron_hierarchy loaded ?keys ?g1)"
    by (simp add: project_dendron_hierarchy_def grows_fold)
  have "grows ?g1 (project_graph d ds repr loaded)"
    unfolding project_graph_def Let_def by (rule grows_trans [OF 2 grows_fold]) simp
  with 1 show ?thesis by (auto simp: dedupe_edges_keys grows_def)
qed

definition link_demo :: loaded_wiki where
  "link_demo = \<lparr>lw_root_name = lit ''w'',
     lw_pages = [(mk_page (lit ''a'') (lit ''Alpha'') (lit ''a.md'') Role_topic [])
                   \<lparr>page_links := [lit ''B Page'']\<rparr>,
                 mk_page (lit ''b'') (lit ''b-page'') (lit ''b.md'') Role_topic []],
     lw_title = [], lw_description = [], lw_adapter = [], lw_implementation = [],
     lw_metadata = [], lw_sidecar = []\<rparr>"

theorem project_wiki_links_witness:
  "(lit ''page:a'', lit ''page:b'', lit ''links_to'') \<in>
     edge_key ` set (idx_edges (project_wiki (\<lambda>_. []) (\<lambda>_. []) (\<lambda>_. []) link_demo))"
proof -
  let ?p = "hd (lw_pages link_demo)"
  have 1: "?p \<in> set (lw_pages link_demo)" and 2: "lit ''B Page'' \<in> set (page_links ?p)"
    by (simp_all add: link_demo_def)
  have 3: "link_target (page_lookup (source_root_of (lw_metadata link_demo)) (lw_pages link_demo))
      (lit ''B Page'') = lit ''page:b''"
    by (simp add: link_demo_def link_target_def page_lookup_def page_keys_def source_root_of_def
        normalize_key_def page_node_id_def map_of_dict_of key_char_def py_eval)
  have 4: "page_node_id ?p = lit ''page:a''"
    by (simp add: link_demo_def page_node_id_def py_eval)
  show ?thesis
    using project_wiki_links [OF 1 2, of "\<lambda>_. []" "\<lambda>_. []" "\<lambda>_. []"] unfolding 3 4 .
qed

section \<open>Resolving keys\<close>

lemma page_lookup_found:
  assumes "p \<in> set ps" and "k \<in> set (page_keys r p)"
  shows "\<exists>q\<in>set ps. (\<exists>k'\<in>set (page_keys r q). normalize_key k' = normalize_key k) \<and>
     map_of (page_lookup r ps) (normalize_key k) = Some q"
proof -
  let ?kvs = "concat (map (\<lambda>p. map (\<lambda>key. (normalize_key key, p)) (page_keys r p)) ps)"
  have "normalize_key k \<in> fst ` set (rev ?kvs)" using assms by force
  then have "map_of (rev ?kvs) (normalize_key k) \<noteq> None" by (simp only: map_of_eq_None_iff not_not)
  then obtain q where q: "map_of (rev ?kvs) (normalize_key k) = Some q" by blast
  then have "(normalize_key k, q) \<in> set (rev ?kvs)" by (rule map_of_SomeD)
  with q show ?thesis by (auto simp: page_lookup_def map_of_dict_of)
qed

text \<open>
  a page can be linked by its identifier, its title, its path or its file name: a link that
  normalises like one of a page's keys resolves, and to that page when no other page has a key that
  normalises the same way.
\<close>

theorem page_lookup_resolves:
  assumes "p \<in> set ps" and "k \<in> set (page_keys r p)"
    and "\<And>q k'. q \<in> set ps \<Longrightarrow> k' \<in> set (page_keys r q) \<Longrightarrow> normalize_key k' = normalize_key k \<Longrightarrow>
           q = p"
  shows "map_of (page_lookup r ps) (normalize_key k) = Some p"
  using page_lookup_found [OF assms(1,2)] assms(3) by blast

theorem page_lookup_resolves_witness:
  "map_of (page_lookup [] [mk_page (lit ''a'') (lit ''Two Words'') (lit ''x/y.md'') Role_topic []])
     (normalize_key (lit ''two-words'')) =
   Some (mk_page (lit ''a'') (lit ''Two Words'') (lit ''x/y.md'') Role_topic [])"
proof -
  let ?p = "mk_page (lit ''a'') (lit ''Two Words'') (lit ''x/y.md'') Role_topic []"
  have "normalize_key (lit ''two-words'') = normalize_key (lit ''Two Words'')"
    by (simp add: normalize_key_def key_char_def py_eval)
  then show ?thesis
    using page_lookup_resolves [of ?p "[?p]" "lit ''Two Words''" "[]"]
    by (simp add: page_keys_def)
qed

text \<open>
  a link without any Latin letter, digit or Hangul syllable never becomes an unresolved node
  once some page has such a key (a title in another script, say): its key is empty, and so it
  resolves to whichever page registered the empty key last.
\<close>

theorem empty_key_links_collide:
  assumes "p \<in> set ps" and "k \<in> set (page_keys r p)" and "normalize_key k = []"
    and "normalize_key l = []"
  shows "\<exists>q\<in>set ps. link_target (page_lookup r ps) l = page_node_id q"
  using page_lookup_found [OF assms(1,2)] assms(3,4) by (auto simp: link_target_def)

theorem empty_key_links_collide_witness:
  "link_target (page_lookup [] [mk_page (lit ''a'') [26085, 26412] (lit ''a.md'') Role_topic []])
     [20013, 25991] = lit ''page:a''"
proof -
  let ?p = "mk_page (lit ''a'') [26085, 26412] (lit ''a.md'') Role_topic []"
  have 1: "normalize_key [26085, 26412] = []" and 2: "normalize_key [20013, 25991] = []"
    by (simp_all add: normalize_key_def caseless key_char_def ends_with_def char_classes lit_Cons)
  show ?thesis
    using empty_key_links_collide [of ?p "[?p]" "[26085, 26412]" "[]" "[20013, 25991]"] 1 2
    by (simp add: page_keys_def page_node_id_def py_eval)
qed

section \<open>Merged metadata\<close>

text \<open>The value a key has after one binding of the incoming metadata.\<close>

definition merged_value :: "pyval option \<Rightarrow> pyval \<Rightarrow> pyval" where
  "merged_value old v =
     (case old of None \<Rightarrow> v
      | Some w \<Rightarrow> if w = PNone \<or> w = PStr [] then v
                  else if py_eq w v then w else merge_metadata_value w v)"

lemma map_of_merge_step:
  "map_of (merge_step m (k, v)) = (map_of m)(k \<mapsto> merged_value (map_of m k) v)"
  by (auto simp: merge_step_def merged_value_def fun_eq_iff split: option.splits)

text \<open>
  merging two edges' metadata keeps every key of both; a key of only one side keeps its value,
  and a key of both gets the old value, the new one where the old is null or empty, or the list of
  both where they differ.
\<close>

theorem merge_metadata_lookup:
  assumes "distinct (map fst incoming)"
  shows "map_of (merge_metadata existing incoming) k =
    (case map_of incoming k of None \<Rightarrow> map_of existing k
     | Some v \<Rightarrow> Some (merged_value (map_of existing k) v))"
  using assms
proof (induction incoming arbitrary: existing)
  case Nil
  then show ?case by (simp add: merge_metadata_def)
next
  case (Cons kv inc)
  obtain k' v where kv: "kv = (k', v)" by (cases kv)
  have "merge_metadata existing (kv # inc) = merge_metadata (merge_step existing (k', v)) inc"
    by (simp add: merge_metadata_def kv)
  moreover have "map_of inc k' = None" using Cons.prems by (simp add: kv map_of_eq_None_iff)
  ultimately show ?case
    using Cons by (auto simp: kv map_of_merge_step split: option.splits)
qed

theorem merge_metadata_lookup_witness:
  "map_of (merge_metadata [(lit ''a'', PInt 1)] [(lit ''a'', PInt 2), (lit ''b'', PNone)]) (lit ''a'')
     = Some (PList [PInt 1, PInt 2])"
  using merge_metadata_lookup [of "[(lit ''a'', PInt 2), (lit ''b'', PNone)]" "[(lit ''a'', PInt 1)]"
      "lit ''a''"]
  by (simp add: py_eval merged_value_def merge_metadata_value_def py_eq.simps)

end
