(* ===== verification/Validation.thy ===== *)
theory Validation
  imports Models
begin

text \<open>
  The rules of \<open>models.py\<close>: which pages may be served (\<open>approved_for_serving\<close> and its helpers),
  and the validators of the retrieval-guidance models, where pydantic turns a raised
  \<open>ValueError\<close> into a validation error.
\<close>

section \<open>Serving visibility\<close>

definition NON_SERVING_STATUSES :: "ustr list" where
  "NON_SERVING_STATUSES = map lit [''draft'', ''proposed'', ''needs_review'', ''blocked'',
     ''unpublished'', ''private'', ''hidden'', ''embargoed'', ''confidential'', ''internal'',
     ''withheld'']"

fun frontmatter_bool :: "pyval \<Rightarrow> bool option" where
  "frontmatter_bool (PBool b) = Some b"
| "frontmatter_bool (PStr s) =
     (let normalized = lower (strip s)
      in if normalized \<in> set (map lit [''1'', ''true'', ''yes'', ''y'', ''on'']) then Some True
         else if normalized \<in> set (map lit [''0'', ''false'', ''no'', ''n'', ''off''])
           then Some False
         else None)"
| "frontmatter_bool _ = None"

definition visibility_status :: "ustr \<Rightarrow> ustr" where
  "visibility_status v = join (lit ''_'') (split_ws (replace_char 45 [32] (lower (strip v))))"

definition approved_for_serving :: "wiki_page \<Rightarrow> bool" where
  "approved_for_serving p =
     (if frontmatter_bool (pget (page_frontmatter p) ''draft'') = Some True then False
      else if frontmatter_bool (pget (page_frontmatter p) ''published'') = Some False then False
      else if frontmatter_bool (pget (page_frontmatter p) ''publish'') = Some False then False
      else if page_review_state p \<in> {Draft, Proposed, Needs_review} then False
      else visibility_status (page_status p) \<notin> set NON_SERVING_STATUSES)"

lemmas visibility_defs [py_eval] = NON_SERVING_STATUSES_def visibility_status_def
  approved_for_serving_def pget_def dict_get_def

section \<open>String lists\<close>

fun trimmed_unique_acc ::
  "string \<Rightarrow> nat \<Rightarrow> ustr set \<Rightarrow> pyval list \<Rightarrow> ustr list res" where
  "trimmed_unique_acc field_name max_item_chars seen [] = Inr []"
| "trimmed_unique_acc field_name max_item_chars seen (value # values) =
     (case value of
        PStr s \<Rightarrow>
          (let text = strip s; key = casefold text
           in if text = [] then Inl (ValueError (field_name @ '' entries must be non-empty strings''))
              else if length text > max_item_chars
                then Inl (ValueError (field_name @ '' entries must be at most N characters''))
              else if key \<in> seen then Inl (ValueError (field_name @ '' entries must be unique''))
              else bind_res (trimmed_unique_acc field_name max_item_chars (insert key seen) values)
                     (\<lambda>rest. Inr (text # rest)))
      | _ \<Rightarrow> Inl (ValueError (field_name @ '' entries must be strings'')))"

definition trimmed_unique_strings :: "string \<Rightarrow> nat \<Rightarrow> pyval list \<Rightarrow> ustr list res" where
  "trimmed_unique_strings field_name max_item_chars values =
     trimmed_unique_acc field_name max_item_chars {} values"

section \<open>Source-relative paths\<close>

definition safe_relative_path :: "string \<Rightarrow> ustr \<Rightarrow> ustr res" where
  "safe_relative_path field_name value =
     (let text = strip value; parts = split_char 47 text
      in if text = [] then Inl (ValueError (field_name @ '' must be non-empty''))
         else if length text > 1024
           then Inl (ValueError (field_name @ '' must be at most 1024 characters''))
         else if contains text [92] \<or> starts_with text [47] \<or> contains text (lit ''://'')
           then Inl (ValueError (field_name @ '' must be a source-relative path using / separators''))
         else if list_ex (\<lambda>part. part = [] \<or> part = lit ''..'') parts
           then Inl (ValueError (field_name @ '' must not contain empty or .. path segments''))
         else if length (hd parts) = 2 \<and> hd parts ! 1 = 58
           then Inl (ValueError (field_name @ '' must not be an absolute path''))
         else Inr text)"

section \<open>Cards and guidance\<close>

text \<open>
  The validating constructors. \<open>check\<close> stands for a field bound; pydantic reports a violation
  as an error of the same class.
\<close>

definition check :: "bool \<Rightarrow> string \<Rightarrow> unit res" where
  "check b msg = (if b then Inr () else Inl (ValueError msg))"

definition trim_required_text :: "ustr \<Rightarrow> ustr res" where
  "trim_required_text value =
     (let text = strip value
      in if text = [] then Inl (ValueError ''field must be a non-empty string'') else Inr text)"

definition make_folder_card :: "ustr \<Rightarrow> nat \<Rightarrow> ustr list \<Rightarrow> folder_card res" where
  "make_folder_card path page_count terms =
     bind_res (safe_relative_path ''path'' path) (\<lambda>path'.
     bind_res (check (1 \<le> page_count) ''page_count'') (\<lambda>_.
     bind_res (check (length terms \<le> 8) ''terms'') (\<lambda>_.
     bind_res (trimmed_unique_strings ''terms'' 120 (map PStr terms)) (\<lambda>terms'.
     Inr \<lparr>folder_path = path', folder_page_count = page_count, folder_card_terms = terms'\<rparr>))))"

definition make_page_card ::
  "ustr \<Rightarrow> ustr \<Rightarrow> ustr \<Rightarrow> ustr list \<Rightarrow> ustr list \<Rightarrow> ustr list \<Rightarrow> ustr \<Rightarrow> page_card res" where
  "make_page_card pid title path headings terms exact_identifiers excerpt =
     bind_res (check (1 \<le> length pid \<and> length pid \<le> 512) ''page_id'') (\<lambda>_.
     bind_res (trim_required_text pid) (\<lambda>pid'.
     bind_res (check (1 \<le> length title \<and> length title \<le> 240) ''title'') (\<lambda>_.
     bind_res (trim_required_text title) (\<lambda>title'.
     bind_res (safe_relative_path ''path'' path) (\<lambda>path'.
     bind_res (check (length headings \<le> 8) ''headings'') (\<lambda>_.
     bind_res (trimmed_unique_strings ''headings'' 160 (map PStr headings)) (\<lambda>headings'.
     bind_res (check (length terms \<le> 12) ''terms'') (\<lambda>_.
     bind_res (trimmed_unique_strings ''terms'' 120 (map PStr terms)) (\<lambda>terms'.
     bind_res (check (length exact_identifiers \<le> 8) ''exact_identifiers'') (\<lambda>_.
     bind_res (trimmed_unique_strings ''exact_identifiers'' 240 (map PStr exact_identifiers))
       (\<lambda>ids'.
     bind_res (check (1 \<le> length excerpt \<and> length excerpt \<le> 240) ''excerpt'') (\<lambda>_.
     bind_res (trim_required_text excerpt) (\<lambda>excerpt'.
     Inr \<lparr>card_page_id = pid', card_title = title', card_path = path', card_headings = headings',
       card_terms = terms', card_exact_identifiers = ids', card_excerpt = excerpt'\<rparr>)))))))))))))"

text \<open>
  \<open>validate_fallback_modes\<close>: the modes seen so far, then the comparison with the fixed order
  literal, hybrid, vector.
\<close>

definition FALLBACK_MODE_ORDER :: "fallback_mode list" where
  "FALLBACK_MODE_ORDER = [Fb_literal, Fb_hybrid, Fb_vector]"

definition validate_fallback_modes :: "fallback_mode list \<Rightarrow> fallback_mode list res" where
  "validate_fallback_modes value =
     (if \<not> distinct value then Inl (ValueError ''fallback_modes entries must be unique'')
      else if value \<noteq> filter (\<lambda>mode. mode \<in> set value) FALLBACK_MODE_ORDER
        then Inl (ValueError ''fallback_modes must be ordered as literal, hybrid, vector'')
      else Inr value)"

definition make_retrieval_guidance ::
  "orientation_source \<Rightarrow> nat \<Rightarrow> folder_card list \<Rightarrow> page_card list \<Rightarrow> ustr list \<Rightarrow> ustr list \<Rightarrow>
   fallback_mode list \<Rightarrow> retrieval_guidance res" where
  "make_retrieval_guidance source budget folders pages terms ids modes =
     bind_res (check (1 \<le> budget \<and> budget \<le> 6000) ''character_budget'') (\<lambda>_.
     bind_res (check (length folders \<le> 8) ''folder_cards'') (\<lambda>_.
     bind_res (check (length pages \<le> 12) ''page_cards'') (\<lambda>_.
     bind_res (check (length terms \<le> 16) ''suggested_terms'') (\<lambda>_.
     bind_res (trimmed_unique_strings ''suggested_terms'' 120 (map PStr terms)) (\<lambda>terms'.
     bind_res (check (length ids \<le> 16) ''exact_identifiers'') (\<lambda>_.
     bind_res (trimmed_unique_strings ''exact_identifiers'' 240 (map PStr ids)) (\<lambda>ids'.
     bind_res (validate_fallback_modes modes) (\<lambda>modes'.
     Inr \<lparr>rg_orientation_source = source, rg_character_budget = budget, rg_folder_cards = folders,
       rg_page_cards = pages, rg_suggested_terms = terms', rg_exact_identifiers = ids',
       rg_fallback_modes = modes'\<rparr>))))))))"

lemmas validation_defs [py_eval] = trimmed_unique_strings_def safe_relative_path_def check_def
  trim_required_text_def make_folder_card_def make_page_card_def validate_fallback_modes_def
  FALLBACK_MODE_ORDER_def make_retrieval_guidance_def

section \<open>Lemmas\<close>

definition trimmed_ok :: "nat \<Rightarrow> ustr set \<Rightarrow> ustr list \<Rightarrow> bool" where
  "trimmed_ok n seen ts \<longleftrightarrow> [] \<notin> set ts \<and> (\<forall>t\<in>set ts. length t \<le> n) \<and>
     distinct (map casefold ts) \<and> casefold ` set ts \<inter> seen = {}"

lemma trimmed_ok_Nil [simp]: "trimmed_ok n seen []"
  by (simp add: trimmed_ok_def)

lemma trimmed_ok_Cons: "trimmed_ok n seen (t # ts) \<longleftrightarrow>
   t \<noteq> [] \<and> length t \<le> n \<and> casefold t \<notin> seen \<and> trimmed_ok n (insert (casefold t) seen) ts"
  by (auto simp: trimmed_ok_def)

lemma trimmed_unique_acc_PStr:
  "trimmed_unique_acc f n seen (PStr s # vs) = Inr ts \<longleftrightarrow>
     strip s \<noteq> [] \<and> length (strip s) \<le> n \<and> casefold (strip s) \<notin> seen \<and>
     (\<exists>rest. ts = strip s # rest \<and>
        trimmed_unique_acc f n (insert (casefold (strip s)) seen) vs = Inr rest)"
  by (simp add: bind_res_Inr Let_def not_less) blast

lemma trimmed_unique_acc_not_str:
  "(\<And>s. v \<noteq> PStr s) \<Longrightarrow> trimmed_unique_acc f n seen (v # vs) \<noteq> Inr ts"
  by (cases v) auto

lemma trimmed_unique_acc_Inr:
  "trimmed_unique_acc f n seen vs = Inr ts \<longleftrightarrow>
     (\<exists>ss. vs = map PStr ss \<and> ts = map strip ss \<and> trimmed_ok n seen ts)"
proof (induction vs arbitrary: seen ts)
  case Nil
  then show ?case by auto
next
  case (Cons v vs)
  show ?case
  proof (cases "\<exists>s. v = PStr s")
    case True
    then obtain s where v: "v = PStr s" by blast
    show ?thesis
      unfolding v trimmed_unique_acc_PStr Cons.IH
      by (cases ts) (auto simp: Cons_eq_map_conv trimmed_ok_Cons)
  next
    case False
    then have "trimmed_unique_acc f n seen (v # vs) \<noteq> Inr ts"
      by (intro trimmed_unique_acc_not_str) blast
    with False show ?thesis by (auto simp: Cons_eq_map_conv)
  qed
qed

lemma contains_Cons: "contains s [c] \<longleftrightarrow> c \<in> set s"
  by (induction s) (auto simp: contains_def)

end
