(* ===== verification/Validation_Props.thy ===== *)
theory Validation_Props
  imports Validation PyStr_Facts
begin

text \<open>
  What the validators accept: a list of trimmed, non-empty, bounded strings that are pairwise
  distinct up to case, and source-relative paths that never leave the directory they are resolved
  in. A status text is read word by word, whatever separators and blanks surround its words.
\<close>

section \<open>Accepted string lists\<close>

text \<open>
  the validator of a card's string lists accepts exactly the lists of strings whose trimmed
  texts are non-empty, at most the given length and pairwise distinct under case folding; it
  returns the trimmed texts in order, and every other list is an error.
\<close>

theorem trimmed_unique_strings_accepts:
  "trimmed_unique_strings f n vs = Inr ts \<longleftrightarrow>
     (\<exists>ss. vs = map PStr ss \<and> ts = map strip ss \<and> [] \<notin> set ts \<and>
        list_all (\<lambda>t. length t \<le> n) ts \<and> distinct (map casefold ts))"
  by (auto simp: trimmed_unique_strings_def trimmed_unique_acc_Inr trimmed_ok_def list_all_iff)

section \<open>Paths stay below their root\<close>

text \<open>
  How a file system reads a relative path: segments are pushed on a stack of directories, an empty
  segment and \<open>.\<close> stay, \<open>..\<close> goes up (from the top of the file system, nowhere).
\<close>

fun resolve :: "ustr list \<Rightarrow> ustr list \<Rightarrow> ustr list" where
  "resolve dirs [] = dirs"
| "resolve dirs (seg # segs) =
     (if seg = [] \<or> seg = [46] then resolve dirs segs
      else if seg = [46, 46] then resolve (tl dirs) segs
      else resolve (seg # dirs) segs)"

lemma resolve_below:
  "[46, 46] \<notin> set segs \<Longrightarrow> \<exists>below. resolve dirs segs = below @ dirs"
proof (induction segs arbitrary: dirs)
  case Nil
  then show ?case by simp
next
  case (Cons seg segs)
  then have 1: "\<exists>below. resolve d segs = below @ d" for d by simp
  show ?case
    using 1 [of dirs] 1 [of "seg # dirs"] Cons.prems by auto
qed

lemma starts_with_char: "starts_with s [c] \<longleftrightarrow> s \<noteq> [] \<and> hd s = c"
  by (cases s) auto

lemma safe_relative_path_accepts:
  "safe_relative_path f v = Inr t \<longleftrightarrow>
     t = strip v \<and> strip v \<noteq> [] \<and> \<not> length (strip v) > 1024 \<and>
     \<not> (contains (strip v) [92] \<or> starts_with (strip v) [47] \<or> contains (strip v) (lit ''://'')) \<and>
     \<not> list_ex (\<lambda>part. part = [] \<or> part = lit ''..'') (split_char 47 (strip v)) \<and>
     \<not> (length (hd (split_char 47 (strip v))) = 2 \<and> hd (split_char 47 (strip v)) ! 1 = 58)"
  unfolding safe_relative_path_def Let_def
  by (simp only: Inl_Inr_False Inr_Inl_False sum.inject if_distrib [of "\<lambda>x. x = Inr t"]
      split: if_split) blast

lemma safe_relative_path_Inr:
  "safe_relative_path f v = Inr t \<longleftrightarrow>
     t = strip v \<and> t \<noteq> [] \<and> length t \<le> 1024 \<and> 92 \<notin> set t \<and> hd t \<noteq> 47 \<and>
     \<not> contains t (lit ''://'') \<and> (\<forall>part\<in>set (split_char 47 t). part \<noteq> [] \<and> part \<noteq> lit ''..'') \<and>
     \<not> (length (hd (split_char 47 t)) = 2 \<and> hd (split_char 47 t) ! 1 = 58)"
  unfolding safe_relative_path_accepts contains_Cons list_ex_iff starts_with_char not_less
  by (rule iffI; elim conjE; simp)

text \<open>
  a path that the validator accepts, resolved in any directory, names something below that
  directory; it is not absolute in the POSIX or the drive-letter sense and has no backslash.
\<close>

theorem safe_relative_path_confined:
  assumes "safe_relative_path f v = Inr t"
  shows "t = strip v \<and> t \<noteq> [] \<and> hd t \<noteq> 47 \<and> 92 \<notin> set t \<and> \<not> (length t = 2 \<and> t ! 1 = 58) \<and>
    (\<exists>below. resolve root_dirs (split_char 47 t) = below @ root_dirs)"
proof -
  have t: "t = strip v" "t \<noteq> []" "92 \<notin> set t" "hd t \<noteq> 47"
    and parts: "\<forall>part\<in>set (split_char 47 t). part \<noteq> [] \<and> part \<noteq> lit ''..''"
    and drive: "\<not> (length (hd (split_char 47 t)) = 2 \<and> hd (split_char 47 t) ! 1 = 58)"
    using assms unfolding safe_relative_path_Inr by blast+
  have "[46, 46] \<notin> set (split_char 47 t)" using parts by (auto simp: lit_Cons)
  then have "\<exists>below. resolve root_dirs (split_char 47 t) = below @ root_dirs"
    by (rule resolve_below)
  moreover have "\<not> (length t = 2 \<and> t ! 1 = 58)"
  proof
    assume *: "length t = 2 \<and> t ! 1 = 58"
    then obtain c where c: "t = [c, 58]"
      by (cases t; cases "tl t") auto
    with \<open>hd t \<noteq> 47\<close> drive show False by simp
  qed
  ultimately show ?thesis using t by blast
qed

theorem safe_relative_path_confined_witness:
  "safe_relative_path ''path'' (lit '' a/b.md'') = Inr (lit ''a/b.md'') \<and>
   resolve [lit ''wiki''] (split_char 47 (lit ''a/b.md'')) = [lit ''b.md'', lit ''a'', lit ''wiki'']"
proof -
  have 1: "safe_relative_path ''path'' (lit '' a/b.md'') = Inr (lit ''a/b.md'')"
    by (simp add: py_eval)
  then show ?thesis
    using safe_relative_path_confined [OF 1, of "[lit ''wiki'']"] by (simp add: py_eval)
qed

section \<open>Reading a status\<close>

definition status_sep :: "nat \<Rightarrow> bool" where
  "status_sep c \<longleftrightarrow> is_space c \<or> c = 45"

lemma split_acc_replace:
  "split_acc is_space acc (replace_char 45 [32] s) = split_acc status_sep acc s"
  by (induction s arbitrary: acc) (auto simp: replace_char_def status_sep_def)

lemma split_acc_all_sep:
  "\<forall>c\<in>set s. p c \<Longrightarrow> split_acc p acc s = (if acc = [] then [] else [rev acc])"
  by (induction s arbitrary: acc) auto

lemma split_acc_sep_prefix: "\<forall>c\<in>set s. p c \<Longrightarrow> split_acc p [] (s @ t) = split_acc p [] t"
  by (induction s) auto

lemma split_acc_sep_suffix: "\<forall>c\<in>set t. p c \<Longrightarrow> split_acc p acc (s @ t) = split_acc p acc s"
  by (induction s arbitrary: acc) (auto simp: split_acc_all_sep)

lemma map_case_in_ranges:
  "list_all (\<lambda>(a, b). list_all (\<lambda>(lo, hi, step, offset). hi < a \<or> b < lo) rows \<and>
     list_all (\<lambda>(k, cs). k < a \<or> b < k) es) rs \<Longrightarrow> in_ranges rs c \<Longrightarrow> map_case rows es c = [c]"
  by (induction rs c rule: in_ranges.induct) (auto intro: map_case_outside)

lemma lower_char_space: "is_space c \<Longrightarrow> lower_char c = [c]"
  using map_case_in_ranges [of lower_rows lower_expansions space_ranges c]
  by (auto simp: is_space_def lower_char_def ascii_upper_def lower_rows_def lower_expansions_def
      space_ranges_def split: if_splits)

lemma lower_spaces: "\<forall>c\<in>set s. is_space c \<Longrightarrow> lower s = s"
  by (induction s) (auto simp: lower_char_space)

text \<open>
  the status of a page is compared word by word: leading, trailing and doubled blanks and any
  mixture of blanks and hyphens between the words make no difference.
\<close>

theorem visibility_status_words:
  "visibility_status v = join (lit ''_'') (split_acc status_sep [] (lower v))"
proof -
  obtain pre suf where v: "v = pre @ strip v @ suf"
    and sp: "\<forall>c\<in>set pre. is_space c" "\<forall>c\<in>set suf. is_space c"
    unfolding strip_def using strip_by_decomp [of v is_space] by (auto simp: list_all_iff)
  have "lower v = pre @ lower (strip v) @ suf"
    by (subst v) (simp add: lower_spaces sp)
  moreover have "\<forall>c\<in>set pre. status_sep c" "\<forall>c\<in>set suf. status_sep c"
    using sp by (auto simp: status_sep_def)
  ultimately have "split_acc status_sep [] (lower v) = split_acc status_sep [] (lower (strip v))"
    by (simp add: split_acc_sep_prefix split_acc_sep_suffix)
  then show ?thesis
    by (simp add: visibility_status_def split_ws_def split_acc_replace)
qed

end
