(* ===== verification/Graph_View.thy ===== *)
theory Graph_View
  imports Projection Validation
begin

text \<open>
  The graph view of \<open>service.py\<close>: the closed adjacency structure, seed resolution, the bounded
  neighbourhood walk, and the approved view, which removes what belongs to pages that may not be
  served. Set-valued parameters of the source (path sets, node sets) are sets here.
\<close>

section \<open>Views\<close>

record graph_view =
  gv_nodes :: "graph_node list"
  gv_edges :: "graph_edge list"
  gv_by_id :: "(ustr, graph_node) dict"
  gv_outgoing :: "(ustr, graph_edge list) dict"
  gv_incoming :: "(ustr, graph_edge list) dict"

definition group_edges :: "(graph_edge \<Rightarrow> ustr) \<Rightarrow> graph_edge list \<Rightarrow> (ustr, graph_edge list) dict" where
  "group_edges f es = fold (\<lambda>e. dict_append (f e) e) es []"

definition build_view :: "graph_node list \<Rightarrow> graph_edge list \<Rightarrow> graph_view" where
  "build_view nodes edges =
     (let ids = node_id ` set nodes;
          visible_edges = filter (\<lambda>e. edge_source e \<in> ids \<and> edge_target e \<in> ids) edges
      in \<lparr>gv_nodes = nodes, gv_edges = visible_edges,
          gv_by_id = dict_of (map (\<lambda>n. (node_id n, n)) nodes),
          gv_outgoing = group_edges edge_source visible_edges,
          gv_incoming = group_edges edge_target visible_edges\<rparr>)"

definition closed_graph_payload ::
  "graph_node list \<Rightarrow> graph_edge list \<Rightarrow> nat \<Rightarrow> graph_node list \<times> graph_edge list" where
  "closed_graph_payload nodes edges limit =
     (let limited = take limit nodes; ids = node_id ` set limited
      in (limited, take limit (filter (\<lambda>e. edge_source e \<in> ids \<and> edge_target e \<in> ids) edges)))"

definition view_payload :: "graph_view \<Rightarrow> nat \<Rightarrow> graph_node list \<times> graph_edge list" where
  "view_payload g limit = closed_graph_payload (gv_nodes g) (gv_edges g) limit"

section \<open>Seeds\<close>

definition in_view :: "graph_view \<Rightarrow> ustr \<Rightarrow> bool" where
  "in_view g i \<longleftrightarrow> map_of (gv_by_id g) i \<noteq> None"

definition normalize_graph_lookup :: "ustr \<Rightarrow> ustr" where
  "normalize_graph_lookup v = casefold (normalize_key v)"

text \<open>\<open>Path(p).stem\<close> of a path text: its last part that is neither empty nor a dot.\<close>

definition posix_stem :: "ustr \<Rightarrow> ustr" where
  "posix_stem p =
     (let parts = filter (\<lambda>part. part \<noteq> [] \<and> part \<noteq> [46]) (split_char 47 p)
      in if parts = [] then [] else path_stem (last parts))"

definition node_keys :: "graph_node \<Rightarrow> ustr list" where
  "node_keys n = map normalize_graph_lookup
     [node_id n, remove_prefix (lit ''page:'') (node_id n), node_label n, node_path n,
      if node_path n \<noteq> [] then posix_stem (node_path n) else []]"

definition resolve_seed :: "graph_view \<Rightarrow> ustr \<Rightarrow> ustr list" where
  "resolve_seed g seed =
     (if in_view g seed then [seed]
      else if in_view g (lit ''page:'' @ seed) then [lit ''page:'' @ seed]
      else if in_view g (lit ''page:'' @ slug seed) then [lit ''page:'' @ slug seed]
      else (let key = normalize_graph_lookup seed
            in take 10 (map node_id
                 (filter (\<lambda>n. key \<noteq> [] \<and> key \<in> set (node_keys n)) (gv_nodes g)))))"

fun resolve_seeds :: "graph_view \<Rightarrow> ustr list \<Rightarrow> ustr list \<times> ustr list \<Rightarrow> ustr list \<times> ustr list" where
  "resolve_seeds g [] (resolved, unmatched) = (resolved, unmatched)"
| "resolve_seeds g (seed # seeds) (resolved, unmatched) =
     (let matches = resolve_seed g seed
      in if matches = [] then resolve_seeds g seeds (resolved, unmatched @ [seed])
         else resolve_seeds g seeds
                (foldl (\<lambda>acc m. if m \<in> set acc then acc else acc @ [m]) resolved matches, unmatched))"

section \<open>Neighborhoods\<close>

definition view_edges ::
  "graph_view \<Rightarrow> ustr \<Rightarrow> direction \<Rightarrow> ustr set \<Rightarrow> (graph_edge \<times> ustr) list" where
  "view_edges g nid dir relation_set =
     (let outs = (if dir \<in> {Dir_out, Dir_both}
                  then map (\<lambda>e. (e, edge_target e)) (dict_get (gv_outgoing g) nid []) else []);
          ins = (if dir \<in> {Dir_in, Dir_both}
                 then map (\<lambda>e. (e, edge_source e)) (dict_get (gv_incoming g) nid []) else []);
          result = outs @ ins
      in if relation_set \<noteq> {} then filter (\<lambda>(e, adj). edge_relation e \<in> relation_set) result
         else result)"

record nb_state =
  nb_visited :: "ustr list"
  nb_visited_set :: "ustr set"
  nb_edges :: "graph_edge list"
  nb_edge_keys :: "(ustr \<times> ustr \<times> ustr) set"
  nb_next :: "ustr list"

definition nb_take_edge :: "graph_edge \<Rightarrow> nb_state \<Rightarrow> nb_state" where
  "nb_take_edge e s =
     (if edge_key e \<notin> nb_edge_keys s
      then s\<lparr>nb_edge_keys := insert (edge_key e) (nb_edge_keys s), nb_edges := nb_edges s @ [e]\<rparr>
      else s)"

definition nb_visit :: "graph_view \<Rightarrow> ustr \<Rightarrow> nb_state \<Rightarrow> nb_state" where
  "nb_visit g n s =
     (if n \<notin> nb_visited_set s \<and> in_view g n
      then s\<lparr>nb_visited_set := insert n (nb_visited_set s), nb_visited := nb_visited s @ [n],
             nb_next := nb_next s @ [n]\<rparr>
      else s)"

text \<open>The loop over the edges of one frontier node, and the loop over the frontier.\<close>

fun nb_scan_edges :: "graph_view \<Rightarrow> nat \<Rightarrow> (graph_edge \<times> ustr) list \<Rightarrow> nb_state \<Rightarrow> nb_state" where
  "nb_scan_edges g limit [] s = s"
| "nb_scan_edges g limit ((e, adj) # rest) s =
     (let s1 = nb_visit g adj (nb_take_edge e s)
      in if length (nb_visited s1) \<ge> limit then s1 else nb_scan_edges g limit rest s1)"

fun nb_scan_frontier ::
  "graph_view \<Rightarrow> direction \<Rightarrow> ustr set \<Rightarrow> nat \<Rightarrow> ustr list \<Rightarrow> nb_state \<Rightarrow> nb_state" where
  "nb_scan_frontier g dir rels limit [] s = s"
| "nb_scan_frontier g dir rels limit (n # ns) s =
     (let s1 = nb_scan_edges g limit (view_edges g n dir rels) s
      in if length (nb_visited s1) \<ge> limit then s1
         else nb_scan_frontier g dir rels limit ns s1)"

text \<open>\<open>for _step in range(depth)\<close>.\<close>

fun nb_steps ::
  "graph_view \<Rightarrow> direction \<Rightarrow> ustr set \<Rightarrow> nat \<Rightarrow> nat \<Rightarrow> ustr list \<Rightarrow> nb_state \<Rightarrow> nb_state" where
  "nb_steps g dir rels limit 0 frontier s = s"
| "nb_steps g dir rels limit (Suc d) frontier s =
     (if length (nb_visited s) \<ge> limit then s
      else (let s1 = nb_scan_frontier g dir rels limit frontier (s\<lparr>nb_next := []\<rparr>)
            in if nb_next s1 = [] then s1
               else nb_steps g dir rels limit d (nb_next s1) s1))"

definition nb_init :: "ustr list \<Rightarrow> nb_state" where
  "nb_init frontier = \<lparr>nb_visited = dedupe_on (\<lambda>i. i) {} frontier, nb_visited_set = set frontier,
     nb_edges = [], nb_edge_keys = {}, nb_next = []\<rparr>"

definition neighborhood ::
  "graph_view \<Rightarrow> ustr list \<Rightarrow> nat \<Rightarrow> direction \<Rightarrow> ustr list \<Rightarrow> nat \<Rightarrow>
   graph_node list \<times> graph_edge list" where
  "neighborhood g seeds depth dir relations limit =
     (if seeds = [] then ([], [])
      else let frontier = filter (in_view g) seeds;
               s = nb_steps g dir (set relations) limit depth frontier (nb_init frontier);
               returned = take limit (nb_visited s)
           in (List.map_filter (map_of (gv_by_id g)) returned,
               take limit (filter (\<lambda>e. edge_source e \<in> set returned \<and> edge_target e \<in> set returned)
                 (nb_edges s))))"

section \<open>The approved view\<close>

definition adjacent_non_page_nodes :: "graph_edge list \<Rightarrow> ustr set \<Rightarrow> ustr set" where
  "adjacent_non_page_nodes edges approved_pages =
     set (concat (map (\<lambda>e.
       if edge_source e \<notin> approved_pages \<and> edge_target e \<notin> approved_pages then []
       else (if starts_with (edge_source e) (lit ''page:'') then [] else [edge_source e]) @
            (if starts_with (edge_target e) (lit ''page:'') then [] else [edge_target e])) edges))"

definition approved_page_paths :: "wiki_index \<Rightarrow> (ustr, ustr) dict" where
  "approved_page_paths index =
     dict_of (map (\<lambda>p. (page_node_id p, page_path p)) (filter approved_for_serving (idx_pages index)))"

definition adjacent_path_step ::
  "(ustr, ustr) dict \<Rightarrow> graph_edge \<Rightarrow> (ustr, ustr) dict \<Rightarrow> (ustr, ustr) dict" where
  "adjacent_path_step page_paths e paths =
     (let source_path = dict_get page_paths (edge_source e) [];
          target_path = dict_get page_paths (edge_target e) [];
          paths1 = (if source_path \<noteq> [] \<and> \<not> starts_with (edge_target e) (lit ''page:'')
                    then dict_setdefault (edge_target e) source_path paths else paths)
      in if target_path \<noteq> [] \<and> \<not> starts_with (edge_source e) (lit ''page:'')
         then dict_setdefault (edge_source e) target_path paths1 else paths1)"

definition adjacent_non_page_paths :: "wiki_index \<Rightarrow> (ustr, ustr) dict" where
  "adjacent_non_page_paths index =
     fold (adjacent_path_step (approved_page_paths index)) (idx_edges index) []"

fun references_any_path :: "ustr set \<Rightarrow> pyval \<Rightarrow> bool" where
  "references_any_path paths (PStr s) = (\<exists>path\<in>paths. path \<noteq> [] \<and> contains s path)"
| "references_any_path paths (PDict kvs) = list_ex (\<lambda>(k, v). references_any_path paths v) kvs"
| "references_any_path paths (PList vs) = list_ex (references_any_path paths) vs"
| "references_any_path paths _ = False"

definition sanitize_graph_node_metadata ::
  "(ustr, pyval) dict \<Rightarrow> ustr set \<Rightarrow> (ustr, pyval) dict" where
  "sanitize_graph_node_metadata md unapproved_paths =
     filter (\<lambda>(k, v). \<not> references_any_path unapproved_paths v) md"

definition approved_graph_node :: "(ustr, ustr) dict \<Rightarrow> ustr set \<Rightarrow> graph_node \<Rightarrow> graph_node" where
  "approved_graph_node approved_adjacent_paths unapproved_paths n =
     (if starts_with (node_id n) (lit ''page:'') then n
      else n\<lparr>node_path := dict_get approved_adjacent_paths (node_id n) (node_path n),
             node_metadata := sanitize_graph_node_metadata (node_metadata n) unapproved_paths\<rparr>)"

definition approved_graph_view :: "wiki_index \<Rightarrow> graph_view" where
  "approved_graph_view index =
     (let approved = filter approved_for_serving (idx_pages index);
          approved_pages = page_node_id ` set approved;
          approved_paths = page_path ` set approved;
          unapproved_paths = page_path ` set (filter (\<lambda>p. \<not> approved_for_serving p) (idx_pages index));
          adjacent_nodes = adjacent_non_page_nodes (idx_edges index) approved_pages;
          adjacent_paths = adjacent_non_page_paths index;
          visible = (\<lambda>n. node_id n \<in> approved_pages \<or>
              (node_path n \<noteq> [] \<and> node_path n \<in> approved_paths) \<or> node_id n \<in> adjacent_nodes);
          visible_ids = node_id ` set (filter visible (idx_nodes index));
          nodes = map (approved_graph_node adjacent_paths unapproved_paths)
              (filter (\<lambda>n. node_id n \<in> visible_ids) (idx_nodes index));
          edges = filter (\<lambda>e. edge_source e \<in> visible_ids \<and> edge_target e \<in> visible_ids)
              (idx_edges index)
      in build_view nodes edges)"

definition all_graph_view :: "wiki_index \<Rightarrow> graph_view" where
  "all_graph_view index = build_view (idx_nodes index) (idx_edges index)"

section \<open>Requests on a view\<close>

definition normalize_relations :: "ustr list \<Rightarrow> ustr list" where
  "normalize_relations relations =
     dedupe_on (\<lambda>r. r) {} (filter (\<lambda>r. r \<noteq> []) (map canonical_relation relations))"

record neighborhood_response =
  nr_seeds :: "ustr list"
  nr_unmatched :: "ustr list"
  nr_depth :: nat
  nr_direction :: direction
  nr_relations :: "ustr list"
  nr_nodes :: "graph_node list"
  nr_edges :: "graph_edge list"

text \<open>
  \<open>graph_neighbors\<close> on the view of the request; \<open>depth\<close> and \<open>limit\<close> are Python integers, clamped
  by \<open>max(0, depth)\<close> and \<open>max(1, limit)\<close>.
\<close>

definition graph_neighbors ::
  "graph_view \<Rightarrow> ustr list \<Rightarrow> int \<Rightarrow> direction \<Rightarrow> ustr list \<Rightarrow> int \<Rightarrow> neighborhood_response" where
  "graph_neighbors g seeds depth dir relations limit =
     (let normalized = filter (\<lambda>s. s \<noteq> []) (map strip seeds);
          rels = normalize_relations relations;
          (resolved, unmatched) = resolve_seeds g normalized ([], []);
          (nodes, edges) = neighborhood g resolved (nat (max 0 depth)) dir rels (nat (max 1 limit))
      in \<lparr>nr_seeds = resolved, nr_unmatched = unmatched, nr_depth = nat (max 0 depth),
          nr_direction = dir, nr_relations = rels, nr_nodes = nodes, nr_edges = edges\<rparr>)"

end
