(* ===== verification/Graph_Engine.thy ===== *)
theory Graph_Engine
  imports Models
begin

text \<open>
  \<open>graph_engine.py\<close>: the in-memory graph query engine. A \<open>while queue\<close> loop is a function on
  a record of the loop's variables, with its termination proof: breadth-first search visits a node
  once, path enumeration only extends a path up to \<open>max_depth\<close>. A raised \<open>ValueError\<close> is an
  \<open>Inl\<close> result; its message is shortened to the part that does not depend on the request.
\<close>

section \<open>The view of a graph\<close>

record engine_view =
  ev_nodes :: "graph_node list"
  ev_edges :: "graph_edge list"
  ev_by_id :: "(ustr, graph_node) dict"
  ev_allowed :: "ustr set"

definition engine_view_of :: "graph_node list \<Rightarrow> graph_edge list \<Rightarrow> ustr list \<Rightarrow> engine_view" where
  "engine_view_of nodes edges relation_allowlist =
     \<lparr>ev_nodes = nodes, ev_edges = edges,
      ev_by_id = dict_of (map (\<lambda>n. (node_id n, n)) nodes),
      ev_allowed = set relation_allowlist\<rparr>"

definition known :: "engine_view \<Rightarrow> ustr \<Rightarrow> bool" where
  "known g i \<longleftrightarrow> map_of (ev_by_id g) i \<noteq> None"

definition require_node :: "engine_view \<Rightarrow> ustr \<Rightarrow> graph_node res" where
  "require_node g i =
     (case map_of (ev_by_id g) i of
        None \<Rightarrow> Inl (ValueError ''graph query referenced an unknown node'')
      | Some n \<Rightarrow> Inr n)"

definition iter_edges :: "engine_view \<Rightarrow> ustr list \<Rightarrow> (nat \<times> graph_edge) list" where
  "iter_edges g relation_allowlist =
     (let allowed = (if relation_allowlist \<noteq> [] then set relation_allowlist else ev_allowed g)
      in filter (\<lambda>(i, e). (allowed = {} \<or> edge_relation e \<in> allowed) \<and>
                   known g (edge_source e) \<and> known g (edge_target e))
           (List.enumerate 0 (ev_edges g)))"

definition adjacent :: "engine_view \<Rightarrow> ustr \<Rightarrow> direction \<Rightarrow> (nat \<times> ustr) list" where
  "adjacent g nid dir =
     concat (map (\<lambda>(i, e).
       (if dir \<in> {Dir_out, Dir_both} \<and> edge_source e = nid \<and> known g (edge_target e)
          then [(i, edge_target e)] else []) @
       (if dir \<in> {Dir_in, Dir_both} \<and> edge_target e = nid \<and> known g (edge_source e)
          then [(i, edge_source e)] else [])) (iter_edges g []))"

definition match_marker_ids :: "engine_view \<Rightarrow> ustr \<Rightarrow> string \<Rightarrow> string \<Rightarrow> ustr list" where
  "match_marker_ids g value marker_kind marker_prefix =
     (let candidates = {value} \<union>
            (if starts_with value (lit marker_prefix) then {} else {lit marker_prefix @ value})
      in map node_id (filter (\<lambda>n. node_kind n = lit marker_kind \<and>
           (node_id n \<in> candidates \<or> node_label n = value)) (ev_nodes g)))"

definition in_memory_capabilities :: provider_capabilities where
  "in_memory_capabilities = \<lparr>cap_backend_kind = lit ''in-memory'', cap_persistent = False,
     cap_local_only = True, cap_snapshot_cache = False, cap_structured_query = True,
     cap_raw_query = False, cap_vector_search = False, cap_full_text_search = False,
     cap_safe_for_default = True,
     cap_limitations = [lit ''Traversal runs over the hydrated projection in process memory.'']\<rparr>"

definition engine_response ::
  "engine_view \<Rightarrow> graph_query_request \<Rightarrow> ustr list \<Rightarrow> nat list \<Rightarrow> graph_query_path list \<Rightarrow>
   graph_query_response" where
  "engine_response g r ids eidx paths =
     (let closed = filter (\<lambda>e. edge_source e \<in> set ids \<and> edge_target e \<in> set ids)
            (map (\<lambda>i. ev_edges g ! i) (dedupe_on (\<lambda>i. i) {} eidx))
      in \<lparr>resp_provider = in_memory_capabilities, resp_operation = req_operation r,
          resp_nodes = List.map_filter (map_of (ev_by_id g)) ids,
          resp_edges = take (req_limit r) closed, resp_paths = paths\<rparr>)"

section \<open>Neighbors\<close>

record bfs_state =
  bfs_nodes :: "ustr list"
  bfs_edges :: "nat list"
  bfs_edge_set :: "nat set"
  bfs_visited :: "ustr set"
  bfs_queue :: "(ustr \<times> nat) list"

definition bfs_take_edge :: "nat \<Rightarrow> bfs_state \<Rightarrow> bfs_state" where
  "bfs_take_edge i s =
     (if i \<notin> bfs_edge_set s
      then s\<lparr>bfs_edge_set := insert i (bfs_edge_set s), bfs_edges := bfs_edges s @ [i]\<rparr>
      else s)"

definition bfs_visit :: "ustr \<Rightarrow> bfs_state \<Rightarrow> bfs_state" where
  "bfs_visit nx s = s\<lparr>bfs_visited := insert nx (bfs_visited s), bfs_nodes := bfs_nodes s @ [nx]\<rparr>"

definition bfs_push :: "ustr \<Rightarrow> nat \<Rightarrow> bfs_state \<Rightarrow> bfs_state" where
  "bfs_push nx depth s = s\<lparr>bfs_queue := bfs_queue s @ [(nx, depth)]\<rparr>"

text \<open>The \<open>for\<close> loop over the neighbours of the node popped at \<open>depth\<close>, with its \<open>break\<close>.\<close>

fun bfs_scan :: "nat \<Rightarrow> nat \<Rightarrow> (nat \<times> ustr) list \<Rightarrow> bfs_state \<Rightarrow> bfs_state" where
  "bfs_scan limit depth [] s = s"
| "bfs_scan limit depth ((i, nx) # adj) s =
     (if nx \<in> bfs_visited s then bfs_scan limit depth adj (bfs_take_edge i s)
      else if Suc (length (bfs_nodes s)) \<ge> limit then bfs_visit nx (bfs_take_edge i s)
      else bfs_scan limit depth adj (bfs_push nx (Suc depth) (bfs_visit nx (bfs_take_edge i s))))"

lemma bfs_step_simps [simp]:
  "bfs_nodes (bfs_take_edge i s) = bfs_nodes s" "bfs_visited (bfs_take_edge i s) = bfs_visited s"
  "bfs_queue (bfs_take_edge i s) = bfs_queue s" "bfs_nodes (bfs_visit n s) = bfs_nodes s @ [n]"
  "bfs_visited (bfs_visit n s) = insert n (bfs_visited s)"
  "bfs_queue (bfs_visit n s) = bfs_queue s" "bfs_edges (bfs_visit n s) = bfs_edges s"
  "bfs_edge_set (bfs_visit n s) = bfs_edge_set s"
  "bfs_nodes (bfs_push n d s) = bfs_nodes s" "bfs_visited (bfs_push n d s) = bfs_visited s"
  "bfs_queue (bfs_push n d s) = bfs_queue s @ [(n, d)]" "bfs_edges (bfs_push n d s) = bfs_edges s"
  "bfs_edge_set (bfs_push n d s) = bfs_edge_set s"
  by (auto simp: bfs_take_edge_def bfs_visit_def bfs_push_def)

text \<open>What one scan leaves of the loop variables: new nodes are unvisited neighbours.\<close>

definition bfs_grows :: "nat \<Rightarrow> (nat \<times> ustr) list \<Rightarrow> bfs_state \<Rightarrow> bfs_state \<Rightarrow> ustr list \<Rightarrow> bool" where
  "bfs_grows d adj s t new \<longleftrightarrow>
     bfs_nodes t = bfs_nodes s @ new \<and> bfs_visited t = bfs_visited s \<union> set new \<and>
     set new \<subseteq> snd ` set adj \<and> set new \<inter> bfs_visited s = {} \<and> distinct new \<and>
     (\<exists>pushed. bfs_queue t = bfs_queue s @ map (\<lambda>n. (n, Suc d)) pushed \<and> prefix pushed new)"

lemma bfs_scan_grows: "\<exists>new. bfs_grows d adj s (bfs_scan l d adj s) new"
proof (induction l d adj s rule: bfs_scan.induct)
  case (1 l d s)
  then show ?case by (auto simp: bfs_grows_def)
next
  case (2 l d i nx adj s)
  let ?s1 = "bfs_take_edge i s" and ?s3 = "bfs_push nx (Suc d) (bfs_visit nx (bfs_take_edge i s))"
  consider (old) "nx \<in> bfs_visited s" | (full) "nx \<notin> bfs_visited s" "l \<le> Suc (length (bfs_nodes s))"
    | (more) "nx \<notin> bfs_visited s" "\<not> l \<le> Suc (length (bfs_nodes s))"
    by blast
  then show ?case
  proof cases
    case old
    then obtain new where "bfs_grows d adj ?s1 (bfs_scan l d adj ?s1) new" using "2.IH"(1) by blast
    with old show ?thesis by (intro exI [of _ new]) (auto simp: bfs_grows_def)
  next
    case full
    then show ?thesis
      by (intro exI [of _ "[nx]"]) (auto simp: bfs_grows_def intro: exI [of _ "[]"])
  next
    case more
    then obtain new pushed where "bfs_grows d adj ?s3 (bfs_scan l d adj ?s3) new"
      and "bfs_queue (bfs_scan l d adj ?s3) = bfs_queue ?s3 @ map (\<lambda>n. (n, Suc d)) pushed"
      and "prefix pushed new"
      using "2.IH"(2) by (auto simp: bfs_grows_def)
    with more show ?thesis
      by (intro exI [of _ "nx # new"]) (auto simp: bfs_grows_def intro: exI [of _ "nx # pushed"])
  qed
qed

lemma in_iter_edges:
  "(i, e) \<in> set (iter_edges g allow) \<longleftrightarrow>
     i < length (ev_edges g) \<and> e = ev_edges g ! i \<and>
     ((if allow \<noteq> [] then set allow else ev_allowed g) = {} \<or>
      edge_relation e \<in> (if allow \<noteq> [] then set allow else ev_allowed g)) \<and>
     known g (edge_source e) \<and> known g (edge_target e)"
  unfolding iter_edges_def Let_def by (auto simp: in_set_enumerate_eq)

lemma direction_out: "dir \<in> {Dir_out, Dir_both} \<longleftrightarrow> dir \<noteq> Dir_in"
  and direction_in: "dir \<in> {Dir_in, Dir_both} \<longleftrightarrow> dir \<noteq> Dir_out"
  by (cases dir; simp)+

lemma adjacent_iff:
  "(i, b) \<in> set (adjacent g a dir) \<longleftrightarrow>
     i < length (ev_edges g) \<and>
     (ev_allowed g = {} \<or> edge_relation (ev_edges g ! i) \<in> ev_allowed g) \<and> known g a \<and> known g b \<and>
     ((dir \<noteq> Dir_in \<and> edge_source (ev_edges g ! i) = a \<and> edge_target (ev_edges g ! i) = b) \<or>
      (dir \<noteq> Dir_out \<and> edge_target (ev_edges g ! i) = a \<and> edge_source (ev_edges g ! i) = b))"
proof -
  have "(i, b) \<in> set (adjacent g a dir) \<longleftrightarrow>
    (\<exists>e. (i, e) \<in> set (iter_edges g []) \<and>
      ((dir \<noteq> Dir_in \<and> edge_source e = a \<and> known g (edge_target e) \<and> b = edge_target e) \<or>
       (dir \<noteq> Dir_out \<and> edge_target e = a \<and> known g (edge_source e) \<and> b = edge_source e)))"
    unfolding adjacent_def direction_out direction_in by (fastforce split: if_splits)
  then show ?thesis unfolding in_iter_edges by auto
qed

definition known_ids :: "engine_view \<Rightarrow> ustr set" where
  "known_ids g = {i. known g i}"

lemma finite_known [simp]: "finite (known_ids g)"
proof -
  have "known_ids g = dom (map_of (ev_by_id g))"
    by (auto simp: known_ids_def known_def)
  then show ?thesis by (simp add: finite_dom_map_of)
qed

lemma adjacent_known: "(i, b) \<in> set (adjacent g a dir) \<Longrightarrow> b \<in> known_ids g"
  by (simp add: adjacent_iff known_ids_def)

function (sequential) bfs_loop ::
  "engine_view \<Rightarrow> direction \<Rightarrow> nat \<Rightarrow> nat \<Rightarrow> bfs_state \<Rightarrow> bfs_state" where
  "bfs_loop g dir limit max_depth s =
     (case bfs_queue s of
        [] \<Rightarrow> s
      | (nid, depth) # queue \<Rightarrow>
          if length (bfs_nodes s) \<ge> limit then s
          else if depth \<ge> max_depth then bfs_loop g dir limit max_depth (s\<lparr>bfs_queue := queue\<rparr>)
          else bfs_loop g dir limit max_depth
                 (bfs_scan limit depth (adjacent g nid dir) (s\<lparr>bfs_queue := queue\<rparr>)))"
  by pat_completeness auto
termination
proof (relation "measures [\<lambda>(g, dir, l, m, s). card (known_ids g - bfs_visited s),
    \<lambda>(g, dir, l, m, s). length (bfs_queue s)]", goal_cases)
  case 1
  then show ?case by simp
next
  case (2 g dir l m s x queue nid depth)
  then show ?case by simp
next
  case (3 g dir l m s x queue nid depth)
  let ?s = "s\<lparr>bfs_queue := queue\<rparr>"
  obtain new where "bfs_grows depth (adjacent g nid dir) ?s
      (bfs_scan l depth (adjacent g nid dir) ?s) new"
    using bfs_scan_grows by blast
  then obtain pushed where new:
    "bfs_visited (bfs_scan l depth (adjacent g nid dir) ?s) = bfs_visited ?s \<union> set new"
    "set new \<subseteq> snd ` set (adjacent g nid dir)" "set new \<inter> bfs_visited ?s = {}"
    "bfs_queue (bfs_scan l depth (adjacent g nid dir) ?s) =
       bfs_queue ?s @ map (\<lambda>n. (n, Suc depth)) pushed" "prefix pushed new"
    by (auto simp: bfs_grows_def)
  show ?case
  proof (cases "new = []")
    case True
    with new 3 show ?thesis by simp
  next
    case False
    then obtain n where n: "n \<in> set new" by (cases new) auto
    then have "n \<in> known_ids g - bfs_visited s"
      using new(2,3) adjacent_known by fastforce
    with n have "known_ids g - (bfs_visited s \<union> set new) \<subset> known_ids g - bfs_visited s"
      by auto
    then have "card (known_ids g - (bfs_visited s \<union> set new)) < card (known_ids g - bfs_visited s)"
      by (intro psubset_card_mono) auto
    with new(1) show ?thesis by simp
  qed
qed

declare bfs_loop.simps [simp del]

definition engine_neighbors ::
  "engine_view \<Rightarrow> graph_query_request \<Rightarrow> direction \<Rightarrow> graph_query_response res" where
  "engine_neighbors g r dir =
     (if req_start r = [] then Inl (ValueError ''requires start_node_id'')
      else bind_res (require_node g (req_start r)) (\<lambda>_.
        let s = bfs_loop g dir (req_limit r) (req_max_depth r)
              \<lparr>bfs_nodes = [req_start r], bfs_edges = [], bfs_edge_set = {},
               bfs_visited = {req_start r}, bfs_queue = [(req_start r, 0)]\<rparr>
        in Inr (engine_response g r (bfs_nodes s) (bfs_edges s) [])))"

section \<open>Paths\<close>

text \<open>A queue entry of the path search: the last node, the nodes and the edge indexes so far.\<close>

type_synonym path_entry = "ustr \<times> ustr list \<times> nat list"

record paths_state =
  ps_paths :: "graph_query_path list"
  ps_nodes :: "ustr list"
  ps_edges :: "nat list"
  ps_queue :: "path_entry list"

definition append_new :: "'a list \<Rightarrow> 'a list \<Rightarrow> 'a list" where
  "append_new xs ys = foldl (\<lambda>acc y. if y \<in> set acc then acc else acc @ [y]) xs ys"

definition record_path :: "engine_view \<Rightarrow> ustr list \<Rightarrow> nat list \<Rightarrow> paths_state \<Rightarrow> paths_state" where
  "record_path g nodes edges s =
     s\<lparr>ps_paths := ps_paths s @
          [\<lparr>path_node_ids = nodes, path_edges = map (\<lambda>i. ev_edges g ! i) edges\<rparr>],
       ps_nodes := append_new (ps_nodes s) nodes, ps_edges := append_new (ps_edges s) edges\<rparr>"

fun paths_scan ::
  "engine_view \<Rightarrow> ustr \<Rightarrow> nat \<Rightarrow> ustr list \<Rightarrow> nat list \<Rightarrow> (nat \<times> ustr) list \<Rightarrow> paths_state \<Rightarrow>
   paths_state" where
  "paths_scan g target limit nodes edges [] s = s"
| "paths_scan g target limit nodes edges ((i, nx) # adj) s =
     (if nx \<in> set nodes then paths_scan g target limit nodes edges adj s
      else if nx = target then
        (let s1 = record_path g (nodes @ [nx]) (edges @ [i]) s
         in if length (ps_paths s1) \<ge> limit then s1
            else paths_scan g target limit nodes edges adj s1)
      else paths_scan g target limit nodes edges adj
             (s\<lparr>ps_queue := ps_queue s @ [(nx, nodes @ [nx], edges @ [i])]\<rparr>))"

text \<open>
  Termination: an entry whose path still may grow by \<open>k\<close> edges weighs \<open>(B + 1)\<^sup>k\<close>, where \<open>B\<close> is
  the number of edge ends. A scan replaces it by at most \<open>B\<close> entries that may grow by one less.
\<close>

definition entry_weight :: "engine_view \<Rightarrow> nat \<Rightarrow> path_entry \<Rightarrow> nat" where
  "entry_weight g max_depth q = (2 * length (ev_edges g) + 1) ^ (max_depth - length (snd (snd q)))"

lemma paths_scan_queue:
  "\<exists>new. ps_queue (paths_scan g t l nodes edges adj s) = ps_queue s @ new \<and>
     length new \<le> length adj \<and> (\<forall>q\<in>set new. length (snd (snd q)) = Suc (length edges))"
proof (induction g t l nodes edges adj s rule: paths_scan.induct)
  case (1 g t l nodes edges s)
  then show ?case by simp
next
  case (2 g t l nodes edges i nx adj s)
  let ?s1 = "record_path g (nodes @ [nx]) (edges @ [i]) s"
  let ?s2 = "s\<lparr>ps_queue := ps_queue s @ [(nx, nodes @ [nx], edges @ [i])]\<rparr>"
  have q1: "ps_queue (record_path g a b s) = ps_queue s" for a b by (simp add: record_path_def)
  consider (seen) "nx \<in> set nodes" | (stop) "nx \<notin> set nodes" "nx = t" "l \<le> length (ps_paths ?s1)"
    | (found) "nx \<notin> set nodes" "nx = t" "\<not> l \<le> length (ps_paths ?s1)"
    | (more) "nx \<notin> set nodes" "nx \<noteq> t"
    by blast
  then show ?case
  proof cases
    case seen
    with "2.IH"(1) show ?thesis by (auto intro: le_SucI)
  next
    case stop
    then show ?thesis by (intro exI [of _ "[]"]) (simp add: q1 Let_def)
  next
    case found
    with "2.IH"(2) [OF found(1,2) refl found(3)] show ?thesis
      by (auto simp: q1 Let_def intro: le_SucI)
  next
    case more
    with "2.IH"(3) [OF more] obtain new where
      "ps_queue (paths_scan g t l nodes edges adj ?s2) = ps_queue ?s2 @ new"
      "length new \<le> length adj" "\<forall>q\<in>set new. length (snd (snd q)) = Suc (length edges)"
      by blast
    with more show ?thesis
      by (intro exI [of _ "(nx, nodes @ [nx], edges @ [i]) # new"]) simp
  qed
qed

lemma length_concat_bound:
  "(\<And>x. length (f x) \<le> n) \<Longrightarrow> length (concat (map f xs)) \<le> n * length xs"
proof (induction xs)
  case Nil
  then show ?case by simp
next
  case (Cons x xs)
  have "length (f x) + length (concat (map f xs)) \<le> n + n * length xs"
    by (intro add_mono Cons)
  then show ?case by simp
qed

lemma length_adjacent: "length (adjacent g a dir) \<le> 2 * length (ev_edges g)"
proof -
  have "length (adjacent g a dir) \<le> 2 * length (iter_edges g [])"
    unfolding adjacent_def by (rule length_concat_bound) (simp split: prod.split)
  also have "length (iter_edges g []) \<le> length (ev_edges g)"
    unfolding iter_edges_def Let_def using length_filter_le [of _ "List.enumerate 0 (ev_edges g)"]
    by simp
  finally show ?thesis by simp
qed

function (sequential) paths_loop ::
  "engine_view \<Rightarrow> direction \<Rightarrow> ustr \<Rightarrow> nat \<Rightarrow> nat \<Rightarrow> paths_state \<Rightarrow> paths_state" where
  "paths_loop g dir target limit max_depth s =
     (case ps_queue s of
        [] \<Rightarrow> s
      | (nid, nodes, edges) # queue \<Rightarrow>
          if length (ps_paths s) \<ge> limit then s
          else if length edges \<ge> max_depth
            then paths_loop g dir target limit max_depth (s\<lparr>ps_queue := queue\<rparr>)
          else paths_loop g dir target limit max_depth
                 (paths_scan g target limit nodes edges (adjacent g nid dir) (s\<lparr>ps_queue := queue\<rparr>)))"
  by pat_completeness auto
termination
proof (relation "measure (\<lambda>(g, dir, t, l, m, s). sum_list (map (entry_weight g m) (ps_queue s)))",
    goal_cases)
  case 1
  then show ?case by simp
next
  case (2 g dir t l m s x queue nid y nodes edges)
  then show ?case by (simp add: entry_weight_def)
next
  case (3 g dir t l m s x queue nid y nodes edges)
  let ?s = "s\<lparr>ps_queue := queue\<rparr>" and ?B = "2 * length (ev_edges g)"
  obtain new where new:
    "ps_queue (paths_scan g t l nodes edges (adjacent g nid dir) ?s) = queue @ new"
    "length new \<le> length (adjacent g nid dir)"
    "\<forall>q\<in>set new. length (snd (snd q)) = Suc (length edges)"
    using paths_scan_queue [of g t l nodes edges "adjacent g nid dir" ?s] by auto
  obtain k where k: "m - length edges = Suc k" using 3 by (metis Suc_diff_Suc not_le)
  have "map (entry_weight g m) new = map (\<lambda>_. (?B + 1) ^ k) new"
  proof (intro map_cong refl)
    fix q assume "q \<in> set new"
    with new(3) have "length (snd (snd q)) = Suc (length edges)" by blast
    then have "m - length (snd (snd q)) = k" using k by linarith
    then show "entry_weight g m q = (?B + 1) ^ k" by (simp add: entry_weight_def)
  qed
  then have "sum_list (map (entry_weight g m) new) = length new * (?B + 1) ^ k"
    by (simp only: sum_list_triv) simp
  also have "\<dots> \<le> ?B * (?B + 1) ^ k"
    using new(2) length_adjacent [of g nid dir] by (intro mult_right_mono) auto
  also have "\<dots> < (?B + 1) ^ Suc k" by simp
  finally have "sum_list (map (entry_weight g m) new) < entry_weight g m (nid, nodes, edges)"
    by (simp add: entry_weight_def k)
  with 3 show ?case by (simp add: new(1))
qed

declare paths_loop.simps [simp del]

definition engine_paths ::
  "engine_view \<Rightarrow> graph_query_request \<Rightarrow> graph_query_response res" where
  "engine_paths g r =
     (if req_start r = [] \<or> req_target r = []
        then Inl (ValueError ''paths requires start_node_id and target_node_id'')
      else bind_res (require_node g (req_start r)) (\<lambda>_.
        bind_res (require_node g (req_target r)) (\<lambda>_.
        if req_start r = req_target r
          then Inr (engine_response g r [req_start r] []
                 [\<lparr>path_node_ids = [req_start r], path_edges = []\<rparr>])
        else let s = paths_loop g (req_direction r) (req_target r) (req_limit r) (req_max_depth r)
                   \<lparr>ps_paths = [], ps_nodes = [], ps_edges = [],
                    ps_queue = [(req_start r, [req_start r], [])]\<rparr>
             in Inr (engine_response g r (ps_nodes s) (ps_edges s) (ps_paths s)))))"

section \<open>Marker nodes\<close>

text \<open>The inner loop over the marker's edges; the flag tells that it ended by \<open>break\<close>.\<close>

fun marker_scan ::
  "nat \<Rightarrow> ustr \<Rightarrow> (nat \<times> graph_edge) list \<Rightarrow> ustr list \<times> nat list \<Rightarrow> ustr list \<times> nat list" where
  "marker_scan limit marker [] s = s"
| "marker_scan limit marker ((i, e) # es) (ids, idxs) =
     (if edge_target e \<noteq> marker then marker_scan limit marker es (ids, idxs)
      else (let ids1 = (if edge_source e \<in> set ids then ids else ids @ [edge_source e]);
                s1 = (ids1, idxs @ [i])
            in if length ids1 \<ge> limit then s1 else marker_scan limit marker es s1))"

fun marker_loop ::
  "engine_view \<Rightarrow> nat \<Rightarrow> ustr \<Rightarrow> ustr list \<Rightarrow> ustr list \<times> nat list \<Rightarrow> ustr list \<times> nat list" where
  "marker_loop g limit relation [] s = s"
| "marker_loop g limit relation (marker # markers) (ids, idxs) =
     (let ids1 = (if marker \<in> set ids then ids else ids @ [marker]);
          s1 = marker_scan limit marker (iter_edges g [relation]) (ids1, idxs)
      in if length (fst s1) \<ge> limit then s1 else marker_loop g limit relation markers s1)"

definition by_marker_node ::
  "engine_view \<Rightarrow> graph_query_request \<Rightarrow> ustr \<Rightarrow> string \<Rightarrow> string \<Rightarrow> string \<Rightarrow>
   graph_query_response res" where
  "by_marker_node g r marker_value marker_kind marker_prefix relation =
     (if marker_value = [] then Inl (ValueError (''requires '' @ marker_kind))
      else let (ids, idxs) = marker_loop g (req_limit r) (lit relation)
                 (match_marker_ids g marker_value marker_kind marker_prefix) ([], [])
           in Inr (engine_response g r ids idxs []))"

section \<open>The query dispatch\<close>

definition engine_query ::
  "graph_node list \<Rightarrow> graph_edge list \<Rightarrow> graph_query_request \<Rightarrow> graph_query_response res" where
  "engine_query nodes edges r =
     (let g = engine_view_of nodes edges (req_relations r)
      in case req_operation r of
           Op_neighbors \<Rightarrow> engine_neighbors g r (req_direction r)
         | Op_backlinks \<Rightarrow> engine_neighbors g r Dir_in
         | Op_paths \<Rightarrow> engine_paths g r
         | Op_by_source_ref \<Rightarrow>
             by_marker_node g r (req_source_ref r) ''source_ref'' ''source:'' ''cites''
         | Op_by_tag \<Rightarrow> by_marker_node g r (req_tag r) ''tag'' ''tag:'' ''tagged'')"

end
