(* ===== verification/Graph_Engine_Props.thy ===== *)
theory Graph_Engine_Props
  imports Graph_Engine
begin

text \<open>
  What a graph query returns: nodes and edges of the graph it was given and nothing else, within
  the request's limits; the neighbourhood is exactly the set of nodes within \<open>max_depth\<close> steps
  unless the limit cuts it, and the paths are exactly the simple paths.
\<close>

section \<open>Selections and responses\<close>

lemma view_simps [simp]:
  "ev_nodes (engine_view_of ns es al) = ns" "ev_edges (engine_view_of ns es al) = es"
  "ev_allowed (engine_view_of ns es al) = set al"
  by (simp_all add: engine_view_of_def)

lemma view_lookup:
  "map_of (ev_by_id (engine_view_of ns es al)) i = Some n \<Longrightarrow> n \<in> set ns \<and> node_id n = i"
  by (auto simp: engine_view_of_def map_of_dict_of dest!: map_of_SomeD)

lemma known_iff [simp]: "known (engine_view_of ns es al) i \<longleftrightarrow> i \<in> node_id ` set ns"
  by (force simp: known_def engine_view_of_def map_of_dict_of map_of_eq_None_iff)

lemma known_ids_iff [simp]: "known_ids (engine_view_of ns es al) = node_id ` set ns"
  by (simp add: known_ids_def)

text \<open>What every loop keeps of its selection: known distinct nodes, edge indexes in range.\<close>

definition selection :: "engine_view \<Rightarrow> ustr list \<Rightarrow> nat list \<Rightarrow> bool" where
  "selection g ids idxs \<longleftrightarrow> set ids \<subseteq> known_ids g \<and> distinct ids \<and>
     (\<forall>i\<in>set idxs. i < length (ev_edges g))"

lemma response_nodes:
  assumes "set ids \<subseteq> known_ids (engine_view_of ns es al)"
  shows "map node_id (resp_nodes (engine_response (engine_view_of ns es al) r ids idxs ps)) = ids"
    and "set (resp_nodes (engine_response (engine_view_of ns es al) r ids idxs ps)) \<subseteq> set ns"
proof -
  let ?f = "map_of (ev_by_id (engine_view_of ns es al))"
  have "map node_id (List.map_filter ?f ids) = ids \<and> set (List.map_filter ?f ids) \<subseteq> set ns"
    using assms
  proof (induction ids)
    case Nil
    then show ?case by (simp add: List.map_filter_def)
  next
    case (Cons i ids)
    then have "known (engine_view_of ns es al) i" by simp
    then obtain n where "?f i = Some n" by (auto simp: known_def)
    with Cons view_lookup [OF this] show ?case by (simp add: List.map_filter_def)
  qed
  then show "map node_id (resp_nodes (engine_response (engine_view_of ns es al) r ids idxs ps)) = ids"
    and "set (resp_nodes (engine_response (engine_view_of ns es al) r ids idxs ps)) \<subseteq> set ns"
    by (simp_all add: engine_response_def Let_def)
qed

lemma response_simps [simp]:
  "resp_paths (engine_response g r ids idxs ps) = ps" "resp_operation (engine_response g r ids idxs ps) = req_operation r"
  "resp_provider (engine_response g r ids idxs ps) = in_memory_capabilities"
  "length (resp_edges (engine_response g r ids idxs ps)) \<le> req_limit r"
  by (simp_all add: engine_response_def Let_def)

lemma response_edges:
  assumes "\<forall>i\<in>set idxs. i < length (ev_edges g)" and "e \<in> set (resp_edges (engine_response g r ids idxs ps))"
  shows "\<exists>i\<in>set idxs. e = ev_edges g ! i \<and> edge_source e \<in> set ids \<and> edge_target e \<in> set ids"
  using assms(2) set_dedupe_on [of "\<lambda>i. i" "{}" idxs]
  by (fastforce simp: engine_response_def Let_def dest!: in_set_takeD)

section \<open>The interface of a graph engine\<close>

text \<open>
  The protocol \<open>GraphEngineProvider\<close>: whatever the engine is, its answer is part of the graph it
  was handed. The service relies on nothing more.
\<close>

locale graph_engine =
  fixes answer :: "graph_node list \<Rightarrow> graph_edge list \<Rightarrow> graph_query_request \<Rightarrow> graph_query_response res"
  assumes answer_nodes: "answer ns es r = Inr resp \<Longrightarrow> valid_request r \<Longrightarrow> set (resp_nodes resp) \<subseteq> set ns"
    and answer_edges: "answer ns es r = Inr resp \<Longrightarrow> valid_request r \<Longrightarrow> set (resp_edges resp) \<subseteq> set es"
    and answer_paths: "answer ns es r = Inr resp \<Longrightarrow> valid_request r \<Longrightarrow> p \<in> set (resp_paths resp) \<Longrightarrow>
      set (path_node_ids p) \<subseteq> node_id ` set ns \<and> set (path_edges p) \<subseteq> set es"
begin

text \<open>A property of all nodes and edges handed over holds of all nodes and edges returned.\<close>

lemma answer_keeps:
  assumes "answer ns es r = Inr resp" and "valid_request r"
    and "\<And>n. n \<in> set ns \<Longrightarrow> P n" and "\<And>e. e \<in> set es \<Longrightarrow> Q e"
  shows "(\<forall>n\<in>set (resp_nodes resp). P n) \<and> (\<forall>e\<in>set (resp_edges resp). Q e) \<and>
    (\<forall>p\<in>set (resp_paths resp). \<forall>e\<in>set (path_edges p). Q e)"
  using assms answer_nodes answer_edges answer_paths by (meson subsetD)

end

section \<open>Breadth-first search\<close>

text \<open>A proof rule for the loop, with the condition under which it ends.\<close>

lemma bfs_loop_rule:
  assumes "P s"
    and "\<And>s nid depth queue. P s \<Longrightarrow> bfs_queue s = (nid, depth) # queue \<Longrightarrow>
           length (bfs_nodes s) < limit \<Longrightarrow> m \<le> depth \<Longrightarrow> P (s\<lparr>bfs_queue := queue\<rparr>)"
    and "\<And>s nid depth queue. P s \<Longrightarrow> bfs_queue s = (nid, depth) # queue \<Longrightarrow>
           length (bfs_nodes s) < limit \<Longrightarrow> depth < m \<Longrightarrow>
           P (bfs_scan limit depth (adjacent g nid dir) (s\<lparr>bfs_queue := queue\<rparr>))"
  shows "P (bfs_loop g dir limit m s) \<and>
    (bfs_queue (bfs_loop g dir limit m s) = [] \<or>
     limit \<le> length (bfs_nodes (bfs_loop g dir limit m s)))"
  using assms
proof (induction g dir limit m s rule: bfs_loop.induct)
  case (1 g dir limit m s)
  show ?case
  proof (cases "bfs_queue s")
    case Nil
    then show ?thesis using "1.prems"(1) by (subst (1 2 3) bfs_loop.simps) simp
  next
    case (Cons q queue)
    obtain nid depth where q: "q = (nid, depth)" by (rule prod.exhaust)
    consider (full) "limit \<le> length (bfs_nodes s)"
      | (deep) "\<not> limit \<le> length (bfs_nodes s)" "m \<le> depth"
      | (scan) "\<not> limit \<le> length (bfs_nodes s)" "\<not> m \<le> depth"
      by blast
    then show ?thesis
    proof cases
      case full
      then show ?thesis using "1.prems"(1) Cons q by (subst (1 2 3) bfs_loop.simps) simp
    next
      case deep
      have eq: "bfs_loop g dir limit m s = bfs_loop g dir limit m (s\<lparr>bfs_queue := queue\<rparr>)"
        using Cons q deep by (subst bfs_loop.simps) simp
      show ?thesis unfolding eq
        by (rule "1.IH"(1) [OF Cons [unfolded q] refl deep]) (use "1.prems" Cons q deep in auto)
    next
      case scan
      have eq: "bfs_loop g dir limit m s =
          bfs_loop g dir limit m (bfs_scan limit depth (adjacent g nid dir) (s\<lparr>bfs_queue := queue\<rparr>))"
        using Cons q scan by (subst bfs_loop.simps) simp
      show ?thesis unfolding eq
        by (rule "1.IH"(2) [OF Cons [unfolded q] refl scan]) (use "1.prems" Cons q scan in auto)
    qed
  qed
qed

text \<open>Nodes that can be reached by exactly \<open>k\<close> steps.\<close>

inductive walk :: "engine_view \<Rightarrow> direction \<Rightarrow> ustr \<Rightarrow> nat \<Rightarrow> ustr \<Rightarrow> bool"
  for g dir a where
  walk_start: "walk g dir a 0 a"
| walk_step: "walk g dir a k b \<Longrightarrow> (i, c) \<in> set (adjacent g b dir) \<Longrightarrow> walk g dir a (Suc k) c"

inductive_cases walk_SucE: "walk g dir a (Suc k) c"
inductive_cases walk_0E: "walk g dir a 0 c"

lemma bfs_scan_limit:
  "length (bfs_nodes s) < l \<Longrightarrow> length (bfs_nodes (bfs_scan l d adj s)) \<le> l"
  by (induction l d adj s rule: bfs_scan.induct) auto

lemma bfs_take_edge_edges:
  "x \<in> set (bfs_edges (bfs_take_edge i s)) \<Longrightarrow> x = i \<or> x \<in> set (bfs_edges s)"
  by (auto simp: bfs_take_edge_def split: if_splits)

lemma bfs_scan_edges: "set (bfs_edges (bfs_scan l d adj s)) \<subseteq> set (bfs_edges s) \<union> fst ` set adj"
proof (induction l d adj s rule: bfs_scan.induct)
  case (2 l d i nx adj s)
  then show ?case by (fastforce dest: bfs_take_edge_edges split: if_splits)
qed simp

definition bfs_sound :: "engine_view \<Rightarrow> direction \<Rightarrow> nat \<Rightarrow> nat \<Rightarrow> ustr \<Rightarrow> bfs_state \<Rightarrow> bool" where
  "bfs_sound g dir limit m a s \<longleftrightarrow>
     selection g (bfs_nodes s) (bfs_edges s) \<and> bfs_visited s = set (bfs_nodes s) \<and>
     length (bfs_nodes s) \<le> limit \<and> (\<exists>ns. bfs_nodes s = a # ns) \<and>
     (\<forall>n\<in>set (bfs_nodes s). \<exists>k\<le>m. walk g dir a k n) \<and>
     (\<forall>(n, d)\<in>set (bfs_queue s). walk g dir a d n) \<and>
     (\<forall>i\<in>set (bfs_edges s). ev_allowed g = {} \<or> edge_relation (ev_edges g ! i) \<in> ev_allowed g)"

lemma bfs_sound_scan:
  assumes s: "bfs_sound g dir limit m a s" and q: "bfs_queue s = (nid, depth) # queue"
    and small: "length (bfs_nodes s) < limit" and d: "depth < m"
  shows "bfs_sound g dir limit m a (bfs_scan limit depth (adjacent g nid dir) (s\<lparr>bfs_queue := queue\<rparr>))"
proof -
  let ?adj = "adjacent g nid dir" and ?s = "s\<lparr>bfs_queue := queue\<rparr>"
  let ?t = "bfs_scan limit depth ?adj ?s"
  obtain new where "bfs_grows depth ?adj ?s ?t new" using bfs_scan_grows by blast
  then obtain pushed where new: "bfs_nodes ?t = bfs_nodes s @ new"
      "bfs_visited ?t = bfs_visited s \<union> set new" "set new \<subseteq> snd ` set ?adj"
      "set new \<inter> bfs_visited s = {}" "distinct new"
      "bfs_queue ?t = queue @ map (\<lambda>n. (n, Suc depth)) pushed" "set pushed \<subseteq> set new"
    by (auto simp: bfs_grows_def dest: set_mono_prefix)
  have nid: "walk g dir a depth nid" using s q by (auto simp: bfs_sound_def)
  then have walk: "walk g dir a (Suc depth) n" if "n \<in> set new" for n
    using that new(3) by (force intro: walk_step [OF nid])
  have edges: "i < length (ev_edges g) \<and>
      (ev_allowed g = {} \<or> edge_relation (ev_edges g ! i) \<in> ev_allowed g)" if "i \<in> set (bfs_edges ?t)" for i
    using that s bfs_scan_edges [of limit depth ?adj ?s]
    by (auto simp: bfs_sound_def selection_def adjacent_iff)
  have "length (bfs_nodes ?t) \<le> limit" using small by (intro bfs_scan_limit) simp
  moreover have "selection g (bfs_nodes ?t) (bfs_edges ?t)"
  proof -
    have "set new \<subseteq> known_ids g" using new(3) adjacent_known by fastforce
    then show ?thesis using s new(1,2,4,5) edges by (auto simp: bfs_sound_def selection_def)
  qed
  moreover have "\<exists>k\<le>m. walk g dir a k n" if "n \<in> set (bfs_nodes ?t)" for n
  proof (cases "n \<in> set new")
    case True
    then show ?thesis using walk d by (intro exI [of _ "Suc depth"]) auto
  next
    case False
    then show ?thesis using that s new(1) by (auto simp: bfs_sound_def)
  qed
  moreover have "walk g dir a e n" if "(n, e) \<in> set (bfs_queue ?t)" for n e
    using that s new(6,7) walk q by (auto simp: bfs_sound_def)
  ultimately show ?thesis
    using s new(1,2) edges by (auto simp: bfs_sound_def)
qed

lemma bfs_sound_skip:
  "bfs_sound g dir limit m a s \<Longrightarrow> bfs_queue s = q # queue \<Longrightarrow>
   bfs_sound g dir limit m a (s\<lparr>bfs_queue := queue\<rparr>)"
  by (auto simp: bfs_sound_def)

lemma bfs_sound_loop:
  assumes "bfs_sound g dir limit m a s"
  shows "bfs_sound g dir limit m a (bfs_loop g dir limit m s)"
  using bfs_loop_rule [where P = "bfs_sound g dir limit m a", OF assms]
  by (blast intro: bfs_sound_scan bfs_sound_skip)

text \<open>
  A scan that does not reach the limit visits every neighbour and queues every new node.
\<close>

lemma bfs_scan_full:
  assumes "length (bfs_nodes (bfs_scan l d adj s)) < l"
  shows "snd ` set adj \<subseteq> bfs_visited (bfs_scan l d adj s) \<and>
    (\<exists>new. bfs_nodes (bfs_scan l d adj s) = bfs_nodes s @ new \<and>
       bfs_queue (bfs_scan l d adj s) = bfs_queue s @ map (\<lambda>n. (n, Suc d)) new)"
  using assms
proof (induction l d adj s rule: bfs_scan.induct)
  case (1 l d s)
  then show ?case by simp
next
  case (2 l d i nx adj s)
  let ?s3 = "bfs_push nx (Suc d) (bfs_visit nx (bfs_take_edge i s))"
  have visited: "bfs_visited t \<subseteq> bfs_visited (bfs_scan l d adj t)" for t
    using bfs_scan_grows [of d adj t l] by (auto simp: bfs_grows_def)
  show ?case
  proof (cases "nx \<in> bfs_visited s")
    case True
    then show ?thesis using 2 visited [of "bfs_take_edge i s"] by auto
  next
    case False
    then have more: "\<not> l \<le> Suc (length (bfs_nodes s))" using "2.prems" by (auto split: if_splits)
    have "snd ` set adj \<subseteq> bfs_visited (bfs_scan l d adj ?s3) \<and>
      (\<exists>new. bfs_nodes (bfs_scan l d adj ?s3) = bfs_nodes ?s3 @ new \<and>
         bfs_queue (bfs_scan l d adj ?s3) = bfs_queue ?s3 @ map (\<lambda>n. (n, Suc d)) new)"
      using "2.IH"(2) [OF False more] "2.prems" False more by simp
    then obtain new where "snd ` set adj \<subseteq> bfs_visited (bfs_scan l d adj ?s3)"
      "bfs_nodes (bfs_scan l d adj ?s3) = bfs_nodes ?s3 @ new"
      "bfs_queue (bfs_scan l d adj ?s3) = bfs_queue ?s3 @ map (\<lambda>n. (n, Suc d)) new"
      by blast
    then show ?thesis
      using False more visited [of ?s3] by (auto intro: exI [of _ "nx # new"])
  qed
qed

text \<open>
  The invariant behind completeness: every visited node has a depth; the queue is ordered by it and
  nobody is deeper than one below the queue's head; the neighbours of a node that has left the
  queue are visited and at most one deeper.
\<close>

definition bfs_levels ::
  "engine_view \<Rightarrow> direction \<Rightarrow> nat \<Rightarrow> ustr \<Rightarrow> (ustr \<Rightarrow> nat) \<Rightarrow> bfs_state \<Rightarrow> bool" where
  "bfs_levels g dir m a dep s \<longleftrightarrow>
     a \<in> bfs_visited s \<and> dep a = 0 \<and>
     (\<forall>n d. (n, d) \<in> set (bfs_queue s) \<longrightarrow> n \<in> bfs_visited s \<and> dep n = d) \<and>
     sorted (map snd (bfs_queue s)) \<and>
     (bfs_queue s \<noteq> [] \<longrightarrow> (\<forall>v\<in>bfs_visited s. dep v \<le> Suc (snd (hd (bfs_queue s))))) \<and>
     (\<forall>v i b. v \<in> bfs_visited s \<longrightarrow> v \<notin> fst ` set (bfs_queue s) \<longrightarrow> dep v < m \<longrightarrow>
        (i, b) \<in> set (adjacent g v dir) \<longrightarrow> b \<in> bfs_visited s \<and> dep b \<le> Suc (dep v))"

lemma bfs_levels_pop:
  assumes "bfs_levels g dir m a dep s" and "bfs_queue s = (nid, d) # queue" and "m \<le> d"
  shows "bfs_levels g dir m a dep (s\<lparr>bfs_queue := queue\<rparr>)"
proof -
  have nid: "dep nid = d" using assms by (auto simp: bfs_levels_def)
  have head: "dep v \<le> Suc (snd (hd queue))" if "queue \<noteq> []" "v \<in> bfs_visited s" for v
  proof -
    have "d \<le> snd (hd queue)" using assms that(1) by (cases queue) (auto simp: bfs_levels_def)
    moreover have "dep v \<le> Suc d" using assms that(2) by (auto simp: bfs_levels_def)
    ultimately show ?thesis by linarith
  qed
  have nb: "b \<in> bfs_visited s \<and> dep b \<le> Suc (dep v)"
    if v: "v \<in> bfs_visited s" "v \<notin> fst ` set queue" "dep v < m" "(i, b) \<in> set (adjacent g v dir)" for v i b
  proof -
    have "v \<noteq> nid" using v(3) assms(3) nid by auto
    with v assms(1,2) show ?thesis by (auto simp: bfs_levels_def)
  qed
  show ?thesis
    unfolding bfs_levels_def using assms(1,2) head nb
    by (intro conjI) (auto simp: bfs_levels_def)
qed

lemma bfs_levels_scan:
  assumes lv: "bfs_levels g dir m a dep s" and q: "bfs_queue s = (nid, d) # queue"
    and full: "length (bfs_nodes (bfs_scan l d (adjacent g nid dir) (s\<lparr>bfs_queue := queue\<rparr>))) < l"
  shows "\<exists>dep'. bfs_levels g dir m a dep' (bfs_scan l d (adjacent g nid dir) (s\<lparr>bfs_queue := queue\<rparr>))"
proof -
  let ?adj = "adjacent g nid dir" and ?s = "s\<lparr>bfs_queue := queue\<rparr>"
  let ?t = "bfs_scan l d ?adj ?s"
  obtain new where "bfs_grows d ?adj ?s ?t new" using bfs_scan_grows by blast
  moreover obtain new' where "bfs_nodes ?t = bfs_nodes ?s @ new'"
      "bfs_queue ?t = bfs_queue ?s @ map (\<lambda>n. (n, Suc d)) new'" "snd ` set ?adj \<subseteq> bfs_visited ?t"
    using bfs_scan_full [OF full] by blast
  ultimately have new: "bfs_visited ?t = bfs_visited s \<union> set new" "set new \<inter> bfs_visited s = {}"
      "bfs_queue ?t = queue @ map (\<lambda>n. (n, Suc d)) new" "snd ` set ?adj \<subseteq> bfs_visited ?t"
    by (auto simp: bfs_grows_def)
  define dep' where "dep' n = (if n \<in> set new then Suc d else dep n)" for n
  have old: "dep' n = dep n" if "n \<in> bfs_visited s" for n
    using that new(2) by (auto simp: dep'_def)
  have dnid: "dep nid = d" "nid \<in> bfs_visited s" using lv q by (auto simp: bfs_levels_def)
  have le: "dep v \<le> Suc d" if "v \<in> bfs_visited s" for v
    using that lv q by (auto simp: bfs_levels_def)
  then have le': "dep' v \<le> Suc d" if "v \<in> bfs_visited ?t" for v
    using that new(1) by (auto simp: dep'_def)
  have qdep: "n \<in> bfs_visited s \<and> dep n = e" if "(n, e) \<in> set queue" for n e
    using that lv q by (auto simp: bfs_levels_def)
  have "sorted (map snd queue)" "\<forall>e\<in>set (map snd queue). d \<le> e"
    using lv q by (auto simp: bfs_levels_def)
  moreover from qdep le have "\<forall>e\<in>set (map snd queue). e \<le> Suc d" by fastforce
  ultimately have sorted: "sorted (map snd (bfs_queue ?t))"
    by (auto simp: new(3) sorted_append comp_def map_replicate_const)
  have head: "d \<le> snd (hd (bfs_queue ?t))" if "bfs_queue ?t \<noteq> []"
    using that \<open>\<forall>e\<in>set (map snd queue). d \<le> e\<close> unfolding new(3) by (cases queue; cases new) auto
  have nb: "b \<in> bfs_visited ?t \<and> dep' b \<le> Suc (dep' v)"
    if "v \<in> bfs_visited ?t" "v \<notin> fst ` set (bfs_queue ?t)" "dep' v < m"
      "(i, b) \<in> set (adjacent g v dir)" for v i b
  proof -
    from that(1,2) have v: "v \<in> bfs_visited s" "v \<notin> fst ` set queue"
      by (auto simp: new(1,3) image_iff) force
    show ?thesis
    proof (cases "v = nid")
      case True
      have "b \<in> bfs_visited ?t" using new(4) that(4) True by force
      with le' [OF this] dnid old True show ?thesis by simp
    next
      case False
      then have "v \<notin> fst ` set (bfs_queue s)" using v q by auto
      then have "b \<in> bfs_visited s \<and> dep b \<le> Suc (dep v)"
        using lv v that(3,4) old by (auto simp: bfs_levels_def)
      with v old new(1) show ?thesis by auto
    qed
  qed
  have "a \<in> bfs_visited s" "dep a = 0" using lv by (auto simp: bfs_levels_def)
  then have "a \<in> bfs_visited ?t \<and> dep' a = 0" using old new(1) by auto
  moreover have "n \<in> bfs_visited ?t \<and> dep' n = e" if "(n, e) \<in> set (bfs_queue ?t)" for n e
    using that qdep [of n e] old [of n] new(1) by (auto simp: new(3)) (simp add: dep'_def)
  moreover have "dep' v \<le> Suc (snd (hd (bfs_queue ?t)))"
    if "bfs_queue ?t \<noteq> []" "v \<in> bfs_visited ?t" for v
    using head [OF that(1)] le' [OF that(2)] by linarith
  ultimately have "bfs_levels g dir m a dep' ?t"
    unfolding bfs_levels_def using sorted nb by blast
  then show ?thesis by (rule exI [of _ dep'])
qed

lemma bfs_complete_loop:
  assumes lv: "bfs_levels g dir m a dep s" and small: "length (bfs_nodes (bfs_loop g dir l m s)) < l"
    and w: "walk g dir a k b" "k \<le> m"
  shows "b \<in> bfs_visited (bfs_loop g dir l m s)"
proof -
  let ?P = "\<lambda>s. l \<le> length (bfs_nodes s) \<or> (\<exists>dep. bfs_levels g dir m a dep s)"
  let ?t = "bfs_loop g dir l m s"
  have "?P ?t \<and> (bfs_queue ?t = [] \<or> l \<le> length (bfs_nodes ?t))"
  proof (rule bfs_loop_rule [where P = ?P])
    show "?P s" using lv by blast
  next
    fix s nid d queue
    assume "?P s" "bfs_queue s = (nid, d) # queue" "length (bfs_nodes s) < l" "m \<le> d"
    then show "?P (s\<lparr>bfs_queue := queue\<rparr>)" using bfs_levels_pop by fastforce
  next
    fix s nid d queue
    assume "?P s" "bfs_queue s = (nid, d) # queue" "length (bfs_nodes s) < l" "d < m"
    then show "?P (bfs_scan l d (adjacent g nid dir) (s\<lparr>bfs_queue := queue\<rparr>))"
      using bfs_levels_scan [of g dir m a _ s nid d queue l] by (meson not_le)
  qed
  with small obtain dep where "bfs_levels g dir m a dep ?t" "bfs_queue ?t = []" by auto
  then have start: "a \<in> bfs_visited ?t" "dep a = 0"
    and nbrs: "\<And>v i b. v \<in> bfs_visited ?t \<Longrightarrow> dep v < m \<Longrightarrow> (i, b) \<in> set (adjacent g v dir) \<Longrightarrow>
      b \<in> bfs_visited ?t \<and> dep b \<le> Suc (dep v)"
    by (auto simp: bfs_levels_def)
  from w have "b \<in> bfs_visited ?t \<and> dep b \<le> k"
  proof (induction rule: walk.induct)
    case walk_start
    then show ?case using start by simp
  next
    case (walk_step k b i c)
    then show ?case using nbrs [of b i c] by force
  qed
  then show ?thesis ..
qed

section \<open>Neighborhood queries\<close>

definition bfs_init :: "ustr \<Rightarrow> bfs_state" where
  "bfs_init a = \<lparr>bfs_nodes = [a], bfs_edges = [], bfs_edge_set = {}, bfs_visited = {a},
     bfs_queue = [(a, 0)]\<rparr>"

lemma bfs_init_sound: "known g a \<Longrightarrow> 1 \<le> limit \<Longrightarrow> bfs_sound g dir limit m a (bfs_init a)"
  by (auto simp: bfs_sound_def bfs_init_def selection_def known_ids_def intro: walk_start)

lemma bfs_init_levels: "bfs_levels g dir m a (\<lambda>_. 0) (bfs_init a)"
  by (auto simp: bfs_levels_def bfs_init_def)

lemma neighbors_Inr:
  "engine_neighbors g r dir = Inr resp \<longleftrightarrow> req_start r \<noteq> [] \<and> known g (req_start r) \<and>
     resp = engine_response g r
       (bfs_nodes (bfs_loop g dir (req_limit r) (req_max_depth r) (bfs_init (req_start r))))
       (bfs_edges (bfs_loop g dir (req_limit r) (req_max_depth r) (bfs_init (req_start r)))) []"
  by (auto simp: engine_neighbors_def require_node_def known_def bind_res_Inr Let_def bfs_init_def
      split: option.splits)

text \<open>The direction a query traverses: \<open>backlinks\<close> is \<open>neighbors\<close> against the edges.\<close>

definition query_direction :: "graph_query_request \<Rightarrow> direction" where
  "query_direction r = (if req_operation r = Op_backlinks then Dir_in else req_direction r)"

definition within_depth ::
  "graph_node list \<Rightarrow> graph_edge list \<Rightarrow> graph_query_request \<Rightarrow> ustr set" where
  "within_depth ns es r = {n. \<exists>k\<le>req_max_depth r.
     walk (engine_view_of ns es (req_relations r)) (query_direction r) (req_start r) k n}"

lemma neighborhood_exact_lemma:
  assumes op: "req_operation r = Op_neighbors \<or> req_operation r = Op_backlinks"
    and start: "req_start r \<noteq> []" "req_start r \<in> node_id ` set ns" and limit: "1 \<le> req_limit r"
  shows "\<exists>resp ids. engine_query ns es r = Inr resp \<and> ids = map node_id (resp_nodes resp) \<and>
     distinct ids \<and> hd ids = req_start r \<and> length ids \<le> req_limit r \<and>
     set ids \<subseteq> within_depth ns es r \<and>
     (length ids < req_limit r \<longrightarrow> set ids = within_depth ns es r)"
proof -
  let ?g = "engine_view_of ns es (req_relations r)" and ?dir = "query_direction r"
  let ?s = "bfs_loop ?g ?dir (req_limit r) (req_max_depth r) (bfs_init (req_start r))"
  let ?resp = "engine_response ?g r (bfs_nodes ?s) (bfs_edges ?s) []"
  have "engine_query ns es r = engine_neighbors ?g r ?dir"
    using op by (auto simp: engine_query_def query_direction_def Let_def)
  then have resp: "engine_query ns es r = Inr ?resp" using start by (simp add: neighbors_Inr)
  have sound: "bfs_sound ?g ?dir (req_limit r) (req_max_depth r) (req_start r) ?s"
    using start limit by (intro bfs_sound_loop bfs_init_sound) auto
  then have ids: "map node_id (resp_nodes ?resp) = bfs_nodes ?s"
    by (intro response_nodes) (simp add: bfs_sound_def selection_def)
  have full: "set (bfs_nodes ?s) = within_depth ns es r" if "length (bfs_nodes ?s) < req_limit r"
    using sound bfs_complete_loop [OF bfs_init_levels that]
    by (auto simp: bfs_sound_def within_depth_def)
  have facts: "hd (bfs_nodes ?s) = req_start r" "distinct (bfs_nodes ?s)"
      "length (bfs_nodes ?s) \<le> req_limit r" "set (bfs_nodes ?s) \<subseteq> within_depth ns es r"
    using sound by (auto simp: bfs_sound_def selection_def within_depth_def)
  show ?thesis
    by (intro exI [of _ ?resp] exI [of _ "bfs_nodes ?s"] conjI impI resp ids [symmetric] facts full)
qed

text \<open>
  C2: a neighbourhood or backlink query of a known start node answers with distinct nodes, the
  start first, at most \<open>limit\<close> of them and all within \<open>max_depth\<close> steps along edges of the
  allowed relations in the asked direction; if it returns fewer than \<open>limit\<close>, it returns every such
  node.
\<close>

theorem neighborhood_exact:
  assumes op: "req_operation r = Op_neighbors \<or> req_operation r = Op_backlinks"
    and start: "req_start r \<noteq> []" "req_start r \<in> node_id ` set ns" and limit: "1 \<le> req_limit r"
  shows "\<exists>resp ids. engine_query ns es r = Inr resp \<and> ids = map node_id (resp_nodes resp) \<and>
     distinct ids \<and> hd ids = req_start r \<and> length ids \<le> req_limit r \<and>
     set ids \<subseteq> within_depth ns es r \<and>
     (length ids < req_limit r \<longrightarrow> set ids = within_depth ns es r)"
  by (rule neighborhood_exact_lemma [OF assms])

definition chain_nodes :: "graph_node list" where
  "chain_nodes = map (\<lambda>i. mk_node i i (lit ''topic'') []) [lit ''a'', lit ''b'', lit ''c'']"

definition chain_edges :: "graph_edge list" where
  "chain_edges = [mk_edge (lit ''a'') (lit ''b'') (lit ''links_to''),
     mk_edge (lit ''b'') (lit ''c'') (lit ''links_to'')]"

definition chain_request :: "graph_operation \<Rightarrow> nat \<Rightarrow> graph_query_request" where
  "chain_request op depth = \<lparr>req_operation = op, req_start = lit ''a'', req_target = lit ''c'',
     req_source_ref = [], req_tag = [], req_direction = Dir_out, req_relations = [],
     req_max_depth = depth, req_limit = 10\<rparr>"

theorem neighborhood_exact_witness:
  "\<exists>resp ids. engine_query chain_nodes chain_edges (chain_request Op_neighbors 1) = Inr resp \<and>
     ids = map node_id (resp_nodes resp) \<and> distinct ids \<and> hd ids = lit ''a'' \<and> length ids \<le> 10 \<and>
     set ids \<subseteq> within_depth chain_nodes chain_edges (chain_request Op_neighbors 1) \<and>
     (length ids < 10 \<longrightarrow>
        set ids = within_depth chain_nodes chain_edges (chain_request Op_neighbors 1))"
proof -
  let ?r = "chain_request Op_neighbors 1"
  have 1: "req_operation ?r = Op_neighbors \<or> req_operation ?r = Op_backlinks"
    and 2: "req_start ?r \<noteq> []" and 3: "req_start ?r \<in> node_id ` set chain_nodes"
    and 4: "1 \<le> req_limit ?r" and 5: "req_start ?r = lit ''a''" "req_limit ?r = 10"
    by (simp_all add: chain_request_def chain_nodes_def py_eval)
  show ?thesis using neighborhood_exact [OF 1 2 3 4, of chain_edges] unfolding 5 .
qed

section \<open>Path queries\<close>

text \<open>The simple paths from a node: node sequence, edge indexes, last node.\<close>

inductive simple_path ::
  "engine_view \<Rightarrow> direction \<Rightarrow> ustr \<Rightarrow> ustr list \<Rightarrow> nat list \<Rightarrow> ustr \<Rightarrow> bool"
  for g dir a where
  path_here: "simple_path g dir a [a] [] a"
| path_step: "simple_path g dir a ns is b \<Longrightarrow> (i, c) \<in> set (adjacent g b dir) \<Longrightarrow> c \<notin> set ns \<Longrightarrow>
    simple_path g dir a (ns @ [c]) (is @ [i]) c"

lemma simple_path_facts:
  "simple_path g dir a ns is b \<Longrightarrow>
   length ns = Suc (length is) \<and> distinct ns \<and> hd ns = a \<and> last ns = b \<and>
   set ns \<subseteq> insert a (known_ids g) \<and>
   (\<forall>i\<in>set is. i < length (ev_edges g) \<and>
      (ev_allowed g = {} \<or> edge_relation (ev_edges g ! i) \<in> ev_allowed g))"
  by (induction rule: simple_path.induct)
    (auto simp: adjacent_iff known_ids_def hd_append)

text \<open>Every proper prefix of a simple path is one, and the path goes on along an edge.\<close>

lemma simple_path_prefix:
  assumes "simple_path g dir a ns is b" and "length is = k + Suc n"
  shows "\<exists>b'. simple_path g dir a (take (Suc k) ns) (take k is) b' \<and>
     (is ! k, ns ! Suc k) \<in> set (adjacent g b' dir) \<and> ns ! Suc k \<notin> set (take (Suc k) ns)"
  using assms
proof (induction arbitrary: n rule: simple_path.induct)
  case path_here
  then show ?case by simp
next
  case (path_step ns "is" b i c)
  have len: "length ns = Suc (length is)" using simple_path_facts [OF path_step.hyps(1)] by blast
  show ?case
  proof (cases "length is = k")
    case True
    then show ?thesis using path_step len by (auto simp: nth_append intro!: exI [of _ b])
  next
    case False
    with path_step.prems obtain n' where n': "length is = k + Suc n'"
      by (metis Suc_eq_plus1 add_Suc_right length_append_singleton nat.inject not0_implies_Suc add.right_neutral)
    show ?thesis using path_step.IH [OF n'] len n' by (auto simp: nth_append)
  qed
qed

lemma length_append_new_fold: "set (append_new xs ys) = set xs \<union> set ys"
  unfolding append_new_def by (induction ys arbitrary: xs) auto

lemma distinct_append_new: "distinct xs \<Longrightarrow> distinct (append_new xs ys)"
  unfolding append_new_def by (induction ys arbitrary: xs) auto

lemma record_path_simps [simp]:
  "ps_paths (record_path g ns is s) =
     ps_paths s @ [\<lparr>path_node_ids = ns, path_edges = map (\<lambda>i. ev_edges g ! i) is\<rparr>]"
  "ps_nodes (record_path g ns is s) = append_new (ps_nodes s) ns"
  "ps_edges (record_path g ns is s) = append_new (ps_edges s) is"
  "ps_queue (record_path g ns is s) = ps_queue s"
  by (simp_all add: record_path_def)

lemma paths_loop_rule:
  assumes "P s"
    and "\<And>s nid ns is queue. P s \<Longrightarrow> ps_queue s = (nid, ns, is) # queue \<Longrightarrow>
           length (ps_paths s) < limit \<Longrightarrow> m \<le> length is \<Longrightarrow> P (s\<lparr>ps_queue := queue\<rparr>)"
    and "\<And>s nid ns is queue. P s \<Longrightarrow> ps_queue s = (nid, ns, is) # queue \<Longrightarrow>
           length (ps_paths s) < limit \<Longrightarrow> length is < m \<Longrightarrow>
           P (paths_scan g t limit ns is (adjacent g nid dir) (s\<lparr>ps_queue := queue\<rparr>))"
  shows "P (paths_loop g dir t limit m s) \<and>
    (ps_queue (paths_loop g dir t limit m s) = [] \<or>
     limit \<le> length (ps_paths (paths_loop g dir t limit m s)))"
  using assms
proof (induction g dir t limit m s rule: paths_loop.induct)
  case (1 g dir t limit m s)
  show ?case
  proof (cases "ps_queue s")
    case Nil
    then show ?thesis using "1.prems"(1) by (subst (1 2 3) paths_loop.simps) simp
  next
    case (Cons q queue)
    obtain nid ns "is" where q: "q = (nid, ns, is)" by (metis prod.exhaust)
    consider (full) "limit \<le> length (ps_paths s)"
      | (deep) "\<not> limit \<le> length (ps_paths s)" "m \<le> length is"
      | (scan) "\<not> limit \<le> length (ps_paths s)" "\<not> m \<le> length is"
      by blast
    then show ?thesis
    proof cases
      case full
      then show ?thesis using "1.prems"(1) Cons q by (subst (1 2 3) paths_loop.simps) simp
    next
      case deep
      have eq: "paths_loop g dir t limit m s = paths_loop g dir t limit m (s\<lparr>ps_queue := queue\<rparr>)"
        using Cons q deep by (subst paths_loop.simps) simp
      show ?thesis unfolding eq
        by (rule "1.IH"(1) [OF Cons [unfolded q] refl refl deep]) (use "1.prems" Cons q deep in auto)
    next
      case scan
      have eq: "paths_loop g dir t limit m s =
          paths_loop g dir t limit m (paths_scan g t limit ns is (adjacent g nid dir) (s\<lparr>ps_queue := queue\<rparr>))"
        using Cons q scan by (subst paths_loop.simps) simp
      show ?thesis unfolding eq
        by (rule "1.IH"(2) [OF Cons [unfolded q] refl refl scan]) (use "1.prems" Cons q scan in auto)
    qed
  qed
qed

text \<open>A returned path, described by its node sequence and edge indexes.\<close>

definition path_result :: "engine_view \<Rightarrow> ustr list \<Rightarrow> nat list \<Rightarrow> graph_query_path" where
  "path_result g ns is = \<lparr>path_node_ids = ns, path_edges = map (\<lambda>i. ev_edges g ! i) is\<rparr>"

definition paths_sound ::
  "engine_view \<Rightarrow> direction \<Rightarrow> ustr \<Rightarrow> ustr \<Rightarrow> nat \<Rightarrow> nat \<Rightarrow> paths_state \<Rightarrow> bool" where
  "paths_sound g dir a t limit m s \<longleftrightarrow>
     (\<forall>p\<in>set (ps_paths s). \<exists>ns is. p = path_result g ns is \<and> simple_path g dir a ns is t \<and>
        length is \<le> m) \<and>
     (\<forall>n ns is. (n, ns, is) \<in> set (ps_queue s) \<longrightarrow> simple_path g dir a ns is n \<and> t \<notin> set ns) \<and>
     selection g (ps_nodes s) (ps_edges s) \<and> length (ps_paths s) \<le> limit"

lemma paths_sound_scan:
  assumes "paths_sound g dir a t limit m s" and "simple_path g dir a ns is b" and "t \<notin> set ns"
    and "length is < m" and "known g a" and "set adj \<subseteq> set (adjacent g b dir)"
    and "length (ps_paths s) < limit"
  shows "paths_sound g dir a t limit m (paths_scan g t limit ns is adj s)"
  using assms(1,6,7)
proof (induction adj arbitrary: s)
  case Nil
  then show ?case by simp
next
  case (Cons e adj)
  obtain i nx where e: "e = (i, nx)" by (rule prod.exhaust)
  let ?s1 = "record_path g (ns @ [nx]) (is @ [i]) s"
  let ?s2 = "s\<lparr>ps_queue := ps_queue s @ [(nx, ns @ [nx], is @ [i])]\<rparr>"
  have path: "simple_path g dir a (ns @ [nx]) (is @ [i]) nx" if "nx \<notin> set ns"
    using assms(2) that Cons.prems(2) e by (auto intro: path_step)
  have s1: "paths_sound g dir a t limit m ?s1" if "nx \<notin> set ns" "nx = t"
  proof -
    note facts = simple_path_facts [OF path [OF that(1)]]
    have "\<exists>ns' is'. path_result g (ns @ [nx]) (is @ [i]) = path_result g ns' is' \<and>
        simple_path g dir a ns' is' t \<and> length is' \<le> m"
      using path [OF that(1)] that(2) assms(4)
      by (intro exI [of _ "ns @ [nx]"] exI [of _ "is @ [i]"]) simp
    moreover have "selection g (ps_nodes ?s1) (ps_edges ?s1)"
      using facts Cons.prems(1) assms(5)
      unfolding paths_sound_def selection_def record_path_simps length_append_new_fold known_ids_def
      by (blast intro: distinct_append_new)
    ultimately show ?thesis
      using Cons.prems by (simp add: paths_sound_def path_result_def)
  qed
  have s2: "paths_sound g dir a t limit m ?s2" if "nx \<notin> set ns" "nx \<noteq> t"
    using Cons.prems(1) path [OF that(1)] that(2) assms(3) unfolding paths_sound_def by simp
  consider "nx \<in> set ns" | "nx \<notin> set ns" "nx = t" | "nx \<notin> set ns" "nx \<noteq> t" by blast
  then show ?case
  proof cases
    case 1
    then show ?thesis using Cons by (simp add: e)
  next
    case 2
    then show ?thesis
      using Cons.IH [OF s1 [OF 2]] Cons.prems(2) s1 by (simp add: e Let_def not_le)
  next
    case 3
    then show ?thesis
      using Cons.IH [OF s2 [OF 3]] Cons.prems(2,3) by (simp add: e)
  qed
qed

lemma paths_sound_loop:
  assumes "paths_sound g dir a t limit m s" and "known g a"
  shows "paths_sound g dir a t limit m (paths_loop g dir t limit m s)"
proof -
  let ?P = "paths_sound g dir a t limit m"
  have pop: "?P (s\<lparr>ps_queue := queue\<rparr>) \<and> simple_path g dir a ns is n \<and> t \<notin> set ns"
    if "?P s" "ps_queue s = (n, ns, is) # queue" for s n ns "is" queue
    using that by (auto simp: paths_sound_def)
  have "?P (paths_loop g dir t limit m s) \<and> (ps_queue (paths_loop g dir t limit m s) = [] \<or>
      limit \<le> length (ps_paths (paths_loop g dir t limit m s)))"
  proof (rule paths_loop_rule [where P = ?P, OF assms(1)])
    fix s n ns "is" queue
    assume "?P s" "ps_queue s = (n, ns, is) # queue" "length (ps_paths s) < limit" "m \<le> length is"
    then show "?P (s\<lparr>ps_queue := queue\<rparr>)" using pop by blast
  next
    fix s n ns "is" queue
    assume "?P s" "ps_queue s = (n, ns, is) # queue" "length (ps_paths s) < limit" "length is < m"
    then show "?P (paths_scan g t limit ns is (adjacent g n dir) (s\<lparr>ps_queue := queue\<rparr>))"
      using pop [of s n ns "is" queue] assms(2) by (intro paths_sound_scan [where b = n]) auto
  qed
  then show ?thesis by (rule conjunct1)
qed

text \<open>
  A scan that stays below the limit keeps what was found and handles every continuation of the path:
  one that reaches the target is recorded, any other that does not close a cycle is queued.
\<close>

lemma paths_scan_keeps:
  "set (ps_paths s) \<subseteq> set (ps_paths (paths_scan g t l ns is adj s)) \<and>
   set (ps_queue s) \<subseteq> set (ps_queue (paths_scan g t l ns is adj s))"
proof (induction g t l ns "is" adj s rule: paths_scan.induct)
  case (2 g t l ns "is" i nx adj s)
  then show ?case by (simp add: Let_def) blast
qed simp

lemma paths_scan_full:
  assumes "length (ps_paths (paths_scan g t l ns is adj s)) < l" and "(i, c) \<in> set adj"
    and "c \<notin> set ns"
  shows "(c = t \<longrightarrow> path_result g (ns @ [c]) (is @ [i]) \<in> set (ps_paths (paths_scan g t l ns is adj s))) \<and>
    (c \<noteq> t \<longrightarrow> (c, ns @ [c], is @ [i]) \<in> set (ps_queue (paths_scan g t l ns is adj s)))"
  using assms(1,2)
proof (induction adj arbitrary: s)
  case Nil
  then show ?case by simp
next
  case (Cons e adj)
  obtain j nx where e: "e = (j, nx)" by (rule prod.exhaust)
  let ?s1 = "record_path g (ns @ [nx]) (is @ [j]) s"
  let ?s2 = "s\<lparr>ps_queue := ps_queue s @ [(nx, ns @ [nx], is @ [j])]\<rparr>"
  consider "nx \<in> set ns" | "nx \<notin> set ns" "nx = t" | "nx \<notin> set ns" "nx \<noteq> t" by blast
  then show ?case
  proof cases
    case 1
    then show ?thesis using Cons assms(3) by (auto simp: e)
  next
    case 2
    then have eq: "paths_scan g t l ns is (e # adj) s = paths_scan g t l ns is adj ?s1"
      using Cons.prems(1) by (auto simp: e Let_def split: if_splits)
    have "path_result g (ns @ [nx]) (is @ [j]) \<in> set (ps_paths (paths_scan g t l ns is adj ?s1))"
      using paths_scan_keeps [of ?s1 g t l ns "is" adj] by (auto simp: path_result_def)
    with 2 Cons.IH [of ?s1] Cons.prems show ?thesis unfolding eq by (auto simp: e)
  next
    case 3
    then have eq: "paths_scan g t l ns is (e # adj) s = paths_scan g t l ns is adj ?s2"
      by (simp add: e)
    have "(nx, ns @ [nx], is @ [j]) \<in> set (ps_queue (paths_scan g t l ns is adj ?s2))"
      using paths_scan_keeps [of ?s2 g t l ns "is" adj] by auto
    with 3 Cons.IH [of ?s2] Cons.prems show ?thesis unfolding eq by (auto simp: e)
  qed
qed

text \<open>Every path to the target is found already or extends a path in the queue.\<close>

definition paths_pending ::
  "engine_view \<Rightarrow> direction \<Rightarrow> ustr \<Rightarrow> ustr \<Rightarrow> nat \<Rightarrow> paths_state \<Rightarrow> bool" where
  "paths_pending g dir a t m s \<longleftrightarrow>
     (\<forall>ns is. simple_path g dir a ns is t \<longrightarrow> length is \<le> m \<longrightarrow>
        path_result g ns is \<in> set (ps_paths s) \<or>
        (\<exists>k < length is. \<exists>n. (n, take (Suc k) ns, take k is) \<in> set (ps_queue s)))"

lemma paths_pending_scan:
  assumes pend: "paths_pending g dir a t m s" and q: "ps_queue s = (n, ns0, is0) # queue"
    and path: "simple_path g dir a ns0 is0 n"
    and full: "length (ps_paths (paths_scan g t l ns0 is0 (adjacent g n dir) (s\<lparr>ps_queue := queue\<rparr>))) < l"
  shows "paths_pending g dir a t m (paths_scan g t l ns0 is0 (adjacent g n dir) (s\<lparr>ps_queue := queue\<rparr>))"
  unfolding paths_pending_def
proof (intro allI impI)
  let ?t = "paths_scan g t l ns0 is0 (adjacent g n dir) (s\<lparr>ps_queue := queue\<rparr>)"
  fix ns "is"
  assume p: "simple_path g dir a ns is t" "length is \<le> m"
  have keeps: "set (ps_paths s) \<subseteq> set (ps_paths ?t)" "set queue \<subseteq> set (ps_queue ?t)"
    using paths_scan_keeps [of "s\<lparr>ps_queue := queue\<rparr>" g t l ns0 is0 "adjacent g n dir"] by auto
  note facts = simple_path_facts [OF p(1)]
  have "path_result g ns is \<in> set (ps_paths s) \<or>
      (\<exists>k<length is. \<exists>n. (n, take (Suc k) ns, take k is) \<in> set (ps_queue s))"
    using pend p unfolding paths_pending_def by blast
  then consider (found) "path_result g ns is \<in> set (ps_paths s)"
    | (later) k n' where "k < length is" "(n', take (Suc k) ns, take k is) \<in> set queue"
    | (now) k where "k < length is" "take (Suc k) ns = ns0" "take k is = is0"
    using q by auto
  then show "path_result g ns is \<in> set (ps_paths ?t) \<or>
      (\<exists>k<length is. \<exists>n. (n, take (Suc k) ns, take k is) \<in> set (ps_queue ?t))"
  proof cases
    case found
    then show ?thesis using keeps by blast
  next
    case later
    then show ?thesis using keeps by blast
  next
    case now
    then obtain n'' where n'': "length is = k + Suc n''" by (metis less_iff_Suc_add add_Suc_right)
    from simple_path_prefix [OF p(1) n''] now obtain b' where
      "simple_path g dir a ns0 is0 b'" and adj: "(is ! k, ns ! Suc k) \<in> set (adjacent g b' dir)"
      and fresh: "ns ! Suc k \<notin> set ns0"
      by auto
    then have "b' = n" using simple_path_facts path by metis
    note step = paths_scan_full [OF full adj [unfolded this] fresh]
    have ns: "ns0 @ [ns ! Suc k] = take (Suc (Suc k)) ns" and "is": "is0 @ [is ! k] = take (Suc k) is"
      using now facts by (auto simp: take_Suc_conv_app_nth)
    show ?thesis
    proof (cases "ns ! Suc k = t")
      case True
      have "length is = Suc k"
      proof (rule ccontr)
        assume "length is \<noteq> Suc k"
        then have "Suc k \<noteq> length ns - 1" using facts by simp
        moreover have "ns ! (length ns - 1) = t" using facts by (metis last_conv_nth list.size(3) nat.simps(3))
        moreover have "Suc k < length ns" "length ns - 1 < length ns" using facts now by auto
        ultimately show False using facts True by (metis nth_eq_iff_index_eq)
      qed
      then have "path_result g ns is \<in> set (ps_paths ?t)"
        using step True ns "is" facts by simp
      then show ?thesis ..
    next
      case False
      then have "(ns ! Suc k, take (Suc (Suc k)) ns, take (Suc k) is) \<in> set (ps_queue ?t)"
        using step ns "is" by simp
      moreover have "Suc k < length is"
      proof (rule ccontr)
        assume "\<not> Suc k < length is"
        with now facts have "length ns - 1 = Suc k" "ns \<noteq> []" by auto
        then have "ns ! Suc k = last ns" by (simp add: last_conv_nth)
        with False facts show False by simp
      qed
      ultimately show ?thesis by blast
    qed
  qed
qed

lemma paths_complete_loop:
  assumes "paths_pending g dir a t m s" and "paths_sound g dir a t l m s" and "known g a"
    and small: "length (ps_paths (paths_loop g dir t l m s)) < l"
    and p: "simple_path g dir a ns is t" "length is \<le> m"
  shows "path_result g ns is \<in> set (ps_paths (paths_loop g dir t l m s))"
proof -
  let ?P = "\<lambda>s. paths_sound g dir a t l m s \<and>
    (l \<le> length (ps_paths s) \<or> paths_pending g dir a t m s)"
  let ?t = "paths_loop g dir t l m s"
  have pop: "simple_path g dir a ns is n \<and> t \<notin> set ns \<and> paths_sound g dir a t l m (s\<lparr>ps_queue := queue\<rparr>)"
    if "paths_sound g dir a t l m s" "ps_queue s = (n, ns, is) # queue" for s n ns "is" queue
    using that by (auto simp: paths_sound_def)
  have "?P ?t \<and> (ps_queue ?t = [] \<or> l \<le> length (ps_paths ?t))"
  proof (rule paths_loop_rule [where P = ?P])
    show "?P s" using assms(1,2) by blast
  next
    fix s n ns "is" queue
    assume s: "?P s" "ps_queue s = (n, ns, is) # queue" "length (ps_paths s) < l" "m \<le> length is"
    then have pend: "paths_pending g dir a t m s" by simp
    have len: "length (take k is') < m" if "length is' \<le> m" "k < length is'" for k and is' :: "nat list"
      using that by simp
    have "paths_pending g dir a t m (s\<lparr>ps_queue := queue\<rparr>)"
      unfolding paths_pending_def
    proof (intro allI impI)
      fix ns' is'
      assume "simple_path g dir a ns' is' t" "length is' \<le> m"
      with pend consider "path_result g ns' is' \<in> set (ps_paths s)"
        | k n' where "k < length is'" "(n', take (Suc k) ns', take k is') \<in> set (ps_queue s)"
        unfolding paths_pending_def by blast
      then show "path_result g ns' is' \<in> set (ps_paths (s\<lparr>ps_queue := queue\<rparr>)) \<or>
        (\<exists>k<length is'. \<exists>n. (n, take (Suc k) ns', take k is') \<in> set (ps_queue (s\<lparr>ps_queue := queue\<rparr>)))"
      proof cases
        case 2
        then have "take k is' \<noteq> is" using len [OF \<open>length is' \<le> m\<close> 2(1)] s(4) by auto
        with 2 s(2) show ?thesis by auto
      qed simp
    qed
    with pop [of s n ns "is" queue] s show "?P (s\<lparr>ps_queue := queue\<rparr>)" by blast
  next
    fix s n ns "is" queue
    assume s: "?P s" "ps_queue s = (n, ns, is) # queue" "length (ps_paths s) < l" "length is < m"
    have "paths_sound g dir a t l m (paths_scan g t l ns is (adjacent g n dir) (s\<lparr>ps_queue := queue\<rparr>))"
      using pop [of s n ns "is" queue] s assms(3) by (intro paths_sound_scan [where b = n]) auto
    moreover have "paths_pending g dir a t m (paths_scan g t l ns is (adjacent g n dir) (s\<lparr>ps_queue := queue\<rparr>))"
      if "length (ps_paths (paths_scan g t l ns is (adjacent g n dir) (s\<lparr>ps_queue := queue\<rparr>))) < l"
      using s pop [of s n ns "is" queue] by (intro paths_pending_scan that) auto
    ultimately show "?P (paths_scan g t l ns is (adjacent g n dir) (s\<lparr>ps_queue := queue\<rparr>))"
      by (meson not_le)
  qed
  with small have "paths_pending g dir a t m ?t" "ps_queue ?t = []" by auto
  with p show ?thesis by (auto simp: paths_pending_def)
qed

lemma paths_Inr:
  "engine_paths g r = Inr resp \<longleftrightarrow> req_start r \<noteq> [] \<and> req_target r \<noteq> [] \<and> known g (req_start r) \<and>
     known g (req_target r) \<and>
     (if req_start r = req_target r
      then resp = engine_response g r [req_start r] [] [path_result g [req_start r] []]
      else let s = paths_loop g (req_direction r) (req_target r) (req_limit r) (req_max_depth r)
                 \<lparr>ps_paths = [], ps_nodes = [], ps_edges = [],
                  ps_queue = [(req_start r, [req_start r], [])]\<rparr>
           in resp = engine_response g r (ps_nodes s) (ps_edges s) (ps_paths s))"
  by (auto simp: engine_paths_def require_node_def known_def bind_res_Inr Let_def path_result_def
      split: option.splits if_splits)

definition bounded_paths ::
  "graph_node list \<Rightarrow> graph_edge list \<Rightarrow> graph_query_request \<Rightarrow> graph_query_path set" where
  "bounded_paths ns es r = {path_result (engine_view_of ns es (req_relations r)) nodes idxs |
     nodes idxs. simple_path (engine_view_of ns es (req_relations r)) (req_direction r) (req_start r)
       nodes idxs (req_target r) \<and> length idxs \<le> req_max_depth r}"

text \<open>
  C3: the paths of a query between two known nodes are simple paths along allowed edges in the
  asked direction, with at most \<open>max_depth\<close> edges each and at most \<open>limit\<close> of them; when fewer than
  \<open>limit\<close> are returned, all such paths are.
\<close>

theorem paths_exact:
  assumes "req_operation r = Op_paths" and "req_start r \<noteq> []" and "req_target r \<noteq> []"
    and "req_start r \<in> node_id ` set ns" and "req_target r \<in> node_id ` set ns"
    and "req_start r \<noteq> req_target r"
  shows "\<exists>resp. engine_query ns es r = Inr resp \<and> set (resp_paths resp) \<subseteq> bounded_paths ns es r \<and>
     length (resp_paths resp) \<le> req_limit r \<and>
     (length (resp_paths resp) < req_limit r \<longrightarrow> set (resp_paths resp) = bounded_paths ns es r)"
proof -
  let ?g = "engine_view_of ns es (req_relations r)" and ?dir = "req_direction r"
  let ?a = "req_start r" and ?t = "req_target r" and ?m = "req_max_depth r" and ?l = "req_limit r"
  let ?init = "\<lparr>ps_paths = [], ps_nodes = [], ps_edges = [], ps_queue = [(?a, [?a], [])]\<rparr>"
  let ?s = "paths_loop ?g ?dir ?t ?l ?m ?init"
  have resp: "engine_query ns es r = Inr (engine_response ?g r (ps_nodes ?s) (ps_edges ?s) (ps_paths ?s))"
    using assms(1-6) by (simp add: engine_query_def Let_def paths_Inr)
  have a: "known ?g ?a" using assms(4) by simp
  have sound0: "paths_sound ?g ?dir ?a ?t ?l ?m ?init"
    using assms(6) by (auto simp: paths_sound_def selection_def intro: path_here)
  have pend0: "paths_pending ?g ?dir ?a ?t ?m ?init"
    unfolding paths_pending_def
  proof (intro allI impI disjI2)
    fix nodes idxs
    assume "simple_path ?g ?dir ?a nodes idxs ?t"
    note facts = simple_path_facts [OF this]
    then have "idxs \<noteq> []" using assms(6) by (cases nodes) auto
    moreover have "take 1 nodes = [?a]" using facts by (cases nodes) auto
    ultimately show "\<exists>k<length idxs. \<exists>n. (n, take (Suc k) nodes, take k idxs) \<in> set (ps_queue ?init)"
      by (intro exI [of _ 0]) auto
  qed
  have sound: "paths_sound ?g ?dir ?a ?t ?l ?m ?s"
    by (rule paths_sound_loop [OF sound0 a])
  then have "set (ps_paths ?s) \<subseteq> bounded_paths ns es r" "length (ps_paths ?s) \<le> ?l"
    unfolding bounded_paths_def paths_sound_def by blast+
  moreover have "bounded_paths ns es r \<subseteq> set (ps_paths ?s)" if "length (ps_paths ?s) < ?l"
    unfolding bounded_paths_def using paths_complete_loop [OF pend0 sound0 a that] by blast
  ultimately show ?thesis
    by (intro exI [of _ "engine_response ?g r (ps_nodes ?s) (ps_edges ?s) (ps_paths ?s)"])
      (auto simp: resp)
qed

theorem paths_exact_witness:
  "\<exists>resp. engine_query chain_nodes chain_edges (chain_request Op_paths 2) = Inr resp \<and>
     set (resp_paths resp) \<subseteq> bounded_paths chain_nodes chain_edges (chain_request Op_paths 2) \<and>
     length (resp_paths resp) \<le> 10 \<and>
     (length (resp_paths resp) < 10 \<longrightarrow>
        set (resp_paths resp) = bounded_paths chain_nodes chain_edges (chain_request Op_paths 2))"
proof -
  let ?r = "chain_request Op_paths 2"
  have 1: "req_operation ?r = Op_paths" "req_start ?r \<noteq> []" "req_target ?r \<noteq> []"
    and 2: "req_start ?r \<in> node_id ` set chain_nodes" "req_target ?r \<in> node_id ` set chain_nodes"
    and 3: "req_start ?r \<noteq> req_target ?r" and 4: "req_limit ?r = 10"
    by (simp_all add: chain_request_def chain_nodes_def py_eval)
  show ?thesis using paths_exact [OF 1 2 3, of chain_edges] unfolding 4 .
qed

section \<open>Marker queries and all answers\<close>

lemma marker_scan_facts:
  assumes "fst ` set es \<subseteq> I" and "\<forall>(i, e)\<in>set es. edge_source e \<in> K"
    and "set (fst s) \<subseteq> K" "distinct (fst s)" "set (snd s) \<subseteq> I"
  shows "set (fst (marker_scan l m es s)) \<subseteq> K \<and> distinct (fst (marker_scan l m es s)) \<and>
    set (snd (marker_scan l m es s)) \<subseteq> I"
  using assms by (induction l m es s rule: marker_scan.induct) (auto simp: Let_def)

lemma marker_scan_length:
  "length (fst (marker_scan l m es s)) \<le> max l (Suc (length (fst s)))"
  by (induction l m es s rule: marker_scan.induct) (auto simp: Let_def)

lemma marker_loop_facts:
  assumes "set ms \<subseteq> known_ids g" and "selection g (fst s) (snd s)"
  shows "selection g (fst (marker_loop g l rel ms s)) (snd (marker_loop g l rel ms s))"
  using assms
proof (induction g l rel ms s rule: marker_loop.induct)
  case (1 g l rel s)
  then show ?case by simp
next
  case (2 g l rel m ms ids idxs)
  let ?s1 = "marker_scan l m (iter_edges g [rel]) (if m \<in> set ids then ids else ids @ [m], idxs)"
  have "set (fst ?s1) \<subseteq> known_ids g \<and> distinct (fst ?s1) \<and> set (snd ?s1) \<subseteq> {i. i < length (ev_edges g)}"
    using "2.prems"
    by (intro marker_scan_facts) (auto simp: selection_def in_iter_edges known_ids_def)
  then have "selection g (fst ?s1) (snd ?s1)" by (auto simp: selection_def)
  with 2 show ?case by (auto simp: Let_def)
qed

lemma marker_loop_length:
  "length (fst s) < l \<Longrightarrow> length (fst (marker_loop g l rel ms s)) \<le> Suc l"
proof (induction g l rel ms s rule: marker_loop.induct)
  case (2 g l rel m ms ids idxs)
  let ?s1 = "marker_scan l m (iter_edges g [rel]) (if m \<in> set ids then ids else ids @ [m], idxs)"
  have "length (fst ?s1) \<le> Suc l"
    using marker_scan_length [of l m "iter_edges g [rel]" "(if m \<in> set ids then ids else ids @ [m], idxs)"] "2.prems"
    by (auto split: if_splits)
  with 2 show ?case by (auto simp: Let_def not_le)
qed simp

text \<open>The selection each operation hands to \<open>response\<close>.\<close>

lemma query_selection:
  assumes "engine_query ns es r = Inr resp" and "valid_request r"
  shows "\<exists>ids idxs ps. resp = engine_response (engine_view_of ns es (req_relations r)) r ids idxs ps \<and>
    selection (engine_view_of ns es (req_relations r)) ids idxs \<and> length ps \<le> req_limit r \<and>
    (\<forall>p\<in>set ps. \<exists>nodes idxs. p = path_result (engine_view_of ns es (req_relations r)) nodes idxs \<and>
       set nodes \<subseteq> node_id ` set ns \<and> (\<forall>i\<in>set idxs. i < length es)) \<and>
    (req_operation r \<noteq> Op_paths \<longrightarrow> length ids \<le> Suc (req_limit r))"
proof -
  let ?g = "engine_view_of ns es (req_relations r)"
  let ?ok = "\<lambda>ids idxs ps. resp = engine_response ?g r ids idxs ps \<and> selection ?g ids idxs \<and>
    length ps \<le> req_limit r \<and>
    (\<forall>p\<in>set ps. \<exists>nodes idxs. p = path_result ?g nodes idxs \<and>
       set nodes \<subseteq> node_id ` set ns \<and> (\<forall>i\<in>set idxs. i < length es)) \<and>
    (req_operation r \<noteq> Op_paths \<longrightarrow> length ids \<le> Suc (req_limit r))"
  have limit: "1 \<le> req_limit r" using assms(2) by (simp add: valid_request_def)
  have near: "\<exists>ids idxs ps. ?ok ids idxs ps" if "engine_neighbors ?g r dir = Inr resp" for dir
  proof -
    let ?s = "bfs_loop ?g dir (req_limit r) (req_max_depth r) (bfs_init (req_start r))"
    have "bfs_sound ?g dir (req_limit r) (req_max_depth r) (req_start r) ?s"
      using that limit by (intro bfs_sound_loop bfs_init_sound) (simp_all add: neighbors_Inr)
    then have "selection ?g (bfs_nodes ?s) (bfs_edges ?s)" "length (bfs_nodes ?s) \<le> req_limit r"
      by (auto simp: bfs_sound_def)
    moreover have "resp = engine_response ?g r (bfs_nodes ?s) (bfs_edges ?s) []"
      using that by (simp add: neighbors_Inr)
    ultimately have "?ok (bfs_nodes ?s) (bfs_edges ?s) []" by simp
    then show ?thesis by blast
  qed
  have path: "\<exists>ids idxs ps. ?ok ids idxs ps" if "engine_paths ?g r = Inr resp" "req_operation r = Op_paths"
  proof (cases "req_start r = req_target r")
    case True
    with that limit have "?ok [req_start r] [] [path_result ?g [req_start r] []]"
      by (auto simp: paths_Inr selection_def path_result_def intro!: exI [of _ "[req_start r]"])
    then show ?thesis by blast
  next
    case False
    let ?init = "\<lparr>ps_paths = [], ps_nodes = [], ps_edges = [],
      ps_queue = [(req_start r, [req_start r], [])]\<rparr>"
    let ?s = "paths_loop ?g (req_direction r) (req_target r) (req_limit r) (req_max_depth r) ?init"
    have a: "known ?g (req_start r)" using that(1) by (simp add: paths_Inr)
    have "paths_sound ?g (req_direction r) (req_start r) (req_target r) (req_limit r)
        (req_max_depth r) ?init"
      using False by (auto simp: paths_sound_def selection_def intro: path_here)
    from paths_sound_loop [OF this a]
    have s: "\<forall>p\<in>set (ps_paths ?s). \<exists>nodes idxs. p = path_result ?g nodes idxs \<and>
        simple_path ?g (req_direction r) (req_start r) nodes idxs (req_target r)"
      "selection ?g (ps_nodes ?s) (ps_edges ?s)" "length (ps_paths ?s) \<le> req_limit r"
      unfolding paths_sound_def by blast+
    have "\<exists>nodes idxs. p = path_result ?g nodes idxs \<and> set nodes \<subseteq> node_id ` set ns \<and>
        (\<forall>i\<in>set idxs. i < length es)" if p: "p \<in> set (ps_paths ?s)" for p
    proof -
      obtain nodes idxs where "p = path_result ?g nodes idxs"
        and "simple_path ?g (req_direction r) (req_start r) nodes idxs (req_target r)"
        using s(1) p by blast
      with simple_path_facts [OF this(2)] a show ?thesis
        by (intro exI [of _ nodes] exI [of _ idxs]) auto
    qed
    with s(2,3) that have "?ok (ps_nodes ?s) (ps_edges ?s) (ps_paths ?s)"
      using False by (simp add: paths_Inr Let_def)
    then show ?thesis by blast
  qed
  have marker: "\<exists>ids idxs ps. ?ok ids idxs ps" if "by_marker_node ?g r v k pre rel = Inr resp" for v k pre rel
  proof -
    let ?ms = "match_marker_ids ?g v k pre"
    obtain ids idxs where s: "marker_loop ?g (req_limit r) (lit rel) ?ms ([], []) = (ids, idxs)"
      by (rule prod.exhaust)
    have "set ?ms \<subseteq> known_ids ?g" by (auto simp: match_marker_ids_def Let_def)
    from marker_loop_facts [OF this, of "([], [])" "req_limit r" "lit rel"] s
    have "selection ?g ids idxs" by (simp add: selection_def)
    moreover have "length ids \<le> Suc (req_limit r)"
      using marker_loop_length [of "([], [])" "req_limit r" ?g "lit rel" ?ms] s limit by simp
    ultimately have "?ok ids idxs []"
      using that s by (auto simp: by_marker_node_def split: if_splits)
    then show ?thesis by blast
  qed
  show ?thesis
    using assms(1) near path marker
    by (cases "req_operation r") (simp_all add: engine_query_def Let_def)
qed

lemma query_answer_closed_lemma:
  assumes "engine_query ns es r = Inr resp" and "valid_request r"
  shows "set (resp_nodes resp) \<subseteq> set ns \<and> distinct (map node_id (resp_nodes resp)) \<and>
    (\<forall>e\<in>set (resp_edges resp). e \<in> set es \<and> edge_source e \<in> node_id ` set (resp_nodes resp) \<and>
       edge_target e \<in> node_id ` set (resp_nodes resp)) \<and>
    length (resp_edges resp) \<le> req_limit r \<and> length (resp_paths resp) \<le> req_limit r"
proof -
  let ?g = "engine_view_of ns es (req_relations r)"
  obtain ids idxs ps where resp: "resp = engine_response ?g r ids idxs ps" and sel: "selection ?g ids idxs"
    and ps: "length ps \<le> req_limit r"
    using query_selection [OF assms] by blast
  have ids: "map node_id (resp_nodes resp) = ids" "set (resp_nodes resp) \<subseteq> set ns"
    using response_nodes [of ids ns es "req_relations r"] sel by (auto simp: resp selection_def)
  have idx: "\<forall>i\<in>set idxs. i < length (ev_edges ?g)" using sel by (simp add: selection_def)
  have "e \<in> set es \<and> edge_source e \<in> set ids \<and> edge_target e \<in> set ids"
    if "e \<in> set (resp_edges resp)" for e
    using response_edges [OF idx that [unfolded resp]] idx by auto
  moreover have "set ids = node_id ` set (resp_nodes resp)" by (simp add: ids(1) [symmetric])
  moreover have "distinct ids" using sel by (simp add: selection_def)
  moreover have "length (resp_edges resp) \<le> req_limit r" "length (resp_paths resp) \<le> req_limit r"
    using ps by (simp_all add: resp)
  ultimately show ?thesis using ids by simp
qed

text \<open>The in-memory engine fulfils the protocol for valid requests.\<close>

interpretation in_memory: graph_engine engine_query
proof
  fix ns es r resp
  assume q: "engine_query ns es r = Inr resp" "valid_request r"
  show "set (resp_nodes resp) \<subseteq> set ns" "set (resp_edges resp) \<subseteq> set es"
    using query_answer_closed_lemma [OF q] by blast+
  show "set (path_node_ids p) \<subseteq> node_id ` set ns \<and> set (path_edges p) \<subseteq> set es"
    if "p \<in> set (resp_paths resp)" for p
  proof -
    obtain ids idxs ps where "resp = engine_response (engine_view_of ns es (req_relations r)) r ids idxs ps"
      and "\<forall>p\<in>set ps. \<exists>nodes idxs. p = path_result (engine_view_of ns es (req_relations r)) nodes idxs \<and>
         set nodes \<subseteq> node_id ` set ns \<and> (\<forall>i\<in>set idxs. i < length es)"
      using query_selection [OF q] by blast
    with that obtain nodes idxs where
      "p = path_result (engine_view_of ns es (req_relations r)) nodes idxs"
      "set nodes \<subseteq> node_id ` set ns" "\<forall>i\<in>set idxs. i < length es"
      by auto
    then show ?thesis by (auto simp: path_result_def)
  qed
qed

lemma query_answers_lemma:
  "(\<exists>resp. engine_query ns es r = Inr resp) \<longleftrightarrow>
     (case req_operation r of
        Op_neighbors \<Rightarrow> req_start r \<noteq> [] \<and> req_start r \<in> node_id ` set ns
      | Op_backlinks \<Rightarrow> req_start r \<noteq> [] \<and> req_start r \<in> node_id ` set ns
      | Op_paths \<Rightarrow> req_start r \<noteq> [] \<and> req_target r \<noteq> [] \<and> req_start r \<in> node_id ` set ns \<and>
          req_target r \<in> node_id ` set ns
      | Op_by_source_ref \<Rightarrow> req_source_ref r \<noteq> []
      | Op_by_tag \<Rightarrow> req_tag r \<noteq> [])"
proof -
  let ?g = "engine_view_of ns es (req_relations r)"
  have 1: "(\<exists>y. engine_neighbors ?g r dir = Inr y) \<longleftrightarrow> req_start r \<noteq> [] \<and> req_start r \<in> node_id ` set ns" for dir
    by (simp add: neighbors_Inr)
  have 2: "(\<exists>y. engine_paths ?g r = Inr y) \<longleftrightarrow> req_start r \<noteq> [] \<and> req_target r \<noteq> [] \<and>
      req_start r \<in> node_id ` set ns \<and> req_target r \<in> node_id ` set ns"
    by (auto simp: paths_Inr Let_def)
  have 3: "(\<exists>y. by_marker_node ?g r v k pre rel = Inr y) \<longleftrightarrow> v \<noteq> []" for v k pre rel
    by (auto simp: by_marker_node_def split: prod.splits)
  show ?thesis
    unfolding engine_query_def Let_def
    by (cases "req_operation r") (simp_all only: 1 2 3 graph_operation.case)
qed

text \<open>
  whatever a valid query asks, its answer contains only nodes and edges of the given graph,
  every returned edge joins two returned nodes, and neither the edges nor the paths are more than
  the limit.
\<close>

theorem query_answer_closed:
  assumes "engine_query ns es r = Inr resp" and "valid_request r"
  shows "set (resp_nodes resp) \<subseteq> set ns \<and> distinct (map node_id (resp_nodes resp)) \<and>
    (\<forall>e\<in>set (resp_edges resp). e \<in> set es \<and> edge_source e \<in> node_id ` set (resp_nodes resp) \<and>
       edge_target e \<in> node_id ` set (resp_nodes resp)) \<and>
    length (resp_edges resp) \<le> req_limit r \<and> length (resp_paths resp) \<le> req_limit r"
  using query_answer_closed_lemma [OF assms] .

theorem query_answer_closed_witness:
  "\<exists>resp. engine_query chain_nodes chain_edges (chain_request Op_neighbors 1) = Inr resp \<and>
     set (resp_nodes resp) \<subseteq> set chain_nodes"
proof -
  let ?r = "chain_request Op_neighbors 1"
  have "\<exists>resp. engine_query chain_nodes chain_edges ?r = Inr resp"
    by (simp add: query_answers_lemma chain_request_def chain_nodes_def py_eval)
  then obtain resp where "engine_query chain_nodes chain_edges ?r = Inr resp" by blast
  moreover have "valid_request ?r" by (simp add: valid_request_def chain_request_def)
  ultimately show ?thesis using query_answer_closed by blast
qed

text \<open>
  a query returns an answer exactly when the start (and the target) of a traversal is a node of
  the graph, or the marker of a lookup is not empty; in every other case it raises.
\<close>

theorem query_answers:
  "(\<exists>resp. engine_query ns es r = Inr resp) \<longleftrightarrow>
     (case req_operation r of
        Op_neighbors \<Rightarrow> req_start r \<noteq> [] \<and> req_start r \<in> node_id ` set ns
      | Op_backlinks \<Rightarrow> req_start r \<noteq> [] \<and> req_start r \<in> node_id ` set ns
      | Op_paths \<Rightarrow> req_start r \<noteq> [] \<and> req_target r \<noteq> [] \<and> req_start r \<in> node_id ` set ns \<and>
          req_target r \<in> node_id ` set ns
      | Op_by_source_ref \<Rightarrow> req_source_ref r \<noteq> []
      | Op_by_tag \<Rightarrow> req_tag r \<noteq> [])"
  by (rule query_answers_lemma)

section \<open>The limit of a marker query\<close>

lemma marker_scan_overshoot:
  assumes "\<exists>(i, e)\<in>set es. edge_target e = m" and "\<forall>(i, e)\<in>set es. edge_source e \<noteq> m \<or> edge_target e \<noteq> m"
  shows "length (fst (marker_scan 1 m es ([m], idxs))) = 2"
  using assms
proof (induction es)
  case (Cons ie es)
  obtain i e where ie: "ie = (i, e)" by (rule prod.exhaust)
  show ?case using Cons by (cases "edge_target e = m") (auto simp: ie Let_def)
qed simp

text \<open>
  a marker query tests its limit only after it appended the source of an edge, so it returns
  one node too many: asked for one node, a tag lookup answers with the tag and a page that has it.
\<close>

theorem marker_query_exceeds_limit:
  assumes "req_operation r = Op_by_tag" and "req_limit r = 1" and "req_tag r \<noteq> []"
    and marker: "match_marker_ids (engine_view_of ns es (req_relations r)) (req_tag r) ''tag'' ''tag:'' = m # ms"
    and edge: "e \<in> set es" "edge_target e = m" "edge_relation e = lit ''tagged''"
      "edge_source e \<in> node_id ` set ns"
    and loops: "\<forall>e\<in>set es. edge_source e \<noteq> edge_target e"
  shows "\<exists>resp. engine_query ns es r = Inr resp \<and> length (resp_nodes resp) = 2"
proof -
  let ?g = "engine_view_of ns es (req_relations r)" and ?es = "iter_edges (engine_view_of ns es (req_relations r)) [lit ''tagged'']"
  have "m \<in> set (match_marker_ids ?g (req_tag r) ''tag'' ''tag:'')" using marker by simp
  then have m: "m \<in> node_id ` set ns" by (auto simp: match_marker_ids_def Let_def)
  obtain i where "i < length es" "es ! i = e" using edge(1) by (auto simp: in_set_conv_nth)
  then have "(i, e) \<in> set ?es" using edge m by (auto simp: in_iter_edges)
  then have hit: "\<exists>(i, e)\<in>set ?es. edge_target e = m" using edge(2) by blast
  have "\<forall>(i, e)\<in>set ?es. edge_source e \<noteq> m \<or> edge_target e \<noteq> m"
    using loops by (force simp: in_iter_edges)
  from marker_scan_overshoot [OF hit this]
  have two: "length (fst (marker_scan 1 m ?es ([m], []))) = 2" .
  obtain ids idxs where s: "marker_scan 1 m ?es ([m], []) = (ids, idxs)" by (rule prod.exhaust)
  have loop: "marker_loop ?g 1 (lit ''tagged'') (m # ms) ([], []) = (ids, idxs)"
    using two s by (simp add: Let_def)
  have "fst ` set ?es \<subseteq> {i. i < length es} \<and> (\<forall>(i, e)\<in>set ?es. edge_source e \<in> node_id ` set ns)"
    by (auto simp: in_iter_edges)
  then have "set ids \<subseteq> node_id ` set ns"
    using marker_scan_facts [of ?es "{i. i < length es}" "node_id ` set ns" "([m], [])" 1 m] m s by auto
  then have "map node_id (resp_nodes (engine_response ?g r ids idxs [])) = ids"
    by (intro response_nodes) simp
  moreover have "engine_query ns es r = Inr (engine_response ?g r ids idxs [])"
    using assms(1-3) marker loop by (simp add: engine_query_def by_marker_node_def Let_def)
  ultimately show ?thesis using two s by (metis fst_conv length_map)
qed

definition tag_nodes :: "graph_node list" where
  "tag_nodes = [mk_node (lit ''page:a'') (lit ''A'') (lit ''topic'') [],
     mk_node (lit ''tag:x'') (lit ''x'') (lit ''tag'') []]"

theorem marker_query_exceeds_limit_witness:
  "\<exists>resp. engine_query tag_nodes [mk_edge (lit ''page:a'') (lit ''tag:x'') (lit ''tagged'')]
      ((chain_request Op_by_tag 1)\<lparr>req_tag := lit ''x'', req_limit := 1\<rparr>) = Inr resp \<and>
    length (resp_nodes resp) = 2"
proof -
  let ?r = "(chain_request Op_by_tag 1)\<lparr>req_tag := lit ''x'', req_limit := 1\<rparr>"
  let ?e = "mk_edge (lit ''page:a'') (lit ''tag:x'') (lit ''tagged'')"
  have "req_operation ?r = Op_by_tag" "req_limit ?r = 1" "req_tag ?r \<noteq> []"
    by (simp_all add: chain_request_def py_eval)
  moreover have "match_marker_ids (engine_view_of tag_nodes [?e] (req_relations ?r)) (req_tag ?r)
      ''tag'' ''tag:'' = lit ''tag:x'' # []"
    by (simp add: match_marker_ids_def tag_nodes_def py_eval)
  moreover have "edge_source ?e \<in> node_id ` set tag_nodes" by (simp add: tag_nodes_def)
  moreover have "lit ''page:a'' \<noteq> lit ''tag:x''" by (simp add: inj_lit)
  ultimately show ?thesis
    by (intro marker_query_exceeds_limit [of ?r tag_nodes "[?e]" "lit ''tag:x''" "[]" ?e]) simp_all
qed

end
