(* ===== verification/Graph_View_Props.thy ===== *)
theory Graph_View_Props
  imports Graph_View Projection_Props Graph_Engine_Props
begin

text \<open>
  What a graph view serves: the neighbourhood walk agrees with the graph engine's search, its
  answers are closed and bounded, and the approved view of a projected wiki names no page that may
  not be served, unless two pages share an identifier.
\<close>

section \<open>The adjacency of a view\<close>

lemma dict_get_group: "dict_get (group_edges f es) k [] = filter (\<lambda>e. f e = k) es"
  by (simp add: group_edges_def dict_get_fold_append) (simp add: dict_get_def)

lemma build_view_simps [simp]:
  "gv_nodes (build_view ns es) = ns"
  "gv_edges (build_view ns es) =
     filter (\<lambda>e. edge_source e \<in> node_id ` set ns \<and> edge_target e \<in> node_id ` set ns) es"
  "dict_get (gv_outgoing (build_view ns es)) k [] =
     filter (\<lambda>e. edge_source e = k) (gv_edges (build_view ns es))"
  "dict_get (gv_incoming (build_view ns es)) k [] =
     filter (\<lambda>e. edge_target e = k) (gv_edges (build_view ns es))"
  by (simp_all add: build_view_def Let_def dict_get_group)

lemma in_view_iff [simp]: "in_view (build_view ns es) i \<longleftrightarrow> i \<in> node_id ` set ns"
  by (force simp: in_view_def build_view_def Let_def map_of_dict_of map_of_eq_None_iff)

lemma view_lookup_node:
  "map_of (gv_by_id (build_view ns es)) i = Some n \<Longrightarrow> n \<in> set ns \<and> node_id n = i"
  by (auto simp: build_view_def Let_def map_of_dict_of dest!: map_of_SomeD)

lemma view_edges_iff:
  "(e, b) \<in> set (view_edges (build_view ns es) a dir rels) \<longleftrightarrow>
     e \<in> set (gv_edges (build_view ns es)) \<and> (rels = {} \<or> edge_relation e \<in> rels) \<and>
     ((dir \<noteq> Dir_in \<and> edge_source e = a \<and> edge_target e = b) \<or>
      (dir \<noteq> Dir_out \<and> edge_target e = a \<and> edge_source e = b))"
  unfolding view_edges_def Let_def direction_out direction_in build_view_simps(3,4)
  by (cases "rels = {}") (auto simp del: build_view_simps(2))

section \<open>The neighborhood walk\<close>

text \<open>Everything within \<open>k\<close> steps of a set of nodes.\<close>

definition view_nbrs :: "graph_view \<Rightarrow> direction \<Rightarrow> ustr set \<Rightarrow> ustr set \<Rightarrow> ustr set" where
  "view_nbrs g dir rels A = {b. \<exists>a\<in>A. \<exists>e. (e, b) \<in> set (view_edges g a dir rels) \<and> in_view g b}"

fun near :: "graph_view \<Rightarrow> direction \<Rightarrow> ustr set \<Rightarrow> nat \<Rightarrow> ustr set \<Rightarrow> ustr set" where
  "near g dir rels 0 A = A"
| "near g dir rels (Suc k) A = near g dir rels k (A \<union> view_nbrs g dir rels A)"

lemma view_nbrs_mono: "A \<subseteq> B \<Longrightarrow> view_nbrs g dir rels A \<subseteq> view_nbrs g dir rels B"
  by (auto simp: view_nbrs_def)

lemma near_mono: "A \<subseteq> B \<Longrightarrow> near g dir rels k A \<subseteq> near g dir rels k B"
proof (induction k arbitrary: A B)
  case (Suc k)
  show ?case using Suc.IH [OF Un_mono [OF Suc.prems view_nbrs_mono [OF Suc.prems]]] by simp
qed simp

lemma near_closed: "view_nbrs g dir rels A \<subseteq> A \<Longrightarrow> near g dir rels k A = A"
  by (induction k) (auto simp: Un_absorb2)

lemma near_refl: "A \<subseteq> near g dir rels k A"
proof (induction k arbitrary: A)
  case (Suc k)
  show ?case unfolding near.simps by (rule order_trans [OF Un_upper1 Suc])
qed simp

definition nb_ok :: "graph_view \<Rightarrow> nb_state \<Rightarrow> bool" where
  "nb_ok g s \<longleftrightarrow> nb_visited_set s = set (nb_visited s) \<and> distinct (nb_visited s) \<and>
     (\<forall>n\<in>set (nb_visited s). in_view g n)"

lemma nb_take_edge_simps [simp]:
  "nb_visited (nb_take_edge e s) = nb_visited s"
  "nb_visited_set (nb_take_edge e s) = nb_visited_set s" "nb_next (nb_take_edge e s) = nb_next s"
  by (simp_all add: nb_take_edge_def)

text \<open>One scan appends the same new nodes to the visited list and to the next frontier.\<close>

definition nb_grows :: "graph_view \<Rightarrow> ustr set \<Rightarrow> nb_state \<Rightarrow> nb_state \<Rightarrow> ustr list \<Rightarrow> bool" where
  "nb_grows g B s t new \<longleftrightarrow> nb_visited t = nb_visited s @ new \<and> nb_next t = nb_next s @ new \<and>
     nb_ok g t \<and> set new \<subseteq> B"

lemma nb_grows_trans:
  "nb_grows g B s t new \<Longrightarrow> nb_grows g B t u new' \<Longrightarrow> nb_grows g B s u (new @ new')"
  by (auto simp: nb_grows_def)

lemma nb_visit_grows:
  "nb_ok g s \<Longrightarrow> \<exists>new. nb_grows g {n} s (nb_visit g n (nb_take_edge e s)) new"
  by (cases "n \<notin> nb_visited_set s \<and> in_view g n")
    (auto simp: nb_grows_def nb_visit_def nb_ok_def intro: exI [of _ "[]"])

lemma nb_grows_mono: "nb_grows g B s t new \<Longrightarrow> B \<subseteq> C \<Longrightarrow> nb_grows g C s t new"
  by (auto simp: nb_grows_def)

lemma nb_grows_ok: "nb_grows g B s t new \<Longrightarrow> nb_ok g t"
  by (simp add: nb_grows_def)

lemma nb_scan_edges_grows:
  "nb_ok g s \<Longrightarrow> \<exists>new. nb_grows g (snd ` set es) s (nb_scan_edges g limit es s) new"
proof (induction g limit es s rule: nb_scan_edges.induct)
  case (1 g limit s)
  then show ?case by (auto simp: nb_grows_def)
next
  case (2 g limit e adj rest s)
  let ?s1 = "nb_visit g adj (nb_take_edge e s)"
  obtain new where "nb_grows g {adj} s ?s1 new" using nb_visit_grows [OF 2(2)] by blast
  then have new: "nb_grows g (snd ` set ((e, adj) # rest)) s ?s1 new" by (rule nb_grows_mono) auto
  show ?case
  proof (cases "limit \<le> length (nb_visited ?s1)")
    case True
    with new show ?thesis by (auto simp: Let_def)
  next
    case False
    with "2.IH" [OF refl] nb_grows_ok [OF new] obtain new'
      where "nb_grows g (snd ` set rest) ?s1 (nb_scan_edges g limit rest ?s1) new'" by blast
    then have "nb_grows g (snd ` set ((e, adj) # rest)) ?s1 (nb_scan_edges g limit rest ?s1) new'"
      by (rule nb_grows_mono) auto
    with nb_grows_trans [OF new] False show ?thesis by (auto simp: Let_def)
  qed
qed

lemma nb_scan_frontier_grows:
  "nb_ok g s \<Longrightarrow> \<exists>new. nb_grows g {b. \<exists>a\<in>set ns. \<exists>e. (e, b) \<in> set (view_edges g a dir rels)} s
     (nb_scan_frontier g dir rels limit ns s) new"
proof (induction g dir rels limit ns s rule: nb_scan_frontier.induct)
  case (1 g dir rels limit s)
  then show ?case by (auto simp: nb_grows_def)
next
  case (2 g dir rels limit n ns s)
  let ?s1 = "nb_scan_edges g limit (view_edges g n dir rels) s"
  let ?B = "{b. \<exists>a\<in>set (n # ns). \<exists>e. (e, b) \<in> set (view_edges g a dir rels)}"
  obtain new where "nb_grows g (snd ` set (view_edges g n dir rels)) s ?s1 new"
    using nb_scan_edges_grows [OF 2(2)] by blast
  then have new: "nb_grows g ?B s ?s1 new" by (rule nb_grows_mono) force
  show ?case
  proof (cases "limit \<le> length (nb_visited ?s1)")
    case True
    with new show ?thesis by (auto simp: Let_def)
  next
    case False
    with "2.IH" [OF refl] nb_grows_ok [OF new] obtain new'
      where "nb_grows g {b. \<exists>a\<in>set ns. \<exists>e. (e, b) \<in> set (view_edges g a dir rels)} ?s1
          (nb_scan_frontier g dir rels limit ns ?s1) new'" by blast
    then have "nb_grows g ?B ?s1 (nb_scan_frontier g dir rels limit ns ?s1) new'"
      by (rule nb_grows_mono) auto
    with nb_grows_trans [OF new] False show ?thesis by (auto simp: Let_def)
  qed
qed

text \<open>A scan that ends below the limit has visited every neighbour.\<close>

lemma nb_scan_edges_full:
  "nb_ok g s \<Longrightarrow> length (nb_visited (nb_scan_edges g limit es s)) < limit \<Longrightarrow>
   (e, b) \<in> set es \<Longrightarrow> in_view g b \<Longrightarrow> b \<in> set (nb_visited (nb_scan_edges g limit es s))"
proof (induction g limit es s rule: nb_scan_edges.induct)
  case (1 g limit s)
  then show ?case by simp
next
  case (2 g limit e' adj rest s)
  let ?s1 = "nb_visit g adj (nb_take_edge e' s)"
  have eq: "nb_scan_edges g limit ((e', adj) # rest) s = nb_scan_edges g limit rest ?s1"
    and less: "\<not> limit \<le> length (nb_visited ?s1)"
    using "2.prems"(2) by (auto simp: Let_def split: if_splits)
  have ok: "nb_ok g ?s1" using nb_visit_grows [OF "2.prems"(1)] nb_grows_ok by blast
  have "in_view g adj \<Longrightarrow> adj \<in> set (nb_visited ?s1)"
    using "2.prems"(1) by (auto simp: nb_visit_def nb_ok_def)
  moreover have "set (nb_visited ?s1) \<subseteq> set (nb_visited (nb_scan_edges g limit rest ?s1))"
    using nb_scan_edges_grows [OF ok, of rest limit] unfolding nb_grows_def by auto
  ultimately show ?case
    using "2.IH" [OF refl less ok] "2.prems" unfolding eq by auto
qed

lemma nb_scan_frontier_full:
  "nb_ok g s \<Longrightarrow> length (nb_visited (nb_scan_frontier g dir rels limit ns s)) < limit \<Longrightarrow>
   view_nbrs g dir rels (set ns) \<subseteq> set (nb_visited (nb_scan_frontier g dir rels limit ns s))"
proof (induction g dir rels limit ns s rule: nb_scan_frontier.induct)
  case (1 g dir rels limit s)
  then show ?case by (simp add: view_nbrs_def)
next
  case (2 g dir rels limit n ns s)
  let ?s1 = "nb_scan_edges g limit (view_edges g n dir rels) s"
  let ?t = "nb_scan_frontier g dir rels limit ns ?s1"
  have eq: "nb_scan_frontier g dir rels limit (n # ns) s = ?t"
    and less: "\<not> limit \<le> length (nb_visited ?s1)"
    using "2.prems"(2) by (auto simp: Let_def split: if_splits)
  have ok: "nb_ok g ?s1" using nb_scan_edges_grows [OF "2.prems"(1)] nb_grows_ok by blast
  have "set (nb_visited ?s1) \<subseteq> set (nb_visited ?t)"
    using nb_scan_frontier_grows [OF ok, of ns dir rels limit] unfolding nb_grows_def by auto
  moreover have "b \<in> set (nb_visited ?s1)"
    if "(e, b) \<in> set (view_edges g n dir rels)" "in_view g b" for e b
    using nb_scan_edges_full [OF "2.prems"(1) _ that] less by simp
  moreover have "view_nbrs g dir rels (set ns) \<subseteq> set (nb_visited ?t)"
    using "2.IH" [OF refl less ok] "2.prems"(2) unfolding eq by blast
  moreover have "view_nbrs g dir rels (set (n # ns)) =
      view_nbrs g dir rels {n} \<union> view_nbrs g dir rels (set ns)"
    by (auto simp: view_nbrs_def)
  moreover have "view_nbrs g dir rels {n} \<subseteq> set (nb_visited ?s1)"
    using calculation(2) by (auto simp: view_nbrs_def)
  ultimately show ?case unfolding eq by blast
qed

text \<open>The walk: at most \<open>d\<close> steps from the visited nodes, and all of them below the limit.\<close>

lemma nb_steps_near:
  assumes "nb_ok g s" and "set frontier \<subseteq> set (nb_visited s)"
    and "view_nbrs g dir rels (set (nb_visited s) - set frontier) \<subseteq> set (nb_visited s)"
  shows "nb_ok g (nb_steps g dir rels limit d frontier s) \<and>
    set (nb_visited s) \<subseteq> set (nb_visited (nb_steps g dir rels limit d frontier s)) \<and>
    set (nb_visited (nb_steps g dir rels limit d frontier s)) \<subseteq> near g dir rels d (set (nb_visited s)) \<and>
    (length (nb_visited (nb_steps g dir rels limit d frontier s)) < limit \<longrightarrow>
       near g dir rels d (set (nb_visited s)) \<subseteq> set (nb_visited (nb_steps g dir rels limit d frontier s)))"
  using assms
proof (induction d arbitrary: frontier s)
  case 0
  then show ?case by simp
next
  case (Suc d)
  let ?V = "set (nb_visited s)" and ?s0 = "s\<lparr>nb_next := []\<rparr>"
  let ?s1 = "nb_scan_frontier g dir rels limit frontier ?s0"
  let ?V1 = "set (nb_visited ?s1)"
  have ok0: "nb_ok g ?s0" using Suc.prems(1) by (simp add: nb_ok_def)
  show ?case
  proof (cases "limit \<le> length (nb_visited s)")
    case True
    then show ?thesis using Suc.prems(1) near_refl [of ?V g dir rels "Suc d"] by simp
  next
    case less: False
    obtain new where new: "nb_grows g {b. \<exists>a\<in>set frontier. \<exists>e. (e, b) \<in> set (view_edges g a dir rels)}
        ?s0 ?s1 new"
      using nb_scan_frontier_grows [OF ok0] by blast
    then have ok1: "nb_ok g ?s1" and V1: "?V1 = ?V \<union> set new" and next1: "nb_next ?s1 = new"
      by (auto simp: nb_grows_def)
    have new_nbrs: "set new \<subseteq> view_nbrs g dir rels ?V"
    proof -
      have "set new \<subseteq> {b. \<exists>a\<in>set frontier. \<exists>e. (e, b) \<in> set (view_edges g a dir rels)}"
        "\<forall>b\<in>set new. in_view g b"
        using new unfolding nb_grows_def nb_ok_def by auto
      then show ?thesis using Suc.prems(2) unfolding view_nbrs_def by blast
    qed
    then have up: "?V1 \<subseteq> ?V \<union> view_nbrs g dir rels ?V" using V1 by auto
    have full: "?V \<union> view_nbrs g dir rels ?V \<subseteq> ?V1" if "length (nb_visited ?s1) < limit"
    proof -
      have "view_nbrs g dir rels (set frontier) \<subseteq> ?V1"
        by (rule nb_scan_frontier_full [OF ok0 that])
      moreover have "view_nbrs g dir rels ?V \<subseteq> view_nbrs g dir rels (set frontier) \<union>
          view_nbrs g dir rels (?V - set frontier)"
        by (auto simp: view_nbrs_def)
      ultimately show ?thesis using Suc.prems(3) V1 by auto
    qed
    show ?thesis
    proof (cases "new = []")
      case True
      have "near g dir rels (Suc d) ?V \<subseteq> ?V1" if "length (nb_visited ?s1) < limit"
      proof -
        have "view_nbrs g dir rels ?V \<subseteq> ?V" using full [OF that] V1 True by simp
        then show ?thesis using near_closed [of g dir rels ?V "Suc d"] V1 by simp
      qed
      then show ?thesis
        using less True ok1 V1 next1 near_refl [of ?V g dir rels "Suc d"] by (simp add: Let_def)
    next
      case False
      let ?t = "nb_steps g dir rels limit d new ?s1"
      have eq: "nb_steps g dir rels limit (Suc d) frontier s = ?t"
        using less False next1 by (simp add: Let_def)
      show ?thesis
      proof (cases "length (nb_visited ?s1) < limit")
        case True
        have "view_nbrs g dir rels (?V1 - set new) \<subseteq> ?V1"
          using full [OF True] V1 view_nbrs_mono [of "?V1 - set new" ?V g dir rels] by blast
        with Suc.IH [OF ok1, of new] V1 have t: "nb_ok g ?t" "?V1 \<subseteq> set (nb_visited ?t)"
            "set (nb_visited ?t) \<subseteq> near g dir rels d ?V1"
            "length (nb_visited ?t) < limit \<longrightarrow> near g dir rels d ?V1 \<subseteq> set (nb_visited ?t)"
          by auto
        have "near g dir rels d ?V1 = near g dir rels (Suc d) ?V"
          unfolding near.simps by (rule arg_cong [OF subset_antisym [OF up full [OF True]]])
        with t V1 show ?thesis unfolding eq by auto
      next
        case False
        then have "?t = ?s1" by (cases d) auto
        moreover have "?V1 \<subseteq> near g dir rels (Suc d) ?V"
          using up near_refl [of "?V \<union> view_nbrs g dir rels ?V" g dir rels d] by auto
        ultimately show ?thesis unfolding eq using ok1 V1 False by simp
      qed
    qed
  qed
qed

text \<open>The edges the walk records are edges of the view.\<close>

lemma nb_take_edge_edges: "set (nb_edges (nb_visit g n (nb_take_edge e s))) \<subseteq> insert e (set (nb_edges s))"
  by (auto simp: nb_take_edge_def nb_visit_def)

lemma nb_scan_edges_edges:
  "set (nb_edges (nb_scan_edges g limit es s)) \<subseteq> set (nb_edges s) \<union> fst ` set es"
proof (induction g limit es s rule: nb_scan_edges.induct)
  case (2 g limit e adj rest s)
  then show ?case using nb_take_edge_edges [of g adj e s] by (auto simp: Let_def)
qed simp

definition view_edge_set :: "graph_view \<Rightarrow> direction \<Rightarrow> ustr set \<Rightarrow> graph_edge set" where
  "view_edge_set g dir rels = {e. \<exists>a b. (e, b) \<in> set (view_edges g a dir rels)}"

lemma view_edge_setI: "fst ` set (view_edges g a dir rels) \<subseteq> view_edge_set g dir rels"
  unfolding view_edge_set_def by fastforce

lemma nb_scan_frontier_edges:
  "set (nb_edges (nb_scan_frontier g dir rels limit ns s)) \<subseteq>
     set (nb_edges s) \<union> view_edge_set g dir rels"
proof (induction g dir rels limit ns s rule: nb_scan_frontier.induct)
  case (2 g dir rels limit n ns s)
  let ?s1 = "nb_scan_edges g limit (view_edges g n dir rels) s"
  have 1: "set (nb_edges ?s1) \<subseteq> set (nb_edges s) \<union> view_edge_set g dir rels"
    using nb_scan_edges_edges [of g limit "view_edges g n dir rels" s] view_edge_setI [of g n dir rels]
    by blast
  show ?case
  proof (cases "limit \<le> length (nb_visited ?s1)")
    case True
    with 1 show ?thesis by (simp add: Let_def)
  next
    case False
    then have eq: "nb_scan_frontier g dir rels limit (n # ns) s = nb_scan_frontier g dir rels limit ns ?s1"
      by (simp add: Let_def)
    from 1 "2.IH" [OF refl False] show ?thesis unfolding eq by blast
  qed
qed simp

lemma nb_steps_edges:
  "set (nb_edges (nb_steps g dir rels limit d frontier s)) \<subseteq>
     set (nb_edges s) \<union> view_edge_set g dir rels"
proof (induction g dir rels limit d frontier s rule: nb_steps.induct)
  case (2 g dir rels limit d frontier s)
  let ?W = "view_edge_set g dir rels"
  let ?s1 = "nb_scan_frontier g dir rels limit frontier (s\<lparr>nb_next := []\<rparr>)"
  have 1: "set (nb_edges ?s1) \<subseteq> set (nb_edges s) \<union> ?W"
    using nb_scan_frontier_edges [of g dir rels limit frontier "s\<lparr>nb_next := []\<rparr>"] by simp
  show ?case
  proof (cases "limit \<le> length (nb_visited s) \<or> nb_next ?s1 = []")
    case True
    with 1 show ?thesis by (simp add: Let_def del: subset_Un_eq) blast
  next
    case False
    then have eq: "nb_steps g dir rels limit (Suc d) frontier s =
        nb_steps g dir rels limit d (nb_next ?s1) ?s1"
      by (simp add: Let_def)
    from False have "set (nb_edges (nb_steps g dir rels limit d (nb_next ?s1) ?s1)) \<subseteq> set (nb_edges ?s1) \<union> ?W"
      by (intro "2.IH" refl) blast+
    then have "set (nb_edges (nb_steps g dir rels limit d (nb_next ?s1) ?s1)) \<subseteq> set (nb_edges s) \<union> ?W"
      using 1 by (rule order_trans [OF _ Un_least]) blast+
    then show ?thesis unfolding eq .
  qed
qed simp

lemma view_nodes:
  assumes "set ids \<subseteq> node_id ` set ns"
  shows "map node_id (List.map_filter (map_of (gv_by_id (build_view ns es))) ids) = ids \<and>
    set (List.map_filter (map_of (gv_by_id (build_view ns es))) ids) \<subseteq> set ns"
  using assms
proof (induction ids)
  case Nil
  then show ?case by (simp add: map_filter_simps)
next
  case (Cons i ids)
  then have "in_view (build_view ns es) i" by simp
  then obtain n where "map_of (gv_by_id (build_view ns es)) i = Some n" by (auto simp: in_view_def)
  with Cons view_lookup_node [OF this] show ?case by (simp add: map_filter_simps)
qed

text \<open>The final state of the walk, and what it means for the answer.\<close>

definition walk_state ::
  "graph_view \<Rightarrow> ustr list \<Rightarrow> nat \<Rightarrow> direction \<Rightarrow> ustr list \<Rightarrow> nat \<Rightarrow> nb_state" where
  "walk_state g seeds depth dir relations limit =
     nb_steps g dir (set relations) limit depth (filter (in_view g) seeds)
       (nb_init (filter (in_view g) seeds))"

lemma nb_init_ok: "nb_ok g (nb_init (filter (in_view g) seeds))"
  using distinct_dedupe_on [of "\<lambda>i. i" "{}" "filter (in_view g) seeds"]
    dedupe_on_keys [of "\<lambda>i. i" "{}" "filter (in_view g) seeds"]
  by (auto simp: nb_init_def nb_ok_def)

lemma nb_init_visited [simp]: "set (nb_visited (nb_init frontier)) = set frontier"
  using dedupe_on_keys [of "\<lambda>i. i" "{}" frontier] by (auto simp: nb_init_def)

lemma walk_state_facts:
  fixes seeds depth dir relations limit ns es
  defines "g \<equiv> build_view ns es"
  defines "s \<equiv> walk_state g seeds depth dir relations limit"
    and "near_set \<equiv> near g dir (set relations) depth {i \<in> set seeds. in_view g i}"
  shows "nb_ok g s" and "set (nb_visited s) \<subseteq> near_set"
    and "length (nb_visited s) < limit \<Longrightarrow> set (nb_visited s) = near_set"
    and "set (nb_edges s) \<subseteq> set (gv_edges g)"
proof -
  let ?f = "filter (in_view g) seeds"
  have "view_nbrs g dir (set relations) (set (nb_visited (nb_init ?f)) - set ?f) \<subseteq> set (nb_visited (nb_init ?f))"
    by (simp add: view_nbrs_def)
  note all = nb_steps_near [OF nb_init_ok _ this, of limit depth]
  have f: "set ?f = {i \<in> set seeds. in_view g i}" by auto
  have "nb_ok g s \<and> set (nb_visited s) \<subseteq> near_set \<and>
      (length (nb_visited s) < limit \<longrightarrow> near_set \<subseteq> set (nb_visited s))"
    using all unfolding s_def near_set_def walk_state_def nb_init_visited f by blast
  then show "nb_ok g s" "set (nb_visited s) \<subseteq> near_set"
    and "length (nb_visited s) < limit \<Longrightarrow> set (nb_visited s) = near_set"
    by blast+
  have "set (nb_edges s) \<subseteq> view_edge_set g dir (set relations)"
    using nb_steps_edges [of g dir "set relations" limit depth ?f "nb_init ?f"]
    by (simp add: s_def walk_state_def nb_init_def)
  also have "\<dots> \<subseteq> set (gv_edges g)"
    unfolding view_edge_set_def g_def view_edges_iff by blast
  finally show "set (nb_edges s) \<subseteq> set (gv_edges g)" .
qed

lemma neighborhood_walk:
  "neighborhood g seeds depth dir relations limit =
     (let s = walk_state g seeds depth dir relations limit; returned = take limit (nb_visited s)
      in (List.map_filter (map_of (gv_by_id g)) returned,
          take limit (filter (\<lambda>e. edge_source e \<in> set returned \<and> edge_target e \<in> set returned)
            (nb_edges s))))"
proof (cases "seeds = []")
  case True
  have "nb_visited (nb_steps g dir rels limit d [] (nb_init [])) = [] \<and>
      nb_edges (nb_steps g dir rels limit d [] (nb_init [])) = []" for rels d
    by (cases d) (simp_all add: nb_init_def Let_def)
  with True show ?thesis by (simp add: neighborhood_def walk_state_def map_filter_simps Let_def)
qed (simp add: neighborhood_def walk_state_def Let_def)

lemma neighborhood_nodes:
  assumes "(nodes, edges) = neighborhood (build_view ns es) seeds depth dir relations limit"
  shows "map node_id nodes =
      take limit (nb_visited (walk_state (build_view ns es) seeds depth dir relations limit))"
    and "set nodes \<subseteq> set ns"
proof -
  let ?s = "walk_state (build_view ns es) seeds depth dir relations limit"
  have "set (take limit (nb_visited ?s)) \<subseteq> node_id ` set ns"
    using walk_state_facts(1) [of ns es seeds depth dir relations limit]
    by (auto simp: nb_ok_def dest: in_set_takeD)
  from view_nodes [OF this, of es] assms
  show "map node_id nodes = take limit (nb_visited ?s)" "set nodes \<subseteq> set ns"
    by (simp_all add: neighborhood_walk Let_def)
qed

lemma neighborhood_lemma:
  assumes "(nodes, edges) = neighborhood (build_view ns es) seeds depth dir relations limit"
  shows "length nodes \<le> limit \<and> length edges \<le> limit \<and> set nodes \<subseteq> set ns \<and>
    distinct (map node_id nodes) \<and>
    node_id ` set nodes \<subseteq> near (build_view ns es) dir (set relations) depth
        {i \<in> set seeds. i \<in> node_id ` set ns} \<and>
    (length nodes < limit \<longrightarrow> node_id ` set nodes = near (build_view ns es) dir (set relations) depth
        {i \<in> set seeds. i \<in> node_id ` set ns}) \<and>
    (\<forall>e\<in>set edges. e \<in> set es \<and> edge_source e \<in> node_id ` set nodes \<and>
       edge_target e \<in> node_id ` set nodes)"
proof -
  let ?s = "walk_state (build_view ns es) seeds depth dir relations limit"
  note facts = walk_state_facts [of ns es seeds depth dir relations limit]
  note ids = neighborhood_nodes [OF assms]
  have set_ids: "node_id ` set nodes = set (take limit (nb_visited ?s))"
    by (metis ids(1) list.set_map)
  have len: "length nodes = min limit (length (nb_visited ?s))"
    by (metis ids(1) length_map length_take min.commute)
  have edges: "edges = take limit (filter (\<lambda>e. edge_source e \<in> node_id ` set nodes \<and>
      edge_target e \<in> node_id ` set nodes) (nb_edges ?s))"
    using assms unfolding set_ids by (simp add: neighborhood_walk Let_def)
  have "distinct (map node_id nodes)"
    unfolding ids(1) using facts(1) by (simp add: nb_ok_def distinct_take)
  moreover have "node_id ` set nodes \<subseteq> set (nb_visited ?s)"
    unfolding set_ids by (rule set_take_subset)
  moreover have "node_id ` set nodes = set (nb_visited ?s)" "length (nb_visited ?s) < limit"
    if "length nodes < limit"
    using that len unfolding set_ids by (auto simp: min_def split: if_splits)
  moreover have "e \<in> set es \<and> edge_source e \<in> node_id ` set nodes \<and> edge_target e \<in> node_id ` set nodes"
    if "e \<in> set edges" for e
    using that facts(4) unfolding edges by (auto dest!: in_set_takeD)
  moreover have "length edges \<le> limit" unfolding edges by simp
  ultimately show ?thesis using facts(2,3) ids(2) len by (auto 0 0)
qed

text \<open>
  C4: a neighbourhood answer is closed and bounded: it has at most \<open>limit\<close> nodes and at most
  \<open>limit\<close> edges, the nodes are distinct nodes of the view within \<open>depth\<close> steps of the seeds, every
  such node is returned unless the limit cuts the walk, and every returned edge is an edge of the
  view that joins two returned nodes.
\<close>

theorem neighborhood_sound_complete:
  assumes "(nodes, edges) = neighborhood (build_view ns es) seeds depth dir relations limit"
  shows "length nodes \<le> limit \<and> length edges \<le> limit \<and> set nodes \<subseteq> set ns \<and>
    distinct (map node_id nodes) \<and>
    node_id ` set nodes \<subseteq> near (build_view ns es) dir (set relations) depth
        {i \<in> set seeds. i \<in> node_id ` set ns} \<and>
    (length nodes < limit \<longrightarrow> node_id ` set nodes = near (build_view ns es) dir (set relations) depth
        {i \<in> set seeds. i \<in> node_id ` set ns}) \<and>
    (\<forall>e\<in>set edges. e \<in> set es \<and> edge_source e \<in> node_id ` set nodes \<and>
       edge_target e \<in> node_id ` set nodes)"
  by (rule neighborhood_lemma [OF assms])

theorem neighborhood_sound_complete_witness:
  "\<exists>nodes edges. (nodes, edges) =
      neighborhood (build_view chain_nodes chain_edges) [lit ''a''] 1 Dir_out [] 5 \<and>
     length nodes \<le> 5 \<and> length edges \<le> 5 \<and> set nodes \<subseteq> set chain_nodes"
proof -
  obtain nodes edges where *: "(nodes, edges) =
      neighborhood (build_view chain_nodes chain_edges) [lit ''a''] 1 Dir_out [] 5"
    by (metis prod.exhaust)
  with neighborhood_sound_complete [OF *] show ?thesis by blast
qed

section \<open>Agreement with the graph engine\<close>

lemma near_Suc: "near g dir rels (Suc k) A = near g dir rels k A \<union> view_nbrs g dir rels (near g dir rels k A)"
  by (induction k arbitrary: A) simp_all

lemma engine_view_nbrs:
  "(\<exists>i. (i, b) \<in> set (adjacent (engine_view_of ns es rels) a dir)) \<longleftrightarrow>
     b \<in> view_nbrs (build_view ns es) dir (set rels) {a}"
proof -
  have "(\<exists>i. (i, b) \<in> set (adjacent (engine_view_of ns es rels) a dir)) \<longleftrightarrow>
    (\<exists>e\<in>set es. (set rels = {} \<or> edge_relation e \<in> set rels) \<and> a \<in> node_id ` set ns \<and> b \<in> node_id ` set ns \<and>
      ((dir \<noteq> Dir_in \<and> edge_source e = a \<and> edge_target e = b) \<or>
       (dir \<noteq> Dir_out \<and> edge_target e = a \<and> edge_source e = b)))"
    unfolding adjacent_iff view_simps known_iff Bex_def in_set_conv_nth [of _ es] by blast
  also have "\<dots> \<longleftrightarrow> b \<in> view_nbrs (build_view ns es) dir (set rels) {a}"
    unfolding view_nbrs_def view_edges_iff by auto
  finally show ?thesis .
qed

lemma walk_near:
  "{b. \<exists>k\<le>n. walk (engine_view_of ns es rels) dir a k b} = near (build_view ns es) dir (set rels) n {a}"
proof (induction n)
  case 0
  then show ?case by (auto intro: walk_start elim: walk_0E)
next
  case (Suc n)
  let ?W = "\<lambda>n. {b. \<exists>k\<le>n. walk (engine_view_of ns es rels) dir a k b}"
  have "?W (Suc n) = ?W n \<union> view_nbrs (build_view ns es) dir (set rels) (?W n)"
  proof (intro set_eqI iffI)
    fix c
    assume "c \<in> ?W (Suc n)"
    then obtain k where k: "k \<le> Suc n" "walk (engine_view_of ns es rels) dir a k c" by blast
    show "c \<in> ?W n \<union> view_nbrs (build_view ns es) dir (set rels) (?W n)"
    proof (cases "k \<le> n")
      case False
      with k obtain b i where "walk (engine_view_of ns es rels) dir a n b"
        and "(i, c) \<in> set (adjacent (engine_view_of ns es rels) b dir)"
        by (metis le_Suc_eq walk_SucE)
      then have "b \<in> ?W n" "c \<in> view_nbrs (build_view ns es) dir (set rels) {b}"
        using engine_view_nbrs [of c ns es rels b dir] by blast+
      then show ?thesis using view_nbrs_mono [of "{b}" "?W n"] by blast
    qed (use k in blast)
  next
    fix c
    assume "c \<in> ?W n \<union> view_nbrs (build_view ns es) dir (set rels) (?W n)"
    then consider "c \<in> ?W n" | b where "b \<in> ?W n" "c \<in> view_nbrs (build_view ns es) dir (set rels) {b}"
      by (auto simp: view_nbrs_def)
    then show "c \<in> ?W (Suc n)"
    proof cases
      case 2
      then obtain k i where "k \<le> n" "walk (engine_view_of ns es rels) dir a k b"
        "(i, c) \<in> set (adjacent (engine_view_of ns es rels) b dir)"
        using engine_view_nbrs [of c ns es rels b dir] by blast
      then show ?thesis by (auto intro: walk_step exI [of _ "Suc k"])
    qed (auto intro: le_SucI)
  qed
  then show ?case unfolding near_Suc Suc .
qed

text \<open>
  The two traversals of the program agree: when neither is cut by its limit, the neighbourhood
  walk of the service and a \<open>neighbors\<close> query of the graph engine return the same nodes.
\<close>

theorem walk_agrees_with_engine:
  assumes "req_operation r = Op_neighbors" and "req_start r \<noteq> []" and "req_start r \<in> node_id ` set ns"
    and "1 \<le> req_limit r" and "engine_query ns es r = Inr resp" and "length (resp_nodes resp) < req_limit r"
    and "(nodes, edges) = neighborhood (build_view ns es) [req_start r] (req_max_depth r)
        (req_direction r) (req_relations r) limit"
    and "length nodes < limit"
  shows "node_id ` set nodes = node_id ` set (resp_nodes resp)"
proof -
  obtain resp' ids where "engine_query ns es r = Inr resp'" "ids = map node_id (resp_nodes resp')"
    "length ids < req_limit r \<longrightarrow> set ids = within_depth ns es r"
    using neighborhood_exact_lemma [of r ns es] assms(1-4) by blast
  then have 1: "node_id ` set (resp_nodes resp) = within_depth ns es r"
    using assms(5,6) by auto
  have "within_depth ns es r = near (build_view ns es) (req_direction r) (set (req_relations r))
      (req_max_depth r) {req_start r}"
    unfolding within_depth_def query_direction_def walk_near using assms(1) by simp
  moreover have "{i \<in> set [req_start r]. i \<in> node_id ` set ns} = {req_start r}"
    using assms(3) by auto
  ultimately show ?thesis
    using neighborhood_lemma [OF assms(7)] assms(8) 1 by simp
qed

lemma length_le_nodes:
  assumes "set xs \<subseteq> set ns" and "distinct (map node_id xs)"
  shows "length xs \<le> length ns"
proof -
  have "length xs = card (set xs)" using assms(2) by (simp add: distinct_card distinct_map)
  also have "\<dots> \<le> card (set ns)" using assms(1) by (intro card_mono) auto
  also have "\<dots> \<le> length ns" by (rule card_length)
  finally show ?thesis .
qed

theorem walk_agrees_with_engine_witness:
  "\<exists>resp nodes edges. engine_query chain_nodes chain_edges (chain_request Op_neighbors 2) = Inr resp \<and>
     (nodes, edges) = neighborhood (build_view chain_nodes chain_edges) [lit ''a''] 2 Dir_out [] 10 \<and>
     node_id ` set nodes = node_id ` set (resp_nodes resp)"
proof -
  let ?r = "chain_request Op_neighbors 2"
  have r: "req_operation ?r = Op_neighbors" "req_start ?r = lit ''a''" "req_limit ?r = 10"
      "req_max_depth ?r = 2" "req_direction ?r = Dir_out" "req_relations ?r = []"
    by (simp_all add: chain_request_def)
  have ne: "lit ''a'' \<noteq> []" and mem: "lit ''a'' \<in> node_id ` set chain_nodes"
    by (simp_all add: chain_nodes_def py_eval)
  have 3: "length chain_nodes = 3" by (simp add: chain_nodes_def)
  obtain resp where resp: "engine_query chain_nodes chain_edges ?r = Inr resp"
    using query_answers_lemma [of chain_nodes chain_edges ?r] ne mem by (auto simp: r)
  moreover have "valid_request ?r" by (simp add: valid_request_def r)
  ultimately have small: "length (resp_nodes resp) \<le> 3"
    using query_answer_closed_lemma [of chain_nodes chain_edges ?r resp]
      length_le_nodes [of "resp_nodes resp" chain_nodes] 3 by simp
  obtain nodes edges where nb: "(nodes, edges) =
      neighborhood (build_view chain_nodes chain_edges) [lit ''a''] 2 Dir_out [] 10"
    by (metis prod.exhaust)
  then have "length nodes \<le> 3"
    using neighborhood_lemma [OF nb] length_le_nodes [of nodes chain_nodes] 3 by simp
  then have "node_id ` set nodes = node_id ` set (resp_nodes resp)"
    using walk_agrees_with_engine [of ?r chain_nodes chain_edges resp nodes edges 10] resp nb small ne mem
    by (simp add: r)
  with resp nb show ?thesis by blast
qed

section \<open>The approved view\<close>

text \<open>The page nodes of a projected wiki are those of its pages: no other step makes one.\<close>

definition page_nodes_ok :: "wiki_page set \<Rightarrow> graph_state \<Rightarrow> bool" where
  "page_nodes_ok ps g \<longleftrightarrow> (\<forall>n\<in>set (fst g). starts_with (node_id n) (lit ''page:'') \<longrightarrow>
     (\<exists>p\<in>ps. node_id n = page_node_id p \<and> node_path n = page_path p))"

named_theorems page_node_intros \<open>steps that add no page node\<close>

lemma page_nodes_add_edge [page_node_intros]:
  "page_nodes_ok ps g \<Longrightarrow> page_nodes_ok ps (add_edge e g)"
  by (simp add: page_nodes_ok_def add_edge_def)

lemma page_nodes_add_node:
  "page_nodes_ok ps g \<Longrightarrow> \<not> starts_with (node_id n) (lit ''page:'') \<Longrightarrow> page_nodes_ok ps (add_node n g)"
  by (auto simp: page_nodes_ok_def add_node_def)

lemma unresolved_not_page: "\<not> starts_with (unresolved_node_id v) (lit ''page:'')"
proof -
  have "starts_with (placeholder @ s) (lit ''page:'') \<Longrightarrow> placeholder = lit ''placeholder:'' \<Longrightarrow> False"
    for placeholder s :: ustr
    by (simp add: lit_Cons)
  then show ?thesis by (auto simp: unresolved_node_id_def lit_Cons split: if_splits)
qed

lemma unresolved_not_page_codes: "\<not> starts_with (unresolved_node_id v) [112, 97, 103, 101, 58]"
  using unresolved_not_page [of v] by (simp add: lit_Cons)

lemma page_nodes_fold [page_node_intros]:
  "(\<And>x g. page_nodes_ok ps g \<Longrightarrow> page_nodes_ok ps (f x g)) \<Longrightarrow> page_nodes_ok ps g \<Longrightarrow>
   page_nodes_ok ps (fold f xs g)"
  by (induction xs arbitrary: g) auto

lemma page_nodes_steps [page_node_intros]:
  "page_nodes_ok ps g \<Longrightarrow> page_nodes_ok ps (project_heading p h g)"
  "page_nodes_ok ps g \<Longrightarrow> page_nodes_ok ps (project_source_ref p r g)"
  "page_nodes_ok ps g \<Longrightarrow> page_nodes_ok ps (project_tag p t g)"
  "page_nodes_ok ps g \<Longrightarrow> page_nodes_ok ps (project_okf_source ds p src g)"
  "page_nodes_ok ps g \<Longrightarrow> page_nodes_ok ps (project_link keys p l g)"
  "page_nodes_ok ps g \<Longrightarrow> page_nodes_ok ps (project_dendron_page keys p g)"
  unfolding project_heading_def project_source_ref_def project_tag_def project_okf_source_def
    project_link_def project_dendron_page_def Let_def
  by (auto intro!: page_nodes_add_edge page_nodes_add_node simp: unresolved_not_page_codes lit_Cons
      split: option.splits)

lemma page_nodes_okf [page_node_intros]:
  "page_nodes_ok ps g \<Longrightarrow> page_nodes_ok ps (project_okf_metadata p g)"
  unfolding project_okf_metadata_def Let_def
  by (auto intro!: page_nodes_add_edge page_nodes_add_node simp: lit_Cons split: option.splits)

lemma page_nodes_endpoint:
  "page_nodes_ok ps g \<Longrightarrow> graph_endpoint v page path g = (i, h) \<Longrightarrow> page_nodes_ok ps h"
  by (auto simp: graph_endpoint_def unresolved_not_page intro!: page_nodes_add_node split: option.splits)

lemma page_nodes_fact [page_node_intros]:
  assumes "page_nodes_ok ps g"
  shows "page_nodes_ok ps (project_fact repr keys f g)"
proof -
  let ?sv = "endpoint_value repr (fact_data f) ''from'' ''source''"
  let ?tv = "endpoint_value repr (fact_data f) ''to'' ''target''"
  let ?sp = "map_of keys (normalize_key ?sv)" and ?tp = "map_of keys (normalize_key ?tv)"
  obtain si g1 where 1: "graph_endpoint ?sv ?sp (endpoint_path ?sp ?tp) g = (si, g1)"
    by (rule prod.exhaust)
  obtain ti g2 where 2: "graph_endpoint ?tv ?tp (endpoint_path ?tp ?sp) g1 = (ti, g2)"
    by (rule prod.exhaust)
  have "page_nodes_ok ps g2"
    by (rule page_nodes_endpoint [OF page_nodes_endpoint [OF assms 1] 2])
  then show ?thesis
    using assms by (auto simp: project_fact_def Let_def 1 2 intro: page_nodes_add_edge)
qed

lemma project_wiki_page_nodes:
  assumes "n \<in> set (idx_nodes (project_wiki d ds repr l))" and "starts_with (node_id n) (lit ''page:'')"
  shows "\<exists>p\<in>set (lw_pages l). node_id n = page_node_id p \<and> node_path n = page_path p"
proof -
  have "page_nodes_ok (set (lw_pages l)) (map (page_node d l) (lw_pages l), [])"
    by (auto simp: page_nodes_ok_def page_node_def)
  then have "page_nodes_ok (set (lw_pages l)) (project_graph d ds repr l)"
    unfolding project_graph_def project_dendron_hierarchy_def project_page_def Let_def if_distrib
    by (auto intro!: page_node_intros)
  moreover have "n \<in> set (fst (project_graph d ds repr l))"
    using assms(1) set_dedupe_on [of node_id "{}" "fst (project_graph d ds repr l)"]
    by (auto simp: project_wiki_def dedupe_nodes_def split_beta Let_def)
  ultimately show ?thesis using assms(2) by (simp add: page_nodes_ok_def)
qed

text \<open>The paths an approved page lends to the other nodes it touches.\<close>

lemma approved_page_paths_range:
  "map_of (approved_page_paths index) i = Some path \<Longrightarrow>
   \<exists>p\<in>set (idx_pages index). approved_for_serving p \<and> page_node_id p = i \<and> page_path p = path"
  by (auto simp: approved_page_paths_def map_of_dict_of dest!: map_of_SomeD)

lemma approved_page_paths_page:
  assumes "p \<in> set (idx_pages index)" and "approved_for_serving p"
  shows "\<exists>q\<in>set (idx_pages index). approved_for_serving q \<and> page_node_id q = page_node_id p \<and>
    map_of (approved_page_paths index) (page_node_id p) = Some (page_path q)"
proof -
  have "(page_node_id p, page_path p) \<in> set (rev (map (\<lambda>p. (page_node_id p, page_path p))
      (filter approved_for_serving (idx_pages index))))"
    using assms by auto
  then obtain path where path: "map_of (approved_page_paths index) (page_node_id p) = Some path"
    unfolding approved_page_paths_def map_of_dict_of by (blast dest: weak_map_of_SomeI)
  from approved_page_paths_range [OF this] path show ?thesis by auto
qed

definition lent_ok :: "wiki_index \<Rightarrow> (ustr, ustr) dict \<Rightarrow> bool" where
  "lent_ok index d \<longleftrightarrow>
     (\<forall>i path. map_of d i = Some path \<longrightarrow> path \<noteq> [] \<and>
        (\<exists>p\<in>set (idx_pages index). approved_for_serving p \<and> page_path p = path))"

lemma dict_get_page_paths:
  "dict_get (approved_page_paths index) i [] \<noteq> [] \<Longrightarrow>
   \<exists>p\<in>set (idx_pages index). approved_for_serving p \<and> page_path p = dict_get (approved_page_paths index) i []"
  by (auto simp: dict_get_def dest: approved_page_paths_range split: option.splits)

lemma lent_ok_setdefault:
  "lent_ok index d \<Longrightarrow> dict_get (approved_page_paths index) j [] \<noteq> [] \<Longrightarrow>
   lent_ok index (dict_setdefault i (dict_get (approved_page_paths index) j []) d)"
  using dict_get_page_paths [of index j]
  by (auto simp: lent_ok_def map_of_setdefault split: option.splits)

lemma lent_ok_if: "(b \<Longrightarrow> lent_ok index d) \<Longrightarrow> (\<not> b \<Longrightarrow> lent_ok index d') \<Longrightarrow> lent_ok index (if b then d else d')"
  by simp

lemma lent_ok_step: "lent_ok index d \<Longrightarrow> lent_ok index (adjacent_path_step (approved_page_paths index) e d)"
  unfolding adjacent_path_step_def Let_def by (intro lent_ok_if lent_ok_setdefault) auto

lemma lent_ok_paths: "lent_ok index (adjacent_non_page_paths index)"
proof -
  have 1: "lent_ok index d \<Longrightarrow> lent_ok index (fold (adjacent_path_step (approved_page_paths index)) es d)" for es d
    by (induction es arbitrary: d) (simp_all add: lent_ok_step)
  show ?thesis unfolding adjacent_non_page_paths_def by (rule 1) (simp add: lent_ok_def)
qed

lemma dom_setdefault [simp]: "dom (map_of (dict_setdefault j v d)) = insert j (dom (map_of d))"
  by (auto simp: map_of_setdefault split: option.splits)

text \<open>A node that is visible only because it touches an approved page gets that page's path.\<close>

lemma adjacent_node_has_path:
  assumes paths: "\<forall>p\<in>set (idx_pages index). page_path p \<noteq> []"
    and "i \<in> adjacent_non_page_nodes (idx_edges index)
        (page_node_id ` set (filter approved_for_serving (idx_pages index)))"
  shows "i \<in> dom (map_of (adjacent_non_page_paths index))"
proof -
  let ?pp = "approved_page_paths index" and ?step = "adjacent_path_step (approved_page_paths index)"
  have grows: "dom (map_of d) \<subseteq> dom (map_of (?step e d))" for e d
    unfolding adjacent_path_step_def Let_def by (simp add: insert_mono subset_insertI2 subset_insertI)
  have keeps: "i \<in> dom (map_of d) \<Longrightarrow> i \<in> dom (map_of (fold ?step es d))" for es d
  proof (induction es arbitrary: d)
    case (Cons e es)
    have "i \<in> dom (map_of (?step e d))" using Cons.prems grows by (rule subsetD [rotated])
    then show ?case unfolding fold.simps comp_apply by (rule Cons.IH)
  qed simp
  have pp: "dict_get ?pp (page_node_id p) [] \<noteq> []"
    if "p \<in> set (idx_pages index)" "approved_for_serving p" for p
    using approved_page_paths_page [OF that] paths by (auto simp: dict_get_def)
  from assms(2) obtain e where e: "e \<in> set (idx_edges index)"
    and touch: "edge_source e \<in> page_node_id ` set (filter approved_for_serving (idx_pages index)) \<or>
      edge_target e \<in> page_node_id ` set (filter approved_for_serving (idx_pages index))"
    and i: "(i = edge_source e \<or> i = edge_target e) \<and> \<not> starts_with i (lit ''page:'')"
    by (auto simp: adjacent_non_page_nodes_def split: if_splits)
  have page: "starts_with (page_node_id p) (lit ''page:'')" for p
    by (simp add: page_node_id_def starts_with_iff)
  have step: "i \<in> dom (map_of (?step e d))" for d
  proof -
    from touch i page have "(i = edge_target e \<and> dict_get ?pp (edge_source e) [] \<noteq> []) \<or>
        (i = edge_source e \<and> dict_get ?pp (edge_target e) [] \<noteq> [])"
      using pp by auto
    then show ?thesis
      using i unfolding adjacent_path_step_def Let_def by (elim disjE conjE) simp_all
  qed
  obtain es1 es2 where "idx_edges index = es1 @ e # es2" using e by (meson split_list)
  then show ?thesis using keeps [OF step] by (simp add: adjacent_non_page_paths_def)
qed

lemma map_filter_image_member:
  "n \<in> set (map f (filter (\<lambda>m. g m \<in> g ` set (filter P xs)) xs)) \<Longrightarrow>
   \<exists>m m'. m \<in> set xs \<and> m' \<in> set xs \<and> g m' = g m \<and> n = f m \<and> P m'"
  unfolding set_map set_filter by (elim imageE CollectE conjE) metis

text \<open>The nodes of the approved view, before the view is built.\<close>

lemma approved_view_node:
  assumes "n \<in> set (gv_nodes (approved_graph_view index))"
  shows "\<exists>m m'. m \<in> set (idx_nodes index) \<and> m' \<in> set (idx_nodes index) \<and> node_id m' = node_id m \<and>
     n = approved_graph_node (adjacent_non_page_paths index)
       (page_path ` set (filter (\<lambda>p. \<not> approved_for_serving p) (idx_pages index))) m \<and>
     (node_id m' \<in> page_node_id ` set (filter approved_for_serving (idx_pages index)) \<or>
      node_path m' \<in> page_path ` set (filter approved_for_serving (idx_pages index)) \<or>
      node_id m' \<in> adjacent_non_page_nodes (idx_edges index)
        (page_node_id ` set (filter approved_for_serving (idx_pages index))))"
proof -
  let ?ap = "page_node_id ` set (filter approved_for_serving (idx_pages index))"
  let ?vis = "\<lambda>m. node_id m \<in> ?ap \<or> (node_path m \<noteq> [] \<and> node_path m \<in>
      page_path ` set (filter approved_for_serving (idx_pages index))) \<or>
      node_id m \<in> adjacent_non_page_nodes (idx_edges index) ?ap"
  have "\<exists>m m'. m \<in> set (idx_nodes index) \<and> m' \<in> set (idx_nodes index) \<and> node_id m' = node_id m \<and>
      n = approved_graph_node (adjacent_non_page_paths index)
       (page_path ` set (filter (\<lambda>p. \<not> approved_for_serving p) (idx_pages index))) m \<and> ?vis m'"
    by (rule map_filter_image_member [OF assms [unfolded approved_graph_view_def Let_def build_view_simps(1)]])
  then show ?thesis by blast
qed

lemma approved_graph_node_simps [simp]:
  "node_id (approved_graph_node adj un n) = node_id n"
  "starts_with (node_id n) (lit ''page:'') \<Longrightarrow> approved_graph_node adj un n = n"
  by (simp_all add: approved_graph_node_def)

lemma sanitized: "(k, v) \<in> set (sanitize_graph_node_metadata md paths) \<Longrightarrow> \<not> references_any_path paths v"
  by (auto simp: sanitize_graph_node_metadata_def)

lemma project_wiki_unique_nodes:
  "m \<in> set (idx_nodes (project_wiki d ds repr l)) \<Longrightarrow> m' \<in> set (idx_nodes (project_wiki d ds repr l)) \<Longrightarrow>
   node_id m' = node_id m \<Longrightarrow> m' = m"
  using distinct_dedupe_on [of node_id "{}" "fst (project_graph d ds repr l)"]
  by (auto simp: project_wiki_def dedupe_nodes_def split_beta Let_def distinct_map dest: inj_onD)

lemma page_prefix: "starts_with (page_node_id p) (lit ''page:'')"
  by (simp add: page_node_id_def starts_with_iff)

text \<open>
  The pages of a wiki are told apart: no approved page shares its identifier or its path with one
  that is not approved, and every page has a path.
\<close>

definition pages_apart :: "wiki_page list \<Rightarrow> bool" where
  "pages_apart pages \<longleftrightarrow>
     list_all (\<lambda>p. page_path p \<noteq> [] \<and>
       (approved_for_serving p \<or>
        page_id p \<notin> page_id ` set (filter approved_for_serving pages) \<and>
        page_path p \<notin> page_path ` set (filter approved_for_serving pages))) pages"

text \<open>
  C5: the approved view of a projected wiki withholds the other pages: each of its nodes is the
  node of an approved page, or a node that stands for no page, whose path is the path of an approved
  page and of no other, and whose metadata mentions the path of no withheld page.
\<close>

theorem approved_view_withholds:
  assumes apart: "pages_apart (lw_pages l)"
    and n: "n \<in> set (gv_nodes (approved_graph_view (project_wiki d ds repr l)))"
  shows "(\<exists>p\<in>set (lw_pages l). approved_for_serving p \<and> node_id n = page_node_id p \<and> node_path n = page_path p) \<or>
    \<not> starts_with (node_id n) (lit ''page:'') \<and>
    (\<exists>p\<in>set (lw_pages l). approved_for_serving p \<and> node_path n = page_path p) \<and>
    (\<forall>p\<in>set (lw_pages l). approved_for_serving p \<or> node_path n \<noteq> page_path p) \<and>
    (\<forall>(k, v)\<in>set (node_metadata n). \<not> references_any_path
       (page_path ` set (filter (\<lambda>p. \<not> approved_for_serving p) (lw_pages l))) v)"
proof -
  let ?index = "project_wiki d ds repr l" and ?good = "filter approved_for_serving (lw_pages l)"
  let ?un = "page_path ` set (filter (\<lambda>p. \<not> approved_for_serving p) (lw_pages l))"
  let ?adj = "adjacent_non_page_paths ?index"
  obtain m where m: "m \<in> set (idx_nodes ?index)" "n = approved_graph_node ?adj ?un m"
    and why: "node_id m \<in> page_node_id ` set ?good \<or> node_path m \<in> page_path ` set ?good \<or>
      node_id m \<in> adjacent_non_page_nodes (idx_edges ?index) (page_node_id ` set ?good)"
    using approved_view_node [OF n] project_wiki_unique_nodes by (metis project_wiki_fields(1))
  have good: "\<not> approved_for_serving p \<Longrightarrow> p \<in> set (lw_pages l) \<Longrightarrow>
      page_path p \<noteq> path" if "q \<in> set (lw_pages l)" "approved_for_serving q" "page_path q = path" for p q path
    using apart that by (auto simp: pages_apart_def list_all_iff)
  show ?thesis
  proof (cases "starts_with (node_id m) (lit ''page:'')")
    case True
    with m(2) have nm: "n = m" by simp
    obtain p where p: "p \<in> set (lw_pages l)" "node_id m = page_node_id p" "node_path m = page_path p"
      using project_wiki_page_nodes [OF m(1) True] by blast
    have "approved_for_serving p"
    proof (rule ccontr)
      assume bad: "\<not> approved_for_serving p"
      then have "page_id p \<notin> page_id ` set ?good" "page_path p \<notin> page_path ` set ?good"
        using apart p(1) by (auto simp: pages_apart_def list_all_iff)
      then have "node_id m \<notin> page_node_id ` set ?good" "node_path m \<notin> page_path ` set ?good"
        by (auto simp: p page_node_id_def)
      with why True show False by (auto simp: adjacent_non_page_nodes_def split: if_splits)
    qed
    with p nm show ?thesis by blast
  next
    case False
    then have n_eq: "node_path n = dict_get ?adj (node_id m) (node_path m)"
        "node_metadata n = sanitize_graph_node_metadata (node_metadata m) ?un"
      using m(2) by (simp_all add: approved_graph_node_def)
    have paths: "\<forall>p\<in>set (lw_pages l). page_path p \<noteq> []"
      using apart by (auto simp: pages_apart_def list_all_iff)
    have "\<exists>p\<in>set (lw_pages l). approved_for_serving p \<and> node_path n = page_path p"
    proof (cases "map_of ?adj (node_id m)")
      case (Some path)
      then have "node_path n = path" by (simp add: n_eq dict_get_def)
      with Some lent_ok_paths [of ?index] show ?thesis by (force simp: lent_ok_def)
    next
      case None
      have "node_id m \<notin> adjacent_non_page_nodes (idx_edges ?index) (page_node_id ` set ?good)"
        using adjacent_node_has_path [of ?index "node_id m"] paths None by auto
      moreover have "node_id m \<notin> page_node_id ` set ?good"
        using False page_prefix by auto
      ultimately have "node_path m \<in> page_path ` set ?good" using why by blast
      with None show ?thesis by (auto simp: n_eq dict_get_def)
    qed
    then obtain p where p: "p \<in> set (lw_pages l)" "approved_for_serving p" "page_path p = node_path n"
      by auto
    have "\<forall>q\<in>set (lw_pages l). approved_for_serving q \<or> node_path n \<noteq> page_path q"
      using good [OF p] by metis
    moreover have "\<forall>(k, v)\<in>set (node_metadata n). \<not> references_any_path ?un v"
      unfolding n_eq(2) by (auto dest: sanitized)
    ultimately show ?thesis using False m(2) p by force
  qed
qed

definition apart_demo :: loaded_wiki where
  "apart_demo = \<lparr>lw_root_name = lit ''w'',
     lw_pages = [mk_page (lit ''a'') (lit ''A'') (lit ''a.md'') Role_topic [],
       (mk_page (lit ''b'') (lit ''B'') (lit ''b.md'') Role_topic []) \<lparr>page_review_state := Draft\<rparr>],
     lw_title = [], lw_description = [], lw_adapter = [], lw_implementation = [],
     lw_metadata = [], lw_sidecar = []\<rparr>"

theorem approved_view_withholds_witness:
  "list_all (\<lambda>n. node_path n = lit ''a.md'')
     (gv_nodes (approved_graph_view (project_wiki (\<lambda>_. []) (\<lambda>_. []) (\<lambda>_. []) apart_demo)))"
  unfolding list_all_iff
proof
  fix n
  assume n: "n \<in> set (gv_nodes (approved_graph_view (project_wiki (\<lambda>_. []) (\<lambda>_. []) (\<lambda>_. []) apart_demo)))"
  have "pages_apart (lw_pages apart_demo)"
    by (simp add: apart_demo_def pages_apart_def mk_page_def py_eval)
  from approved_view_withholds [OF this n] show "node_path n = lit ''a.md''"
    by (auto simp: apart_demo_def mk_page_def py_eval)
qed

section \<open>Shared identifiers\<close>

lemma dedupe_first:
  assumes "x \<notin> f ` set xs" and "f y = x" and "x \<notin> seen"
  shows "y \<in> set (dedupe_on f seen (xs @ y # ys))"
  using assms by (induction xs arbitrary: seen) auto

text \<open>Every node of the page list stays at the head of the projected node list.\<close>

definition extends :: "graph_node list \<Rightarrow> graph_state \<Rightarrow> bool" where
  "extends ns g \<longleftrightarrow> prefix ns (fst g)"

lemma extends_add [simp]:
  "extends ns g \<Longrightarrow> extends ns (add_node n g)" "extends ns g \<Longrightarrow> extends ns (add_edge e g)"
  by (auto simp: extends_def add_node_def add_edge_def intro: prefix_prefix)

lemma extends_fold: "(\<And>x g. extends ns g \<Longrightarrow> extends ns (f x g)) \<Longrightarrow> extends ns g \<Longrightarrow> extends ns (fold f xs g)"
  by (induction xs arbitrary: g) auto

lemma extends_if: "(b \<Longrightarrow> extends ns g) \<Longrightarrow> (\<not> b \<Longrightarrow> extends ns h) \<Longrightarrow> extends ns (if b then g else h)"
  by simp

lemma extends_steps:
  "extends ns g \<Longrightarrow> extends ns (project_heading p h g)"
  "extends ns g \<Longrightarrow> extends ns (project_source_ref p r g)"
  "extends ns g \<Longrightarrow> extends ns (project_tag p t g)"
  "extends ns g \<Longrightarrow> extends ns (project_okf_source ds p src g)"
  "extends ns g \<Longrightarrow> extends ns (project_okf_metadata p g)"
  "extends ns g \<Longrightarrow> extends ns (project_link keys p l g)"
  "extends ns g \<Longrightarrow> extends ns (project_dendron_page keys p g)"
  "extends ns g \<Longrightarrow> graph_endpoint v page path g = (i, g1) \<Longrightarrow> extends ns g1"
  unfolding project_heading_def project_source_ref_def project_tag_def project_okf_source_def
    project_okf_metadata_def project_link_def project_dendron_page_def graph_endpoint_def Let_def
  by (auto split: option.splits)

lemma extends_fact: "extends ns g \<Longrightarrow> extends ns (project_fact repr keys f g)"
proof -
  assume g: "extends ns g"
  let ?sv = "endpoint_value repr (fact_data f) ''from'' ''source''"
  let ?tv = "endpoint_value repr (fact_data f) ''to'' ''target''"
  let ?sp = "map_of keys (normalize_key ?sv)" and ?tp = "map_of keys (normalize_key ?tv)"
  obtain si g1 where 1: "graph_endpoint ?sv ?sp (endpoint_path ?sp ?tp) g = (si, g1)"
    by (rule prod.exhaust)
  obtain ti g2 where 2: "graph_endpoint ?tv ?tp (endpoint_path ?tp ?sp) g1 = (ti, g2)"
    by (rule prod.exhaust)
  have "extends ns g2" by (rule extends_steps(8) [OF extends_steps(8) [OF g 1] 2])
  then show ?thesis using g by (auto simp: project_fact_def Let_def 1 2)
qed

lemma extends_project: "prefix (map (page_node d l) (lw_pages l)) (fst (project_graph d ds repr l))"
proof -
  have "extends (map (page_node d l) (lw_pages l)) (project_graph d ds repr l)"
    unfolding project_graph_def project_dendron_hierarchy_def project_page_def Let_def
    by (intro extends_fold extends_steps(1-7) extends_fact extends_if) (auto simp: extends_def)
  then show ?thesis by (simp add: extends_def)
qed

lemma map_filter_image_keeps:
  "y \<in> set xs \<Longrightarrow> P y \<Longrightarrow> f y = y \<Longrightarrow> y \<in> set (map f (filter (\<lambda>m. g m \<in> g ` set (filter P xs)) xs))"
  by force

text \<open>
  when a page that may not be served comes first and shares its identifier with a served page
  (front matter can set any identifier), the approved view shows the withheld page's node: its
  title, its path and its metadata.
\<close>

theorem shared_identifier_exposes_page:
  assumes pages: "lw_pages l = before @ hidden # after"
    and first: "page_id hidden \<notin> page_id ` set before"
    and "served \<in> set after" and "approved_for_serving served" and "page_id served = page_id hidden"
  shows "page_node d l hidden \<in> set (gv_nodes (approved_graph_view (project_wiki d ds repr l)))"
proof -
  let ?index = "project_wiki d ds repr l"
  obtain rest where rest: "fst (project_graph d ds repr l) = map (page_node d l) (lw_pages l) @ rest"
    using extends_project [of d l ds repr] by (auto elim: prefixE)
  have "page_node_id hidden \<notin> node_id ` set (map (page_node d l) before)"
    using first by (auto simp: page_node_id_def)
  then have node: "page_node d l hidden \<in> set (idx_nodes ?index)"
    by (simp add: rest pages dedupe_nodes_def dedupe_first)
  have "page_node_id hidden = page_node_id served" using assms(5) by (simp add: page_node_id_def)
  then have "page_node_id hidden \<in> page_node_id ` set (filter approved_for_serving (idx_pages ?index))"
    using assms(3,4) pages by auto
  moreover have "approved_graph_node adj un (page_node d l hidden) = page_node d l hidden" for adj un
    by (simp add: page_prefix)
  ultimately show ?thesis
    unfolding approved_graph_view_def Let_def build_view_simps(1)
    by (intro map_filter_image_keeps node) simp_all
qed

definition shared_demo :: loaded_wiki where
  "shared_demo = apart_demo\<lparr>lw_pages :=
     [(mk_page (lit ''x'') (lit ''Secret'') (lit ''a.md'') Role_topic []) \<lparr>page_review_state := Draft\<rparr>,
      mk_page (lit ''x'') (lit ''Public'') (lit ''b.md'') Role_topic []]\<rparr>"

theorem shared_identifier_exposes_page_witness:
  "\<exists>n\<in>set (gv_nodes (approved_graph_view (project_wiki (\<lambda>_. []) (\<lambda>_. []) (\<lambda>_. []) shared_demo))).
     node_label n = lit ''Secret''"
proof -
  let ?hidden = "hd (lw_pages shared_demo)" and ?served = "last (lw_pages shared_demo)"
  have 1: "lw_pages shared_demo = [] @ ?hidden # [?served]" and 2: "?served \<in> set [?served]"
    and 3: "page_id ?hidden \<notin> page_id ` set []"
    by (simp_all add: shared_demo_def)
  have 4: "approved_for_serving ?served" and 5: "page_id ?served = page_id ?hidden"
    by (simp_all add: shared_demo_def mk_page_def py_eval)
  have "node_label (page_node (\<lambda>_. []) shared_demo ?hidden) = lit ''Secret''"
    by (simp add: page_node_def shared_demo_def)
  with shared_identifier_exposes_page [OF 1 3 2 4 5] show ?thesis by blast
qed

end
