(* ===== verification/Search_Text.thy ===== *)
theory Search_Text
  imports Models PyStr_Facts
begin

text \<open>
  The text side of \<open>search.py\<close>: the two analyzers, exact compound identifiers and query tokens. The
  scanners that keep an index into the text are index loops here too; regular-expression scans work
  on the rest of the text. The Snowball stemmer is a third-party package: the parameter \<open>stem\<close>.
\<close>

section \<open>Analyzer profiles and modes\<close>

datatype analyzer_profile = Legacy | English

definition normalize_analyzer_profile :: "ustr \<Rightarrow> analyzer_profile res" where
  "normalize_analyzer_profile value =
     (if value = lit ''legacy'' then Inr Legacy
      else if value = lit ''english'' then Inr English
      else Inl (ValueError ''unknown analyzer profile''))"

definition normalize_search_mode :: "ustr \<Rightarrow> search_mode res" where
  "normalize_search_mode value =
     (let normalized = lower (strip (if value \<noteq> [] then value else lit ''lexical''))
      in if normalized = lit ''lexical'' then Inr Lexical
         else if normalized = lit ''literal'' then Inr Literal
         else if normalized = lit ''vector'' then Inr Vector
         else if normalized = lit ''hybrid'' then Inr Hybrid
         else Inl (LlmWikiUserError
                ''unknown search mode: expected lexical, literal, vector, or hybrid''))"

definition ENGLISH_STOPWORDS :: "ustr list" where
  "ENGLISH_STOPWORDS = map lit [''a'', ''an'', ''and'', ''are'', ''as'', ''at'', ''be'', ''but'',
     ''by'', ''for'', ''if'', ''in'', ''into'', ''is'', ''it'', ''no'', ''not'', ''of'', ''on'',
     ''or'', ''such'', ''that'', ''the'', ''their'', ''then'', ''there'', ''these'', ''they'',
     ''this'', ''to'', ''was'', ''will'', ''with'']"

text \<open>The apostrophes are the ASCII one and U+2019.\<close>

definition english_apostrophe :: "nat \<Rightarrow> bool" where
  "english_apostrophe c \<longleftrightarrow> c = 39 \<or> c = 8217"

definition compound_separator :: "nat \<Rightarrow> bool" where
  "compound_separator c \<longleftrightarrow> c = 46 \<or> c = 95 \<or> c = 45"

section \<open>The legacy analyzer\<close>

definition token_char :: "nat \<Rightarrow> bool" where
  "token_char c \<longleftrightarrow> ascii_alnum c \<or> c = 95 \<or> c = 46 \<or> c = 45"

text \<open>The matches of \<open>TOKEN_RE\<close>.\<close>

function legacy_raw_tokens :: "ustr \<Rightarrow> ustr list" where
  "legacy_raw_tokens s =
     (case s of
        [] \<Rightarrow> []
      | c # rest \<Rightarrow>
          if ascii_alnum c
          then (let run = takeWhile token_char s; after = dropWhile token_char s
                in (run @ takeWhile hangul after) # legacy_raw_tokens (dropWhile hangul after))
          else if hangul c then takeWhile hangul s # legacy_raw_tokens (dropWhile hangul s)
          else legacy_raw_tokens rest)"
  by pat_completeness auto
termination
proof (relation "measure length", goal_cases)
  case 1
  then show ?case by simp
next
  case (2 s c rest run after)
  then have "token_char c" by (simp add: token_char_def)
  with 2 have "length after \<le> length rest" by (simp add: length_dropWhile_le)
  then show ?case using 2(1) length_dropWhile_le [of hangul after] by simp
next
  case (3 s c rest)
  then show ?case using length_dropWhile_le [of hangul rest] by simp
next
  case (4 s c rest)
  then show ?case by simp
qed

declare legacy_raw_tokens.simps [simp del]

text \<open>\<open>ASCII_HANGUL_RE\<close>: an ASCII part directly followed by a Hangul part, nothing else.\<close>

definition ascii_hangul_groups :: "ustr \<Rightarrow> (ustr \<times> ustr) option" where
  "ascii_hangul_groups token =
     (let a = takeWhile ascii_alnum token; h = dropWhile ascii_alnum token
      in if a \<noteq> [] \<and> h \<noteq> [] \<and> list_all hangul h then Some (a, h) else None)"

definition hangul_token :: "ustr \<Rightarrow> bool" where
  "hangul_token token \<longleftrightarrow> token \<noteq> [] \<and> list_all hangul token"

fun bigrams :: "ustr \<Rightarrow> ustr list" where
  "bigrams (a # b # s) = [a, b] # bigrams (b # s)"
| "bigrams s = []"

definition legacy_token_forms :: "ustr \<Rightarrow> ustr list" where
  "legacy_token_forms raw =
     (let token = lower raw
      in token # (case ascii_hangul_groups token of
           Some (a, h) \<Rightarrow> [a, h]
         | None \<Rightarrow> if hangul_token token \<and> length token > 2 then bigrams token else []))"

definition tokenize_legacy :: "ustr \<Rightarrow> ustr list" where
  "tokenize_legacy src = concat (map legacy_token_forms (legacy_raw_tokens src))"

section \<open>The English analyzer\<close>

text \<open>\<open>consume_ascii_alnum\<close> and its variants: move the cursor over a class of code points.\<close>

function consume :: "(nat \<Rightarrow> bool) \<Rightarrow> ustr \<Rightarrow> nat \<Rightarrow> nat" where
  "consume p src cursor =
     (if cursor < length src \<and> p (src ! cursor) then consume p src (cursor + 1) else cursor)"
  by pat_completeness auto
termination by (relation "measure (\<lambda>(p, src, cursor). length src - cursor)") auto

declare consume.simps [simp del]

lemma consume_ge: "cursor \<le> consume p src cursor"
proof (induction p src cursor rule: consume.induct)
  case (1 p src cursor)
  then show ?case by (subst consume.simps) (auto intro: Suc_leD)
qed

lemma consume_gt: "cursor < length src \<Longrightarrow> p (src ! cursor) \<Longrightarrow> cursor < consume p src cursor"
  using consume_ge [of "cursor + 1" p src] by (subst consume.simps) simp

lemma consume_le: "cursor \<le> length src \<Longrightarrow> consume p src cursor \<le> length src"
proof (induction p src cursor rule: consume.induct)
  case (1 p src cursor)
  then show ?case by (subst consume.simps) auto
qed

lemma consume_stop: "consume p src cursor < length src \<Longrightarrow> \<not> p (src ! consume p src cursor)"
proof (induction p src cursor rule: consume.induct)
  case (1 p src cursor)
  show ?case
  proof (cases "cursor < length src \<and> p (src ! cursor)")
    case True
    then have "consume p src cursor = consume p src (cursor + 1)" by (subst consume.simps) simp
    with 1 True show ?thesis by simp
  next
    case False
    then have "consume p src cursor = cursor" by (subst consume.simps) auto
    with 1 False show ?thesis by auto
  qed
qed

lemma consume_all: "cursor \<le> i \<Longrightarrow> i < consume p src cursor \<Longrightarrow> p (src ! i)"
proof (induction p src cursor rule: consume.induct)
  case (1 p src cursor)
  show ?case
  proof (cases "cursor < length src \<and> p (src ! cursor)")
    case True
    then have "consume p src cursor = consume p src (cursor + 1)" by (subst consume.simps) simp
    with 1 True show ?thesis by (cases "i = cursor") auto
  next
    case False
    then have "consume p src cursor = cursor" by (subst consume.simps) auto
    with 1 show ?thesis by simp
  qed
qed

lemmas consume_loop [py_loop] = consume.simps

definition slice :: "ustr \<Rightarrow> nat \<Rightarrow> nat \<Rightarrow> ustr" where
  "slice src start stop = take (stop - start) (drop start src)"

lemma length_slice [simp]: "length (slice src a b) = min (length src) b - a"
  by (auto simp: slice_def min_def)

text \<open>The end of an English token that starts with an ASCII letter or digit.\<close>

definition english_token_end :: "ustr \<Rightarrow> nat \<Rightarrow> nat" where
  "english_token_end src start =
     (let i = consume ascii_alnum src start
      in if i < length src \<and> hangul (src ! i) then consume hangul src i
         else if i < length src \<and> english_apostrophe (src ! i)
           then (let j = i + 1 in if j < length src \<and> src ! j = 115 then j + 1 else j)
         else i)"

lemma english_token_end_gt:
  "start < length src \<Longrightarrow> ascii_alnum (src ! start) \<Longrightarrow> start < english_token_end src start"
  using consume_gt [of start src ascii_alnum]
    consume_ge [of "consume ascii_alnum src start" hangul src]
  by (auto simp: english_token_end_def Let_def)

function scan_english_raw_tokens :: "ustr \<Rightarrow> nat \<Rightarrow> ustr list" where
  "scan_english_raw_tokens src index =
     (if index \<ge> length src then []
      else if ascii_alnum (src ! index)
        then (let stop = english_token_end src index
              in slice src index stop # scan_english_raw_tokens src stop)
      else if hangul (src ! index)
        then (let stop = consume hangul src index
              in slice src index stop # scan_english_raw_tokens src stop)
      else scan_english_raw_tokens src (index + 1))"
  by pat_completeness auto
termination
  by (relation "measure (\<lambda>(src, index). length src - index)")
    (auto simp: english_token_end_gt consume_gt intro!: diff_less_mono2)

declare scan_english_raw_tokens.simps [simp del]

definition normalize_english_possessive :: "ustr \<Rightarrow> ustr" where
  "normalize_english_possessive token =
     (let n = casefold token
      in if ends_with n [39, 115] \<or> ends_with n [8217, 115] then take (length n - 2) n
         else if ends_with n [39] \<or> ends_with n [8217] then take (length n - 1) n
         else n)"

definition english_analyzed_token :: "(ustr \<Rightarrow> ustr) \<Rightarrow> ustr \<Rightarrow> ustr" where
  "english_analyzed_token stem token =
     (let n = normalize_english_possessive token
      in if n = [] \<or> n \<in> set ENGLISH_STOPWORDS then [] else if is_digits n then n else stem n)"

definition english_token_forms :: "(ustr \<Rightarrow> ustr) \<Rightarrow> ustr \<Rightarrow> ustr list" where
  "english_token_forms stem raw =
     (let token = lower raw
      in case ascii_hangul_groups token of
           Some (a, h) \<Rightarrow> [token, a, h]
         | None \<Rightarrow>
             if hangul_token token
             then token # (if length token > 2 then bigrams token else [])
             else (let analyzed = english_analyzed_token stem token
                   in if analyzed \<noteq> [] then [analyzed] else []))"

definition tokenize_english :: "(ustr \<Rightarrow> ustr) \<Rightarrow> ustr \<Rightarrow> ustr list" where
  "tokenize_english stem src =
     concat (map (english_token_forms stem) (scan_english_raw_tokens src 0))"

definition tokenize :: "(ustr \<Rightarrow> ustr) \<Rightarrow> analyzer_profile \<Rightarrow> ustr \<Rightarrow> ustr list" where
  "tokenize stem profile src =
     (case profile of English \<Rightarrow> tokenize_english stem src | Legacy \<Rightarrow> tokenize_legacy src)"

definition unique_tokens :: "ustr list \<Rightarrow> ustr list" where
  "unique_tokens tokens = dedupe_on (\<lambda>t. t) {} tokens"

section \<open>Exact compound identifiers\<close>

definition boundary_word_char :: "nat \<Rightarrow> bool" where
  "boundary_word_char c \<longleftrightarrow> ascii_alnum c \<or> hangul c"

text \<open>
  The inner loop over the separator groups of a compound: the number of groups, the end of the last
  valid prefix, and the cursor from which a rejected compound is skipped.
\<close>

function compound_groups ::
  "ustr \<Rightarrow> nat \<Rightarrow> nat \<Rightarrow> nat option \<Rightarrow> nat \<Rightarrow> nat \<times> nat option \<times> nat \<times> nat" where
  "compound_groups src cursor groups last_valid_end reject_cursor =
     (if cursor < length src \<and> compound_separator (src ! cursor) \<and>
         cursor + 1 < length src \<and> ascii_alnum (src ! (cursor + 1))
      then (let c = consume ascii_alnum src (cursor + 1);
                h = consume hangul src c
            in compound_groups src c (groups + 1)
                 (if h \<ge> length src \<or> \<not> boundary_word_char (src ! h) then Some h
                  else last_valid_end) h)
      else (groups, last_valid_end, reject_cursor, cursor))"
  by pat_completeness auto
termination
proof (relation "measure (\<lambda>(src, cursor, g, l, r). length src - cursor)", goal_cases)
  case 1
  then show ?case by simp
next
  case (2 src cursor groups lve rej c h)
  then have "cursor + 1 < c" using consume_gt [of "cursor + 1" src ascii_alnum] by simp
  with 2(1) show ?case by (auto intro: diff_less_mono2)
qed

declare compound_groups.simps [simp del]

lemmas compound_loop [py_loop] = compound_groups.simps scan_english_raw_tokens.simps
  legacy_raw_tokens.simps

text \<open>Where the outer loop goes on, and the span it emits, for a compound that starts at \<open>start\<close>.\<close>

definition compound_at :: "ustr \<Rightarrow> nat \<Rightarrow> (nat \<times> nat) option \<times> nat" where
  "compound_at src start =
     (let cursor = consume ascii_alnum src start;
          (groups, last_valid_end, reject_cursor, cursor') = compound_groups src cursor 0 None cursor
      in if groups = 0 then (None, cursor')
         else (case last_valid_end of
             None \<Rightarrow>
               (None, if reject_cursor < length src \<and> boundary_word_char (src ! reject_cursor)
                      then consume boundary_word_char src reject_cursor
                      else max reject_cursor (start + 1))
           | Some stop \<Rightarrow> (Some (start, stop), stop)))"

text \<open>The shape of an emitted span, and what the inner loop keeps of it.\<close>

definition compound_char :: "nat \<Rightarrow> bool" where
  "compound_char c \<longleftrightarrow> ascii_alnum c \<or> compound_separator c \<or> hangul c"

definition compound_ends :: "ustr \<Rightarrow> nat \<Rightarrow> nat \<Rightarrow> bool" where
  "compound_ends src start stop \<longleftrightarrow> start < stop \<and> stop \<le> length src \<and>
     (stop = length src \<or> \<not> boundary_word_char (src ! stop)) \<and>
     (\<exists>k. start < k \<and> Suc k < stop \<and> compound_separator (src ! k) \<and> ascii_alnum (src ! Suc k)) \<and>
     (\<forall>i. start \<le> i \<longrightarrow> i < stop \<longrightarrow> compound_char (src ! i))"

definition groups_inv :: "ustr \<Rightarrow> nat \<Rightarrow> nat \<Rightarrow> nat option \<Rightarrow> nat \<Rightarrow> bool" where
  "groups_inv src start cursor last_valid_end reject_cursor \<longleftrightarrow>
     start < cursor \<and> cursor \<le> length src \<and> start < reject_cursor \<and>
     (\<forall>i. start \<le> i \<longrightarrow> i < cursor \<longrightarrow> compound_char (src ! i)) \<and>
     (\<forall>h. last_valid_end = Some h \<longrightarrow> compound_ends src start h)"

lemma compound_groups_inv:
  assumes "groups_inv src start cursor lve rej"
    and "compound_groups src cursor g lve rej = (g', lve', rej', cursor')"
  shows "groups_inv src start cursor' lve' rej'"
  using assms
proof (induction src cursor g lve rej rule: compound_groups.induct)
  case (1 src cursor g lve rej)
  define c where "c = consume ascii_alnum src (cursor + 1)"
  define h where "h = consume hangul src c"
  define lve1 where "lve1 = (if length src \<le> h \<or> \<not> boundary_word_char (src ! h) then Some h else lve)"
  show ?case
  proof (cases "cursor < length src \<and> compound_separator (src ! cursor) \<and>
      cursor + 1 < length src \<and> ascii_alnum (src ! (cursor + 1))")
    case True
    have c: "cursor + 1 < c" "c \<le> length src" and h: "c \<le> h" "h \<le> length src"
      using True consume_gt [of "cursor + 1" src ascii_alnum] consume_le [of "cursor + 1" src ascii_alnum]
        consume_ge [of c hangul src] consume_le [of c src hangul]
      by (auto simp: c_def h_def)
    have chars: "compound_char (src ! i)" if "start \<le> i" "i < h" for i
    proof -
      consider "i < cursor" | "i = cursor" | "cursor + 1 \<le> i" "i < c" | "c \<le> i" by linarith
      then show ?thesis
      proof cases
        case 1
        then show ?thesis using "1.prems"(1) that by (simp add: groups_inv_def)
      next
        case 2
        then show ?thesis using True by (simp add: compound_char_def)
      next
        case 3
        then show ?thesis
          using consume_all [of "cursor + 1" i ascii_alnum src] by (simp add: c_def compound_char_def)
      next
        case 4
        then show ?thesis
          using consume_all [of c i hangul src] that by (simp add: h_def compound_char_def)
      qed
    qed
    have "compound_ends src start h" if "length src \<le> h \<or> \<not> boundary_word_char (src ! h)"
      unfolding compound_ends_def
      using that True c h chars "1.prems"(1)
      by (auto simp: groups_inv_def intro!: exI [of _ cursor])
    then have inv: "groups_inv src start c lve1 h"
      using "1.prems"(1) c h chars by (auto simp: groups_inv_def lve1_def)
    have eq: "compound_groups src cursor g lve rej = compound_groups src c (g + 1) lve1 h"
      using True by (subst compound_groups.simps) (simp add: c_def h_def lve1_def Let_def)
    show ?thesis
      by (rule "1.IH" [OF True c_def h_def inv [unfolded lve1_def]])
        (use "1.prems"(2) eq in \<open>simp add: lve1_def\<close>)
  next
    case False
    then have "compound_groups src cursor g lve rej = (g, lve, rej, cursor)"
      by (subst compound_groups.simps) auto
    with 1 show ?thesis by simp
  qed
qed

lemma groups_inv_start:
  assumes "start < length src" and "ascii_alnum (src ! start)"
  shows "groups_inv src start (consume ascii_alnum src start) None (consume ascii_alnum src start)"
  using assms consume_gt [of start src ascii_alnum] consume_le [of start src ascii_alnum]
    consume_all [of start _ ascii_alnum src]
  by (auto simp: groups_inv_def compound_char_def)

lemma compound_at_facts:
  assumes "start < length src" and "ascii_alnum (src ! start)"
    and "compound_at src start = (emit, nxt)"
  shows "start < nxt" and "emit = Some (a, b) \<Longrightarrow> a = start \<and> b = nxt \<and> compound_ends src a b"
proof -
  let ?c = "consume ascii_alnum src start"
  obtain g lve rej cursor where cg: "compound_groups src ?c 0 None ?c = (g, lve, rej, cursor)"
    by (metis prod.exhaust)
  from compound_groups_inv [OF groups_inv_start [OF assms(1,2)] this]
  have inv: "groups_inv src start cursor lve rej" .
  have "rej \<le> consume boundary_word_char src rej" by (rule consume_ge)
  with inv assms(3) show "start < nxt"
    by (auto simp: compound_at_def cg Let_def groups_inv_def compound_ends_def
        split: option.splits if_splits)
  show "a = start \<and> b = nxt \<and> compound_ends src a b" if "emit = Some (a, b)"
    using inv assms(3) that
    by (auto simp: compound_at_def cg Let_def groups_inv_def split: option.splits if_splits)
qed

lemma compound_at_progress:
  "\<not> length src \<le> start \<Longrightarrow> \<not> \<not> ascii_alnum (src ! start) \<Longrightarrow> (emit, nxt) = compound_at src start \<Longrightarrow> start < nxt"
  using compound_at_facts(1) [of start src emit nxt] by simp

type_synonym span = "nat \<times> nat \<times> ustr"

function exact_compound_token_spans :: "ustr \<Rightarrow> nat \<Rightarrow> span list" where
  "exact_compound_token_spans src index =
     (if index \<ge> length src then []
      else if \<not> ascii_alnum (src ! index) then exact_compound_token_spans src (index + 1)
      else if index > 0 \<and> boundary_word_char (src ! (index - 1))
        then exact_compound_token_spans src (index + 1)
      else (case compound_at src index of
              (None, nxt) \<Rightarrow> exact_compound_token_spans src nxt
            | (Some (start, stop), nxt) \<Rightarrow>
                (start, stop, casefold (slice src start stop)) # exact_compound_token_spans src nxt))"
  by pat_completeness auto
termination
proof (relation "measure (\<lambda>(src, index). length src - index)", goal_cases)
  case (4 src index emit nxt)
  then show ?case using compound_at_progress [of src index] by (auto intro: diff_less_mono2)
next
  case (5 src index emit nxt ab a b)
  then show ?case using compound_at_progress [of src index] by (auto intro: diff_less_mono2)
qed auto

declare exact_compound_token_spans.simps [simp del]

lemmas spans_loop [py_loop] = exact_compound_token_spans.simps

definition exact_compound_tokens :: "analyzer_profile \<Rightarrow> ustr \<Rightarrow> ustr list" where
  "exact_compound_tokens profile src =
     (if profile \<noteq> English then []
      else unique_tokens (map (\<lambda>(start, stop, token). token) (exact_compound_token_spans src 0)))"

text \<open>The characters around a single identifier that do not make the query a phrase.\<close>

definition REMAINDER_CHARS :: ustr where
  "REMAINDER_CHARS = [34, 39, 96, 8220, 8221, 8216, 8217] @ lit ''()[]{}.,;:!?''"

definition single_exact_compound_query_token :: "analyzer_profile \<Rightarrow> ustr \<Rightarrow> ustr" where
  "single_exact_compound_query_token profile query =
     (if profile \<noteq> English then []
      else (case exact_compound_token_spans query 0 of
              [(start, stop, token)] \<Rightarrow>
                (let remainder = strip (take start query @ drop stop query)
                 in if strip (strip_chars REMAINDER_CHARS remainder) \<noteq> [] then [] else token)
            | _ \<Rightarrow> []))"

lemmas search_text_defs [py_eval] = normalize_analyzer_profile_def normalize_search_mode_def
  ENGLISH_STOPWORDS_def english_apostrophe_def compound_separator_def token_char_def
  ascii_hangul_groups_def hangul_token_def legacy_token_forms_def tokenize_legacy_def slice_def
  english_token_end_def normalize_english_possessive_def english_analyzed_token_def
  english_token_forms_def tokenize_english_def tokenize_def unique_tokens_def boundary_word_char_def
  compound_at_def exact_compound_tokens_def REMAINDER_CHARS_def single_exact_compound_query_token_def

section \<open>Exact identifiers are delimited\<close>

definition span_ok :: "ustr \<Rightarrow> span \<Rightarrow> bool" where
  "span_ok src sp = (let (start, stop, token) = sp in
     compound_ends src start stop \<and> ascii_alnum (src ! start) \<and>
     (start = 0 \<or> \<not> boundary_word_char (src ! (start - 1))) \<and>
     token = casefold (slice src start stop))"

definition spans_from :: "nat \<Rightarrow> span list \<Rightarrow> bool" where
  "spans_from i xs \<longleftrightarrow> (\<forall>sp\<in>set xs. i \<le> fst sp)"

lemma spans_ok:
  "list_all (span_ok src) (exact_compound_token_spans src index) \<and>
   spans_from index (exact_compound_token_spans src index) \<and>
   sorted_wrt (\<lambda>x y. fst (snd x) \<le> fst y) (exact_compound_token_spans src index)"
proof (induction src index rule: exact_compound_token_spans.induct)
  case (1 src index)
  let ?spans = "exact_compound_token_spans src"
  have weaken: "spans_from i xs" if "spans_from j xs" "i \<le> j" for i j xs
    using that unfolding spans_from_def by (meson le_trans)
  consider (stop) "length src \<le> index"
    | (skip) "\<not> length src \<le> index" "\<not> ascii_alnum (src ! index)"
    | (inside) "\<not> length src \<le> index" "\<not> \<not> ascii_alnum (src ! index)"
        "0 < index \<and> boundary_word_char (src ! (index - 1))"
    | (try_it) "\<not> length src \<le> index" "\<not> \<not> ascii_alnum (src ! index)"
        "\<not> (0 < index \<and> boundary_word_char (src ! (index - 1)))"
    by blast
  then show ?case
  proof cases
    case stop
    then show ?thesis by (subst (1 2 3) exact_compound_token_spans.simps) (simp add: spans_from_def)
  next
    case skip
    then have "?spans index = ?spans (index + 1)" by (subst exact_compound_token_spans.simps) simp
    with "1.IH"(1) [OF skip] show ?thesis by (auto intro: weaken)
  next
    case inside
    then have "?spans index = ?spans (index + 1)" by (subst exact_compound_token_spans.simps) simp
    with "1.IH"(2) [OF inside] show ?thesis by (auto intro: weaken)
  next
    case try_it
    obtain emit stop where at: "compound_at src index = (emit, stop)" by (rule prod.exhaust)
    have gt: "index < stop" using compound_at_facts(1) [OF _ _ at] try_it by simp
    show ?thesis
    proof (cases emit)
      case None
      have "?spans index = ?spans stop"
        using try_it at None by (subst exact_compound_token_spans.simps) auto
      with "1.IH"(3) [OF try_it at [symmetric] None] gt show ?thesis by (auto intro: weaken)
    next
      case (Some ab)
      obtain a b where ab: "emit = Some (a, b)" using Some by (cases ab) simp
      have facts: "a = index" "b = stop" "compound_ends src a b"
        using compound_at_facts(2) [OF _ _ at ab] try_it by auto
      have "?spans index = (a, b, casefold (slice src a b)) # ?spans stop"
        using try_it at ab by (subst exact_compound_token_spans.simps) auto
      moreover have "span_ok src (a, b, casefold (slice src a b))"
        using facts try_it by (auto simp: span_ok_def)
      moreover have IH: "list_all (span_ok src) (?spans stop)" "spans_from stop (?spans stop)"
          "sorted_wrt (\<lambda>x y. fst (snd x) \<le> fst y) (?spans stop)"
        using "1.IH"(4) [OF try_it at [symmetric] ab refl] by blast+
      moreover have "spans_from index (?spans stop)" using weaken [OF IH(2)] gt by simp
      moreover have "spans_from i ((a, b, t) # xs) \<longleftrightarrow> i \<le> a \<and> spans_from i xs" for i t xs
        by (auto simp: spans_from_def)
      moreover have "\<forall>sp\<in>set (?spans stop). b \<le> fst sp"
        using IH(2) facts(2) by (auto simp: spans_from_def)
      ultimately show ?thesis using facts(1) by simp
    qed
  qed
qed

end
