(* ===== verification/Search_Corpus.thy ===== *)
theory Search_Corpus
  imports Search_Text Validation
begin

text \<open>
  The corpus of \<open>search.py\<close>: visible pages, their token counts, document frequencies and postings,
  and the scores of the lexical, exact and literal channels. A posting list holds (document index,
  frequency) pairs; scores are real numbers.
\<close>

section \<open>Page texts\<close>

definition visible_pages :: "wiki_page list \<Rightarrow> bool \<Rightarrow> wiki_page list" where
  "visible_pages pages include_drafts =
     (if include_drafts then pages else filter approved_for_serving pages)"

definition page_text_all :: "wiki_page \<Rightarrow> ustr" where
  "page_text_all p = join [32] [page_title p, page_summary p, page_text p, join [32] (page_tags p),
     join [32] (page_source_refs p)]"

definition authored_page_text :: "wiki_page \<Rightarrow> ustr" where
  "authored_page_text p = join [32] [page_title p, page_summary p, page_text p, join [32] (page_tags p)]"

definition exact_metadata_text :: "wiki_page \<Rightarrow> ustr" where
  "exact_metadata_text p = join [32] [page_path p, join [32] (page_source_refs p)]"

definition page_text_for_profile :: "analyzer_profile \<Rightarrow> wiki_page \<Rightarrow> ustr" where
  "page_text_for_profile profile p =
     (if profile = English then authored_page_text p else page_text_all p)"

definition literal_page_text :: "wiki_page \<Rightarrow> ustr" where
  "literal_page_text p = join [32] [page_title p, page_path p, page_summary p, page_text p,
     join [32] (page_tags p), join [32] (page_source_refs p)]"

section \<open>Building the corpus\<close>

type_synonym postings = "(ustr, (nat \<times> nat) list) dict"

record search_document =
  doc_page :: wiki_page
  doc_tokens :: "ustr list"
  doc_counts :: "(ustr, nat) dict"

record search_corpus =
  corpus_pages :: "wiki_page list"
  corpus_documents :: "search_document list"
  corpus_doc_freq :: "(ustr, nat) dict"
  corpus_doc_lengths :: "nat list"
  corpus_average_length :: real
  corpus_postings :: postings
  corpus_exact_compound :: postings
  corpus_exact_metadata :: postings
  corpus_profile :: analyzer_profile

definition corpus_total :: "search_corpus \<Rightarrow> nat" where
  "corpus_total c = max 1 (length (corpus_documents c))"

text \<open>\<open>for token, frequency in counts.items(): postings.setdefault(token, []).append(...)\<close>.\<close>

definition add_counts :: "nat \<Rightarrow> (ustr, nat) dict \<Rightarrow> postings \<Rightarrow> postings" where
  "add_counts doc_index counts ps = fold (\<lambda>(t, n). dict_append t (doc_index, n)) counts ps"

definition index_exact_channel :: "nat \<Rightarrow> ustr \<Rightarrow> postings \<Rightarrow> postings" where
  "index_exact_channel doc_index src ps =
     add_counts doc_index (counter (exact_compound_tokens English src)) ps"

definition document_of :: "(ustr \<Rightarrow> ustr) \<Rightarrow> analyzer_profile \<Rightarrow> wiki_page \<Rightarrow> search_document" where
  "document_of stem profile p =
     (let tokens = tokenize stem profile (page_text_for_profile profile p)
      in \<lparr>doc_page = p, doc_tokens = tokens, doc_counts = counter tokens\<rparr>)"

text \<open>One round of the loop over the pages, with every variable it updates.\<close>

definition add_page ::
  "(ustr \<Rightarrow> ustr) \<Rightarrow> nat \<times> wiki_page \<Rightarrow> search_corpus \<Rightarrow> search_corpus" where
  "add_page stem ip c =
     (let (doc_index, p) = ip; profile = corpus_profile c; d = document_of stem profile p
      in c\<lparr>corpus_documents := corpus_documents c @ [d],
           corpus_doc_freq := fold counter_add (remdups (doc_tokens d)) (corpus_doc_freq c),
           corpus_doc_lengths := corpus_doc_lengths c @ [length (doc_tokens d)],
           corpus_postings := add_counts doc_index (doc_counts d) (corpus_postings c),
           corpus_exact_compound :=
             (if profile = English
              then index_exact_channel doc_index (authored_page_text p) (corpus_exact_compound c)
              else corpus_exact_compound c),
           corpus_exact_metadata :=
             (if profile = English
              then index_exact_channel doc_index (exact_metadata_text p) (corpus_exact_metadata c)
              else corpus_exact_metadata c)\<rparr>)"

definition build_search_corpus ::
  "(ustr \<Rightarrow> ustr) \<Rightarrow> analyzer_profile \<Rightarrow> wiki_page list \<Rightarrow> search_corpus" where
  "build_search_corpus stem profile pages =
     (let c = fold (add_page stem) (List.enumerate 0 pages)
            \<lparr>corpus_pages = pages, corpus_documents = [], corpus_doc_freq = [],
             corpus_doc_lengths = [], corpus_average_length = 1, corpus_postings = [],
             corpus_exact_compound = [], corpus_exact_metadata = [], corpus_profile = profile\<rparr>
      in c\<lparr>corpus_average_length :=
             (if corpus_documents c \<noteq> []
              then max 1 (real (sum_list (corpus_doc_lengths c)) / real (corpus_total c))
              else 1)\<rparr>)"

section \<open>Scores\<close>

definition BM25_K1 :: real where "BM25_K1 = 12 / 10"
definition BM25_B :: real where "BM25_B = 75 / 100"
definition EXACT_COMPOUND_SCORE_WEIGHT :: real where "EXACT_COMPOUND_SCORE_WEIGHT = 85 / 100"
definition EXACT_METADATA_SCORE_WEIGHT :: real where "EXACT_METADATA_SCORE_WEIGHT = 35 / 100"

definition bm25_term_frequency :: "nat \<Rightarrow> nat \<Rightarrow> real \<Rightarrow> real" where
  "bm25_term_frequency frequency doc_length average_doc_length =
     (let denominator = real frequency + BM25_K1 *
            (1 - BM25_B + BM25_B * (real (max 1 doc_length) / average_doc_length))
      in real frequency * (BM25_K1 + 1) / denominator)"

definition inverse_document_frequency :: "nat \<Rightarrow> nat \<Rightarrow> real" where
  "inverse_document_frequency n_docs df = ln (1 + (real n_docs - real df + 1 / 2) / (real df + 1 / 2))"

definition query_token_weight :: "ustr \<Rightarrow> real" where
  "query_token_weight token =
     (if is_digits token then 2 / 10
      else if hangul_token token \<and> length token = 1 then 4 / 10 else 1)"

definition role_multiplier :: "wiki_page \<Rightarrow> real" where
  "role_multiplier p = (case page_role p of Role_hot \<Rightarrow> 115 / 100 | Role_index \<Rightarrow> 106 / 100
     | Role_overview \<Rightarrow> 103 / 100 | Role_topic \<Rightarrow> 1)"

definition role_rank :: "page_role \<Rightarrow> nat" where
  "role_rank r = (case r of Role_hot \<Rightarrow> 0 | Role_index \<Rightarrow> 1 | Role_overview \<Rightarrow> 2 | Role_topic \<Rightarrow> 3)"

type_synonym scores = "(nat, real) dict"

definition add_score :: "nat \<Rightarrow> real \<Rightarrow> scores \<Rightarrow> scores" where
  "add_score i x d = AList.update i (dict_get d i 0 + x) d"

text \<open>The contribution of one posting list; a required-document set filters its entries.\<close>

definition add_entries ::
  "nat set option \<Rightarrow> (nat \<Rightarrow> nat \<Rightarrow> real) \<Rightarrow> (nat \<times> nat) list \<Rightarrow> scores \<Rightarrow> scores" where
  "add_entries required contribution entries d =
     fold (\<lambda>(i, n) d. if required \<noteq> None \<and> i \<notin> the required then d
                      else add_score i (contribution i n) d) entries d"

definition lexical_contribution :: "search_corpus \<Rightarrow> ustr \<Rightarrow> nat \<Rightarrow> nat \<Rightarrow> real" where
  "lexical_contribution c token i n =
     inverse_document_frequency (corpus_total c) (dict_get (corpus_doc_freq c) token 0) *
     bm25_term_frequency n (corpus_doc_lengths c ! i) (corpus_average_length c) *
     query_token_weight token"

definition add_token_scores :: "search_corpus \<Rightarrow> nat set option \<Rightarrow> ustr \<Rightarrow> scores \<Rightarrow> scores" where
  "add_token_scores c required token d =
     (if dict_get (corpus_doc_freq c) token 0 = 0 then d
      else add_entries required (lexical_contribution c token)
             (dict_get (corpus_postings c) token []) d)"

definition exact_contribution :: "search_corpus \<Rightarrow> real \<Rightarrow> nat \<Rightarrow> nat \<Rightarrow> nat \<Rightarrow> real" where
  "exact_contribution c weight df i n =
     inverse_document_frequency (corpus_total c) df * (1 + ln (1 + real n)) * weight"

definition add_exact_channel_scores ::
  "search_corpus \<Rightarrow> postings \<Rightarrow> ustr list \<Rightarrow> real \<Rightarrow> nat set option \<Rightarrow> scores \<Rightarrow> scores" where
  "add_exact_channel_scores c ps query_tokens weight required d =
     fold (\<lambda>token d.
       (let entries = dict_get ps token [] in
        if entries = [] then d
        else add_entries required (exact_contribution c weight (length entries)) entries d))
       query_tokens d"

definition exact_required_doc_indexes :: "search_corpus \<Rightarrow> ustr \<Rightarrow> nat set option" where
  "exact_required_doc_indexes c token =
     (if token = [] then None
      else Some (fst ` set (dict_get (corpus_exact_compound c) token []) \<union>
                 fst ` set (dict_get (corpus_exact_metadata c) token [])))"

definition exact_required_page_ids_for_query :: "search_corpus \<Rightarrow> ustr \<Rightarrow> ustr set option" where
  "exact_required_page_ids_for_query c query =
     map_option (\<lambda>required. (\<lambda>i. page_id (doc_page (corpus_documents c ! i))) ` required)
       (exact_required_doc_indexes c (single_exact_compound_query_token (corpus_profile c) query))"

text \<open>\<open>candidate_scores\<close> after all channels of a lexical query.\<close>

definition candidate_scores :: "(ustr \<Rightarrow> ustr) \<Rightarrow> search_corpus \<Rightarrow> ustr \<Rightarrow> scores" where
  "candidate_scores stem c query =
     (let profile = corpus_profile c;
          tokens = unique_tokens (tokenize stem profile query);
          exact_token = single_exact_compound_query_token profile query;
          exact_tokens = (if exact_token \<noteq> [] then [exact_token]
                          else exact_compound_tokens profile query);
          required = exact_required_doc_indexes c exact_token;
          d1 = fold (add_token_scores c required) tokens [];
          d2 = (if exact_token \<noteq> []
                then add_exact_channel_scores c (corpus_exact_compound c) [exact_token]
                       EXACT_COMPOUND_SCORE_WEIGHT required d1
                else d1)
      in add_exact_channel_scores c (corpus_exact_metadata c) exact_tokens
           EXACT_METADATA_SCORE_WEIGHT required d2)"

section \<open>Literal occurrences\<close>

definition normalized_literal :: "ustr \<Rightarrow> ustr" where
  "normalized_literal query = collapse_ws query"

lemma find_from_le: "find_from s p start = Some i \<Longrightarrow> start \<le> i"
  by (auto simp: find_from_def split: if_splits)

lemma find_from_len: "find_from s p start = Some i \<Longrightarrow> start \<le> length s"
  by (auto simp: find_from_def split: if_splits)

function substring_count_from :: "ustr \<Rightarrow> ustr \<Rightarrow> nat \<Rightarrow> nat" where
  "substring_count_from haystack needle start =
     (case find_from haystack needle start of
        None \<Rightarrow> 0
      | Some i \<Rightarrow> Suc (substring_count_from haystack needle (i + max 1 (length needle))))"
  by pat_completeness auto
termination
proof (relation "measure (\<lambda>(h, n, start). Suc (length h) - start)", goal_cases)
  case 1
  then show ?case by simp
next
  case (2 h n start i)
  then show ?case using find_from_le [of h n start i] find_from_len [of h n start i] by auto
qed

declare substring_count_from.simps [simp del]

lemmas substring_loop [py_loop] = substring_count_from.simps

definition substring_count :: "ustr \<Rightarrow> ustr \<Rightarrow> nat" where
  "substring_count haystack needle = substring_count_from haystack needle 0"

definition literal_score :: "wiki_page \<Rightarrow> ustr \<Rightarrow> nat \<Rightarrow> real" where
  "literal_score p folded_query occurrences =
     1 + min 3 (ln (1 + real occurrences)) +
     (if contains (casefold (page_title p)) folded_query then 3 / 2 else 0) +
     (if contains (casefold (page_summary p)) folded_query then 7 / 10 else 0)"

end
