(* ===== verification/Search.thy ===== *)
theory Search
  imports Search_Corpus
begin

text \<open>
  The queries of \<open>search.py\<close>: lexical and literal search over a corpus, the ranking with its managed
  tie band, orientation pages, snippets and the projection of results on fields. The managed prior
  is a caller's function: None stands for a value that is not a finite number.
\<close>

section \<open>Snippets\<close>

definition SEARCH_SNIPPET_LIMIT :: nat where "SEARCH_SNIPPET_LIMIT = 280"
definition SEARCH_SNIPPET_MAX :: int where "SEARCH_SNIPPET_MAX = 2000"

definition snippet_limit :: "int option \<Rightarrow> nat" where
  "snippet_limit value =
     (case value of None \<Rightarrow> SEARCH_SNIPPET_LIMIT | Some v \<Rightarrow> nat (max 0 (min v SEARCH_SNIPPET_MAX)))"

definition snippet_window :: "ustr \<Rightarrow> nat \<Rightarrow> nat \<Rightarrow> ustr" where
  "snippet_window haystack position limit = take limit (drop (position - 100) haystack)"

definition snippet_for :: "wiki_page \<Rightarrow> ustr list \<Rightarrow> nat \<Rightarrow> ustr \<Rightarrow> ustr" where
  "snippet_for p query_tokens limit literal_query =
     (if limit = 0 then []
      else let haystack = (if page_text p \<noteq> [] then page_text p else page_summary p);
               lowered = lower haystack;
               window =
                 (if literal_query \<noteq> []
                  then (case find_sub (casefold haystack) (casefold literal_query) of
                          Some position \<Rightarrow> snippet_window haystack position limit
                        | None \<Rightarrow> haystack)
                  else (case List.map_filter (find_sub lowered) query_tokens of
                          [] \<Rightarrow> haystack
                        | positions \<Rightarrow> snippet_window haystack (Min (set positions)) limit));
               clean = collapse_ws window
           in if length clean \<le> limit then clean
              else rstrip (take (limit - 1) clean) @ lit ''...'')"

section \<open>Results and their order\<close>

definition to_result ::
  "wiki_page \<Rightarrow> real \<Rightarrow> ustr list \<Rightarrow> string \<Rightarrow> int option \<Rightarrow> ustr \<Rightarrow> search_result" where
  "to_result p score query_tokens route snippet_chars literal_query =
     \<lparr>res_page_id = page_id p, res_title = page_title p, res_path = page_path p,
      res_score = py_round score 4,
      res_snippet = snippet_for p query_tokens (snippet_limit snippet_chars) literal_query,
      res_role = page_role p, res_source_refs = page_source_refs p, res_route = lit route\<rparr>"

type_synonym managed_prior = "(search_result \<Rightarrow> real option) option"

definition lexical_sort_key :: "search_result \<Rightarrow> real \<times> nat \<times> ustr" where
  "lexical_sort_key item = (- res_score item, role_rank (res_role item), res_path item)"

definition managed_boost :: "(search_result \<Rightarrow> real option) \<Rightarrow> real \<Rightarrow> search_result \<Rightarrow> real" where
  "managed_boost prior band item =
     (case prior item of None \<Rightarrow> 0 | Some boost \<Rightarrow> if boost \<le> 0 then 0 else min boost band)"

definition managed_sort_key ::
  "(search_result \<Rightarrow> real option) \<Rightarrow> real \<Rightarrow> search_result \<Rightarrow> real \<times> real \<times> nat \<times> ustr" where
  "managed_sort_key prior band item =
     (- (res_score item + managed_boost prior band item), - res_score item,
      role_rank (res_role item), res_path item)"

text \<open>
  The band loop: results within \<open>band\<close> of the best remaining score are re-sorted together. The best
  one is always within the band, as the band is positive.
\<close>

function rank_bands ::
  "(search_result \<Rightarrow> real option) \<Rightarrow> real \<Rightarrow> search_result list \<Rightarrow> search_result list" where
  "rank_bands prior band [] = []"
| "rank_bands prior band (best # results) =
     (let near = (\<lambda>item. res_score best - res_score item \<le> band)
      in sort_key (managed_sort_key prior band) (best # takeWhile near results) @
         rank_bands prior band (dropWhile near results))"
  by pat_completeness auto
termination
  by (relation "measure (\<lambda>(prior, band, results). length results)")
    (auto simp: less_Suc_eq_le length_dropWhile_le)

definition rank_search_results ::
  "managed_prior \<Rightarrow> real \<Rightarrow> search_result list \<Rightarrow> search_result list" where
  "rank_search_results prior band results =
     (let ordered = sort_key lexical_sort_key results
      in case prior of
           None \<Rightarrow> ordered
         | Some f \<Rightarrow> if band \<le> 0 \<or> length ordered < 2 then ordered else rank_bands f band ordered)"

section \<open>Orientation\<close>

definition pick_role :: "wiki_page list \<Rightarrow> page_role \<Rightarrow> wiki_page list \<Rightarrow> wiki_page list" where
  "pick_role ordered r selected =
     (case List.find (\<lambda>p. page_role p = r \<and> page_path p \<notin> page_path ` set selected) ordered of
        None \<Rightarrow> selected | Some p \<Rightarrow> selected @ [p])"

definition orientation_pages :: "wiki_page list \<Rightarrow> wiki_page list" where
  "orientation_pages pages =
     (let ordered = sort_key (\<lambda>p. (role_rank (page_role p), page_path p)) pages;
          selected = fold (pick_role ordered) [Role_hot, Role_index, Role_overview] []
      in selected @ filter (\<lambda>p. page_path p \<notin> page_path ` set selected) ordered)"

text \<open>Scores of 1.0, 0.99, 0.98 and so on, in the order of the pages.\<close>

definition ranked_results :: "string \<Rightarrow> int option \<Rightarrow> wiki_page list \<Rightarrow> search_result list" where
  "ranked_results route snippet_chars pages =
     map (\<lambda>(rank, p). to_result p (1 - real rank * (1 / 100)) [] route snippet_chars [])
       (List.enumerate 0 pages)"

definition context_orientation :: "wiki_page list \<Rightarrow> bool \<Rightarrow> int option \<Rightarrow> search_result list" where
  "context_orientation pages include_drafts snippet_chars =
     ranked_results ''orientation'' snippet_chars
       (take 3 (orientation_pages (visible_pages pages include_drafts)))"

definition page_exclusion_set :: "ustr list \<Rightarrow> ustr set" where
  "page_exclusion_set page_ids = set (filter (\<lambda>i. i \<noteq> []) (map strip page_ids))"

definition page_is_excluded :: "wiki_page \<Rightarrow> ustr set \<Rightarrow> bool" where
  "page_is_excluded p excluded \<longleftrightarrow> page_id p \<in> excluded \<or> page_path p \<in> excluded"

definition overview_results ::
  "wiki_page list \<Rightarrow> nat \<Rightarrow> int option \<Rightarrow> ustr list \<Rightarrow> search_result list" where
  "overview_results pages limit snippet_chars exclude_page_ids =
     (let excluded = page_exclusion_set exclude_page_ids
      in take limit (ranked_results ''overview'' snippet_chars
           (filter (\<lambda>p. \<not> page_is_excluded p excluded) (orientation_pages pages))))"

section \<open>Queries\<close>

record search_options =
  opt_limit :: nat
  opt_snippet_chars :: "int option"
  opt_min_score :: "real option"
  opt_exclude :: "ustr list"
  opt_prior :: managed_prior
  opt_band :: real

definition lexical_empty_query_uses_overview :: "ustr \<Rightarrow> analyzer_profile \<Rightarrow> bool" where
  "lexical_empty_query_uses_overview query profile \<longleftrightarrow> strip query = [] \<or> profile = Legacy"

text \<open>Whether a scored document becomes a result, and which one.\<close>

definition score_result ::
  "search_options \<Rightarrow> wiki_page \<Rightarrow> real \<Rightarrow> ustr list \<Rightarrow> string \<Rightarrow> ustr \<Rightarrow> search_result list" where
  "score_result opts p score query_tokens route literal_query =
     (if opt_min_score opts \<noteq> None \<and> score < the (opt_min_score opts) then []
      else [to_result p score query_tokens route (opt_snippet_chars opts) literal_query])"

definition lexical_results ::
  "search_options \<Rightarrow> search_corpus \<Rightarrow> ustr list \<Rightarrow> scores \<Rightarrow> search_result list" where
  "lexical_results opts c tokens scored =
     concat (map (\<lambda>i.
       (let p = doc_page (corpus_documents c ! i); text_score = dict_get scored i 0 in
        if page_is_excluded p (page_exclusion_set (opt_exclude opts)) \<or> text_score \<le> 0 then []
        else score_result opts p (text_score * role_multiplier p) tokens ''search'' []))
       (sort (map fst scored)))"

definition lexical_search_corpus ::
  "(ustr \<Rightarrow> ustr) \<Rightarrow> search_corpus \<Rightarrow> ustr \<Rightarrow> search_options \<Rightarrow> search_result list" where
  "lexical_search_corpus stem c query opts =
     (let profile = corpus_profile c;
          tokens = unique_tokens (tokenize stem profile query);
          exact_token = single_exact_compound_query_token profile query
      in if tokens = []
         then (if lexical_empty_query_uses_overview query profile
               then overview_results (corpus_pages c) (opt_limit opts) (opt_snippet_chars opts)
                      (opt_exclude opts)
               else [])
         else if exact_required_doc_indexes c exact_token = Some {} then []
         else take (opt_limit opts) (rank_search_results (opt_prior opts) (opt_band opts)
                (lexical_results opts c tokens (candidate_scores stem c query))))"

definition literal_search_corpus ::
  "search_corpus \<Rightarrow> ustr \<Rightarrow> search_options \<Rightarrow> search_result list" where
  "literal_search_corpus c query opts =
     (let literal_query = normalized_literal query;
          excluded = page_exclusion_set (opt_exclude opts);
          folded = casefold literal_query
      in if literal_query = []
         then overview_results (corpus_pages c) (opt_limit opts) (opt_snippet_chars opts)
                (opt_exclude opts)
         else take (opt_limit opts) (rank_search_results (opt_prior opts) (opt_band opts)
                (concat (map (\<lambda>d.
                   (let p = doc_page d;
                        occurrences = substring_count (casefold (literal_page_text p)) folded
                    in if page_is_excluded p excluded \<or> occurrences = 0 then []
                       else score_result opts p (literal_score p folded occurrences * role_multiplier p)
                              [] ''literal'' literal_query)) (corpus_documents c)))))"

definition search_in_corpus ::
  "(ustr \<Rightarrow> ustr) \<Rightarrow> search_corpus \<Rightarrow> ustr \<Rightarrow> search_mode \<Rightarrow> search_options \<Rightarrow> search_result list res" where
  "search_in_corpus stem c query mode opts =
     (case mode of
        Literal \<Rightarrow> Inr (literal_search_corpus c query opts)
      | Lexical \<Rightarrow> Inr (lexical_search_corpus stem c query opts)
      | _ \<Rightarrow> Inl (LlmWikiUserError ''Search mode requires a configured vector provider''))"

definition search_index ::
  "(ustr \<Rightarrow> ustr) \<Rightarrow> wiki_index \<Rightarrow> ustr \<Rightarrow> bool \<Rightarrow> search_mode \<Rightarrow> analyzer_profile \<Rightarrow> search_options \<Rightarrow>
   search_result list res" where
  "search_index stem index query include_drafts mode profile opts =
     search_in_corpus stem (build_search_corpus stem profile (visible_pages (idx_pages index) include_drafts))
       query mode opts"

section \<open>Fields\<close>

definition SEARCH_RESULT_FIELD_ORDER :: "ustr list" where
  "SEARCH_RESULT_FIELD_ORDER = map lit [''page_id'', ''title'', ''path'', ''score'', ''snippet'',
     ''role'', ''source_refs'', ''route'']"

definition normalize_search_result_fields :: "ustr list option \<Rightarrow> ustr list option" where
  "normalize_search_result_fields wanted =
     map_option (\<lambda>fs.
       let normalized = dedupe_on (\<lambda>f. f) {} (filter (\<lambda>f. f \<in> set SEARCH_RESULT_FIELD_ORDER)
              (map (\<lambda>f. lower (strip f)) fs));
           with_id = (if lit ''page_id'' \<in> set normalized then normalized
                      else lit ''page_id'' # normalized)
       in filter (\<lambda>f. f \<in> set with_id) SEARCH_RESULT_FIELD_ORDER) wanted"

definition result_field :: "search_result \<Rightarrow> ustr \<Rightarrow> pyval" where
  "result_field r f =
     (if f = lit ''page_id'' then PStr (res_page_id r) else if f = lit ''title'' then PStr (res_title r)
      else if f = lit ''path'' then PStr (res_path r) else if f = lit ''score'' then PFloat (res_score r)
      else if f = lit ''snippet'' then PStr (res_snippet r)
      else if f = lit ''role'' then PStr (role_str (res_role r))
      else if f = lit ''source_refs'' then PList (map PStr (res_source_refs r))
      else PStr (res_route r))"

text \<open>The fields a projected result has set, with their values.\<close>

definition project_search_result :: "search_result \<Rightarrow> ustr list option \<Rightarrow> (ustr \<times> pyval) list" where
  "project_search_result r wanted =
     map (\<lambda>f. (f, result_field r f))
       (case normalize_search_result_fields wanted of None \<Rightarrow> SEARCH_RESULT_FIELD_ORDER | Some fs \<Rightarrow> fs)"

end
