(* ===== verification/Search_Corpus_Props.thy ===== *)
theory Search_Corpus_Props
  imports Search
begin

text \<open>
  What a built corpus holds: its documents, the document frequency and the posting list of every
  token, and the documents that get a score, with the sign of that score.
\<close>

section \<open>Posting lists\<close>

lemma filter_key:
  "distinct (map fst d) \<Longrightarrow>
   filter (\<lambda>x. fst x = k) d = (case map_of d k of None \<Rightarrow> [] | Some v \<Rightarrow> [(k, v)])"
proof (induction d)
  case (Cons a d)
  have "filter (\<lambda>x. fst x = fst a) d = []" if "fst a \<notin> fst ` set d"
    using that by (metis (mono_tags, lifting) filter_False imageI)
  with Cons show ?case by (cases a) auto
qed simp

lemma map_of_counter: "map_of (counter ks) k = (if k \<in> set ks then Some (count_list ks k) else None)"
proof (cases "k \<in> set ks")
  case True
  then have "(k, count_list ks k) \<in> set (counter ks)" by (simp add: counter_entries)
  with True show ?thesis by (simp add: map_of_eq_Some_iff [OF distinct_counter])
next
  case False
  then show ?thesis by (simp add: map_of_eq_None_iff keys_counter)
qed

lemma add_counts_counter:
  "dict_get (add_counts i (counter ks) ps) t [] =
     dict_get ps t [] @ (if t \<in> set ks then [(i, count_list ks t)] else [])"
proof -
  have "add_counts i (counter ks) ps =
      fold (\<lambda>x. dict_append (fst x) (i, snd x)) (counter ks) ps"
    by (simp add: add_counts_def case_prod_unfold)
  then show ?thesis
    by (simp add: dict_get_fold_append filter_key [OF distinct_counter] map_of_counter)
qed

lemma count_remdups: "count_list (remdups ks) k = (if k \<in> set ks then 1 else 0)"
  by (induction ks) auto

text \<open>The postings of token \<open>t\<close> over pages numbered from \<open>n\<close>, whose tokens are \<open>f\<close>.\<close>

definition occurrences :: "(wiki_page \<Rightarrow> ustr list) \<Rightarrow> nat \<Rightarrow> wiki_page list \<Rightarrow> ustr \<Rightarrow> (nat \<times> nat) list" where
  "occurrences f n pages t =
     map (\<lambda>(i, p). (i, count_list (f p) t)) (filter (\<lambda>(i, p). t \<in> set (f p)) (List.enumerate n pages))"

lemma occurrences_simps [simp]:
  "occurrences f n [] t = []"
  "occurrences f n (p # pages) t =
     (if t \<in> set (f p) then [(n, count_list (f p) t)] else []) @ occurrences f (Suc n) pages t"
  by (simp_all add: occurrences_def)

lemma occurrences_indexes:
  "fst ` set (occurrences f 0 pages t) = {i. i < length pages \<and> t \<in> set (f (pages ! i))}"
  by (force simp: occurrences_def in_set_enumerate_eq image_iff)

lemma occurrences_frequency: "(i, k) \<in> set (occurrences f 0 pages t) \<Longrightarrow> 0 < k"
  by (auto simp: occurrences_def count_list_0_iff intro!: Suc_leI)
    (metis count_list_0_iff gr0I)

lemma occurrences_Nil: "occurrences f n pages t = [] \<longleftrightarrow> (\<forall>p\<in>set pages. t \<notin> set (f p))"
  by (induction pages arbitrary: n) auto

section \<open>The built corpus\<close>

definition page_tokens :: "(ustr \<Rightarrow> ustr) \<Rightarrow> analyzer_profile \<Rightarrow> wiki_page \<Rightarrow> ustr list" where
  "page_tokens stem profile p = tokenize stem profile (page_text_for_profile profile p)"

definition page_identifiers :: "analyzer_profile \<Rightarrow> wiki_page \<Rightarrow> ustr list" where
  "page_identifiers profile p = exact_compound_tokens profile (authored_page_text p)"

definition page_metadata_identifiers :: "analyzer_profile \<Rightarrow> wiki_page \<Rightarrow> ustr list" where
  "page_metadata_identifiers profile p = exact_compound_tokens profile (exact_metadata_text p)"

lemma add_page_fold:
  fixes stem :: "ustr \<Rightarrow> ustr" and c :: search_corpus and pages :: "wiki_page list" and n :: nat
  defines "prof \<equiv> corpus_profile c"
  defines "c' \<equiv> fold (add_page stem) (List.enumerate n pages) c"
  shows "corpus_profile c' = prof" and "corpus_pages c' = corpus_pages c"
    and "corpus_documents c' = corpus_documents c @ map (document_of stem prof) pages"
    and "corpus_doc_lengths c' = corpus_doc_lengths c @ map (\<lambda>p. length (page_tokens stem prof p)) pages"
    and "dict_get (corpus_doc_freq c') t 0 = dict_get (corpus_doc_freq c) t 0 +
           length (filter (\<lambda>p. t \<in> set (page_tokens stem prof p)) pages)"
    and "dict_get (corpus_postings c') t [] =
           dict_get (corpus_postings c) t [] @ occurrences (page_tokens stem prof) n pages t"
    and "dict_get (corpus_exact_compound c') t [] = dict_get (corpus_exact_compound c) t [] @
           occurrences (page_identifiers prof) n pages t"
    and "dict_get (corpus_exact_metadata c') t [] = dict_get (corpus_exact_metadata c) t [] @
           occurrences (page_metadata_identifiers prof) n pages t"
  unfolding prof_def c'_def
  by (induction pages arbitrary: n c)
    (simp_all add: add_page_def Let_def document_of_def page_tokens_def page_identifiers_def
      page_metadata_identifiers_def index_exact_channel_def add_counts_counter dict_get_fold_counter
      count_remdups exact_compound_tokens_def)

lemma dict_get_Nil [simp]: "dict_get [] k x = x"
  by (simp add: dict_get_def)

lemma built_corpus:
  fixes stem :: "ustr \<Rightarrow> ustr" and pages :: "wiki_page list" and profile :: analyzer_profile
  defines "c \<equiv> build_search_corpus stem profile pages"
  shows "corpus_profile c = profile" and "corpus_pages c = pages"
    and "corpus_documents c = map (document_of stem profile) pages"
    and "corpus_doc_lengths c = map (\<lambda>p. length (page_tokens stem profile p)) pages"
    and "dict_get (corpus_doc_freq c) t 0 =
           length (filter (\<lambda>p. t \<in> set (page_tokens stem profile p)) pages)"
    and "dict_get (corpus_postings c) t [] = occurrences (page_tokens stem profile) 0 pages t"
    and "dict_get (corpus_exact_compound c) t [] = occurrences (page_identifiers profile) 0 pages t"
    and "dict_get (corpus_exact_metadata c) t [] =
           occurrences (page_metadata_identifiers profile) 0 pages t"
    and "1 \<le> corpus_average_length c"
  by (simp_all add: c_def build_search_corpus_def Let_def add_page_fold)

lemma corpus_total_built: "corpus_total (build_search_corpus stem profile pages) = max 1 (length pages)"
  by (simp add: corpus_total_def built_corpus)

text \<open>
  C8: The index of a corpus is exact: a token's document frequency is the number of pages that
  contain it, and its posting list names those pages in order with the token's count in each.
\<close>

theorem corpus_index_exact:
  "dict_get (corpus_doc_freq (build_search_corpus stem profile pages)) t 0 =
     length (filter (\<lambda>p. t \<in> set (tokenize stem profile (page_text_for_profile profile p))) pages) \<and>
   dict_get (corpus_postings (build_search_corpus stem profile pages)) t [] =
     map (\<lambda>i. (i, count_list (tokenize stem profile (page_text_for_profile profile (pages ! i))) t))
       (filter (\<lambda>i. t \<in> set (tokenize stem profile (page_text_for_profile profile (pages ! i))))
         [0..<length pages])"
proof -
  have enum: "List.enumerate 0 pages = map (\<lambda>i. (i, pages ! i)) [0..<length pages]"
    by (rule nth_equalityI) (simp_all add: nth_enumerate_eq)
  have "occurrences f 0 pages t = map (\<lambda>i. (i, count_list (f (pages ! i)) t))
      (filter (\<lambda>i. t \<in> set (f (pages ! i))) [0..<length pages])" for f
    by (simp add: occurrences_def enum filter_map comp_def)
  then show ?thesis by (simp add: built_corpus page_tokens_def)
qed

section \<open>Scores are positive\<close>

lemma idf_pos: "df \<le> n_docs \<Longrightarrow> 0 < inverse_document_frequency n_docs df"
  unfolding inverse_document_frequency_def by (intro ln_gt_zero) (simp add: divide_pos_pos)

lemma bm25_pos: "0 < n \<Longrightarrow> 1 \<le> avg \<Longrightarrow> 0 < bm25_term_frequency n len avg"
  by (simp add: bm25_term_frequency_def Let_def BM25_K1_def BM25_B_def add_pos_nonneg divide_pos_pos)

lemma query_token_weight_pos: "0 < query_token_weight t"
  by (simp add: query_token_weight_def)

lemma role_multiplier_pos: "0 < role_multiplier p"
  by (simp add: role_multiplier_def split: page_role.split)

definition admitted :: "nat set option \<Rightarrow> nat \<Rightarrow> bool" where
  "admitted required i \<longleftrightarrow> (case required of None \<Rightarrow> True | Some r \<Rightarrow> i \<in> r)"

definition scores_ok :: "scores \<Rightarrow> bool" where
  "scores_ok d \<longleftrightarrow> distinct (map fst d) \<and> (\<forall>x\<in>set d. 0 < snd x)"

lemma scores_ok_Nil [simp]: "scores_ok []"
  by (simp add: scores_ok_def)

lemma scores_ok_get: "scores_ok d \<Longrightarrow> 0 \<le> dict_get d i 0"
  by (force simp: scores_ok_def dict_get_def dest: map_of_SomeD split: option.splits)

lemma scores_ok_pos: "scores_ok d \<Longrightarrow> i \<in> fst ` set d \<Longrightarrow> 0 < dict_get d i 0"
  by (force simp: scores_ok_def dict_get_def map_of_eq_None_iff dest: map_of_SomeD split: option.splits)

lemma snd_update: "x \<in> set (AList.update k v d) \<Longrightarrow> x \<in> set d \<or> snd x = v"
  by (induction d) (auto split: if_splits)

lemma add_score_ok:
  assumes "scores_ok d" and "0 < x"
  shows "scores_ok (add_score i x d)" and "fst ` set (add_score i x d) = insert i (fst ` set d)"
proof -
  have "0 < dict_get d i 0 + x" using scores_ok_get [OF assms(1), of i] assms(2) by linarith
  with assms(1) show "scores_ok (add_score i x d)"
    unfolding scores_ok_def add_score_def by (auto simp: distinct_update dest: snd_update)
  show "fst ` set (add_score i x d) = insert i (fst ` set d)"
    by (simp add: add_score_def dom_update)
qed

lemma add_entries_ok:
  assumes "scores_ok d" and "\<And>i n. (i, n) \<in> set es \<Longrightarrow> 0 < f i n"
  shows "scores_ok (add_entries required f es d) \<and>
    fst ` set (add_entries required f es d) = fst ` set d \<union> {i \<in> fst ` set es. admitted required i}"
  using assms
proof (induction es arbitrary: d)
  case (Cons e es)
  obtain i n where e: "e = (i, n)" by (cases e)
  define d1 where "d1 = (if admitted required i then add_score i (f i n) d else d)"
  have step: "add_entries required f (e # es) d = add_entries required f es d1"
    by (auto simp: add_entries_def d1_def e admitted_def split: option.splits)
  have "0 < f i n" using Cons.prems(2) e by simp
  then have d1: "scores_ok d1" "fst ` set d1 = fst ` set d \<union> (if admitted required i then {i} else {})"
    using add_score_ok [OF Cons.prems(1)] Cons.prems(1) by (auto simp: d1_def)
  show ?case
    using Cons.IH [OF d1(1)] Cons.prems(2) unfolding step d1(2) by (auto simp: e)
qed (simp add: add_entries_def)

text \<open>A whole channel: one posting list per token, every contribution positive.\<close>

lemma fold_entries_ok:
  assumes "scores_ok d"
    and step: "\<And>t d. step t d = d \<and> entries t = [] \<or> step t d = add_entries required (f t) (entries t) d"
    and "\<And>t i n. (i, n) \<in> set (entries t) \<Longrightarrow> 0 < f t i n"
  shows "scores_ok (fold step tokens d) \<and> fst ` set (fold step tokens d) =
    fst ` set d \<union> {i. admitted required i \<and> (\<exists>t\<in>set tokens. i \<in> fst ` set (entries t))}"
  using assms(1)
proof (induction tokens arbitrary: d)
  case (Cons t tokens)
  have "scores_ok (step t d) \<and>
      fst ` set (step t d) = fst ` set d \<union> {i \<in> fst ` set (entries t). admitted required i}"
    using step [of t d]
  proof
    assume "step t d = d \<and> entries t = []"
    with Cons.prems show ?thesis by simp
  next
    assume "step t d = add_entries required (f t) (entries t) d"
    with add_entries_ok [OF Cons.prems assms(3)] show ?thesis by simp
  qed
  with Cons.IH [of "step t d"] show ?case by auto
qed simp

lemma occurrences_length: "length (occurrences f n pages t) \<le> length pages"
  by (induction pages arbitrary: n) (auto intro: le_SucI)

text \<open>The documents a query gives a score, and the required ones, by their pages.\<close>

definition shares :: "ustr list \<Rightarrow> ustr list \<Rightarrow> bool" where
  "shares xs ys \<longleftrightarrow> list_ex (\<lambda>x. x \<in> set ys) xs"

lemma token_scores_ok:
  fixes stem :: "ustr \<Rightarrow> ustr" and pages :: "wiki_page list" and profile :: analyzer_profile
  defines "c \<equiv> build_search_corpus stem profile pages"
  assumes "scores_ok d"
  shows "scores_ok (fold (add_token_scores c required) tokens d) \<and>
    fst ` set (fold (add_token_scores c required) tokens d) = fst ` set d \<union>
      {i. admitted required i \<and> i < length pages \<and> shares tokens (page_tokens stem profile (pages ! i))}"
proof -
  let ?entries = "\<lambda>t. occurrences (page_tokens stem profile) 0 pages t"
  have df: "dict_get (corpus_doc_freq c) t 0 = 0 \<longleftrightarrow> ?entries t = []" for t
    by (auto simp: c_def built_corpus occurrences_Nil filter_empty_conv)
  have postings: "dict_get (corpus_postings c) t [] = ?entries t" for t
    by (simp add: c_def built_corpus)
  have "dict_get (corpus_doc_freq c) t 0 \<le> max 1 (length pages)" for t
    using length_filter_le [of _ pages] by (simp add: c_def built_corpus le_max_iff_disj)
  then have pos: "0 < lexical_contribution c t i n" if "(i, n) \<in> set (?entries t)" for t i n
    using occurrences_frequency [OF that]
    by (simp add: lexical_contribution_def idf_pos bm25_pos query_token_weight_pos c_def
        corpus_total_built built_corpus)
  have "scores_ok (fold (add_token_scores c required) tokens d) \<and>
      fst ` set (fold (add_token_scores c required) tokens d) = fst ` set d \<union>
        {i. admitted required i \<and> (\<exists>t\<in>set tokens. i \<in> fst ` set (?entries t))}"
    by (rule fold_entries_ok [where f = "lexical_contribution c", OF assms(2) _ pos])
      (simp add: add_token_scores_def df postings)
  then show ?thesis by (auto simp: occurrences_indexes shares_def list_ex_iff)
qed

lemma channel_scores_ok:
  fixes stem :: "ustr \<Rightarrow> ustr" and pages :: "wiki_page list" and profile :: analyzer_profile
  defines "c \<equiv> build_search_corpus stem profile pages"
  assumes "scores_ok d" and "0 < weight" and ps: "\<And>t. dict_get ps t [] = occurrences g 0 pages t"
  shows "scores_ok (add_exact_channel_scores c ps tokens weight required d) \<and>
    fst ` set (add_exact_channel_scores c ps tokens weight required d) = fst ` set d \<union>
      {i. admitted required i \<and> i < length pages \<and> shares tokens (g (pages ! i))}"
proof -
  let ?entries = "\<lambda>t. occurrences g 0 pages t"
  have "length (?entries t) \<le> max 1 (length pages)" for t
    using occurrences_length [of g 0 pages t] by simp
  then have pos: "0 < exact_contribution c weight (length (?entries t)) i n" for t i n
    using assms(3) by (simp add: exact_contribution_def idf_pos c_def corpus_total_built add_pos_nonneg)
  have "scores_ok (add_exact_channel_scores c ps tokens weight required d) \<and>
      fst ` set (add_exact_channel_scores c ps tokens weight required d) = fst ` set d \<union>
        {i. admitted required i \<and> (\<exists>t\<in>set tokens. i \<in> fst ` set (?entries t))}"
    unfolding add_exact_channel_scores_def
    by (rule fold_entries_ok [where f = "\<lambda>t. exact_contribution c weight (length (?entries t))",
          OF assms(2) _ pos]) (auto simp: ps Let_def)
  then show ?thesis by (auto simp: occurrences_indexes shares_def list_ex_iff)
qed

end
