(* ===== verification/Search_Props.thy ===== *)
theory Search_Props
  imports Search_Corpus_Props "HOL-Library.Multiset"
begin

text \<open>
  What a search returns: the postings and document frequencies of a corpus, the documents a lexical
  or literal query finds, the ranking with its tie band, the orientation order, the length of
  snippets and the field projection.
\<close>

section \<open>Ranking\<close>

lemma mset_rank_bands: "mset (rank_bands prior band results) = mset results"
proof (induction prior band results rule: rank_bands.induct)
  case (2 prior band best results)
  have "mset (takeWhile P results) + mset (dropWhile P results) = mset results" for P
    by (metis mset_append takeWhile_dropWhile_id)
  with 2 show ?case by (simp add: Let_def)
qed simp

lemma mset_rank: "mset (rank_search_results prior band results) = mset results"
  by (simp add: rank_search_results_def Let_def mset_rank_bands split: option.splits)

lemma set_rank [simp]: "set (rank_search_results prior band results) = set results"
  by (metis mset_rank set_mset_mset)

lemma length_rank [simp]: "length (rank_search_results prior band results) = length results"
  by (metis mset_rank size_mset)

text \<open>No result stands before one whose score is better by more than the band.\<close>

definition within_band :: "real \<Rightarrow> search_result \<Rightarrow> search_result \<Rightarrow> bool" where
  "within_band band x y \<longleftrightarrow> res_score y - res_score x \<le> band"

lemma sorted_by_score:
  "sorted (map lexical_sort_key results) \<Longrightarrow> sorted_wrt (\<lambda>x y. res_score y \<le> res_score x) results"
  by (induction results) (auto simp: lexical_sort_key_def less_eq_prod_def less_prod_def)

lemma sorted_wrt_near:
  assumes "sorted_wrt (\<lambda>x y. res_score y \<le> res_score x) (best # results)"
    and "x \<in> set (best # takeWhile (\<lambda>item. res_score best - res_score item \<le> band) results)"
    and "0 < band"
  shows "res_score best - res_score x \<le> band" and "res_score x \<le> res_score best"
proof -
  have member: "x = best \<or> x \<in> set results \<and> res_score best - res_score x \<le> band"
    using assms(2) by (auto dest: set_takeWhileD)
  from member show "res_score best - res_score x \<le> band" using assms(3) by auto
  from member show "res_score x \<le> res_score best" using assms(1) by auto
qed

lemma rank_bands_within:
  assumes "0 < band" and "sorted_wrt (\<lambda>x y. res_score y \<le> res_score x) results"
  shows "sorted_wrt (within_band band) (rank_bands prior band results)"
  using assms
proof (induction prior band results rule: rank_bands.induct)
  case (2 prior band best results)
  let ?near = "\<lambda>item. res_score best - res_score item \<le> band"
  let ?group = "best # takeWhile ?near results"
  let ?rest = "dropWhile ?near results"
  have sorted: "sorted_wrt (\<lambda>x y. res_score y \<le> res_score x) (?group @ ?rest)"
    using "2.prems"(2) takeWhile_dropWhile_id [of ?near results] by (simp only: append_Cons)
  have inside: "within_band band x y" if "x \<in> set ?group" "y \<in> set ?group" for x y
    using sorted_wrt_near [OF "2.prems"(2) that(1) "2.prems"(1)]
      sorted_wrt_near [OF "2.prems"(2) that(2) "2.prems"(1)]
    by (simp add: within_band_def)
  have across: "within_band band x y" if "x \<in> set ?group" "y \<in> set ?rest" for x y
    using sorted that "2.prems"(1) unfolding sorted_wrt_append within_band_def by fastforce
  have "sorted_wrt (within_band band) (rank_bands prior band ?rest)"
    using "2.IH" [OF refl "2.prems"(1)] sorted unfolding sorted_wrt_append by blast
  moreover have "sorted_wrt (within_band band) (sort_key k ?group)"
    for k :: "search_result \<Rightarrow> real \<times> real \<times> nat \<times> ustr"
    using inside by (intro sorted_wrt_mono_rel [OF _ sorted_wrt_true]) (metis set_sort)
  moreover have "set (rank_bands prior band ?rest) = set ?rest"
    by (metis mset_rank_bands set_mset_mset)
  ultimately show ?case using across
    by (simp only: rank_bands.simps Let_def sorted_wrt_append set_sort) blast
qed simp

text \<open>
  C7: Ranking reorders the results and nothing else; without a managed prior it is the order of
  score, role and path, and with one no result is placed before another whose score is better by
  more than the tie band.
\<close>

theorem ranking_respects_scores:
  "mset (rank_search_results prior band results) = mset results \<and>
   rank_search_results None band results = sort_key lexical_sort_key results \<and>
   sorted_wrt (within_band (max 0 band)) (rank_search_results prior band results)"
proof (intro conjI)
  show "mset (rank_search_results prior band results) = mset results" by (rule mset_rank)
  show "rank_search_results None band results = sort_key lexical_sort_key results"
    by (simp add: rank_search_results_def)
  have sorted: "sorted_wrt (\<lambda>x y. res_score y \<le> res_score x) (sort_key lexical_sort_key results)"
    by (intro sorted_by_score) simp
  then have plain: "sorted_wrt (within_band (max 0 band)) (sort_key lexical_sort_key results)"
    by (rule sorted_wrt_mono_rel [rotated]) (simp add: within_band_def)
  show "sorted_wrt (within_band (max 0 band)) (rank_search_results prior band results)"
  proof (cases prior)
    case None
    with plain show ?thesis by (simp add: rank_search_results_def)
  next
    case (Some f)
    show ?thesis
    proof (cases "band \<le> 0 \<or> length results < 2")
      case True
      with plain Some show ?thesis by (auto simp: rank_search_results_def Let_def)
    next
      case False
      with rank_bands_within [OF _ sorted, of band f] Some show ?thesis
        by (simp add: rank_search_results_def Let_def max_def)
    qed
  qed
qed

section \<open>Snippets\<close>

lemma length_dropWhile_rev: "length (rstrip s) \<le> length s"
  by (simp add: rstrip_def rstrip_by_def length_dropWhile_le [THEN le_trans])

text \<open>A snippet is at most two characters longer than its limit.\<close>

theorem snippet_length_bound:
  "length (snippet_for p query_tokens limit literal_query) \<le> (if limit = 0 then 0 else limit + 2)"
proof -
  have cut: "length (if length clean \<le> limit then clean
      else rstrip (take (limit - 1) clean) @ lit ''...'') \<le> limit + 2" if "limit \<noteq> 0" for clean
    using length_dropWhile_rev [of "take (limit - 1) clean"] that by (simp add: lit_def) linarith
  show ?thesis
    unfolding snippet_for_def Let_def using cut by simp
qed

text \<open>A text without white space is its own collapsed form.\<close>

lemma split_acc_plain:
  "list_all (\<lambda>c. \<not> p c) s \<Longrightarrow> acc @ s \<noteq> [] \<Longrightarrow> split_acc p acc s = [rev acc @ s]"
  by (induction s arbitrary: acc) auto

lemma collapse_plain: "list_all (\<lambda>c. \<not> is_space c) s \<Longrightarrow> collapse_ws s = s"
  by (cases "s = []") (simp_all add: collapse_ws_def split_ws_def split_acc_plain)

lemma rstrip_replicate: "\<not> is_space c \<Longrightarrow> rstrip (replicate n c) = replicate n c"
  by (simp add: rstrip_def rstrip_by_def dropWhile_eq_self_iff hd_replicate)

text \<open>
  The bound of the limit is not kept: for every limit there is a page whose snippet is two
  characters longer.
\<close>

theorem snippet_exceeds_limit:
  "length (snippet_for (mk_page [] [] [] Role_topic (replicate (n + 2) 97)) [] (Suc n) []) = Suc n + 2"
proof -
  have a: "\<not> is_space 97" by (simp add: is_space_def)
  then have "collapse_ws (replicate (n + 2) 97) = replicate (n + 2) 97"
    by (intro collapse_plain) (simp add: list_all_iff)
  then show ?thesis
    by (simp add: snippet_for_def Let_def map_filter_simps rstrip_replicate [OF a] min_def
        del: replicate.simps)
qed

section \<open>Lexical search\<close>

text \<open>
  The documents a lexical query is meant to find: those that name the identifier when the query is
  one exact identifier, otherwise those that share an analyzed token with the query or an
  identifier of it with the page's path and source references.
\<close>

definition lexical_hit :: "(ustr \<Rightarrow> ustr) \<Rightarrow> analyzer_profile \<Rightarrow> ustr \<Rightarrow> wiki_page \<Rightarrow> bool" where
  "lexical_hit stem profile query p =
     (let x = single_exact_compound_query_token profile query
      in if x = []
         then shares (tokenize stem profile query) (page_tokens stem profile p) \<or>
              shares (exact_compound_tokens profile query) (page_metadata_identifiers profile p)
         else x \<in> set (page_identifiers profile p) \<union> set (page_metadata_identifiers profile p))"

lemma shares_unique [simp]: "shares (unique_tokens xs) ys = shares xs ys"
  using dedupe_on_keys [of "\<lambda>t. t" "{}" xs] by (auto simp: shares_def list_ex_iff unique_tokens_def)

lemma shares_single [simp]: "shares [x] ys \<longleftrightarrow> x \<in> set ys"
  by (simp add: shares_def)

lemma required_docs:
  "x \<noteq> [] \<Longrightarrow> exact_required_doc_indexes (build_search_corpus stem profile pages) x =
     Some {i. i < length pages \<and> x \<in> set (page_identifiers profile (pages ! i)) \<union>
       set (page_metadata_identifiers profile (pages ! i))}"
  by (auto simp: exact_required_doc_indexes_def built_corpus occurrences_indexes)

lemma candidate_scores_ok:
  fixes stem :: "ustr \<Rightarrow> ustr" and pages :: "wiki_page list" and profile :: analyzer_profile
  defines "c \<equiv> build_search_corpus stem profile pages"
  shows "scores_ok (candidate_scores stem c query) \<and> fst ` set (candidate_scores stem c query) =
    {i. i < length pages \<and> lexical_hit stem profile query (pages ! i)}"
proof -
  let ?x = "single_exact_compound_query_token profile query"
  let ?tokens = "unique_tokens (tokenize stem profile query)"
  let ?req = "exact_required_doc_indexes c ?x"
  define d1 where "d1 = fold (add_token_scores c ?req) ?tokens []"
  define d2 where "d2 = (if ?x \<noteq> [] then add_exact_channel_scores c (corpus_exact_compound c) [?x]
    EXACT_COMPOUND_SCORE_WEIGHT ?req d1 else d1)"
  define xs where "xs = (if ?x \<noteq> [] then [?x] else exact_compound_tokens profile query)"
  have weights: "0 < EXACT_COMPOUND_SCORE_WEIGHT" "0 < EXACT_METADATA_SCORE_WEIGHT"
    by (simp_all add: EXACT_COMPOUND_SCORE_WEIGHT_def EXACT_METADATA_SCORE_WEIGHT_def)
  have eq: "candidate_scores stem c query = add_exact_channel_scores c (corpus_exact_metadata c) xs
      EXACT_METADATA_SCORE_WEIGHT ?req d2"
    by (simp add: candidate_scores_def Let_def c_def built_corpus d1_def d2_def xs_def)
  have d1: "scores_ok d1 \<and> fst ` set d1 =
      {i. admitted ?req i \<and> i < length pages \<and>
        shares (tokenize stem profile query) (page_tokens stem profile (pages ! i))}"
    using token_scores_ok [OF scores_ok_Nil, of stem profile pages ?req ?tokens]
    by (simp add: d1_def c_def)
  have d2: "scores_ok d2 \<and> fst ` set d2 = fst ` set d1 \<union>
      {i. admitted ?req i \<and> i < length pages \<and> ?x \<noteq> [] \<and>
        ?x \<in> set (page_identifiers profile (pages ! i))}"
    using channel_scores_ok [OF conjunct1 [OF d1] weights(1),
        where ps = "corpus_exact_compound c" and g = "page_identifiers profile"
          and stem = stem and profile = profile and pages = pages and tokens = "[?x]" and required = ?req] d1
    by (simp add: d2_def c_def built_corpus)
  have d3: "scores_ok (candidate_scores stem c query) \<and> fst ` set (candidate_scores stem c query) =
      fst ` set d2 \<union> {i. admitted ?req i \<and> i < length pages \<and>
        shares xs (page_metadata_identifiers profile (pages ! i))}"
    using channel_scores_ok [OF conjunct1 [OF d2] weights(2),
        where ps = "corpus_exact_metadata c" and g = "page_metadata_identifiers profile"
          and stem = stem and profile = profile and pages = pages and tokens = xs and required = ?req]
    unfolding eq by (simp add: c_def built_corpus)
  have m1: "i \<in> fst ` set d1 \<longleftrightarrow> admitted ?req i \<and> i < length pages \<and>
      shares (tokenize stem profile query) (page_tokens stem profile (pages ! i))" for i
    using d1 by simp
  have m2: "i \<in> fst ` set d2 \<longleftrightarrow> i \<in> fst ` set d1 \<or> admitted ?req i \<and> i < length pages \<and> ?x \<noteq> [] \<and>
      ?x \<in> set (page_identifiers profile (pages ! i))" for i
    using d2 by simp
  have m3: "i \<in> fst ` set (candidate_scores stem c query) \<longleftrightarrow> i \<in> fst ` set d2 \<or>
      admitted ?req i \<and> i < length pages \<and> shares xs (page_metadata_identifiers profile (pages ! i))" for i
    using d3 by simp
  have adm: "admitted ?req i \<longleftrightarrow> ?x = [] \<or> i < length pages \<and> ?x \<in> set (page_identifiers profile (pages ! i)) \<union>
        set (page_metadata_identifiers profile (pages ! i))" for i
  proof (cases "?x = []")
    case True
    then show ?thesis by (simp add: admitted_def exact_required_doc_indexes_def)
  next
    case False
    then show ?thesis by (simp add: admitted_def c_def required_docs)
  qed
  have "i \<in> fst ` set (candidate_scores stem c query) \<longleftrightarrow>
      i < length pages \<and> lexical_hit stem profile query (pages ! i)" for i
    unfolding m3 m2 m1 adm xs_def lexical_hit_def Let_def by (cases "?x = []") (simp_all, blast+)
  with d3 show ?thesis by blast
qed

lemma concat_if: "concat (map (\<lambda>x. if P x then [] else f x) xs) = concat (map f (filter (\<lambda>x. \<not> P x) xs))"
  by (induction xs) auto

lemma concat_single: "concat (map (\<lambda>x. if P x then [] else [f x]) xs) = map f (filter (\<lambda>x. \<not> P x) xs)"
  by (induction xs) auto

lemma sorted_keys:
  "distinct (map fst d) \<Longrightarrow> fst ` set d = {i. i < n \<and> P i} \<Longrightarrow> sort (map fst d) = filter P [0..<n]"
  by (rule sorted_distinct_set_unique) (auto simp: sorted_filter [of "\<lambda>x. x", simplified])

text \<open>A scored page passes the caller's minimum score.\<close>

definition above_min :: "search_options \<Rightarrow> wiki_page \<times> real \<Rightarrow> bool" where
  "above_min opts ps \<longleftrightarrow> (case opt_min_score opts of None \<Rightarrow> True | Some m \<Rightarrow> m \<le> snd ps)"

definition scored_result :: "search_options \<Rightarrow> ustr list \<Rightarrow> string \<Rightarrow> ustr \<Rightarrow> wiki_page \<times> real \<Rightarrow> search_result" where
  "scored_result opts tokens route literal_query ps =
     to_result (fst ps) (snd ps) tokens route (opt_snippet_chars opts) literal_query"

lemma score_results:
  "concat (map (\<lambda>i. score_result opts (f i) (g i) tokens route lq) xs) =
   map (scored_result opts tokens route lq) (filter (above_min opts) (map (\<lambda>i. (f i, g i)) xs))"
  by (induction xs)
    (auto simp: score_result_def above_min_def scored_result_def split: option.splits)

lemma lexical_results_built:
  fixes stem :: "ustr \<Rightarrow> ustr" and pages :: "wiki_page list" and profile :: analyzer_profile
  defines "c \<equiv> build_search_corpus stem profile pages"
  obtains ps where
    "map fst ps = filter (\<lambda>p. lexical_hit stem profile query p \<and>
        \<not> page_is_excluded p (page_exclusion_set (opt_exclude opts))) pages"
    "list_all (\<lambda>ps. 0 < snd ps) ps"
    "lexical_results opts c tokens (candidate_scores stem c query) =
       map (scored_result opts tokens ''search'' []) (filter (above_min opts) ps)"
proof -
  let ?d = "candidate_scores stem c query"
  let ?excl = "\<lambda>p. page_is_excluded p (page_exclusion_set (opt_exclude opts))"
  let ?hit = "\<lambda>i. lexical_hit stem profile query (pages ! i)"
  let ?score = "\<lambda>i. dict_get ?d i 0 * role_multiplier (pages ! i)"
  define ids where "ids = filter (\<lambda>i. ?hit i \<and> \<not> ?excl (pages ! i)) [0..<length pages]"
  define ps where "ps = map (\<lambda>i. (pages ! i, ?score i)) ids"
  have ok: "scores_ok ?d" and keys: "fst ` set ?d = {i. i < length pages \<and> ?hit i}"
    using candidate_scores_ok [of stem profile pages query] by (simp_all add: c_def)
  have order: "sort (map fst ?d) = filter ?hit [0..<length pages]"
    using ok keys by (intro sorted_keys) (auto simp: scores_ok_def)
  have pos: "0 < dict_get ?d i 0" if "i \<in> set (filter ?hit [0..<length pages])" for i
    using that keys by (intro scores_ok_pos [OF ok]) auto
  have page: "doc_page (corpus_documents c ! i) = pages ! i" if "i < length pages" for i
    using that by (simp add: c_def built_corpus document_of_def Let_def)
  have "lexical_results opts c tokens ?d = concat (map (\<lambda>i. if ?excl (pages ! i) then []
      else score_result opts (pages ! i) (?score i) tokens ''search'' [])
        (filter ?hit [0..<length pages]))"
    unfolding lexical_results_def order
    by (intro arg_cong [of _ _ concat] map_cong refl)
      (use pos page in \<open>auto simp: Let_def dest!: leD\<close>)
  also have "\<dots> = concat (map (\<lambda>i. score_result opts (pages ! i) (?score i) tokens ''search'' []) ids)"
    by (simp add: concat_if ids_def conj_commute)
  finally have res: "lexical_results opts c tokens ?d =
      map (scored_result opts tokens ''search'' []) (filter (above_min opts) ps)"
    by (simp add: score_results ps_def)
  have "map fst ps = map (\<lambda>i. pages ! i) ids" by (simp add: ps_def)
  also have "\<dots> = filter (\<lambda>p. lexical_hit stem profile query p \<and> \<not> ?excl p)
      (map (\<lambda>i. pages ! i) [0..<length pages])"
    by (simp add: ids_def filter_map comp_def)
  finally have fsts: "map fst ps = filter (\<lambda>p. lexical_hit stem profile query p \<and> \<not> ?excl p) pages"
    by (simp add: map_nth)
  have "list_all (\<lambda>ps. 0 < snd ps) ps"
    using pos by (auto simp: list_all_iff ps_def ids_def role_multiplier_pos)
  from that [OF fsts this res] show ?thesis .
qed

lemma lexical_search_exact_lemma:
  assumes "unique_tokens (tokenize stem profile query) \<noteq> []"
  shows "\<exists>ps. map fst ps = filter (\<lambda>p. lexical_hit stem profile query p \<and>
       \<not> page_is_excluded p (page_exclusion_set (opt_exclude opts))) pages \<and>
     list_all (\<lambda>ps. 0 < snd ps) ps \<and>
     lexical_search_corpus stem (build_search_corpus stem profile pages) query opts =
       take (opt_limit opts) (rank_search_results (opt_prior opts) (opt_band opts)
         (map (scored_result opts (unique_tokens (tokenize stem profile query)) ''search'' [])
           (filter (above_min opts) ps)))"
proof -
  let ?c = "build_search_corpus stem profile pages"
  let ?x = "single_exact_compound_query_token profile query"
  obtain ps where ps: "map fst ps = filter (\<lambda>p. lexical_hit stem profile query p \<and>
        \<not> page_is_excluded p (page_exclusion_set (opt_exclude opts))) pages"
      "list_all (\<lambda>ps. 0 < snd ps) ps"
      "lexical_results opts ?c (unique_tokens (tokenize stem profile query))
         (candidate_scores stem ?c query) =
       map (scored_result opts (unique_tokens (tokenize stem profile query)) ''search'' [])
         (filter (above_min opts) ps)"
    by (rule lexical_results_built)
  have none: "ps = []" if "exact_required_doc_indexes ?c ?x = Some {}"
  proof -
    have x: "?x \<noteq> []" using that by (auto simp: exact_required_doc_indexes_def split: if_splits)
    then have "\<not> lexical_hit stem profile query p" if "p \<in> set pages" for p
      using \<open>exact_required_doc_indexes ?c ?x = Some {}\<close> that
      by (simp add: required_docs lexical_hit_def Let_def x) (metis in_set_conv_nth)
    then have "map fst ps = []" unfolding ps(1) by (auto simp: filter_empty_conv)
    then show "ps = []" by simp
  qed
  have "lexical_search_corpus stem ?c query opts = take (opt_limit opts)
      (rank_search_results (opt_prior opts) (opt_band opts)
        (map (scored_result opts (unique_tokens (tokenize stem profile query)) ''search'' [])
           (filter (above_min opts) ps)))"
  proof (cases "exact_required_doc_indexes ?c ?x = Some {}")
    case True
    then show ?thesis using assms none
      by (simp add: lexical_search_corpus_def Let_def built_corpus rank_search_results_def
          split: option.splits)
  next
    case False
    then show ?thesis using assms
      by (simp add: lexical_search_corpus_def Let_def built_corpus ps(3))
  qed
  with ps(1,2) show ?thesis by blast
qed

text \<open>
  C6: A lexical query with at least one token returns, ranked and cut at the limit, exactly the pages
  that the query is meant to find and the caller did not exclude, each with a positive score that
  is at least the caller's minimum; a page that shares no token is never returned, and no page that
  shares one is missed.
\<close>

theorem lexical_search_exact:
  assumes "unique_tokens (tokenize stem profile query) \<noteq> []"
  shows "\<exists>ps. map fst ps = filter (\<lambda>p. lexical_hit stem profile query p \<and>
       \<not> page_is_excluded p (page_exclusion_set (opt_exclude opts))) pages \<and>
     list_all (\<lambda>ps. 0 < snd ps) ps \<and>
     lexical_search_corpus stem (build_search_corpus stem profile pages) query opts =
       take (opt_limit opts) (rank_search_results (opt_prior opts) (opt_band opts)
         (map (scored_result opts (unique_tokens (tokenize stem profile query)) ''search'' [])
           (filter (above_min opts) ps)))"
  by (rule lexical_search_exact_lemma [OF assms])

definition cat_page :: wiki_page where
  "cat_page = mk_page (lit ''cats'') (lit ''Cats'') (lit ''cats.md'') Role_topic (lit ''the cat'')"

definition dog_page :: wiki_page where
  "dog_page = mk_page (lit ''dogs'') (lit ''Dogs'') (lit ''dogs.md'') Role_topic (lit ''a dog'')"

definition plain_options :: search_options where
  "plain_options = \<lparr>opt_limit = 8, opt_snippet_chars = None, opt_min_score = None, opt_exclude = [],
     opt_prior = None, opt_band = 0\<rparr>"

lemmas search_demo = cat_page_def dog_page_def plain_options_def lexical_hit_def shares_def
  page_tokens_def page_text_for_profile_def page_text_all_def

lemma cat_query: "unique_tokens (tokenize (\<lambda>t. t) Legacy (lit ''cat'')) = [lit ''cat'']"
  by (simp add: py_eval legacy_raw_tokens.simps)

lemma cat_hits: "lexical_hit (\<lambda>t. t) Legacy (lit ''cat'') cat_page"
    "\<not> lexical_hit (\<lambda>t. t) Legacy (lit ''cat'') dog_page"
  by (simp_all add: search_demo py_eval legacy_raw_tokens.simps)

theorem lexical_search_exact_witness:
  "length (lexical_search_corpus (\<lambda>t. t) (build_search_corpus (\<lambda>t. t) Legacy [dog_page, cat_page])
     (lit ''cat'') plain_options) = 1"
proof -
  have none: "\<not> page_is_excluded p (page_exclusion_set (opt_exclude plain_options))" for p
    by (simp add: plain_options_def page_exclusion_set_def page_is_excluded_def)
  let ?found = "\<lambda>ps. map (scored_result plain_options [lit ''cat''] ''search'' [])
      (filter (above_min plain_options) ps)"
  have "\<exists>ps. map fst ps = [cat_page] \<and> lexical_search_corpus (\<lambda>t. t)
      (build_search_corpus (\<lambda>t. t) Legacy [dog_page, cat_page]) (lit ''cat'') plain_options =
      take (opt_limit plain_options)
        (rank_search_results (opt_prior plain_options) (opt_band plain_options) (?found ps))"
    using lexical_search_exact [of "\<lambda>t. t" Legacy "lit ''cat''" plain_options "[dog_page, cat_page]"]
    by (simp add: cat_query none cat_hits del: One_nat_def) metis
  then show ?thesis
    by (auto simp: map_eq_Cons_conv above_min_def plain_options_def)
qed

section \<open>Literal search\<close>

lemma substring_count_0: "substring_count s p = 0 \<longleftrightarrow> \<not> contains s p"
  by (simp add: substring_count_def substring_count_from.simps [of _ _ 0] contains_def find_from_def
      split: option.splits)

lemma literal_search_exact_lemma:
  assumes "normalized_literal query \<noteq> []"
  shows "literal_search_corpus (build_search_corpus stem profile pages) query opts =
    take (opt_limit opts) (rank_search_results (opt_prior opts) (opt_band opts)
      (map (scored_result opts [] ''literal'' (normalized_literal query)) (filter (above_min opts)
        (map (\<lambda>p. (p, literal_score p (casefold (normalized_literal query))
            (substring_count (casefold (literal_page_text p)) (casefold (normalized_literal query))) *
            role_multiplier p))
          (filter (\<lambda>p. contains (casefold (literal_page_text p)) (casefold (normalized_literal query)) \<and>
              \<not> page_is_excluded p (page_exclusion_set (opt_exclude opts))) pages)))))"
  using assms
  by (simp add: literal_search_corpus_def Let_def built_corpus comp_def document_of_def
      concat_if score_results substring_count_0 conj_commute)

text \<open>
  A literal query returns, ranked and cut at the limit, exactly the pages whose case-folded text
  contains the case-folded, white-space normalised query and that the caller did not exclude.
\<close>

theorem literal_search_exact:
  assumes "normalized_literal query \<noteq> []"
  shows "literal_search_corpus (build_search_corpus stem profile pages) query opts =
    take (opt_limit opts) (rank_search_results (opt_prior opts) (opt_band opts)
      (map (scored_result opts [] ''literal'' (normalized_literal query)) (filter (above_min opts)
        (map (\<lambda>p. (p, literal_score p (casefold (normalized_literal query))
            (substring_count (casefold (literal_page_text p)) (casefold (normalized_literal query))) *
            role_multiplier p))
          (filter (\<lambda>p. contains (casefold (literal_page_text p)) (casefold (normalized_literal query)) \<and>
              \<not> page_is_excluded p (page_exclusion_set (opt_exclude opts))) pages)))))"
  by (rule literal_search_exact_lemma [OF assms])

theorem literal_search_exact_witness:
  "length (literal_search_corpus (build_search_corpus (\<lambda>t. t) Legacy [dog_page, cat_page])
     (lit ''THE  Cat'') plain_options) = 1"
proof -
  have q: "normalized_literal (lit ''THE  Cat'') = lit ''THE Cat''"
    by (simp add: py_eval normalized_literal_def)
  have hits: "contains (casefold (literal_page_text cat_page)) (casefold (lit ''THE Cat''))"
      "\<not> contains (casefold (literal_page_text dog_page)) (casefold (lit ''THE Cat''))"
    by (simp_all add: literal_page_text_def cat_page_def dog_page_def py_eval)
  have "normalized_literal (lit ''THE  Cat'') \<noteq> []" unfolding q by (simp add: lit_Cons)
  from literal_search_exact [OF this, of "\<lambda>t. t" Legacy "[dog_page, cat_page]" plain_options]
  show ?thesis
    by (simp add: q hits above_min_def plain_options_def page_exclusion_set_def page_is_excluded_def)
qed

section \<open>What a search may return\<close>

definition from_page :: "wiki_page \<Rightarrow> search_result \<Rightarrow> bool" where
  "from_page p r \<longleftrightarrow> res_page_id r = page_id p \<and> res_title r = page_title p \<and>
     res_path r = page_path p \<and> res_role r = page_role p \<and> res_source_refs r = page_source_refs p"

definition results_from :: "search_options \<Rightarrow> wiki_page list \<Rightarrow> search_result list \<Rightarrow> bool" where
  "results_from opts pages rs \<longleftrightarrow> length rs \<le> opt_limit opts \<and>
     list_all (\<lambda>r. \<exists>p\<in>set pages. from_page p r \<and>
       \<not> page_is_excluded p (page_exclusion_set (opt_exclude opts))) rs"

lemma from_page_to_result [simp]: "from_page p (to_result p score tokens route chars lq)"
  by (simp add: from_page_def to_result_def)

lemma from_page_scored [simp]: "from_page (fst ps) (scored_result opts tokens route lq ps)"
  by (simp add: scored_result_def)

lemma results_from_take:
  "list_all (\<lambda>r. \<exists>p\<in>set pages. from_page p r \<and>
     \<not> page_is_excluded p (page_exclusion_set (opt_exclude opts))) rs \<Longrightarrow>
   results_from opts pages (take (opt_limit opts) rs)"
  by (auto simp: results_from_def list_all_iff dest: in_set_takeD)

lemma results_from_ranked:
  assumes "list_all (\<lambda>ps. fst ps \<in> set pages \<and>
    \<not> page_is_excluded (fst ps) (page_exclusion_set (opt_exclude opts))) ps"
  shows "results_from opts pages (take (opt_limit opts) (rank_search_results prior band
    (map (scored_result opts tokens route lq) (filter P ps))))"
proof (rule results_from_take, unfold list_all_iff set_rank, rule ballI)
  fix r assume "r \<in> set (map (scored_result opts tokens route lq) (filter P ps))"
  then obtain x where "x \<in> set ps" "r = scored_result opts tokens route lq x" by auto
  with assms show "\<exists>p\<in>set pages. from_page p r \<and>
      \<not> page_is_excluded p (page_exclusion_set (opt_exclude opts))"
    by (intro bexI [of _ "fst x"]) (simp_all add: list_all_iff)
qed

lemma pick_role_cases:
  obtains "pick_role ordered r selected = selected" and
      "\<And>p. p \<in> set ordered \<Longrightarrow> page_path p \<notin> page_path ` set selected \<Longrightarrow> page_role p \<noteq> r"
    | p where "pick_role ordered r selected = selected @ [p]" and "p \<in> set ordered"
      and "page_role p = r" and "page_path p \<notin> page_path ` set selected"
proof (cases "List.find (\<lambda>p. page_role p = r \<and> page_path p \<notin> page_path ` set selected) ordered")
  case None
  then have "pick_role ordered r selected = selected" by (simp add: pick_role_def)
  moreover have "page_role p \<noteq> r" if "p \<in> set ordered" "page_path p \<notin> page_path ` set selected" for p
    using None that unfolding find_None_iff by blast
  ultimately show ?thesis by (rule that(1))
next
  case (Some p)
  then have "p \<in> set ordered" "page_role p = r" "page_path p \<notin> page_path ` set selected"
    by (auto simp: find_Some_iff)
  with Some show ?thesis using that(2) by (simp add: pick_role_def)
qed

lemma pick_roles_set:
  "set selected \<subseteq> set ordered \<Longrightarrow> distinct (map page_path selected) \<Longrightarrow>
   set (fold (pick_role ordered) rs selected) \<subseteq> set ordered \<and>
   distinct (map page_path (fold (pick_role ordered) rs selected))"
proof (induction rs arbitrary: selected)
  case (Cons r rs)
  show ?case
    by (cases rule: pick_role_cases [of ordered r selected]) (use Cons in simp_all)
qed simp

lemma set_orientation: "set (orientation_pages pages) \<subseteq> set pages"
  using pick_roles_set [of "[]" "sort_key (\<lambda>p. (role_rank (page_role p), page_path p)) pages"
      "[Role_hot, Role_index, Role_overview]"]
  by (auto simp: orientation_pages_def Let_def)

lemma enumerate_member: "(i, x) \<in> set (List.enumerate n xs) \<Longrightarrow> x \<in> set xs"
  by (induction xs arbitrary: n) auto

lemma overview_results_from:
  assumes "set pages \<subseteq> set all_pages"
  shows "results_from opts all_pages
    (overview_results pages (opt_limit opts) (opt_snippet_chars opts) (opt_exclude opts))"
proof -
  let ?kept = "filter (\<lambda>p. \<not> page_is_excluded p (page_exclusion_set (opt_exclude opts)))
    (orientation_pages pages)"
  show ?thesis
    unfolding overview_results_def Let_def ranked_results_def
  proof (rule results_from_take, unfold list_all_iff, rule ballI)
    fix r assume "r \<in> set (map (\<lambda>(rank, p). to_result p (1 - real rank * (1 / 100)) [] ''overview''
      (opt_snippet_chars opts) []) (List.enumerate 0 ?kept))"
    then obtain i p where ip: "(i, p) \<in> set (List.enumerate 0 ?kept)" and
        r: "r = to_result p (1 - real i * (1 / 100)) [] ''overview'' (opt_snippet_chars opts) []"
      by auto
    from enumerate_member [OF ip] have "p \<in> set ?kept" .
    with set_orientation [of pages] assms r
    show "\<exists>p\<in>set all_pages. from_page p r \<and>
        \<not> page_is_excluded p (page_exclusion_set (opt_exclude opts))"
      by (intro bexI [of _ p]) auto
  qed
qed

lemma search_in_corpus_from:
  assumes "search_in_corpus stem (build_search_corpus stem profile pages) query mode opts = Inr rs"
  shows "results_from opts pages rs"
proof -
  let ?c = "build_search_corpus stem profile pages"
  have overview: "results_from opts pages
      (overview_results pages (opt_limit opts) (opt_snippet_chars opts) (opt_exclude opts))"
    by (rule overview_results_from) simp
  have lexical: "results_from opts pages (lexical_search_corpus stem ?c query opts)"
  proof (cases "unique_tokens (tokenize stem profile query) = []")
    case True
    with overview show ?thesis
      by (simp add: lexical_search_corpus_def Let_def built_corpus results_from_def)
  next
    case False
    from lexical_search_exact_lemma [OF False, of opts pages] obtain ps where
      fsts: "map fst ps = filter (\<lambda>p. lexical_hit stem profile query p \<and>
        \<not> page_is_excluded p (page_exclusion_set (opt_exclude opts))) pages" and
      eq: "lexical_search_corpus stem ?c query opts = take (opt_limit opts)
        (rank_search_results (opt_prior opts) (opt_band opts)
          (map (scored_result opts (unique_tokens (tokenize stem profile query)) ''search'' [])
            (filter (above_min opts) ps)))"
      by blast
    have "fst x \<in> set pages \<and> \<not> page_is_excluded (fst x) (page_exclusion_set (opt_exclude opts))"
      if "x \<in> set ps" for x
      using arg_cong [OF fsts, of set] that by (auto simp: set_eq_iff)
    then show ?thesis unfolding eq by (intro results_from_ranked) (simp add: list_all_iff)
  qed
  have literal: "results_from opts pages (literal_search_corpus ?c query opts)"
  proof (cases "normalized_literal query = []")
    case True
    with overview show ?thesis by (simp add: literal_search_corpus_def Let_def built_corpus)
  next
    case False
    show ?thesis
      unfolding literal_search_exact_lemma [OF False]
      by (intro results_from_ranked) (simp add: list_all_iff)
  qed
  from assms lexical literal show ?thesis
    by (auto simp: search_in_corpus_def split: search_mode.splits)
qed

text \<open>
  A search without drafts returns at most the limit, and every result is a page of the index
  that is approved for serving and that the caller did not exclude, under its own id, title, path
  and source references.
\<close>

theorem search_returns_served_pages:
  assumes "search_index stem index query include_drafts mode profile opts = Inr rs"
  shows "length rs \<le> opt_limit opts \<and>
    list_all (\<lambda>r. \<exists>p\<in>set (idx_pages index). from_page p r \<and> (include_drafts \<or> approved_for_serving p) \<and>
      \<not> page_is_excluded p (page_exclusion_set (opt_exclude opts))) rs"
  using search_in_corpus_from [OF assms [unfolded search_index_def]]
  by (fastforce simp: results_from_def list_all_iff visible_pages_def split: if_splits)

definition demo_index :: "wiki_page list \<Rightarrow> wiki_index" where
  "demo_index pages = \<lparr>idx_root_name = [], idx_title = [], idx_description = [], idx_adapter = [],
     idx_implementation = [], idx_metadata = [], idx_pages = pages, idx_nodes = [], idx_edges = []\<rparr>"

theorem search_returns_served_pages_witness:
  "\<exists>rs. search_index (\<lambda>t. t) (demo_index [dog_page, cat_page]) (lit ''cat'') False Lexical Legacy
      plain_options = Inr rs \<and> length rs \<le> 8"
proof -
  obtain rs where rs: "search_index (\<lambda>t. t) (demo_index [dog_page, cat_page]) (lit ''cat'') False Lexical
      Legacy plain_options = Inr rs"
    by (simp add: search_index_def search_in_corpus_def)
  with search_returns_served_pages [OF rs] show ?thesis by (simp add: plain_options_def)
qed

section \<open>Orientation\<close>

lemma pick_roles_prefix: "\<exists>zs. fold (pick_role ordered) rs selected = selected @ zs"
proof (induction rs arbitrary: selected)
  case (Cons r rs)
  from Cons.IH [of "pick_role ordered r selected"] obtain zs where
    "fold (pick_role ordered) (r # rs) selected = pick_role ordered r selected @ zs" by auto
  then show ?case by (cases rule: pick_role_cases [of ordered r selected]) auto
qed simp

lemma role_rank_le: "role_rank r \<le> 3"
  by (simp add: role_rank_def split: page_role.split)

text \<open>The first page picked has the smallest rank, when the roles are tried in rank order.\<close>

lemma pick_roles_first:
  assumes "\<And>p. p \<in> set ordered \<Longrightarrow> page_role p \<in> set (rs @ [Role_topic])"
    and "sorted_wrt (\<lambda>r s. role_rank r \<le> role_rank s) (rs @ [Role_topic])"
    and "fold (pick_role ordered) rs [] = q # qs" and "p \<in> set ordered"
  shows "role_rank (page_role q) \<le> role_rank (page_role p)"
  using assms
proof (induction rs)
  case (Cons r rs)
  show ?case
  proof (cases rule: pick_role_cases [of ordered r "[]"])
    case 1
    with Cons show ?thesis by fastforce
  next
    case (2 p0)
    with pick_roles_prefix [of ordered rs "[p0]"] Cons.prems(3) have "page_role q = r" by auto
    with Cons.prems(1) [OF Cons.prems(4)] Cons.prems(2) show ?thesis by auto
  qed
qed simp

lemma pick_roles_none:
  "fold (pick_role ordered) rs [] = [] \<Longrightarrow> p \<in> set ordered \<Longrightarrow> page_role p \<notin> set rs"
proof (induction rs)
  case (Cons r rs)
  show ?case
  proof (cases rule: pick_role_cases [of ordered r "[]"])
    case 1
    with Cons show ?thesis by fastforce
  next
    case (2 p0)
    with pick_roles_prefix [of ordered rs "[p0]"] Cons.prems(1) show ?thesis by auto
  qed
qed simp

text \<open>
  When no two pages share a path, the orientation order contains every page exactly once, and it
  begins with a page of the most orienting role there is (hot, index, overview, topic).
\<close>

theorem orientation_order:
  assumes "distinct (map page_path pages)" and "pages \<noteq> []"
  shows "mset (orientation_pages pages) = mset pages \<and>
    role_rank (page_role (hd (orientation_pages pages))) = Min ((\<lambda>p. role_rank (page_role p)) ` set pages)"
proof -
  let ?ordered = "sort_key (\<lambda>p. (role_rank (page_role p), page_path p)) pages"
  let ?rs = "[Role_hot, Role_index, Role_overview]"
  let ?sel = "fold (pick_role ?ordered) ?rs []"
  have sel: "set ?sel \<subseteq> set pages" "distinct (map page_path ?sel)"
    using pick_roles_set [of "[]" ?ordered ?rs] by auto
  have inj: "inj_on page_path (set pages)" and dist: "distinct pages"
    using assms(1) by (simp_all add: distinct_map)
  have eq: "orientation_pages pages = ?sel @ filter (\<lambda>p. page_path p \<notin> page_path ` set ?sel) ?ordered"
    by (simp only: orientation_pages_def Let_def)
  have fresh: "page_path p \<notin> page_path ` set ?sel \<longleftrightarrow> p \<notin> set ?sel" if "p \<in> set pages" for p
    using inj_on_image_mem_iff [OF inj that sel(1)] by simp
  have sets: "set (orientation_pages pages) = set pages"
    unfolding eq using sel(1) fresh by auto
  have "distinct (orientation_pages pages)"
    unfolding eq using sel(2) dist by (auto simp: distinct_map)
  with sets dist have perm: "mset (orientation_pages pages) = mset pages"
    by (simp add: set_eq_iff_mset_eq_distinct [symmetric])
  then have ne: "orientation_pages pages \<noteq> []" using assms(2) by auto
  have roles: "page_role p \<in> set (?rs @ [Role_topic])" for p by (cases "page_role p") auto
  have least: "role_rank (page_role (hd (orientation_pages pages))) \<le> role_rank (page_role p)"
    if p: "p \<in> set pages" for p
  proof (cases ?sel)
    case (Cons q qs)
    have "role_rank (page_role q) \<le> role_rank (page_role p)"
      by (rule pick_roles_first [OF roles _ Cons]) (use p in \<open>simp_all add: role_rank_def\<close>)
    then show ?thesis unfolding eq Cons by simp
  next
    case Nil
    have "page_role p' = Role_topic" if "p' \<in> set pages" for p'
    proof -
      have "p' \<in> set ?ordered" using that by simp
      from pick_roles_none [OF Nil this] show ?thesis by (cases "page_role p'") simp_all
    qed
    moreover have "hd (orientation_pages pages) \<in> set pages" using hd_in_set [OF ne] sets by simp
    ultimately show ?thesis using p by simp
  qed
  have "hd (orientation_pages pages) \<in> set pages" using hd_in_set [OF ne] sets by simp
  then have "Min ((\<lambda>p. role_rank (page_role p)) ` set pages) =
      role_rank (page_role (hd (orientation_pages pages)))"
    by (intro Min_eqI) (auto dest: least)
  with perm show ?thesis by simp
qed

theorem orientation_order_witness:
  "mset (orientation_pages [dog_page, cat_page]) = mset [dog_page, cat_page]"
proof -
  have "distinct (map page_path [dog_page, cat_page])"
    by (simp add: dog_page_def cat_page_def inj_lit)
  from orientation_order [OF this] show ?thesis by simp
qed

section \<open>Fields and identifiers\<close>

lemma field_names_clean: "f \<in> set SEARCH_RESULT_FIELD_ORDER \<Longrightarrow> lower (strip f) = f"
  by (auto simp: SEARCH_RESULT_FIELD_ORDER_def py_eval)

lemma set_dedupe_id [simp]: "set (dedupe_on (\<lambda>f. f) {} xs) = set xs"
  using dedupe_on_keys [of "\<lambda>f. f" "{}" xs] by simp

lemma normalized_fields:
  "normalize_search_result_fields (Some fs) = Some (filter (\<lambda>f. f = lit ''page_id'' \<or>
     f \<in> (\<lambda>f. lower (strip f)) ` set fs) SEARCH_RESULT_FIELD_ORDER)"
proof -
  have "lit ''page_id'' \<in> set SEARCH_RESULT_FIELD_ORDER"
    by (simp add: SEARCH_RESULT_FIELD_ORDER_def)
  then show ?thesis
    by (auto simp: normalize_search_result_fields_def Let_def intro!: filter_cong)
qed

text \<open>
  The requested fields of a result are normalised to the known ones, in the order of the result
  type and always with the page id; normalising them again changes nothing, and a projected result
  has exactly those fields with the result's own values.
\<close>

theorem field_projection:
  "normalize_search_result_fields (Some fs) = Some (filter (\<lambda>f. f = lit ''page_id'' \<or>
     f \<in> (\<lambda>f. lower (strip f)) ` set fs) SEARCH_RESULT_FIELD_ORDER) \<and>
   normalize_search_result_fields (normalize_search_result_fields (Some fs)) =
     normalize_search_result_fields (Some fs) \<and>
   map_of (project_search_result r (Some fs)) (lit ''page_id'') = Some (PStr (res_page_id r))"
proof (intro conjI)
  let ?ns = "filter (\<lambda>f. f = lit ''page_id'' \<or> f \<in> (\<lambda>f. lower (strip f)) ` set fs)
    SEARCH_RESULT_FIELD_ORDER"
  show "normalize_search_result_fields (Some fs) = Some ?ns" by (rule normalized_fields)
  have "(\<lambda>f. lower (strip f)) ` set ?ns = set ?ns"
    using field_names_clean by (force simp: image_iff)
  then show "normalize_search_result_fields (normalize_search_result_fields (Some fs)) =
      normalize_search_result_fields (Some fs)"
    unfolding normalized_fields by (auto intro: filter_cong)
  have "lit ''page_id'' \<in> set ?ns" by (simp add: SEARCH_RESULT_FIELD_ORDER_def)
  moreover have "map_of (map (\<lambda>f. (f, g f)) xs) k = Some (g k)" if "k \<in> set xs"
    for k xs and g :: "ustr \<Rightarrow> pyval"
    using that by (induction xs) auto
  ultimately show "map_of (project_search_result r (Some fs)) (lit ''page_id'') = Some (PStr (res_page_id r))"
    by (simp add: project_search_result_def normalized_fields result_field_def)
qed

text \<open>
  Every exact identifier found in a text is delimited: it begins and ends where no ASCII letter,
  digit or Hangul syllable continues it, it holds a separator followed by a letter or digit, and
  two identifiers never overlap.
\<close>

theorem exact_identifiers_delimited:
  "list_all (span_ok src) (exact_compound_token_spans src 0) \<and>
   sorted_wrt (\<lambda>x y. fst (snd x) \<le> fst y) (exact_compound_token_spans src 0)"
  using spans_ok [of src 0] by simp

end
