(* ===== verification/Guided_Retrieval.thy ===== *)
theory Guided_Retrieval
  imports Validation Parser
begin

text \<open>
  \<open>guided_retrieval.py\<close>: the orientation cards and terms a context pack carries for an agent that
  searches by itself, and the channels of a lexical query with variants. Unicode normalisation, the
  one long pattern \<open>_SENSITIVE_TEXT_RE\<close> and the size of a JSON dump are parameters, the fields of
  \<open>guide_env\<close>; the other patterns are scanners over the rest of the text.
\<close>

record guide_env =
  nfc :: "ustr \<Rightarrow> ustr"
  sensitive_pattern :: "ustr \<Rightarrow> bool"
  json_size :: "retrieval_guidance \<Rightarrow> nat"

definition MAX_QUERY_VARIANTS :: nat where "MAX_QUERY_VARIANTS = 2"
definition MAX_LEXICAL_CHANNELS :: nat where "MAX_LEXICAL_CHANNELS = 3"
definition GUIDANCE_CHARACTER_BUDGET :: nat where "GUIDANCE_CHARACTER_BUDGET = 4000"

definition SENSITIVE_STANDALONE_TERMS :: "ustr list" where
  "SENSITIVE_STANDALONE_TERMS = map lit [''authorization'', ''bearer'', ''client_secret'',
     ''credential'', ''credentials'', ''cookie'', ''password'', ''passwd'', ''private'',
     ''private_key'', ''secret'', ''session'', ''session_id'', ''token'']"

definition BOILERPLATE_PREFIXES :: "ustr list" where
  "BOILERPLATE_PREFIXES = map lit [''table of contents'', ''toc'', ''navigation'', ''breadcrumbs'',
     ''copyright'', ''license'']"

definition COMMON_TERMS :: "ustr list" where
  "COMMON_TERMS = map lit [''about'', ''after'', ''also'', ''and'', ''are'', ''before'', ''between'',
     ''from'', ''for'', ''into'', ''markdown'', ''note'', ''notes'', ''page'', ''pages'', ''that'',
     ''the'', ''this'', ''wiki'', ''with'']"

section \<open>Scanning with a pattern\<close>

text \<open>
  A matcher returns, for a match at the start of the text, the group and the rest. \<open>find_all\<close> is
  \<open>finditer\<close> and \<open>sub_all\<close> is \<open>sub\<close> with the group as the replacement.
\<close>

type_synonym matcher = "ustr \<Rightarrow> (ustr \<times> ustr) option"

function find_all :: "matcher \<Rightarrow> ustr \<Rightarrow> ustr list" where
  "find_all m s =
     (case s of [] \<Rightarrow> []
      | c # t \<Rightarrow> (case m s of
            Some (g, rest) \<Rightarrow> if length rest < length s then g # find_all m rest else find_all m t
          | None \<Rightarrow> find_all m t))"
  by pat_completeness auto
termination by (relation "measure (\<lambda>(m, s). length s)") auto

function sub_all :: "matcher \<Rightarrow> ustr \<Rightarrow> ustr" where
  "sub_all m s =
     (case s of [] \<Rightarrow> []
      | c # t \<Rightarrow> (case m s of
            Some (g, rest) \<Rightarrow> if length rest < length s then g @ sub_all m rest else c # sub_all m t
          | None \<Rightarrow> c # sub_all m t))"
  by pat_completeness auto
termination by (relation "measure (\<lambda>(m, s). length s)") auto

declare find_all.simps [simp del] sub_all.simps [simp del]

definition word_or_dash :: "nat \<Rightarrow> bool" where
  "word_or_dash c \<longleftrightarrow> is_word_char c \<or> c = 45"

text \<open>\<open>_TERM_RE\<close>: a letter, then one to 119 word characters or dashes.\<close>

definition term_match :: matcher where
  "term_match s =
     (case s of [] \<Rightarrow> None
      | c # t \<Rightarrow> (let run = take 119 (takeWhile word_or_dash t)
           in if is_word_char c \<and> \<not> is_decimal_char c \<and> c \<noteq> 95 \<and> run \<noteq> []
              then Some (c # run, drop (length run) t) else None))"

text \<open>
  \<open>_EXACT_IDENTIFIER_RE\<close>: five alternatives, tried in order. \<open>chain\<close> repeats a separator followed by
  a run of at least one character.
\<close>

function chain :: "(nat \<Rightarrow> bool) \<Rightarrow> (nat \<Rightarrow> bool) \<Rightarrow> (nat \<Rightarrow> bool) \<Rightarrow> ustr \<Rightarrow> ustr" where
  "chain sep start cont s =
     (case s of
        c # d # t \<Rightarrow>
          if sep c \<and> start d
          then c # d # takeWhile cont t @ chain sep start cont (dropWhile cont t)
          else []
      | _ \<Rightarrow> [])"
  by pat_completeness auto
termination
  by (relation "measure (\<lambda>(a, b, c, s). length s)")
    (auto simp: length_dropWhile_le less_Suc_eq_le intro: le_SucI)

declare chain.simps [simp del]

definition identifier_dotted :: matcher where
  "identifier_dotted s =
     (case s of [] \<Rightarrow> None
      | c # t \<Rightarrow>
          (let w = takeWhile is_word_char t;
               links = chain (\<lambda>c. c \<in> set (lit ''./:@#-'')) is_word_char word_or_dash (drop (length w) t);
               m = c # w @ links
           in if (ascii_upper c \<or> ascii_lower c \<or> c = 95) \<and> links \<noteq> []
              then Some (m, drop (length m) s) else None))"

definition identifier_camel :: matcher where
  "identifier_camel s =
     (case s of [] \<Rightarrow> None
      | c # t \<Rightarrow>
          (let w = takeWhile is_word_char t
           in if (ascii_upper c \<or> ascii_lower c \<or> c = 95) \<and> list_ex ascii_upper w
              then Some (c # w, drop (length w) t) else None))"

definition identifier_ticket :: matcher where
  "identifier_ticket s =
     (let a = takeWhile ascii_upper s; t = drop (length a) s; d = takeWhile is_decimal_char (drop 1 t)
      in if 2 \<le> length a \<and> take 1 t = [45] \<and> d \<noteq> []
         then Some (a @ [45] @ d, drop (length d) (drop 1 t)) else None)"

definition identifier_version :: matcher where
  "identifier_version s =
     (let v = (if take 1 s = [118] then [118] else []); t = drop (length v) s;
          d = takeWhile is_decimal_char t; t' = drop (length d) t;
          links = chain (\<lambda>c. c = 46) is_decimal_char is_decimal_char t'; t'' = drop (length links) t';
          suffix = takeWhile (\<lambda>c. word_or_dash c \<or> c = 46) (drop 1 t'');
          tail_text = (if t'' \<noteq> [] \<and> (hd t'' = 45 \<or> hd t'' = 43) \<and> suffix \<noteq> []
                       then hd t'' # suffix else []);
          m = v @ d @ links @ tail_text
      in if d \<noteq> [] \<and> links \<noteq> [] then Some (m, drop (length m) s) else None)"

text \<open>
  The last alternative may give back word characters so that an underscore inside the first run
  counts as a separator; the whole run is matched then.
\<close>

definition identifier_path :: matcher where
  "identifier_path s =
     (let w = takeWhile is_word_char s; t = drop (length w) s;
          links = chain (\<lambda>c. c \<in> set (lit ''-/.:'')) is_word_char is_word_char t
      in if w = [] then None
         else if links \<noteq> [] then Some (w @ links, drop (length links) t)
         else if 95 \<in> set (tl (butlast w)) then Some (w, t)
         else None)"

definition identifier_match :: matcher where
  "identifier_match s =
     (case identifier_dotted s of Some x \<Rightarrow> Some x | None \<Rightarrow>
     (case identifier_camel s of Some x \<Rightarrow> Some x | None \<Rightarrow>
     (case identifier_ticket s of Some x \<Rightarrow> Some x | None \<Rightarrow>
     (case identifier_version s of Some x \<Rightarrow> Some x | None \<Rightarrow> identifier_path s))))"

text \<open>\<open>_MARKDOWN_LINK_RE\<close>, \<open>_WIKILINK_RE\<close> and \<open>_HTML_TAG_RE\<close>, with their replacements.\<close>

definition bracket_link :: matcher where
  "bracket_link s =
     (let g = takeWhile (\<lambda>c. c \<noteq> 93) (tl s); t = drop (length g) (tl s);
          u = takeWhile (\<lambda>c. c \<noteq> 41) (drop 2 t); after = drop (length u) (drop 2 t)
      in if take 1 s = [91] \<and> g \<noteq> [] \<and> starts_with t [93, 40] \<and> u \<noteq> [] \<and> after \<noteq> []
         then Some (g, tl after) else None)"

definition markdown_link_match :: matcher where
  "markdown_link_match s = (if take 1 s = [33] then bracket_link (tl s) else bracket_link s)"

definition wikilink_match :: matcher where
  "wikilink_match s =
     (let rest = drop 2 s; g = takeWhile (\<lambda>c. c \<noteq> 93 \<and> c \<noteq> 124) rest; t = drop (length g) rest;
          label = takeWhile (\<lambda>c. c \<noteq> 93) (tl t); after = drop (length label) (tl t)
      in if \<not> starts_with s [91, 91] \<or> g = [] then None
         else if take 1 t = [124]
         then (if label \<noteq> [] \<and> starts_with after [93, 93] then Some (label, drop 2 after) else None)
         else if starts_with t [93, 93] then Some (g, drop 2 t) else None)"

definition html_tag_match :: matcher where
  "html_tag_match s =
     (let g = takeWhile (\<lambda>c. c \<noteq> 62) (tl s); t = drop (length g) (tl s)
      in if take 1 s = [60] \<and> g \<noteq> [] \<and> t \<noteq> [] then Some ([32], tl t) else None)"

text \<open>\<open>re.split(r"\n\s*\n", text)\<close>: a line feed and the white space up to the last line feed of it.\<close>

fun paragraph_split :: "nat \<Rightarrow> ustr \<Rightarrow> ustr \<Rightarrow> ustr list" where
  "paragraph_split skip acc [] = [rev acc]"
| "paragraph_split (Suc skip) acc (c # s) = paragraph_split skip acc s"
| "paragraph_split 0 acc (c # s) =
     (case rfind_char 10 (takeWhile is_space s) of
        Some i \<Rightarrow> if c = 10 then rev acc # paragraph_split (Suc i) [] s
                  else paragraph_split 0 (c # acc) s
      | None \<Rightarrow> paragraph_split 0 (c # acc) s)"

definition paragraphs :: "ustr \<Rightarrow> ustr list" where
  "paragraphs text = filter (\<lambda>part. strip part \<noteq> []) (paragraph_split 0 [] text)"

section \<open>Cleaning\<close>

definition clean_inline :: "nat \<Rightarrow> ustr \<Rightarrow> ustr" where
  "clean_inline max_chars text =
     (let cleaned = collapse_ws (replace_char 0 [32] text)
      in if length cleaned \<le> max_chars then cleaned
         else if max_chars \<le> 3 then take max_chars cleaned
         else rstrip (take (max_chars - 3) cleaned) @ lit ''...'')"

definition sensitive_text :: "guide_env \<Rightarrow> ustr \<Rightarrow> bool" where
  "sensitive_text env text =
     (let candidate = strip text
      in candidate \<noteq> [] \<and>
         (replace_char 45 [95] (casefold candidate) \<in> set SENSITIVE_STANDALONE_TERMS \<or>
          sensitive_pattern env candidate))"

definition boilerplate_text :: "ustr \<Rightarrow> bool" where
  "boilerplate_text text =
     (length text < 16 \<or> list_ex (starts_with (casefold text)) BOILERPLATE_PREFIXES)"

text \<open>The lines of a cleaned text, with the code fences left out.\<close>

fun fence_lines :: "bool \<Rightarrow> ustr list \<Rightarrow> ustr list" where
  "fence_lines in_fence [] = []"
| "fence_lines in_fence (raw_line # rest) =
     (let line = strip raw_line
      in if starts_with line (lit ''```'') \<or> starts_with line (lit ''~~~'')
         then fence_lines (\<not> in_fence) rest
         else if in_fence then fence_lines in_fence rest
         else (let line = strip (lstrip_by (\<lambda>c. c = 35) line);
                   line = strip (lstrip_by (\<lambda>c. c \<in> set (lit ''-*0123456789. '')) line)
               in (if line \<noteq> [] \<and> \<not> starts_with line [124] then [line] else []) @
                  fence_lines in_fence rest))"

definition clean_markdown_inline :: "nat \<Rightarrow> ustr \<Rightarrow> ustr" where
  "clean_markdown_inline max_chars text =
     (let text = sub_all html_tag_match (sub_all wikilink_match (sub_all markdown_link_match text))
      in clean_inline max_chars (join [32] (fence_lines False (splitlines text))))"

definition safe_excerpt :: "guide_env \<Rightarrow> wiki_page \<Rightarrow> ustr" where
  "safe_excerpt env p =
     (case List.find (\<lambda>text. text \<noteq> [] \<and> \<not> boilerplate_text text \<and> \<not> sensitive_text env text)
             (map (clean_markdown_inline 240) (page_summary p # paragraphs (page_text p))) of
        Some text \<Rightarrow> text | None \<Rightarrow> [])"

definition safe_projected_path :: "guide_env \<Rightarrow> ustr \<Rightarrow> ustr option" where
  "safe_projected_path env path =
     (let text = replace_char 92 [47] (strip path); parts = split_char 47 text
      in if text = [] then None
         else if length text > 1024 \<or> sensitive_text env text then None
         else if list_ex (\<lambda>c. c < 32) text then None
         else if starts_with text [47] \<or> contains text (lit ''://'') then None
         else if list_ex (\<lambda>part. part \<in> {[], [46], lit ''..''}) parts then None
         else if length (hd parts) = 2 \<and> hd parts ! 1 = 58 then None
         else if list_ex (\<lambda>part. replace_char 45 [95] (casefold (rsplit_head 46 part)) \<in>
                   set SENSITIVE_STANDALONE_TERMS) parts then None
         else Some text)"

definition parent_folder :: "guide_env \<Rightarrow> ustr \<Rightarrow> ustr option" where
  "parent_folder env path =
     (case safe_projected_path env path of
        None \<Rightarrow> None
      | Some safe \<Rightarrow> if 47 \<notin> set safe then Some [46]
          else (let folder = rsplit_head 47 safe in Some (if folder \<noteq> [] then folder else [46])))"

text \<open>The loop of \<open>unique_preserving_order\<close>; \<open>room\<close> is the number of items it may still add.\<close>

fun unique_acc :: "guide_env \<Rightarrow> nat \<Rightarrow> ustr set \<Rightarrow> nat \<Rightarrow> ustr list \<Rightarrow> ustr list" where
  "unique_acc env max_chars seen room [] = []"
| "unique_acc env max_chars seen room (value # values) =
     (let text = clean_inline max_chars value; key = casefold (nfc env text)
      in if text = [] \<or> sensitive_text env text then unique_acc env max_chars seen room values
         else if key \<in> seen then unique_acc env max_chars seen room values
         else text # (if room \<le> 1 then []
                      else unique_acc env max_chars (insert key seen) (room - 1) values))"

definition unique_preserving_order :: "guide_env \<Rightarrow> nat \<Rightarrow> nat \<Rightarrow> ustr list \<Rightarrow> ustr list" where
  "unique_preserving_order env max_items max_chars values = unique_acc env max_chars {} max_items values"

section \<open>Terms and identifiers\<close>

definition terms_from_text :: "guide_env \<Rightarrow> ustr \<Rightarrow> ustr list" where
  "terms_from_text env text =
     (if sensitive_text env text then []
      else unique_preserving_order env 32 120
        (filter (\<lambda>t. \<not> (length t < 2 \<or> casefold t \<in> set COMMON_TERMS \<or> sensitive_text env t))
          (map (clean_inline 120) (find_all term_match text))))"

definition exact_identifiers_from_text :: "guide_env \<Rightarrow> ustr \<Rightarrow> ustr list" where
  "exact_identifiers_from_text env text =
     unique_preserving_order env 32 240
       (filter (\<lambda>t. \<not> sensitive_text env t) (find_all identifier_match text))"

definition page_terms_for_guidance :: "guide_env \<Rightarrow> wiki_page \<Rightarrow> ustr list" where
  "page_terms_for_guidance env p =
     unique_preserving_order env 12 120
       (terms_from_text env (page_title p) @ concat (map (terms_from_text env) (page_headings p)) @
        concat (map (terms_from_text env) (page_tags p)))"

definition page_exact_identifiers :: "guide_env \<Rightarrow> wiki_page \<Rightarrow> ustr \<Rightarrow> ustr list" where
  "page_exact_identifiers env p excerpt =
     unique_preserving_order env 8 240
       ((case safe_projected_path env (page_path p) of None \<Rightarrow> [] | Some path \<Rightarrow> [path]) @
        page_source_refs p @ page_tags p @
        exact_identifiers_from_text env (join [32] (page_title p # page_headings p @ [excerpt])))"

definition orientation_role_rank :: "page_role \<Rightarrow> nat" where
  "orientation_role_rank r =
     (case r of Role_hot \<Rightarrow> 0 | Role_index \<Rightarrow> 1 | Role_overview \<Rightarrow> 2 | Role_topic \<Rightarrow> 3)"

definition page_query_overlap :: "guide_env \<Rightarrow> wiki_page \<Rightarrow> ustr set \<Rightarrow> nat" where
  "page_query_overlap env p query_terms =
     (if query_terms = {} then 0
      else card (set (page_terms_for_guidance env p) \<inter> query_terms))"

definition projection_extractive_pages :: "guide_env \<Rightarrow> wiki_page list \<Rightarrow> ustr \<Rightarrow> wiki_page list" where
  "projection_extractive_pages env pages query =
     (let query_terms = set (terms_from_text env query)
      in take 24 (sort_key (\<lambda>p. (- int (page_query_overlap env p query_terms),
           orientation_role_rank (page_role p), page_path p)) pages))"

text \<open>The counts and the first spelling of each term, by its case-folded form.\<close>

definition folder_terms :: "guide_env \<Rightarrow> wiki_page list \<Rightarrow> ustr list" where
  "folder_terms env pages =
     (let terms = concat (map (page_terms_for_guidance env) pages);
          counts = counter (map casefold terms);
          first_seen = fold (\<lambda>t. dict_setdefault (casefold t) t) terms []
      in map (\<lambda>(key, n). dict_get first_seen key [])
           (sort_key (\<lambda>(key, n). (- int n, key)) counts))"

section \<open>Cards\<close>

definition page_card_for :: "guide_env \<Rightarrow> wiki_page \<Rightarrow> page_card option res" where
  "page_card_for env p =
     (case safe_projected_path env (page_path p) of
        None \<Rightarrow> Inr None
      | Some path \<Rightarrow>
          (let excerpt = safe_excerpt env p;
               pid = clean_inline 512 (page_id p);
               title = clean_inline 240 (if page_title p \<noteq> [] then page_title p else page_id p)
           in if excerpt = [] then Inr None
              else if pid = [] \<or> sensitive_text env pid then Inr None
              else if title = [] \<or> sensitive_text env title then Inr None
              else bind_res (make_page_card pid title path
                     (unique_preserving_order env 8 160 (page_headings p))
                     (take 12 (page_terms_for_guidance env p))
                     (take 8 (page_exact_identifiers env p excerpt)) excerpt) (\<lambda>c. Inr (Some c))))"

definition group_by_folder :: "guide_env \<Rightarrow> wiki_page list \<Rightarrow> (ustr, wiki_page list) dict" where
  "group_by_folder env pages =
     fold (\<lambda>p d. case parent_folder env (page_path p) of
         None \<Rightarrow> d | Some folder \<Rightarrow> dict_append folder p d) pages []"

definition folder_cards_from_pages :: "guide_env \<Rightarrow> wiki_page list \<Rightarrow> ustr \<Rightarrow> folder_card list res" where
  "folder_cards_from_pages env pages query =
     (let query_terms = set (terms_from_text env query)
      in bind_res (map_res (\<lambda>(folder, folder_pages).
             make_folder_card folder (length folder_pages) (take 8 (folder_terms env folder_pages)))
             (group_by_folder env pages))
           (\<lambda>cards. Inr (sort_key (\<lambda>c. (- int (card (set (folder_card_terms c) \<inter> query_terms)),
               - int (folder_page_count c), folder_path c)) cards)))"

definition available_fallback_modes :: "fallback_mode list \<Rightarrow> fallback_mode list" where
  "available_fallback_modes modes = filter (\<lambda>m. m \<in> set modes) FALLBACK_MODE_ORDER"

definition guidance_from_pages ::
  "guide_env \<Rightarrow> wiki_page list \<Rightarrow> ustr \<Rightarrow> orientation_source \<Rightarrow> fallback_mode list \<Rightarrow> wiki_page list \<Rightarrow>
   retrieval_guidance res" where
  "guidance_from_pages env pages query source modes folder_source_pages =
     bind_res (map_res (page_card_for env) pages) (\<lambda>cards.
     bind_res (folder_cards_from_pages env folder_source_pages query) (\<lambda>folders.
     let page_cards = take 12 (List.map_filter (\<lambda>c. c) cards);
         folder_cards = take 8 folders;
         suggested = unique_preserving_order env 16 120 (terms_from_text env query @
           concat (map card_terms page_cards) @ concat (map folder_card_terms folder_cards));
         identifiers = unique_preserving_order env 16 240
           (concat (map card_exact_identifiers page_cards) @ map card_path page_cards)
     in make_retrieval_guidance source GUIDANCE_CHARACTER_BUDGET folder_cards page_cards suggested
          identifiers (available_fallback_modes modes)))"

section \<open>The guidance of a context pack\<close>

definition visible_index_pages :: "wiki_index \<Rightarrow> bool \<Rightarrow> wiki_page list" where
  "visible_index_pages index include_drafts =
     (if include_drafts then idx_pages index else filter approved_for_serving (idx_pages index))"

definition is_authored_orientation_page :: "wiki_page \<Rightarrow> bool" where
  "is_authored_orientation_page p \<longleftrightarrow> page_role p \<in> {Role_hot, Role_index, Role_overview}"

definition authored_orientation_pages :: "wiki_index \<Rightarrow> bool \<Rightarrow> wiki_page list" where
  "authored_orientation_pages index include_drafts =
     filter is_authored_orientation_page
       (sort_key (\<lambda>p. (orientation_role_rank (page_role p), page_path p))
         (visible_index_pages index include_drafts))"

text \<open>
  Each round drops the last page card, or the last folder card when there is none, then terms, then
  identifiers, until the dump fits the budget.
\<close>

function trim_guidance_to_budget :: "guide_env \<Rightarrow> retrieval_guidance \<Rightarrow> retrieval_guidance" where
  "trim_guidance_to_budget env g =
     (if json_size env g \<le> rg_character_budget g then g
      else if rg_page_cards g \<noteq> []
        then trim_guidance_to_budget env (g\<lparr>rg_page_cards := butlast (rg_page_cards g)\<rparr>)
      else if rg_folder_cards g \<noteq> []
        then trim_guidance_to_budget env (g\<lparr>rg_folder_cards := butlast (rg_folder_cards g)\<rparr>)
      else if rg_suggested_terms g \<noteq> []
        then trim_guidance_to_budget env (g\<lparr>rg_suggested_terms := butlast (rg_suggested_terms g)\<rparr>)
      else if rg_exact_identifiers g \<noteq> []
        then trim_guidance_to_budget env (g\<lparr>rg_exact_identifiers := butlast (rg_exact_identifiers g)\<rparr>)
      else g)"
  by pat_completeness auto
termination
  by (relation "measure (\<lambda>(env, g). length (rg_page_cards g) + length (rg_folder_cards g) +
      length (rg_suggested_terms g) + length (rg_exact_identifiers g))") auto

declare trim_guidance_to_budget.simps [simp del]

definition build_retrieval_guidance ::
  "guide_env \<Rightarrow> wiki_index \<Rightarrow> ustr \<Rightarrow> bool \<Rightarrow> fallback_mode list \<Rightarrow> retrieval_guidance res" where
  "build_retrieval_guidance env index query include_drafts modes =
     (let visible = visible_index_pages index include_drafts;
          authored = authored_orientation_pages index include_drafts;
          safe_fallbacks = available_fallback_modes modes;
          none_guidance = make_retrieval_guidance No_orientation GUIDANCE_CHARACTER_BUDGET [] [] [] []
            safe_fallbacks
      in if authored \<noteq> []
         then bind_res (guidance_from_pages env authored query Authored safe_fallbacks authored)
                (\<lambda>g. Inr (trim_guidance_to_budget env g))
         else if idx_adapter index = lit ''generic-markdown'' \<and> visible \<noteq> []
         then bind_res (guidance_from_pages env (projection_extractive_pages env visible query) query
                  Projection_extractive safe_fallbacks visible)
                (\<lambda>g. if rg_page_cards g \<noteq> [] \<or> rg_folder_cards g \<noteq> [] \<or> rg_suggested_terms g \<noteq> []
                     then Inr (trim_guidance_to_budget env g) else none_guidance)
         else none_guidance)"

section \<open>Query variants\<close>

text \<open>
  \<open>None\<close> is an omitted value; a value that is not a sequence (or is a string) is \<open>PStr\<close>, a sequence
  is \<open>PList\<close>.
\<close>

fun variants_acc :: "pyval list \<Rightarrow> ustr list res" where
  "variants_acc [] = Inr []"
| "variants_acc (PStr s # items) =
     (if strip s = [] then Inl (LlmWikiUserError ''query_variants entries must be non-empty strings'')
      else bind_res (variants_acc items) (\<lambda>rest. Inr (strip s # rest)))"
| "variants_acc (v # items) = Inl (LlmWikiUserError ''query_variants entries must be strings'')"

fun validate_query_variants :: "pyval \<Rightarrow> ustr list res" where
  "validate_query_variants PNone = Inr []"
| "validate_query_variants (PList items) =
     (if length items > MAX_QUERY_VARIANTS
      then Inl (LlmWikiUserError ''query_variants accepts at most 2 supplied variants'')
      else variants_acc items)"
| "validate_query_variants v =
     Inl (LlmWikiUserError ''query_variants must be an array of up to 2 strings'')"

definition validate_public_query_variants :: "pyval \<Rightarrow> ustr list res" where
  "validate_public_query_variants value =
     (if value = PNone
      then Inl (LlmWikiUserError ''query_variants must be an array of strings; omit it instead of null'')
      else validate_query_variants value)"

definition effective_lexical_query_channels ::
  "guide_env \<Rightarrow> ustr \<Rightarrow> pyval \<Rightarrow> search_mode \<Rightarrow> ustr list res" where
  "effective_lexical_query_channels env query query_variants mode =
     bind_res (validate_query_variants query_variants) (\<lambda>variants.
       if variants = [] then Inr [query]
       else if mode \<noteq> Lexical
         then Inl (LlmWikiUserError ''query_variants is supported only with mode=lexical'')
       else if strip query = []
         then Inl (LlmWikiUserError ''query is required when query_variants are supplied'')
       else Inr (take MAX_LEXICAL_CHANNELS
              (dedupe_on (\<lambda>c. casefold (nfc env c)) {} (strip query # variants))))"

end
