(* ===== verification/Guided_Retrieval_Props.thy ===== *)
theory Guided_Retrieval_Props
  imports Guided_Retrieval Validation_Props
begin

text \<open>
  The cards and terms that \<open>guided_retrieval.py\<close> builds pass the validators of \<open>models.py\<close> and fit
  their bounds, except in two cases: strings that case folding identifies and normalisation does
  not, and folders whose name has surrounding white space. Also the channels of a query with variants.
\<close>

section \<open>Cleaned strings\<close>

lemma rstrip_last: "rstrip s \<noteq> [] \<Longrightarrow> \<not> is_space (last (rstrip s))"
  using hd_dropWhile [of is_space "rev s"] by (simp add: rstrip_def rstrip_by_def last_rev)

lemma rstrip_prefix: "\<exists>t. s = rstrip s @ t"
  by (metis rev_append rev_rev_ident rstrip_by_def rstrip_def takeWhile_dropWhile_id)

lemma length_rstrip: "length (rstrip s) \<le> length s"
  by (simp add: rstrip_def rstrip_by_def length_dropWhile_le [THEN le_trans])

lemma dots: "lit ''...'' = [46, 46, 46]"
  by (simp add: lit_def)

lemma strip_clean_inline [simp]: "strip (clean_inline n text) = clean_inline n text" if "3 < n"
proof -
  let ?c = "collapse_ws (replace_char 0 [32] text)"
  have trim: "trimmed is_space ?c" by (rule trimmed_collapse_ws)
  show ?thesis
  proof (cases "length ?c \<le> n")
    case True
    then show ?thesis by (simp add: clean_inline_def Let_def)
  next
    case False
    let ?t = "rstrip (take (n - 3) ?c)"
    obtain u where u: "take (n - 3) ?c = ?t @ u" using rstrip_prefix by blast
    have "hd (?t @ [46, 46, 46]) = hd ?c" if "?t \<noteq> []"
    proof -
      have "hd (take (n - 3) ?c) = hd ?t" using u that by (metis hd_append2)
      with that False \<open>3 < n\<close> show ?thesis by (cases ?c) auto
    qed
    moreover have "?c \<noteq> []" using False by auto
    ultimately have "trimmed is_space (?t @ [46, 46, 46])"
      using trim by (cases "?t = []") (auto simp: trimmed_def is_space_def)
    then show ?thesis
      using False that by (simp add: clean_inline_def Let_def dots strip_def strip_by_trimmed)
  qed
qed

lemma length_clean_inline: "length (clean_inline n text) \<le> n"
  using length_rstrip [of "take (n - 3) (collapse_ws (replace_char 0 [32] text))"]
  by (auto simp: clean_inline_def Let_def dots)

text \<open>
  Lists whose strings are trimmed, not empty and within a bound, with distinct case foldings: what
  \<open>trimmed_unique_strings\<close> accepts unchanged.
\<close>

definition card_strings :: "nat \<Rightarrow> ustr list \<Rightarrow> bool" where
  "card_strings n ts \<longleftrightarrow> (\<forall>t\<in>set ts. t \<noteq> [] \<and> length t \<le> n \<and> strip t = t) \<and> distinct (map casefold ts)"

lemma card_strings_accepted:
  assumes "card_strings n ts"
  shows "trimmed_unique_strings f n (map PStr ts) = Inr ts"
proof -
  have "map strip ts = ts" using assms by (intro map_idI) (simp add: card_strings_def)
  then show ?thesis
    using assms unfolding trimmed_unique_strings_def trimmed_unique_acc_Inr
    by (intro exI [of _ ts]) (auto simp: trimmed_ok_def card_strings_def)
qed

lemma card_strings_take: "card_strings n ts \<Longrightarrow> card_strings n (take m ts)"
  unfolding card_strings_def take_map [symmetric]
  by (auto simp: take_map [symmetric] dest: in_set_takeD intro: distinct_take)

text \<open>The strings case folding identifies but normalisation followed by case folding does not.\<close>

definition nfc_clash :: "guide_env \<Rightarrow> bool" where
  "nfc_clash env \<longleftrightarrow> (\<exists>a b. casefold a = casefold b \<and> casefold (nfc env a) \<noteq> casefold (nfc env b))"

lemma unique_acc_facts:
  assumes clash: "\<not> nfc_clash env" and "3 < n"
  shows "card_strings n (unique_acc env n seen room vals) \<and>
    (\<forall>t\<in>set (unique_acc env n seen room vals). casefold (nfc env t) \<notin> seen)"
proof (induction vals arbitrary: seen room)
  case (Cons v vs)
  let ?t = "clean_inline n v"
  let ?rest = "unique_acc env n (insert (casefold (nfc env ?t)) seen) (room - 1) vs"
  have t: "length ?t \<le> n" "strip ?t = ?t" using assms(2) by (simp_all add: length_clean_inline)
  have IH: "card_strings n ?rest" "\<forall>t\<in>set ?rest. casefold (nfc env t) \<notin> insert (casefold (nfc env ?t)) seen"
    using Cons.IH by blast+
  have "casefold ?t \<notin> casefold ` set ?rest"
  proof
    assume "casefold ?t \<in> casefold ` set ?rest"
    then obtain u where u: "u \<in> set ?rest" "casefold ?t = casefold u" by blast
    then have "casefold (nfc env ?t) = casefold (nfc env u)"
      using clash unfolding nfc_clash_def by blast
    with IH(2) u(1) show False by (metis insertI1)
  qed
  with IH t have "card_strings n (?t # ?rest)" if "?t \<noteq> []"
    using that by (auto simp: card_strings_def)
  moreover have "card_strings n [?t]" if "?t \<noteq> []" using that t by (simp add: card_strings_def)
  ultimately show ?case using Cons.IH [of seen room] IH(2) by (auto simp: Let_def)
qed (simp add: card_strings_def)

lemma unique_card_strings:
  "\<not> nfc_clash env \<Longrightarrow> 3 < n \<Longrightarrow> card_strings n (unique_preserving_order env m n vals)"
  using unique_acc_facts by (simp add: unique_preserving_order_def)

lemma length_unique: "0 < m \<Longrightarrow> length (unique_preserving_order env m n vals) \<le> m"
proof -
  have "length (unique_acc env n seen room vals) \<le> max 1 room" for seen room
  proof (induction vals arbitrary: seen room)
    case (Cons v vs)
    let ?key = "casefold (nfc env (clean_inline n v))"
    from Cons.IH [of seen room] Cons.IH [of "insert ?key seen" "room - 1"]
    show ?case by (cases "room \<le> 1") (auto simp: Let_def)
  qed simp
  then show "0 < m \<Longrightarrow> ?thesis" by (metis Suc_leI One_nat_def max.absorb2 unique_preserving_order_def)
qed

section \<open>Folder terms\<close>

lemma fold_setdefault_get:
  "map_of (fold (\<lambda>t. dict_setdefault (f t) t) ts d) k =
     (case map_of d k of Some v \<Rightarrow> Some v | None \<Rightarrow> List.find (\<lambda>t. f t = k) ts)"
  by (induction ts arbitrary: d) (auto simp: map_of_setdefault split: option.splits)

lemma folder_terms_strings:
  assumes "\<not> nfc_clash env"
  shows "card_strings 120 (folder_terms env pages)"
proof -
  define ts where "ts = concat (map (page_terms_for_guidance env) pages)"
  define fs where "fs = fold (\<lambda>t. dict_setdefault (casefold t) t) ts []"
  have each: "t \<noteq> [] \<and> length t \<le> 120 \<and> strip t = t" if "t \<in> set ts" for t
    using that unique_card_strings [OF assms, of 120]
    by (auto simp: ts_def page_terms_for_guidance_def card_strings_def)
  have first: "dict_get fs k [] \<in> set ts \<and> casefold (dict_get fs k []) = k" if "k \<in> casefold ` set ts" for k
  proof -
    obtain t where "List.find (\<lambda>t. casefold t = k) ts = Some t" "t \<in> set ts" "casefold t = k"
    proof (cases "List.find (\<lambda>t. casefold t = k) ts")
      case None
      with \<open>k \<in> casefold ` set ts\<close> show ?thesis by (auto simp: find_None_iff)
    next
      case (Some t)
      then have "t \<in> set ts" "casefold t = k" by (auto simp: find_Some_iff)
      with Some show ?thesis using that by blast
    qed
    then show ?thesis by (simp add: dict_get_def fs_def fold_setdefault_get)
  qed
  let ?cs = "sort_key (\<lambda>(key, n). (- int n, key)) (counter (map casefold ts))"
  have keys: "fst ` set ?cs = casefold ` set ts" by (simp add: keys_counter)
  have "distinct (map fst ?cs)"
    using distinct_counter [of "map casefold ts"] by (simp add: distinct_map)
  moreover have "map (casefold \<circ> (\<lambda>(key, n). dict_get fs key [])) ?cs = map fst ?cs"
  proof (rule map_cong [OF refl])
    fix x assume "x \<in> set ?cs"
    then have "fst x \<in> casefold ` set ts" using keys by (metis image_eqI)
    with first show "(casefold \<circ> (\<lambda>(key, n). dict_get fs key [])) x = fst x"
      by (simp add: case_prod_unfold)
  qed
  ultimately have "distinct (map casefold (map (\<lambda>(key, n). dict_get fs key []) ?cs))"
    by (simp only: map_map)
  moreover have "dict_get fs k [] \<in> set ts" if "(k, n) \<in> set ?cs" for k n
    using first keys that by (metis image_eqI fst_conv)
  ultimately have "card_strings 120 (map (\<lambda>(key, n). dict_get fs key []) ?cs)"
    unfolding card_strings_def using each by auto
  then show ?thesis by (simp add: folder_terms_def Let_def ts_def fs_def)
qed

section \<open>Paths\<close>

lemma safe_path_facts:
  assumes "safe_projected_path env path = Some t"
  shows "t = replace_char 92 [47] (strip path)" and "t \<noteq> []" and "length t \<le> 1024" and "92 \<notin> set t"
    and "hd t \<noteq> 47" and "\<not> contains t (lit ''://'')"
    and "\<And>part. part \<in> set (split_char 47 t) \<Longrightarrow> part \<noteq> [] \<and> part \<noteq> lit ''..''"
    and "\<not> (length (hd (split_char 47 t)) = 2 \<and> hd (split_char 47 t) ! 1 = 58)"
proof -
  show t: "t = replace_char 92 [47] (strip path)"
    using assms by (auto simp: safe_projected_path_def Let_def split: if_splits)
  show "92 \<notin> set t" unfolding t using set_replace_char [of 92 "[47]" "strip path"] by auto
  show "t \<noteq> []" "length t \<le> 1024" "hd t \<noteq> 47" "\<not> contains t (lit ''://'')"
      "\<not> (length (hd (split_char 47 t)) = 2 \<and> hd (split_char 47 t) ! 1 = 58)"
    using assms by (auto simp: safe_projected_path_def Let_def starts_with_char split: if_splits)
  show "part \<noteq> [] \<and> part \<noteq> lit ''..''" if "part \<in> set (split_char 47 t)" for part
    using assms that by (auto simp: safe_projected_path_def Let_def list_ex_iff split: if_splits)
qed

lemma split_char_snoc: "c \<notin> set q \<Longrightarrow> split_char c (p @ c # q) = split_char c p @ [q]"
proof (induction p)
  case Nil
  then show ?case by (simp add: split_char_no_sep)
next
  case (Cons d p)
  then show ?case by (cases "split_char c p") auto
qed

lemma stripped_ends:
  assumes "strip q = q" and "q \<noteq> []"
  shows "\<not> is_space (hd q)" and "\<not> is_space (last q)"
  using assms trimmed_strip_by [of is_space q] by (simp_all add: strip_def trimmed_def)

text \<open>A path whose parts have no surrounding white space has none itself.\<close>

lemma strip_path:
  assumes "\<And>part. part \<in> set (split_char 47 t) \<Longrightarrow> part \<noteq> [] \<and> strip part = part"
  shows "strip t = t"
proof -
  let ?ps = "split_char 47 t"
  have t: "t = join [47] ?ps" by (simp add: join_split_char)
  have w: "words_of (\<lambda>c. c = 47) ?ps"
    using assms split_char_parts [of _ 47 t] by (fastforce simp: words_of_def)
  have "hd ?ps \<in> set ?ps" "last ?ps \<in> set ?ps" by simp_all
  with assms have ends: "\<not> is_space (hd (hd ?ps))" "\<not> is_space (last (last ?ps))" "hd ?ps \<noteq> []"
    using stripped_ends by blast+
  have "hd (join [47] ?ps) = hd (hd ?ps)" by (rule hd_join) (simp_all add: ends)
  moreover have "last (join [47] ?ps) = last (last ?ps)" by (rule last_join [OF w]) simp
  ultimately have "trimmed is_space t" using ends t by (simp add: trimmed_def)
  then show ?thesis by (simp add: strip_def strip_by_trimmed)
qed

lemma safe_path_stripped:
  assumes "safe_projected_path env path = Some t"
  shows "strip t = t"
proof -
  have "replace_char 92 [47] s = map (\<lambda>c. if c = 92 then 47 else c) s" for s
    by (induction s) (simp_all add: replace_char_def)
  then have t: "t = map (\<lambda>c. if c = 92 then 47 else c) (strip path)"
    using safe_path_facts(1) [OF assms] by simp
  have "trimmed is_space (strip path)" by (simp add: strip_def trimmed_strip_by)
  then have "trimmed is_space t" unfolding t
    by (auto simp: trimmed_def hd_map last_map is_space_def)
  then show ?thesis by (simp add: strip_def strip_by_trimmed)
qed

lemma safe_path_accepted:
  "safe_projected_path env path = Some t \<Longrightarrow> safe_relative_path f t = Inr t"
  unfolding safe_relative_path_Inr
  using safe_path_facts [of env path t] safe_path_stripped [of env path t] by auto

text \<open>The pages that lie below a folder whose name has surrounding white space.\<close>

definition spaced_folder :: "guide_env \<Rightarrow> wiki_page \<Rightarrow> bool" where
  "spaced_folder env p = (case safe_projected_path env (page_path p) of None \<Rightarrow> False
     | Some t \<Rightarrow> list_ex (\<lambda>part. strip part \<noteq> part) (split_char 47 t))"

lemma folder_accepted:
  assumes "parent_folder env (page_path p) = Some folder" and "\<not> spaced_folder env p"
  shows "safe_relative_path f folder = Inr folder"
proof -
  obtain t where t: "safe_projected_path env (page_path p) = Some t"
    using assms(1) by (auto simp: parent_folder_def split: option.splits)
  note facts = safe_path_facts [OF t]
  show ?thesis
  proof (cases "47 \<in> set t")
    case False
    then have "folder = [46]" using assms(1) t by (simp add: parent_folder_def)
    then show ?thesis by (simp add: safe_relative_path_def Let_def py_eval lit_def)
  next
    case True
    then obtain i where i: "rfind_char 47 t = Some i" by (cases "rfind_char 47 t") (auto simp: rfind_char_None)
    note at = rfind_char_Some [OF i]
    let ?q = "drop (Suc i) t"
    have dec: "t = take i t @ 47 # ?q" using at by (metis id_take_nth_drop)
    have "i \<noteq> 0" using facts(2,5) at by (metis hd_conv_nth)
    then have ne: "take i t \<noteq> []" using at by auto
    then have f: "folder = take i t" using assms(1) t True i by (simp add: parent_folder_def rsplit_head_def)
    have parts: "split_char 47 t = split_char 47 folder @ [?q]"
      using split_char_snoc [of 47 ?q "take i t"] at dec f by metis
    have each: "part \<noteq> [] \<and> part \<noteq> lit ''..'' \<and> strip part = part" if "part \<in> set (split_char 47 folder)" for part
      using that parts facts(7) [of part] assms(2) t by (auto simp: spaced_folder_def list_ex_iff)
    then have "strip folder = folder" by (intro strip_path) simp
    moreover have "hd (split_char 47 folder) = hd (split_char 47 t)" using parts by simp
    moreover have "contains folder (lit ''://'') \<Longrightarrow> contains t (lit ''://'')"
      using dec f unfolding contains_iff by (metis append.assoc)
    moreover have "hd folder = hd t" using dec f ne by (metis hd_append2)
    moreover have "set folder \<subseteq> set t" "length folder \<le> length t" using f by (auto dest: in_set_takeD)
    ultimately show ?thesis
      unfolding safe_relative_path_Inr using facts(3,4,5,6,8) ne f each by auto
  qed
qed

section \<open>Cards\<close>

lemma check_True [simp]: "check True m = Inr ()"
  by (simp add: check_def)

lemma trim_required [simp]: "strip s = s \<Longrightarrow> s \<noteq> [] \<Longrightarrow> trim_required_text s = Inr s"
  by (simp add: trim_required_text_def Let_def)

lemma page_card_for_total:
  assumes "\<not> nfc_clash env"
  shows "\<exists>c. page_card_for env p = Inr c"
proof (cases "safe_projected_path env (page_path p)")
  case None
  then show ?thesis by (simp add: page_card_for_def)
next
  case (Some path)
  let ?excerpt = "safe_excerpt env p" and ?pid = "clean_inline 512 (page_id p)"
  let ?title = "clean_inline 240 (if page_title p \<noteq> [] then page_title p else page_id p)"
  have excerpt: "length ?excerpt \<le> 240 \<and> strip ?excerpt = ?excerpt" if "?excerpt \<noteq> []"
  proof -
    obtain v where "List.find (\<lambda>text. text \<noteq> [] \<and> \<not> boilerplate_text text \<and> \<not> sensitive_text env text)
        (map (clean_markdown_inline 240) (page_summary p # paragraphs (page_text p))) = Some v" "?excerpt = v"
      using \<open>?excerpt \<noteq> []\<close> unfolding safe_excerpt_def by (auto split: option.splits)
    then have "?excerpt \<in> set (map (clean_markdown_inline 240) (page_summary p # paragraphs (page_text p)))"
      by (metis find_Some_iff nth_mem)
    then obtain u where "?excerpt = clean_markdown_inline 240 u" unfolding set_map by blast
    then show ?thesis by (simp add: clean_markdown_inline_def Let_def length_clean_inline)
  qed
  have "\<exists>c. make_page_card ?pid ?title path (unique_preserving_order env 8 160 (page_headings p))
      (take 12 (page_terms_for_guidance env p)) (take 8 (page_exact_identifiers env p ?excerpt)) ?excerpt = Inr c"
    if ne: "?excerpt \<noteq> []" "?pid \<noteq> []" "?title \<noteq> []"
  proof -
    have "1 \<le> length ?pid \<and> length ?pid \<le> 512" "1 \<le> length ?title \<and> length ?title \<le> 240"
        "1 \<le> length ?excerpt \<and> length ?excerpt \<le> 240"
      using ne excerpt length_clean_inline by (auto simp: Suc_le_eq)
    moreover have "trim_required_text ?pid = Inr ?pid" "trim_required_text ?title = Inr ?title"
        "trim_required_text ?excerpt = Inr ?excerpt"
      using ne excerpt by (simp_all del: if_split)
    moreover have "length (unique_preserving_order env 8 160 (page_headings p)) \<le> 8"
      by (rule length_unique) simp
    moreover have "card_strings 160 (unique_preserving_order env 8 160 (page_headings p))"
        "card_strings 120 (take 12 (page_terms_for_guidance env p))"
        "card_strings 240 (take 8 (page_exact_identifiers env p ?excerpt))"
      using assms by (simp_all add: card_strings_take unique_card_strings page_terms_for_guidance_def
          page_exact_identifiers_def)
    ultimately show ?thesis
      using safe_path_accepted [OF Some, of "''path''"]
      by (simp add: make_page_card_def card_strings_accepted del: if_split One_nat_def)
  qed
  then show ?thesis using Some by (auto simp: page_card_for_def Let_def)
qed

lemma group_by_folder_entries:
  assumes "(folder, ps) \<in> set (group_by_folder env pages)"
  shows "ps \<noteq> [] \<and> (\<exists>p\<in>set pages. parent_folder env (page_path p) = Some folder)"
proof -
  let ?step = "\<lambda>p d. case parent_folder env (page_path p) of
      None \<Rightarrow> d | Some folder \<Rightarrow> dict_append folder p d"
  let ?ok = "\<lambda>d. \<forall>e\<in>set d. snd e \<noteq> [] \<and> (\<exists>p\<in>set pages. parent_folder env (page_path p) = Some (fst e))"
  have update: "e \<in> set (AList.update k v d) \<Longrightarrow> e = (k, v) \<or> e \<in> set d" for e k v and d :: "(ustr, wiki_page list) dict"
    by (induction d) (auto split: if_splits)
  have keeps: "?ok (fold ?step qs d)" if "?ok d" "set qs \<subseteq> set pages" for qs d
    using that
  proof (induction qs arbitrary: d)
    case (Cons q qs)
    have "?ok (?step q d)"
    proof (cases "parent_folder env (page_path q)")
      case None
      with Cons.prems show ?thesis by simp
    next
      case (Some f)
      show ?thesis
      proof
        fix e assume "e \<in> set (?step q d)"
        then have "e \<in> set (AList.update f (dict_get d f [] @ [q]) d)" using Some by (simp add: dict_append_def)
        then consider "e = (f, dict_get d f [] @ [q])" | "e \<in> set d" using update by blast
        then show "snd e \<noteq> [] \<and> (\<exists>p\<in>set pages. parent_folder env (page_path p) = Some (fst e))"
        proof cases
          case 1
          with Cons.prems(2) Some show ?thesis by (intro conjI bexI [of _ q]) simp_all
        next
          case 2
          with Cons.prems(1) show ?thesis by blast
        qed
      qed
    qed
    moreover have "set qs \<subseteq> set pages" using Cons.prems(2) by simp
    ultimately show ?case unfolding fold_simps by (rule Cons.IH)
  qed simp
  have "?ok (group_by_folder env pages)" unfolding group_by_folder_def by (rule keeps) simp_all
  from bspec [OF this assms] show ?thesis by simp
qed

lemma map_res_total: "(\<And>x. x \<in> set xs \<Longrightarrow> \<exists>y. f x = Inr y) \<Longrightarrow> \<exists>ys. map_res f xs = Inr ys"
  by (induction xs) (auto, metis bind_res_simps(2))

lemma folder_cards_total:
  assumes "\<not> nfc_clash env" and "\<not> list_ex (spaced_folder env) pages"
  shows "\<exists>cs. folder_cards_from_pages env pages query = Inr cs"
proof -
  have "\<exists>c. make_folder_card folder (length ps) (take 8 (folder_terms env ps)) = Inr c"
    if "(folder, ps) \<in> set (group_by_folder env pages)" for folder ps
  proof -
    from group_by_folder_entries [OF that] obtain p where p: "p \<in> set pages" "ps \<noteq> []"
      "parent_folder env (page_path p) = Some folder" by blast
    then have "\<not> spaced_folder env p" using assms(2) by (simp add: list_ex_iff)
    note folder_accepted [OF p(3) this, of "''path''"]
    moreover have "card_strings 120 (take 8 (folder_terms env ps))"
      by (simp add: card_strings_take folder_terms_strings assms)
    ultimately show ?thesis
      using p(2) by (simp add: make_folder_card_def card_strings_accepted Suc_le_eq)
  qed
  then obtain cs where "map_res (\<lambda>(folder, ps). make_folder_card folder (length ps)
      (take 8 (folder_terms env ps))) (group_by_folder env pages) = Inr cs"
    using map_res_total [of "group_by_folder env pages"] by (metis (no_types, lifting) case_prod_conv prod.exhaust)
  then show ?thesis by (simp add: folder_cards_from_pages_def)
qed

section \<open>Guidance\<close>

definition guidance_ok :: "retrieval_guidance \<Rightarrow> bool" where
  "guidance_ok g \<longleftrightarrow> length (rg_folder_cards g) \<le> 8 \<and> length (rg_page_cards g) \<le> 12 \<and>
     length (rg_suggested_terms g) \<le> 16 \<and> length (rg_exact_identifiers g) \<le> 16 \<and>
     card_strings 120 (rg_suggested_terms g) \<and> card_strings 240 (rg_exact_identifiers g) \<and>
     distinct (rg_fallback_modes g) \<and>
     rg_character_budget g = GUIDANCE_CHARACTER_BUDGET"

definition within_budget :: "guide_env \<Rightarrow> retrieval_guidance \<Rightarrow> bool" where
  "within_budget env g \<longleftrightarrow> json_size env g \<le> rg_character_budget g \<or>
     rg_page_cards g = [] \<and> rg_folder_cards g = [] \<and> rg_suggested_terms g = [] \<and> rg_exact_identifiers g = []"

lemma card_strings_butlast: "card_strings n ts \<Longrightarrow> card_strings n (butlast ts)"
  using card_strings_take [of n ts "length ts - 1"] by (simp add: butlast_conv_take)

lemma trim_guidance:
  "guidance_ok g \<Longrightarrow> guidance_ok (trim_guidance_to_budget env g) \<and>
     within_budget env (trim_guidance_to_budget env g)"
proof (induction env g rule: trim_guidance_to_budget.induct)
  case (1 env g)
  note step = trim_guidance_to_budget.simps [of env g]
  consider (fits) "json_size env g \<le> rg_character_budget g"
    | (pages) "\<not> json_size env g \<le> rg_character_budget g" "rg_page_cards g \<noteq> []"
    | (folders) "\<not> json_size env g \<le> rg_character_budget g" "\<not> rg_page_cards g \<noteq> []"
        "rg_folder_cards g \<noteq> []"
    | (suggested) "\<not> json_size env g \<le> rg_character_budget g" "\<not> rg_page_cards g \<noteq> []"
        "\<not> rg_folder_cards g \<noteq> []" "rg_suggested_terms g \<noteq> []"
    | (ids) "\<not> json_size env g \<le> rg_character_budget g" "\<not> rg_page_cards g \<noteq> []"
        "\<not> rg_folder_cards g \<noteq> []" "\<not> rg_suggested_terms g \<noteq> []" "rg_exact_identifiers g \<noteq> []"
    | (empty) "\<not> json_size env g \<le> rg_character_budget g" "\<not> rg_page_cards g \<noteq> []"
        "\<not> rg_folder_cards g \<noteq> []" "\<not> rg_suggested_terms g \<noteq> []" "\<not> rg_exact_identifiers g \<noteq> []"
    by blast
  then show ?case
  proof cases
    case fits
    then show ?thesis using 1(5) by (simp add: step within_budget_def)
  next
    case pages
    have "guidance_ok (g\<lparr>rg_page_cards := butlast (rg_page_cards g)\<rparr>)"
      using 1(5) by (auto simp: guidance_ok_def)
    from 1(1) [OF pages this] show ?thesis using pages by (simp add: step)
  next
    case folders
    have "guidance_ok (g\<lparr>rg_folder_cards := butlast (rg_folder_cards g)\<rparr>)"
      using 1(5) by (auto simp: guidance_ok_def)
    from 1(2) [OF folders this] show ?thesis using folders by (simp add: step)
  next
    case suggested
    have "guidance_ok (g\<lparr>rg_suggested_terms := butlast (rg_suggested_terms g)\<rparr>)"
      using 1(5) by (auto simp: guidance_ok_def card_strings_butlast)
    from 1(3) [OF suggested this] show ?thesis using suggested by (simp add: step)
  next
    case ids
    have "guidance_ok (g\<lparr>rg_exact_identifiers := butlast (rg_exact_identifiers g)\<rparr>)"
      using 1(5) by (auto simp: guidance_ok_def card_strings_butlast)
    from 1(4) [OF ids this] show ?thesis using ids by (simp add: step)
  next
    case empty
    then show ?thesis using 1(5) by (simp add: step within_budget_def)
  qed
qed

lemma fallback_modes_accepted:
  "validate_fallback_modes (available_fallback_modes modes) = Inr (available_fallback_modes modes)"
  "distinct (available_fallback_modes modes)"
  by (auto simp: validate_fallback_modes_def available_fallback_modes_def FALLBACK_MODE_ORDER_def)

lemma guidance_from_pages_total:
  assumes "\<not> nfc_clash env" and "\<not> list_ex (spaced_folder env) folder_pages"
  shows "\<exists>g. guidance_from_pages env pages query source modes folder_pages = Inr g \<and> guidance_ok g"
proof -
  obtain cards where cards: "map_res (page_card_for env) pages = Inr cards"
    using map_res_total [of pages "page_card_for env"] page_card_for_total [OF assms(1)] by blast
  obtain folders where folders: "folder_cards_from_pages env folder_pages query = Inr folders"
    using folder_cards_total [OF assms] by blast
  have strings: "card_strings n (unique_preserving_order env m n vs)" if "3 < n" for m n vs
    by (rule unique_card_strings [OF assms(1) that])
  have len: "length (unique_preserving_order env 16 n vs) \<le> 16" for n vs by (rule length_unique) simp
  show ?thesis
    using strings len fallback_modes_accepted
    by (simp add: guidance_from_pages_def cards folders Let_def make_retrieval_guidance_def
        card_strings_accepted guidance_ok_def GUIDANCE_CHARACTER_BUDGET_def)
qed

lemma trimmed_card_strings:
  "trimmed_unique_strings f n (map PStr vs) = Inr ts \<Longrightarrow> card_strings n ts \<and> length ts = length vs"
  by (auto simp: trimmed_unique_strings_def trimmed_unique_acc_Inr trimmed_ok_def card_strings_def
      dest!: arg_cong [of "map PStr vs" _ length])

lemma make_retrieval_guidance_ok:
  "make_retrieval_guidance source GUIDANCE_CHARACTER_BUDGET folders pages ts ids modes = Inr g \<Longrightarrow>
   guidance_ok g"
  by (auto simp: make_retrieval_guidance_def bind_res_Inr check_def guidance_ok_def
      validate_fallback_modes_def dest!: trimmed_card_strings split: if_splits)

lemma guidance_from_pages_ok:
  "guidance_from_pages env pages query source modes folder_pages = Inr g \<Longrightarrow> guidance_ok g"
  by (auto simp: guidance_from_pages_def bind_res_Inr Let_def intro: make_retrieval_guidance_ok)

text \<open>
  Building the guidance of a context pack either returns one that respects the bounds of its model
  and its character budget (unless nothing is left to drop), or it fails on one of two inputs: two
  strings that case folding identifies and normalisation does not, or a visible page below a folder
  whose name has surrounding white space.
\<close>

theorem guidance_bounds_or_known_failure:
  "case build_retrieval_guidance env index query include_drafts modes of
     Inr g \<Rightarrow> guidance_ok g \<and> within_budget env g
   | Inl e \<Rightarrow> nfc_clash env \<or> list_ex (spaced_folder env) (visible_index_pages index include_drafts)"
proof -
  let ?visible = "visible_index_pages index include_drafts"
  let ?authored = "authored_orientation_pages index include_drafts"
  let ?modes = "available_fallback_modes modes"
  let ?ga = "guidance_from_pages env ?authored query Authored ?modes ?authored"
  let ?gp = "guidance_from_pages env (projection_extractive_pages env ?visible query) query
    Projection_extractive ?modes ?visible"
  obtain none where none: "make_retrieval_guidance No_orientation GUIDANCE_CHARACTER_BUDGET [] [] [] []
      ?modes = Inr none" "guidance_ok none \<and> within_budget env none"
  proof -
    have "\<exists>none. make_retrieval_guidance No_orientation GUIDANCE_CHARACTER_BUDGET [] [] [] [] ?modes =
        Inr none \<and> within_budget env none"
      by (simp add: make_retrieval_guidance_def fallback_modes_accepted trimmed_unique_strings_def
          GUIDANCE_CHARACTER_BUDGET_def within_budget_def)
    then show ?thesis using that make_retrieval_guidance_ok by blast
  qed
  have sub: "set ?authored \<subseteq> set ?visible" by (auto simp: authored_orientation_pages_def)
  have fails: "nfc_clash env \<or> list_ex (spaced_folder env) ?visible"
    if "?ga = Inl e \<or> ?gp = Inl e" for e
  proof (rule ccontr)
    assume no: "\<not> (nfc_clash env \<or> list_ex (spaced_folder env) ?visible)"
    with sub have "\<not> list_ex (spaced_folder env) ?authored"
      by (auto simp: list_ex_iff)
    with no have "\<exists>g. ?ga = Inr g" "\<exists>g. ?gp = Inr g"
      using guidance_from_pages_total by blast+
    with that show False by auto
  qed
  show ?thesis
  proof (cases ?ga)
    case (Inl e)
    then show ?thesis using fails none
      by (cases ?gp) (auto simp: build_retrieval_guidance_def Let_def trim_guidance guidance_from_pages_ok)
  next
    case (Inr ga)
    then show ?thesis using fails none trim_guidance [OF guidance_from_pages_ok [OF Inr]]
      by (cases ?gp) (auto simp: build_retrieval_guidance_def Let_def trim_guidance guidance_from_pages_ok)
  qed
qed

text \<open>
  One page below a folder with a blank name is enough to make every context request fail, whatever
  the query: the folder's card is rejected.
\<close>

definition plain_env :: guide_env where
  "plain_env = \<lparr>nfc = (\<lambda>s. s), sensitive_pattern = (\<lambda>s. False), json_size = (\<lambda>g. 0)\<rparr>"

definition blank_folder_index :: wiki_index where
  "blank_folder_index = \<lparr>idx_root_name = [], idx_title = [], idx_description = [],
     idx_adapter = lit ''generic-markdown'', idx_implementation = [], idx_metadata = [],
     idx_pages = [mk_page (lit ''b'') (lit ''B'') (lit ''a/ /b.md'') Role_index (lit ''text'')],
     idx_nodes = [], idx_edges = []\<rparr>"

lemma blank_folder: "parent_folder plain_env (lit ''a/ /b.md'') = Some (lit ''a/ '')"
  by (simp add: parent_folder_def safe_projected_path_def sensitive_text_def plain_env_def Let_def
      SENSITIVE_STANDALONE_TERMS_def py_eval)

theorem blank_folder_breaks_context:
  "\<exists>e. build_retrieval_guidance plain_env blank_folder_index query False modes = Inl e"
proof -
  let ?p = "mk_page (lit ''b'') (lit ''B'') (lit ''a/ /b.md'') Role_index (lit ''text'')"
  have "approved_for_serving ?p" by (simp add: py_eval)
  then have pages: "authored_orientation_pages blank_folder_index False = [?p]"
    by (simp add: authored_orientation_pages_def visible_index_pages_def blank_folder_index_def
        is_authored_orientation_page_def)
  have "group_by_folder plain_env [?p] = [(lit ''a/ '', [?p])]"
    by (simp add: group_by_folder_def blank_folder dict_append_def dict_get_def)
  moreover obtain e where "safe_relative_path ''path'' (lit ''a/ '') = Inl e"
    by (simp add: safe_relative_path_def Let_def py_eval)
  ultimately have "\<exists>e. folder_cards_from_pages plain_env [?p] query = Inl e"
    by (auto simp: folder_cards_from_pages_def make_folder_card_def Let_def)
  then obtain e where "guidance_from_pages plain_env [?p] query Authored
      (available_fallback_modes modes) [?p] = Inl e"
    by (cases "map_res (page_card_for plain_env) [?p]") (auto simp: guidance_from_pages_def)
  then show ?thesis by (simp add: build_retrieval_guidance_def Let_def pages)
qed

section \<open>Query channels\<close>

lemma variants_acc_length: "variants_acc items = Inr vs \<Longrightarrow> length vs = length items"
  by (induction items arbitrary: vs rule: variants_acc.induct)
    (auto simp: bind_res_Inr split: if_splits)

lemma dedupe_on_Nil: "dedupe_on f {} xs = [] \<longleftrightarrow> xs = []"
  by (cases xs) auto

lemma query_channels:
  assumes "effective_lexical_query_channels env query variants mode = Inr cs"
  shows "cs \<noteq> [] \<and> length cs \<le> MAX_LEXICAL_CHANNELS \<and> (1 < length cs \<longrightarrow> mode = Lexical)"
  using assms
  by (auto simp: effective_lexical_query_channels_def bind_res_Inr MAX_LEXICAL_CHANNELS_def
      dedupe_on_Nil split: if_splits)

end
