(* ===== verification/Stores.thy ===== *)
theory Stores
  imports Models
begin

text \<open>
  The derived caches: \<open>projection_store.py\<close> (in memory and Redis) and \<open>graph_store.py\<close> (SQLite).
  A SQLite table is the list of its rows; SELECT, DELETE and INSERT are filters and appends on the
  stored key. A JSON text is represented by the value it encodes, with keys in order where the code
  writes \<open>sort_keys=True\<close>. SHA-256 is the parameter \<open>sha\<close>, and the Redis client a record of
  its operations, each of which may raise.
\<close>

section \<open>The contract of a store\<close>

text \<open>
  What a client relies on: after a put, exactly the keys with the same representation read the
  record back, in its stored form; invalidating a source removes its records and no others.
\<close>

locale record_store =
  fixes get :: "'s \<Rightarrow> 'k \<Rightarrow> 'r option"
    and put :: "'r \<Rightarrow> 's \<Rightarrow> 's"
    and invalidate :: "'n \<Rightarrow> 'n \<Rightarrow> 's \<Rightarrow> 's"
    and key_of :: "'r \<Rightarrow> 'k"
    and rep :: "'k \<Rightarrow> 'q"
    and canon :: "'k \<Rightarrow> 'r \<Rightarrow> 'r"
    and of_source :: "'n \<Rightarrow> 'n \<Rightarrow> 'k \<Rightarrow> bool"
  assumes get_put: "get (put r s) k = (if rep k = rep (key_of r) then Some (canon k r) else get s k)"
    and get_invalidate: "get (invalidate ns src s) k = (if of_source ns src k then None else get s k)"
begin

text \<open>Every record that can be read satisfies \<open>ok\<close>: puts of such records and invalidation keep it.\<close>

lemma ok_put:
  assumes "\<And>k r. get s k = Some r \<Longrightarrow> ok k r" and "\<And>k. rep k = rep (key_of r) \<Longrightarrow> ok k (canon k r)"
  shows "get (put r s) k = Some r' \<Longrightarrow> ok k r'"
  using assms by (auto simp: get_put split: if_splits)

lemma ok_invalidate:
  assumes "\<And>k r. get s k = Some r \<Longrightarrow> ok k r"
  shows "get (invalidate ns src s) k = Some r \<Longrightarrow> ok k r"
  using assms by (auto simp: get_invalidate split: if_splits)

lemma reads_own_put: "get (put r s) (key_of r) = Some (canon (key_of r) r)"
  by (simp add: get_put)

lemma put_again: "get (put r (put r s)) k = get (put r s) k"
  by (simp add: get_put)

lemma invalidated: "of_source ns src k \<Longrightarrow> get (invalidate ns src s) k = None"
  by (simp add: get_invalidate)

end

section \<open>Keys\<close>

definition PROJECTION_STORE_SCHEMA_VERSION :: ustr where
  "PROJECTION_STORE_SCHEMA_VERSION = lit ''projection-store-v1''"

definition GRAPH_STORE_SCHEMA_VERSION :: ustr where
  "GRAPH_STORE_SCHEMA_VERSION = lit ''graph-store-v1''"

datatype visibility_scope = Scope_approved | Scope_all

fun scope_str :: "visibility_scope \<Rightarrow> ustr" where
  "scope_str Scope_approved = lit ''approved''"
| "scope_str Scope_all = lit ''all''"

record projection_key =
  pk_namespace :: ustr
  pk_source_id :: ustr
  pk_signature :: ustr
  pk_schema_version :: ustr

record graph_store_key =
  gk_namespace :: ustr
  gk_source_id :: ustr
  gk_bundle_id :: ustr
  gk_signature :: ustr
  gk_scope :: visibility_scope
  gk_schema_version :: ustr

definition key_part_char :: "nat \<Rightarrow> bool" where
  "key_part_char c \<longleftrightarrow> ascii_alnum c \<or> c = 46 \<or> c = 95 \<or> c = 45"

definition safe_key_part :: "(ustr \<Rightarrow> ustr) \<Rightarrow> ustr \<Rightarrow> ustr" where
  "safe_key_part sha value =
     (let stripped = strip_chars (lit ''._-'') (sub_runs (\<lambda>c. \<not> key_part_char c) [95] False value);
          candidate = (if stripped = [] then lit ''empty'' else stripped)
      in if candidate = value then candidate
         else take 80 candidate @ [45] @ take 12 (sha value))"

definition redis_projection_key :: "(ustr \<Rightarrow> ustr) \<Rightarrow> projection_key \<Rightarrow> ustr" where
  "redis_projection_key sha k =
     lit ''llmwiki:'' @ safe_key_part sha (pk_namespace k) @ lit '':projections:'' @
     safe_key_part sha (pk_schema_version k) @ [58] @ safe_key_part sha (pk_source_id k) @ [58] @
     safe_key_part sha (pk_signature k)"

definition redis_source_projection_key_pattern :: "(ustr \<Rightarrow> ustr) \<Rightarrow> ustr \<Rightarrow> ustr \<Rightarrow> ustr" where
  "redis_source_projection_key_pattern sha namespace source_id =
     lit ''llmwiki:'' @ safe_key_part sha namespace @ lit '':projections:'' @
     safe_key_part sha PROJECTION_STORE_SCHEMA_VERSION @ [58] @ safe_key_part sha source_id @ lit '':*''"

definition redis_latest_key :: "(ustr \<Rightarrow> ustr) \<Rightarrow> ustr \<Rightarrow> ustr \<Rightarrow> ustr" where
  "redis_latest_key sha namespace source_id =
     lit ''llmwiki:'' @ safe_key_part sha namespace @ lit '':sources:'' @
     safe_key_part sha source_id @ lit '':latest''"

definition sqlite_key_values :: "(ustr \<Rightarrow> ustr) \<Rightarrow> graph_store_key \<Rightarrow> ustr list" where
  "sqlite_key_values sha k = map (safe_key_part sha) [gk_schema_version k, gk_namespace k,
     gk_source_id k, gk_bundle_id k, gk_signature k, scope_str (gk_scope k)]"

section \<open>Projection records in memory\<close>

record projection_record =
  prec_key :: projection_key
  prec_index :: wiki_index

type_synonym memory_store = "(projection_key, projection_record) dict"

definition memory_get :: "memory_store \<Rightarrow> projection_key \<Rightarrow> projection_record option" where
  "memory_get s k = map_of s k"

definition memory_put :: "projection_record \<Rightarrow> memory_store \<Rightarrow> memory_store" where
  "memory_put r s = AList.update (prec_key r) r s"

definition key_of_source :: "ustr \<Rightarrow> ustr \<Rightarrow> projection_key \<Rightarrow> bool" where
  "key_of_source namespace source_id k \<longleftrightarrow> pk_namespace k = namespace \<and> pk_source_id k = source_id"

definition memory_invalidate :: "ustr \<Rightarrow> ustr \<Rightarrow> memory_store \<Rightarrow> memory_store" where
  "memory_invalidate namespace source_id s =
     filter (\<lambda>(k, v). pk_namespace k \<noteq> namespace \<or> pk_source_id k \<noteq> source_id) s"

lemma map_of_filter_keys:
  "map_of (filter (\<lambda>(k, v). P k) d) k = (if P k then map_of d k else None)"
  by (induction d) auto

interpretation memory: record_store memory_get memory_put memory_invalidate prec_key "\<lambda>k. k"
  "\<lambda>k r. r" key_of_source
proof (unfold_locales, goal_cases)
  case (1 r s k)
  then show ?case by (simp add: memory_get_def memory_put_def)
next
  case (2 ns src s k)
  have "memory_invalidate ns src s = filter (\<lambda>(k, v). \<not> key_of_source ns src k) s"
    by (simp add: memory_invalidate_def key_of_source_def)
  then show ?case by (simp add: memory_get_def map_of_filter_keys)
qed

section \<open>Payloads\<close>

text \<open>
  The JSON payload of a record; the served root is left out of it and set again when it is read.
\<close>

record projection_payload =
  pay_schema_version :: ustr
  pay_namespace :: ustr
  pay_source_id :: ustr
  pay_signature :: ustr
  pay_index :: wiki_index

definition record_to_payload :: "projection_record \<Rightarrow> projection_payload" where
  "record_to_payload r =
     \<lparr>pay_schema_version = pk_schema_version (prec_key r), pay_namespace = pk_namespace (prec_key r),
      pay_source_id = pk_source_id (prec_key r), pay_signature = pk_signature (prec_key r),
      pay_index = (prec_index r)\<lparr>idx_root_name := []\<rparr>\<rparr>"

definition projection_record_from_payload ::
  "projection_key \<Rightarrow> projection_payload \<Rightarrow> ustr \<Rightarrow> projection_record res" where
  "projection_record_from_payload k p root_name =
     (if pay_schema_version p \<noteq> pk_schema_version k
      then Inl (ValueError ''projection payload schema_version mismatch'')
      else if pay_namespace p \<noteq> pk_namespace k
      then Inl (ValueError ''projection payload namespace mismatch'')
      else if pay_source_id p \<noteq> pk_source_id k
      then Inl (ValueError ''projection payload source_id mismatch'')
      else if pay_signature p \<noteq> pk_signature k
      then Inl (ValueError ''projection payload signature mismatch'')
      else Inr \<lparr>prec_key = k, prec_index = (pay_index p)\<lparr>idx_root_name := root_name\<rparr>\<rparr>)"

section \<open>Projection records in Redis\<close>

text \<open>What a Redis key holds: the JSON text of a payload, or another text.\<close>

datatype redis_value = Raw_payload projection_payload | Raw_text ustr

definition redis_loads :: "redis_value \<Rightarrow> projection_payload res" where
  "redis_loads raw = (case raw of Raw_payload p \<Rightarrow> Inr p
     | Raw_text s \<Rightarrow> Inl (ValueError ''the text is not a payload''))"

record 'c redis_client =
  client_get :: "'c \<Rightarrow> ustr \<Rightarrow> redis_value option res"
  client_set :: "ustr \<Rightarrow> redis_value \<Rightarrow> 'c \<Rightarrow> 'c res"
  client_scan :: "'c \<Rightarrow> ustr \<Rightarrow> ustr list res"
  client_delete :: "ustr list \<Rightarrow> 'c \<Rightarrow> 'c res"

datatype failure_policy = Fallback_local | Fail_fast

record 'c redis_store =
  redis_policy :: failure_policy
  redis_available :: bool
  redis_last_error :: ustr
  redis_memory :: memory_store
  redis_state :: 'c

fun error_class :: "py_error \<Rightarrow> string" where
  "error_class (ValueError m) = ''ValueError''"
| "error_class (LlmWikiUserError m) = ''LlmWikiUserError''"
| "error_class (VectorSearchError m) = ''VectorSearchError''"
| "error_class (OkfV02ValidationError m) = ''OkfV02ValidationError''"
| "error_class (RuntimeError m) = ''RuntimeError''"
| "error_class (KeyError m) = ''KeyError''"
| "error_class (OSError m) = ''OSError''"
| "error_class (OverflowError m) = ''OverflowError''"
| "error_class (TypeError m) = ''TypeError''"

fun payload_error :: "py_error \<Rightarrow> bool" where
  "payload_error (ValueError m) = True"
| "payload_error (KeyError m) = True"
| "payload_error (TypeError m) = True"
| "payload_error e = False"

definition safe_error_message :: "py_error \<Rightarrow> ustr" where
  "safe_error_message e = lit (error_class e) @
     (if payload_error e then lit '': cache payload rejected'' else lit '': backend operation failed'')"

text \<open>\<open>_handle_failure\<close>: remembers the error, and raises or goes on with the memory store.\<close>

definition redis_handle_failure :: "py_error \<Rightarrow> 'c redis_store \<Rightarrow> unit res \<times> 'c redis_store" where
  "redis_handle_failure e st =
     (let st' = st\<lparr>redis_last_error := safe_error_message e\<rparr>
      in if redis_policy st = Fail_fast then (Inl (RuntimeError ''Redis projection store failed''), st')
         else (Inr (), st'\<lparr>redis_available := False\<rparr>))"

definition redis_get ::
  "'c redis_client \<Rightarrow> (ustr \<Rightarrow> ustr) \<Rightarrow> projection_key \<Rightarrow> ustr \<Rightarrow> 'c redis_store \<Rightarrow>
   projection_record option res \<times> 'c redis_store" where
  "redis_get c sha k root_name st =
     (if \<not> redis_available st then (Inr (memory_get (redis_memory st) k), st)
      else (case client_get c (redis_state st) (redis_projection_key sha k) of
              Inl e \<Rightarrow> (case redis_handle_failure e st of
                  (Inl err, st') \<Rightarrow> (Inl err, st')
                | (Inr _, st') \<Rightarrow> (Inr (memory_get (redis_memory st') k), st'))
            | Inr None \<Rightarrow> (Inr None, st)
            | Inr (Some raw) \<Rightarrow>
                (case bind_res (redis_loads raw) (\<lambda>p. projection_record_from_payload k p root_name) of
                   Inr r \<Rightarrow> (Inr (Some r), st\<lparr>redis_last_error := []\<rparr>)
                 | Inl e \<Rightarrow> (Inr None, st\<lparr>redis_last_error := safe_error_message e\<rparr>))))"

definition redis_put ::
  "'c redis_client \<Rightarrow> (ustr \<Rightarrow> ustr) \<Rightarrow> projection_record \<Rightarrow> 'c redis_store \<Rightarrow>
   unit res \<times> 'c redis_store" where
  "redis_put c sha r st =
     (let st = st\<lparr>redis_memory := memory_put r (redis_memory st)\<rparr>; k = prec_key r
      in if \<not> redis_available st then (Inr (), st)
         else (case client_set c (redis_projection_key sha k) (Raw_payload (record_to_payload r))
                     (redis_state st) of
                 Inl e \<Rightarrow> redis_handle_failure e st
               | Inr c1 \<Rightarrow>
                   (case client_set c (redis_latest_key sha (pk_namespace k) (pk_source_id k))
                           (Raw_text (pk_signature k)) c1 of
                      Inl e \<Rightarrow> redis_handle_failure e (st\<lparr>redis_state := c1\<rparr>)
                    | Inr c2 \<Rightarrow> (Inr (), st\<lparr>redis_state := c2, redis_last_error := []\<rparr>))))"

definition redis_invalidate ::
  "'c redis_client \<Rightarrow> (ustr \<Rightarrow> ustr) \<Rightarrow> ustr \<Rightarrow> ustr \<Rightarrow> 'c redis_store \<Rightarrow> unit res \<times> 'c redis_store" where
  "redis_invalidate c sha namespace source_id st =
     (let st = st\<lparr>redis_memory := memory_invalidate namespace source_id (redis_memory st)\<rparr>
      in if \<not> redis_available st then (Inr (), st)
         else (case client_scan c (redis_state st)
                     (redis_source_projection_key_pattern sha namespace source_id) of
                 Inl e \<Rightarrow> redis_handle_failure e st
               | Inr keys \<Rightarrow>
                   (case client_delete c (keys @ [redis_latest_key sha namespace source_id])
                           (redis_state st) of
                      Inl e \<Rightarrow> redis_handle_failure e st
                    | Inr c1 \<Rightarrow> (Inr (), st\<lparr>redis_state := c1\<rparr>))))"

text \<open>A history of operations, on the Redis store and on the memory store.\<close>

datatype store_op = Op_get projection_key ustr | Op_put projection_record | Op_invalidate ustr ustr

fun redis_op ::
  "'c redis_client \<Rightarrow> (ustr \<Rightarrow> ustr) \<Rightarrow> store_op \<Rightarrow> 'c redis_store \<Rightarrow>
   projection_record option res \<times> 'c redis_store" where
  "redis_op c sha (Op_get k root_name) st = redis_get c sha k root_name st"
| "redis_op c sha (Op_put r) st =
     (let (x, st') = redis_put c sha r st in (bind_res x (\<lambda>_. Inr None), st'))"
| "redis_op c sha (Op_invalidate ns src) st =
     (let (x, st') = redis_invalidate c sha ns src st in (bind_res x (\<lambda>_. Inr None), st'))"

fun memory_op :: "store_op \<Rightarrow> memory_store \<Rightarrow> memory_store" where
  "memory_op (Op_get k root_name) s = s"
| "memory_op (Op_put r) s = memory_put r s"
| "memory_op (Op_invalidate ns src) s = memory_invalidate ns src s"

definition create_projection_store :: "ustr \<Rightarrow> ustr \<Rightarrow> bool res" where
  "create_projection_store backend redis_url =
     (if backend = lit ''memory'' then Inr False
      else if redis_url = [] then Inl (ValueError ''--redis-url is required when --projection-store=redis'')
      else Inr True)"

section \<open>Graph records in SQLite\<close>

text \<open>\<open>json.dumps(..., sort_keys=True)\<close>, as the value its text encodes.\<close>

fun sort_json :: "pyval \<Rightarrow> pyval" where
  "sort_json (PDict kvs) = PDict (sort_key fst (map (\<lambda>(k, v). (k, sort_json v)) kvs))"
| "sort_json (PList vs) = PList (map sort_json vs)"
| "sort_json v = v"

definition sort_metadata :: "(ustr, pyval) dict \<Rightarrow> (ustr, pyval) dict" where
  "sort_metadata md = sort_key fst (map (\<lambda>(k, v). (k, sort_json v)) md)"

record graph_record =
  grec_key :: graph_store_key
  grec_nodes :: "graph_node list"
  grec_edges :: "graph_edge list"

definition node_payload :: "graph_node \<Rightarrow> pyval" where
  "node_payload n = PDict [(lit ''id'', PStr (node_id n)), (lit ''label'', PStr (node_label n)),
     (lit ''kind'', PStr (node_kind n)), (lit ''path'', PStr (node_path n)),
     (lit ''metadata'', PDict (node_metadata n))]"

definition edge_payload :: "graph_edge \<Rightarrow> pyval" where
  "edge_payload e = PDict [(lit ''source'', PStr (edge_source e)), (lit ''target'', PStr (edge_target e)),
     (lit ''relation'', PStr (edge_relation e)), (lit ''metadata'', PDict (edge_metadata e))]"

definition graph_record_digest :: "(pyval \<Rightarrow> ustr) \<Rightarrow> graph_node list \<Rightarrow> graph_edge list \<Rightarrow> ustr" where
  "graph_record_digest digest nodes edges = lit ''sha256:'' @
     digest (sort_json (PDict [(lit ''nodes'', PList (map node_payload nodes)),
       (lit ''edges'', PList (map edge_payload edges))]))"

record snapshot_row =
  snap_key :: "ustr list"
  snap_created_at :: real
  snap_node_count :: nat
  snap_edge_count :: nat
  snap_digest :: ustr

record node_row =
  nrow_key :: "ustr list"
  nrow_position :: nat
  nrow_node :: "ustr \<times> ustr \<times> ustr \<times> ustr"
  nrow_metadata :: "(ustr, pyval) dict"

record edge_row =
  erow_key :: "ustr list"
  erow_position :: nat
  erow_edge :: "ustr \<times> ustr \<times> ustr"
  erow_metadata :: "(ustr, pyval) dict"

record graph_db =
  db_snapshots :: "snapshot_row list"
  db_nodes :: "node_row list"
  db_edges :: "edge_row list"

definition node_of_row :: "node_row \<Rightarrow> graph_node" where
  "node_of_row r = (let (i, l, k, p) = nrow_node r
     in \<lparr>node_id = i, node_label = l, node_kind = k, node_path = p, node_metadata = nrow_metadata r\<rparr>)"

definition edge_of_row :: "edge_row \<Rightarrow> graph_edge" where
  "edge_of_row r = (let (s, t, rel) = erow_edge r
     in \<lparr>edge_source = s, edge_target = t, edge_relation = rel, edge_metadata = erow_metadata r\<rparr>)"

definition row_of_node :: "ustr list \<Rightarrow> nat \<times> graph_node \<Rightarrow> node_row" where
  "row_of_node sk pn = \<lparr>nrow_key = sk, nrow_position = fst pn,
     nrow_node = (node_id (snd pn), node_label (snd pn), node_kind (snd pn), node_path (snd pn)),
     nrow_metadata = sort_metadata (node_metadata (snd pn))\<rparr>"

definition row_of_edge :: "ustr list \<Rightarrow> nat \<times> graph_edge \<Rightarrow> edge_row" where
  "row_of_edge sk pe = \<lparr>erow_key = sk, erow_position = fst pe,
     erow_edge = (edge_source (snd pe), edge_target (snd pe), edge_relation (snd pe)),
     erow_metadata = sort_metadata (edge_metadata (snd pe))\<rparr>"

definition sqlite_get ::
  "(ustr \<Rightarrow> ustr) \<Rightarrow> (pyval \<Rightarrow> ustr) \<Rightarrow> graph_db \<Rightarrow> graph_store_key \<Rightarrow> graph_record option" where
  "sqlite_get sha digest db k =
     (let sk = sqlite_key_values sha k
      in case List.find (\<lambda>r. snap_key r = sk) (db_snapshots db) of
           None \<Rightarrow> None
         | Some snap \<Rightarrow>
             (let node_rows = sort_key nrow_position (filter (\<lambda>r. nrow_key r = sk) (db_nodes db));
                  edge_rows = sort_key erow_position (filter (\<lambda>r. erow_key r = sk) (db_edges db));
                  nodes = map node_of_row node_rows; edges = map edge_of_row edge_rows
              in if snap_node_count snap \<noteq> length node_rows \<or> snap_edge_count snap \<noteq> length edge_rows
                 then None
                 else if snap_digest snap \<noteq> graph_record_digest digest nodes edges then None
                 else Some \<lparr>grec_key = k, grec_nodes = nodes, grec_edges = edges\<rparr>))"

definition delete_record :: "ustr list \<Rightarrow> graph_db \<Rightarrow> graph_db" where
  "delete_record sk db =
     \<lparr>db_snapshots = filter (\<lambda>r. snap_key r \<noteq> sk) (db_snapshots db),
      db_nodes = filter (\<lambda>r. nrow_key r \<noteq> sk) (db_nodes db),
      db_edges = filter (\<lambda>r. erow_key r \<noteq> sk) (db_edges db)\<rparr>"

definition sqlite_put ::
  "(ustr \<Rightarrow> ustr) \<Rightarrow> (pyval \<Rightarrow> ustr) \<Rightarrow> real \<Rightarrow> graph_record \<Rightarrow> graph_db \<Rightarrow> graph_db" where
  "sqlite_put sha digest created_at r db =
     (let sk = sqlite_key_values sha (grec_key r); db' = delete_record sk db
      in \<lparr>db_snapshots = db_snapshots db' @
            [\<lparr>snap_key = sk, snap_created_at = created_at, snap_node_count = length (grec_nodes r),
              snap_edge_count = length (grec_edges r),
              snap_digest = graph_record_digest digest (grec_nodes r) (grec_edges r)\<rparr>],
          db_nodes = db_nodes db' @ map (row_of_node sk) (List.enumerate 0 (grec_nodes r)),
          db_edges = db_edges db' @ map (row_of_edge sk) (List.enumerate 0 (grec_edges r))\<rparr>)"

text \<open>The namespace and source id are the second and third stored key values.\<close>

definition row_of_source :: "ustr \<Rightarrow> ustr \<Rightarrow> ustr list \<Rightarrow> bool" where
  "row_of_source namespace source_id sk \<longleftrightarrow> sk ! 1 = namespace \<and> sk ! 2 = source_id"

definition sqlite_invalidate :: "(ustr \<Rightarrow> ustr) \<Rightarrow> ustr \<Rightarrow> ustr \<Rightarrow> graph_db \<Rightarrow> graph_db" where
  "sqlite_invalidate sha namespace source_id db =
     (let gone = row_of_source (safe_key_part sha namespace) (safe_key_part sha source_id)
      in \<lparr>db_snapshots = filter (\<lambda>r. \<not> gone (snap_key r)) (db_snapshots db),
          db_nodes = filter (\<lambda>r. \<not> gone (nrow_key r)) (db_nodes db),
          db_edges = filter (\<lambda>r. \<not> gone (erow_key r)) (db_edges db)\<rparr>)"

definition graph_record_for_view ::
  "graph_store_key \<Rightarrow> graph_node list \<Rightarrow> graph_edge list \<Rightarrow> graph_record" where
  "graph_record_for_view k nodes edges = \<lparr>grec_key = k, grec_nodes = nodes, grec_edges = edges\<rparr>"

definition create_graph_store :: "ustr \<Rightarrow> ustr option \<Rightarrow> bool \<Rightarrow> bool res" where
  "create_graph_store backend path can_open =
     (if backend = lit ''none''
      then (if path \<noteq> None then Inl (ValueError ''--graph-store-path requires --graph-store=sqlite'')
            else Inr False)
      else if backend = lit ''sqlite''
      then (if path = None then Inl (ValueError ''--graph-store-path is required when --graph-store=sqlite'')
            else if can_open then Inr True
            else Inl (ValueError ''unable to open graph store database''))
      else Inl (ValueError ''graph store backend must be none or sqlite''))"

end
