(* ===== verification/Stores_Props.thy ===== *)
theory Stores_Props
  imports Stores PyStr_Facts
begin

text \<open>
  The stores keep the contract of \<open>record_store\<close>: the SQLite store up to the order of metadata keys,
  the Redis store by its memory fallback whatever its client does. Payloads read back as the record
  they were written from. The stored form of a key is not injective.
\<close>

section \<open>Canonical JSON\<close>

lemma sort_key_sorted: "sorted (map f xs) \<Longrightarrow> sort_key f xs = xs"
proof (induction xs)
  case (Cons x xs)
  then have "insort_key f x xs = x # xs" by (intro insort_is_Cons) auto
  with Cons show ?case by simp
qed simp

lemma sort_key_map: "(\<And>x. f (h x) = f x) \<Longrightarrow> map h (sort_key f xs) = sort_key f (map h xs)"
proof -
  assume h: "\<And>x. f (h x) = f x"
  have "map h (insort_key f x xs) = insort_key f (h x) (map h xs)" for x xs
    by (induction xs) (auto simp: h)
  then show ?thesis by (induction xs) simp_all
qed

lemma sort_json_idem [simp]: "sort_json (sort_json v) = sort_json v"
proof (induction v rule: sort_json.induct)
  case (1 kvs)
  let ?h = "\<lambda>(k, v). (k, sort_json v)"
  have "map ?h (map ?h kvs) = map ?h kvs"
    using 1 by (auto simp: prod.case_eq_if)
  moreover have "map ?h (sort_key fst (map ?h kvs)) = sort_key fst (map ?h (map ?h kvs))"
    by (rule sort_key_map) (simp add: case_prod_unfold)
  ultimately have "map ?h (sort_key fst (map ?h kvs)) = sort_key fst (map ?h kvs)"
    by (simp only:)
  then show ?case unfolding sort_json.simps by (simp only: sort_key_sorted sorted_sort_key)
next
  case (2 vs)
  then show ?case by (simp cong: map_cong)
qed simp_all

lemma sort_json_dict: "sort_json (PDict md) = PDict (sort_metadata md)"
  by (simp add: sort_metadata_def)

lemma sort_metadata_idem [simp]: "sort_metadata (sort_metadata md) = sort_metadata md"
  using sort_json_idem [of "PDict md"] by (simp add: sort_metadata_def)

lemma sort_metadata_lookup:
  "distinct (map fst md) \<Longrightarrow> map_of (sort_metadata md) k = map_option sort_json (map_of md k)"
proof -
  assume d: "distinct (map fst md)"
  have same: "map_of (sort_key fst m) = map_of m" if "distinct (map fst m)" for m :: "(ustr, pyval) dict"
    using that by (subst map_of_inject_set) (simp_all add: distinct_map)
  have keys: "map fst (map (\<lambda>(k, v). (k, sort_json v)) md) = map fst md" by (induction md) auto
  have "map_of (sort_metadata md) = map_of (map (\<lambda>(k, v). (k, sort_json v)) md)"
    unfolding sort_metadata_def by (rule same) (use d keys in \<open>simp only:\<close>)
  then show ?thesis by (simp add: map_of_map)
qed

section \<open>The SQLite store keeps the contract\<close>

definition canon_node :: "graph_node \<Rightarrow> graph_node" where
  "canon_node n = n\<lparr>node_metadata := sort_metadata (node_metadata n)\<rparr>"

definition canon_edge :: "graph_edge \<Rightarrow> graph_edge" where
  "canon_edge e = e\<lparr>edge_metadata := sort_metadata (edge_metadata e)\<rparr>"

definition canon_record :: "graph_store_key \<Rightarrow> graph_record \<Rightarrow> graph_record" where
  "canon_record k r = \<lparr>grec_key = k, grec_nodes = map canon_node (grec_nodes r),
     grec_edges = map canon_edge (grec_edges r)\<rparr>"

lemma node_of_row_of_node [simp]: "node_of_row (row_of_node sk pn) = canon_node (snd pn)"
  by (simp add: node_of_row_def row_of_node_def canon_node_def)

lemma edge_of_row_of_edge [simp]: "edge_of_row (row_of_edge sk pe) = canon_edge (snd pe)"
  by (simp add: edge_of_row_def row_of_edge_def canon_edge_def)

lemma sort_payload_node: "sort_json (node_payload (canon_node n)) = sort_json (node_payload n)"
  unfolding node_payload_def canon_node_def sort_json.simps(1) by (simp add: sort_metadata_def [symmetric])

lemma sort_payload_edge: "sort_json (edge_payload (canon_edge e)) = sort_json (edge_payload e)"
  unfolding edge_payload_def canon_edge_def sort_json.simps(1) by (simp add: sort_metadata_def [symmetric])

lemma digest_canon:
  "graph_record_digest digest (map canon_node ns) (map canon_edge es) = graph_record_digest digest ns es"
  by (simp add: graph_record_digest_def sort_payload_node sort_payload_edge comp_def)

lemma find_filter_other:
  "(\<And>x. P x \<Longrightarrow> Q x) \<Longrightarrow> \<not> P y \<Longrightarrow> List.find P (filter Q xs @ [y]) = List.find P xs"
  by (induction xs) auto

lemma find_filter_same: "(\<And>x. P x \<Longrightarrow> \<not> Q x) \<Longrightarrow> P y \<Longrightarrow> List.find P (filter Q xs @ [y]) = Some y"
  by (induction xs) auto

lemma find_filter_keeps: "(\<And>x. P x \<Longrightarrow> Q x) \<Longrightarrow> List.find P (filter Q xs) = List.find P xs"
  by (induction xs) auto

lemma find_filter_gone: "(\<And>x. P x \<Longrightarrow> \<not> Q x) \<Longrightarrow> List.find P (filter Q xs) = None"
  by (induction xs) auto

lemma filter_filter_keeps: "(\<And>x. P x \<Longrightarrow> Q x) \<Longrightarrow> filter P (filter Q xs) = filter P xs"
  by (induction xs) auto

lemma sorted_positions:
  "sort_key nrow_position (map (row_of_node sk) (List.enumerate n ns)) =
     map (row_of_node sk) (List.enumerate n ns)"
  "sort_key erow_position (map (row_of_edge sk) (List.enumerate n es)) =
     map (row_of_edge sk) (List.enumerate n es)"
proof -
  have "map (nrow_position \<circ> row_of_node sk) (List.enumerate n ns) = [n..<n + length ns]"
    by (induction ns arbitrary: n) (simp_all add: row_of_node_def upt_conv_Cons del: upt_Suc)
  moreover have "map (erow_position \<circ> row_of_edge sk) (List.enumerate n es) = [n..<n + length es]"
    by (induction es arbitrary: n) (simp_all add: row_of_edge_def upt_conv_Cons del: upt_Suc)
  ultimately show "sort_key nrow_position (map (row_of_node sk) (List.enumerate n ns)) =
      map (row_of_node sk) (List.enumerate n ns)"
    and "sort_key erow_position (map (row_of_edge sk) (List.enumerate n es)) =
      map (row_of_edge sk) (List.enumerate n es)"
    by (simp_all add: sort_key_sorted)
qed

lemma snd_enumerate [simp]: "map (\<lambda>x. f (snd x)) (List.enumerate n xs) = map f xs"
  by (induction xs arbitrary: n) simp_all

lemma sqlite_get_cong:
  assumes "List.find (\<lambda>r. snap_key r = sqlite_key_values sha k) (db_snapshots db) =
      List.find (\<lambda>r. snap_key r = sqlite_key_values sha k) (db_snapshots db')"
    and "filter (\<lambda>r. nrow_key r = sqlite_key_values sha k) (db_nodes db) =
      filter (\<lambda>r. nrow_key r = sqlite_key_values sha k) (db_nodes db')"
    and "filter (\<lambda>r. erow_key r = sqlite_key_values sha k) (db_edges db) =
      filter (\<lambda>r. erow_key r = sqlite_key_values sha k) (db_edges db')"
  shows "sqlite_get sha digest db k = sqlite_get sha digest db' k"
  by (simp only: sqlite_get_def Let_def assms cong: option.case_cong)

lemma sqlite_get_put:
  "sqlite_get sha digest (sqlite_put sha digest t r db) k =
     (if sqlite_key_values sha k = sqlite_key_values sha (grec_key r) then Some (canon_record k r)
      else sqlite_get sha digest db k)"
proof (cases "sqlite_key_values sha k = sqlite_key_values sha (grec_key r)")
  case True
  have rows: "filter (\<lambda>x. nrow_key x = sk) (map (row_of_node sk) xs) = map (row_of_node sk) xs"
    "filter (\<lambda>x. erow_key x = sk) (map (row_of_edge sk) ys) = map (row_of_edge sk) ys" for sk xs ys
    by (simp_all add: filter_map comp_def row_of_node_def row_of_edge_def)
  show ?thesis
    using True
    by (simp add: sqlite_get_def sqlite_put_def Let_def delete_record_def find_filter_same rows
        sorted_positions digest_canon canon_record_def comp_def)
next
  case False
  have rows: "filter (\<lambda>x. nrow_key x = sk) (map (row_of_node sk') xs) = []"
    "filter (\<lambda>x. erow_key x = sk) (map (row_of_edge sk') ys) = []" if "sk \<noteq> sk'" for sk sk' xs ys
    using that by (simp_all add: filter_empty_conv row_of_node_def row_of_edge_def)
  let ?sk = "sqlite_key_values sha k" and ?sk' = "sqlite_key_values sha (grec_key r)"
  let ?db = "sqlite_put sha digest t r db"
  have "List.find (\<lambda>r. snap_key r = ?sk) (db_snapshots ?db) = List.find (\<lambda>r. snap_key r = ?sk) (db_snapshots db)"
    unfolding sqlite_put_def Let_def delete_record_def graph_db.simps
    by (rule find_filter_other) (use False in auto)
  moreover have "filter (\<lambda>r. nrow_key r = ?sk) (db_nodes ?db) = filter (\<lambda>r. nrow_key r = ?sk) (db_nodes db)"
    unfolding sqlite_put_def Let_def delete_record_def graph_db.simps filter_append
    by (subst filter_filter_keeps) (use False rows(1) [OF False] in auto)
  moreover have "filter (\<lambda>r. erow_key r = ?sk) (db_edges ?db) = filter (\<lambda>r. erow_key r = ?sk) (db_edges db)"
    unfolding sqlite_put_def Let_def delete_record_def graph_db.simps filter_append
    by (subst filter_filter_keeps) (use False rows(2) [OF False] in auto)
  ultimately have "sqlite_get sha digest ?db k = sqlite_get sha digest db k" by (rule sqlite_get_cong)
  with False show ?thesis by simp
qed

definition graph_key_of_source :: "(ustr \<Rightarrow> ustr) \<Rightarrow> ustr \<Rightarrow> ustr \<Rightarrow> graph_store_key \<Rightarrow> bool" where
  "graph_key_of_source sha ns src k \<longleftrightarrow> safe_key_part sha (gk_namespace k) = safe_key_part sha ns \<and>
     safe_key_part sha (gk_source_id k) = safe_key_part sha src"

lemma row_of_source_key:
  "row_of_source (safe_key_part sha ns) (safe_key_part sha src) (sqlite_key_values sha k) \<longleftrightarrow>
     graph_key_of_source sha ns src k"
  by (simp add: row_of_source_def sqlite_key_values_def graph_key_of_source_def)

lemma sqlite_get_invalidate:
  "sqlite_get sha digest (sqlite_invalidate sha ns src db) k =
     (if graph_key_of_source sha ns src k then None else sqlite_get sha digest db k)"
proof (cases "graph_key_of_source sha ns src k")
  case True
  have "List.find (\<lambda>r. snap_key r = sqlite_key_values sha k)
      (db_snapshots (sqlite_invalidate sha ns src db)) = None"
    unfolding sqlite_invalidate_def Let_def graph_db.simps
    by (rule find_filter_gone) (use True in \<open>simp add: row_of_source_key\<close>)
  with True show ?thesis by (simp add: sqlite_get_def)
next
  case False
  let ?sk = "sqlite_key_values sha k"
  let ?db = "sqlite_invalidate sha ns src db"
  have keeps: "\<not> row_of_source (safe_key_part sha ns) (safe_key_part sha src) sk" if "sk = ?sk" for sk
    using that False by (simp add: row_of_source_key)
  have "List.find (\<lambda>r. snap_key r = ?sk) (db_snapshots ?db) = List.find (\<lambda>r. snap_key r = ?sk) (db_snapshots db)"
    unfolding sqlite_invalidate_def Let_def graph_db.simps by (rule find_filter_keeps [OF keeps])
  moreover have "filter (\<lambda>r. nrow_key r = ?sk) (db_nodes ?db) = filter (\<lambda>r. nrow_key r = ?sk) (db_nodes db)"
    unfolding sqlite_invalidate_def Let_def graph_db.simps by (rule filter_filter_keeps [OF keeps])
  moreover have "filter (\<lambda>r. erow_key r = ?sk) (db_edges ?db) = filter (\<lambda>r. erow_key r = ?sk) (db_edges db)"
    unfolding sqlite_invalidate_def Let_def graph_db.simps by (rule filter_filter_keeps [OF keeps])
  ultimately have "sqlite_get sha digest ?db k = sqlite_get sha digest db k" by (rule sqlite_get_cong)
  with False show ?thesis by simp
qed

interpretation sqlite: record_store "sqlite_get sha digest" "sqlite_put sha digest created_at"
  "sqlite_invalidate sha" grec_key "sqlite_key_values sha" canon_record "graph_key_of_source sha"
  for sha :: "ustr \<Rightarrow> ustr" and digest :: "pyval \<Rightarrow> ustr" and created_at :: real
  by unfold_locales (simp_all add: sqlite_get_put sqlite_get_invalidate)

text \<open>
  C9: After a graph record is put into the SQLite store, exactly the keys with the same stored form
  read it back, under the key that was asked for and with its metadata keys in order, whatever the
  tables held before; invalidating a source hides exactly the records of that source.
\<close>

theorem graph_store_contract:
  "sqlite_get sha digest (sqlite_put sha digest t r db) k =
     (if sqlite_key_values sha k = sqlite_key_values sha (grec_key r) then Some (canon_record k r)
      else sqlite_get sha digest db k) \<and>
   sqlite_get sha digest (sqlite_invalidate sha ns src db) k =
     (if graph_key_of_source sha ns src k then None else sqlite_get sha digest db k)"
  by (simp add: sqlite.get_put sqlite.get_invalidate)

section \<open>Payloads and Redis\<close>

text \<open>
  A projection record read from its own payload under its own root is the record itself; under
  any other key the payload is rejected.
\<close>

theorem payload_roundtrip:
  "projection_record_from_payload k (record_to_payload r) (idx_root_name (prec_index r)) = Inr r' \<longleftrightarrow>
     k = prec_key r \<and> r' = r"
proof -
  have "k = prec_key r \<longleftrightarrow> pk_schema_version k = pk_schema_version (prec_key r) \<and>
      pk_namespace k = pk_namespace (prec_key r) \<and> pk_source_id k = pk_source_id (prec_key r) \<and>
      pk_signature k = pk_signature (prec_key r)"
    by (auto intro: projection_key.equality)
  then show ?thesis
    by (auto simp: projection_record_from_payload_def record_to_payload_def)
qed

fun run_redis ::
  "'c redis_client \<Rightarrow> (ustr \<Rightarrow> ustr) \<Rightarrow> store_op list \<Rightarrow> 'c redis_store \<Rightarrow>
   projection_record option res list \<times> 'c redis_store" where
  "run_redis c sha [] st = ([], st)"
| "run_redis c sha (p # ops) st =
     (let (x, st') = redis_op c sha p st; (xs, st'') = run_redis c sha ops st' in (x # xs, st''))"

lemma handle_failure_simps [simp]:
  "redis_memory (snd (redis_handle_failure e st)) = redis_memory st"
  "redis_policy (snd (redis_handle_failure e st)) = redis_policy st"
  "redis_policy st = Fallback_local \<Longrightarrow> fst (redis_handle_failure e st) = Inr ()"
  "\<not> redis_available st \<Longrightarrow> \<not> redis_available (snd (redis_handle_failure e st))"
  by (simp_all add: redis_handle_failure_def Let_def)

lemmas redis_op_defs = redis_get_def redis_put_def redis_invalidate_def

lemma redis_op_keeps:
  "redis_memory (snd (redis_op c sha p st)) = memory_op p (redis_memory st)"
  "redis_policy (snd (redis_op c sha p st)) = redis_policy st"
  "redis_policy st = Fallback_local \<Longrightarrow> \<exists>x. fst (redis_op c sha p st) = Inr x"
  by (cases p;
      auto simp: redis_op_defs redis_handle_failure_def Let_def split: sum.splits option.splits prod.splits)+

text \<open>
  Whatever the Redis client does, the memory fallback of the Redis store goes through exactly the
  states of the memory store; with the fallback policy no operation raises, and from the moment
  the server is given up the store answers as the memory store does.
\<close>

theorem redis_refines_memory:
  assumes "redis_policy st = Fallback_local"
  shows "redis_memory (snd (run_redis c sha ops st)) = fold memory_op ops (redis_memory st) \<and>
    list_all (\<lambda>x. \<exists>r. x = Inr r) (fst (run_redis c sha ops st)) \<and>
    (redis_available (snd (run_redis c sha ops st)) \<or>
     redis_get c sha k root_name (snd (run_redis c sha ops st)) =
       (Inr (memory_get (fold memory_op ops (redis_memory st)) k), snd (run_redis c sha ops st)))"
proof -
  have run: "redis_memory (snd (run_redis c sha ops st)) = fold memory_op ops (redis_memory st) \<and>
      list_all (\<lambda>x. \<exists>r. x = Inr r) (fst (run_redis c sha ops st))"
    using assms
  proof (induction ops arbitrary: st)
    case (Cons p ops)
    have "redis_policy (snd (redis_op c sha p st)) = Fallback_local"
      using Cons.prems by (simp add: redis_op_keeps)
    from Cons.IH [OF this] redis_op_keeps(1) [of c sha p st] redis_op_keeps(3) [OF Cons.prems, of c sha p]
    show ?case by (auto simp: Let_def split: prod.splits)
  qed simp
  then show ?thesis by (auto simp: redis_get_def)
qed

definition demo_key :: projection_key where
  "demo_key = \<lparr>pk_namespace = lit ''default'', pk_source_id = lit ''wiki'', pk_signature = lit ''s1'',
     pk_schema_version = PROJECTION_STORE_SCHEMA_VERSION\<rparr>"

definition demo_record :: projection_record where
  "demo_record = \<lparr>prec_key = demo_key, prec_index =
     \<lparr>idx_root_name = lit ''wiki'', idx_title = lit ''Wiki'', idx_description = [], idx_adapter = [],
      idx_implementation = [], idx_metadata = [], idx_pages = [], idx_nodes = [], idx_edges = []\<rparr>\<rparr>"

definition down_client :: "unit redis_client" where
  "down_client = \<lparr>client_get = (\<lambda>_ _. Inl (OSError ''down'')), client_set = (\<lambda>_ _ _. Inl (OSError ''down'')),
     client_scan = (\<lambda>_ _. Inl (OSError ''down'')), client_delete = (\<lambda>_ _. Inl (OSError ''down''))\<rparr>"

definition new_redis_store :: "unit redis_store" where
  "new_redis_store = \<lparr>redis_policy = Fallback_local, redis_available = True, redis_last_error = [],
     redis_memory = [], redis_state = ()\<rparr>"

theorem redis_refines_memory_witness:
  "fst (redis_get down_client (\<lambda>s. s) demo_key (lit ''wiki'')
     (snd (run_redis down_client (\<lambda>s. s) [Op_put demo_record] new_redis_store))) = Inr (Some demo_record)"
proof -
  let ?st = "snd (run_redis down_client (\<lambda>s. s) [Op_put demo_record] new_redis_store)"
  have "redis_policy new_redis_store = Fallback_local" by (simp add: new_redis_store_def)
  note run = redis_refines_memory [OF this, of down_client "\<lambda>s. s" "[Op_put demo_record]"]
  have "\<not> redis_available ?st"
    by (simp add: redis_put_def down_client_def new_redis_store_def redis_handle_failure_def Let_def)
  moreover have "memory_get (fold memory_op [Op_put demo_record] (redis_memory new_redis_store)) demo_key =
      Some demo_record"
    by (simp add: memory_get_def memory_put_def new_redis_store_def demo_record_def)
  ultimately show ?thesis using run [of demo_key "lit ''wiki''"] by simp
qed

section \<open>Stored keys are not injective\<close>

definition hex_digest :: "ustr \<Rightarrow> bool" where
  "hex_digest h \<longleftrightarrow> 12 \<le> length h \<and> list_all (\<lambda>c. ascii_digit c \<or> ascii_lower c) h"

lemma plain_key_part:
  assumes "list_all key_part_char w" and "w \<noteq> []"
    and "hd w \<notin> set (lit ''._-'')" and "last w \<notin> set (lit ''._-'')"
  shows "safe_key_part sha w = w"
proof -
  have "sub_runs (\<lambda>c. \<not> key_part_char c) [95] False w = w"
    using assms(1) by (intro sub_runs_id) (simp add: list_all_iff)
  moreover have "strip_chars (lit ''._-'') w = w"
    unfolding strip_chars_def by (intro strip_by_trimmed) (use assms in \<open>simp add: trimmed_def\<close>)
  ultimately show ?thesis using assms(2) by (simp add: safe_key_part_def Let_def)
qed

lemma safe_key_part_stable:
  assumes "hex_digest (sha v)"
  shows "safe_key_part sha (safe_key_part sha v) = safe_key_part sha v"
proof -
  let ?stripped = "strip_chars (lit ''._-'') (sub_runs (\<lambda>c. \<not> key_part_char c) [95] False v)"
  define c where "c = (if ?stripped = [] then lit ''empty'' else ?stripped)"
  have chars: "list_all key_part_char c"
    using set_strip_by [of "\<lambda>x. x \<in> set (lit ''._-'')" "sub_runs (\<lambda>c. \<not> key_part_char c) [95] False v"]
      set_sub_runs [of "\<lambda>c. \<not> key_part_char c" "[95]" False v]
    by (auto simp: c_def list_all_iff strip_chars_def lit_def key_part_char_def ascii_alnum_def ascii_lower_def)
  have ne: "c \<noteq> []" by (simp add: c_def lit_def)
  have first: "hd c \<notin> set (lit ''._-'')"
    using trimmed_strip_by [of "\<lambda>x. x \<in> set (lit ''._-'')" "sub_runs (\<lambda>c. \<not> key_part_char c) [95] False v"]
    by (simp add: c_def trimmed_def strip_chars_def) (simp add: lit_def)
  show ?thesis
  proof (cases "c = v")
    case True
    then have "safe_key_part sha v = v" by (simp add: safe_key_part_def Let_def c_def)
    then show ?thesis by simp
  next
    case False
    let ?d = "take 12 (sha v)"
    have eq: "safe_key_part sha v = take 80 c @ [45] @ ?d"
      using False by (simp add: safe_key_part_def Let_def c_def)
    have d: "?d \<noteq> []" "list_all (\<lambda>c. ascii_digit c \<or> ascii_lower c) ?d"
      using assms by (auto simp: hex_digest_def list_all_iff dest: in_set_takeD)
    then have "last ?d \<in> set ?d" by (intro last_in_set)
    with d(2) have "ascii_digit (last ?d) \<or> ascii_lower (last ?d)" by (simp add: list_all_iff)
    then have last: "last ?d \<notin> set (lit ''._-'')"
      by (auto simp: lit_def ascii_digit_def ascii_lower_def)
    have "list_all key_part_char (take 80 c @ [45] @ ?d)"
      using chars d(2)
      by (auto simp: list_all_iff key_part_char_def ascii_alnum_def dest: in_set_takeD)
    moreover have "hd (take 80 c @ [45] @ ?d) = hd c" using ne by (cases c) auto
    ultimately show ?thesis
      unfolding eq using first last d(1) by (intro plain_key_part) simp_all
  qed
qed

text \<open>
  A namespace that is not safe as it stands shares its stored key with the namespace spelled like
  that stored key: the graph record of the one is served for the other.
\<close>

theorem stored_keys_collide:
  assumes "hex_digest (sha (gk_namespace (grec_key r)))"
  shows "sqlite_get sha digest (sqlite_put sha digest t r db)
      ((grec_key r)\<lparr>gk_namespace := safe_key_part sha (gk_namespace (grec_key r))\<rparr>) =
    Some (canon_record ((grec_key r)\<lparr>gk_namespace := safe_key_part sha (gk_namespace (grec_key r))\<rparr>) r)"
  by (simp add: sqlite.get_put sqlite_key_values_def safe_key_part_stable [of sha, OF assms])

definition team_record :: graph_record where
  "team_record = \<lparr>grec_key = \<lparr>gk_namespace = lit ''team a'', gk_source_id = lit ''wiki'',
     gk_bundle_id = lit ''wiki'', gk_signature = lit ''s1'', gk_scope = Scope_approved,
     gk_schema_version = GRAPH_STORE_SCHEMA_VERSION\<rparr>,
     grec_nodes = [mk_node (lit ''page:secret'') (lit ''Secret'') (lit ''page'') (lit ''secret.md'')],
     grec_edges = []\<rparr>"

definition demo_sha :: "ustr \<Rightarrow> ustr" where
  "demo_sha s = replicate 64 48"

theorem stored_keys_collide_witness:
  "map_option grec_nodes (sqlite_get demo_sha (\<lambda>v. []) (sqlite_put demo_sha (\<lambda>v. []) 0 team_record
      \<lparr>db_snapshots = [], db_nodes = [], db_edges = []\<rparr>)
      ((grec_key team_record)\<lparr>gk_namespace := lit ''team_a-000000000000''\<rparr>)) =
     Some [mk_node (lit ''page:secret'') (lit ''Secret'') (lit ''page'') (lit ''secret.md'')]"
proof -
  have hex: "hex_digest (demo_sha (gk_namespace (grec_key team_record)))"
    by (simp add: hex_digest_def demo_sha_def list_all_iff ascii_digit_def)
  have "sub_runs (\<lambda>c. \<not> key_part_char c) [95] False (lit ''team a'') = lit ''team_a''"
    by (simp add: py_eval key_part_char_def)
  then have "safe_key_part demo_sha (gk_namespace (grec_key team_record)) = lit ''team_a-000000000000''"
    by (simp add: safe_key_part_def team_record_def demo_sha_def py_eval eval_nat_numeral)
  with stored_keys_collide [of demo_sha team_record "\<lambda>v. []" 0, OF hex, of "\<lparr>db_snapshots = [], db_nodes = [], db_edges = []\<rparr>"]
  show ?thesis
    by (simp add: canon_record_def canon_node_def) (simp add: team_record_def mk_node_def sort_metadata_def canon_node_def)
qed

end
