(* ===== verification/Service.thy ===== *)
theory Service
  imports Search Graph_View Stores Guided_Retrieval
begin

text \<open>
  \<open>LlmWikiService\<close> of \<open>service.py\<close>: the index cache over the source signatures, the derived views
  and the graph store, and the answers that are computed from them. The served directory is a
  \<open>source_tree\<close>: what a scan of it, a look at one of its paths and loading it return. The
  third-party functions are the fields of \<open>externals\<close>; the clock readings are arguments. Locks and
  the managed context are not modelled here, and the projection store is the memory store (the
  Redis store refines it).
\<close>

section \<open>Signatures\<close>

datatype path_kind = Kind_dir | Kind_file | Kind_missing

fun kind_str :: "path_kind \<Rightarrow> ustr" where
  "kind_str Kind_dir = lit ''dir''"
| "kind_str Kind_file = lit ''file''"
| "kind_str Kind_missing = lit ''missing''"

record path_state =
  ps_path :: ustr
  ps_kind :: path_kind
  ps_device :: nat
  ps_inode :: nat
  ps_mtime :: int
  ps_size :: nat
  ps_digest :: ustr

record source_snapshot =
  sig_entries :: "(ustr \<times> int \<times> nat) list"
  sig_projection :: "path_state list"
  sig_paths :: "path_state list"
  sig_freshness :: "path_state list"

record source_tree =
  tree_scan :: source_snapshot
  tree_state :: "path_state \<Rightarrow> path_state option"
  tree_marker :: "source_snapshot option"
  tree_wiki :: "loaded_wiki res"

record externals =
  ext_sha :: "ustr \<Rightarrow> ustr"
  ext_dump :: "okf_metadata \<Rightarrow> (ustr, pyval) dict"
  ext_dump_source :: "okf_source \<Rightarrow> (ustr, pyval) dict"
  ext_repr :: "pyval \<Rightarrow> ustr"
  ext_stem :: "ustr \<Rightarrow> ustr"

definition state_line :: "path_state \<Rightarrow> ustr" where
  "state_line s = join [9] [ps_path s, kind_str (ps_kind s), nat_str (ps_size s), ps_digest s]"

definition projection_signature_digest :: "externals \<Rightarrow> path_state list \<Rightarrow> ustr" where
  "projection_signature_digest ext states =
     (if states = [] then []
      else lit ''sha256:'' @ ext_sha ext (join [10] (map state_line states)))"

definition projection_signature_for_index :: "externals \<Rightarrow> ustr \<Rightarrow> wiki_index \<Rightarrow> ustr" where
  "projection_signature_for_index ext base index =
     (let text = (\<lambda>v. py_str (ext_repr ext) (por v (PStr [])));
          source_profile = text (pget (idx_metadata index) ''source_profile'')
      in if base = [] \<or> source_profile = [] then base
         else lit ''sha256:'' @ ext_sha ext (join [9] [base, source_profile,
                text (pget (idx_metadata index) ''format_version'')]))"

definition managed_projection_signature_digest :: "externals \<Rightarrow> path_state list \<Rightarrow> ustr" where
  "managed_projection_signature_digest ext states =
     (if states = [] then []
      else lit ''sha256:'' @ ext_sha ext (join [10] (map (\<lambda>(i, k, n, d). join [9] [nat_str i, k, nat_str n, d])
             (List.enumerate 0 (sort (map (\<lambda>s. (kind_str (ps_kind s), ps_size s, ps_digest s)) states))))))"

definition source_id_for_index :: "wiki_index \<Rightarrow> ustr" where
  "source_id_for_index index =
     lower (slug (if idx_title index \<noteq> [] then idx_title index else idx_root_name index))"

definition source_id_for_root :: "ustr \<Rightarrow> ustr" where
  "source_id_for_root root_name = lower (slug root_name)"

text \<open>\<open>signature.partition(":")\<close>.\<close>

definition source_bundle_id :: "ustr \<Rightarrow> ustr \<Rightarrow> ustr" where
  "source_bundle_id source_id signature =
     (let algorithm = takeWhile (\<lambda>c. c \<noteq> 58) signature; digest = tl (dropWhile (\<lambda>c. c \<noteq> 58) signature)
      in if signature = [] then source_id
         else if algorithm \<noteq> [] \<and> digest \<noteq> [] then source_id @ [58] @ algorithm @ [58] @ take 12 digest
         else source_id @ [58] @ take 12 signature)"

section \<open>Signature caches\<close>

definition is_current :: "source_tree \<Rightarrow> source_snapshot \<Rightarrow> bool" where
  "is_current tree snapshot \<longleftrightarrow> list_all (\<lambda>s. tree_state tree s = Some s) (sig_paths snapshot)"

definition source_cache_snapshot ::
  "source_tree \<Rightarrow> bool \<Rightarrow> source_snapshot option \<Rightarrow> source_snapshot" where
  "source_cache_snapshot tree refresh cached =
     (case cached of
        Some snapshot \<Rightarrow> if refresh \<or> \<not> is_current tree snapshot then tree_scan tree else snapshot
      | None \<Rightarrow> tree_scan tree)"

text \<open>The cache with a producer manifest keeps a snapshot of its own and a plain cache to fall back to.\<close>

record signature_cache =
  sc_producer :: bool
  sc_snapshot :: "source_snapshot option"
  sc_fallback :: "source_snapshot option"

definition marker_matches :: "source_snapshot \<Rightarrow> source_snapshot \<Rightarrow> bool" where
  "marker_matches snapshot marker \<longleftrightarrow>
     sig_entries snapshot = sig_entries marker \<and> sig_freshness snapshot = sig_freshness marker"

definition producer_cache_snapshot ::
  "source_tree \<Rightarrow> bool \<Rightarrow> signature_cache \<Rightarrow> source_snapshot \<times> signature_cache" where
  "producer_cache_snapshot tree refresh sc =
     (case tree_marker tree of
        None \<Rightarrow>
          (let s = source_cache_snapshot tree refresh (sc_fallback sc)
           in (s, sc\<lparr>sc_snapshot := None, sc_fallback := Some s\<rparr>))
      | Some marker \<Rightarrow>
          (let fresh = \<lparr>sig_entries = sig_entries marker, sig_projection = sig_projection (tree_scan tree),
                 sig_paths = sig_paths marker, sig_freshness = sig_freshness marker\<rparr>;
               s = (case sc_snapshot sc of
                      Some old \<Rightarrow> if refresh \<or> \<not> marker_matches old marker then fresh else old
                    | None \<Rightarrow> fresh)
           in (s, sc\<lparr>sc_snapshot := Some s\<rparr>)))"

definition current_snapshot ::
  "source_tree \<Rightarrow> bool \<Rightarrow> signature_cache \<Rightarrow> source_snapshot \<times> signature_cache" where
  "current_snapshot tree refresh sc =
     (if sc_producer sc then producer_cache_snapshot tree refresh sc
      else (let s = source_cache_snapshot tree refresh (sc_snapshot sc)
            in (s, sc\<lparr>sc_snapshot := Some s\<rparr>)))"

section \<open>Views of an index\<close>

record index_views =
  iv_index :: wiki_index
  iv_profile :: analyzer_profile
  iv_approved_search :: "search_corpus option"
  iv_all_search :: "search_corpus option"
  iv_approved_graph :: "graph_view option"
  iv_all_graph :: "graph_view option"

definition new_views :: "wiki_index \<Rightarrow> analyzer_profile \<Rightarrow> index_views" where
  "new_views index profile = \<lparr>iv_index = index, iv_profile = profile, iv_approved_search = None,
     iv_all_search = None, iv_approved_graph = None, iv_all_graph = None\<rparr>"

definition views_search_corpus :: "externals \<Rightarrow> bool \<Rightarrow> index_views \<Rightarrow> search_corpus \<times> index_views" where
  "views_search_corpus ext include_drafts v =
     (if include_drafts
      then (case iv_all_search v of
              Some c \<Rightarrow> (c, v)
            | None \<Rightarrow> (let c = build_search_corpus (ext_stem ext) (iv_profile v) (idx_pages (iv_index v))
                       in (c, v\<lparr>iv_all_search := Some c\<rparr>)))
      else (case iv_approved_search v of
              Some c \<Rightarrow> (c, v)
            | None \<Rightarrow> (let c = build_search_corpus (ext_stem ext) (iv_profile v)
                             (filter approved_for_serving (idx_pages (iv_index v)))
                       in (c, v\<lparr>iv_approved_search := Some c\<rparr>))))"

definition views_graph_view :: "bool \<Rightarrow> index_views \<Rightarrow> graph_view \<times> index_views" where
  "views_graph_view include_drafts v =
     (if include_drafts
      then (case iv_all_graph v of
              Some g \<Rightarrow> (g, v)
            | None \<Rightarrow> (let g = build_view (idx_nodes (iv_index v)) (idx_edges (iv_index v))
                       in (g, v\<lparr>iv_all_graph := Some g\<rparr>)))
      else (case iv_approved_graph v of
              Some g \<Rightarrow> (g, v)
            | None \<Rightarrow> (let g = approved_graph_view (iv_index v) in (g, v\<lparr>iv_approved_graph := Some g\<rparr>))))"

section \<open>The index cache\<close>

record service_config =
  cfg_interval :: real
  cfg_namespace :: ustr
  cfg_source_id :: ustr
  cfg_root_name :: ustr
  cfg_cache_profile :: ustr
  cfg_analyzer :: analyzer_profile

record retrieval_snapshot =
  rs_index :: wiki_index
  rs_entries :: "(ustr \<times> int \<times> nat) list"
  rs_projection :: "path_state list"
  rs_freshness :: "path_state list"
  rs_digest :: ustr

record service_state =
  svc_index :: "wiki_index option"
  svc_views :: "index_views option"
  svc_signature :: "((ustr \<times> int \<times> nat) list) option"
  svc_projection :: "(path_state list) option"
  svc_freshness :: "(path_state list) option"
  svc_snapshot :: "retrieval_snapshot option"
  svc_last_check :: "real option"
  svc_cache :: signature_cache
  svc_store :: memory_store
  svc_git_seen :: nat

definition new_service :: "bool \<Rightarrow> service_state" where
  "new_service producer = \<lparr>svc_index = None, svc_views = None, svc_signature = None,
     svc_projection = None, svc_freshness = None, svc_snapshot = None, svc_last_check = None,
     svc_cache = \<lparr>sc_producer = producer, sc_snapshot = None, sc_fallback = None\<rparr>,
     svc_store = [], svc_git_seen = 0\<rparr>"

definition cache_source_id :: "service_config \<Rightarrow> ustr" where
  "cache_source_id cfg =
     (let base = (if cfg_source_id cfg \<noteq> [] then cfg_source_id cfg else source_id_for_root (cfg_root_name cfg))
      in if cfg_cache_profile cfg = lit ''auto'' then base else base @ [64] @ cfg_cache_profile cfg)"

definition service_source_id :: "service_config \<Rightarrow> wiki_index \<Rightarrow> ustr" where
  "service_source_id cfg index =
     (if cfg_source_id cfg \<noteq> [] then cfg_source_id cfg else source_id_for_index index)"

definition can_reuse_cached_index :: "service_config \<Rightarrow> bool \<Rightarrow> real \<Rightarrow> service_state \<Rightarrow> bool" where
  "can_reuse_cached_index cfg refresh now st =
     (if refresh \<or> svc_snapshot st = None \<or> cfg_interval cfg \<le> 0 \<or> svc_last_check st = None then False
      else now - the (svc_last_check st) < cfg_interval cfg)"

definition publish_index_snapshot ::
  "wiki_index \<Rightarrow> source_snapshot \<Rightarrow> ustr \<Rightarrow> service_state \<Rightarrow> service_state" where
  "publish_index_snapshot index snapshot digest st =
     st\<lparr>svc_index := Some index, svc_views := None, svc_signature := Some (sig_entries snapshot),
        svc_projection := Some (sig_projection snapshot), svc_freshness := Some (sig_freshness snapshot),
        svc_snapshot := Some \<lparr>rs_index = index, rs_entries = sig_entries snapshot,
          rs_projection = sig_projection snapshot, rs_freshness = sig_freshness snapshot,
          rs_digest = digest\<rparr>\<rparr>"

definition needs_rebuild :: "bool \<Rightarrow> source_snapshot \<Rightarrow> service_state \<Rightarrow> bool" where
  "needs_rebuild refresh snapshot st \<longleftrightarrow> svc_index st = None \<or> refresh \<or>
     svc_signature st \<noteq> Some (sig_entries snapshot) \<or>
     svc_projection st \<noteq> Some (sig_projection snapshot) \<or>
     svc_freshness st \<noteq> Some (sig_freshness snapshot)"

definition tree_index :: "externals \<Rightarrow> source_tree \<Rightarrow> wiki_index res" where
  "tree_index ext tree = bind_res (tree_wiki tree)
     (\<lambda>w. Inr (project_wiki (ext_dump ext) (ext_dump_source ext) (ext_repr ext) w))"

text \<open>The record of the store, or a new one that is put there.\<close>

definition fetch_record ::
  "externals \<Rightarrow> service_config \<Rightarrow> source_tree \<Rightarrow> bool \<Rightarrow> ustr \<Rightarrow> service_state \<Rightarrow>
   (projection_record \<times> service_state) res" where
  "fetch_record ext cfg tree refresh digest st =
     (let key = \<lparr>pk_namespace = cfg_namespace cfg, pk_source_id = cache_source_id cfg,
            pk_signature = digest, pk_schema_version = PROJECTION_STORE_SCHEMA_VERSION\<rparr>
      in case (if refresh then None else memory_get (svc_store st) key) of
           Some r \<Rightarrow> Inr (r, st)
         | None \<Rightarrow> bind_res (tree_index ext tree) (\<lambda>index.
             let r = \<lparr>prec_key = key, prec_index = index\<rparr>
             in Inr (r, st\<lparr>svc_store := memory_put r (svc_store st)\<rparr>)))"

definition after_check :: "service_config \<Rightarrow> real \<Rightarrow> service_state \<Rightarrow> service_state" where
  "after_check cfg now st = st\<lparr>svc_last_check := (if cfg_interval cfg > 0 then Some now else None)\<rparr>"

text \<open>
  \<open>_index_snapshot_unlocked\<close>. When loading raises, the signature cache has been updated already;
  the rest of the state is as it was.
\<close>

definition index_snapshot_unlocked ::
  "externals \<Rightarrow> service_config \<Rightarrow> source_tree \<Rightarrow> real \<Rightarrow> bool \<Rightarrow> service_state \<Rightarrow>
   retrieval_snapshot res \<times> service_state" where
  "index_snapshot_unlocked ext cfg tree now refresh st =
     (if can_reuse_cached_index cfg refresh now st then (Inr (the (svc_snapshot st)), st)
      else (let (snapshot, sc) = current_snapshot tree refresh (svc_cache st);
                digest = projection_signature_digest ext (sig_projection snapshot);
                st1 = st\<lparr>svc_cache := sc\<rparr>
            in if needs_rebuild refresh snapshot st1
               then (case fetch_record ext cfg tree refresh digest st1 of
                       Inl e \<Rightarrow> (Inl e, st1)
                     | Inr (r, st2) \<Rightarrow>
                         (let st3 = after_check cfg now
                                (publish_index_snapshot (prec_index r) snapshot digest st2)
                          in (Inr (the (svc_snapshot st3)), st3)))
               else (let st2 = (if svc_snapshot st1 = None
                                then publish_index_snapshot (the (svc_index st1)) snapshot digest st1
                                else st1);
                         st3 = after_check cfg now st2
                     in (Inr (the (svc_snapshot st3)), st3))))"

text \<open>A fast-forward of the git checkout, seen as a new generation, forces a rebuild.\<close>

definition index_snapshot ::
  "externals \<Rightarrow> service_config \<Rightarrow> source_tree \<Rightarrow> real \<Rightarrow> nat \<Rightarrow> bool \<Rightarrow> service_state \<Rightarrow>
   retrieval_snapshot res \<times> service_state" where
  "index_snapshot ext cfg tree now generation refresh st =
     (case index_snapshot_unlocked ext cfg tree now (refresh \<or> generation \<noteq> svc_git_seen st) st of
        (Inl e, st') \<Rightarrow> (Inl e, st')
      | (Inr s, st') \<Rightarrow> (Inr s, st'\<lparr>svc_git_seen := generation\<rparr>))"

text \<open>
  \<open>_index_views\<close> for a given index: \<open>views.index is not current\<close> compares identities, the model
  compares values, which finds at least the same views reusable.
\<close>

definition index_views_for ::
  "service_config \<Rightarrow> wiki_index \<Rightarrow> service_state \<Rightarrow> index_views \<times> service_state" where
  "index_views_for cfg index st =
     (case svc_views st of
        Some v \<Rightarrow>
          if iv_index v \<noteq> index \<or> iv_profile v \<noteq> cfg_analyzer cfg
          then (let w = new_views index (cfg_analyzer cfg) in (w, st\<lparr>svc_views := Some w\<rparr>))
          else (v, st)
      | None \<Rightarrow> (let w = new_views index (cfg_analyzer cfg) in (w, st\<lparr>svc_views := Some w\<rparr>)))"

end
