(* ===== verification/Service_Queries.thy ===== *)
theory Service_Queries
  imports Service Graph_Engine PyStr_Facts
begin

text \<open>
  The answers of \<open>LlmWikiService\<close>: searches with the fusion of query variants, the source references
  with their ids, the manifest, and the graph queries over the stored or derived view. Vector and
  hybrid results come from \<open>vector.py\<close>, which is not modelled: they are the argument \<open>vector_search\<close>.
\<close>

section \<open>Fusion of query variants\<close>

definition LEXICAL_VARIANT_RRF_K :: real where "LEXICAL_VARIANT_RRF_K = 60"

record fusion =
  fu_scores :: "(ustr, real) dict"
  fu_exemplars :: "(ustr, search_result) dict"
  fu_primary :: "(ustr, nat) dict"
  fu_best :: "(ustr, nat) dict"

definition no_fusion :: fusion where
  "no_fusion = \<lparr>fu_scores = [], fu_exemplars = [], fu_primary = [], fu_best = []\<rparr>"

text \<open>One result of one channel; ranks count from one.\<close>

definition fuse_result :: "ustr set option \<Rightarrow> nat \<Rightarrow> nat \<times> search_result \<Rightarrow> fusion \<Rightarrow> fusion" where
  "fuse_result required channel_index ranked fu =
     (let (rank, r) = ranked; i = res_page_id r
      in if required \<noteq> None \<and> i \<notin> the required then fu
         else fu\<lparr>fu_scores := AList.update i (dict_get (fu_scores fu) i 0 + 1 / (LEXICAL_VARIANT_RRF_K + real rank))
                   (fu_scores fu),
                 fu_best := AList.update i (min (dict_get (fu_best fu) i rank) rank) (fu_best fu),
                 fu_primary := (if channel_index = 0 then AList.update i rank (fu_primary fu)
                                else fu_primary fu),
                 fu_exemplars := (if map_of (fu_exemplars fu) i = None \<or> channel_index = 0
                                  then AList.update i r (fu_exemplars fu) else fu_exemplars fu)\<rparr>)"

definition fuse_channel :: "ustr set option \<Rightarrow> nat \<times> search_result list \<Rightarrow> fusion \<Rightarrow> fusion" where
  "fuse_channel required ranked fu =
     (let (channel_index, results) = ranked
      in fold (fuse_result required channel_index) (List.enumerate 1 results) fu)"

definition blank_result :: search_result where
  "blank_result = \<lparr>res_page_id = [], res_title = [], res_path = [], res_score = 0, res_snippet = [],
     res_role = Role_topic, res_source_refs = [], res_route = []\<rparr>"

definition fused_sort_key :: "fusion \<Rightarrow> ustr \<Rightarrow> real \<times> nat \<times> nat \<times> nat \<times> ustr" where
  "fused_sort_key fu i = (- dict_get (fu_scores fu) i 0, dict_get (fu_primary fu) i 1000000,
     dict_get (fu_best fu) i 1000000, role_rank (res_role (dict_get (fu_exemplars fu) i blank_result)),
     res_path (dict_get (fu_exemplars fu) i blank_result))"

definition fused_lexical_variant_results ::
  "(ustr \<Rightarrow> ustr) \<Rightarrow> search_corpus \<Rightarrow> ustr list \<Rightarrow> search_options \<Rightarrow> search_result list" where
  "fused_lexical_variant_results stem c channels opts =
     (let required = exact_required_page_ids_for_query c (hd channels);
          fu = fold (fuse_channel required)
                 (List.enumerate 0 (map (\<lambda>q. lexical_search_corpus stem c q opts) channels)) no_fusion
      in take (opt_limit opts) (map (\<lambda>i. (dict_get (fu_exemplars fu) i blank_result)
             \<lparr>res_score := py_round (dict_get (fu_scores fu) i 0) 6\<rparr>)
           (sort_key (fused_sort_key fu) (map fst (fu_scores fu)))))"

section \<open>Search\<close>

text \<open>\<open>_search_result_objects\<close> on the corpus of the views.\<close>

definition search_result_objects ::
  "externals \<Rightarrow> guide_env \<Rightarrow> (search_mode \<Rightarrow> search_result list res) \<Rightarrow> search_corpus \<Rightarrow> ustr \<Rightarrow>
   search_mode \<Rightarrow> pyval \<Rightarrow> search_options \<Rightarrow> search_result list res" where
  "search_result_objects ext env vector_search c query mode query_variants opts =
     bind_res (effective_lexical_query_channels env query query_variants mode) (\<lambda>channels.
       if mode = Lexical \<or> mode = Literal
       then (if mode = Lexical \<and> length channels > 1
             then Inr (fused_lexical_variant_results (ext_stem ext) c channels opts)
             else search_in_corpus (ext_stem ext) c query mode opts)
       else if opt_min_score opts \<noteq> None
         then Inl (VectorSearchError ''min_score is not supported for vector or hybrid search'')
       else vector_search mode)"

definition service_search ::
  "externals \<Rightarrow> service_config \<Rightarrow> guide_env \<Rightarrow> (search_mode \<Rightarrow> search_result list res) \<Rightarrow> source_tree \<Rightarrow>
   real \<Rightarrow> nat \<Rightarrow> ustr \<Rightarrow> bool \<Rightarrow> search_mode \<Rightarrow> pyval \<Rightarrow> search_options \<Rightarrow> service_state \<Rightarrow>
   search_result list res \<times> service_state" where
  "service_search ext cfg env vector_search tree now generation query include_drafts mode variants opts st =
     (case index_snapshot ext cfg tree now generation False st of
        (Inl e, st') \<Rightarrow> (Inl e, st')
      | (Inr s, st') \<Rightarrow>
          (let (v, st1) = index_views_for cfg (rs_index s) st';
               (c, v') = views_search_corpus ext include_drafts v
           in (search_result_objects ext env vector_search c query mode variants opts,
               st1\<lparr>svc_views := Some v'\<rparr>)))"

definition MANAGED_CONTEXT_HIT_ROUTES :: "ustr list" where
  "MANAGED_CONTEXT_HIT_ROUTES = map lit [''search'', ''literal'', ''vector'', ''hybrid'']"

definition managed_context_hit_page_ids :: "search_result list \<Rightarrow> ustr list" where
  "managed_context_hit_page_ids results =
     map res_page_id (filter (\<lambda>r. res_route r \<in> set MANAGED_CONTEXT_HIT_ROUTES) results)"

text \<open>The limitations a context pack states.\<close>

definition context_limitations :: "wiki_index \<Rightarrow> bool \<Rightarrow> search_result list \<Rightarrow> ustr list" where
  "context_limitations index include_drafts evidence =
     (let withheld = length (filter (\<lambda>p. \<not> approved_for_serving p) (idx_pages index))
      in (if evidence = [] then [lit ''No matching approved LLMWiki page was found.''] else []) @
         (if \<not> include_drafts \<and> withheld \<noteq> 0
          then [nat_str withheld @ lit '' draft or unapproved page(s) were withheld.''] else []))"

section \<open>Vector availability\<close>

record embedding_provider =
  prov_dimension :: "int option"
  prov_metric :: ustr

record vector_state =
  vec_enabled :: bool
  vec_override :: "embedding_provider option"
  vec_provider :: "embedding_provider option"
  vec_verified :: bool
  vec_cache :: bool

definition vector_provider_is_usable :: "vector_state \<Rightarrow> embedding_provider option \<Rightarrow> bool" where
  "vector_provider_is_usable vs provider =
     (case provider of None \<Rightarrow> False | Some p \<Rightarrow>
        (case prov_dimension p of None \<Rightarrow> False
         | Some d \<Rightarrow> vec_enabled vs \<and> d > 0 \<and> prov_metric p = lit ''cosine''))"

definition verified_vector_available :: "vector_state \<Rightarrow> bool" where
  "verified_vector_available vs =
     (if \<not> vec_enabled vs then False
      else case vec_override vs of
             Some p \<Rightarrow> vector_provider_is_usable vs (Some p)
           | None \<Rightarrow> vec_verified vs \<and> vec_cache vs \<and> vector_provider_is_usable vs (vec_provider vs))"

definition retrieval_fallback_modes :: "vector_state \<Rightarrow> fallback_mode list" where
  "retrieval_fallback_modes vs =
     Fb_literal # (if verified_vector_available vs then [Fb_hybrid, Fb_vector] else [])"

section \<open>Source references\<close>

record source_ref =
  ref_id :: ustr
  ref_label :: ustr
  ref_kind :: ustr
  ref_uri :: ustr
  ref_pages :: "ustr list"
  ref_page_ids :: "ustr list"
  ref_locator :: "(ustr, pyval) dict"

definition link_source_ref_page :: "wiki_page \<Rightarrow> source_ref \<Rightarrow> source_ref" where
  "link_source_ref_page p r =
     r\<lparr>ref_pages := (if page_path p \<in> set (ref_pages r) then ref_pages r else ref_pages r @ [page_path p]),
       ref_page_ids := (if page_id p \<in> set (ref_page_ids r) then ref_page_ids r
                        else ref_page_ids r @ [page_id p])\<rparr>"

definition okf_source_locator :: "externals \<Rightarrow> okf_source \<Rightarrow> wiki_page \<Rightarrow> (ustr, pyval) dict" where
  "okf_source_locator ext src p =
     (let payload = (case page_okf p of None \<Rightarrow> [] | Some o' \<Rightarrow> ext_dump ext o');
          field = (\<lambda>k. (lit k, dict_get payload (lit k) (PStr [])))
      in [(lit ''source_profile'', PStr (lit ''okf-v0.2'')),
          (lit ''source'', PDict (ext_dump_source ext src)),
          (lit ''first_seen_page'', PDict [(lit ''id'', PStr (page_id p)), (lit ''path'', PStr (page_path p))]),
          (lit ''document'', PDict [field ''concept_type'', field ''status'', field ''trust_tier'',
             field ''stale_after''])])"

text \<open>The loop that looks for an unused candidate ends, as the used ids are finitely many.\<close>

lemma finite_suffixes: "finite {n. pre @ nat_str n \<in> set used}"
proof -
  have "inj_on (\<lambda>n. pre @ nat_str n) {n. pre @ nat_str n \<in> set used}"
    by (auto intro!: inj_onI nat_str_inj)
  moreover have "(\<lambda>n. pre @ nat_str n) ` {n. pre @ nat_str n \<in> set used} \<subseteq> set used" by auto
  ultimately show ?thesis by (meson finite_imageD finite_set finite_subset)
qed

function free_suffix :: "ustr \<Rightarrow> ustr list \<Rightarrow> nat \<Rightarrow> ustr" where
  "free_suffix pre used number =
     (if pre @ nat_str number \<in> set used then free_suffix pre used (number + 1)
      else pre @ nat_str number)"
  by pat_completeness auto
termination
proof (relation "measure (\<lambda>(pre, used, number). card {n. number \<le> n \<and> pre @ nat_str n \<in> set used})",
    goal_cases)
  case 1
  then show ?case by simp
next
  case (2 pre used number)
  have "{n. number + 1 \<le> n \<and> pre @ nat_str n \<in> set used} \<subset>
      {n. number \<le> n \<and> pre @ nat_str n \<in> set used}"
  proof (rule psubsetI)
    have "number \<in> {n. number \<le> n \<and> pre @ nat_str n \<in> set used}" using 2 by simp
    then show "{n. number + 1 \<le> n \<and> pre @ nat_str n \<in> set used} \<noteq>
        {n. number \<le> n \<and> pre @ nat_str n \<in> set used}"
      by (metis (mono_tags, lifting) Suc_eq_plus1 mem_Collect_eq not_less_eq_eq order_refl)
  qed auto
  moreover have "finite {n. number \<le> n \<and> pre @ nat_str n \<in> set used}"
    using finite_suffixes [of pre used] by (rule finite_subset [rotated]) auto
  ultimately show ?case by (simp add: psubset_card_mono)
qed

declare free_suffix.simps [simp del]

type_synonym ref_ids = "(ustr, ustr) dict \<times> ustr list"

definition stable_source_ref_id :: "(ustr \<Rightarrow> ustr) \<Rightarrow> ustr \<Rightarrow> ref_ids \<Rightarrow> ustr \<times> ref_ids" where
  "stable_source_ref_id sha label st =
     (let (ids_by_label, used) = st; existing = dict_get ids_by_label label []; base = lower (slug label)
      in if existing \<noteq> [] then (existing, st)
         else (let candidate =
                 (if base \<notin> set used then base
                  else (let c = base @ [45] @ take 8 (sha label)
                        in if c \<in> set used then free_suffix (c @ [45]) used 2 else c))
               in (candidate, (AList.update label candidate ids_by_label, used @ [candidate]))))"

text \<open>One reference of a page: its id, its entry, and the page linked to it.\<close>

definition add_source_ref ::
  "externals \<Rightarrow> wiki_page \<Rightarrow> ustr \<Rightarrow> (ustr \<Rightarrow> source_ref) \<Rightarrow>
   (ustr, source_ref) dict \<times> ref_ids \<Rightarrow> (ustr, source_ref) dict \<times> ref_ids" where
  "add_source_ref ext p key mk st =
     (let (refs, ids) = st; (i, ids') = stable_source_ref_id (ext_sha ext) key ids;
          current = dict_get refs i (mk i)
      in (AList.update i (link_source_ref_page p current) refs, ids'))"

definition ref_uri_for :: "ustr \<Rightarrow> ustr \<Rightarrow> ustr" where
  "ref_uri_for source_id i = lit ''llmwiki://'' @ source_id @ lit ''/source-refs/'' @ i"

definition okf_sources_of :: "wiki_page \<Rightarrow> okf_source list" where
  "okf_sources_of p = (case page_okf p of None \<Rightarrow> [] | Some m \<Rightarrow> okf_sources m)"

definition add_page_refs ::
  "externals \<Rightarrow> ustr \<Rightarrow> wiki_page \<Rightarrow> (ustr, source_ref) dict \<times> ref_ids \<Rightarrow>
   (ustr, source_ref) dict \<times> ref_ids" where
  "add_page_refs ext source_id p st =
     (let okf_keys = okf_source_ref_key ` set (okf_sources_of p);
          st1 = fold (\<lambda>src. add_source_ref ext p (okf_source_ref_key src)
                  (\<lambda>i. \<lparr>ref_id = i, ref_label = okf_source_ref_label src, ref_kind = lit ''okf_source'',
                        ref_uri = ref_uri_for source_id i, ref_pages = [], ref_page_ids = [],
                        ref_locator = okf_source_locator ext src p\<rparr>)) (okf_sources_of p) st
      in fold (\<lambda>label. add_source_ref ext p label
                  (\<lambda>i. \<lparr>ref_id = i, ref_label = label, ref_kind = lit ''source_ref'',
                        ref_uri = ref_uri_for source_id i, ref_pages = [], ref_page_ids = [],
                        ref_locator = []\<rparr>))
           (filter (\<lambda>label. label \<notin> okf_keys) (page_source_refs p)) st1)"

definition source_refs :: "externals \<Rightarrow> service_config \<Rightarrow> wiki_index \<Rightarrow> bool \<Rightarrow> source_ref list" where
  "source_refs ext cfg index include_drafts =
     (let (refs, ids) = fold (add_page_refs ext (service_source_id cfg index))
            (visible_index_pages index include_drafts) ([], ([], []))
      in sort_key ref_id (map snd refs))"

section \<open>The manifest\<close>

text \<open>What the capabilities and labels depend on besides the index.\<close>

record deployment =
  dep_vector_available :: bool
  dep_judge_enabled :: bool
  dep_graph_store :: "ustr option"
  dep_a2a :: bool
  dep_is_dir :: "ustr \<Rightarrow> bool"

definition manifest_capabilities :: "deployment \<Rightarrow> ustr \<Rightarrow> ustr list" where
  "manifest_capabilities dep source_profile = map lit
     ([''llmwiki_source_bundle'', ''llmwiki_context'', ''llmwiki_search'', ''llmwiki_read'',
       ''llmwiki_graph'', ''llmwiki_graph_neighbors'', ''llmwiki_source_refs'', ''mcp-jsonrpc'',
       ''mcp-streamable-http'', ''llmwiki_retrieval_v1'', ''llmwiki_agent_guided_lexical_v1'',
       ''llmwiki_search_mode_lexical'', ''llmwiki_search_mode_literal''] @
      (if dep_vector_available dep then [''llmwiki_search_mode_vector'', ''llmwiki_search_mode_hybrid''] else []) @
      (if dep_judge_enabled dep then [''llmwiki_retrieval_action_guidance''] else []) @
      (if dep_graph_store dep \<noteq> None then [''llmwiki_graph_store''] else []) @
      (if dep_graph_store dep = Some (lit ''sqlite'') then [''llmwiki_graph_store_sqlite''] else []) @
      (if source_profile = lit ''okf-v0.2''
       then [''okf-v0.2'', ''okf_read_only_consumer'', ''okf_structured_provenance'',
             ''okf_trust_lifecycle_metadata''] else []) @
      (if dep_a2a dep then [''a2a-message''] else []))"

definition raw_origin_labels :: "externals \<Rightarrow> deployment \<Rightarrow> wiki_index \<Rightarrow> ustr list" where
  "raw_origin_labels ext dep index =
     (let stripped = strip_chars [47] (py_str (ext_repr ext) (por (pget (idx_metadata index) ''source_root'') (PStr [46])));
          source_root = (if stripped = [] then [46] else stripped)
      in filter (\<lambda>label. dep_is_dir dep (if source_root \<noteq> [46] then source_root @ [47] @ label else label))
           [lit ''raw'', lit ''sources''])"

record wiki_manifest =
  man_title :: ustr
  man_description :: ustr
  man_source_id :: ustr
  man_bundle_id :: ustr
  man_public_uri :: ustr
  man_adapter :: ustr
  man_implementation :: ustr
  man_source_profile :: ustr
  man_format_version :: ustr
  man_page_count :: nat
  man_approved_page_count :: nat
  man_hot_page :: ustr
  man_index_page :: ustr
  man_overview_page :: ustr
  man_signature :: ustr
  man_node_count :: nat
  man_edge_count :: nat
  man_raw_labels :: "ustr list"
  man_capabilities :: "ustr list"

definition first_path :: "page_role \<Rightarrow> wiki_page list \<Rightarrow> ustr" where
  "first_path r pages = (case List.find (\<lambda>p. page_role p = r) pages of Some p \<Rightarrow> page_path p | None \<Rightarrow> [])"

definition service_manifest ::
  "externals \<Rightarrow> service_config \<Rightarrow> deployment \<Rightarrow> retrieval_snapshot \<Rightarrow> wiki_manifest" where
  "service_manifest ext cfg dep snapshot =
     (let index = rs_index snapshot; pages = idx_pages index;
          source_profile = py_str (ext_repr ext) (por (pget (idx_metadata index) ''source_profile'') (PStr []));
          source_id = service_source_id cfg index;
          signature = projection_signature_for_index ext (rs_digest snapshot) index
      in \<lparr>man_title = idx_title index, man_description = idx_description index, man_source_id = source_id,
          man_bundle_id = source_bundle_id source_id signature,
          man_public_uri = lit ''llmwiki://'' @ source_id, man_adapter = idx_adapter index,
          man_implementation = idx_implementation index, man_source_profile = source_profile,
          man_format_version = py_str (ext_repr ext) (por (pget (idx_metadata index) ''format_version'') (PStr [])),
          man_page_count = length pages,
          man_approved_page_count = length (filter approved_for_serving pages),
          man_hot_page = first_path Role_hot pages, man_index_page = first_path Role_index pages,
          man_overview_page = first_path Role_overview pages, man_signature = signature,
          man_node_count = length (idx_nodes index), man_edge_count = length (idx_edges index),
          man_raw_labels = raw_origin_labels ext dep index,
          man_capabilities = manifest_capabilities dep source_profile\<rparr>)"

section \<open>Graph queries\<close>

definition graph_store_key_for ::
  "externals \<Rightarrow> service_config \<Rightarrow> retrieval_snapshot \<Rightarrow> bool \<Rightarrow> graph_store_key" where
  "graph_store_key_for ext cfg snapshot include_drafts =
     (let signature = projection_signature_for_index ext (rs_digest snapshot) (rs_index snapshot)
      in \<lparr>gk_namespace = cfg_namespace cfg, gk_source_id = cache_source_id cfg,
          gk_bundle_id = source_bundle_id (cache_source_id cfg) signature, gk_signature = signature,
          gk_scope = (if include_drafts then Scope_all else Scope_approved),
          gk_schema_version = GRAPH_STORE_SCHEMA_VERSION\<rparr>)"

text \<open>The view of the index, through the cached views.\<close>

definition derived_graph_view ::
  "service_config \<Rightarrow> retrieval_snapshot \<Rightarrow> bool \<Rightarrow> service_state \<Rightarrow> graph_view \<times> service_state" where
  "derived_graph_view cfg snapshot include_drafts st =
     (let (v, st1) = index_views_for cfg (rs_index snapshot) st;
          (g, v') = views_graph_view include_drafts v
      in (g, st1\<lparr>svc_views := Some v'\<rparr>))"

text \<open>
  The part of \<open>_graph_view\<close> with a graph store, whose operations may raise: a stored record is used
  without deriving the view. A failing put leaves the store as it was.
\<close>

definition stored_graph_view ::
  "failure_policy \<Rightarrow> ('s \<Rightarrow> graph_store_key \<Rightarrow> graph_record option res) \<Rightarrow>
   (graph_record \<Rightarrow> 's \<Rightarrow> 's res) \<Rightarrow> graph_store_key \<Rightarrow> ('t \<Rightarrow> graph_view \<times> 't) \<Rightarrow> 's \<Rightarrow> 't \<Rightarrow>
   graph_view res \<times> 's \<times> 't" where
  "stored_graph_view policy get put k derive store st =
     (let failed = Inl (RuntimeError ''GraphStore failed: backend operation failed'');
          fresh = (let (g, st') = derive st
                   in case put (graph_record_for_view k (gv_nodes g) (gv_edges g)) store of
                        Inl e \<Rightarrow> (if policy = Fail_fast then failed else Inr g, store, st')
                      | Inr store' \<Rightarrow> (Inr g, store', st'))
      in case get store k of
           Inl e \<Rightarrow> (if policy = Fail_fast then (failed, store, st) else fresh)
         | Inr (Some r) \<Rightarrow> (Inr (build_view (grec_nodes r) (grec_edges r)), store, st)
         | Inr None \<Rightarrow> fresh)"

definition service_graph_view ::
  "externals \<Rightarrow> service_config \<Rightarrow> failure_policy \<Rightarrow> ('s \<Rightarrow> graph_store_key \<Rightarrow> graph_record option res) \<Rightarrow>
   (graph_record \<Rightarrow> 's \<Rightarrow> 's res) \<Rightarrow> bool \<Rightarrow> retrieval_snapshot \<Rightarrow> bool \<Rightarrow> 's \<Rightarrow> service_state \<Rightarrow>
   graph_view res \<times> 's \<times> service_state" where
  "service_graph_view ext cfg policy get put has_store snapshot include_drafts store st =
     (if has_store
      then stored_graph_view policy get put (graph_store_key_for ext cfg snapshot include_drafts)
             (derived_graph_view cfg snapshot include_drafts) store st
      else (let (g, st') = derived_graph_view cfg snapshot include_drafts st in (Inr g, store, st')))"

definition service_graph :: "graph_view \<Rightarrow> nat \<Rightarrow> graph_node list \<times> graph_edge list" where
  "service_graph g limit = view_payload g limit"

definition service_graph_query :: "graph_view \<Rightarrow> graph_query_request \<Rightarrow> graph_query_response res" where
  "service_graph_query g r =
     engine_query (gv_nodes g) (gv_edges g) (r\<lparr>req_relations := normalize_relations (req_relations r)\<rparr>)"

end
