(* ===== verification/Service_Props.thy ===== *)
theory Service_Props
  imports Service_Queries Stores_Props
begin

text \<open>
  The caching service refines one without caches: in every state that can be reached, the index a
  request gets is the projection of the served directory as it is, or as it was less than the refresh
  interval ago, and a search is the search of that index. Also the ids of source references and the
  fusion of query variants.
\<close>

section \<open>What the caches may rely on\<close>

text \<open>
  The versions \<open>T\<close> of the directory that the digests tell apart: when every recorded path is
  unchanged, a new scan would record the same content, and equal digests come from equal wikis.
\<close>

definition faithful_trees :: "externals \<Rightarrow> source_tree set \<Rightarrow> bool" where
  "faithful_trees ext T \<longleftrightarrow>
     (\<forall>old\<in>T. \<forall>t\<in>T. is_current t (tree_scan old) \<longrightarrow>
        sig_projection (tree_scan t) = sig_projection (tree_scan old)) \<and>
     (\<forall>old\<in>T. \<forall>t\<in>T. projection_signature_digest ext (sig_projection (tree_scan old)) =
        projection_signature_digest ext (sig_projection (tree_scan t)) \<longrightarrow> tree_wiki old = tree_wiki t)"

lemma faithful_scan:
  "faithful_trees ext T \<Longrightarrow> old \<in> T \<Longrightarrow> t \<in> T \<Longrightarrow> is_current t (tree_scan old) \<Longrightarrow>
   sig_projection (tree_scan t) = sig_projection (tree_scan old)"
  unfolding faithful_trees_def by blast

lemma faithful_index:
  "faithful_trees ext T \<Longrightarrow> old \<in> T \<Longrightarrow> t \<in> T \<Longrightarrow>
   projection_signature_digest ext (sig_projection (tree_scan old)) =
     projection_signature_digest ext (sig_projection (tree_scan t)) \<Longrightarrow>
   tree_index ext old = tree_index ext t"
  unfolding faithful_trees_def tree_index_def by metis

section \<open>Views\<close>

definition cached_as :: "'a option \<Rightarrow> 'a \<Rightarrow> bool" where
  "cached_as c x \<longleftrightarrow> c = None \<or> c = Some x"

definition views_ok :: "externals \<Rightarrow> index_views \<Rightarrow> bool" where
  "views_ok ext v \<longleftrightarrow>
     cached_as (iv_all_search v) (build_search_corpus (ext_stem ext) (iv_profile v) (idx_pages (iv_index v))) \<and>
     cached_as (iv_approved_search v) (build_search_corpus (ext_stem ext) (iv_profile v)
       (filter approved_for_serving (idx_pages (iv_index v)))) \<and>
     cached_as (iv_all_graph v) (build_view (idx_nodes (iv_index v)) (idx_edges (iv_index v))) \<and>
     cached_as (iv_approved_graph v) (approved_graph_view (iv_index v))"

lemma new_views_ok [simp]: "views_ok ext (new_views index profile)"
  by (simp add: views_ok_def new_views_def cached_as_def)

lemma views_search_corpus_ok:
  assumes "views_ok ext v" and "views_search_corpus ext include_drafts v = (c, v')"
  shows "views_ok ext v'" and "iv_index v' = iv_index v" and "iv_profile v' = iv_profile v"
    and "c = build_search_corpus (ext_stem ext) (iv_profile v) (visible_pages (idx_pages (iv_index v)) include_drafts)"
  using assms
  by (auto simp: views_search_corpus_def views_ok_def cached_as_def visible_pages_def Let_def
      split: if_splits option.splits)

lemma views_graph_view_ok:
  assumes "views_ok ext v" and "views_graph_view include_drafts v = (g, v')"
  shows "views_ok ext v'" and "iv_index v' = iv_index v"
    and "g = (if include_drafts then build_view (idx_nodes (iv_index v)) (idx_edges (iv_index v))
              else approved_graph_view (iv_index v))"
  using assms
  by (auto simp: views_graph_view_def views_ok_def cached_as_def Let_def split: if_splits option.splits)

lemma index_views_for_ok:
  assumes "svc_views st = None \<or> views_ok ext (the (svc_views st))"
    and "index_views_for cfg index st = (v, st')"
  shows "views_ok ext v" and "iv_index v = index" and "iv_profile v = cfg_analyzer cfg"
    and "\<exists>w. st' = st\<lparr>svc_views := w\<rparr>"
  using assms
  by (auto simp: index_views_for_def new_views_def [of index "cfg_analyzer cfg"] Let_def views_ok_def cached_as_def
      intro: exI [of _ "svc_views st"] split: option.splits if_splits)

section \<open>The invariant\<close>

definition record_ok :: "externals \<Rightarrow> source_tree set \<Rightarrow> projection_key \<Rightarrow> projection_record \<Rightarrow> bool" where
  "record_ok ext T k r \<longleftrightarrow> (\<exists>t\<in>T. pk_signature k = projection_signature_digest ext (sig_projection (tree_scan t)) \<and>
     tree_index ext t = Inr (prec_index r))"

definition cache_ok :: "source_tree set \<Rightarrow> signature_cache \<Rightarrow> bool" where
  "cache_ok T sc \<longleftrightarrow> \<not> sc_producer sc \<and> (sc_snapshot sc = None \<or> (\<exists>t\<in>T. sc_snapshot sc = Some (tree_scan t)))"

definition published_ok :: "externals \<Rightarrow> source_tree set \<Rightarrow> source_tree \<Rightarrow> service_state \<Rightarrow> bool" where
  "published_ok ext T seen st \<longleftrightarrow> svc_snapshot st = None \<and> svc_index st = None \<or>
     (\<exists>s. svc_snapshot st = Some s \<and> svc_index st = Some (rs_index s) \<and>
        svc_projection st = Some (rs_projection s) \<and> seen \<in> T \<and>
        rs_projection s = sig_projection (tree_scan seen) \<and> tree_index ext seen = Inr (rs_index s))"

definition service_ok :: "externals \<Rightarrow> source_tree set \<Rightarrow> source_tree \<Rightarrow> real \<Rightarrow> service_state \<Rightarrow> bool" where
  "service_ok ext T seen since st \<longleftrightarrow> cache_ok T (svc_cache st) \<and> published_ok ext T seen st \<and>
     (\<forall>k r. memory_get (svc_store st) k = Some r \<longrightarrow> record_ok ext T k r) \<and>
     (svc_views st = None \<or> views_ok ext (the (svc_views st))) \<and>
     (svc_last_check st = None \<or> svc_last_check st = Some since)"

lemma service_okD:
  assumes "service_ok ext T seen since st"
  shows "cache_ok T (svc_cache st)" and "published_ok ext T seen st"
    and "\<And>k r. memory_get (svc_store st) k = Some r \<Longrightarrow> record_ok ext T k r"
    and "svc_views st = None \<or> views_ok ext (the (svc_views st))"
    and "svc_last_check st = None \<or> svc_last_check st = Some since"
  using assms unfolding service_ok_def by blast+

lemma current_snapshot_ok:
  assumes "faithful_trees ext T" and "t \<in> T" and "cache_ok T sc"
    and "current_snapshot t refresh sc = (s, sc')"
  shows "sig_projection s = sig_projection (tree_scan t)" and "cache_ok T sc'"
proof -
  have eq: "s = source_cache_snapshot t refresh (sc_snapshot sc)" "sc' = sc\<lparr>sc_snapshot := Some s\<rparr>"
    using assms(3,4) by (auto simp: current_snapshot_def cache_ok_def Let_def)
  have "\<exists>old\<in>T. s = tree_scan old \<and> sig_projection s = sig_projection (tree_scan t)"
    using assms(2,3) faithful_scan [OF assms(1) _ assms(2)]
    by (auto simp: eq(1) source_cache_snapshot_def cache_ok_def)
  then show "sig_projection s = sig_projection (tree_scan t)" "cache_ok T sc'"
    using assms(3) by (auto simp: eq(2) cache_ok_def)
qed

lemma fetch_record_ok:
  assumes "faithful_trees ext T" and "t \<in> T"
    and store: "\<And>k r. memory_get (svc_store st) k = Some r \<Longrightarrow> record_ok ext T k r"
    and d: "d = projection_signature_digest ext (sig_projection (tree_scan t))"
  shows "fetch_record ext cfg t refresh d st = Inl e \<Longrightarrow> tree_index ext t = Inl e"
    and "fetch_record ext cfg t refresh d st = Inr (r, st') \<Longrightarrow> tree_index ext t = Inr (prec_index r) \<and>
      (\<exists>m. st' = st\<lparr>svc_store := m\<rparr> \<and> (\<forall>k r. memory_get m k = Some r \<longrightarrow> record_ok ext T k r))"
proof -
  let ?key = "\<lparr>pk_namespace = cfg_namespace cfg, pk_source_id = cache_source_id cfg,
            pk_signature = d, pk_schema_version = PROJECTION_STORE_SCHEMA_VERSION\<rparr>"
  have stored: "tree_index ext t = Inr (prec_index r)" if "memory_get (svc_store st) ?key = Some r" for r
    using store [OF that] faithful_index [OF assms(1) _ assms(2)] d by (auto simp: record_ok_def)
  have put: "\<forall>k r. memory_get (memory_put \<lparr>prec_key = ?key, prec_index = i\<rparr> (svc_store st)) k = Some r \<longrightarrow>
      record_ok ext T k r" if "tree_index ext t = Inr i" for i
    using memory.ok_put [of "svc_store st" "record_ok ext T" "\<lparr>prec_key = ?key, prec_index = i\<rparr>"] store that
      assms(2) d by (auto simp: record_ok_def)
  show "fetch_record ext cfg t refresh d st = Inl e \<Longrightarrow> tree_index ext t = Inl e"
    by (cases "tree_index ext t") (auto simp: fetch_record_def Let_def split: option.splits if_splits)
  assume f: "fetch_record ext cfg t refresh d st = Inr (r, st')"
  show "tree_index ext t = Inr (prec_index r) \<and>
      (\<exists>m. st' = st\<lparr>svc_store := m\<rparr> \<and> (\<forall>k r. memory_get m k = Some r \<longrightarrow> record_ok ext T k r))"
  proof (cases "if refresh then None else memory_get (svc_store st) ?key")
    case None
    then obtain i where i: "tree_index ext t = Inr i" "r = \<lparr>prec_key = ?key, prec_index = i\<rparr>"
      "st' = st\<lparr>svc_store := memory_put r (svc_store st)\<rparr>"
      using f by (auto simp: fetch_record_def Let_def bind_res_Inr)
    with put [OF i(1)] show ?thesis by auto
  next
    case (Some r0)
    then have "r = r0" "st' = st" using f by (auto simp: fetch_record_def Let_def)
    moreover have "memory_get (svc_store st) ?key = Some r0" using Some by (auto split: if_splits)
    ultimately show ?thesis using stored store by (intro conjI exI [of _ "svc_store st"]) auto
  qed
qed

section \<open>A request\<close>

lemma published_okE:
  assumes "published_ok ext T seen st" and "svc_snapshot st \<noteq> None \<or> svc_index st \<noteq> None"
  obtains s where "svc_snapshot st = Some s" "svc_index st = Some (rs_index s)"
    "svc_projection st = Some (rs_projection s)" "seen \<in> T"
    "rs_projection s = sig_projection (tree_scan seen)" "tree_index ext seen = Inr (rs_index s)"
  using assms by (auto simp: published_ok_def)

lemma after_check_simps [simp]:
  "svc_snapshot (after_check cfg now st) = svc_snapshot st"
  "svc_index (after_check cfg now st) = svc_index st"
  "svc_projection (after_check cfg now st) = svc_projection st"
  "svc_cache (after_check cfg now st) = svc_cache st"
  "svc_store (after_check cfg now st) = svc_store st"
  "svc_views (after_check cfg now st) = svc_views st"
  "svc_last_check (after_check cfg now st) = None \<or> svc_last_check (after_check cfg now st) = Some now"
  by (simp_all add: after_check_def)

lemma reuse_request:
  assumes "service_ok ext T seen since st" and "can_reuse_cached_index cfg refresh now st"
  shows "\<exists>s. index_snapshot_unlocked ext cfg t now refresh st = (Inr s, st) \<and>
    tree_index ext seen = Inr (rs_index s) \<and> now - since < cfg_interval cfg"
proof -
  from assms(2) have "svc_snapshot st \<noteq> None" by (auto simp: can_reuse_cached_index_def split: if_splits)
  then obtain s where s: "svc_snapshot st = Some s" "tree_index ext seen = Inr (rs_index s)"
    using published_okE [OF service_okD(2) [OF assms(1)]] by blast
  have "svc_last_check st = Some since"
    using service_okD(5) [OF assms(1)] assms(2) by (auto simp: can_reuse_cached_index_def split: if_splits)
  then have "now - since < cfg_interval cfg"
    using assms(2) by (auto simp: can_reuse_cached_index_def split: if_splits)
  with s show ?thesis using assms(2) by (simp add: index_snapshot_unlocked_def)
qed

lemma checked_request:
  assumes F: "faithful_trees ext T" and t: "t \<in> T" and ok: "service_ok ext T seen since st"
    and fresh: "\<not> can_reuse_cached_index cfg refresh now st"
    and run: "index_snapshot_unlocked ext cfg t now refresh st = (r, st')"
  shows "\<exists>s. r = Inr s \<and> tree_index ext t = Inr (rs_index s) \<and> service_ok ext T t now st' \<or>
    (\<exists>e. r = Inl e \<and> tree_index ext t = Inl e \<and> service_ok ext T seen since st')"
proof -
  obtain snap sc where cur: "current_snapshot t refresh (svc_cache st) = (snap, sc)" by (rule prod.exhaust)
  note okD = service_okD [OF ok]
  note snap = current_snapshot_ok [OF F t okD(1) cur]
  let ?d = "projection_signature_digest ext (sig_projection snap)"
  let ?st1 = "st\<lparr>svc_cache := sc\<rparr>"
  have d: "?d = projection_signature_digest ext (sig_projection (tree_scan t))" using snap(1) by simp
  have st1: "service_ok ext T seen since ?st1"
    using ok snap(2) by (simp add: service_ok_def published_ok_def)
  show ?thesis
  proof (cases "needs_rebuild refresh snap ?st1")
    case True
    show ?thesis
    proof (cases "fetch_record ext cfg t refresh ?d ?st1")
      case (Inl e)
      then have "r = Inl e" "st' = ?st1"
        using run fresh cur True by (auto simp: index_snapshot_unlocked_def Let_def)
      with fetch_record_ok(1) [OF F t service_okD(3) [OF st1] d Inl] st1 show ?thesis by blast
    next
      case (Inr rec_st)
      obtain rec st2 where rec_st: "rec_st = (rec, st2)" by (rule prod.exhaust)
      from fetch_record_ok(2) [OF F t service_okD(3) [OF st1] d Inr [unfolded rec_st]] obtain m where
        idx: "tree_index ext t = Inr (prec_index rec)" and st2: "st2 = ?st1\<lparr>svc_store := m\<rparr>" and
        m: "\<forall>k r. memory_get m k = Some r \<longrightarrow> record_ok ext T k r" by blast
      have st': "st' = after_check cfg now (publish_index_snapshot (prec_index rec) snap ?d st2)"
        and r: "r = Inr (the (svc_snapshot st'))"
        using run fresh cur True Inr rec_st by (auto simp: index_snapshot_unlocked_def Let_def)
      have "service_ok ext T t now st'"
        unfolding service_ok_def published_ok_def st' using snap t idx m
        by (simp add: publish_index_snapshot_def st2)
      moreover have "rs_index (the (svc_snapshot st')) = prec_index rec"
        by (simp add: st' publish_index_snapshot_def)
      ultimately show ?thesis using r idx by auto
    qed
  next
    case False
    then have keep: "svc_index st \<noteq> None" "svc_projection st = Some (sig_projection snap)"
      by (simp_all add: needs_rebuild_def)
    then obtain s where s: "svc_snapshot st = Some s" "svc_index st = Some (rs_index s)"
      "svc_projection st = Some (rs_projection s)" "seen \<in> T"
      "rs_projection s = sig_projection (tree_scan seen)" "tree_index ext seen = Inr (rs_index s)"
      using published_okE [OF okD(2)] by blast
    have same: "sig_projection (tree_scan seen) = sig_projection (tree_scan t)"
      using s keep(2) snap(1) by simp
    then have idx: "tree_index ext t = Inr (rs_index s)"
      using faithful_index [OF F s(4) t] s(6) by simp
    have st': "st' = after_check cfg now ?st1" and r: "r = Inr s"
      using run fresh cur False s(1) by (auto simp: index_snapshot_unlocked_def Let_def)
    have "service_ok ext T t now st'"
      unfolding service_ok_def published_ok_def st' using s snap(2) t idx same okD(3,4) by simp
    with r idx show ?thesis by blast
  qed
qed

section \<open>Reachable states\<close>

text \<open>
  A state, the directory as it is, as it was at the last check and when that was, and the time. The
  directory changes between requests; the cached views are filled by searches and graph requests.
\<close>

inductive service_run ::
  "externals \<Rightarrow> service_config \<Rightarrow> source_tree set \<Rightarrow> service_state \<Rightarrow> source_tree \<Rightarrow> source_tree \<Rightarrow>
   real \<Rightarrow> real \<Rightarrow> bool"
  for ext cfg T where
  start: "t \<in> T \<Longrightarrow> service_run ext cfg T (new_service False) t t now now"
| edit: "service_run ext cfg T st t seen since now \<Longrightarrow> t' \<in> T \<Longrightarrow> service_run ext cfg T st t' seen since now"
| wait: "service_run ext cfg T st t seen since now \<Longrightarrow> now \<le> now' \<Longrightarrow>
    service_run ext cfg T st t seen since now'"
| reused: "service_run ext cfg T st t seen since now \<Longrightarrow>
    can_reuse_cached_index cfg (refresh \<or> generation \<noteq> svc_git_seen st) now st \<Longrightarrow>
    index_snapshot ext cfg t now generation refresh st = (r, st') \<Longrightarrow>
    service_run ext cfg T st' t seen since now"
| checked: "service_run ext cfg T st t seen since now \<Longrightarrow>
    \<not> can_reuse_cached_index cfg (refresh \<or> generation \<noteq> svc_git_seen st) now st \<Longrightarrow>
    index_snapshot ext cfg t now generation refresh st = (Inr s, st') \<Longrightarrow>
    service_run ext cfg T st' t t now now"
| failed: "service_run ext cfg T st t seen since now \<Longrightarrow>
    index_snapshot ext cfg t now generation refresh st = (Inl e, st') \<Longrightarrow>
    service_run ext cfg T st' t seen since now"
| search_views: "service_run ext cfg T st t seen since now \<Longrightarrow>
    index_views_for cfg index st = (v, st1) \<Longrightarrow> views_search_corpus ext include_drafts v = (c, v') \<Longrightarrow>
    service_run ext cfg T (st1\<lparr>svc_views := Some v'\<rparr>) t seen since now"
| graph_views: "service_run ext cfg T st t seen since now \<Longrightarrow>
    index_views_for cfg index st = (v, st1) \<Longrightarrow> views_graph_view include_drafts v = (g, v') \<Longrightarrow>
    service_run ext cfg T (st1\<lparr>svc_views := Some v'\<rparr>) t seen since now"

lemma service_ok_git [simp]: "service_ok ext T seen since (st\<lparr>svc_git_seen := n\<rparr>) = service_ok ext T seen since st"
  by (simp add: service_ok_def published_ok_def)

lemma service_ok_views:
  "service_ok ext T seen since st \<Longrightarrow> views_ok ext v \<Longrightarrow>
   service_ok ext T seen since (st\<lparr>svc_views := Some v\<rparr>)"
  by (simp add: service_ok_def published_ok_def)

lemma service_run_ok:
  assumes F: "faithful_trees ext T"
  shows "service_run ext cfg T st t seen since now \<Longrightarrow> t \<in> T \<and> service_ok ext T seen since st"
proof (induction rule: service_run.induct)
  case (start t now)
  then show ?case
    by (simp add: service_ok_def new_service_def cache_ok_def published_ok_def memory_get_def)
next
  case (reused st t seen since now refresh generation r st')
  then have "service_ok ext T seen since st" by blast
  from reuse_request [OF this reused.hyps(2), of t] reused.hyps(3) reused.IH show ?case
    by (auto simp: index_snapshot_def)
next
  case (checked st t seen since now refresh generation s st')
  obtain r st1 where u: "index_snapshot_unlocked ext cfg t now (refresh \<or> generation \<noteq> svc_git_seen st) st =
      (r, st1)" by (rule prod.exhaust)
  from checked_request [OF F _ _ checked.hyps(2) u, of seen since] checked.IH checked.hyps(3) show ?case
    by (auto simp: index_snapshot_def u split: sum.splits)
next
  case (failed st t seen since now generation refresh e st')
  obtain r st1 where u: "index_snapshot_unlocked ext cfg t now (refresh \<or> generation \<noteq> svc_git_seen st) st =
      (r, st1)" by (rule prod.exhaust)
  have "\<not> can_reuse_cached_index cfg (refresh \<or> generation \<noteq> svc_git_seen st) now st"
  proof
    assume "can_reuse_cached_index cfg (refresh \<or> generation \<noteq> svc_git_seen st) now st"
    from reuse_request [OF conjunct2 [OF failed.IH] this, of t] failed.hyps(2) show False
      by (auto simp: index_snapshot_def)
  qed
  from checked_request [OF F _ _ this u, of seen since] failed.IH failed.hyps(2) show ?case
    by (auto simp: index_snapshot_def u split: sum.splits)
next
  case (search_views st t seen since now index v st1 include_drafts c v')
  note v = index_views_for_ok [OF service_okD(4) [OF conjunct2 [OF search_views.IH]] search_views.hyps(2)]
  obtain w where "st1 = st\<lparr>svc_views := w\<rparr>" using v(4) by blast
  with service_ok_views [OF conjunct2 [OF search_views.IH] views_search_corpus_ok(1) [OF v(1) search_views.hyps(3)]]
  show ?case using search_views.IH by simp
next
  case (graph_views st t seen since now index v st1 include_drafts g v')
  note v = index_views_for_ok [OF service_okD(4) [OF conjunct2 [OF graph_views.IH]] graph_views.hyps(2)]
  obtain w where "st1 = st\<lparr>svc_views := w\<rparr>" using v(4) by blast
  with service_ok_views [OF conjunct2 [OF graph_views.IH] views_graph_view_ok(1) [OF v(1) graph_views.hyps(3)]]
  show ?case using graph_views.IH by simp
qed simp_all

inductive_cases service_runE: "service_run ext cfg T st t seen since now"


section \<open>Answers\<close>

lemma index_snapshot_answer:
  assumes F: "faithful_trees ext T" and run: "service_run ext cfg T st t seen since now"
    and req: "index_snapshot ext cfg t now generation refresh st = (r, st')"
  shows "bind_res r (\<lambda>s. Inr (rs_index s)) =
      tree_index ext (if can_reuse_cached_index cfg (refresh \<or> generation \<noteq> svc_git_seen st) now st
                      then seen else t)"
    and "svc_views st' = None \<or> views_ok ext (the (svc_views st'))"
proof -
  note ok = service_run_ok [OF F run]
  obtain r0 st0 where u: "index_snapshot_unlocked ext cfg t now (refresh \<or> generation \<noteq> svc_git_seen st) st =
      (r0, st0)" by (rule prod.exhaust)
  show "bind_res r (\<lambda>s. Inr (rs_index s)) =
      tree_index ext (if can_reuse_cached_index cfg (refresh \<or> generation \<noteq> svc_git_seen st) now st
                      then seen else t)"
  proof (cases "can_reuse_cached_index cfg (refresh \<or> generation \<noteq> svc_git_seen st) now st")
    case True
    from reuse_request [OF conjunct2 [OF ok] this, of t] True req show ?thesis
      by (auto simp: index_snapshot_def bind_res_def)
  next
    case False
    from checked_request [OF F conjunct1 [OF ok] conjunct2 [OF ok] False u] False req show ?thesis
      by (auto simp: index_snapshot_def u bind_res_def)
  qed
  have "\<exists>seen' since'. service_run ext cfg T st' t seen' since' now"
  proof (cases r)
    case (Inl e)
    with service_run.failed [OF run] req show ?thesis by blast
  next
    case (Inr s)
    with service_run.reused [OF run] service_run.checked [OF run] req show ?thesis by blast
  qed
  then show "svc_views st' = None \<or> views_ok ext (the (svc_views st'))"
    using service_run_ok [OF F] service_okD(4) by blast
qed


text \<open>
  C11: A search of the service, through all its caches, is the search of a corpus built from scratch
  out of the visible pages of the current (or recent) index.
\<close>
theorem service_search_refines:
  assumes "faithful_trees ext T" and "service_run ext cfg T st t seen since now"
  shows "fst (service_search ext cfg env vector_search t now generation query include_drafts mode variants
        opts st) =
    bind_res (tree_index ext
        (if can_reuse_cached_index cfg (generation \<noteq> svc_git_seen st) now st then seen else t))
      (\<lambda>index. search_result_objects ext env vector_search
         (build_search_corpus (ext_stem ext) (cfg_analyzer cfg) (visible_pages (idx_pages index) include_drafts))
         query mode variants opts)"
proof (cases "index_snapshot ext cfg t now generation False st")
  case (Pair r st')
  note answer = index_snapshot_answer [OF assms Pair]
  show ?thesis
  proof (cases r)
    case (Inl e)
    with answer(1) [symmetric] show ?thesis by (simp add: service_search_def Pair)
  next
    case (Inr s)
    obtain v st1 where v: "index_views_for cfg (rs_index s) st' = (v, st1)" by (rule prod.exhaust)
    obtain c v' where c: "views_search_corpus ext include_drafts v = (c, v')" by (rule prod.exhaust)
    note vok = index_views_for_ok [OF answer(2) v]
    have "c = build_search_corpus (ext_stem ext) (cfg_analyzer cfg)
        (visible_pages (idx_pages (rs_index s)) include_drafts)"
      using views_search_corpus_ok(4) [OF vok(1) c] vok by simp
    moreover have "tree_index ext
        (if can_reuse_cached_index cfg (generation \<noteq> svc_git_seen st) now st then seen else t) =
        Inr (rs_index s)"
      using answer(1) Inr by (simp add: bind_res_def)
    ultimately show ?thesis using Inr by (simp add: service_search_def Pair v c bind_res_def)
  qed
qed

section \<open>A run\<close>

text \<open>A directory whose one file has been edited, requested twice within a minute.\<close>

definition sample_ext :: externals where
  "sample_ext = \<lparr>ext_sha = id, ext_dump = (\<lambda>_. []), ext_dump_source = (\<lambda>_. []), ext_repr = (\<lambda>_. []),
     ext_stem = id\<rparr>"

definition sample_state :: "nat \<Rightarrow> path_state" where
  "sample_state n = \<lparr>ps_path = lit ''a.md'', ps_kind = Kind_file, ps_device = 1, ps_inode = 2,
     ps_mtime = int n, ps_size = n, ps_digest = []\<rparr>"

definition sample_tree :: "nat \<Rightarrow> source_tree" where
  "sample_tree n = (let snapshot = \<lparr>sig_entries = [(lit ''a.md'', int n, n)],
       sig_projection = [sample_state n], sig_paths = [sample_state n], sig_freshness = []\<rparr>
     in \<lparr>tree_scan = snapshot, tree_state = (\<lambda>_. Some (sample_state n)), tree_marker = None,
         tree_wiki = (if n = 0 then Inl (RuntimeError ''unreadable'') else
           Inr \<lparr>lw_root_name = lit ''wiki'', lw_pages = [], lw_title = lit ''Wiki'', lw_description = nat_str n,
             lw_adapter = [], lw_implementation = [], lw_metadata = [], lw_sidecar = []\<rparr>)\<rparr>)"

definition sample_config :: service_config where
  "sample_config = \<lparr>cfg_interval = 60, cfg_namespace = [], cfg_source_id = lit ''wiki'',
     cfg_root_name = lit ''wiki'', cfg_cache_profile = lit ''auto'', cfg_analyzer = Legacy\<rparr>"

lemma sample_faithful: "faithful_trees sample_ext {sample_tree 1, sample_tree 2}"
  by (simp add: faithful_trees_def sample_ext_def sample_tree_def is_current_def sample_state_def Let_def
      projection_signature_digest_def state_line_def lit_def py_eval nat_str.simps)

text \<open>The first request is checked and published; then the file changes and ten seconds pass.\<close>

definition sample_after :: service_state where
  "sample_after = snd (index_snapshot sample_ext sample_config (sample_tree 1) 0 0 False (new_service False))"

lemma sample_after_simps:
  "svc_git_seen sample_after = 0" "svc_last_check sample_after = Some 0" "svc_snapshot sample_after \<noteq> None"
  by (simp_all add: sample_after_def index_snapshot_def index_snapshot_unlocked_def can_reuse_cached_index_def
      new_service_def current_snapshot_def source_cache_snapshot_def needs_rebuild_def fetch_record_def
      tree_index_def sample_tree_def memory_get_def Let_def publish_index_snapshot_def after_check_def
      sample_config_def)

lemma sample_run:
  "service_run sample_ext sample_config {sample_tree 1, sample_tree 2} sample_after (sample_tree 2)
     (sample_tree 1) 0 10"
proof -
  let ?run = "service_run sample_ext sample_config {sample_tree 1, sample_tree 2}"
  have start: "?run (new_service False) (sample_tree 1) (sample_tree 1) 0 0"
    by (rule service_run.start) simp
  obtain s where s: "index_snapshot sample_ext sample_config (sample_tree 1) 0 0 False (new_service False) =
      (Inr s, sample_after)"
    by (simp add: sample_after_def index_snapshot_def index_snapshot_unlocked_def can_reuse_cached_index_def
      new_service_def current_snapshot_def source_cache_snapshot_def needs_rebuild_def fetch_record_def
      tree_index_def sample_tree_def memory_get_def Let_def)
  have "?run sample_after (sample_tree 1) (sample_tree 1) 0 0"
    by (rule service_run.checked [OF start _ s]) (simp add: can_reuse_cached_index_def new_service_def)
  from service_run.wait [OF service_run.edit [OF this, of "sample_tree 2"], of 10] show ?thesis by simp
qed

lemma sample_reuses: "can_reuse_cached_index sample_config (False \<or> 0 \<noteq> svc_git_seen sample_after) 10 sample_after"
  by (simp add: can_reuse_cached_index_def sample_after_simps sample_config_def)


definition sample_env :: guide_env where
  "sample_env = \<lparr>nfc = id, sensitive_pattern = (\<lambda>_. False), json_size = (\<lambda>_. 0)\<rparr>"

definition sample_options :: search_options where
  "sample_options = \<lparr>opt_limit = 5, opt_snippet_chars = None, opt_min_score = None, opt_exclude = [],
     opt_prior = None, opt_band = 0\<rparr>"

theorem service_search_refines_witness:
  "fst (service_search sample_ext sample_config sample_env (\<lambda>_. Inr []) (sample_tree 2) 10 0 (lit ''wiki'') True
      Lexical (PList []) sample_options sample_after) =
    bind_res (tree_index sample_ext (sample_tree 1))
      (\<lambda>index. search_result_objects sample_ext sample_env (\<lambda>_. Inr [])
         (build_search_corpus id Legacy (visible_pages (idx_pages index) True)) (lit ''wiki'') Lexical (PList [])
         sample_options)"
proof -
  have "can_reuse_cached_index sample_config (0 \<noteq> svc_git_seen sample_after) 10 sample_after"
    using sample_reuses by simp
  from service_search_refines [OF sample_faithful sample_run, of sample_env "\<lambda>_. Inr []" 0 "lit ''wiki''" True
      Lexical "PList []" sample_options, unfolded if_P [OF this]]
  show ?thesis by (simp only: sample_config_def sample_ext_def service_config.simps externals.simps)
qed

end
