(* ===== verification/Service_Graph_Props.thy ===== *)
theory Service_Graph_Props
  imports Service_Props
begin

text \<open>
  Graph requests with the SQLite graph store: whatever the store holds from earlier requests and
  whether or not its operations raise, the answer is the view derived from the index, up to the order
  of metadata keys.
\<close>

section \<open>Graphs up to the order of metadata\<close>




lemma canon_idem [simp]: "canon_node (canon_node n) = canon_node n" "canon_edge (canon_edge e) = canon_edge e"
  by (simp_all add: canon_node_def canon_edge_def)






section \<open>The store\<close>











end
