(* ===== verification/Source_Refs_Props.thy ===== *)
theory Source_Refs_Props
  imports Service_Queries
begin

text \<open>
  Source references: every reference key of the visible pages gets one id, different keys get
  different ids, and the reference of a key lists exactly the pages that carry the key.
\<close>

section \<open>Lower case keeps a text\<close>

lemma find_row_nonempty: "(\<And>c e. (c, e) \<in> set expansions \<Longrightarrow> e \<noteq> []) \<Longrightarrow> map_case rows expansions c \<noteq> []"
  by (auto simp: map_case_def split: option.splits dest: map_of_SomeD)

lemma lower_char_ne: "lower_char c \<noteq> []"
  by (auto simp: lower_char_def lower_expansions_def intro!: find_row_nonempty)

lemma lower_eq_Nil [simp]: "lower s = [] \<longleftrightarrow> s = []"
  by (cases s) (auto simp: lower_char_ne)

lemma slug_ne [simp]: "slug s \<noteq> []"
  by (simp add: slug_def Let_def lit_def)

lemma ran_as_image: "ran m = (\<lambda>k. the (m k)) ` dom m"
proof
  show "ran m \<subseteq> (\<lambda>k. the (m k)) ` dom m" by (force simp: ran_def)
  show "(\<lambda>k. the (m k)) ` dom m \<subseteq> ran m" by (auto intro: ranI)
qed

section \<open>Assigning ids\<close>

lemma free_suffix_fresh: "free_suffix pre used n \<notin> set used"
  by (induction pre used n rule: free_suffix.induct) (subst free_suffix.simps, simp)

lemma free_suffix_ne: "free_suffix pre used n \<noteq> []"
  by (induction pre used n rule: free_suffix.induct) (subst free_suffix.simps, simp)

definition ids_ok :: "ref_ids \<Rightarrow> bool" where
  "ids_ok st \<longleftrightarrow> (\<forall>k i. map_of (fst st) k = Some i \<longrightarrow> i \<in> set (snd st) \<and> i \<noteq> []) \<and>
     (\<forall>k k' i. map_of (fst st) k = Some i \<longrightarrow> map_of (fst st) k' = Some i \<longrightarrow> k = k')"

lemma ids_ok_inj:
  assumes "ids_ok st"
  shows "inj_on (\<lambda>k. the (map_of (fst st) k)) (dom (map_of (fst st)))"
proof (rule inj_onI)
  fix k k' assume k: "k \<in> dom (map_of (fst st))" "k' \<in> dom (map_of (fst st))"
    "the (map_of (fst st) k) = the (map_of (fst st) k')"
  then obtain i where "map_of (fst st) k = Some i" "map_of (fst st) k' = Some i" by auto
  with assms show "k = k'" unfolding ids_ok_def by blast
qed

lemma stable_source_ref_id_known:
  assumes "ids_ok st" and "map_of (fst st) key = Some i"
  shows "stable_source_ref_id sha key st = (i, st)"
  using assms by (auto simp: stable_source_ref_id_def ids_ok_def dict_get_def Let_def split: prod.splits)

lemma stable_source_ref_id_new:
  assumes "map_of (fst st) key = None"
  obtains i where "stable_source_ref_id sha key st = (i, (AList.update key i (fst st), snd st @ [i]))"
    and "i \<notin> set (snd st)" and "i \<noteq> []"
  using assms by (cases st)
    (auto simp: stable_source_ref_id_def dict_get_def Let_def free_suffix_fresh free_suffix_ne)

lemma ids_ok_insert:
  assumes "ids_ok st" and "i \<notin> set (snd st)" and "i \<noteq> []"
  shows "ids_ok (AList.update key i (fst st), snd st @ [i])"
  using assms unfolding ids_ok_def by (auto split: if_splits)

section \<open>The references of some keys and pages\<close>

text \<open>\<open>K\<close> holds the keys with the pages that carried them so far.\<close>

definition refs_ok :: "(ustr \<times> wiki_page) set \<Rightarrow> (ustr, source_ref) dict \<times> ref_ids \<Rightarrow> bool" where
  "refs_ok K st \<longleftrightarrow> ids_ok (snd st) \<and> distinct (map fst (fst st)) \<and>
     fst ` set (fst st) = ran (map_of (fst (snd st))) \<and> dom (map_of (fst (snd st))) = fst ` K \<and>
     (\<forall>k i. map_of (fst (snd st)) k = Some i \<longrightarrow> (\<exists>r. map_of (fst st) i = Some r \<and> ref_id r = i \<and>
        set (ref_pages r) = page_path ` {p. (k, p) \<in> K} \<and> set (ref_page_ids r) = page_id ` {p. (k, p) \<in> K}))"

lemma linked_pages [simp]:
  "set (ref_pages (link_source_ref_page p r)) = insert (page_path p) (set (ref_pages r))"
  "set (ref_page_ids (link_source_ref_page p r)) = insert (page_id p) (set (ref_page_ids r))"
  "ref_id (link_source_ref_page p r) = ref_id r"
  by (auto simp: link_source_ref_page_def)

lemma key_pages_insert:
  "f ` {q. (k, q) \<in> insert (key, p) K} = (if k = key then insert (f p) (f ` {q. (key, q) \<in> K}) else f ` {q. (k, q) \<in> K})"
  by auto

lemma add_source_ref_ok:
  assumes ok: "refs_ok K st" and mk: "\<And>i. ref_id (mk i) = i" "\<And>i. ref_pages (mk i) = []" "\<And>i. ref_page_ids (mk i) = []"
  shows "refs_ok (insert (key, p) K) (add_source_ref ext p key mk st)"
proof -
  obtain refs ids where st: "st = (refs, ids)" by (rule prod.exhaust)
  have ids: "ids_ok ids" and dist: "distinct (map fst refs)" and keys: "fst ` set refs = ran (map_of (fst ids))"
    and dom: "dom (map_of (fst ids)) = fst ` K"
    and entry: "\<And>k i. map_of (fst ids) k = Some i \<Longrightarrow> \<exists>r. map_of refs i = Some r \<and> ref_id r = i \<and>
        set (ref_pages r) = page_path ` {p. (k, p) \<in> K} \<and> set (ref_page_ids r) = page_id ` {p. (k, p) \<in> K}"
    using ok by (auto simp: refs_ok_def st)
  note inj = ids [unfolded ids_ok_def]
  show ?thesis
  proof (cases "map_of (fst ids) key")
    case (Some i)
    then obtain r where r: "map_of refs i = Some r" "ref_id r = i"
      "set (ref_pages r) = page_path ` {p. (key, p) \<in> K}" "set (ref_page_ids r) = page_id ` {p. (key, p) \<in> K}"
      using entry by blast
    have known: "key \<in> fst ` K" using dom Some by blast
    have out: "add_source_ref ext p key mk st = (AList.update i (link_source_ref_page p r) refs, ids)"
      using stable_source_ref_id_known [OF ids Some] r by (simp add: add_source_ref_def st dict_get_def)
    have other: "k = key" if "map_of (fst ids) k = Some i" for k using inj that Some by blast
    have "fst ` set (AList.update i (link_source_ref_page p r) refs) = ran (map_of (fst ids))"
      by (simp add: dom_update keys insert_absorb ranI [where m = "map_of (fst ids)", OF Some])
    moreover have "\<exists>r'. map_of (AList.update i (link_source_ref_page p r) refs) j = Some r' \<and> ref_id r' = j \<and>
        set (ref_pages r') = page_path ` {q. (k, q) \<in> insert (key, p) K} \<and>
        set (ref_page_ids r') = page_id ` {q. (k, q) \<in> insert (key, p) K}"
      if k: "map_of (fst ids) k = Some j" for k j
    proof (cases "k = key")
      case True
      then show ?thesis using k Some r unfolding key_pages_insert by simp
    next
      case False
      then have "j \<noteq> i" using other k by blast
      then show ?thesis using entry [OF k] False unfolding key_pages_insert by simp
    qed
    ultimately show ?thesis
      unfolding out refs_ok_def fst_conv snd_conv
      using ids dist dom known by (simp add: distinct_update insert_absorb)
  next
    case None
    obtain i where i: "stable_source_ref_id (ext_sha ext) key ids = (i, (AList.update key i (fst ids), snd ids @ [i]))"
      "i \<notin> set (snd ids)" "i \<noteq> []" using stable_source_ref_id_new [OF None] by blast
    have fresh: "\<And>k. map_of (fst ids) k \<noteq> Some i" using inj i(2) by blast
    then have "i \<notin> fst ` set refs" using keys by (auto simp: ran_def)
    then have get: "dict_get refs i (mk i) = mk i" by (simp add: dict_get_def map_of_eq_None_iff [symmetric])
    have out: "add_source_ref ext p key mk st =
        (AList.update i (link_source_ref_page p (mk i)) refs, (AList.update key i (fst ids), snd ids @ [i]))"
      using i get by (simp add: add_source_ref_def st)
    have unused: "{q. (key, q) \<in> K} = {}" using None dom by (force simp: domIff)
    have "fst ` set (AList.update i (link_source_ref_page p (mk i)) refs) = ran ((map_of (fst ids))(key \<mapsto> i))"
      using keys None by (simp add: dom_update ran_map_upd)
    moreover have "ids_ok (AList.update key i (fst ids), snd ids @ [i])" using ids_ok_insert [OF ids i(2,3)] .
    moreover have "\<exists>r'. map_of (AList.update i (link_source_ref_page p (mk i)) refs) j = Some r' \<and> ref_id r' = j \<and>
        set (ref_pages r') = page_path ` {q. (k, q) \<in> insert (key, p) K} \<and>
        set (ref_page_ids r') = page_id ` {q. (k, q) \<in> insert (key, p) K}"
      if k: "((map_of (fst ids))(key \<mapsto> i)) k = Some j" for k j
    proof (cases "k = key")
      case True
      then show ?thesis using k mk unused unfolding key_pages_insert by simp
    next
      case False
      then have j: "map_of (fst ids) k = Some j" using k by simp
      then have "j \<noteq> i" using fresh by blast
      then show ?thesis using entry [OF j] False unfolding key_pages_insert by simp
    qed
    ultimately show ?thesis
      unfolding out refs_ok_def fst_conv snd_conv
      using dist dom by (simp add: distinct_update)
  qed
qed

lemma fold_source_ref_ok:
  assumes mk: "\<And>x i. ref_id (mk x i) = i" "\<And>x i. ref_pages (mk x i) = []" "\<And>x i. ref_page_ids (mk x i) = []"
  shows "refs_ok K st \<Longrightarrow>
    refs_ok ((\<lambda>x. (key x, p)) ` set xs \<union> K) (fold (\<lambda>x. add_source_ref ext p (key x) (mk x)) xs st)"
proof (induction xs arbitrary: K st)
  case (Cons x xs)
  from Cons.IH [OF add_source_ref_ok [OF Cons.prems, of "mk x" "key x" p ext]] mk show ?case
    by simp
qed simp

text \<open>The reference keys of a page.\<close>

definition ref_keys :: "wiki_page \<Rightarrow> ustr set" where
  "ref_keys p = okf_source_ref_key ` set (okf_sources_of p) \<union> set (page_source_refs p)"

lemma add_page_refs_ok:
  assumes "refs_ok K st"
  shows "refs_ok ((\<lambda>k. (k, p)) ` ref_keys p \<union> K) (add_page_refs ext source_id p st)"
proof -
  have eq: "(\<lambda>k. (k, p)) ` ref_keys p \<union> K = (\<lambda>l. (l, p)) `
      set (filter (\<lambda>l. l \<notin> okf_source_ref_key ` set (okf_sources_of p)) (page_source_refs p)) \<union>
      ((\<lambda>src. (okf_source_ref_key src, p)) ` set (okf_sources_of p) \<union> K)"
    by (auto simp: ref_keys_def)
  show ?thesis
    unfolding eq add_page_refs_def Let_def
    by (rule fold_source_ref_ok [OF _ _ _ fold_source_ref_ok [OF _ _ _ assms]]) simp_all
qed

lemma fold_page_refs_ok:
  "refs_ok K st \<Longrightarrow> refs_ok ({(k, p). p \<in> set ps \<and> k \<in> ref_keys p} \<union> K) (fold (add_page_refs ext source_id) ps st)"
proof (induction ps arbitrary: K st)
  case (Cons q ps)
  have "{(k, p). p \<in> set (q # ps) \<and> k \<in> ref_keys p} \<union> K =
      {(k, p). p \<in> set ps \<and> k \<in> ref_keys p} \<union> ((\<lambda>k. (k, q)) ` ref_keys q \<union> K)" by auto
  with Cons.IH [OF add_page_refs_ok [OF Cons.prems, of q ext source_id]] show ?case by simp
qed simp

text \<open>
  C12: Source references are exact. There is an injective naming of the reference keys that the
  visible pages carry (OKF sources by id or resource, and plain labels); the answer is ordered by id
  and has exactly one reference per key, under its name, which links exactly the pages that carry it.
  Giving ids always ends, also when slugs and digest prefixes collide.
\<close>
theorem source_refs_exact:
  "\<exists>name. inj_on name (\<Union>p\<in>set (visible_index_pages index include_drafts). ref_keys p) \<and>
     sorted (map ref_id (source_refs ext cfg index include_drafts)) \<and>
     distinct (map ref_id (source_refs ext cfg index include_drafts)) \<and>
     set (map ref_id (source_refs ext cfg index include_drafts)) =
       name ` (\<Union>p\<in>set (visible_index_pages index include_drafts). ref_keys p) \<and>
     list_all (\<lambda>r. \<exists>k. ref_id r = name k \<and>
       k \<in> (\<Union>p\<in>set (visible_index_pages index include_drafts). ref_keys p) \<and>
       set (ref_pages r) = page_path ` {p \<in> set (visible_index_pages index include_drafts). k \<in> ref_keys p} \<and>
       set (ref_page_ids r) = page_id ` {p \<in> set (visible_index_pages index include_drafts). k \<in> ref_keys p})
     (source_refs ext cfg index include_drafts)"
proof -
  let ?ps = "visible_index_pages index include_drafts"
  let ?K = "{(k, p). p \<in> set ?ps \<and> k \<in> ref_keys p}"
  obtain refs byl used where st: "fold (add_page_refs ext (service_source_id cfg index)) ?ps ([], ([], [])) =
      (refs, (byl, used))" by (metis prod.exhaust)
  have "refs_ok {} ([], ([], []))" by (simp add: refs_ok_def ids_ok_def)
  from fold_page_refs_ok [OF this, of ?ps ext "service_source_id cfg index"]
  have ok: "refs_ok ?K (refs, (byl, used))" by (simp add: st)
  note okD = ok [unfolded refs_ok_def fst_conv snd_conv]
  have "(\<Union>p\<in>set ?ps. ref_keys p) = fst ` ?K" by force
  then have keys: "(\<Union>p\<in>set ?ps. ref_keys p) = dom (map_of byl)" using okD by simp
  have answer: "source_refs ext cfg index include_drafts = sort_key ref_id (map snd refs)"
    by (simp add: source_refs_def st)
  have entry: "\<exists>k. map_of byl k = Some i \<and> ref_id r = i \<and>
        set (ref_pages r) = page_path ` {p. (k, p) \<in> ?K} \<and> set (ref_page_ids r) = page_id ` {p. (k, p) \<in> ?K}"
    if "(i, r) \<in> set refs" for i r
  proof -
    have r: "map_of refs i = Some r" using okD that by simp
    from that have "i \<in> fst ` set refs" by force
    then have "i \<in> ran (map_of byl)" using okD by simp
    then obtain k where k: "map_of byl k = Some i" by (auto simp: ran_def)
    then have "\<exists>r. map_of refs i = Some r \<and> ref_id r = i \<and> set (ref_pages r) = page_path ` {p. (k, p) \<in> ?K} \<and>
        set (ref_page_ids r) = page_id ` {p. (k, p) \<in> ?K}" using okD by blast
    then show ?thesis using r k by (intro exI [of _ k]) simp
  qed
  have ids: "map ref_id (map snd refs) = map fst refs" using entry by fastforce
  let ?name = "\<lambda>k. the (map_of byl k)"
  have "fst ` set refs = ?name ` dom (map_of byl)"
    using okD by (simp add: ran_as_image)
  moreover have "inj_on ?name (dom (map_of byl))"
    using ids_ok_inj [OF conjunct1 [OF okD]] by simp
  moreover have "distinct (map ref_id (sort_key ref_id (map snd refs)))"
  proof -
    have "distinct (map ref_id (map snd refs))" unfolding ids using okD by simp
    then show ?thesis by (simp only: distinct_map set_sort distinct_sort)
  qed
  moreover have "set (map ref_id (sort_key ref_id (map snd refs))) = fst ` set refs"
    using arg_cong [OF ids, of set] by (simp only: set_map set_sort)
  moreover have "list_all (\<lambda>r. \<exists>k. ref_id r = ?name k \<and> k \<in> dom (map_of byl) \<and>
      set (ref_pages r) = page_path ` {p \<in> set ?ps. k \<in> ref_keys p} \<and>
      set (ref_page_ids r) = page_id ` {p \<in> set ?ps. k \<in> ref_keys p}) (sort_key ref_id (map snd refs))"
    unfolding list_all_iff set_sort
  proof
    fix r assume "r \<in> set (map snd refs)"
    then obtain i where "(i, r) \<in> set refs" by auto
    from entry [OF this] obtain k where k: "map_of byl k = Some i \<and> ref_id r = i \<and>
      set (ref_pages r) = page_path ` {p. (k, p) \<in> ?K} \<and> set (ref_page_ids r) = page_id ` {p. (k, p) \<in> ?K}"
      by (rule exE)
    then show "\<exists>k. ref_id r = ?name k \<and> k \<in> dom (map_of byl) \<and>
      set (ref_pages r) = page_path ` {p \<in> set ?ps. k \<in> ref_keys p} \<and>
      set (ref_page_ids r) = page_id ` {p \<in> set ?ps. k \<in> ref_keys p}"
      by (intro exI [of _ k]) (simp add: domIff)
  qed
  ultimately show ?thesis
    unfolding answer keys by (intro exI [of _ ?name] conjI) (simp_all only: sorted_sort_key)
qed

end
