(* ===== verification/Fusion_Props.thy ===== *)
theory Fusion_Props
  imports Service_Queries
begin

text \<open>
  The reciprocal rank fusion of the query variants: what the four dictionaries hold after all channels,
  and that the fused list is the union of the channels ordered by the sums of reciprocal ranks.
\<close>

section \<open>Reference definition\<close>

text \<open>The ranked results of all channels that may be returned, in the order they are merged.\<close>

definition fusible :: "ustr set option \<Rightarrow> nat \<times> search_result \<Rightarrow> bool" where
  "fusible required x \<longleftrightarrow> required = None \<or> res_page_id (snd x) \<in> the required"

definition fusion_entries :: "ustr set option \<Rightarrow> search_result list list \<Rightarrow> (nat \<times> search_result) list" where
  "fusion_entries required channels = filter (fusible required)
     (concat (map (List.enumerate 1) channels))"

definition reciprocal_rank_sum :: "(nat \<times> search_result) list \<Rightarrow> ustr \<Rightarrow> real" where
  "reciprocal_rank_sum entries i =
     (\<Sum>(rank, r)\<leftarrow>entries. if res_page_id r = i then 1 / (LEXICAL_VARIANT_RRF_K + real rank) else 0)"

definition entry_ids :: "(nat \<times> search_result) list \<Rightarrow> ustr set" where
  "entry_ids entries = (res_page_id \<circ> snd) ` set entries"

definition fusion_ok :: "(nat \<times> search_result) list \<Rightarrow> fusion \<Rightarrow> bool" where
  "fusion_ok entries fu \<longleftrightarrow> (\<forall>i. dict_get (fu_scores fu) i 0 = reciprocal_rank_sum entries i) \<and>
     fst ` set (fu_scores fu) = entry_ids entries \<and> distinct (map fst (fu_scores fu)) \<and>
     dom (map_of (fu_exemplars fu)) = entry_ids entries \<and>
     (\<forall>i r. map_of (fu_exemplars fu) i = Some r \<longrightarrow> res_page_id r = i \<and> r \<in> snd ` set entries)"

lemma fuse_result_ok:
  assumes "fusion_ok entries fu"
  shows "fusion_ok (entries @ filter (fusible required) [(rank, r)])
    (fuse_result required channel_index (rank, r) fu)"
proof (cases "fusible required (rank, r)")
  case False
  then show ?thesis using assms by (auto simp: fuse_result_def fusible_def)
next
  case True
  then have keep: "filter (fusible required) [(rank, r)] = [(rank, r)]" by simp
  let ?fu = "fuse_result required channel_index (rank, r) fu"
  have scores: "fu_scores ?fu = AList.update (res_page_id r)
      (dict_get (fu_scores fu) (res_page_id r) 0 + 1 / (LEXICAL_VARIANT_RRF_K + real rank)) (fu_scores fu)"
    using True by (auto simp: fuse_result_def fusible_def Let_def)
  have exemplars: "map_of (fu_exemplars ?fu) =
      (if map_of (fu_exemplars fu) (res_page_id r) = None \<or> channel_index = 0
       then (map_of (fu_exemplars fu))(res_page_id r \<mapsto> r) else map_of (fu_exemplars fu))"
    using True by (auto simp: fuse_result_def fusible_def Let_def)
  have ids: "entry_ids (entries @ [(rank, r)]) = insert (res_page_id r) (entry_ids entries)"
    by (auto simp: entry_ids_def)
  have "dict_get (fu_scores ?fu) i 0 = reciprocal_rank_sum (entries @ [(rank, r)]) i" for i
    using assms by (simp add: scores dict_get_def reciprocal_rank_sum_def fusion_ok_def)
  moreover have "fst ` set (fu_scores ?fu) = entry_ids (entries @ [(rank, r)])"
    using assms by (simp add: scores dom_update ids fusion_ok_def)
  moreover have "distinct (map fst (fu_scores ?fu))"
    using assms by (simp add: scores distinct_update fusion_ok_def)
  moreover have "dom (map_of (fu_exemplars ?fu)) = entry_ids (entries @ [(rank, r)])"
    using assms by (auto simp: exemplars ids fusion_ok_def)
  moreover have "res_page_id r' = i \<and> r' \<in> snd ` set (entries @ [(rank, r)])"
    if "map_of (fu_exemplars ?fu) i = Some r'" for i r'
    using assms that by (auto simp: exemplars fusion_ok_def split: if_splits)
  ultimately show ?thesis unfolding keep fusion_ok_def by blast
qed

lemma fuse_results_ok:
  "fusion_ok entries fu \<Longrightarrow>
   fusion_ok (entries @ filter (fusible required) ranked)
     (fold (fuse_result required channel_index) ranked fu)"
proof (induction ranked arbitrary: entries fu)
  case (Cons x ranked)
  obtain rank r where x: "x = (rank, r)" by (rule prod.exhaust)
  have "entries @ filter (fusible required) (x # ranked) =
      (entries @ filter (fusible required) [(rank, r)]) @ filter (fusible required) ranked" by (simp add: x)
  with Cons.IH [OF fuse_result_ok [OF Cons.prems, of required rank r channel_index]] show ?case
    by (simp only: fold_simps x o_apply)
qed simp

lemma fuse_channels_ok:
  "fusion_ok entries fu \<Longrightarrow>
   fusion_ok (entries @ fusion_entries required channels)
     (fold (fuse_channel required) (List.enumerate n channels) fu)"
proof (induction channels arbitrary: entries fu n)
  case (Cons results channels)
  have "fuse_channel required (n, results) fu = fold (fuse_result required n) (List.enumerate 1 results) fu"
    by (simp add: fuse_channel_def)
  with Cons.IH [OF fuse_results_ok [OF Cons.prems, of required "List.enumerate 1 results" n], of "Suc n"]
  show ?case by (simp add: fusion_entries_def)
qed (simp add: fusion_entries_def)

lemma fused_ok:
  "fusion_ok (fusion_entries required channels)
     (fold (fuse_channel required) (List.enumerate 0 channels) no_fusion)"
proof -
  have "fusion_ok [] no_fusion"
    by (simp add: fusion_ok_def no_fusion_def dict_get_def reciprocal_rank_sum_def entry_ids_def)
  from fuse_channels_ok [OF this, of required channels 0] show ?thesis by simp
qed

lemma fused_key_scores:
  "sorted (map (fused_sort_key fu) is) \<Longrightarrow>
   sorted_wrt (\<lambda>i j. dict_get (fu_scores fu) j 0 \<le> dict_get (fu_scores fu) i 0) is"
  by (induction "is") (auto simp: fused_sort_key_def less_eq_prod_def less_prod_def)

text \<open>
  Fusing query variants loses and invents nothing. The answer is the beginning of a list that has
  every page of every channel (of those the exact identifiers of the query allow) once, ordered by the
  sum of the reciprocal ranks \<open>1 / (60 + rank)\<close> over the channels, highest first; each result is
  one a channel gave, with that sum, rounded, as its score.
\<close>
theorem fusion_exact:
  "let channels = map (\<lambda>q. lexical_search_corpus stem c q opts) queries;
       entries = fusion_entries (exact_required_page_ids_for_query c (hd queries)) channels
   in \<exists>ranked. fused_lexical_variant_results stem c queries opts = take (opt_limit opts) ranked \<and>
        distinct (map res_page_id ranked) \<and> set (map res_page_id ranked) = entry_ids entries \<and>
        sorted_wrt (\<lambda>x y. reciprocal_rank_sum entries (res_page_id y) \<le> reciprocal_rank_sum entries (res_page_id x))
          ranked \<and>
        list_all (\<lambda>r. \<exists>given \<in> snd ` set entries.
          r = given\<lparr>res_score := py_round (reciprocal_rank_sum entries (res_page_id given)) 6\<rparr>) ranked"
proof -
  let ?channels = "map (\<lambda>q. lexical_search_corpus stem c q opts) queries"
  let ?required = "exact_required_page_ids_for_query c (hd queries)"
  let ?entries = "fusion_entries ?required ?channels"
  define fu where "fu = fold (fuse_channel ?required) (List.enumerate 0 ?channels) no_fusion"
  have ok: "fusion_ok ?entries fu" unfolding fu_def by (rule fused_ok)
  define given where "given = (\<lambda>i. dict_get (fu_exemplars fu) i blank_result)"
  let ?out = "\<lambda>i. (given i)\<lparr>res_score := py_round (dict_get (fu_scores fu) i 0) 6\<rparr>"
  let ?ids = "sort_key (fused_sort_key fu) (map fst (fu_scores fu))"
  have score: "dict_get (fu_scores fu) i 0 = reciprocal_rank_sum ?entries i" for i
    using ok by (simp add: fusion_ok_def)
  have ids: "set ?ids = entry_ids ?entries" "distinct ?ids"
    using ok by (simp_all add: fusion_ok_def)
  have given: "res_page_id (given i) = i \<and> given i \<in> snd ` set ?entries" if "i \<in> set ?ids" for i
  proof -
    have "i \<in> dom (map_of (fu_exemplars fu))" using that ok unfolding ids(1) fusion_ok_def by blast
    then obtain r where r: "map_of (fu_exemplars fu) i = Some r" by blast
    then have "given i = r" by (simp add: given_def dict_get_def)
    then show ?thesis using r ok unfolding fusion_ok_def by blast
  qed
  have out_ids: "map res_page_id (map ?out ?ids) = ?ids"
    unfolding map_map by (rule map_idI) (simp add: given)
  have "sorted_wrt (\<lambda>i j. reciprocal_rank_sum ?entries j \<le> reciprocal_rank_sum ?entries i) ?ids"
    using fused_key_scores [of fu ?ids] by (simp add: score)
  then have "sorted_wrt (\<lambda>x y. reciprocal_rank_sum ?entries (res_page_id y) \<le>
      reciprocal_rank_sum ?entries (res_page_id x)) (map ?out ?ids)"
    unfolding sorted_wrt_map
    by (rule sorted_wrt_mono_rel [rotated]) (simp add: given)
  moreover have "list_all (\<lambda>r. \<exists>given \<in> snd ` set ?entries.
      r = given\<lparr>res_score := py_round (reciprocal_rank_sum ?entries (res_page_id given)) 6\<rparr>) (map ?out ?ids)"
    unfolding list_all_iff set_map
  proof (intro ballI, elim imageE)
    fix r i assume "r = ?out i" and i: "i \<in> set ?ids"
    with given [OF i] show "\<exists>given \<in> snd ` set ?entries.
        r = given\<lparr>res_score := py_round (reciprocal_rank_sum ?entries (res_page_id given)) 6\<rparr>"
      by (intro bexI [of _ "given i"]) (simp_all add: score)
  qed
  moreover have "fused_lexical_variant_results stem c queries opts = take (opt_limit opts) (map ?out ?ids)"
    by (simp only: fused_lexical_variant_results_def fu_def given_def Let_def)
  moreover have "distinct (map res_page_id (map ?out ?ids))" "set (map res_page_id (map ?out ?ids)) = entry_ids ?entries"
    unfolding out_ids by (rule ids)+
  ultimately show ?thesis unfolding Let_def by (intro exI [of _ "map ?out ?ids"] conjI)
qed

end
