(* ===== verification/Git_Sync.thy ===== *)
theory Git_Sync
  imports PyStr_Facts
begin

text \<open>
  \<open>git_sync.py\<close>: the fetch and fast-forward of the served checkout. Git itself is the field
  \<open>git_run\<close> of \<open>git_env\<close>: it gets the arguments, the directory and the timeout, and changes a
  world of any type. One synchronisation is a program in a state and error monad over the fields of
  \<open>GitSyncer\<close> and that world; the threads that start, join and finish synchronisations are the
  step relation of \<open>Git_Sync_Props\<close>.
\<close>

section \<open>Configuration\<close>

record git_config =
  gc_enabled :: bool
  gc_cooldown :: real
  gc_wait :: real
  gc_remote :: ustr
  gc_branch :: "ustr option"
  gc_timeout :: real

definition default_git_config :: git_config where
  "default_git_config = \<lparr>gc_enabled = False, gc_cooldown = 60, gc_wait = 5, gc_remote = lit ''origin'',
     gc_branch = None, gc_timeout = 60\<rparr>"

definition is_safe_git_name :: "ustr \<Rightarrow> bool" where
  "is_safe_git_name value \<longleftrightarrow> value \<noteq> [] \<and> \<not> starts_with value [45] \<and> list_all (\<lambda>c. \<not> is_space c) value"

definition validate_git_sync_config :: "git_config \<Rightarrow> git_config res" where
  "validate_git_sync_config cfg =
     (if gc_cooldown cfg < 0 then Inl (ValueError ''git sync cooldown seconds must be non-negative'')
      else if gc_wait cfg < 0 then Inl (ValueError ''git sync wait seconds must be non-negative'')
      else if gc_timeout cfg \<le> 0 then Inl (ValueError ''git sync command timeout seconds must be positive'')
      else if \<not> is_safe_git_name (gc_remote cfg) then Inl (ValueError ''git sync remote must be a safe name'')
      else (case gc_branch cfg of
              None \<Rightarrow> Inr cfg
            | Some b \<Rightarrow> if is_safe_git_name b then Inr cfg
                        else Inl (ValueError ''git sync branch must be a safe name'')))"

text \<open>The environment variables; \<open>float\<close> is Python's conversion, which fails for other texts.\<close>

definition env_bool :: "(ustr \<Rightarrow> ustr option) \<Rightarrow> string \<Rightarrow> bool res" where
  "env_bool getenv name =
     (let value = lower (strip (case getenv (lit name) of Some v \<Rightarrow> v | None \<Rightarrow> []))
      in if value \<in> {lit ''1'', lit ''true'', lit ''yes'', lit ''on''} then Inr True
         else if value \<in> {lit ''0'', lit ''false'', lit ''no'', lit ''off'', []} then Inr False
         else Inl (ValueError ''the variable must be a boolean (1/0/true/false)''))"

definition env_float :: "(ustr \<Rightarrow> ustr option) \<Rightarrow> (ustr \<Rightarrow> real option) \<Rightarrow> string \<Rightarrow> real option res" where
  "env_float getenv float name =
     (case getenv (lit name) of
        None \<Rightarrow> Inr None
      | Some v \<Rightarrow> if strip v = [] then Inr None
          else (case float v of Some x \<Rightarrow> Inr (Some x) | None \<Rightarrow> Inl (ValueError ''the variable must be a number'')))"

definition git_sync_config_from_env ::
  "(ustr \<Rightarrow> ustr option) \<Rightarrow> (ustr \<Rightarrow> real option) \<Rightarrow> git_config res" where
  "git_sync_config_from_env getenv float =
     bind_res (env_bool getenv ''LLMWIKI_GIT_SYNC'') (\<lambda>enabled.
     bind_res (env_float getenv float ''LLMWIKI_GIT_SYNC_COOLDOWN_SECONDS'') (\<lambda>cooldown.
     bind_res (env_float getenv float ''LLMWIKI_GIT_SYNC_WAIT_SECONDS'') (\<lambda>wait.
     bind_res (env_float getenv float ''LLMWIKI_GIT_SYNC_TIMEOUT_SECONDS'') (\<lambda>timeout.
       let given = (\<lambda>name. case getenv (lit name) of Some v \<Rightarrow> (if v = [] then None else Some v) | None \<Rightarrow> None);
           d = default_git_config
       in Inr \<lparr>gc_enabled = enabled, gc_cooldown = (case cooldown of Some x \<Rightarrow> x | None \<Rightarrow> gc_cooldown d),
            gc_wait = (case wait of Some x \<Rightarrow> x | None \<Rightarrow> gc_wait d),
            gc_remote = (case given ''LLMWIKI_GIT_SYNC_REMOTE'' of Some r \<Rightarrow> r | None \<Rightarrow> gc_remote d),
            gc_branch = given ''LLMWIKI_GIT_SYNC_BRANCH'',
            gc_timeout = (case timeout of Some x \<Rightarrow> x | None \<Rightarrow> gc_timeout d)\<rparr>))))"

section \<open>Messages\<close>

text \<open>
  \<open>_CREDENTIAL_IN_URL\<close>: the user part after \<open>://\<close>, a run without slash, at sign and white space
  that an at sign ends.
\<close>

definition credential_char :: "nat \<Rightarrow> bool" where
  "credential_char c \<longleftrightarrow> c \<noteq> 47 \<and> c \<noteq> 64 \<and> \<not> is_space c"

definition credential_rest :: "ustr \<Rightarrow> ustr option" where
  "credential_rest s =
     (let rest = dropWhile credential_char (drop 3 s)
      in if starts_with s (lit ''://'') \<and> takeWhile credential_char (drop 3 s) \<noteq> [] \<and> starts_with rest [64]
         then Some (tl rest) else None)"

lemma credential_rest_cases:
  assumes "credential_rest s = Some rest"
  obtains u where "s = lit ''://'' @ u @ [64] @ rest" and "u \<noteq> []" and "list_all credential_char u"
proof -
  let ?u = "takeWhile credential_char (drop 3 s)" and ?d = "dropWhile credential_char (drop 3 s)"
  have a: "starts_with s (lit ''://'')" "?u \<noteq> []" "starts_with ?d [64]" "rest = tl ?d"
    using assms by (auto simp: credential_rest_def Let_def simp del: takeWhile_eq_Nil_iff split: if_splits)
  have "?d = [64] @ rest" using a(3,4) by (cases ?d) auto
  then have "drop 3 s = ?u @ [64] @ rest" by (metis takeWhile_dropWhile_id)
  moreover have "take 3 s = lit ''://''"
    using a(1) by (auto simp: starts_with_iff lit_def)
  ultimately have "s = lit ''://'' @ ?u @ [64] @ rest" by (metis append_take_drop_id)
  moreover have "list_all credential_char ?u" by (auto simp: list_all_iff dest: set_takeWhileD)
  ultimately show ?thesis using a(2) that by blast
qed

lemma credential_rest_shorter: "credential_rest s = Some rest \<Longrightarrow> length rest < length s"
  by (elim credential_rest_cases) simp

function redact :: "ustr \<Rightarrow> ustr" where
  "redact [] = []"
| "redact (c # s) = (case credential_rest (c # s) of
     Some rest \<Rightarrow> lit ''://***@'' @ redact rest
   | None \<Rightarrow> c # redact s)"
  by pat_completeness auto
termination by (relation "measure length") (auto dest: credential_rest_shorter)

definition GIT_ERROR_MAX_CHARS :: nat where "GIT_ERROR_MAX_CHARS = 300"

definition sanitize_git_message :: "ustr \<Rightarrow> ustr" where
  "sanitize_git_message message =
     (let cleaned = redact (collapse_ws message)
      in if length cleaned > GIT_ERROR_MAX_CHARS then take (GIT_ERROR_MAX_CHARS - 3) cleaned @ lit ''...''
         else cleaned)"

section \<open>The syncer\<close>

datatype git_state = Git_idle | Git_synced | Git_updated | Git_blocked | Git_failed

datatype git_outcome = Completed int ustr ustr | Timed_out | Os_failure ustr

text \<open>\<open>GitSyncError\<close> with its state, \<open>TimeoutExpired\<close>, or another exception by its class.\<close>

datatype git_error = Git_sync_error ustr git_state | Git_timeout | Git_unexpected ustr

record 'w git_env =
  git_run :: "ustr list \<Rightarrow> ustr \<Rightarrow> real \<Rightarrow> 'w \<Rightarrow> git_outcome \<times> 'w"
  git_repr :: "ustr \<Rightarrow> ustr"

text \<open>The events of \<open>in_flight\<close> are numbered by the attempts.\<close>

record syncer =
  syn_in_flight :: "nat option"
  syn_repo_root :: "ustr option"
  syn_last_attempt :: "real option"
  syn_last_attempt_at :: "real option"
  syn_last_success_at :: "real option"
  syn_last_error :: "ustr option"
  syn_state :: git_state
  syn_branch :: "ustr option"
  syn_head :: "ustr option"
  syn_remote :: "ustr option"
  syn_fetch_count :: nat
  syn_generation :: nat

definition new_syncer :: "git_config \<Rightarrow> syncer" where
  "new_syncer cfg = \<lparr>syn_in_flight = None, syn_repo_root = None, syn_last_attempt = None,
     syn_last_attempt_at = None, syn_last_success_at = None, syn_last_error = None, syn_state = Git_idle,
     syn_branch = gc_branch cfg, syn_head = None, syn_remote = None, syn_fetch_count = 0, syn_generation = 0\<rparr>"

section \<open>Programs\<close>

type_synonym ('w, 'a) git_prog = "syncer \<times> 'w \<Rightarrow> (git_error + 'a) \<times> syncer \<times> 'w"

definition git_return :: "'a \<Rightarrow> ('w, 'a) git_prog" where
  "git_return x = (\<lambda>s. (Inr x, s))"

definition git_raise :: "git_error \<Rightarrow> ('w, 'a) git_prog" where
  "git_raise e = (\<lambda>s. (Inl e, s))"

definition git_bind :: "('w, 'a) git_prog \<Rightarrow> ('a \<Rightarrow> ('w, 'b) git_prog) \<Rightarrow> ('w, 'b) git_prog" where
  "git_bind m f = (\<lambda>s. case m s of (Inl e, s') \<Rightarrow> (Inl e, s') | (Inr x, s') \<Rightarrow> f x s')"

definition git_modify :: "(syncer \<Rightarrow> syncer) \<Rightarrow> ('w, unit) git_prog" where
  "git_modify f = (\<lambda>(st, w). (Inr (), f st, w))"

definition git_fetch_field :: "(syncer \<Rightarrow> 'a) \<Rightarrow> ('w, 'a) git_prog" where
  "git_fetch_field f = (\<lambda>(st, w). (Inr (f st), st, w))"

definition git_call :: "'w git_env \<Rightarrow> git_config \<Rightarrow> ustr \<Rightarrow> ustr list \<Rightarrow> ('w, int \<times> ustr \<times> ustr) git_prog" where
  "git_call env cfg repo args = (\<lambda>(st, w). case git_run env args repo (gc_timeout cfg) w of
     (Completed code out err, w') \<Rightarrow> (Inr (code, out, err), st, w')
   | (Timed_out, w') \<Rightarrow> (Inl Git_timeout, st, w')
   | (Os_failure cls, w') \<Rightarrow> (Inl (Git_unexpected cls), st, w'))"

definition git_text :: "'w git_env \<Rightarrow> git_config \<Rightarrow> ustr \<Rightarrow> ustr list \<Rightarrow> ('w, ustr) git_prog" where
  "git_text env cfg repo args = git_bind (git_call env cfg repo args) (\<lambda>(code, out, err).
     if code \<noteq> 0
     then git_raise (Git_sync_error (lit ''git '' @ hd args @ lit '' failed: '' @
            strip (if err \<noteq> [] then err else out)) Git_failed)
     else git_return (strip out))"

definition git_ok :: "'w git_env \<Rightarrow> git_config \<Rightarrow> ustr \<Rightarrow> ustr list \<Rightarrow> ('w, bool) git_prog" where
  "git_ok env cfg repo args = git_bind (git_call env cfg repo args) (\<lambda>(code, out, err). git_return (code = 0))"

text \<open>Outside a work tree, and when git cannot run, this raises ValueError.\<close>

definition resolve_git_repo_root :: "'w git_env \<Rightarrow> git_config \<Rightarrow> ustr \<Rightarrow> ('w, ustr) git_prog" where
  "resolve_git_repo_root env cfg dir = (\<lambda>(st, w).
     case git_run env (map lit [''rev-parse'', ''--show-toplevel'']) dir (gc_timeout cfg) w of
       (Completed code out err, w') \<Rightarrow>
         (if code \<noteq> 0 \<or> strip out = [] then Inl (Git_unexpected (lit ''ValueError'')) else Inr (strip out), st, w')
     | (_, w') \<Rightarrow> (Inl (Git_unexpected (lit ''ValueError'')), st, w'))"

definition upstream_branch :: "'w git_env \<Rightarrow> git_config \<Rightarrow> ustr \<Rightarrow> ustr \<Rightarrow> ('w, ustr) git_prog" where
  "upstream_branch env cfg repo branch =
     git_bind (git_call env cfg repo [lit ''config'', lit ''--get'', lit ''branch.'' @ branch @ lit ''.merge''])
       (\<lambda>(code, out, err).
          let value = (if code = 0 then strip out else [])
          in git_return (if starts_with value (lit ''refs/heads/'') then drop 11 value else branch))"

definition CURRENT_BRANCH :: "ustr list" where
  "CURRENT_BRANCH = map lit [''symbolic-ref'', ''--quiet'', ''--short'', ''HEAD'']"

definition HEAD_COMMIT :: "ustr list" where
  "HEAD_COMMIT = map lit [''rev-parse'', ''--verify'', ''HEAD^{commit}'']"

definition REF_COMMIT :: "ustr \<Rightarrow> ustr list" where
  "REF_COMMIT ref = [lit ''rev-parse'', lit ''--verify'', ref @ lit ''^{commit}'']"

definition TRACKED_CHANGES :: "ustr list" where
  "TRACKED_CHANGES = map lit [''status'', ''--porcelain'', ''--untracked-files=no'']"

definition IS_ANCESTOR :: "ustr \<Rightarrow> ustr \<Rightarrow> ustr list" where
  "IS_ANCESTOR a b = [lit ''merge-base'', lit ''--is-ancestor'', a, b]"

definition FAST_FORWARD :: "ustr \<Rightarrow> ustr list" where
  "FAST_FORWARD sha = [lit ''merge'', lit ''--ff-only'', lit ''--quiet'', sha]"

definition remote_ref_for :: "git_config \<Rightarrow> ustr \<Rightarrow> ustr" where
  "remote_ref_for cfg branch = lit ''refs/remotes/'' @ gc_remote cfg @ [47] @ branch"

definition FETCH :: "git_config \<Rightarrow> ustr \<Rightarrow> ustr list" where
  "FETCH cfg branch = [lit ''fetch'', lit ''--quiet'', lit ''--no-write-fetch-head'', gc_remote cfg,
     lit ''+refs/heads/'' @ branch @ [58] @ remote_ref_for cfg branch]"

text \<open>The last part of \<open>_sync_once\<close>: from the two commits to the fast-forward.\<close>

definition refuse_fast_forward :: "'w git_env \<Rightarrow> git_config \<Rightarrow> ustr \<Rightarrow> ustr \<Rightarrow> ustr \<Rightarrow> ('w, bool) git_prog" where
  "refuse_fast_forward env cfg repo head remote =
     git_bind (git_ok env cfg repo (IS_ANCESTOR remote head)) (\<lambda>ahead.
       git_raise (Git_sync_error ((if ahead then lit ''local commits ahead of remote''
         else lit ''local branch diverged from remote'') @ lit ''; fast-forward skipped'') Git_blocked))"

definition move_head :: "'w git_env \<Rightarrow> git_config \<Rightarrow> ustr \<Rightarrow> ustr \<Rightarrow> ('w, bool) git_prog" where
  "move_head env cfg repo remote =
     git_bind (git_text env cfg repo (FAST_FORWARD remote)) (\<lambda>_.
     git_bind (git_text env cfg repo HEAD_COMMIT) (\<lambda>moved.
     git_bind (git_modify (\<lambda>st. st\<lparr>syn_head := Some moved, syn_generation := syn_generation st + 1\<rparr>)) (\<lambda>_.
     git_return True)))"

definition fast_forward :: "'w git_env \<Rightarrow> git_config \<Rightarrow> ustr \<Rightarrow> ustr \<Rightarrow> ustr \<Rightarrow> ('w, bool) git_prog" where
  "fast_forward env cfg repo head remote =
     git_bind (git_modify (\<lambda>st. st\<lparr>syn_remote := Some remote, syn_head := Some head\<rparr>)) (\<lambda>_.
     if head = remote then git_return False
     else git_bind (git_text env cfg repo TRACKED_CHANGES) (\<lambda>changes.
       if changes \<noteq> []
       then git_raise (Git_sync_error (lit ''local tracked changes present; fast-forward skipped'') Git_blocked)
       else git_bind (git_ok env cfg repo (IS_ANCESTOR head remote)) (\<lambda>behind.
         if \<not> behind then refuse_fast_forward env cfg repo head remote
         else move_head env cfg repo remote)))"

definition sync_once :: "'w git_env \<Rightarrow> git_config \<Rightarrow> ustr \<Rightarrow> ('w, bool) git_prog" where
  "sync_once env cfg dir =
     git_bind (git_bind (git_fetch_field syn_repo_root) (\<lambda>known. case known of
         Some repo \<Rightarrow> git_return repo
       | None \<Rightarrow> resolve_git_repo_root env cfg dir)) (\<lambda>repo.
     git_bind (git_modify (\<lambda>st. st\<lparr>syn_repo_root := Some repo\<rparr>)) (\<lambda>_.
     git_bind (git_text env cfg repo CURRENT_BRANCH) (\<lambda>current.
       if gc_branch cfg \<noteq> None \<and> gc_branch cfg \<noteq> Some current
       then git_raise (Git_sync_error (lit ''checked-out branch '' @ git_repr env current @
              lit '' differs from configured '' @ git_repr env (the (gc_branch cfg)) @
              lit ''; not switching branches'') Git_blocked)
       else git_bind (git_modify (\<lambda>st. st\<lparr>syn_branch := Some current\<rparr>)) (\<lambda>_.
         git_bind (upstream_branch env cfg repo current) (\<lambda>branch.
         git_bind (git_modify (\<lambda>st. st\<lparr>syn_fetch_count := syn_fetch_count st + 1\<rparr>)) (\<lambda>_.
         git_bind (git_text env cfg repo (FETCH cfg branch)) (\<lambda>_.
         git_bind (git_text env cfg repo (REF_COMMIT (remote_ref_for cfg branch))) (\<lambda>remote.
         git_bind (git_text env cfg repo HEAD_COMMIT) (\<lambda>head.
           fast_forward env cfg repo head remote)))))))))"

section \<open>Running and requesting a synchronisation\<close>

definition record_failure :: "ustr \<Rightarrow> git_state \<Rightarrow> syncer \<Rightarrow> syncer" where
  "record_failure message state st =
     st\<lparr>syn_last_error := Some (sanitize_git_message message), syn_state := state\<rparr>"

text \<open>\<open>_run_sync\<close> up to its \<open>finally\<close> block, which is the release of the event.\<close>

definition run_sync ::
  "'w git_env \<Rightarrow> git_config \<Rightarrow> ustr \<Rightarrow> real \<Rightarrow> real \<Rightarrow> syncer \<times> 'w \<Rightarrow> syncer \<times> 'w" where
  "run_sync env cfg dir started_at finished_at s =
     (case sync_once env cfg dir (let (st, w) = s in (st\<lparr>syn_last_attempt_at := Some started_at\<rparr>, w)) of
        (Inr changed, st, w) \<Rightarrow> (st\<lparr>syn_last_error := None, syn_last_success_at := Some finished_at,
            syn_state := (if changed then Git_updated else Git_synced)\<rparr>, w)
      | (Inl (Git_sync_error message state), st, w) \<Rightarrow> (record_failure message state st, w)
      | (Inl Git_timeout, st, w) \<Rightarrow> (record_failure (lit ''git command timed out after '' @
            int_str (round_half_even (gc_timeout cfg)) @ [115]) Git_failed st, w)
      | (Inl (Git_unexpected cls), st, w) \<Rightarrow>
          (record_failure (lit ''unexpected git sync failure: '' @ cls) Git_failed st, w))"

definition is_due :: "git_config \<Rightarrow> real \<Rightarrow> syncer \<Rightarrow> bool" where
  "is_due cfg now st \<longleftrightarrow>
     (case syn_last_attempt st of None \<Rightarrow> True | Some a \<Rightarrow> now - a \<ge> gc_cooldown cfg)"

text \<open>The locked part of \<open>ensure_fresh\<close>: the event to wait for, and the state.\<close>

definition begin_request :: "git_config \<Rightarrow> nat \<Rightarrow> real \<Rightarrow> syncer \<Rightarrow> nat option \<times> syncer" where
  "begin_request cfg event now st =
     (if syn_in_flight st = None \<and> is_due cfg now st
      then (Some event, st\<lparr>syn_in_flight := Some event, syn_last_attempt := Some now\<rparr>)
      else (syn_in_flight st, st))"

text \<open>The rest of it: whether the answer is marked stale.\<close>

definition request_stale :: "nat option \<Rightarrow> bool \<Rightarrow> syncer \<Rightarrow> bool" where
  "request_stale event waited_out st \<longleftrightarrow>
     (event \<noteq> None \<and> waited_out) \<or> syn_last_error st \<noteq> None"

record git_status =
  gst_state :: git_state
  gst_in_progress :: bool
  gst_stale :: bool
  gst_remote :: ustr
  gst_branch :: "ustr option"
  gst_head :: "ustr option"
  gst_remote_sha :: "ustr option"
  gst_last_attempt_at :: "real option"
  gst_last_success_at :: "real option"
  gst_last_error :: "ustr option"
  gst_fetch_count :: nat

definition syncer_status :: "git_config \<Rightarrow> syncer \<Rightarrow> git_status" where
  "syncer_status cfg st =
     (let in_progress = syn_in_flight st \<noteq> None
      in \<lparr>gst_state = syn_state st, gst_in_progress = in_progress,
          gst_stale = (in_progress \<or> syn_last_error st \<noteq> None), gst_remote = gc_remote cfg,
          gst_branch = syn_branch st, gst_head = syn_head st, gst_remote_sha = syn_remote st,
          gst_last_attempt_at = syn_last_attempt_at st, gst_last_success_at = syn_last_success_at st,
          gst_last_error = syn_last_error st, gst_fetch_count = syn_fetch_count st\<rparr>)"

end
