(* ===== verification/Git_Sync_Props.thy ===== *)
theory Git_Sync_Props
  imports Git_Sync
begin

text \<open>
  What a synchronisation may do to the checkout (assertions on the log of git commands, with rules for
  the programs of \<open>Git_Sync\<close>), what the threads may do to each other (a step relation with an
  invariant), and what of an error message is shown.
\<close>

section \<open>The commands of a synchronisation\<close>

text \<open>Every command with its outcome, in order.\<close>

type_synonym git_log = "(ustr list \<times> git_outcome) list"

definition logged :: "'w git_env \<Rightarrow> ('w \<times> git_log) git_env" where
  "logged env = \<lparr>git_run = (\<lambda>args repo timeout (w, tr).
       let (out, w') = git_run env args repo timeout w in (out, w', tr @ [(args, out)])),
     git_repr = git_repr env\<rparr>"

definition answered :: "git_log \<Rightarrow> ustr list \<Rightarrow> ustr \<Rightarrow> bool" where
  "answered tr args text \<longleftrightarrow> (\<exists>out err. (args, Completed 0 out err) \<in> set tr \<and> strip out = text)"

text \<open>What must be in the log before a fast-forward to \<open>sha\<close>.\<close>

definition may_fast_forward :: "git_config \<Rightarrow> git_log \<Rightarrow> ustr \<Rightarrow> bool" where
  "may_fast_forward cfg tr sha \<longleftrightarrow>
     (\<exists>branch. answered tr CURRENT_BRANCH branch \<and> gc_branch cfg \<in> {None, Some branch}) \<and>
     answered tr TRACKED_CHANGES [] \<and>
     (\<exists>upstream. (\<exists>out. (FETCH cfg upstream, out) \<in> set tr) \<and>
        answered tr (REF_COMMIT (remote_ref_for cfg upstream)) sha) \<and>
     (\<exists>head. head \<noteq> sha \<and> answered tr HEAD_COMMIT head \<and>
        (\<exists>text. answered tr (IS_ANCESTOR head sha) text))"

definition inspection :: "ustr list \<Rightarrow> bool" where
  "inspection args \<longleftrightarrow> hd args \<in> set (map lit [''rev-parse'', ''symbolic-ref'', ''config'', ''status'', ''merge-base''])"

definition command_ok :: "git_config \<Rightarrow> git_log \<Rightarrow> ustr list \<Rightarrow> bool" where
  "command_ok cfg tr args \<longleftrightarrow> inspection args \<or> (\<exists>upstream. args = FETCH cfg upstream) \<or>
     (\<exists>sha. args = FAST_FORWARD sha \<and> may_fast_forward cfg tr sha)"

fun log_ok :: "git_config \<Rightarrow> git_log \<Rightarrow> git_log \<Rightarrow> bool" where
  "log_ok cfg before [] \<longleftrightarrow> True"
| "log_ok cfg before (entry # tr) \<longleftrightarrow> command_ok cfg before (fst entry) \<and> log_ok cfg (before @ [entry]) tr"

lemma log_ok_snoc [simp]:
  "log_ok cfg before (tr @ [entry]) \<longleftrightarrow> log_ok cfg before tr \<and> command_ok cfg (before @ tr) (fst entry)"
  by (induction tr arbitrary: before) auto

lemma answered_mono: "answered tr args text \<Longrightarrow> set tr \<subseteq> set tr' \<Longrightarrow> answered tr' args text"
  by (auto simp: answered_def)

section \<open>Rules\<close>

text \<open>
  \<open>keeps cfg P m Q\<close>: from a tr of allowed commands with \<open>P\<close>, the program adds only allowed
  commands, and when it returns a value \<open>Q\<close> holds of it and of the log.
\<close>

definition keeps ::
  "git_config \<Rightarrow> (git_log \<Rightarrow> bool) \<Rightarrow> ('w \<times> git_log, 'a) git_prog \<Rightarrow> ('a \<Rightarrow> git_log \<Rightarrow> bool) \<Rightarrow> bool" where
  "keeps cfg P m Q \<longleftrightarrow> (\<forall>st w tr r st' w' tr'. m (st, w, tr) = (r, st', w', tr') \<longrightarrow>
     log_ok cfg [] tr \<longrightarrow> P tr \<longrightarrow>
     log_ok cfg [] tr' \<and> (case r of Inl e \<Rightarrow> True | Inr x \<Rightarrow> Q x tr'))"

lemma keepsI:
  assumes "\<And>st w tr r st' w' tr'. m (st, w, tr) = (r, st', w', tr') \<Longrightarrow> log_ok cfg [] tr \<Longrightarrow> P tr \<Longrightarrow>
    log_ok cfg [] tr' \<and> (case r of Inl e \<Rightarrow> True | Inr x \<Rightarrow> Q x tr')"
  shows "keeps cfg P m Q"
  using assms unfolding keeps_def by blast

lemma keepsD:
  "keeps cfg P m Q \<Longrightarrow> m (st, w, tr) = (r, st', w', tr') \<Longrightarrow> log_ok cfg [] tr \<Longrightarrow> P tr \<Longrightarrow>
   log_ok cfg [] tr' \<and> (case r of Inl e \<Rightarrow> True | Inr x \<Rightarrow> Q x tr')"
  unfolding keeps_def by blast

lemma keeps_bind:
  assumes "keeps cfg P m R" and "\<And>x. keeps cfg (R x) (f x) Q"
  shows "keeps cfg P (git_bind m f) Q"
proof (rule keepsI)
  fix st w tr r st' w' tr'
  assume run: "git_bind m f (st, w, tr) = (r, st', w', tr')" and ok: "log_ok cfg [] tr" and P: "P tr"
  obtain r1 st1 w1 log1 where m: "m (st, w, tr) = (r1, st1, w1, log1)" by (metis prod.exhaust)
  note first_part = keepsD [OF assms(1) m ok P]
  show "log_ok cfg [] tr' \<and> (case r of Inl e \<Rightarrow> True | Inr x \<Rightarrow> Q x tr')"
  proof (cases r1)
    case (Inl e)
    then show ?thesis using run m first_part by (auto simp: git_bind_def)
  next
    case (Inr x)
    then have "f x (st1, w1, log1) = (r, st', w', tr')" using run m by (simp add: git_bind_def)
    from keepsD [OF assms(2) this] Inr first_part show ?thesis by simp
  qed
qed

lemma keeps_return: "(\<And>tr. P tr \<Longrightarrow> Q x tr) \<Longrightarrow> keeps cfg P (git_return x) Q"
  by (rule keepsI) (auto simp: git_return_def)

lemma keeps_raise: "keeps cfg P (git_raise e) Q"
  by (rule keepsI) (auto simp: git_raise_def)

lemma keeps_modify: "keeps cfg P (git_modify f) (\<lambda>_. P)"
  by (rule keepsI) (auto simp: git_modify_def)

lemma keeps_fetch_field: "keeps cfg P (git_fetch_field f) (\<lambda>_. P)"
  by (rule keepsI) (auto simp: git_fetch_field_def)

text \<open>A command may run when it is allowed by what the log holds; what is known of the log stays known.\<close>

definition lasting :: "(git_log \<Rightarrow> bool) \<Rightarrow> bool" where
  "lasting P \<longleftrightarrow> (\<forall>tr entry. P tr \<longrightarrow> P (tr @ [entry]))"

lemma lastingD: "lasting P \<Longrightarrow> P tr \<Longrightarrow> P (tr @ [entry])"
  unfolding lasting_def by blast

lemma lasting_known: "lasting (\<lambda>_. True)" "lasting (\<lambda>tr. answered tr args text)" "lasting (\<lambda>tr. (args, out) \<in> set tr)"
  by (auto simp: lasting_def answered_def)

lemma lasting_conj: "lasting P \<Longrightarrow> lasting Q \<Longrightarrow> lasting (\<lambda>tr. P tr \<and> Q tr)"
  unfolding lasting_def by blast

lemma lasting_ex: "(\<And>x. lasting (R x)) \<Longrightarrow> lasting (\<lambda>tr. \<exists>x. R x tr)"
  unfolding lasting_def by blast

lemma lasting_imp: "(c \<Longrightarrow> lasting P) \<Longrightarrow> lasting (\<lambda>tr. c \<longrightarrow> P tr)"
  unfolding lasting_def by blast

lemma keeps_call:
  assumes "lasting P" and "\<And>tr. P tr \<Longrightarrow> command_ok cfg tr args"
  shows "keeps cfg P (git_call (logged env) cfg repo args)
    (\<lambda>(code, out, err) tr. P tr \<and> (args, Completed code out err) \<in> set tr)"
proof (rule keepsI)
  fix st w tr r st' w' tr'
  assume run: "git_call (logged env) cfg repo args (st, w, tr) = (r, st', w', tr')"
    and ok: "log_ok cfg [] tr" and P: "P tr"
  obtain out w1 where out: "git_run env args repo (gc_timeout cfg) w = (out, w1)" by (rule prod.exhaust)
  have "tr' = tr @ [(args, out)]"
    using run by (auto simp: git_call_def logged_def out split: git_outcome.splits)
  moreover have "r = Inr (code, o', err) \<Longrightarrow> out = Completed code o' err" for code o' err
    using run by (auto simp: git_call_def logged_def out split: git_outcome.splits)
  ultimately show "log_ok cfg [] tr' \<and>
      (case r of Inl e \<Rightarrow> True | Inr x \<Rightarrow> (case x of (code, out, err) \<Rightarrow>
         \<lambda>tr. P tr \<and> (args, Completed code out err) \<in> set tr) tr')"
    using ok assms(2) [OF P] lastingD [OF assms(1) P] by (auto split: sum.splits)
qed

lemma keeps_text:
  assumes "lasting P" and "\<And>tr. P tr \<Longrightarrow> command_ok cfg tr args"
  shows "keeps cfg P (git_text (logged env) cfg repo args) (\<lambda>text tr. P tr \<and> answered tr args text)"
  unfolding git_text_def
  by (rule keeps_bind [OF keeps_call [OF assms]])
    (auto simp: answered_def intro!: keeps_raise keeps_return split: prod.splits)

lemma keeps_ok:
  assumes "lasting P" and "\<And>tr. P tr \<Longrightarrow> command_ok cfg tr args"
  shows "keeps cfg P (git_ok (logged env) cfg repo args)
    (\<lambda>yes tr. P tr \<and> (yes \<longrightarrow> (\<exists>text. answered tr args text)))"
  unfolding git_ok_def
  by (rule keeps_bind [OF keeps_call [OF assms]])
    (auto simp: answered_def intro!: keeps_return split: prod.splits)

lemma keeps_weaken: "keeps cfg P m Q \<Longrightarrow> (\<And>tr. P' tr \<Longrightarrow> P tr) \<Longrightarrow> (\<And>x tr. Q x tr \<Longrightarrow> Q' x tr) \<Longrightarrow> keeps cfg P' m Q'"
  unfolding keeps_def by (fastforce split: sum.splits)

section \<open>A synchronisation\<close>

lemma inspections [simp]:
  "inspection CURRENT_BRANCH" "inspection HEAD_COMMIT" "inspection (REF_COMMIT ref)" "inspection TRACKED_CHANGES"
  "inspection (IS_ANCESTOR a b)" "inspection (map lit [''rev-parse'', ''--show-toplevel''])"
  "inspection [lit ''config'', x, y]"
  by (simp_all add: inspection_def CURRENT_BRANCH_def HEAD_COMMIT_def REF_COMMIT_def TRACKED_CHANGES_def
      IS_ANCESTOR_def)

lemma inspection_ok: "inspection args \<Longrightarrow> command_ok cfg tr args"
  by (simp add: command_ok_def)

lemma keeps_repo_root:
  "keeps cfg (\<lambda>_. True) (resolve_git_repo_root (logged env) cfg dir) (\<lambda>_ _. True)"
proof (rule keepsI)
  fix st w tr r st' w' tr'
  assume run: "resolve_git_repo_root (logged env) cfg dir (st, w, tr) = (r, st', w', tr')"
    and ok: "log_ok cfg [] tr"
  obtain out w1 where out: "git_run env (map lit [''rev-parse'', ''--show-toplevel'']) dir (gc_timeout cfg) w = (out, w1)"
    by (rule prod.exhaust)
  have "tr' = tr @ [(map lit [''rev-parse'', ''--show-toplevel''], out)]"
    using run by (auto simp: resolve_git_repo_root_def logged_def out [simplified] split: git_outcome.splits)
  then show "log_ok cfg [] tr' \<and> (case r of Inl e \<Rightarrow> True | Inr x \<Rightarrow> True)"
    using ok inspection_ok [OF inspections(6)] by (simp split: sum.splits)
qed

lemma keeps_upstream:
  assumes "lasting P"
  shows "keeps cfg P (upstream_branch (logged env) cfg repo branch) (\<lambda>_. P)"
  unfolding upstream_branch_def
  by (rule keeps_bind [OF keeps_call [OF assms]]) (auto simp: inspection_ok Let_def intro!: keeps_return split: prod.splits)

lemma keeps_if:
  "(c \<Longrightarrow> keeps cfg P a Q) \<Longrightarrow> (\<not> c \<Longrightarrow> keeps cfg P b Q) \<Longrightarrow> keeps cfg P (if c then a else b) Q"
  by simp

lemma keeps_any: "keeps cfg P m Q \<Longrightarrow> keeps cfg P m (\<lambda>_ _. True)"
  by (erule keeps_weaken) simp_all

text \<open>The fast-forward, from what is known of both commits.\<close>

definition commits_known :: "git_config \<Rightarrow> ustr \<Rightarrow> ustr \<Rightarrow> git_log \<Rightarrow> bool" where
  "commits_known cfg head sha tr \<longleftrightarrow> answered tr HEAD_COMMIT head \<and>
     (\<exists>branch. answered tr CURRENT_BRANCH branch \<and> gc_branch cfg \<in> {None, Some branch}) \<and>
     (\<exists>upstream. (\<exists>out. (FETCH cfg upstream, out) \<in> set tr) \<and>
        answered tr (REF_COMMIT (remote_ref_for cfg upstream)) sha)"

lemma lasting_commits: "lasting (commits_known cfg head sha)"
  unfolding commits_known_def
  by (intro lasting_conj lasting_ex lasting_known) (simp add: lasting_def)

lemma keeps_move_head:
  assumes "\<And>tr. P tr \<Longrightarrow> command_ok cfg tr (FAST_FORWARD sha)" and "lasting P"
  shows "keeps cfg P (move_head (logged env) cfg repo sha) (\<lambda>_ _. True)"
  unfolding move_head_def
  by (intro keeps_bind [OF keeps_text [OF assms(2,1)]] keeps_weaken [OF keeps_bind [OF keeps_text
        [OF lasting_known(1) inspection_ok]]] keeps_bind [OF keeps_modify] keeps_return) simp_all

lemma keeps_refuse: "lasting P \<Longrightarrow> keeps cfg P (refuse_fast_forward (logged env) cfg repo head sha) (\<lambda>_ _. True)"
  unfolding refuse_fast_forward_def
  by (rule keeps_bind [OF keeps_ok [OF _ inspection_ok] keeps_raise]) simp_all

lemma keeps_fast_forward:
  "keeps cfg (commits_known cfg head sha) (fast_forward (logged env) cfg repo head sha) (\<lambda>_ _. True)"
proof -
  let ?clean = "\<lambda>tr. commits_known cfg head sha tr \<and> answered tr TRACKED_CHANGES []"
  let ?behind = "\<lambda>tr. ?clean tr \<and> (\<exists>text. answered tr (IS_ANCESTOR head sha) text)"
  have clean: "lasting ?clean" by (rule lasting_conj [OF lasting_commits lasting_known(2)])
  have behind: "lasting ?behind" by (rule lasting_conj [OF clean lasting_ex [OF lasting_known(2)]])
  have move: "keeps cfg ?behind (move_head (logged env) cfg repo sha) (\<lambda>_ _. True)" if "head \<noteq> sha"
    by (rule keeps_move_head [OF _ behind])
      (use that in \<open>auto simp: command_ok_def may_fast_forward_def commits_known_def\<close>)
  have decide: "keeps cfg ?clean (git_bind (git_ok (logged env) cfg repo (IS_ANCESTOR head sha)) (\<lambda>behind.
      if \<not> behind then refuse_fast_forward (logged env) cfg repo head sha else move_head (logged env) cfg repo sha))
      (\<lambda>_ _. True)" if "head \<noteq> sha"
    by (intro keeps_bind [OF keeps_ok [OF clean inspection_ok]] keeps_if keeps_weaken [OF move [OF that]]
        keeps_weaken [OF keeps_refuse [OF clean]]) auto
  show ?thesis
    unfolding fast_forward_def
    by (intro keeps_bind [OF keeps_modify] keeps_if keeps_return
        keeps_bind [OF keeps_text [OF lasting_commits inspection_ok]] keeps_raise keeps_weaken [OF decide]) auto
qed

lemma command_ok_fetch: "command_ok cfg tr (FETCH cfg upstream)"
  by (auto simp: command_ok_def)

lemma keeps_sync_once: "keeps cfg (\<lambda>_. True) (sync_once (logged env) cfg dir) (\<lambda>_ _. True)"
proof -
  let ?on = "\<lambda>branch tr. answered tr CURRENT_BRANCH branch \<and> (gc_branch cfg = None \<or> gc_branch cfg = Some branch)"
  let ?fetched = "\<lambda>branch upstream tr. ?on branch tr \<and> (\<exists>text. answered tr (FETCH cfg upstream) text)"
  let ?remote = "\<lambda>branch upstream sha tr. ?fetched branch upstream tr \<and>
      answered tr (REF_COMMIT (remote_ref_for cfg upstream)) sha"
  have on: "lasting (?on branch)" for branch by (rule lasting_conj [OF lasting_known(2)]) (simp add: lasting_def)
  have fetched: "lasting (?fetched branch upstream)" for branch upstream
    by (rule lasting_conj [OF on lasting_ex [OF lasting_known(2)]])
  have remote: "lasting (?remote branch upstream sha)" for branch upstream sha
    by (rule lasting_conj [OF fetched lasting_known(2)])
  have forward: "keeps cfg (\<lambda>tr. ?remote branch upstream sha tr \<and> answered tr HEAD_COMMIT head)
      (fast_forward (logged env) cfg repo head sha) (\<lambda>_ _. True)" for branch upstream sha head repo
    by (rule keeps_weaken [OF keeps_fast_forward]) (auto simp: commits_known_def answered_def)
  have fetch: "keeps cfg (?on branch) (git_bind (git_text (logged env) cfg repo (FETCH cfg upstream)) (\<lambda>_.
      git_bind (git_text (logged env) cfg repo (REF_COMMIT (remote_ref_for cfg upstream))) (\<lambda>sha.
      git_bind (git_text (logged env) cfg repo HEAD_COMMIT) (\<lambda>head.
        fast_forward (logged env) cfg repo head sha)))) (\<lambda>_ _. True)" for branch upstream repo
    by (intro keeps_bind [OF keeps_weaken [OF keeps_text [OF on command_ok_fetch], where Q' = "\<lambda>_. ?fetched branch upstream"]]
        keeps_bind [OF keeps_text [OF fetched inspection_ok]] keeps_bind [OF keeps_text [OF remote inspection_ok]] forward)
      auto
  have checked: "keeps cfg (\<lambda>tr. True \<and> answered tr CURRENT_BRANCH current)
      (if gc_branch cfg \<noteq> None \<and> gc_branch cfg \<noteq> Some current then git_raise e
       else git_bind (git_modify f) (\<lambda>_. git_bind (upstream_branch (logged env) cfg repo current) (\<lambda>branch.
         git_bind (git_modify g) (\<lambda>_. git_bind (git_text (logged env) cfg repo (FETCH cfg branch)) (\<lambda>_.
         git_bind (git_text (logged env) cfg repo (REF_COMMIT (remote_ref_for cfg branch))) (\<lambda>sha.
         git_bind (git_text (logged env) cfg repo HEAD_COMMIT) (\<lambda>head.
           fast_forward (logged env) cfg repo head sha))))))) (\<lambda>_ _. True)" for current e f g repo
    by (intro keeps_if keeps_raise keeps_weaken [where P = "?on current",
        OF keeps_bind [OF keeps_modify keeps_bind [OF keeps_upstream [OF on] keeps_bind [OF keeps_modify fetch]]]])
      auto
  have root: "keeps cfg (\<lambda>_. True) (git_bind (git_fetch_field syn_repo_root) (\<lambda>known. case known of
      Some repo \<Rightarrow> git_return repo | None \<Rightarrow> resolve_git_repo_root (logged env) cfg dir)) (\<lambda>_ _. True)"
    by (rule keeps_bind [OF keeps_fetch_field]) (auto intro: keeps_return keeps_repo_root split: option.splits)
  show ?thesis
    unfolding sync_once_def
    by (rule keeps_bind [OF root keeps_bind [OF keeps_modify
        keeps_bind [OF keeps_text [OF lasting_known(1) inspection_ok [OF inspections(1)]] checked]]])
qed

text \<open>
  C14: A synchronisation never overwrites local work. Whatever git answers, every command it runs
  either inspects the checkout, or fetches the configured remote's branch into its remote-tracking
  reference, or is a fast-forward merge; and before the merge git has answered, in this
  synchronisation, that the checked-out branch is the configured one, that no tracked file is changed,
  that the merged commit is the one the fetched reference points to and not the checked-out one, and
  that the checked-out commit is an ancestor of it.
\<close>
theorem sync_keeps_local_work:
  "case sync_once (logged env) cfg dir (st, w, []) of (r, st', w', commands) \<Rightarrow> log_ok cfg [] commands"
proof -
  obtain r st' w' commands where run: "sync_once (logged env) cfg dir (st, w, []) = (r, st', w', commands)"
    by (metis prod.exhaust)
  from keepsD [OF keeps_sync_once run] show ?thesis by (simp add: run)
qed

section \<open>Messages\<close>

text \<open>The user parts a text shows before an at sign, in the sense of \<open>_CREDENTIAL_IN_URL\<close>.\<close>

definition shown_credentials :: "ustr \<Rightarrow> ustr set" where
  "shown_credentials s = {u. u \<noteq> [] \<and> list_all credential_char u \<and> (\<exists>a b. s = a @ lit ''://'' @ u @ [64] @ b)}"

lemma shown_Cons: "shown_credentials (c # s) = shown_credentials s \<union>
    {u. u \<noteq> [] \<and> list_all credential_char u \<and> (\<exists>b. c # s = lit ''://'' @ u @ [64] @ b)}"
proof -
  have "(\<exists>a b. c # s = a @ t @ b) \<longleftrightarrow> (\<exists>a b. s = a @ t @ b) \<or> (\<exists>b. c # s = t @ b)" for t :: ustr
    by (metis append_Cons append_Nil list.exhaust list.inject)
  from this [of "lit ''://'' @ u @ [64]" for u] show ?thesis
    by (auto simp: shown_credentials_def)
qed

lemma credential_rest_None:
  assumes "credential_rest s = None" and "u \<noteq> []" and "list_all credential_char u"
  shows "s \<noteq> lit ''://'' @ u @ [64] @ b"
proof
  assume s: "s = lit ''://'' @ u @ [64] @ b"
  have "takeWhile credential_char (drop 3 s) = u" "dropWhile credential_char (drop 3 s) = [64] @ b"
    using assms(3) by (simp_all add: s lit_def list_all_iff takeWhile_append2 dropWhile_append2 credential_char_def)
  with assms(1,2) s show False by (simp add: credential_rest_def)
qed

text \<open>What the redacted text begins with comes from the text, unless it is a redaction.\<close>

lemma redact_first: "redact s = d # q \<Longrightarrow> (\<exists>s'. s = d # s' \<and> q = redact s') \<or> (d = 58 \<and> take 2 q = [47, 47])"
  by (cases s) (auto simp: lit_def split: option.splits)

lemma redact_slashes: "redact s = 47 # 47 # q \<Longrightarrow> \<exists>s'. s = 47 # 47 # s' \<and> q = redact s'"
  using redact_first [of s 47 "47 # q"] redact_first [of _ 47 q] by fastforce

lemma redact_user: "list_all credential_char u \<Longrightarrow> redact s = u @ 64 # b \<Longrightarrow> \<exists>b'. s = u @ 64 # b'"
proof (induction u arbitrary: s)
  case Nil
  with redact_first [of s 64 b] show ?case by auto
next
  case (Cons d u)
  have "take 2 (u @ 64 # b) \<noteq> [47, 47]" using Cons.prems(1) by (cases u) (auto simp: credential_char_def)
  with redact_first [of s d "u @ 64 # b"] Cons.prems(2) obtain s' where "s = d # s'" "redact s' = u @ 64 # b" by auto
  with Cons.IH [of s'] Cons.prems(1) show ?case by auto
qed

lemma stars_unique:
  assumes "list_all credential_char u" and "u @ 64 # b = v @ 64 # c" and "list_all credential_char v"
  shows "u = v"
proof -
  have "takeWhile credential_char (u @ 64 # b) = u" "takeWhile credential_char (v @ 64 # c) = v"
    using assms(1,3) by (simp_all add: list_all_iff takeWhile_append2 credential_char_def)
  with assms(2) show ?thesis by simp
qed

lemma redact_shows: "shown_credentials (redact s) \<subseteq> {lit ''***''}"
proof (induction s rule: redact.induct)
  case 1
  then show ?case by (auto simp: shown_credentials_def)
next
  case (2 c s)
  show ?case
  proof (cases "credential_rest (c # s)")
    case None
    have "u = lit ''***''" if u: "u \<noteq> []" "list_all credential_char u" "c # redact s = lit ''://'' @ u @ [64] @ b" for u b
    proof -
      have c: "c = 58" "redact s = 47 # 47 # u @ 64 # b" using u(3) by (simp_all add: lit_def)
      from redact_slashes [OF c(2)] obtain s' where s': "s = 47 # 47 # s'" "redact s' = u @ 64 # b" by metis
      from redact_user [OF u(2) s'(2)] obtain b' where "s' = u @ 64 # b'" by blast
      with s' c have "c # s = lit ''://'' @ u @ [64] @ b'" by (simp add: lit_def)
      with credential_rest_None [OF None u(1,2)] show ?thesis by blast
    qed
    then show ?thesis using 2(1) [OF None] None by (auto simp: shown_Cons)
  next
    case (Some rest)
    have stars: "list_all credential_char (lit ''***'')" by (simp add: lit_def credential_char_def is_space_def)
    have "u = lit ''***''" if "list_all credential_char u" "lit ''://***@'' @ t = lit ''://'' @ u @ [64] @ b" for u b t
      using stars_unique [OF that(1) _ stars, of b t] that(2) by (simp add: lit_def)
    moreover have "lit ''://***@'' @ t = 58 # 47 # 47 # 42 # 42 # 42 # 64 # t" for t by (simp add: lit_def)
    moreover have "hd (lit ''://'' @ t) = 58" for t by (simp add: lit_def)
    ultimately have "shown_credentials (lit ''://***@'' @ redact rest) \<subseteq> insert (lit ''***'') (shown_credentials (redact rest))"
      by (auto simp: shown_Cons lit_def)
    then show ?thesis using 2(2) [OF Some] Some by auto
  qed
qed

lemma shown_clipped: "shown_credentials (take n s @ lit ''...'') \<subseteq> shown_credentials s"
proof
  fix u assume "u \<in> shown_credentials (take n s @ lit ''...'')"
  then obtain a b where u: "u \<noteq> []" "list_all credential_char u"
    and eq: "take n s @ lit ''...'' = (a @ lit ''://'' @ u) @ 64 # b" by (auto simp: shown_credentials_def)
  have "\<exists>b'. take n s = (a @ lit ''://'' @ u) @ 64 # b'"
  proof -
    from eq obtain us where "(take n s = (a @ lit ''://'' @ u) @ us \<and> us @ lit ''...'' = 64 # b) \<or>
        (take n s @ us = a @ lit ''://'' @ u \<and> lit ''...'' = us @ 64 # b)"
      unfolding append_eq_append_conv2 by blast
    moreover have "lit ''...'' \<noteq> us @ 64 # b" for us
    proof
      assume "lit ''...'' = us @ 64 # b"
      then have "64 \<in> set (lit ''...'')" by simp
      then show False by (simp add: lit_def)
    qed
    ultimately have "take n s = (a @ lit ''://'' @ u) @ us" "us @ lit ''...'' = 64 # b" by blast+
    moreover from this(2) have "us = 64 # tl us" by (cases us) (auto simp: lit_def)
    ultimately show ?thesis by metis
  qed
  then obtain b' where "take n s = (a @ lit ''://'' @ u) @ 64 # b'" by blast
  then have "s = a @ lit ''://'' @ u @ [64] @ (b' @ drop n s)" by (metis append.assoc append_Cons append_Nil append_take_drop_id)
  with u show "u \<in> shown_credentials s" unfolding shown_credentials_def by blast
qed

text \<open>
  C15: The error text of a synchronisation that is logged and served has at most 300 characters and
  shows no user or password of a URL: the only text between a \<open>://\<close> and an at sign is the mark
  that replaced one.
\<close>
theorem message_shows_no_credentials:
  "shown_credentials (sanitize_git_message message) \<subseteq> {lit ''***''} \<and>
   length (sanitize_git_message message) \<le> GIT_ERROR_MAX_CHARS"
  using redact_shows [of "collapse_ws message"] shown_clipped [of "GIT_ERROR_MAX_CHARS - 3" "redact (collapse_ws message)"]
  by (auto simp: sanitize_git_message_def Let_def) (simp_all add: GIT_ERROR_MAX_CHARS_def lit_def)

end
