(* ===== verification/Git_Threads.thy ===== *)
theory Git_Threads
  imports Git_Sync_Props
begin

text \<open>
  The threads around a synchronisation: requests that start or join one, the thread that runs it, and
  its release. The synchronisation thread is one step and its release another; the fields it writes in
  between are read by nobody but the status.
\<close>

section \<open>The step relation\<close>

datatype sync_phase = No_sync | Syncing nat | Recorded nat

text \<open>
  The last three fields are history: when synchronisations were started, which of them finished and
  whether they succeeded (both newest first), and which events are set.
\<close>

record 'w git_system =
  gs_syncer :: syncer
  gs_world :: 'w
  gs_now :: real
  gs_phase :: sync_phase
  gs_attempts :: "real list"
  gs_done :: "(real \<times> bool) list"
  gs_released :: "nat set"

definition git_start :: "git_config \<Rightarrow> real \<Rightarrow> 'w \<Rightarrow> 'w git_system" where
  "git_start cfg now w = \<lparr>gs_syncer = new_syncer cfg, gs_world = w, gs_now = now, gs_phase = No_sync,
     gs_attempts = [], gs_done = [], gs_released = {}\<rparr>"

inductive git_step :: "'w git_env \<Rightarrow> git_config \<Rightarrow> ustr \<Rightarrow> 'w git_system \<Rightarrow> 'w git_system \<Rightarrow> bool"
  for env cfg dir where
  time_passes: "gs_now sys \<le> now \<Longrightarrow> git_step env cfg dir sys (sys\<lparr>gs_now := now\<rparr>)"
| world_changes: "git_step env cfg dir sys (sys\<lparr>gs_world := w\<rparr>)"
| request_starts: "begin_request cfg (length (gs_attempts sys)) (gs_now sys) (gs_syncer sys) = (event, st) \<Longrightarrow>
    syn_in_flight (gs_syncer sys) = None \<Longrightarrow> event \<noteq> None \<Longrightarrow>
    git_step env cfg dir sys (sys\<lparr>gs_syncer := st, gs_phase := Syncing (the event),
      gs_attempts := gs_now sys # gs_attempts sys\<rparr>)"
| request_joins: "begin_request cfg (length (gs_attempts sys)) (gs_now sys) (gs_syncer sys) = (event, st) \<Longrightarrow>
    syn_in_flight (gs_syncer sys) = event \<Longrightarrow> git_step env cfg dir sys (sys\<lparr>gs_syncer := st\<rparr>)"
| sync: "gs_phase sys = Syncing event \<Longrightarrow>
    run_sync env cfg dir started finished (gs_syncer sys, gs_world sys) = (st, w) \<Longrightarrow>
    git_step env cfg dir sys (sys\<lparr>gs_syncer := st, gs_world := w, gs_phase := Recorded event,
      gs_done := (hd (gs_attempts sys), syn_last_error st = None) # gs_done sys\<rparr>)"
| release: "gs_phase sys = Recorded event \<Longrightarrow>
    git_step env cfg dir sys (sys\<lparr>gs_syncer := (gs_syncer sys)\<lparr>syn_in_flight := None\<rparr>, gs_phase := No_sync,
      gs_released := insert event (gs_released sys)\<rparr>)"

inductive git_reachable :: "'w git_env \<Rightarrow> git_config \<Rightarrow> ustr \<Rightarrow> real \<Rightarrow> 'w git_system \<Rightarrow> bool"
  for env cfg dir t0 where
  reach_start: "git_reachable env cfg dir t0 (git_start cfg t0 w)"
| reach_step: "git_reachable env cfg dir t0 sys \<Longrightarrow> git_step env cfg dir sys sys' \<Longrightarrow> git_reachable env cfg dir t0 sys'"

inductive_cases git_stepE: "git_step env cfg dir sys sys'"

section \<open>What a synchronisation changes\<close>

definition counts :: "nat \<Rightarrow> ('w, 'a) git_prog \<Rightarrow> bool" where
  "counts n m \<longleftrightarrow> (\<forall>st w r st' w'. m (st, w) = (r, st', w') \<longrightarrow> syn_in_flight st' = syn_in_flight st \<and>
     syn_last_attempt st' = syn_last_attempt st \<and> syn_fetch_count st' \<le> syn_fetch_count st + n)"

lemma countsI:
  assumes "\<And>st w r st' w'. m (st, w) = (r, st', w') \<Longrightarrow> syn_in_flight st' = syn_in_flight st \<and>
    syn_last_attempt st' = syn_last_attempt st \<and> syn_fetch_count st' \<le> syn_fetch_count st + n"
  shows "counts n m"
  using assms unfolding counts_def by blast

lemma countsD:
  "counts n m \<Longrightarrow> m (st, w) = (r, st', w') \<Longrightarrow> syn_in_flight st' = syn_in_flight st \<and>
   syn_last_attempt st' = syn_last_attempt st \<and> syn_fetch_count st' \<le> syn_fetch_count st + n"
  unfolding counts_def by blast

lemma counts_bind:
  assumes "counts n m" and "\<And>x. counts k (f x)"
  shows "counts (n + k) (git_bind m f)"
proof (rule countsI)
  fix st w r st' w'
  assume run: "git_bind m f (st, w) = (r, st', w')"
  obtain r1 st1 w1 where m: "m (st, w) = (r1, st1, w1)" by (metis prod.exhaust)
  note one = countsD [OF assms(1) m]
  show "syn_in_flight st' = syn_in_flight st \<and> syn_last_attempt st' = syn_last_attempt st \<and>
      syn_fetch_count st' \<le> syn_fetch_count st + (n + k)"
  proof (cases r1)
    case (Inl e)
    then show ?thesis using run m one by (auto simp: git_bind_def)
  next
    case (Inr x)
    then have "f x (st1, w1) = (r, st', w')" using run m by (simp add: git_bind_def)
    from countsD [OF assms(2) this] one show ?thesis by auto
  qed
qed

lemma counts_bind0: "counts 0 m \<Longrightarrow> (\<And>x. counts k (f x)) \<Longrightarrow> counts k (git_bind m f)"
  using counts_bind [of 0 m k f] by simp

lemma counts_leaf:
  "counts n (git_return x)" "counts n (git_raise e)" "counts n (git_fetch_field g)" "counts n (git_call env cfg repo args)"
  "counts n (resolve_git_repo_root env cfg dir)"
  by (auto intro!: countsI simp: git_return_def git_raise_def git_fetch_field_def git_call_def
      resolve_git_repo_root_def split: git_outcome.splits prod.splits)

lemma counts_modify:
  "(\<And>st. syn_in_flight (f st) = syn_in_flight st \<and> syn_last_attempt (f st) = syn_last_attempt st \<and>
     syn_fetch_count (f st) \<le> syn_fetch_count st + n) \<Longrightarrow> counts n (git_modify f)"
  by (rule countsI) (auto simp: git_modify_def)

lemma counts_if: "(c \<Longrightarrow> counts n a) \<Longrightarrow> (\<not> c \<Longrightarrow> counts n b) \<Longrightarrow> counts n (if c then a else b)"
  by simp

lemma counts_git: "counts n (git_text env cfg repo args)" "counts n (git_ok env cfg repo args)"
  "counts n (upstream_branch env cfg repo branch)"
  unfolding git_text_def git_ok_def upstream_branch_def
  by (auto intro!: counts_bind0 counts_leaf split: prod.splits simp: Let_def)

lemma counts_fast_forward: "counts n (fast_forward env cfg repo head remote)"
  unfolding fast_forward_def refuse_fast_forward_def move_head_def
  by (intro counts_bind0 counts_if counts_leaf counts_git counts_modify) simp_all

lemma counts_sync_once: "counts 1 (sync_once env cfg dir)"
proof -
  have count: "counts 1 (git_bind (git_modify (\<lambda>st. st\<lparr>syn_fetch_count := syn_fetch_count st + 1\<rparr>)) f)"
    if "\<And>x. counts 0 (f x)" for f :: "unit \<Rightarrow> ('w, bool) git_prog"
    using counts_bind [OF counts_modify [where n = 1] that] by simp
  have root: "counts 0 (git_bind (git_fetch_field syn_repo_root) (\<lambda>known. case known of
      Some repo \<Rightarrow> git_return repo | None \<Rightarrow> resolve_git_repo_root env cfg dir))"
    by (rule counts_bind0 [OF counts_leaf(3)]) (auto intro: counts_leaf split: option.splits)
  show ?thesis
    unfolding sync_once_def
    by (rule counts_bind0 [OF root], rule counts_bind0 [OF counts_modify], simp, rule counts_bind0 [OF counts_git(1)],
        rule counts_if, rule counts_leaf(2), rule counts_bind0 [OF counts_modify], simp,
        rule counts_bind0 [OF counts_git(3)], rule count)
      (intro counts_bind0 counts_git counts_fast_forward)
qed

lemma run_sync_counts:
  assumes "run_sync env cfg dir started finished (st, w) = (st', w')"
  shows "syn_in_flight st' = syn_in_flight st" and "syn_last_attempt st' = syn_last_attempt st"
    and "syn_fetch_count st' \<le> Suc (syn_fetch_count st)"
proof -
  obtain r st1 w1 where once: "sync_once env cfg dir (st\<lparr>syn_last_attempt_at := Some started\<rparr>, w) = (r, st1, w1)"
    by (metis prod.exhaust)
  have "syn_in_flight st' = syn_in_flight st1 \<and> syn_last_attempt st' = syn_last_attempt st1 \<and>
      syn_fetch_count st' = syn_fetch_count st1"
    using assms once by (auto simp: run_sync_def record_failure_def split: sum.splits git_error.splits)
  with countsD [OF counts_sync_once once] show "syn_in_flight st' = syn_in_flight st"
    "syn_last_attempt st' = syn_last_attempt st" "syn_fetch_count st' \<le> Suc (syn_fetch_count st)"
    by simp_all
qed

section \<open>The invariant\<close>

definition apart :: "real \<Rightarrow> real list \<Rightarrow> bool" where
  "apart c = sorted_wrt (\<lambda>late early. early + c \<le> late)"

fun phase_ok :: "'w git_system \<Rightarrow> sync_phase \<Rightarrow> bool" where
  "phase_ok sys No_sync \<longleftrightarrow> syn_in_flight (gs_syncer sys) = None \<and>
     map fst (gs_done sys) = gs_attempts sys \<and> gs_released sys = {..<length (gs_attempts sys)}"
| "phase_ok sys (Syncing e) \<longleftrightarrow> syn_in_flight (gs_syncer sys) = Some e \<and> gs_attempts sys \<noteq> [] \<and>
     map fst (gs_done sys) = tl (gs_attempts sys) \<and> gs_released sys = {..<e} \<and> length (gs_attempts sys) = Suc e"
| "phase_ok sys (Recorded e) \<longleftrightarrow> syn_in_flight (gs_syncer sys) = Some e \<and>
     map fst (gs_done sys) = gs_attempts sys \<and> gs_released sys = {..<e} \<and> length (gs_attempts sys) = Suc e"

definition git_ok_system :: "git_config \<Rightarrow> real \<Rightarrow> 'w git_system \<Rightarrow> bool" where
  "git_ok_system cfg t0 sys \<longleftrightarrow> phase_ok sys (gs_phase sys) \<and>
     syn_last_attempt (gs_syncer sys) = (case gs_attempts sys of [] \<Rightarrow> None | a # _ \<Rightarrow> Some a) \<and>
     (syn_last_error (gs_syncer sys) = None \<longleftrightarrow> gs_done sys = [] \<or> snd (hd (gs_done sys))) \<and>
     apart (gc_cooldown cfg) (gs_attempts sys) \<and> list_all (\<lambda>a. t0 \<le> a \<and> a \<le> gs_now sys) (gs_attempts sys) \<and>
     syn_fetch_count (gs_syncer sys) \<le> length (gs_done sys) \<and> t0 \<le> gs_now sys"

lemma git_step_ok:
  assumes "git_step env cfg dir sys sys'" and "git_ok_system cfg t0 sys"
  shows "git_ok_system cfg t0 sys'"
  using assms(1)
proof cases
  case (time_passes now)
  then show ?thesis using assms(2)
    by (cases "gs_phase sys") (auto simp: git_ok_system_def list_all_iff)
next
  case (world_changes w)
  then show ?thesis using assms(2) by (cases "gs_phase sys") (auto simp: git_ok_system_def)
next
  case (request_starts event st)
  have idle: "gs_phase sys = No_sync"
    using assms(2) request_starts by (cases "gs_phase sys") (auto simp: git_ok_system_def)
  have due: "is_due cfg (gs_now sys) (gs_syncer sys)" "event = Some (length (gs_attempts sys))"
    "st = (gs_syncer sys)\<lparr>syn_in_flight := event, syn_last_attempt := Some (gs_now sys)\<rparr>"
    using request_starts by (auto simp: begin_request_def split: if_splits)
  have "apart (gc_cooldown cfg) (gs_now sys # gs_attempts sys)"
  proof (cases "gs_attempts sys")
    case (Cons a rest)
    have "a + gc_cooldown cfg \<le> gs_now sys" "apart (gc_cooldown cfg) (a # rest)" "a \<le> gs_now sys"
      using due(1) assms(2) Cons by (simp_all add: is_due_def git_ok_system_def)
    then show ?thesis unfolding Cons by (fastforce simp: apart_def)
  qed (simp add: apart_def)
  then show ?thesis using assms(2) request_starts idle due
    by (auto simp: git_ok_system_def)
next
  case (request_joins event st)
  then have "st = gs_syncer sys" by (auto simp: begin_request_def split: if_splits)
  then show ?thesis using assms(2) request_joins by (cases "gs_phase sys") (auto simp: git_ok_system_def)
next
  case (sync event started finished st w)
  note counts = run_sync_counts [OF sync(3)]
  have ok: "phase_ok sys (Syncing event)" using assms(2) sync(2) by (simp add: git_ok_system_def)
  then obtain a rest where a: "gs_attempts sys = a # rest" "map fst (gs_done sys) = rest"
    by (cases "gs_attempts sys") auto
  have "syn_fetch_count st \<le> Suc (length (gs_done sys))"
    using counts(3) assms(2) by (simp add: git_ok_system_def)
  moreover have "syn_last_attempt st = Some a" "apart (gc_cooldown cfg) (a # rest)" "t0 \<le> gs_now sys"
    "list_all (\<lambda>x. t0 \<le> x \<and> x \<le> gs_now sys) (a # rest)"
    using assms(2) counts(2) by (simp_all add: git_ok_system_def a(1))
  moreover have "syn_in_flight st = Some event" "gs_released sys = {..<event}" "length rest = event"
    using ok counts(1) by (simp_all add: a(1))
  ultimately show ?thesis unfolding sync(1) git_ok_system_def by (simp add: a)
next
  case (release event)
  have ok: "phase_ok sys (Recorded event)" using assms(2) release(2) by (simp add: git_ok_system_def)
  then have "phase_ok sys' No_sync" by (simp add: release(1) lessThan_Suc)
  moreover have "gs_phase sys' = No_sync" by (simp add: release(1))
  ultimately show ?thesis using conjunct2 [OF assms(2) [unfolded git_ok_system_def]]
    unfolding git_ok_system_def by (simp add: release(1))
qed

lemma git_reachable_ok: "git_reachable env cfg dir t0 sys \<Longrightarrow> git_ok_system cfg t0 sys"
proof (induction rule: git_reachable.induct)
  case (reach_start w)
  then show ?case by (simp add: git_ok_system_def git_start_def new_syncer_def apart_def)
next
  case (reach_step sys sys')
  then show ?case by (metis git_step_ok)
qed

section \<open>Properties\<close>



text \<open>
  C17: An answer that is not marked stale rests on a successful synchronisation. A request that had
  nothing to wait for is answered from files whose last synchronisation succeeded and started less
  than the cooldown ago; a request that waited for a synchronisation to end is answered after that one
  or a later one, and the last one that ended had succeeded.
\<close>
theorem not_stale_means_synced:
  assumes "git_reachable env cfg dir t0 sys" and "\<not> request_stale event False (gs_syncer sys)"
    and "case event of
      None \<Rightarrow> fst (begin_request cfg (length (gs_attempts sys)) (gs_now sys) (gs_syncer sys)) = None
    | Some e \<Rightarrow> e \<in> gs_released sys"
  shows "case gs_done sys of [] \<Rightarrow> False
    | (started, succeeded) # rest \<Rightarrow> succeeded \<and> (case event of
        None \<Rightarrow> gs_now sys - started < gc_cooldown cfg | Some e \<Rightarrow> e \<le> length rest)"
proof -
  note ok = git_reachable_ok [OF assms(1), unfolded git_ok_system_def]
  have no_error: "gs_done sys = [] \<or> snd (hd (gs_done sys))"
    using ok assms(2) by (simp add: request_stale_def)
  show ?thesis
  proof (cases event)
    case None
    then have idle: "syn_in_flight (gs_syncer sys) = None" and not_due: "\<not> is_due cfg (gs_now sys) (gs_syncer sys)"
      using assms(3) by (auto simp: begin_request_def split: if_splits)
    then have same: "map fst (gs_done sys) = gs_attempts sys" using conjunct1 [OF ok] by (cases "gs_phase sys") auto
    have last: "syn_last_attempt (gs_syncer sys) = (case gs_attempts sys of [] \<Rightarrow> None | a # _ \<Rightarrow> Some a)"
      using ok by blast
    show ?thesis
    proof (cases "gs_done sys")
      case Nil
      then show ?thesis using last same not_due by (simp add: is_due_def)
    next
      case (Cons d rest)
      then have "syn_last_attempt (gs_syncer sys) = Some (fst d)" using last same [symmetric] by simp
      then show ?thesis using Cons not_due no_error None by (cases d) (simp add: is_due_def)
    qed
  next
    case (Some e)
    then have e: "e \<in> gs_released sys" using assms(3) by simp
    have "e < length (map fst (gs_done sys))"
      using conjunct1 [OF ok] e by (cases "gs_phase sys") simp_all
    then show ?thesis using no_error Some by (cases "gs_done sys") auto
  qed
qed

section \<open>Scripted runs\<close>

text \<open>A world that answers the commands in order.\<close>

definition scripted :: "git_outcome list git_env" where
  "scripted = \<lparr>git_run = (\<lambda>args repo timeout script. case script of
     [] \<Rightarrow> (Os_failure (lit ''FileNotFoundError''), []) | out # rest \<Rightarrow> (out, rest)), git_repr = id\<rparr>"

definition answers :: "string \<Rightarrow> git_outcome" where "answers out = Completed 0 (lit out) []"

definition no_upstream :: git_outcome where "no_upstream = Completed 1 [] []"

lemmas script_eval = scripted_def answers_def no_upstream_def sync_once_def git_bind_def git_fetch_field_def
  git_modify_def git_return_def git_raise_def git_text_def git_ok_def git_call_def resolve_git_repo_root_def
  upstream_branch_def fast_forward_def move_head_def refuse_fast_forward_def new_syncer_def default_git_config_def

text \<open>One successful synchronisation that found nothing new.\<close>

definition synced_script :: "git_outcome list" where
  "synced_script = [answers ''/repo'', answers ''main'', no_upstream, answers [], answers ''c1'', answers ''c1'']"

lemma synced_run:
  "run_sync scripted default_git_config [] 0 1 ((new_syncer default_git_config)\<lparr>syn_in_flight := Some 0,
      syn_last_attempt := Some 0\<rparr>, synced_script) =
   ((new_syncer default_git_config)\<lparr>syn_in_flight := Some 0, syn_last_attempt := Some 0,
      syn_repo_root := Some (lit ''/repo''), syn_last_attempt_at := Some 0, syn_last_success_at := Some 1,
      syn_state := Git_synced, syn_branch := Some (lit ''main''), syn_head := Some (lit ''c1''),
      syn_remote := Some (lit ''c1''), syn_fetch_count := 1\<rparr>, [])"
  by (simp add: run_sync_def synced_script_def script_eval py_eval)

definition started_system :: "git_outcome list git_system" where
  "started_system = (git_start default_git_config 0 synced_script)\<lparr>gs_syncer :=
     (new_syncer default_git_config)\<lparr>syn_in_flight := Some 0, syn_last_attempt := Some 0\<rparr>,
     gs_phase := Syncing 0, gs_attempts := [0]\<rparr>"

lemma started_reachable: "git_reachable scripted default_git_config [] 0 started_system"
proof -
  have "git_step scripted default_git_config [] (git_start default_git_config 0 synced_script) started_system"
    using git_step.request_starts [of default_git_config "git_start default_git_config 0 synced_script" "Some 0"
      "(new_syncer default_git_config)\<lparr>syn_in_flight := Some 0, syn_last_attempt := Some 0\<rparr>" scripted "[]"]
    by (simp add: started_system_def git_start_def begin_request_def new_syncer_def is_due_def)
  with reach_start show ?thesis by (rule reach_step)
qed


definition ended_system :: "git_outcome list git_system" where
  "ended_system = (let sys = started_system\<lparr>gs_syncer := fst (run_sync scripted default_git_config [] 0 1
       (gs_syncer started_system, gs_world started_system)), gs_world := [], gs_phase := Recorded 0,
       gs_done := [(0, True)]\<rparr>
     in sys\<lparr>gs_syncer := (gs_syncer sys)\<lparr>syn_in_flight := None\<rparr>, gs_phase := No_sync, gs_released := {0}\<rparr>)"

lemma ended_reachable: "git_reachable scripted default_git_config [] 0 ended_system"
proof -
  let ?st = "fst (run_sync scripted default_git_config [] 0 1 (gs_syncer started_system, gs_world started_system))"
  let ?mid = "started_system\<lparr>gs_syncer := ?st, gs_world := [], gs_phase := Recorded 0, gs_done := [(0, True)]\<rparr>"
  have run: "run_sync scripted default_git_config [] 0 1 (gs_syncer started_system, gs_world started_system) = (?st, [])"
    using synced_run by (simp add: started_system_def git_start_def)
  have ok: "syn_last_error ?st = None"
    using synced_run by (simp add: started_system_def git_start_def new_syncer_def)
  have started: "gs_phase started_system = Syncing 0" "gs_attempts started_system = [0]" "gs_done started_system = []"
    by (simp_all add: started_system_def git_start_def)
  have "git_step scripted default_git_config [] started_system ?mid"
    using git_step.sync [OF started(1) run] by (simp only: ok started list.sel simp_thms)
  with started_reachable have "git_reachable scripted default_git_config [] 0 ?mid" by (rule reach_step)
  moreover have "git_step scripted default_git_config [] ?mid ended_system"
    using git_step.release [of ?mid 0 scripted default_git_config "[]"]
    by (simp add: ended_system_def started_system_def git_start_def Let_def)
  ultimately show ?thesis by (rule reach_step)
qed

theorem not_stale_means_synced_witness:
  "case gs_done ended_system of [] \<Rightarrow> False | (started, succeeded) # rest \<Rightarrow> succeeded \<and> 0 \<le> length rest"
proof -
  have "\<not> request_stale (Some 0) False (gs_syncer ended_system)"
    using synced_run by (simp add: request_stale_def ended_system_def started_system_def git_start_def new_syncer_def Let_def)
  moreover have "0 \<in> gs_released ended_system" by (simp add: ended_system_def Let_def)
  ultimately show ?thesis
    using not_stale_means_synced [OF ended_reachable, of "Some 0"] by (auto split: list.splits prod.splits)
qed

section \<open>A failure that moves the files\<close>

text \<open>
  A synchronisation that fails may have changed the served files: when the fast-forward succeeds
  and asking for the new commit does not, the error is recorded, but the generation that makes the
  service rebuild its index is not counted, and the next synchronisation finds both commits equal and
  does not count it either.
\<close>
theorem failed_sync_moves_files:
  "case sync_once (logged scripted) default_git_config [] (new_syncer default_git_config,
      [answers ''/repo'', answers ''main'', no_upstream, answers [], answers ''c2'', answers ''c1'',
       answers [], answers [], answers [], Timed_out,
       answers ''main'', no_upstream, answers [], answers ''c2'', answers ''c2''], []) of (r, st, script, commands) \<Rightarrow>
    r = Inl Git_timeout \<and> (FAST_FORWARD (lit ''c2''), answers []) \<in> set commands \<and> syn_generation st = 0 \<and>
    (case sync_once (logged scripted) default_git_config [] (st, script, []) of (r', st', script', commands') \<Rightarrow>
       r' = Inr False \<and> syn_generation st' = 0)"
  by (simp add: logged_def script_eval py_eval)

end
