(* ===== verification/Read_Focus.thy ===== *)
theory Read_Focus
  imports Search
begin

text \<open>
  \<open>read_focus.py\<close>: pages cut into sections, focused reads and plain reads with a budget, and the
  projection of a page payload that \<open>service.py\<close> applies. Unicode normalisation form NFKC is the
  argument \<open>nfkc\<close>; logarithms and scores are exact reals. Budgets are natural numbers: the servers
  admit 200 to 1,000,000.
\<close>

definition FOCUSED_READ_DEFAULT_MAX_CHARS :: nat where "FOCUSED_READ_DEFAULT_MAX_CHARS = 8000"
definition FOCUSED_QUERY_MAX_SECTIONS :: nat where "FOCUSED_QUERY_MAX_SECTIONS = 6"
definition FOCUSED_QUERY_RELATIVE_THRESHOLD :: real where "FOCUSED_QUERY_RELATIVE_THRESHOLD = 35 / 100"
definition FOCUSED_QUERY_MIN_SCORE :: real where "FOCUSED_QUERY_MIN_SCORE = 1"
definition MIN_UNIT_WEIGHT :: real where "MIN_UNIT_WEIGHT = 1 / 10"
definition HEADING_WEIGHT :: real where "HEADING_WEIGHT = 3"
definition BODY_REPEAT_BONUS :: real where "BODY_REPEAT_BONUS = 1 / 4"
definition BODY_REPEAT_CAP :: nat where "BODY_REPEAT_CAP = 4"
definition LINE_BREAK_CLIP_RATIO :: real where "LINE_BREAK_CLIP_RATIO = 6 / 10"

definition PREAMBLE_INDEX :: ustr where "PREAMBLE_INDEX = lit ''0''"
definition PREAMBLE_HEADING :: ustr where "PREAMBLE_HEADING = lit ''(preamble)''"

section \<open>Sections\<close>

definition blank_char :: "nat \<Rightarrow> bool" where
  "blank_char c \<longleftrightarrow> c = 32 \<or> c = 9"

text \<open>What may follow a title on its line: blanks, number signs, blanks.\<close>

definition heading_tail :: "ustr \<Rightarrow> bool" where
  "heading_tail s \<longleftrightarrow> dropWhile blank_char (dropWhile (\<lambda>c. c = 35) (dropWhile blank_char s)) = []"

definition heading_title :: "ustr \<Rightarrow> ustr" where
  "heading_title s = take (hd (filter (\<lambda>k. heading_tail (drop k s)) [1..<Suc (length s)])) s"

text \<open>
  \<open>_HEADING_RE\<close> on a line: one to six number signs, blanks, and the shortest title. When only
  blanks follow, the title is the last of them.
\<close>

definition heading_line :: "ustr \<Rightarrow> (nat \<times> ustr) option" where
  "heading_line line =
     (let level = length (takeWhile (\<lambda>c. c = 35) line); rest = drop level line;
          title = dropWhile blank_char rest
      in if level = 0 \<or> level > 6 \<or> rest = [] \<or> \<not> blank_char (hd rest) then None
         else if title \<noteq> [] then Some (level, heading_title title)
         else if length rest \<ge> 2 then Some (level, [last rest]) else None)"

definition fence_line :: "ustr \<Rightarrow> bool" where
  "fence_line line \<longleftrightarrow> (let rest = dropWhile blank_char line
     in starts_with rest [96, 96, 96] \<or> starts_with rest [126, 126, 126])"

fun scan_heads :: "nat \<Rightarrow> bool \<Rightarrow> ustr list \<Rightarrow> (nat \<times> nat \<times> ustr) list" where
  "scan_heads offset in_fence [] = []"
| "scan_heads offset in_fence (line # lines) =
     (if fence_line line then scan_heads (offset + length line) (\<not> in_fence) lines
      else (case (if in_fence then None else heading_line (rstrip_by (\<lambda>c. c = 13 \<or> c = 10) line)) of
              Some (level, title) \<Rightarrow> (offset, level, strip title) # scan_heads (offset + length line) in_fence lines
            | None \<Rightarrow> scan_heads (offset + length line) in_fence lines))"

record md_section =
  sec_index :: ustr
  sec_level :: nat
  sec_heading :: ustr
  sec_path :: "ustr list"
  sec_text :: ustr

text \<open>The stack has the innermost open section first.\<close>

fun number_sections ::
  "ustr \<Rightarrow> (nat \<times> ustr \<times> ustr) list \<Rightarrow> (ustr, nat) dict \<Rightarrow> (nat \<times> nat \<times> ustr) list \<Rightarrow> md_section list" where
  "number_sections content stack counts [] = []"
| "number_sections content stack counts ((start, level, heading) # heads) =
     (let finish = (case heads of [] \<Rightarrow> length content | (s, _) # _ \<Rightarrow> s);
          open_sections = dropWhile (\<lambda>(l, i, h). l \<ge> level) stack;
          parent = (case open_sections of [] \<Rightarrow> [] | (l, i, h) # _ \<Rightarrow> i);
          n = dict_get counts parent 0 + 1;
          index = (if parent \<noteq> [] then parent @ [46] @ nat_str n else nat_str n)
      in \<lparr>sec_index = index, sec_level = level, sec_heading = heading,
          sec_path = map (\<lambda>(l, i, h). h) (rev open_sections) @ [heading],
          sec_text = slice content start finish\<rparr> #
         number_sections content ((level, index, heading) # open_sections) (AList.update parent n counts) heads)"

definition split_markdown_sections :: "ustr \<Rightarrow> md_section list" where
  "split_markdown_sections content =
     (let heads = scan_heads 0 False (splitlines_keep content);
          first_start = (case heads of [] \<Rightarrow> length content | (s, _) # _ \<Rightarrow> s);
          preamble = take first_start content
      in (if strip preamble \<noteq> []
          then [\<lparr>sec_index = PREAMBLE_INDEX, sec_level = 0, sec_heading = PREAMBLE_HEADING, sec_path = [],
                 sec_text = preamble\<rparr>] else []) @
         number_sections content [] [] heads)"

definition is_descendant_of :: "md_section \<Rightarrow> md_section \<Rightarrow> bool" where
  "is_descendant_of s parent \<longleftrightarrow>
     sec_index parent \<noteq> PREAMBLE_INDEX \<and> starts_with (sec_index s) (sec_index parent @ [46])"

definition outline_label :: "md_section \<Rightarrow> ustr" where
  "outline_label s = sec_index s @ [32] @ sec_heading s @ [32, 40] @ nat_str (length (sec_text s)) @ [41]"

definition is_focused_read :: "ustr \<Rightarrow> ustr list \<Rightarrow> bool" where
  "is_focused_read query sections \<longleftrightarrow> strip query \<noteq> [] \<or> sections \<noteq> []"

section \<open>Query terms\<close>

definition normalize_read_text :: "(ustr \<Rightarrow> ustr) \<Rightarrow> ustr \<Rightarrow> ustr" where
  "normalize_read_text nfkc value = casefold (nfkc value)"

text \<open>The particles in the order of the source; longer ones are tried first.\<close>

definition KOREAN_PARTICLES :: "ustr list" where
  "KOREAN_PARTICLES = sort_key (\<lambda>p. - int (length p))
     [[50640, 49436, 45716], [51004, 47196, 45716], [50640, 49436], [51004, 47196], [50640, 44172],
      [44620, 51648], [48512, 53552], [52376, 47100], [48372, 45796], [51060, 46976], [46972, 45716],
      [51060, 45796], [51077, 45768, 45796], [51008], [45716], [51060], [44032], [51012], [47484], [51032],
      [50640], [47196], [50752], [44284], [46020], [47564], [46976]]"

definition strip_korean_particle :: "ustr \<Rightarrow> ustr" where
  "strip_korean_particle token =
     (if list_all (\<lambda>c. \<not> hangul c) token then token
      else (case List.find (\<lambda>p. ends_with token p \<and> length token \<ge> length p + 2) KOREAN_PARTICLES of
              Some p \<Rightarrow> take (length token - length p) token
            | None \<Rightarrow> token))"

text \<open>\<open>re.findall(r"\w+", s)\<close>.\<close>

definition word_tokens :: "ustr \<Rightarrow> ustr list" where
  "word_tokens s = split_acc (\<lambda>c. \<not> is_word_char c) [] s"

definition query_terms :: "(ustr \<Rightarrow> ustr) \<Rightarrow> ustr \<Rightarrow> ustr list" where
  "query_terms nfkc query = dedupe_on id {}
     (filter (\<lambda>t. length t \<ge> 2) (map strip_korean_particle (word_tokens (normalize_read_text nfkc query))))"

text \<open>Sets of texts are lists without repetition.\<close>

definition term_bigrams :: "ustr list \<Rightarrow> ustr list" where
  "term_bigrams terms = remdups (concat (map (\<lambda>t.
     if \<not> list_all (\<lambda>c. \<not> hangul c) t \<and> length t > 2 then bigrams t else [t]) terms))"

definition text_bigrams :: "ustr \<Rightarrow> ustr list" where
  "text_bigrams s = term_bigrams (word_tokens s)"

section \<open>Scores\<close>

definition section_search_text :: "(ustr \<Rightarrow> ustr) \<Rightarrow> md_section \<Rightarrow> ustr" where
  "section_search_text nfkc s = normalize_read_text nfkc (join [32] (sec_path s) @ [10] @ sec_text s)"

definition unit_weight :: "nat \<Rightarrow> nat \<Rightarrow> real" where
  "unit_weight total_sections df = max (ln (real (total_sections + 1) / real (df + 1))) MIN_UNIT_WEIGHT"

definition unit_weights ::
  "(ustr \<Rightarrow> ustr) \<Rightarrow> md_section list \<Rightarrow> ustr list \<Rightarrow> ustr list \<Rightarrow> (ustr, real) dict" where
  "unit_weights nfkc sections terms grams =
     (let texts = map (section_search_text nfkc) sections;
          by_term = fold (\<lambda>t. AList.update t (unit_weight (length sections)
            (length (filter (\<lambda>s. contains s t) texts)))) terms []
      in fold (\<lambda>g. dict_setdefault g (unit_weight (length sections)
           (length (filter (\<lambda>s. g \<in> set (text_bigrams s)) texts)))) grams by_term)"

definition score_section ::
  "(ustr \<Rightarrow> ustr) \<Rightarrow> md_section \<Rightarrow> ustr list \<Rightarrow> ustr list \<Rightarrow> (ustr, real) dict \<Rightarrow> real" where
  "score_section nfkc s terms grams weights =
     (let heading = normalize_read_text nfkc (join [32] (sec_path s));
          body = normalize_read_text nfkc (sec_text s);
          heading_grams = set (text_bigrams heading); body_grams = set (text_bigrams body);
          by_terms = (\<Sum>t\<leftarrow>terms. (let weight = dict_get weights t 1; n = substring_count body t
            in (if contains heading t then HEADING_WEIGHT * weight else 0) +
               (if n = 0 then 0 else weight * (1 + BODY_REPEAT_BONUS * real (min (n - 1) BODY_REPEAT_CAP)))));
          by_grams = (\<Sum>g\<leftarrow>grams. dict_get weights g 1 / real (length grams) *
            (HEADING_WEIGHT / 2 * (if g \<in> heading_grams then 1 else 0) + (if g \<in> body_grams then 1 else 0)))
      in py_round (by_terms + by_grams) 3)"

section \<open>Requested sections\<close>

definition section_number :: "ustr \<Rightarrow> bool" where
  "section_number s \<longleftrightarrow> list_all (\<lambda>part. part \<noteq> [] \<and> list_all is_decimal_char part) (split_char 46 s)"

definition section_roots :: "(ustr \<Rightarrow> ustr) \<Rightarrow> md_section list \<Rightarrow> ustr \<Rightarrow> md_section list" where
  "section_roots nfkc sections wanted =
     (if section_number wanted then filter (\<lambda>s. sec_index s = wanted) sections
      else (let exact = filter (\<lambda>s. normalize_read_text nfkc (sec_heading s) = wanted) sections
            in if exact \<noteq> [] then exact
               else filter (\<lambda>s. contains (normalize_read_text nfkc (sec_heading s)) wanted) sections))"

definition choose_root :: "md_section list \<Rightarrow> md_section \<Rightarrow> md_section list \<Rightarrow> md_section list" where
  "choose_root sections root_section chosen =
     fold (\<lambda>s acc. if (s = root_section \<or> is_descendant_of s root_section) \<and> s \<notin> set acc then acc @ [s] else acc)
       sections chosen"

definition match_step ::
  "(ustr \<Rightarrow> ustr) \<Rightarrow> md_section list \<Rightarrow> ustr \<Rightarrow> md_section list \<times> ustr list \<Rightarrow> md_section list \<times> ustr list" where
  "match_step nfkc sections spec st =
     (let (chosen, unmatched) = st;
          wanted = normalize_read_text nfkc (strip (lstrip_by (\<lambda>c. c = 35) (strip spec)));
          roots = section_roots nfkc sections wanted
      in if wanted = [] then (chosen, unmatched)
         else if roots = [] then (chosen, unmatched @ [spec])
         else (fold (choose_root sections) roots chosen, unmatched))"

definition match_requested_sections ::
  "(ustr \<Rightarrow> ustr) \<Rightarrow> md_section list \<Rightarrow> ustr list \<Rightarrow> md_section list \<times> ustr list" where
  "match_requested_sections nfkc sections requested = fold (match_step nfkc sections) requested ([], [])"

section \<open>Budgets\<close>

definition clip_text :: "ustr \<Rightarrow> nat \<Rightarrow> ustr" where
  "clip_text content budget =
     (if length content \<le> budget then content
      else (let clipped = take budget content
            in case rfind_char 10 clipped of
                 Some i \<Rightarrow> if real i \<ge> real budget * LINE_BREAK_CLIP_RATIO then take (i + 1) clipped else clipped
               | None \<Rightarrow> clipped))"

text \<open>The included texts by index, the used characters, and the sections left out.\<close>

type_synonym budget_state = "(ustr, ustr) dict \<times> nat \<times> md_section list"

definition fill_step :: "nat \<Rightarrow> md_section \<Rightarrow> budget_state \<Rightarrow> budget_state" where
  "fill_step budget s st =
     (let (included, used, remaining) = st
      in if used + length (sec_text s) \<le> budget
         then (AList.update (sec_index s) (sec_text s) included, used + length (sec_text s), remaining)
         else if included = []
         then (AList.update (sec_index s) (clip_text (sec_text s) budget) included,
               used + length (clip_text (sec_text s) budget), remaining)
         else (included, used, remaining @ [s]))"

definition fill_budget :: "md_section list \<Rightarrow> nat \<Rightarrow> (ustr, ustr) dict \<times> md_section list" where
  "fill_budget ranked budget =
     (let (included, used, remaining) = fold (fill_step budget) ranked ([], 0, []) in (included, remaining))"

section \<open>Focused reads\<close>

record selected_section =
  sel_index :: ustr
  sel_heading :: ustr
  sel_chars :: nat
  sel_score :: "real option"

record focused_read =
  fr_page :: wiki_page
  fr_query :: ustr
  fr_requested :: "ustr list"
  fr_matched :: bool
  fr_outline :: "ustr list"
  fr_selected :: "selected_section list"
  fr_text :: ustr
  fr_total_chars :: nat
  fr_returned_chars :: nat
  fr_max_chars :: nat
  fr_truncated :: bool
  fr_remaining :: "ustr list"
  fr_unmatched :: "ustr list"
  fr_links :: "ustr list option"

definition query_candidates ::
  "md_section list \<Rightarrow> (ustr, real) dict \<Rightarrow> md_section list \<Rightarrow> md_section list" where
  "query_candidates sections scores chosen =
     (let best = fold max (map snd scores) 0;
          threshold = max (best * FOCUSED_QUERY_RELATIVE_THRESHOLD) FOCUSED_QUERY_MIN_SCORE
      in take FOCUSED_QUERY_MAX_SECTIONS (sort_key (\<lambda>s. - dict_get scores (sec_index s) 0)
           (filter (\<lambda>s. dict_get scores (sec_index s) 0 \<ge> threshold \<and> s \<notin> set chosen) sections)))"

definition section_scores :: "(ustr \<Rightarrow> ustr) \<Rightarrow> md_section list \<Rightarrow> ustr \<Rightarrow> (ustr, real) dict" where
  "section_scores nfkc sections query =
     (let terms = query_terms nfkc query; grams = term_bigrams terms; weights = unit_weights nfkc sections terms grams
      in dict_of (map (\<lambda>s. (sec_index s, score_section nfkc s terms grams weights)) sections))"

text \<open>The sections to read, whether any matched, the unmatched requests, and the scores.\<close>

definition chosen_sections ::
  "(ustr \<Rightarrow> ustr) \<Rightarrow> md_section list \<Rightarrow> ustr \<Rightarrow> ustr list \<Rightarrow>
   md_section list \<times> bool \<times> ustr list \<times> (ustr, real) dict" where
  "chosen_sections nfkc all_sections query_text sections =
     (let (requested, unmatched) =
            (if sections \<noteq> [] then match_requested_sections nfkc all_sections sections else ([], []));
          scores = (if query_text \<noteq> [] then section_scores nfkc all_sections query_text else []);
          chosen = (if query_text \<noteq> [] then requested @ query_candidates all_sections scores requested
                    else requested)
      in (if chosen = [] then take 1 all_sections else chosen, chosen \<noteq> [], unmatched, scores))"

definition focused_read_payload ::
  "(ustr \<Rightarrow> ustr) \<Rightarrow> wiki_page \<Rightarrow> ustr \<Rightarrow> ustr list \<Rightarrow> nat option \<Rightarrow> bool option \<Rightarrow> focused_read" where
  "focused_read_payload nfkc p query sections max_chars include_links =
     (let content = page_text p;
          budget = (case max_chars of Some n \<Rightarrow> n | None \<Rightarrow> FOCUSED_READ_DEFAULT_MAX_CHARS);
          all_sections = split_markdown_sections content; query_text = strip query;
          (chosen, matched, unmatched, scores) = chosen_sections nfkc all_sections query_text sections;
          (included, remaining) = fill_budget chosen budget;
          is_in = (\<lambda>s. map_of included (sec_index s) \<noteq> None);
          clipped = list_ex (\<lambda>s. is_in s \<and> length (dict_get included (sec_index s) []) < length (sec_text s)) chosen;
          ordered = filter is_in all_sections;
          body = concat (map (\<lambda>s. dict_get included (sec_index s) []) ordered)
      in \<lparr>fr_page = p, fr_query = query_text, fr_requested = sections, fr_matched = matched,
          fr_outline = map outline_label all_sections,
          fr_selected = map (\<lambda>s. \<lparr>sel_index = sec_index s, sel_heading = sec_heading s,
            sel_chars = length (dict_get included (sec_index s) []),
            sel_score = map_of scores (sec_index s)\<rparr>) ordered,
          fr_text = body, fr_total_chars = length content, fr_returned_chars = length body,
          fr_max_chars = budget, fr_truncated = (remaining \<noteq> [] \<or> clipped),
          fr_remaining = map outline_label remaining, fr_unmatched = unmatched,
          fr_links = (if include_links = Some True then Some (page_links p) else None)\<rparr>)"

section \<open>Plain reads\<close>

text \<open>The page payload as the dictionary \<open>model_dump\<close> gives, without the OKF block's own dump.\<close>

definition page_payload :: "(okf_metadata \<Rightarrow> pyval) \<Rightarrow> wiki_page \<Rightarrow> (ustr, pyval) dict" where
  "page_payload dump p =
     [(lit ''id'', PStr (page_id p)), (lit ''title'', PStr (page_title p)), (lit ''path'', PStr (page_path p)),
      (lit ''role'', PStr (role_str (page_role p))), (lit ''text'', PStr (page_text p)),
      (lit ''summary'', PStr (page_summary p)), (lit ''frontmatter'', PDict (page_frontmatter p)),
      (lit ''review_state'', PStr (review_state_str (page_review_state p))), (lit ''status'', PStr (page_status p)),
      (lit ''source_refs'', PList (map PStr (page_source_refs p))), (lit ''tags'', PList (map PStr (page_tags p))),
      (lit ''links'', PList (map PStr (page_links p))), (lit ''headings'', PList (map PStr (page_headings p))),
      (lit ''updated_at'', PStr (page_updated_at p)),
      (lit ''okf'', (case page_okf p of None \<Rightarrow> PNone | Some m \<Rightarrow> dump m))]"

text \<open>The sections that end after the clipped text, found from the last one backwards.\<close>

fun remaining_from :: "nat \<Rightarrow> nat \<Rightarrow> md_section list \<Rightarrow> ustr list" where
  "remaining_from clipped finish [] = []"
| "remaining_from clipped finish (s # sections) =
     (if finish > clipped then [outline_label s] else []) @
     remaining_from clipped (finish - length (sec_text s)) sections"

definition plain_read_payload ::
  "(okf_metadata \<Rightarrow> pyval) \<Rightarrow> wiki_page \<Rightarrow> nat option \<Rightarrow> bool option \<Rightarrow> (ustr, pyval) dict" where
  "plain_read_payload dump p max_chars include_links =
     (let full = page_payload dump p; content = page_text p;
          payload = (if include_links = Some False then filter (\<lambda>(k, v). k \<noteq> lit ''links'') full else full)
      in case max_chars of
           None \<Rightarrow> payload
         | Some n \<Rightarrow> if length content \<le> n then payload
             else (let clipped = clip_text content n
                   in AList.update (lit ''text'') (PStr clipped) payload @
                      [(lit ''truncated'', PBool True), (lit ''total_chars'', PInt (int (length content))),
                       (lit ''returned_chars'', PInt (int (length clipped))),
                       (lit ''remaining_sections'', PList (map PStr (rev (remaining_from (length clipped)
                          (length content) (rev (split_markdown_sections content))))))]))"

definition READ_FIELD_ORDER :: "ustr list" where
  "READ_FIELD_ORDER = map lit [''id'', ''title'', ''path'', ''role'', ''text'', ''summary'', ''frontmatter'',
     ''review_state'', ''status'', ''source_refs'', ''tags'', ''links'', ''headings'', ''updated_at'', ''okf'']"

definition TRUNCATION_FIELDS :: "ustr list" where
  "TRUNCATION_FIELDS = map lit [''truncated'', ''total_chars'', ''returned_chars'', ''remaining_sections'']"

text \<open>\<open>payload[field]\<close> raises for a field that is not there.\<close>

definition project_read_payload :: "(ustr, pyval) dict \<Rightarrow> ustr list option \<Rightarrow> (ustr, pyval) dict res" where
  "project_read_payload payload requested =
     (case requested of
        None \<Rightarrow> Inr payload
      | Some names \<Rightarrow>
          bind_res (map_res (\<lambda>k. case map_of payload k of Some v \<Rightarrow> Inr (k, v) | None \<Rightarrow> Inl (KeyError ''no such field''))
             (filter (\<lambda>k. k \<in> set (map (\<lambda>n. lower (strip n)) names)) READ_FIELD_ORDER))
            (\<lambda>projected. Inr (projected @ concat (map (\<lambda>k. case map_of payload k of Some v \<Rightarrow> [(k, v)] | None \<Rightarrow> [])
               TRUNCATION_FIELDS))))"

section \<open>Reading a page of an index\<close>

datatype read_result = Not_found | Not_approved | Focused focused_read | Plain "(ustr, pyval) dict"

text \<open>\<open>LlmWikiService.read\<close> for a given index; an absent query or section list is empty.\<close>

definition read_page ::
  "(ustr \<Rightarrow> ustr) \<Rightarrow> (okf_metadata \<Rightarrow> pyval) \<Rightarrow> wiki_index \<Rightarrow> ustr \<Rightarrow> bool \<Rightarrow> ustr list option \<Rightarrow> ustr \<Rightarrow> ustr list \<Rightarrow>
   nat option \<Rightarrow> bool option \<Rightarrow> read_result res" where
  "read_page nfkc dump index wanted include_drafts names query sections max_chars include_links =
     (case List.find (\<lambda>p. page_id p = wanted \<or> page_path p = wanted) (idx_pages index) of
        None \<Rightarrow> Inr Not_found
      | Some p \<Rightarrow>
          if \<not> include_drafts \<and> \<not> approved_for_serving p then Inr Not_approved
          else if is_focused_read query sections
          then Inr (Focused (focused_read_payload nfkc p query sections max_chars include_links))
          else bind_res (project_read_payload (plain_read_payload dump p max_chars include_links) names)
                 (\<lambda>payload. Inr (Plain payload)))"

end
