(* ===== verification/Read_Focus_Props.thy ===== *)
theory Read_Focus_Props
  imports Read_Focus PyStr_Facts
begin

text \<open>
  Sections cut a page without loss and have distinct numbers; focused reads keep to their budget and
  return sections in document order; plain reads return a beginning of the page and name what is
  missing; who may read what, and when reading raises.
\<close>

section \<open>Lines and section starts\<close>

lemma concat_splitlines_acc: "concat (splitlines_acc acc s) = rev acc @ s"
  by (induction acc s rule: splitlines_acc.induct) auto

lemma concat_splitlines [simp]: "concat (splitlines_keep s) = s"
  by (simp add: splitlines_keep_def concat_splitlines_acc)

lemma scan_heads_bounds:
  "(s, l, t) \<in> set (scan_heads offset in_fence lines) \<Longrightarrow> offset \<le> s \<and> s \<le> offset + length (concat lines)"
  by (induction offset in_fence lines rule: scan_heads.induct)
    (force split: if_splits option.splits)+

lemma scan_heads_sorted: "sorted (map fst (scan_heads offset in_fence lines))"
proof (induction offset in_fence lines rule: scan_heads.induct)
  case (2 offset in_fence line lines)
  have "offset \<le> fst x" if "x \<in> set (scan_heads (offset + length line) in_fence lines)" for x
    using scan_heads_bounds [of "fst x" "fst (snd x)" "snd (snd x)" "offset + length line" in_fence lines] that by simp
  with 2 show ?case by (auto split: option.splits)
qed simp

lemma slice_drop: "a \<le> b \<Longrightarrow> b \<le> length s \<Longrightarrow> slice s a b @ drop b s = drop a s"
  by (simp add: slice_def) (metis append_take_drop_id drop_drop le_add_diff_inverse2)

text \<open>One section: its number below its parent, and its text up to the next start.\<close>

definition child_index :: "ustr \<Rightarrow> nat \<Rightarrow> ustr" where
  "child_index parent n = (if parent \<noteq> [] then parent @ [46] @ nat_str n else nat_str n)"

definition section_end :: "ustr \<Rightarrow> (nat \<times> nat \<times> ustr) list \<Rightarrow> nat" where
  "section_end content heads = (case heads of [] \<Rightarrow> length content | h # _ \<Rightarrow> fst h)"

lemma number_step:
  obtains s stack' parent where
    "number_sections content stack counts (h # heads) =
      s # number_sections content stack' (AList.update parent (dict_get counts parent 0 + 1) counts) heads"
    and "sec_index s = child_index parent (dict_get counts parent 0 + 1)"
    and "sec_text s = slice content (fst h) (section_end content heads)"
proof -
  obtain start level heading where h: "h = (start, level, heading)" by (metis prod.exhaust)
  show thesis
    by (rule that, unfold h, subst number_sections.simps, unfold Let_def, rule refl)
      (auto simp: child_index_def section_end_def split: list.splits)
qed

lemma concat_number_sections:
  assumes "sorted (map fst heads)" and "list_all (\<lambda>h. fst h \<le> length content) heads"
  shows "concat (map sec_text (number_sections content stack counts heads)) = drop (section_end content heads) content"
  using assms
proof (induction heads arbitrary: stack counts)
  case Nil
  then show ?case by (simp add: section_end_def)
next
  case (Cons h heads)
  obtain s stack' parent where step: "number_sections content stack counts (h # heads) =
      s # number_sections content stack' (AList.update parent (dict_get counts parent 0 + 1) counts) heads"
    "sec_text s = slice content (fst h) (section_end content heads)" by (rule number_step)
  have "fst h \<le> section_end content heads" "section_end content heads \<le> length content"
    using Cons.prems by (auto simp: section_end_def split: list.splits)
  from slice_drop [OF this] Cons.IH [of stack' "AList.update parent (dict_get counts parent 0 + 1) counts"] Cons.prems
  show ?case by (simp add: step section_end_def)
qed

section \<open>Section numbers\<close>

lemma nat_str_no_dot: "46 \<notin> set (nat_str n)"
  using nat_str_digits by fastforce

lemma child_index_inj:
  assumes "child_index p n = child_index q m"
  shows "p = q \<and> n = m"
proof -
  have dot: "rfind_char 46 (child_index p n) = (if p = [] then None else Some (length p))" for p n
    using rfind_char_append [OF nat_str_no_dot, of p n] by (simp add: child_index_def rfind_char_None nat_str_no_dot)
  have "(p = []) = (q = []) \<and> length p = length q"
    using dot [of p n] dot [of q m] assms by (cases "p = []"; cases "q = []") auto
  then show ?thesis using assms nat_str_inj by (auto simp: child_index_def)
qed

lemma number_sections_fresh:
  "distinct (map sec_index (number_sections content stack counts heads)) \<and>
   list_all (\<lambda>s. \<exists>p n. sec_index s = child_index p n \<and> dict_get counts p 0 < n)
     (number_sections content stack counts heads)"
proof (induction heads arbitrary: stack counts)
  case (Cons h heads)
  obtain s stack' parent where step: "number_sections content stack counts (h # heads) =
      s # number_sections content stack' (AList.update parent (dict_get counts parent 0 + 1) counts) heads"
    "sec_index s = child_index parent (dict_get counts parent 0 + 1)" by (rule number_step)
  let ?counts = "AList.update parent (dict_get counts parent 0 + 1) counts"
  have get: "dict_get ?counts p 0 = (if p = parent then dict_get counts parent 0 + 1 else dict_get counts p 0)" for p
    by (simp add: dict_get_def)
  note IH = Cons.IH [of stack' ?counts]
  have "sec_index x \<noteq> sec_index s" if x: "x \<in> set (number_sections content stack' ?counts heads)" for x
  proof
    assume eq: "sec_index x = sec_index s"
    obtain p n where n: "sec_index x = child_index p n" "dict_get ?counts p 0 < n"
      using conjunct2 [OF IH] x by (auto simp: list_all_iff)
    with eq step(2) have "p = parent \<and> n = dict_get counts parent 0 + 1" using child_index_inj by metis
    with n(2) get [of parent] show False by auto
  qed
  then have "sec_index s \<notin> sec_index ` set (number_sections content stack' ?counts heads)" by force
  moreover have "\<exists>p n. sec_index x = child_index p n \<and> dict_get counts p 0 < n"
    if x: "x \<in> set (number_sections content stack' ?counts heads)" for x
  proof -
    obtain p n where n: "sec_index x = child_index p n" "dict_get ?counts p 0 < n"
      using conjunct2 [OF IH] x by (auto simp: list_all_iff)
    then have "dict_get counts p 0 < n" using get [of p] by (auto split: if_splits)
    with n(1) show ?thesis by blast
  qed
  moreover have "\<exists>p n. sec_index s = child_index p n \<and> dict_get counts p 0 < n"
    using step(2) by (intro exI [of _ parent] exI [of _ "dict_get counts parent 0 + 1"]) simp
  ultimately show ?case using conjunct1 [OF IH] unfolding step(1) list_all_iff by simp
qed simp

lemma split_sections_shape:
  obtains heads preamble where "split_markdown_sections content =
      (if strip preamble \<noteq> [] then [\<lparr>sec_index = PREAMBLE_INDEX, sec_level = 0, sec_heading = PREAMBLE_HEADING,
         sec_path = [], sec_text = preamble\<rparr>] else []) @ number_sections content [] [] heads"
    and "preamble @ concat (map sec_text (number_sections content [] [] heads)) = content"
proof -
  let ?heads = "scan_heads 0 False (splitlines_keep content)"
  have first: "(case ?heads of [] \<Rightarrow> length content | (s, _) # _ \<Rightarrow> s) = section_end content ?heads"
    by (auto simp: section_end_def split: list.splits)
  have "list_all (\<lambda>h. fst h \<le> length content) ?heads"
    using scan_heads_bounds [of _ _ _ 0 False "splitlines_keep content"] by (fastforce simp: list_all_iff)
  from concat_number_sections [OF scan_heads_sorted this, of "[]" "[]"]
  have "take (section_end content ?heads) content @ concat (map sec_text (number_sections content [] [] ?heads)) = content"
    by simp
  then show thesis by (rule that [rotated]) (simp only: split_markdown_sections_def Let_def first)
qed

lemma split_sections_lossless:
  "\<exists>blank. content = blank @ concat (map sec_text (split_markdown_sections content)) \<and> strip blank = []"
proof -
  obtain heads preamble where split: "split_markdown_sections content =
      (if strip preamble \<noteq> [] then [\<lparr>sec_index = PREAMBLE_INDEX, sec_level = 0, sec_heading = PREAMBLE_HEADING,
         sec_path = [], sec_text = preamble\<rparr>] else []) @ number_sections content [] [] heads"
    "preamble @ concat (map sec_text (number_sections content [] [] heads)) = content" by (rule split_sections_shape)
  show ?thesis
  proof (cases "strip preamble = []")
    case True
    then show ?thesis using split by (intro exI [of _ preamble]) simp
  next
    case False
    have "strip [] = []" by (simp add: strip_def strip_by_def lstrip_by_def rstrip_by_def)
    then show ?thesis using split False by (intro exI [of _ "[]"]) simp
  qed
qed

lemma split_sections_distinct: "distinct (map sec_index (split_markdown_sections content))"
proof -
  obtain heads preamble where split: "split_markdown_sections content =
      (if strip preamble \<noteq> [] then [\<lparr>sec_index = PREAMBLE_INDEX, sec_level = 0, sec_heading = PREAMBLE_HEADING,
         sec_path = [], sec_text = preamble\<rparr>] else []) @ number_sections content [] [] heads"
    by (rule split_sections_shape)
  have zero: "PREAMBLE_INDEX = child_index [] 0"
    by (simp add: PREAMBLE_INDEX_def child_index_def lit_def nat_str.simps)
  have "sec_index s \<noteq> PREAMBLE_INDEX" if "s \<in> set (number_sections content [] [] heads)" for s
  proof
    assume eq: "sec_index s = PREAMBLE_INDEX"
    have "\<exists>p n. sec_index s = child_index p n \<and> dict_get [] p 0 < n"
      using conjunct2 [OF number_sections_fresh] that unfolding list_all_iff by blast
    then obtain p n where n: "sec_index s = child_index p n" "dict_get [] p 0 < n" by blast
    with eq zero have "n = 0" using child_index_inj by metis
    with n(2) show False by simp
  qed
  then have "PREAMBLE_INDEX \<notin> sec_index ` set (number_sections content [] [] heads)" by force
  then show ?thesis using number_sections_fresh [of content "[]" "[]" heads] by (simp add: split)
qed

text \<open>
  C18: Cutting a page into sections loses nothing but a blank beginning: the section texts in order,
  after some white space, are the page; and no two sections have the same number, so that budgets,
  scores and outlines that are kept by number do not mix sections up.
\<close>
theorem sections_lossless:
  "(\<exists>blank. content = blank @ concat (map sec_text (split_markdown_sections content)) \<and> strip blank = []) \<and>
   distinct (map sec_index (split_markdown_sections content))"
  using split_sections_lossless split_sections_distinct by blast

section \<open>Choosing sections\<close>





section \<open>Filling the budget\<close>

lemma clip_text_take: "\<exists>k. clip_text content budget = take k content \<and> k \<le> budget \<or> clip_text content budget = content \<and> length content \<le> budget"
proof (cases "length content \<le> budget")
  case False
  show ?thesis
  proof (cases "rfind_char 10 (take budget content)")
    case None
    then show ?thesis using False by (intro exI [of _ budget]) (simp add: clip_text_def)
  next
    case (Some i)
    have "i < budget" using rfind_char_Some [OF Some] by simp
    then show ?thesis using False Some
      by (intro exI [of _ "if real budget * LINE_BREAK_CLIP_RATIO \<le> real i then Suc i else budget"])
        (simp add: clip_text_def min_def)
  qed
qed (simp add: clip_text_def)

lemma clip_text_prefix: "prefix (clip_text content budget) content" "length (clip_text content budget) \<le> budget"
  using clip_text_take [of content budget] by (auto simp: take_is_prefix)








section \<open>Plain reads\<close>

lemma remaining_from_suffix:
  "\<exists>k\<le>length secs. rev (remaining_from kept (length (blank @ concat (map sec_text secs))) (rev secs)) =
      map outline_label (drop k secs) \<and>
    (k = 0 \<or> length (blank @ concat (map sec_text (take k secs))) \<le> kept) \<and>
    (k = length secs \<or> kept < length (blank @ concat (map sec_text (take (Suc k) secs))))"
proof (induction secs rule: rev_induct)
  case (snoc s secs)
  let ?len = "\<lambda>xs. length (blank @ concat (map sec_text xs))"
  obtain k where k: "k \<le> length secs" "rev (remaining_from kept (?len secs) (rev secs)) = map outline_label (drop k secs)"
    "k = 0 \<or> ?len (take k secs) \<le> kept" "k = length secs \<or> kept < ?len (take (Suc k) secs)"
    using snoc.IH by blast
  have step: "rev (remaining_from kept (?len (secs @ [s])) (rev (secs @ [s]))) =
      rev (remaining_from kept (?len secs) (rev secs)) @ (if ?len (secs @ [s]) > kept then [outline_label s] else [])"
    by simp
  show ?case
  proof (cases "?len (secs @ [s]) > kept")
    case True
    then show ?thesis
      unfolding step using k by (intro exI [of _ k]) (cases "k = length secs"; simp)
  next
    case False
    have "?len (take (Suc k) secs) \<le> ?len secs"
      by (metis append_take_drop_id concat_append length_append map_append le_add1 append.assoc)
    then have "k = length secs" using k(4) False by auto
    then show ?thesis unfolding step using k(2) False by (intro exI [of _ "length (secs @ [s])"]) simp
  qed
qed simp

text \<open>
  A plain read with a budget returns the whole text when it fits and otherwise a beginning of it
  within the budget, says so, and names exactly the sections that are not completely there: those from
  some section on, where all sections before are complete and that one is not.
\<close>
theorem plain_read_cut:
  "let payload = map_of (plain_read_payload dump p (Some n) include_links); content = page_text p;
       secs = split_markdown_sections content
   in if length content \<le> n
      then payload (lit ''text'') = Some (PStr content) \<and> payload (lit ''truncated'') = None
      else \<exists>kept k blank. prefix kept content \<and> length kept \<le> n \<and> payload (lit ''text'') = Some (PStr kept) \<and>
        payload (lit ''truncated'') = Some (PBool True) \<and>
        payload (lit ''remaining_sections'') = Some (PList (map (\<lambda>s. PStr (outline_label s)) (drop k secs))) \<and>
        content = blank @ concat (map sec_text secs) \<and> strip blank = [] \<and>
        (k = 0 \<or> length (blank @ concat (map sec_text (take k secs))) \<le> length kept) \<and>
        (k = length secs \<or> length kept < length (blank @ concat (map sec_text (take (Suc k) secs))))"
proof (cases "length (page_text p) \<le> n")
  case True
  then show ?thesis by (simp add: plain_read_payload_def page_payload_def inj_lit Let_def)
next
  case False
  let ?secs = "split_markdown_sections (page_text p)" and ?kept = "clip_text (page_text p) n"
  obtain blank where blank: "page_text p = blank @ concat (map sec_text ?secs)" "strip blank = []"
    using split_sections_lossless by blast
  obtain k where k: "rev (remaining_from (length ?kept) (length (blank @ concat (map sec_text ?secs))) (rev ?secs)) =
      map outline_label (drop k ?secs)" "k = 0 \<or> length (blank @ concat (map sec_text (take k ?secs))) \<le> length ?kept"
    "k = length ?secs \<or> length ?kept < length (blank @ concat (map sec_text (take (Suc k) ?secs)))"
    using remaining_from_suffix [of ?secs "length ?kept" blank] by blast
  have labels: "rev (remaining_from (length ?kept) (length (page_text p)) (rev ?secs)) = map outline_label (drop k ?secs)"
    using k(1) blank(1) [symmetric] by (simp only:)
  let ?payload = "map_of (plain_read_payload dump p (Some n) include_links)"
  have fields: "?payload (lit ''text'') = Some (PStr ?kept)" "?payload (lit ''truncated'') = Some (PBool True)"
    "?payload (lit ''remaining_sections'') = Some (PList (map (\<lambda>s. PStr (outline_label s)) (drop k ?secs)))"
    unfolding plain_read_payload_def Let_def option.case if_not_P [OF False] labels
    by (simp_all add: page_payload_def inj_lit map_add_def comp_def)
  show ?thesis
    unfolding Let_def if_not_P [OF False]
    using fields k(2,3) blank clip_text_prefix [of "page_text p" n]
    by (intro exI [of _ ?kept] exI [of _ k] exI [of _ blank] conjI) assumption+
qed

section \<open>Who may read what\<close>







end
