(* ===== verification/Managed_Context.thy ===== *)
theory Managed_Context
  imports Search
begin

text \<open>
  The managed context of \<open>managed_context.py\<close>: how often pages of a generic Markdown folder were hit,
  kept in a sidecar file outside the folder, as a small prior for ranking and orientation. SHA-256, HMAC,
  the size of a JSON text and the reading of numbers from texts are parameters. Times and counters are
  real numbers; the NaN and Infinity literals of a JSON text are not represented.
\<close>

section \<open>Configuration\<close>

definition MANAGED_CONTEXT_SCHEMA_VERSION :: ustr where
  "MANAGED_CONTEXT_SCHEMA_VERSION = lit ''managed-context-v1''"

definition MANAGED_CONTEXT_CONFIG_VERSION :: ustr where
  "MANAGED_CONTEXT_CONFIG_VERSION = lit ''local-sidecar-v1''"

definition SIDECAR_RECORD_READ_MAX_BYTES :: nat where "SIDECAR_RECORD_READ_MAX_BYTES = 524288"
definition SIDECAR_SALT_READ_MAX_BYTES :: nat where "SIDECAR_SALT_READ_MAX_BYTES = 16384"

definition AUTHORED_ORIENTATION_PAGE_NAMES :: "ustr list" where
  "AUTHORED_ORIENTATION_PAGE_NAMES = map lit [''hot.md'', ''index.md'', ''overview.md'', ''quickstart.md'']"

definition MANAGED_ORIENTATION_STOPWORDS :: "ustr list" where
  "MANAGED_ORIENTATION_STOPWORDS = map lit [''a'', ''an'', ''and'', ''are'', ''as'', ''at'', ''be'', ''by'',
     ''can'', ''could'', ''for'', ''from'', ''how'', ''i'', ''in'', ''is'', ''it'', ''of'', ''on'', ''or'',
     ''please'', ''show'', ''tell'', ''that'', ''the'', ''this'', ''to'', ''was'', ''what'', ''when'',
     ''where'', ''which'', ''who'', ''why'', ''with'', ''would'']"

record managed_config =
  mc_enabled :: bool
  mc_backend :: ustr
  mc_namespace :: ustr
  mc_state_dir :: "ustr option"
  mc_secret :: "ustr option"
  mc_max_boost :: real
  mc_tie_band :: real
  mc_half_life :: real
  mc_max_counter :: real
  mc_increment :: real
  mc_max_entries :: int
  mc_orientation_limit :: int
  mc_query_orientation_limit :: int
  mc_snippet_chars :: int
  mc_min_evidence :: real

definition default_managed_config :: managed_config where
  "default_managed_config = \<lparr>mc_enabled = False, mc_backend = lit ''local-sidecar'',
     mc_namespace = lit ''default'', mc_state_dir = None, mc_secret = None, mc_max_boost = 5 / 100,
     mc_tie_band = 5 / 100, mc_half_life = 7 * 24 * 60 * 60, mc_max_counter = 10, mc_increment = 1,
     mc_max_entries = 256, mc_orientation_limit = 3, mc_query_orientation_limit = 2,
     mc_snippet_chars = 160, mc_min_evidence = 2 / 10\<rparr>"

definition validate_managed_context_config :: "managed_config \<Rightarrow> managed_config res" where
  "validate_managed_context_config c =
     (if \<not> mc_enabled c then Inr c
      else if mc_backend c \<noteq> lit ''local-sidecar'' then Inl (ValueError ''managed_context backend must be local-sidecar'')
      else if strip (mc_namespace c) = [] then Inl (ValueError ''managed_context namespace must be non-empty'')
      else if mc_max_boost c < 0 then Inl (ValueError ''managed_context max_boost must be non-negative'')
      else if mc_tie_band c < 0 then Inl (ValueError ''managed_context lexical_tie_band must be non-negative'')
      else if mc_half_life c \<le> 0 then Inl (ValueError ''managed_context hit_half_life_seconds must be positive'')
      else if mc_max_counter c \<le> 0 then Inl (ValueError ''managed_context max_hit_counter must be positive'')
      else if mc_increment c \<le> 0 then Inl (ValueError ''managed_context hit_increment must be positive'')
      else if mc_max_entries c \<le> 0 then Inl (ValueError ''managed_context max_hit_entries must be positive'')
      else if mc_orientation_limit c \<le> 0 then Inl (ValueError ''managed_context orientation_limit must be positive'')
      else if mc_query_orientation_limit c \<le> 0
        then Inl (ValueError ''managed_context query_orientation_limit must be positive'')
      else if mc_snippet_chars c < 0
        then Inl (ValueError ''managed_context orientation_snippet_chars must be non-negative'')
      else if mc_min_evidence c < 0
        then Inl (ValueError ''managed_context orientation_min_evidence_score must be non-negative'')
      else Inr c)"

datatype managed_option = No_option | Switch bool | Config managed_config

fun normalize_managed_context_config :: "managed_option \<Rightarrow> managed_config res" where
  "normalize_managed_context_config No_option = validate_managed_context_config default_managed_config"
| "normalize_managed_context_config (Switch b) =
     validate_managed_context_config (default_managed_config\<lparr>mc_enabled := b\<rparr>)"
| "normalize_managed_context_config (Config c) = validate_managed_context_config c"

definition managed_env_bool :: "ustr option \<Rightarrow> bool" where
  "managed_env_bool value = (case value of None \<Rightarrow> False | Some v \<Rightarrow>
     lower (strip v) \<in> set (map lit [''1'', ''true'', ''yes'', ''on'', ''enabled'']))"

text \<open>\<open>os.getenv(name) or default\<close>; \<open>expand\<close> is \<open>expanduser\<close>.\<close>

definition env_or :: "(ustr \<Rightarrow> ustr option) \<Rightarrow> string \<Rightarrow> ustr \<Rightarrow> ustr" where
  "env_or getenv name dflt = (case getenv (lit name) of Some v \<Rightarrow> if v \<noteq> [] then v else dflt | None \<Rightarrow> dflt)"

definition managed_context_config_from_env ::
  "(ustr \<Rightarrow> ustr option) \<Rightarrow> (ustr \<Rightarrow> ustr) \<Rightarrow> managed_config res" where
  "managed_context_config_from_env getenv expand =
     (let dir = env_or getenv ''LLMWIKI_MANAGED_CONTEXT_STATE_DIR'' []
      in validate_managed_context_config (default_managed_config\<lparr>
           mc_enabled := managed_env_bool (getenv (lit ''LLMWIKI_MANAGED_CONTEXT'')),
           mc_backend := env_or getenv ''LLMWIKI_MANAGED_CONTEXT_BACKEND'' (lit ''local-sidecar''),
           mc_namespace := env_or getenv ''LLMWIKI_MANAGED_CONTEXT_NAMESPACE'' (lit ''default''),
           mc_state_dir := (if dir \<noteq> [] then Some (expand dir) else None)\<rparr>))"

section \<open>Where the sidecar lies\<close>

text \<open>Paths are lists of parts; \<open>abspath\<close> puts the working directory in front and drops dots.\<close>

definition drop_dots_step :: "ustr \<Rightarrow> ustr list \<Rightarrow> ustr list" where
  "drop_dots_step part parts =
     (if part = [] \<or> part = [46] then parts else if part = [46, 46] then butlast parts else parts @ [part])"

definition lexical_absolute_path :: "ustr list \<Rightarrow> bool \<times> ustr list \<Rightarrow> ustr list" where
  "lexical_absolute_path cwd p =
     (let (absolute, parts) = p in fold drop_dots_step parts (if absolute then [] else cwd))"

definition same_or_relative_to :: "ustr list \<Rightarrow> ustr list \<Rightarrow> bool" where
  "same_or_relative_to child parent \<longleftrightarrow> take (length parent) child = parent"

definition resolve_managed_context_state_dir ::
  "ustr list \<Rightarrow> (bool \<times> ustr list \<Rightarrow> ustr list) \<Rightarrow> bool \<times> ustr list \<Rightarrow> bool \<times> ustr list \<Rightarrow> ustr list res" where
  "resolve_managed_context_state_dir cwd resolve root_dir state_dir =
     (if same_or_relative_to (lexical_absolute_path cwd state_dir) (lexical_absolute_path cwd root_dir) \<or>
         same_or_relative_to (resolve state_dir) (resolve root_dir)
      then Inl (ValueError ''managed_context state_dir must be outside the served source root'')
      else Inr (resolve state_dir))"

section \<open>Scopes and keys\<close>

record managed_env =
  me_sha :: "ustr \<Rightarrow> ustr"
  me_hmac :: "ustr \<Rightarrow> ustr \<Rightarrow> ustr"
  me_float :: "ustr \<Rightarrow> real option"
  me_int :: "ustr \<Rightarrow> int option"
  me_json_size :: "pyval \<Rightarrow> nat"

record managed_scope =
  ms_namespace :: ustr
  ms_source_id :: ustr
  ms_adapter :: ustr
  ms_projection :: ustr
  ms_source :: ustr

definition source_signature_digest :: "managed_env \<Rightarrow> (ustr \<times> int \<times> nat) list \<Rightarrow> ustr" where
  "source_signature_digest env signature =
     (if signature = [] then []
      else lit ''sha256:'' @ me_sha env (join [10] (map (\<lambda>(i, mtime, size). join [9] [nat_str i, int_str mtime, nat_str size])
             (List.enumerate 0 (sort (map (\<lambda>(path, mtime, size). (mtime, size)) signature))))))"

definition scope_parts :: "managed_env \<Rightarrow> managed_scope \<Rightarrow> ustr list" where
  "scope_parts env scope = [MANAGED_CONTEXT_SCHEMA_VERSION, me_sha env (ms_namespace scope),
     me_sha env (ms_source_id scope), ms_adapter scope, ms_projection scope, ms_source scope]"

definition record_digest :: "managed_env \<Rightarrow> managed_scope \<Rightarrow> ustr" where
  "record_digest env scope = me_sha env (join [0] (scope_parts env scope))"

definition opaque_page_key :: "managed_env \<Rightarrow> managed_scope \<Rightarrow> ustr \<Rightarrow> ustr \<Rightarrow> ustr" where
  "opaque_page_key env scope i secret =
     lit ''pk_'' @ me_hmac env secret (join [0] (scope_parts env scope @ [i]))"

definition page_keys_by_id :: "managed_env \<Rightarrow> wiki_page list \<Rightarrow> managed_scope \<Rightarrow> ustr \<Rightarrow> (ustr, ustr) dict" where
  "page_keys_by_id env pages scope secret =
     dict_of (map (\<lambda>p. (page_id p, opaque_page_key env scope (page_id p) secret)) pages)"

section \<open>Hit counters\<close>

record page_hit =
  hit_key :: ustr
  hit_counter :: real
  hit_last :: real

record managed_record =
  mr_scope :: managed_scope
  mr_generation :: int
  mr_created :: real
  mr_updated :: real
  mr_hits :: "(ustr, page_hit) dict"

definition decayed_counter :: "real \<Rightarrow> real \<Rightarrow> real \<Rightarrow> real \<Rightarrow> real" where
  "decayed_counter n last_hit now half_life =
     (if half_life \<le> 0 then 0 else n * (1 / 2) powr (max 0 (now - last_hit) / half_life))"

definition decayed_boost :: "managed_config \<Rightarrow> real \<Rightarrow> managed_record \<Rightarrow> ustr \<Rightarrow> real" where
  "decayed_boost c now r key =
     (case map_of (mr_hits r) key of
        None \<Rightarrow> 0
      | Some hit \<Rightarrow> (let n = decayed_counter (hit_counter hit) (hit_last hit) now (mc_half_life c)
          in if n \<le> 0 then 0
             else min (mc_max_boost c) (mc_max_boost c * (min n (mc_max_counter c) / mc_max_counter c))))"

definition hit_sort_key :: "page_hit \<Rightarrow> real \<times> real \<times> ustr" where
  "hit_sort_key hit = (- hit_counter hit, - hit_last hit, hit_key hit)"

definition trim_hits :: "managed_config \<Rightarrow> (ustr, page_hit) dict \<Rightarrow> (ustr, page_hit) dict" where
  "trim_hits c hits =
     dict_of (map (\<lambda>hit. (hit_key hit, hit)) (take (nat (mc_max_entries c)) (sort_key hit_sort_key (map snd hits))))"

definition decay_hit :: "managed_config \<Rightarrow> real \<Rightarrow> page_hit \<Rightarrow> (ustr, page_hit) dict \<Rightarrow> (ustr, page_hit) dict" where
  "decay_hit c now hit d =
     (let n = decayed_counter (hit_counter hit) (hit_last hit) now (mc_half_life c)
      in if n \<le> 1 / 1000000 then d
         else AList.update (hit_key hit)
                \<lparr>hit_key = hit_key hit, hit_counter = py_round (min (mc_max_counter c) n) 6, hit_last = now\<rparr> d)"

definition decayed_hits :: "managed_config \<Rightarrow> real \<Rightarrow> (ustr, page_hit) dict \<Rightarrow> (ustr, page_hit) dict" where
  "decayed_hits c now hits = trim_hits c (fold (decay_hit c now) (map snd hits) [])"

definition bump_hit :: "managed_config \<Rightarrow> real \<Rightarrow> ustr \<Rightarrow> (ustr, page_hit) dict \<Rightarrow> (ustr, page_hit) dict" where
  "bump_hit c now key d =
     (let n = (case map_of d key of Some hit \<Rightarrow> hit_counter hit | None \<Rightarrow> 0)
      in AList.update key \<lparr>hit_key = key, hit_counter = py_round (min (mc_max_counter c) (n + mc_increment c)) 6,
           hit_last = now\<rparr> d)"

text \<open>The record \<open>update_hits\<close> writes over the one it has read.\<close>

definition updated_record ::
  "managed_config \<Rightarrow> managed_scope \<Rightarrow> real \<Rightarrow> ustr list \<Rightarrow> managed_record option \<Rightarrow> managed_record" where
  "updated_record c scope now keys current =
     (let effective_now = (case current of Some r \<Rightarrow> max now (mr_updated r) | None \<Rightarrow> now);
          hits = fold (bump_hit c effective_now) (dedupe_on id {} keys)
            (decayed_hits c effective_now (case current of Some r \<Rightarrow> mr_hits r | None \<Rightarrow> []))
      in \<lparr>mr_scope = scope,
          mr_generation = (case current of Some r \<Rightarrow> mr_generation r + 1 | None \<Rightarrow> 1),
          mr_created = (case current of Some r \<Rightarrow> mr_created r | None \<Rightarrow> effective_now),
          mr_updated = effective_now, mr_hits = trim_hits c hits\<rparr>)"

section \<open>Reading and writing records\<close>

text \<open>
  \<open>float(v)\<close> and \<open>int(v)\<close>: an integer from 2^1024 - 2^970 on is too large for a float.
\<close>

definition py_float :: "managed_env \<Rightarrow> pyval \<Rightarrow> real res" where
  "py_float env v =
     (case v of
        PBool b \<Rightarrow> Inr (if b then 1 else 0)
      | PInt i \<Rightarrow> if \<bar>i\<bar> < 2 ^ 1024 - 2 ^ 970 then Inr (of_int i) else Inl (OverflowError ''int too large to convert to float'')
      | PFloat x \<Rightarrow> Inr x
      | PStr s \<Rightarrow> (case me_float env s of Some x \<Rightarrow> Inr x | None \<Rightarrow> Inl (ValueError ''could not convert string to float''))
      | _ \<Rightarrow> Inl (TypeError ''float() argument must be a string or a real number''))"

definition py_int :: "managed_env \<Rightarrow> pyval \<Rightarrow> int res" where
  "py_int env v =
     (case v of
        PBool b \<Rightarrow> Inr (if b then 1 else 0)
      | PInt i \<Rightarrow> Inr i
      | PFloat x \<Rightarrow> Inr (if x < 0 then \<lceil>x\<rceil> else \<lfloor>x\<rfloor>)
      | PStr s \<Rightarrow> (case me_int env s of Some i \<Rightarrow> Inr i | None \<Rightarrow> Inl (ValueError ''invalid literal for int()''))
      | _ \<Rightarrow> Inl (TypeError ''int() argument must be a string or a real number''))"

fun caught_conversion :: "py_error \<Rightarrow> bool" where
  "caught_conversion (TypeError m) = True"
| "caught_conversion (ValueError m) = True"
| "caught_conversion e = False"

text \<open>A \<open>try\<close> around conversions that gives up on TypeError and ValueError.\<close>

definition try_conversion :: "'a res \<Rightarrow> 'a option res" where
  "try_conversion r = (case r of Inr x \<Rightarrow> Inr (Some x) | Inl e \<Rightarrow> if caught_conversion e then Inr None else Inl e)"

definition add_read_hit ::
  "managed_config \<Rightarrow> real \<Rightarrow> ustr \<Rightarrow> real \<Rightarrow> real \<Rightarrow> (ustr, page_hit) dict \<Rightarrow> (ustr, page_hit) dict" where
  "add_read_hit c now key n t hits =
     (if n \<le> 0 \<or> decayed_counter n t now (mc_half_life c) \<le> 0 then hits
      else AList.update key
        \<lparr>hit_key = key, hit_counter = py_round (min (mc_max_counter c) n) 6, hit_last = t\<rparr> hits)"

text \<open>One item of \<open>page_hit_prior\<close>.\<close>

definition read_hit ::
  "managed_env \<Rightarrow> managed_config \<Rightarrow> real \<Rightarrow> pyval \<Rightarrow> (ustr, page_hit) dict \<Rightarrow> (ustr, page_hit) dict res" where
  "read_hit env c now item hits =
     (case item of
        PDict d \<Rightarrow>
          (case pget d ''page_key'' of
             PStr key \<Rightarrow>
               if \<not> starts_with key (lit ''pk_'') \<or> pget d ''counter'' = PNone \<or> pget d ''last_hit_at'' = PNone
               then Inr hits
               else bind_res (try_conversion (bind_res (py_float env (pget d ''counter'')) (\<lambda>n.
                      bind_res (py_float env (pget d ''last_hit_at'')) (\<lambda>t. Inr (n, t)))))
                    (\<lambda>read. Inr (case read of None \<Rightarrow> hits | Some (n, t) \<Rightarrow> add_read_hit c now key n t hits))
           | _ \<Rightarrow> Inr hits)
      | _ \<Rightarrow> Inr hits)"

fun read_hits ::
  "managed_env \<Rightarrow> managed_config \<Rightarrow> real \<Rightarrow> pyval list \<Rightarrow> (ustr, page_hit) dict \<Rightarrow> (ustr, page_hit) dict res" where
  "read_hits env c now [] hits = Inr hits"
| "read_hits env c now (item # items) hits =
     bind_res (read_hit env c now item hits) (read_hits env c now items)"

definition scope_fields :: "managed_env \<Rightarrow> managed_scope \<Rightarrow> (ustr, pyval) dict" where
  "scope_fields env scope =
     [(lit ''schema_version'', PStr MANAGED_CONTEXT_SCHEMA_VERSION),
      (lit ''config_version'', PStr MANAGED_CONTEXT_CONFIG_VERSION),
      (lit ''namespace_digest'', PStr (me_sha env (ms_namespace scope))),
      (lit ''source_id_digest'', PStr (me_sha env (ms_source_id scope))),
      (lit ''adapter_kind'', PStr (ms_adapter scope)),
      (lit ''projection_signature_digest'', PStr (ms_projection scope)),
      (lit ''source_signature_digest'', PStr (ms_source scope))]"

definition checked_record ::
  "managed_config \<Rightarrow> managed_scope \<Rightarrow> (ustr, page_hit) dict \<Rightarrow> int \<times> real \<times> real \<Rightarrow> managed_record option" where
  "checked_record c scope hits read =
     (let (g, created, updated) = read
      in if g < 1 \<or> updated < created then None
         else Some \<lparr>mr_scope = scope, mr_generation = g, mr_created = created, mr_updated = updated,
                    mr_hits = trim_hits c hits\<rparr>)"

definition finish_record ::
  "managed_env \<Rightarrow> managed_config \<Rightarrow> managed_scope \<Rightarrow> real \<Rightarrow> (ustr, pyval) dict \<Rightarrow> (ustr, page_hit) dict \<Rightarrow>
   managed_record option res" where
  "finish_record env c scope now d hits =
     bind_res (try_conversion (bind_res (py_int env (por (pget d ''generation'') (PInt 0))) (\<lambda>g.
       bind_res (py_float env (por (pget d ''created_at'') (PFloat now))) (\<lambda>created.
       bind_res (py_float env (por (pget d ''updated_at'') (PFloat now))) (\<lambda>updated. Inr (g, created, updated))))))
     (\<lambda>read. Inr (Option.bind read (checked_record c scope hits)))"

definition managed_record_from_payload ::
  "managed_env \<Rightarrow> managed_config \<Rightarrow> managed_scope \<Rightarrow> real \<Rightarrow> pyval \<Rightarrow> managed_record option res" where
  "managed_record_from_payload env c scope now payload =
     (case payload of
        PDict d \<Rightarrow>
          if list_ex (\<lambda>(k, v). dict_get d k PNone \<noteq> v) (scope_fields env scope) then Inr None
          else (case pget d ''page_hit_prior'' of
                  PList items \<Rightarrow> bind_res (read_hits env c now items []) (finish_record env c scope now d)
                | _ \<Rightarrow> Inr None)
      | _ \<Rightarrow> Inr None)"

definition hit_payload :: "page_hit \<Rightarrow> pyval" where
  "hit_payload hit = PDict [(lit ''page_key'', PStr (hit_key hit)),
     (lit ''counter'', PFloat (py_round (hit_counter hit) 6)),
     (lit ''last_hit_at'', PFloat (py_round (hit_last hit) 6))]"

definition managed_record_to_payload :: "managed_env \<Rightarrow> managed_record \<Rightarrow> pyval" where
  "managed_record_to_payload env r = PDict (scope_fields env (mr_scope r) @
     [(lit ''created_at'', PFloat (py_round (mr_created r) 6)),
      (lit ''updated_at'', PFloat (py_round (mr_updated r) 6)),
      (lit ''generation'', PInt (mr_generation r)),
      (lit ''orientation_generation'', PDict [(lit ''strategy'', PStr (lit ''projection-derived-v1'')),
         (lit ''generated_at'', PFloat (py_round (mr_updated r) 6))]),
      (lit ''page_hit_prior'', PList (map hit_payload (sort_key hit_key (map snd (mr_hits r)))))])"

end
