(* ===== verification/Managed_Runtime.thy ===== *)
theory Managed_Runtime
  imports Managed_Context
begin

text \<open>
  The sidecar store and the runtime of \<open>managed_context.py\<close>: reading and updating the files of one
  namespace, the prior given to ranking, the derived orientation and the recording of hits. Here every
  operation runs alone; \<open>Sidecar_Lock\<close> has several processes.
\<close>

section \<open>Files and locks\<close>

text \<open>
  The files of a namespace directory by name, with their size; the lock directories that are there, and
  whether they are old enough to be stale. A directory that cannot be written makes writing raise OSError.
\<close>

datatype sidecar_file = Json_text pyval nat | Other_bytes nat

record sidecar =
  sc_files :: "(ustr, sidecar_file) dict"
  sc_locks :: "(ustr, bool) dict"
  sc_writable :: bool

definition record_path :: "managed_env \<Rightarrow> managed_scope \<Rightarrow> ustr" where
  "record_path env scope = record_digest env scope @ lit ''.json''"

definition salt_path :: ustr where "salt_path = lit ''salt.json''"

definition sidecar_lock_present :: "sidecar \<Rightarrow> ustr \<Rightarrow> bool" where
  "sidecar_lock_present sc path \<longleftrightarrow> map_of (sc_locks sc) path \<noteq> None"

definition sidecar_lock_is_stale :: "sidecar \<Rightarrow> ustr \<Rightarrow> bool" where
  "sidecar_lock_is_stale sc path \<longleftrightarrow> dict_get (sc_locks sc) path False"

definition read_json_payload :: "nat \<Rightarrow> sidecar_file option \<Rightarrow> pyval option" where
  "read_json_payload max_bytes file =
     (case file of
        Some (Json_text v bytes) \<Rightarrow> if bytes > max_bytes \<or> v = PNone then None else Some v
      | _ \<Rightarrow> None)"

definition atomic_write_json :: "managed_env \<Rightarrow> ustr \<Rightarrow> pyval \<Rightarrow> sidecar \<Rightarrow> sidecar" where
  "atomic_write_json env path payload sc =
     sc\<lparr>sc_files := AList.update path (Json_text payload (me_json_size env payload)) (sc_files sc)\<rparr>"

text \<open>Whether \<open>acquire_directory_lock\<close> gets the lock; otherwise it raises an OSError, at the latest after its timeout.\<close>

definition lock_acquired :: "sidecar \<Rightarrow> ustr \<Rightarrow> bool" where
  "lock_acquired sc path \<longleftrightarrow> sc_writable sc \<and> \<not> sidecar_lock_present sc path"

section \<open>The store\<close>

definition read_file_record ::
  "managed_env \<Rightarrow> managed_config \<Rightarrow> managed_scope \<Rightarrow> real \<Rightarrow> sidecar_file option \<Rightarrow> managed_record option res" where
  "read_file_record env c scope now file =
     (case read_json_payload SIDECAR_RECORD_READ_MAX_BYTES file of
        None \<Rightarrow> Inr None
      | Some payload \<Rightarrow> managed_record_from_payload env c scope now payload)"

definition store_read :: "managed_env \<Rightarrow> managed_config \<Rightarrow> managed_scope \<Rightarrow> real \<Rightarrow> sidecar \<Rightarrow> managed_record option res" where
  "store_read env c scope now sc =
     (if sidecar_lock_present sc (record_path env scope) then Inr None
      else read_file_record env c scope now (map_of (sc_files sc) (record_path env scope)))"

text \<open>The critical section of \<open>update_hits\<close>: from the file's contents to the record to write.\<close>

definition next_record ::
  "managed_env \<Rightarrow> managed_config \<Rightarrow> managed_scope \<Rightarrow> real \<Rightarrow> ustr list \<Rightarrow> sidecar_file option \<Rightarrow> managed_record res" where
  "next_record env c scope now keys file =
     bind_res (read_file_record env c scope now file) (\<lambda>current. Inr (updated_record c scope now keys current))"

definition update_hits ::
  "managed_env \<Rightarrow> managed_config \<Rightarrow> managed_scope \<Rightarrow> real \<Rightarrow> ustr list \<Rightarrow> sidecar \<Rightarrow> unit res \<times> sidecar" where
  "update_hits env c scope now keys sc =
     (let path = record_path env scope
      in if keys = [] \<or> \<not> lock_acquired sc path then (Inr (), sc)
         else (case next_record env c scope now keys (map_of (sc_files sc) path) of
                 Inl e \<Rightarrow> (Inl e, sc)
               | Inr r \<Rightarrow> (Inr (), atomic_write_json env path (managed_record_to_payload env r) sc)))"

definition read_salt :: "sidecar_file option \<Rightarrow> ustr option" where
  "read_salt file =
     (case read_json_payload SIDECAR_SALT_READ_MAX_BYTES file of
        Some (PDict d) \<Rightarrow>
          if pget d ''schema_version'' \<noteq> PStr MANAGED_CONTEXT_SCHEMA_VERSION \<or>
             pget d ''kind'' \<noteq> PStr (lit ''managed-context-salt'') then None
          else (case pget d ''salt'' of PStr s \<Rightarrow> if s = [] then None else Some s | _ \<Rightarrow> None)
      | _ \<Rightarrow> None)"

definition salt_payload :: "ustr \<Rightarrow> pyval" where
  "salt_payload salt = PDict [(lit ''schema_version'', PStr MANAGED_CONTEXT_SCHEMA_VERSION),
     (lit ''kind'', PStr (lit ''managed-context-salt'')), (lit ''salt'', PStr salt)]"

text \<open>\<open>fresh\<close> is the result of \<open>secrets.token_hex(32)\<close>.\<close>

definition store_secret :: "managed_env \<Rightarrow> managed_config \<Rightarrow> ustr \<Rightarrow> bool \<Rightarrow> sidecar \<Rightarrow> ustr option \<times> sidecar" where
  "store_secret env c fresh create sc =
     (case mc_secret c of
        Some (x # xs) \<Rightarrow> (Some (x # xs), sc)
      | _ \<Rightarrow>
          (case read_salt (map_of (sc_files sc) salt_path) of
             Some salt \<Rightarrow> (Some salt, sc)
           | None \<Rightarrow>
               if \<not> create \<or> \<not> lock_acquired sc salt_path then (None, sc)
               else (Some fresh, atomic_write_json env salt_path (salt_payload fresh) sc)))"

section \<open>Which indexes are managed\<close>

text \<open>\<open>Path(p).name\<close> of a relative path text.\<close>

definition path_name :: "ustr \<Rightarrow> ustr" where
  "path_name p = (let parts = filter (\<lambda>part. part \<noteq> [] \<and> part \<noteq> [46]) (split_char 47 p)
     in if parts = [] then [] else last parts)"

definition has_authored_orientation_pages :: "wiki_page list \<Rightarrow> bool" where
  "has_authored_orientation_pages pages \<longleftrightarrow>
     list_ex (\<lambda>p. page_role p \<in> {Role_hot, Role_index, Role_overview} \<and>
       casefold (path_name (page_path p)) \<in> set AUTHORED_ORIENTATION_PAGE_NAMES) pages"

definition managed_context_applies_to_index :: "wiki_index \<Rightarrow> bool" where
  "managed_context_applies_to_index index \<longleftrightarrow> idx_adapter index = lit ''generic-markdown'' \<and>
     idx_implementation index = lit ''generic-markdown'' \<and> \<not> has_authored_orientation_pages (idx_pages index)"

definition active_for_index :: "managed_config \<Rightarrow> wiki_index \<Rightarrow> bool" where
  "active_for_index c index \<longleftrightarrow> mc_enabled c \<and> managed_context_applies_to_index index"

section \<open>Derived orientation\<close>

definition page_degree_counts :: "graph_edge list \<Rightarrow> (ustr, nat) dict \<times> (ustr, nat) dict" where
  "page_degree_counts edges =
     (counter (filter (\<lambda>i. starts_with i (lit ''page:'')) (map edge_target edges)),
      counter (filter (\<lambda>i. starts_with i (lit ''page:'')) (map edge_source edges)))"

definition folder_depth :: "ustr \<Rightarrow> nat" where
  "folder_depth p = length (filter (\<lambda>part. part \<noteq> [] \<and> part \<noteq> [46]) (split_char 47 p)) +
     (if starts_with p [47] then 1 else 0) - 1"

definition orientation_score :: "(ustr, nat) dict \<Rightarrow> (ustr, nat) dict \<Rightarrow> wiki_page \<Rightarrow> real \<Rightarrow> real" where
  "orientation_score inbound outbound p boost =
     (let node = lit ''page:'' @ page_id p
      in real (dict_get inbound node 0) * 2 + real (dict_get outbound node 0) * (4 / 10) +
         real (min (length (page_source_refs p)) 5) * (5 / 10) +
         real (min (length (page_headings p)) 8) * (2 / 10) + 1 / (1 + real (folder_depth (page_path p))) + boost)"

definition prior_boosts ::
  "managed_env \<Rightarrow> managed_config \<Rightarrow> managed_scope \<Rightarrow> real \<Rightarrow> managed_record option \<Rightarrow> ustr option \<Rightarrow>
   wiki_page list \<Rightarrow> (ustr, real) dict" where
  "prior_boosts env c scope now record secret pages =
     (case (record, secret) of
        (Some r, Some (x # xs)) \<Rightarrow>
          dict_of (map (\<lambda>p. (page_id p, decayed_boost c now r (opaque_page_key env scope (page_id p) (x # xs)))) pages)
      | _ \<Rightarrow> [])"

definition derived_orientation_pages ::
  "managed_env \<Rightarrow> managed_config \<Rightarrow> managed_scope \<Rightarrow> wiki_index \<Rightarrow> bool \<Rightarrow> real \<Rightarrow> managed_record option \<Rightarrow>
   ustr option \<Rightarrow> wiki_page list" where
  "derived_orientation_pages env c scope index include_drafts now record secret =
     (let pages = visible_pages (idx_pages index) include_drafts;
          (inbound, outbound) = page_degree_counts (idx_edges index);
          boosts = prior_boosts env c scope now record secret pages
      in sort_key (\<lambda>p. (- orientation_score inbound outbound p (dict_get boosts (page_id p) 0),
                        role_rank (page_role p), page_path p)) pages)"

definition low_information_token :: "ustr \<Rightarrow> bool" where
  "low_information_token token \<longleftrightarrow> length token = 1 \<and> is_alpha token"

definition significant_query_tokens :: "(ustr \<Rightarrow> ustr) \<Rightarrow> ustr \<Rightarrow> ustr list" where
  "significant_query_tokens stem query =
     filter (\<lambda>t. t \<notin> set MANAGED_ORIENTATION_STOPWORDS \<and> \<not> low_information_token t)
       (unique_tokens (tokenize stem Legacy query))"

definition page_matches_query :: "(ustr \<Rightarrow> ustr) \<Rightarrow> wiki_page \<Rightarrow> ustr list \<Rightarrow> bool" where
  "page_matches_query stem p tokens \<longleftrightarrow>
     (let haystack = join [32] [page_title p, page_path p, page_summary p, page_text p, join [32] (page_tags p),
            join [32] (page_source_refs p), join [32] (page_headings p)]
      in list_ex (\<lambda>t. t \<in> set (tokenize stem Legacy haystack)) tokens)"

text \<open>The identifiers of \<open>related\<close> after one edge; sets are lists without repetition.\<close>

definition adjacent_step :: "ustr list \<Rightarrow> graph_edge \<Rightarrow> ustr list \<Rightarrow> ustr list" where
  "adjacent_step ids e related =
     (let is_page = (\<lambda>i. starts_with i (lit ''page:'')); nodes = map (\<lambda>i. lit ''page:'' @ i) ids;
          related1 = (if edge_source e \<in> set nodes \<and> is_page (edge_target e)
            then List.insert (drop 5 (edge_target e)) related else related)
      in if edge_target e \<in> set nodes \<and> is_page (edge_source e)
         then List.insert (drop 5 (edge_source e)) related1 else related1)"

definition adjacent_page_ids :: "ustr list \<Rightarrow> graph_edge list \<Rightarrow> ustr list" where
  "adjacent_page_ids ids edges = fold (adjacent_step ids) edges ids"

text \<open>A dictionary by page id keeps the last page of an id.\<close>

definition visible_by_id :: "wiki_index \<Rightarrow> bool \<Rightarrow> (ustr, wiki_page) dict" where
  "visible_by_id index include_drafts =
     dict_of (map (\<lambda>p. (page_id p, p)) (visible_pages (idx_pages index) include_drafts))"

definition matched_evidence ::
  "(ustr \<Rightarrow> ustr) \<Rightarrow> wiki_index \<Rightarrow> bool \<Rightarrow> real \<Rightarrow> ustr list \<Rightarrow> search_result list \<Rightarrow> ustr list" where
  "matched_evidence stem index include_drafts min_score tokens evidence =
     remdups (concat (map (\<lambda>r.
       if res_score r < min_score then []
       else (case map_of (visible_by_id index include_drafts) (res_page_id r) of
               None \<Rightarrow> []
             | Some p \<Rightarrow> if page_matches_query stem p tokens then [page_id p] else [])) evidence))"

definition query_related_orientation_page_ids ::
  "(ustr \<Rightarrow> ustr) \<Rightarrow> wiki_index \<Rightarrow> ustr \<Rightarrow> search_result list \<Rightarrow> bool \<Rightarrow> real \<Rightarrow> ustr list option" where
  "query_related_orientation_page_ids stem index query evidence include_drafts min_score =
     (let tokens = significant_query_tokens stem query
      in if strip query = [] then None
         else if tokens = [] \<or> evidence = [] then Some []
         else (let matched = matched_evidence stem index include_drafts min_score tokens evidence
               in Some (if matched = [] then [] else adjacent_page_ids matched (idx_edges index))))"

section \<open>The runtime\<close>

text \<open>None: the managed context does not apply. A secret is read, not created.\<close>

definition managed_orientation ::
  "managed_env \<Rightarrow> (ustr \<Rightarrow> ustr) \<Rightarrow> managed_config \<Rightarrow> managed_scope \<Rightarrow> wiki_index \<Rightarrow> ustr \<Rightarrow> search_result list \<Rightarrow> bool \<Rightarrow>
   int option \<Rightarrow> real \<Rightarrow> sidecar \<Rightarrow> search_result list option res" where
  "managed_orientation env stem c scope index query evidence include_drafts snippet_chars now sc =
     (if \<not> active_for_index c index then Inr None
      else (let related = query_related_orientation_page_ids stem index query evidence include_drafts (mc_min_evidence c)
        in if related = Some [] then Inr (Some [])
           else bind_res (store_read env c scope now sc) (\<lambda>record.
             (let pages = derived_orientation_pages env c scope index include_drafts now record
                            (fst (store_secret env c [] False sc));
                  chosen = (case related of None \<Rightarrow> pages | Some ids \<Rightarrow> filter (\<lambda>p. page_id p \<in> set ids) pages);
                  limit = (case related of None \<Rightarrow> mc_orientation_limit c
                           | Some ids \<Rightarrow> min (mc_orientation_limit c) (mc_query_orientation_limit c));
                  chars = (case snippet_chars of Some n \<Rightarrow> Some n | None \<Rightarrow> Some (mc_snippet_chars c))
              in Inr (Some (ranked_results ''orientation'' chars (take (nat limit) chosen)))))))"

text \<open>
  The prior of \<open>prior\<close>: read once, at the first result it is asked about, which is when it raises; the
  outer None is a ranking without a prior.
\<close>

definition prior_of_record ::
  "managed_env \<Rightarrow> managed_config \<Rightarrow> managed_scope \<Rightarrow> wiki_index \<Rightarrow> real \<Rightarrow> ustr \<Rightarrow> managed_record \<Rightarrow>
   search_result \<Rightarrow> real option" where
  "prior_of_record env c scope index now secret r result =
     (case map_of (page_keys_by_id env (idx_pages index) scope secret) (res_page_id result) of
        None \<Rightarrow> Some 0
      | Some key \<Rightarrow> Some (decayed_boost c now r key))"

definition managed_prior_function ::
  "managed_env \<Rightarrow> managed_config \<Rightarrow> managed_scope \<Rightarrow> wiki_index \<Rightarrow> real \<Rightarrow> sidecar \<Rightarrow> managed_prior res" where
  "managed_prior_function env c scope index now sc =
     (if \<not> active_for_index c index then Inr None
      else (case fst (store_secret env c [] False sc) of
              None \<Rightarrow> Inr (Some (\<lambda>result. Some 0))
            | Some secret \<Rightarrow>
                bind_res (store_read env c scope now sc) (\<lambda>record. Inr (Some (case record of
                    None \<Rightarrow> (\<lambda>result. Some 0)
                  | Some r \<Rightarrow> prior_of_record env c scope index now secret r)))))"

definition record_hits ::
  "managed_env \<Rightarrow> managed_config \<Rightarrow> managed_scope \<Rightarrow> wiki_index \<Rightarrow> ustr \<Rightarrow> ustr list \<Rightarrow> bool \<Rightarrow> real \<Rightarrow>
   sidecar \<Rightarrow> unit res \<times> sidecar" where
  "record_hits env c scope index fresh page_ids include_drafts now sc =
     (let selected = dedupe_on id {} (filter (\<lambda>i. map_of (visible_by_id index include_drafts) i \<noteq> None) page_ids)
      in if \<not> active_for_index c index \<or> selected = [] \<or> sidecar_lock_is_stale sc (record_path env scope)
         then (Inr (), sc)
         else (case store_secret env c fresh True sc of
                 (None, sc') \<Rightarrow> (Inr (), sc')
               | (Some secret, sc') \<Rightarrow>
                   update_hits env c scope now (map (\<lambda>i. opaque_page_key env scope i secret) selected) sc'))"


section \<open>The critical sections\<close>

text \<open>What \<open>update_hits\<close> and \<open>secret\<close> do with their file while they hold its lock.\<close>

definition update_job ::
  "managed_env \<Rightarrow> managed_config \<Rightarrow> managed_scope \<Rightarrow> real \<times> ustr list \<Rightarrow> sidecar_file option \<Rightarrow> sidecar_file option" where
  "update_job env c scope request seen =
     (let (now, keys) = request
      in case next_record env c scope now keys seen of
           Inl e \<Rightarrow> None
         | Inr r \<Rightarrow> Some (Json_text (managed_record_to_payload env r) (me_json_size env (managed_record_to_payload env r))))"

definition salt_job :: "managed_env \<Rightarrow> ustr \<Rightarrow> sidecar_file option \<Rightarrow> sidecar_file option" where
  "salt_job env fresh seen =
     (if read_salt seen \<noteq> None then None
      else Some (Json_text (salt_payload fresh) (me_json_size env (salt_payload fresh))))"

end
