(* ===== verification/Sidecar_Lock.thy ===== *)
theory Sidecar_Lock
  imports Managed_Runtime
begin

text \<open>
  Several processes and threads on one sidecar file: \<open>sidecar_file_lock\<close> around reading the file and
  replacing it. A lock is a directory that one process can make; nobody removes it for another, so that
  a process that dies inside the critical section leaves it behind.
\<close>

section \<open>The step relation\<close>

text \<open>
  What a process does with the file: waiting for the lock, holding it, having read the file, having
  replaced it, or dead. \<open>sh_lock\<close> is the owner of the lock directory and \<open>sh_log\<close> the jobs whose result
  was written, newest first, each with its process.
\<close>

datatype 'j client = Away | Waiting 'j | Holding 'j | Loaded 'j "sidecar_file option" | Stored | Dead

record 'j shared_file =
  sh_file :: "sidecar_file option"
  sh_lock :: "nat option"
  sh_client :: "nat \<Rightarrow> 'j client"
  sh_log :: "(nat \<times> 'j) list"

text \<open>
  \<open>job\<close> gives the new contents for a job and the contents it has read, or None when the critical section
  leaves the file alone; \<open>allowed\<close> are the jobs processes come with. Giving up stands for a stale lock, the timeout and every other OSError.
\<close>

inductive lock_step :: "('j \<Rightarrow> bool) \<Rightarrow> ('j \<Rightarrow> sidecar_file option \<Rightarrow> sidecar_file option) \<Rightarrow>
    'j shared_file \<Rightarrow> 'j shared_file \<Rightarrow> bool"
  for allowed job where
  arrive: "sh_client s p = Away \<Longrightarrow> allowed j \<Longrightarrow> lock_step allowed job s (s\<lparr>sh_client := (sh_client s)(p := Waiting j)\<rparr>)"
| acquire: "sh_client s p = Waiting j \<Longrightarrow> sh_lock s = None \<Longrightarrow>
    lock_step allowed job s (s\<lparr>sh_client := (sh_client s)(p := Holding j), sh_lock := Some p\<rparr>)"
| give_up: "sh_client s p = Waiting j \<Longrightarrow> lock_step allowed job s (s\<lparr>sh_client := (sh_client s)(p := Away)\<rparr>)"
| load: "sh_client s p = Holding j \<Longrightarrow>
    lock_step allowed job s (s\<lparr>sh_client := (sh_client s)(p := Loaded j (sh_file s))\<rparr>)"
| store: "sh_client s p = Loaded j seen \<Longrightarrow> job j seen = Some new \<Longrightarrow>
    lock_step allowed job s (s\<lparr>sh_client := (sh_client s)(p := Stored), sh_file := Some new, sh_log := (p, j) # sh_log s\<rparr>)"
| store_fails: "sh_client s p = Loaded j seen \<Longrightarrow> lock_step allowed job s (s\<lparr>sh_client := (sh_client s)(p := Stored)\<rparr>)"
| release: "sh_client s p = Stored \<Longrightarrow>
    lock_step allowed job s (s\<lparr>sh_client := (sh_client s)(p := Away), sh_lock := None\<rparr>)"
| die: "sh_client s p \<noteq> Dead \<Longrightarrow> lock_step allowed job s (s\<lparr>sh_client := (sh_client s)(p := Dead)\<rparr>)"

inductive_cases lock_stepE: "lock_step allowed job s s'"

definition lock_start :: "sidecar_file option \<Rightarrow> 'j shared_file" where
  "lock_start file = \<lparr>sh_file = file, sh_lock = None, sh_client = (\<lambda>p. Away), sh_log = []\<rparr>"

inductive lock_reachable :: "('j \<Rightarrow> bool) \<Rightarrow> ('j \<Rightarrow> sidecar_file option \<Rightarrow> sidecar_file option) \<Rightarrow> sidecar_file option \<Rightarrow> 'j shared_file \<Rightarrow> bool"
  for allowed job file0 where
  lock_reach_start: "lock_reachable allowed job file0 (lock_start file0)"
| lock_reach_step: "lock_reachable allowed job file0 s \<Longrightarrow> lock_step allowed job s s' \<Longrightarrow> lock_reachable allowed job file0 s'"

section \<open>Mutual exclusion and serial writes\<close>

fun in_critical :: "'j client \<Rightarrow> bool" where
  "in_critical (Holding j) = True"
| "in_critical (Loaded j seen) = True"
| "in_critical Stored = True"
| "in_critical c = False"

text \<open>The jobs of the log one after the other, oldest first.\<close>

fun serial :: "('j \<Rightarrow> sidecar_file option \<Rightarrow> sidecar_file option) \<Rightarrow> sidecar_file option \<Rightarrow> (nat \<times> 'j) list \<Rightarrow>
    sidecar_file option" where
  "serial job file0 [] = file0"
| "serial job file0 ((p, j) # entries) = job j (serial job file0 entries)"

definition lock_ok :: "('j \<Rightarrow> sidecar_file option \<Rightarrow> sidecar_file option) \<Rightarrow> sidecar_file option \<Rightarrow> 'j shared_file \<Rightarrow> bool" where
  "lock_ok job file0 s \<longleftrightarrow>
     (\<forall>p. in_critical (sh_client s p) \<longrightarrow> sh_lock s = Some p) \<and>
     (\<forall>p j seen. sh_client s p = Loaded j seen \<longrightarrow> seen = sh_file s) \<and>
     sh_file s = serial job file0 (sh_log s)"

lemma lock_okI:
  assumes "\<And>p. in_critical (sh_client s p) \<Longrightarrow> sh_lock s = Some p"
    and "\<And>p j seen. sh_client s p = Loaded j seen \<Longrightarrow> seen = sh_file s"
    and "sh_file s = serial job file0 (sh_log s)"
  shows "lock_ok job file0 s"
  using assms unfolding lock_ok_def by blast

lemma lock_okD:
  assumes "lock_ok job file0 s"
  shows "in_critical (sh_client s p) \<Longrightarrow> sh_lock s = Some p"
    and "sh_client s p = Loaded j seen \<Longrightarrow> seen = sh_file s"
    and "sh_file s = serial job file0 (sh_log s)"
  using assms unfolding lock_ok_def by blast+

text \<open>A step of one process in the critical section: the others are outside it.\<close>

lemma only_owner:
  assumes "lock_ok job file0 s" and "in_critical (sh_client s p)" and "q \<noteq> p"
  shows "\<not> in_critical (sh_client s q)"
  using lock_okD(1) [OF assms(1)] assms(2,3) by (metis option.inject)

text \<open>A change of one client that does not enter the critical section anew.\<close>

lemma lock_ok_client:
  assumes ok: "lock_ok job file0 s" and enter: "in_critical c \<Longrightarrow> sh_lock s = Some p"
    and read: "\<And>j seen. c = Loaded j seen \<Longrightarrow> seen = sh_file s"
  shows "lock_ok job file0 (s\<lparr>sh_client := (sh_client s)(p := c)\<rparr>)"
proof (rule lock_okI)
  show "sh_lock (s\<lparr>sh_client := (sh_client s)(p := c)\<rparr>) = Some q"
    if "in_critical (sh_client (s\<lparr>sh_client := (sh_client s)(p := c)\<rparr>) q)" for q
    using that enter lock_okD(1) [OF ok, of q] by (cases "q = p") simp_all
  show "seen = sh_file (s\<lparr>sh_client := (sh_client s)(p := c)\<rparr>)"
    if "sh_client (s\<lparr>sh_client := (sh_client s)(p := c)\<rparr>) q = Loaded j seen" for q j seen
    using that read lock_okD(2) [OF ok, of q j seen] by (cases "q = p") simp_all
qed (use lock_okD(3) [OF ok] in simp)

lemma lock_ok_step:
  assumes "lock_step allowed job s s'" and ok: "lock_ok job file0 s"
  shows "lock_ok job file0 s'"
  using assms(1)
proof cases
  case (acquire p j)
  have free: "\<not> in_critical (sh_client s q)" for q using lock_okD(1) [OF ok, of q] acquire(3) by auto
  show ?thesis unfolding acquire(1)
  proof (rule lock_okI, goal_cases)
    case (1 q)
    then show ?case using free [of q] by (cases "q = p") simp_all
  next
    case (2 q k seen)
    then show ?case using free [of q] by (cases "q = p") simp_all
  next
    case 3
    then show ?case using lock_okD(3) [OF ok] by simp
  qed
next
  case (store p j seen new)
  have inside: "in_critical (sh_client s p)" using store(2) by simp
  have seen: "seen = sh_file s" using lock_okD(2) [OF ok store(2)] .
  show ?thesis unfolding store(1)
  proof (rule lock_okI, goal_cases)
    case (1 q)
    then show ?case using lock_okD(1) [OF ok inside] only_owner [OF ok inside, of q] by (cases "q = p") simp_all
  next
    case (2 q k x)
    then show ?case using only_owner [OF ok inside, of q] by (cases "q = p") simp_all
  next
    case 3
    then show ?case using store(3) lock_okD(3) [OF ok] seen by simp
  qed
next
  case (release p)
  have inside: "in_critical (sh_client s p)" using release(2) by simp
  show ?thesis unfolding release(1)
  proof (rule lock_okI, goal_cases)
    case (1 q)
    then show ?case using only_owner [OF ok inside, of q] by (cases "q = p") simp_all
  next
    case (2 q k x)
    then show ?case using only_owner [OF ok inside, of q] by (cases "q = p") simp_all
  next
    case 3
    then show ?case using lock_okD(3) [OF ok] by simp
  qed
next
  case (arrive p j)
  show ?thesis unfolding arrive(1) by (rule lock_ok_client [OF ok]) simp_all
next
  case (give_up p j)
  show ?thesis unfolding give_up(1) by (rule lock_ok_client [OF ok]) simp_all
next
  case (load p j)
  show ?thesis unfolding load(1) using lock_okD(1) [OF ok, of p] load(2) by (intro lock_ok_client [OF ok]) simp_all
next
  case (store_fails p j seen)
  show ?thesis unfolding store_fails(1)
    using lock_okD(1) [OF ok, of p] store_fails(2) by (intro lock_ok_client [OF ok]) simp_all
next
  case (die p)
  show ?thesis unfolding die(1) by (rule lock_ok_client [OF ok]) simp_all
qed

lemma lock_reachable_ok: "lock_reachable allowed job file0 s \<Longrightarrow> lock_ok job file0 s"
proof (induction rule: lock_reachable.induct)
  case lock_reach_start
  then show ?case by (simp add: lock_ok_def lock_start_def)
next
  case (lock_reach_step s s')
  then show ?case using lock_ok_step by blast
qed


text \<open>Only allowed jobs are under way and in the log.\<close>

fun client_job :: "'j client \<Rightarrow> 'j option" where
  "client_job (Waiting j) = Some j"
| "client_job (Holding j) = Some j"
| "client_job (Loaded j seen) = Some j"
| "client_job c = None"

definition jobs_allowed :: "('j \<Rightarrow> bool) \<Rightarrow> 'j shared_file \<Rightarrow> bool" where
  "jobs_allowed allowed s \<longleftrightarrow>
     (\<forall>p. pred_option allowed (client_job (sh_client s p))) \<and> list_all (\<lambda>(p, j). allowed j) (sh_log s)"

lemma jobs_allowed_client:
  "jobs_allowed allowed s \<Longrightarrow> pred_option allowed (client_job c) \<Longrightarrow>
   jobs_allowed allowed (s\<lparr>sh_client := (sh_client s)(p := c)\<rparr>)"
  by (simp add: jobs_allowed_def)

lemma jobs_allowed_step:
  assumes "lock_step allowed job s s'" and ok: "jobs_allowed allowed s"
  shows "jobs_allowed allowed s'"
proof -
  have mine: "pred_option allowed (client_job (sh_client s p))" for p using ok by (simp add: jobs_allowed_def)
  from assms(1) show ?thesis
  proof cases
    case (acquire p j)
    then show ?thesis using mine [of p] ok by (simp add: jobs_allowed_def)
  next
    case (store p j seen new)
    then show ?thesis using mine [of p] ok by (simp add: jobs_allowed_def)
  next
    case (release p)
    then show ?thesis using ok by (simp add: jobs_allowed_def)
  next
    case (load p j)
    then show ?thesis using mine [of p] ok by (simp add: jobs_allowed_client)
  qed (use ok in \<open>simp_all add: jobs_allowed_client\<close>)
qed

lemma reachable_jobs_allowed: "lock_reachable allowed job file0 s \<Longrightarrow> jobs_allowed allowed s"
proof (induction rule: lock_reachable.induct)
  case lock_reach_start
  then show ?case by (simp add: jobs_allowed_def lock_start_def)
next
  case (lock_reach_step s s')
  then show ?case using jobs_allowed_step by blast
qed

text \<open>The lock of an owner that has died.\<close>

definition blocked :: "nat \<Rightarrow> 'j shared_file \<Rightarrow> bool" where
  "blocked p s \<longleftrightarrow> sh_lock s = Some p \<and> sh_client s p = Dead \<and> (\<forall>q. \<not> in_critical (sh_client s q))"

lemma blocked_step:
  assumes "lock_step allowed job s s'" and held: "blocked p s"
  shows "blocked p s' \<and> sh_file s' = sh_file s \<and> sh_log s' = sh_log s"
proof -
  have out: "\<not> in_critical (sh_client s q)" for q using held by (simp add: blocked_def)
  from assms(1) show ?thesis
  proof cases
    case (load q j)
    then show ?thesis using out [of q] by simp
  next
    case (store q j seen new)
    then show ?thesis using out [of q] by simp
  next
    case (store_fails q j seen)
    then show ?thesis using out [of q] by simp
  next
    case (release q)
    then show ?thesis using out [of q] by simp
  qed (use held in \<open>auto simp: blocked_def\<close>)
qed

lemma blocked_steps:
  assumes "(lock_step allowed job)\<^sup>*\<^sup>* s s'" and "blocked p s"
  shows "blocked p s' \<and> sh_file s' = sh_file s \<and> sh_log s' = sh_log s"
  using assms(1)
proof (induction rule: rtranclp_induct)
  case base
  then show ?case using assms(2) by simp
next
  case (step y z)
  then show ?case using blocked_step [OF step.hyps(2), of p] by simp
qed

text \<open>A process that is alone gets its job done.\<close>

lemma lone_job:
  assumes "allowed j" and "job j None = Some new"
  shows "\<exists>s. lock_reachable allowed job None s \<and> sh_log s = [(p, j)] \<and> sh_file s = Some new \<and>
    in_critical (sh_client s p)"
proof -
  let ?at = "\<lambda>s c. s\<lparr>sh_client := (sh_client s)(p := c)\<rparr>"
  define s0 :: "'a shared_file" where "s0 = lock_start None"
  define s1 where "s1 = ?at s0 (Waiting j)"
  define s2 where "s2 = (?at s1 (Holding j))\<lparr>sh_lock := Some p\<rparr>"
  define s3 where "s3 = ?at s2 (Loaded j (sh_file s2))"
  define s4 where "s4 = (?at s3 Stored)\<lparr>sh_file := Some new, sh_log := (p, j) # sh_log s3\<rparr>"
  note defs = s0_def s1_def s2_def s3_def s4_def lock_start_def
  have r0: "lock_reachable allowed job None s0" unfolding s0_def by (rule lock_reach_start)
  have r1: "lock_reachable allowed job None s1"
    using lock_step.arrive [of s0 p allowed j job] assms(1) by (intro lock_reach_step [OF r0]) (simp add: defs)
  have r2: "lock_reachable allowed job None s2"
    using lock_step.acquire [of s1 p j allowed job] by (intro lock_reach_step [OF r1]) (simp add: defs)
  have r3: "lock_reachable allowed job None s3"
    using lock_step.load [of s2 p j allowed job] by (intro lock_reach_step [OF r2]) (simp add: defs)
  have "lock_reachable allowed job None s4"
    using lock_step.store [of s3 p j None job new allowed] assms(2) by (intro lock_reach_step [OF r3]) (simp add: defs)
  then show ?thesis by (intro exI [of _ s4]) (simp add: defs)
qed

section \<open>A contract for files behind the lock\<close>

text \<open>
  What the users of the lock promise: \<open>good n\<close> describes the file after \<open>n\<close> jobs, and an allowed job
  that writes takes it from \<open>n\<close> to \<open>n + 1\<close>. Then it describes every file that processes can reach.
\<close>

locale locked_file =
  fixes allowed :: "'j \<Rightarrow> bool" and job :: "'j \<Rightarrow> sidecar_file option \<Rightarrow> sidecar_file option"
    and good :: "nat \<Rightarrow> sidecar_file option \<Rightarrow> bool"
  assumes start: "good 0 None"
    and keeps: "allowed j \<Longrightarrow> good n seen \<Longrightarrow> job j seen = Some new \<Longrightarrow> good (Suc n) (Some new)"
begin

lemma good_reachable:
  assumes "lock_reachable allowed job None s"
  shows "good (length (sh_log s)) (sh_file s)"
  using assms
proof (induction rule: lock_reachable.induct)
  case lock_reach_start
  then show ?case using start by (simp add: lock_start_def)
next
  case (lock_reach_step s s')
  from lock_reach_step.hyps(2) show ?case
  proof cases
    case (store p j seen new)
    have "seen = sh_file s" using lock_okD(2) [OF lock_reachable_ok [OF lock_reach_step.hyps(1)] store(2)] .
    moreover have "allowed j"
      using reachable_jobs_allowed [OF lock_reach_step.hyps(1)] store(2)
      by (metis jobs_allowed_def client_job.simps(3) option.pred_inject(2))
    ultimately show ?thesis using keeps [of j "length (sh_log s)" seen new] lock_reach_step.IH store by simp
  qed (use lock_reach_step.IH in simp_all)
qed

lemma one_owner:
  assumes "lock_reachable allowed job None s" and "in_critical (sh_client s p)" and "in_critical (sh_client s q)"
  shows "p = q"
  using lock_okD(1) [OF lock_reachable_ok [OF assms(1)]] assms(2,3) by (metis option.inject)

end

end
