(* ===== verification/Managed_Props.thy ===== *)
theory Managed_Props
  imports Sidecar_Lock Search_Corpus_Props
begin

text \<open>
  What the managed context promises: bounded priors that fade, records that read back as they were
  written, no update lost between processes, one salt, and an orientation of served pages only.
\<close>

section \<open>Rounding\<close>

lemma py_round_idem [simp]: "py_round (py_round x n) n = py_round x n"
  by (simp add: py_round_def)

lemma py_round_min: "py_round (min m (py_round (min m x) n)) n = py_round (min m x) n"
proof (cases "py_round (min m x) n \<le> m")
  case False
  then have "py_round m n \<le> py_round (min m x) n" using py_round_mono [of m "py_round (min m x) n" n] by simp
  moreover have "py_round (min m x) n \<le> py_round m n" by (rule py_round_mono) simp
  ultimately show ?thesis using False by simp
qed (simp add: min_def)

lemma py_round_pos: "1 / 10 ^ n \<le> x \<Longrightarrow> 0 < py_round x n"
proof -
  assume "1 / 10 ^ n \<le> x"
  then have "py_round (1 / 10 ^ n) n \<le> py_round x n" by (rule py_round_mono)
  moreover have "py_round (1 / 10 ^ n) n = 1 / 10 ^ n" using round_half_even_of_int [of 1] by (simp add: py_round_def)
  moreover have "0 < 1 / (10::real) ^ n" by simp
  ultimately show ?thesis by linarith
qed

section \<open>Priors\<close>

lemma decayed_counter_le: "0 < n \<Longrightarrow> decayed_counter n t now h \<le> n"
  by (auto simp: decayed_counter_def powr_le_one_le intro!: mult_left_le powr_le1)

lemma decayed_counter_pos: "0 < n \<Longrightarrow> 0 < h \<Longrightarrow> 0 < decayed_counter n t now h"
  by (simp add: decayed_counter_def)

lemma decayed_counter_antimono:
  "0 < n \<Longrightarrow> now \<le> later \<Longrightarrow> decayed_counter n t later h \<le> decayed_counter n t now h"
  by (auto simp: decayed_counter_def intro!: mult_left_mono powr_mono' divide_right_mono)

lemma decayed_counter_half:
  assumes "0 < h" and "t \<le> now"
  shows "decayed_counter n t (now + h) h = decayed_counter n t now h / 2"
proof -
  have "(now + h - t) / h = (now - t) / h + 1" using assms(1) by (simp add: field_simps)
  then have "(1 / 2 :: real) powr ((now + h - t) / h) = (1 / 2) powr ((now - t) / h) * (1 / 2)"
    by (simp only: powr_add powr_one_gt_zero_iff) simp
  then show ?thesis using assms by (simp add: decayed_counter_def)
qed

definition sound_config :: "managed_config \<Rightarrow> bool" where
  "sound_config c \<longleftrightarrow> 0 \<le> mc_max_boost c \<and> 0 < mc_half_life c \<and> 0 < mc_max_counter c \<and>
     0 < mc_increment c \<and> 0 < mc_max_entries c"

lemma validated_config:
  "validate_managed_context_config c = Inr d \<Longrightarrow> d = c \<and> (mc_enabled c \<longrightarrow> sound_config c)"
  by (auto simp: validate_managed_context_config_def sound_config_def split: if_splits)

lemma boost_bounds:
  assumes "sound_config c"
  shows "0 \<le> decayed_boost c now r key" and "decayed_boost c now r key \<le> mc_max_boost c"
  using assms by (auto simp: decayed_boost_def sound_config_def Let_def split: option.splits)

lemma boost_antimono:
  assumes "sound_config c" and "now \<le> later"
  shows "decayed_boost c later r key \<le> decayed_boost c now r key"
proof (cases "map_of (mr_hits r) key")
  case (Some hit)
  let ?n = "\<lambda>t. decayed_counter (hit_counter hit) (hit_last hit) t (mc_half_life c)"
  show ?thesis
  proof (cases "0 < hit_counter hit")
    case True
    then have pos: "0 < ?n t" for t using assms(1) by (auto simp: sound_config_def intro: decayed_counter_pos)
    have "?n later \<le> ?n now" by (rule decayed_counter_antimono [OF True assms(2)])
    then have "mc_max_boost c * (min (?n later) (mc_max_counter c) / mc_max_counter c) \<le>
        mc_max_boost c * (min (?n now) (mc_max_counter c) / mc_max_counter c)"
      using assms(1) by (auto simp: sound_config_def intro!: mult_left_mono divide_right_mono)
    then show ?thesis using pos [of now] pos [of later] by (simp add: decayed_boost_def Some Let_def)
  next
    case False
    then have "?n t \<le> 0" for t by (simp add: decayed_counter_def mult_le_0_iff)
    then show ?thesis by (simp add: decayed_boost_def Some)
  qed
qed (simp add: decayed_boost_def)

section \<open>Hit dictionaries\<close>

text \<open>Every hit is stored under its own key.\<close>

definition hits_wf :: "(ustr, page_hit) dict \<Rightarrow> bool" where
  "hits_wf d \<longleftrightarrow> distinct (map fst d) \<and> (\<forall>(k, hit)\<in>set d. hit_key hit = k)"

lemma hits_wf_Nil [simp]: "hits_wf []"
  by (simp add: hits_wf_def)

lemma hits_wf_lookup:
  "hits_wf d \<longleftrightarrow> distinct (map fst d) \<and> (\<forall>k hit. map_of d k = Some hit \<longrightarrow> hit_key hit = k)"
  unfolding hits_wf_def by (auto dest: map_of_SomeD)

lemma hits_wf_update: "hits_wf d \<Longrightarrow> hit_key hit = k \<Longrightarrow> hits_wf (AList.update k hit d)"
  by (auto simp: hits_wf_lookup distinct_update)

lemma hits_wf_keys: "hits_wf d \<Longrightarrow> map (\<lambda>hit. (hit_key hit, hit)) (map snd d) = d"
  by (auto simp: hits_wf_def intro!: map_idI)

lemma hits_wf_distinct: "hits_wf d \<Longrightarrow> distinct (map hit_key (map snd d))"
proof -
  assume wf: "hits_wf d"
  then have "map hit_key (map snd d) = map fst d" unfolding hits_wf_def map_map by (intro map_cong) auto
  then show ?thesis using wf by (simp only: hits_wf_def simp_thms)
qed

text \<open>The dictionary of a list of hits with different keys.\<close>

lemma dict_of_hits:
  assumes "distinct (map hit_key hs)"
  shows "hits_wf (dict_of (map (\<lambda>hit. (hit_key hit, hit)) hs))"
    and "map_of (dict_of (map (\<lambda>hit. (hit_key hit, hit)) hs)) = map_of (map (\<lambda>hit. (hit_key hit, hit)) hs)"
    and "set (dict_of (map (\<lambda>hit. (hit_key hit, hit)) hs)) = (\<lambda>hit. (hit_key hit, hit)) ` set hs"
    and "length (dict_of (map (\<lambda>hit. (hit_key hit, hit)) hs)) \<le> length hs"
proof -
  let ?kvs = "map (\<lambda>hit. (hit_key hit, hit)) hs"
  have keys: "distinct (map fst ?kvs)" using assms by (simp add: comp_def)
  show lookup: "map_of (dict_of ?kvs) = map_of ?kvs"
    unfolding map_of_dict_of by (rule map_of_inject_set [THEN iffD2]) (use keys in \<open>simp_all only: rev_map [symmetric] distinct_rev set_rev\<close>)
  show elems: "set (dict_of ?kvs) = (\<lambda>hit. (hit_key hit, hit)) ` set hs"
    using lookup map_of_inject_set [OF distinct_dict_of keys] by simp
  show "hits_wf (dict_of ?kvs)" unfolding hits_wf_def using distinct_dict_of elems by auto
  have "card (set (dict_of ?kvs)) \<le> length hs"
    unfolding elems using card_image_le [of "set hs"] card_length [of hs] by (meson List.finite_set le_trans)
  moreover have "distinct (dict_of ?kvs)" using distinct_dict_of [of ?kvs] by (simp only: distinct_map simp_thms)
  ultimately show "length (dict_of ?kvs) \<le> length hs" by (simp only: distinct_card)
qed

lemma trim_hits_wf:
  assumes "hits_wf d"
  shows "hits_wf (trim_hits c d)" and "set (trim_hits c d) \<subseteq> set d"
    and "length (trim_hits c d) \<le> nat (mc_max_entries c)"
proof -
  let ?hs = "take (nat (mc_max_entries c)) (sort_key hit_sort_key (map snd d))"
  have "distinct (map hit_key (sort_key hit_sort_key (map snd d)))"
    using hits_wf_distinct [OF assms] by (simp only: distinct_map set_sort distinct_sort simp_thms)
  then have keys: "distinct (map hit_key ?hs)" by (simp add: take_map [symmetric])
  show "hits_wf (trim_hits c d)" unfolding trim_hits_def by (rule dict_of_hits(1) [OF keys])
  have "set ?hs \<subseteq> set (map snd d)" using set_take_subset by fastforce
  then show "set (trim_hits c d) \<subseteq> set d"
    using assms unfolding trim_hits_def dict_of_hits(3) [OF keys] by (fastforce simp: hits_wf_def)
  show "length (trim_hits c d) \<le> nat (mc_max_entries c)"
    using dict_of_hits(4) [OF keys] unfolding trim_hits_def by (rule le_trans) simp
qed

lemma trim_hits_lookup:
  assumes "hits_wf d" and "length d \<le> nat (mc_max_entries c)"
  shows "map_of (trim_hits c d) = map_of d"
proof -
  have wf: "distinct (map hit_key (sort_key hit_sort_key (map snd d)))"
    using hits_wf_distinct [OF assms(1)] by (simp only: distinct_map set_sort distinct_sort simp_thms)
  have all: "take (nat (mc_max_entries c)) (sort_key hit_sort_key (map snd d)) = sort_key hit_sort_key (map snd d)"
    using assms(2) by simp
  have "set (trim_hits c d) = set d"
    using assms(1) unfolding trim_hits_def all dict_of_hits(3) [OF wf]
    by (force simp: hits_wf_def)
  moreover have "distinct (map fst (trim_hits c d))" unfolding trim_hits_def by (rule distinct_dict_of)
  moreover have "distinct (map fst d)" using assms(1) by (simp add: hits_wf_def)
  ultimately show ?thesis using map_of_inject_set [of "trim_hits c d" d] by blast
qed


section \<open>Records that can be read back\<close>

definition opaque_key :: "ustr \<Rightarrow> bool" where
  "opaque_key k \<longleftrightarrow> starts_with k (lit ''pk_'')"

definition keyed_hits :: "(ustr, page_hit) dict \<Rightarrow> bool" where
  "keyed_hits d \<longleftrightarrow> hits_wf d \<and> list_all opaque_key (map fst d)"

text \<open>What reading guarantees, and what updating guarantees beyond that.\<close>

definition readable :: "managed_record \<Rightarrow> bool" where
  "readable r \<longleftrightarrow> 1 \<le> mr_generation r \<and> mr_created r \<le> mr_updated r \<and> keyed_hits (mr_hits r)"

definition stable_counter :: "managed_config \<Rightarrow> real \<Rightarrow> bool" where
  "stable_counter c n \<longleftrightarrow> 0 < n \<and> py_round (min (mc_max_counter c) n) 6 = n"

definition writable_record :: "managed_config \<Rightarrow> managed_record \<Rightarrow> bool" where
  "writable_record c r \<longleftrightarrow> readable r \<and> length (mr_hits r) \<le> nat (mc_max_entries c) \<and>
     (\<forall>k hit. map_of (mr_hits r) k = Some hit \<longrightarrow> stable_counter c (hit_counter hit))"

lemma stable_counter_rounded: "stable_counter c n \<Longrightarrow> py_round n 6 = n"
  unfolding stable_counter_def by (metis py_round_idem)

lemma stable_counter_round:
  "1 / 10 ^ 6 \<le> mc_max_counter c \<Longrightarrow> 1 / 10 ^ 6 \<le> n \<Longrightarrow> stable_counter c (py_round (min (mc_max_counter c) n) 6)"
  unfolding stable_counter_def using py_round_min py_round_pos [of 6 "min (mc_max_counter c) n"] by simp

lemma keyed_update:
  "keyed_hits d \<Longrightarrow> opaque_key (hit_key hit) \<Longrightarrow> keyed_hits (AList.update (hit_key hit) hit d)"
  by (simp add: keyed_hits_def list_all_iff hits_wf_update dom_update)

lemma keyed_trim: "keyed_hits d \<Longrightarrow> keyed_hits (trim_hits c d)"
  using trim_hits_wf [of d c] by (fastforce simp: keyed_hits_def list_all_iff)

lemma keyed_Nil [simp]: "keyed_hits []"
  by (simp add: keyed_hits_def)

lemma keyed_hit: "keyed_hits d \<Longrightarrow> (k, hit) \<in> set d \<Longrightarrow> hit_key hit = k \<and> opaque_key k"
  by (force simp: keyed_hits_def hits_wf_def list_all_iff)

lemma lookup_trim: "hits_wf d \<Longrightarrow> map_of (trim_hits c d) k = Some hit \<Longrightarrow> map_of d k = Some hit"
  using trim_hits_wf(2) [of d c] by (auto simp: hits_wf_def dest!: map_of_SomeD)

section \<open>Updating\<close>

text \<open>A dictionary whose hits are keyed and stable, with one last-hit time.\<close>

definition stable_hits :: "managed_config \<Rightarrow> real \<Rightarrow> (ustr, page_hit) dict \<Rightarrow> bool" where
  "stable_hits c now d \<longleftrightarrow> keyed_hits d \<and>
     (\<forall>k hit. map_of d k = Some hit \<longrightarrow> stable_counter c (hit_counter hit) \<and> hit_last hit = now)"

lemma stable_update:
  "stable_hits c now d \<Longrightarrow> opaque_key (hit_key hit) \<Longrightarrow> stable_counter c (hit_counter hit) \<Longrightarrow> hit_last hit = now \<Longrightarrow>
   stable_hits c now (AList.update (hit_key hit) hit d)"
  unfolding stable_hits_def using keyed_update by auto

lemma stable_trim: "stable_hits c now d \<Longrightarrow> stable_hits c now (trim_hits c d)"
  unfolding stable_hits_def using keyed_trim lookup_trim by (metis keyed_hits_def)

lemma stable_Nil [simp]: "stable_hits c now []"
  by (simp add: stable_hits_def)

lemma stable_decay:
  assumes "1 / 10 ^ 6 \<le> mc_max_counter c" and "list_all (\<lambda>hit. opaque_key (hit_key hit)) hits" and "stable_hits c now d"
  shows "stable_hits c now (fold (decay_hit c now) hits d)"
  using assms(2,3)
proof (induction hits arbitrary: d)
  case (Cons hit hits)
  let ?n = "decayed_counter (hit_counter hit) (hit_last hit) now (mc_half_life c)"
  have "stable_hits c now (decay_hit c now hit d)"
  proof (cases "?n \<le> 1 / 1000000")
    case False
    then have "stable_counter c (py_round (min (mc_max_counter c) ?n) 6)"
      by (intro stable_counter_round [OF assms(1)]) simp
    then show ?thesis
      using stable_update [OF Cons.prems(2), of "\<lparr>hit_key = hit_key hit, hit_counter = py_round (min (mc_max_counter c) ?n) 6,
          hit_last = now\<rparr>"] Cons.prems(1) False by (simp add: decay_hit_def Let_def)
  qed (use Cons.prems in \<open>simp add: decay_hit_def Let_def\<close>)
  then show ?case using Cons by simp
qed simp

lemma stable_bump:
  assumes "1 / 10 ^ 6 \<le> mc_max_counter c" and "1 / 10 ^ 6 \<le> mc_increment c" and "opaque_key key" and "stable_hits c now d"
  shows "stable_hits c now (bump_hit c now key d)"
proof -
  let ?n = "case map_of d key of Some hit \<Rightarrow> hit_counter hit | None \<Rightarrow> 0"
  have "0 \<le> ?n" using assms(4) by (auto simp: stable_hits_def stable_counter_def less_imp_le split: option.splits)
  then have "stable_counter c (py_round (min (mc_max_counter c) (?n + mc_increment c)) 6)"
    using assms(2) by (intro stable_counter_round [OF assms(1)]) linarith
  then show ?thesis
    using stable_update [OF assms(4), of "\<lparr>hit_key = key,
        hit_counter = py_round (min (mc_max_counter c) (?n + mc_increment c)) 6, hit_last = now\<rparr>"] assms(3)
    by (simp add: bump_hit_def Let_def)
qed

lemma stable_bumps:
  assumes "1 / 10 ^ 6 \<le> mc_max_counter c" and "1 / 10 ^ 6 \<le> mc_increment c"
    and "list_all opaque_key keys" and "stable_hits c now d"
  shows "stable_hits c now (fold (bump_hit c now) keys d)"
  using assms(3,4) by (induction keys arbitrary: d) (simp_all add: stable_bump [OF assms(1,2)])


lemma updated_record_writable:
  assumes "1 / 10 ^ 6 \<le> mc_max_counter c" and "1 / 10 ^ 6 \<le> mc_increment c" and "list_all opaque_key keys"
    and old: "pred_option readable current"
  shows "writable_record c (updated_record c scope now keys current)"
    and "hit \<in> set (map snd (mr_hits (updated_record c scope now keys current))) \<Longrightarrow>
         hit_last hit = mr_updated (updated_record c scope now keys current)"
proof -
  define moment where "moment = (case current of Some r \<Rightarrow> max now (mr_updated r) | None \<Rightarrow> now)"
  define hits where "hits = (case current of Some r \<Rightarrow> mr_hits r | None \<Rightarrow> [])"
  define new where "new = fold (bump_hit c moment) (dedupe_on id {} keys) (decayed_hits c moment hits)"
  have "keyed_hits hits" using old by (cases current) (auto simp: hits_def readable_def)
  then have "list_all (\<lambda>hit. opaque_key (hit_key hit)) (map snd hits)"
    by (auto simp: list_all_iff dest: keyed_hit)
  then have "stable_hits c moment (decayed_hits c moment hits)"
    unfolding decayed_hits_def by (intro stable_trim stable_decay [OF assms(1)]) simp_all
  moreover have "list_all opaque_key (dedupe_on id {} keys)"
    using assms(3) set_dedupe_on [of id "{}" keys] by (auto simp: list_all_iff)
  ultimately have new: "stable_hits c moment new" unfolding new_def by (intro stable_bumps [OF assms(1,2)])
  have stored: "stable_hits c moment (trim_hits c new)" by (rule stable_trim [OF new])
  have r: "updated_record c scope now keys current = \<lparr>mr_scope = scope,
      mr_generation = (case current of Some r \<Rightarrow> mr_generation r + 1 | None \<Rightarrow> 1),
      mr_created = (case current of Some r \<Rightarrow> mr_created r | None \<Rightarrow> moment), mr_updated = moment, mr_hits = trim_hits c new\<rparr>"
    unfolding updated_record_def Let_def moment_def new_def hits_def by (simp split: option.split)
  have wf: "hits_wf new" using new by (simp add: stable_hits_def keyed_hits_def)
  have times: "(case current of Some r \<Rightarrow> mr_created r | None \<Rightarrow> moment) \<le> moment"
    using old by (cases current) (auto simp: moment_def readable_def)
  have gen: "1 \<le> (case current of Some r \<Rightarrow> mr_generation r + 1 | None \<Rightarrow> 1)"
    using old by (cases current) (auto simp: readable_def)
  show "writable_record c (updated_record c scope now keys current)"
    using stored times gen trim_hits_wf(3) [OF wf, of c]
    by (simp add: writable_record_def readable_def r stable_hits_def)
  assume "hit \<in> set (map snd (mr_hits (updated_record c scope now keys current)))"
  then obtain k where "(k, hit) \<in> set (trim_hits c new)" by (auto simp: r)
  then have "map_of (trim_hits c new) k = Some hit"
    using stored by (auto simp: stable_hits_def keyed_hits_def hits_wf_def)
  then show "hit_last hit = mr_updated (updated_record c scope now keys current)"
    using stored by (simp add: r stable_hits_def)
qed

section \<open>Reading\<close>

lemma try_conversion_Some: "try_conversion r = Inr (Some x) \<longleftrightarrow> r = Inr x"
  by (auto simp: try_conversion_def split: sum.splits if_splits)

lemma add_read_hit_keyed: "opaque_key key \<Longrightarrow> keyed_hits d \<Longrightarrow> keyed_hits (add_read_hit c now key n t d)"
  using keyed_update [of d "\<lparr>hit_key = key, hit_counter = py_round (min (mc_max_counter c) n) 6, hit_last = t\<rparr>"]
  by (simp add: add_read_hit_def)

lemma read_hit_keyed: "read_hit env c now item d = Inr d' \<Longrightarrow> keyed_hits d \<Longrightarrow> keyed_hits d'"
  by (auto simp: read_hit_def bind_res_Inr add_read_hit_keyed opaque_key_def split: pyval.splits if_splits option.splits)

lemma read_hits_keyed: "read_hits env c now items d = Inr d' \<Longrightarrow> keyed_hits d \<Longrightarrow> keyed_hits d'"
  by (induction items arbitrary: d) (auto simp: bind_res_Inr intro: read_hit_keyed)

lemma checked_record_readable:
  "checked_record c scope hits read = Some r \<Longrightarrow> keyed_hits hits \<Longrightarrow>
   readable r \<and> mr_scope r = scope \<and> length (mr_hits r) \<le> nat (mc_max_entries c)"
  using trim_hits_wf(3) [of hits c] keyed_trim [of hits c]
  by (auto simp: checked_record_def readable_def not_less split: if_splits prod.splits) (simp_all add: keyed_hits_def)

lemma read_record_readable:
  assumes "managed_record_from_payload env c scope now payload = Inr (Some r)"
  shows "readable r \<and> mr_scope r = scope \<and> length (mr_hits r) \<le> nat (mc_max_entries c)"
proof -
  from assms obtain d items hits where "read_hits env c now items [] = Inr hits"
    and fin: "finish_record env c scope now d hits = Inr (Some r)"
    by (auto simp: managed_record_from_payload_def bind_res_Inr split: pyval.splits if_splits)
  then have "keyed_hits hits" by (auto intro: read_hits_keyed)
  with fin show ?thesis using checked_record_readable by (auto simp: finish_record_def bind_res_Inr bind_eq_Some_conv)
qed

lemma file_record_readable:
  assumes "read_file_record env c scope now seen = Inr current"
  shows "pred_option (\<lambda>r. readable r \<and> length (mr_hits r) \<le> nat (mc_max_entries c)) current"
  using assms read_record_readable [of env c scope now]
  by (cases current) (auto simp: read_file_record_def split: option.splits)

section \<open>Reading what was written\<close>

definition stored_hit :: "page_hit \<Rightarrow> page_hit" where
  "stored_hit hit = \<lparr>hit_key = hit_key hit, hit_counter = hit_counter hit, hit_last = py_round (hit_last hit) 6\<rparr>"

lemma pget_hit_payload:
  "pget [(lit ''page_key'', a), (lit ''counter'', b), (lit ''last_hit_at'', t)] ''page_key'' = a"
  "pget [(lit ''page_key'', a), (lit ''counter'', b), (lit ''last_hit_at'', t)] ''counter'' = b"
  "pget [(lit ''page_key'', a), (lit ''counter'', b), (lit ''last_hit_at'', t)] ''last_hit_at'' = t"
  by (simp_all add: pget_def dict_get_def inj_lit)

lemma read_written_hit:
  assumes "0 < mc_half_life c" and "opaque_key (hit_key hit)" and "stable_counter c (hit_counter hit)"
  shows "read_hit env c now (hit_payload hit) d = Inr (AList.update (hit_key hit) (stored_hit hit) d)"
proof -
  have n: "py_round (hit_counter hit) 6 = hit_counter hit" by (rule stable_counter_rounded [OF assms(3)])
  have pos: "0 < hit_counter hit" and min: "py_round (min (mc_max_counter c) (hit_counter hit)) 6 = hit_counter hit"
    using assms(3) by (simp_all add: stable_counter_def)
  have "\<not> decayed_counter (hit_counter hit) t now (mc_half_life c) \<le> 0" for t
    using decayed_counter_pos [OF pos assms(1)] by (simp add: not_le)
  then have "add_read_hit c now (hit_key hit) (hit_counter hit) (py_round (hit_last hit) 6) d =
      AList.update (hit_key hit) (stored_hit hit) d"
    using pos by (simp add: add_read_hit_def min stored_hit_def)
  then show ?thesis
    using assms(2) by (simp add: read_hit_def hit_payload_def pget_hit_payload opaque_key_def n py_float_def try_conversion_def)
qed

lemma read_written_hits:
  assumes "0 < mc_half_life c"
    and "list_all (\<lambda>hit. opaque_key (hit_key hit) \<and> stable_counter c (hit_counter hit)) hits"
  shows "read_hits env c now (map hit_payload hits) d =
    Inr (fold (\<lambda>(k, v) d. AList.update k v d) (map (\<lambda>hit. (hit_key hit, stored_hit hit)) hits) d)"
  using assms(2) by (induction hits arbitrary: d) (simp_all add: read_written_hit [OF assms(1)])


lemma stored_hit_key [simp]: "hit_key (stored_hit hit) = hit_key hit"
  by (simp add: stored_hit_def)

lemma lookup_hits: "map_of (map (\<lambda>hit. (hit_key hit, f hit)) hs) k = map_option f (map_of (map (\<lambda>hit. (hit_key hit, hit)) hs) k)"
  by (induction hs) auto

lemma distinct_sorted_keys: "distinct (map hit_key (sort_key f hs)) \<longleftrightarrow> distinct (map hit_key hs)"
  by (simp only: distinct_map set_sort distinct_sort)

text \<open>The same hits in another order.\<close>

lemma lookup_sorted_hits:
  assumes "hits_wf d"
  shows "map_of (map (\<lambda>hit. (hit_key hit, hit)) (sort_key f (map snd d))) = map_of d"
proof (rule map_of_inject_set [THEN iffD2])
  show "distinct (map fst (map (\<lambda>hit. (hit_key hit, hit)) (sort_key f (map snd d))))"
    using hits_wf_distinct [OF assms] distinct_sorted_keys [of f "map snd d"] by (simp only: map_map comp_def fst_conv)
  show "set (map (\<lambda>hit. (hit_key hit, hit)) (sort_key f (map snd d))) = set d"
    using arg_cong [OF hits_wf_keys [OF assms], of set] by (simp add: image_image)
qed (use assms in \<open>simp add: hits_wf_def\<close>)

lemma read_hits_lookup:
  assumes "0 < mc_half_life c" and ok: "writable_record c r"
  obtains d where "read_hits env c now (map hit_payload (sort_key hit_key (map snd (mr_hits r)))) [] = Inr d"
    and "map_of (trim_hits c d) = map_option stored_hit \<circ> map_of (mr_hits r)"
proof -
  let ?hs = "sort_key hit_key (map snd (mr_hits r))"
  define kept where "kept = map stored_hit ?hs"
  have wf: "hits_wf (mr_hits r)" and few: "length (mr_hits r) \<le> nat (mc_max_entries c)"
    using ok by (simp_all add: writable_record_def readable_def keyed_hits_def)
  have each: "opaque_key (hit_key hit) \<and> stable_counter c (hit_counter hit)" if hit: "hit \<in> set ?hs" for hit
  proof -
    obtain k where k: "(k, hit) \<in> set (mr_hits r)" using hit by auto
    then have "map_of (mr_hits r) k = Some hit" using wf by (simp add: hits_wf_def)
    then show ?thesis using ok keyed_hit [OF _ k] by (auto simp: writable_record_def readable_def)
  qed
  have keys: "distinct (map hit_key kept)"
    using hits_wf_distinct [OF wf] distinct_sorted_keys [of hit_key "map snd (mr_hits r)"]
    by (simp only: kept_def map_map comp_def stored_hit_key)
  have dict: "dict_of (map (\<lambda>hit. (hit_key hit, hit)) kept) =
      fold (\<lambda>(k, v) d. AList.update k v d) (map (\<lambda>hit. (hit_key hit, stored_hit hit)) ?hs) []"
    by (simp add: dict_of_def kept_def comp_def)
  have read: "read_hits env c now (map hit_payload ?hs) [] = Inr (dict_of (map (\<lambda>hit. (hit_key hit, hit)) kept))"
    unfolding dict by (rule read_written_hits [OF assms(1)]) (use each in \<open>simp add: list_all_iff\<close>)
  have "map_of (trim_hits c (dict_of (map (\<lambda>hit. (hit_key hit, hit)) kept))) =
      map_of (dict_of (map (\<lambda>hit. (hit_key hit, hit)) kept))"
    using dict_of_hits(1,4) [OF keys] few by (intro trim_hits_lookup) (simp_all add: kept_def)
  also have "\<dots> = map_of (map (\<lambda>hit. (hit_key hit, hit)) kept)" by (rule dict_of_hits(2) [OF keys])
  also have "\<dots> = map_option stored_hit \<circ> map_of (mr_hits r)"
    using lookup_hits [of stored_hit ?hs] lookup_sorted_hits [OF wf, of hit_key] by (auto simp: kept_def comp_def)
  finally show ?thesis by (rule that [OF read])
qed

definition same_record :: "managed_record \<Rightarrow> managed_record \<Rightarrow> bool" where
  "same_record r r' \<longleftrightarrow> mr_scope r' = mr_scope r \<and> mr_generation r' = mr_generation r \<and>
     mr_created r' = py_round (mr_created r) 6 \<and> mr_updated r' = py_round (mr_updated r) 6 \<and>
     map_of (mr_hits r') = map_option stored_hit \<circ> map_of (mr_hits r)"

text \<open>The fields of a payload; a time of zero reads as the current time.\<close>

lemma record_payload_fields:
  "pget (scope_fields env scope @ [(lit ''created_at'', a), (lit ''updated_at'', b), (lit ''generation'', g),
     (lit ''orientation_generation'', o'), (lit ''page_hit_prior'', h)]) ''created_at'' = a"
  "pget (scope_fields env scope @ [(lit ''created_at'', a), (lit ''updated_at'', b), (lit ''generation'', g),
     (lit ''orientation_generation'', o'), (lit ''page_hit_prior'', h)]) ''updated_at'' = b"
  "pget (scope_fields env scope @ [(lit ''created_at'', a), (lit ''updated_at'', b), (lit ''generation'', g),
     (lit ''orientation_generation'', o'), (lit ''page_hit_prior'', h)]) ''generation'' = g"
  "pget (scope_fields env scope @ [(lit ''created_at'', a), (lit ''updated_at'', b), (lit ''generation'', g),
     (lit ''orientation_generation'', o'), (lit ''page_hit_prior'', h)]) ''page_hit_prior'' = h"
  by (simp_all add: pget_def dict_get_def scope_fields_def inj_lit)

lemma scope_fields_match:
  "list_ex (\<lambda>(k, v). dict_get (scope_fields env scope @ others) k PNone \<noteq> v) (scope_fields env scope) = False"
  by (simp add: dict_get_def scope_fields_def inj_lit)

lemma written_reads_back:
  assumes "0 < mc_half_life c" and ok: "writable_record c r"
    and "py_round (mr_created r) 6 \<noteq> 0" and "py_round (mr_updated r) 6 \<noteq> 0"
  shows "\<exists>r'. managed_record_from_payload env c (mr_scope r) now (managed_record_to_payload env r) = Inr (Some r') \<and>
    same_record r r'"
proof -
  obtain d where d: "read_hits env c now (map hit_payload (sort_key hit_key (map snd (mr_hits r)))) [] = Inr d"
    and hits: "map_of (trim_hits c d) = map_option stored_hit \<circ> map_of (mr_hits r)"
    by (rule read_hits_lookup [OF assms(1) ok])
  have g: "1 \<le> mr_generation r" and "mr_created r \<le> mr_updated r"
    using ok by (simp_all add: writable_record_def readable_def)
  then have times: "py_round (mr_created r) 6 \<le> py_round (mr_updated r) 6" by (intro py_round_mono)
  show ?thesis
    using d hits g times assms(3,4)
    by (simp add: managed_record_from_payload_def managed_record_to_payload_def scope_fields_match record_payload_fields
        finish_record_def checked_record_def por_def py_int_def py_float_def try_conversion_def same_record_def not_less)
qed


section \<open>What an update stores\<close>

text \<open>The old counter of a key at a later time, zero when there is none or too little of it is left.\<close>

definition faded :: "managed_config \<Rightarrow> real \<Rightarrow> (ustr, page_hit) dict \<Rightarrow> ustr \<Rightarrow> real" where
  "faded c now d k =
     (case map_of d k of
        None \<Rightarrow> 0
      | Some hit \<Rightarrow> (let n = decayed_counter (hit_counter hit) (hit_last hit) now (mc_half_life c)
          in if n \<le> 1 / 1000000 then 0 else py_round (min (mc_max_counter c) n) 6))"

definition counter_of :: "(ustr, page_hit) dict \<Rightarrow> ustr \<Rightarrow> real" where
  "counter_of d k = (case map_of d k of Some hit \<Rightarrow> hit_counter hit | None \<Rightarrow> 0)"

lemma counter_of_decay:
  assumes "distinct (map hit_key hits)" and "\<And>hit. hit \<in> set hits \<Longrightarrow> map_of d (hit_key hit) = None"
  shows "counter_of (fold (decay_hit c now) hits d) k =
    (if k \<in> hit_key ` set hits then faded c now (map (\<lambda>hit. (hit_key hit, hit)) hits) k else counter_of d k)"
  using assms
proof (induction hits arbitrary: d)
  case (Cons hit hits)
  let ?d = "decay_hit c now hit d"
  have "map_of ?d (hit_key h) = None" if "h \<in> set hits" for h
  proof -
    have "hit_key h \<in> set (map hit_key hits)" using that by simp
    then have "hit_key h \<noteq> hit_key hit" using Cons.prems(1) by (metis distinct.simps(2) list.simps(9))
    then show ?thesis using that Cons.prems(2) [of h] by (simp add: decay_hit_def Let_def)
  qed
  then have IH: "counter_of (fold (decay_hit c now) hits ?d) k =
      (if k \<in> hit_key ` set hits then faded c now (map (\<lambda>hit. (hit_key hit, hit)) hits) k else counter_of ?d k)"
    using Cons.IH [of ?d] Cons.prems(1) by simp
  show ?case
  proof (cases "k = hit_key hit")
    case True
    then have "k \<notin> hit_key ` set hits" using Cons.prems(1) by simp
    moreover have "counter_of ?d k = faded c now [(hit_key hit, hit)] k"
      using True Cons.prems(2) [of hit] by (simp add: decay_hit_def counter_of_def faded_def Let_def)
    ultimately show ?thesis using IH True by (simp add: faded_def)
  next
    case False
    then have "counter_of ?d k = counter_of d k" by (simp add: decay_hit_def counter_of_def Let_def)
    then show ?thesis using IH False by (simp add: faded_def)
  qed
qed simp

lemma keys_decay: "set (map fst (fold (decay_hit c now) hits d)) \<subseteq> set (map fst d) \<union> hit_key ` set hits"
proof (induction hits arbitrary: d)
  case (Cons hit hits)
  have "set (map fst (decay_hit c now hit d)) \<subseteq> insert (hit_key hit) (set (map fst d))"
    by (auto simp: decay_hit_def Let_def dom_update)
  moreover have "set (map fst (fold (decay_hit c now) hits (decay_hit c now hit d))) \<subseteq>
      set (map fst (decay_hit c now hit d)) \<union> hit_key ` set hits" by (rule Cons)
  ultimately have "set (map fst (fold (decay_hit c now) hits (decay_hit c now hit d))) \<subseteq>
      set (map fst d) \<union> insert (hit_key hit) (hit_key ` set hits)" by blast
  then show ?case by simp
qed simp

lemma counter_of_bumps:
  assumes "distinct keys"
  shows "counter_of (fold (bump_hit c now) keys d) k =
    (if k \<in> set keys then py_round (min (mc_max_counter c) (counter_of d k + mc_increment c)) 6 else counter_of d k)"
  using assms
proof (induction keys arbitrary: d)
  case (Cons key keys)
  have "counter_of (bump_hit c now key d) k =
      (if k = key then py_round (min (mc_max_counter c) (counter_of d k + mc_increment c)) 6 else counter_of d k)"
    by (simp add: bump_hit_def counter_of_def Let_def)
  then show ?case using Cons by auto
qed simp

lemma keys_bumps: "set (map fst (fold (bump_hit c now) keys d)) = set (map fst d) \<union> set keys"
  by (induction keys arbitrary: d) (auto simp: bump_hit_def Let_def dom_update)

lemma distinct_bumps: "distinct (map fst d) \<Longrightarrow> distinct (map fst (fold (bump_hit c now) keys d))"
  by (induction keys arbitrary: d) (simp_all add: bump_hit_def Let_def distinct_update)

lemma counter_of_trim:
  "hits_wf d \<Longrightarrow> map_of (trim_hits c d) k = Some hit \<Longrightarrow> hit_counter hit = counter_of d k"
  using lookup_trim [of d c k hit] by (simp add: counter_of_def)


lemma updated_record_counters:
  assumes old: "pred_option (\<lambda>r. readable r \<and> length (mr_hits r) \<le> nat (mc_max_entries c)) current"
    and r_def: "r = updated_record c scope now keys current"
    and old_hits_def: "old_hits = (case current of Some r \<Rightarrow> mr_hits r | None \<Rightarrow> [])"
  shows "map_of (mr_hits r) k = Some hit \<Longrightarrow> hit_counter hit =
      (if k \<in> set keys then py_round (min (mc_max_counter c) (faded c (mr_updated r) old_hits k + mc_increment c)) 6
       else faded c (mr_updated r) old_hits k)"
    and "length old_hits + length (dedupe_on id {} keys) \<le> nat (mc_max_entries c) \<Longrightarrow> k \<in> set keys \<Longrightarrow>
      map_of (mr_hits r) k \<noteq> None"
proof -
  define moment where "moment = (case current of Some r \<Rightarrow> max now (mr_updated r) | None \<Rightarrow> now)"
  define raw where "raw = fold (decay_hit c moment) (map snd old_hits) []"
  define new where "new = fold (bump_hit c moment) (dedupe_on id {} keys) (trim_hits c raw)"
  have r: "mr_updated r = moment" "mr_hits r = trim_hits c new"
    by (simp_all add: r_def updated_record_def Let_def moment_def new_def raw_def old_hits_def decayed_hits_def)
  have keyed: "keyed_hits old_hits" and few: "length old_hits \<le> nat (mc_max_entries c)"
    using old by (cases current; simp add: old_hits_def readable_def)+
  have wf_old: "hits_wf old_hits" using keyed by (simp add: keyed_hits_def)
  have wf_decay: "hits_wf (fold (decay_hit c moment) hs d)" if "hits_wf d" for hs d
    using that by (induction hs arbitrary: d) (simp_all add: decay_hit_def Let_def hits_wf_update)
  have wf_raw: "hits_wf raw" unfolding raw_def by (rule wf_decay) simp
  have few_raw: "length raw \<le> length old_hits"
  proof -
    have "set (map fst raw) \<subseteq> hit_key ` set (map snd old_hits)"
      using keys_decay [of c moment "map snd old_hits" "[]"] by (simp add: raw_def)
    then have "card (set (map fst raw)) \<le> card (hit_key ` set (map snd old_hits))" by (intro card_mono) simp_all
    also have "\<dots> \<le> length old_hits" using card_image_le card_length by (metis List.finite_set le_trans length_map)
    finally show ?thesis using wf_raw distinct_card [of "map fst raw"] by (simp add: hits_wf_def)
  qed
  have lookup: "map_of (trim_hits c raw) = map_of raw" by (rule trim_hits_lookup [OF wf_raw]) (use few few_raw in simp)
  have wf_bump: "hits_wf (fold (bump_hit c moment) ks d)" if "hits_wf d" for ks d
    using that by (induction ks arbitrary: d) (simp_all add: bump_hit_def Let_def hits_wf_update)
  have wf_new: "hits_wf new" unfolding new_def by (rule wf_bump) (rule trim_hits_wf(1) [OF wf_raw])
  have old_keys: "hit_key ` set (map snd old_hits) = fst ` set old_hits"
    unfolding set_map image_image by (rule image_cong) (use wf_old in \<open>auto simp: hits_wf_def\<close>)
  have decayed: "counter_of raw k = (if k \<in> fst ` set old_hits then faded c moment old_hits k else counter_of [] k)"
    using counter_of_decay [of "map snd old_hits" "[]" c moment k] hits_wf_distinct [OF wf_old]
    unfolding raw_def hits_wf_keys [OF wf_old] old_keys by simp
  have raw: "counter_of raw k = faded c moment old_hits k"
  proof (cases "k \<in> fst ` set old_hits")
    case False
    then have "map_of old_hits k = None" by (simp add: map_of_eq_None_iff)
    then show ?thesis using decayed False by (simp add: faded_def counter_of_def)
  qed (use decayed in simp)
  have keys: "set (dedupe_on id {} keys) = set keys" using dedupe_on_keys [of id "{}" keys] by simp
  have "counter_of new k = (if k \<in> set keys
      then py_round (min (mc_max_counter c) (faded c moment old_hits k + mc_increment c)) 6 else faded c moment old_hits k)"
    using counter_of_bumps [of "dedupe_on id {} keys" c moment "trim_hits c raw" k] distinct_dedupe_on [of id "{}" keys]
    by (simp add: new_def keys raw [symmetric] counter_of_def lookup)
  then show "map_of (mr_hits r) k = Some hit \<Longrightarrow> hit_counter hit =
      (if k \<in> set keys then py_round (min (mc_max_counter c) (faded c (mr_updated r) old_hits k + mc_increment c)) 6
       else faded c (mr_updated r) old_hits k)"
    using counter_of_trim [OF wf_new, of c k hit] by (simp add: r)
  assume room: "length old_hits + length (dedupe_on id {} keys) \<le> nat (mc_max_entries c)" and k: "k \<in> set keys"
  have new_keys: "set (map fst new) = set (map fst raw) \<union> set keys"
    unfolding new_def keys_bumps keys using lookup by (simp add: dom_map_of_conv_image_fst [symmetric])
  have "length new = card (set (map fst new))" using wf_new distinct_card [of "map fst new"] by (simp add: hits_wf_def)
  also have "\<dots> \<le> length raw + length (dedupe_on id {} keys)"
    unfolding new_keys keys [symmetric] using card_Un_le card_length by (metis add_mono le_trans length_map)
  finally have "map_of (trim_hits c new) = map_of new" using few_raw room by (intro trim_hits_lookup [OF wf_new]) simp
  then show "map_of (mr_hits r) k \<noteq> None" using new_keys k by (simp add: r map_of_eq_None_iff)
qed

end
