(* ===== verification/Managed_Claims.thy ===== *)
theory Managed_Claims
  imports Managed_Props
begin

text \<open>
  The theorems about the managed context: the prior, one update, many processes on one sidecar file, the
  salt, the derived orientation, and a sidecar that breaks requests.
\<close>

section \<open>The prior\<close>

text \<open>
  Whatever the sidecar holds, the prior of a result lies between zero and the configured maximal
  boost, and the boost of a page that is not hit again never grows with time.
\<close>
theorem managed_prior_bounded:
  "case normalize_managed_context_config option of
     Inl e \<Rightarrow> True
   | Inr c \<Rightarrow>
       (case managed_prior_function env c scope index now sc of
          Inr (Some prior) \<Rightarrow> (\<exists>b. prior result = Some b \<and> 0 \<le> b \<and> b \<le> mc_max_boost c) \<and>
            (\<forall>r key wait. decayed_boost c (now + \<bar>wait\<bar>) r key \<le> decayed_boost c now r key)
        | _ \<Rightarrow> True)"
proof (cases "normalize_managed_context_config option")
  case (Inr c)
  then obtain d where "validate_managed_context_config d = Inr c" by (cases option) auto
  then have sound: "mc_enabled c \<Longrightarrow> sound_config c" using validated_config by metis
  show ?thesis
  proof (cases "managed_prior_function env c scope index now sc")
    case answered: (Inr answer)
    show ?thesis
    proof (cases answer)
      case (Some prior)
      then have "sound_config c" using answered sound by (auto simp: managed_prior_function_def active_for_index_def split: if_splits)
      moreover from this have "\<exists>b. prior result = Some b \<and> 0 \<le> b \<and> b \<le> mc_max_boost c"
        using answered Some boost_bounds [of c]
        by (auto simp: managed_prior_function_def prior_of_record_def bind_res_Inr sound_config_def
            split: if_splits option.splits)
      ultimately show ?thesis using Inr answered Some boost_antimono [of c] by auto
    qed (use Inr answered in simp)
  qed (use Inr in simp)
qed simp

section \<open>One update\<close>

text \<open>Rounding to microseconds and millionths must not lose what is stored.\<close>

definition fine_config :: "managed_config \<Rightarrow> bool" where
  "fine_config c \<longleftrightarrow> sound_config c \<and> 1 / 10 ^ 6 \<le> mc_max_counter c \<and> 1 / 10 ^ 6 \<le> mc_increment c"

lemma later_record:
  assumes "fine_config c" and "list_all opaque_key keys" and old: "pred_option readable current"
    and "1 \<le> now" and "pred_option (\<lambda>r. 1 \<le> mr_created r) current"
  shows "\<exists>r'. managed_record_from_payload env c scope later
      (managed_record_to_payload env (updated_record c scope now keys current)) = Inr (Some r') \<and>
    same_record (updated_record c scope now keys current) r' \<and> 1 \<le> mr_created r'"
proof -
  let ?r = "updated_record c scope now keys current"
  have ok: "writable_record c ?r"
    using assms by (intro updated_record_writable(1)) (simp_all add: fine_config_def)
  have created: "1 \<le> mr_created ?r" using assms(4,5) by (cases current) (simp_all add: updated_record_def Let_def)
  then have "1 \<le> mr_updated ?r" using ok by (simp add: writable_record_def readable_def)
  then have round: "1 \<le> py_round (mr_created ?r) 6" "1 \<le> py_round (mr_updated ?r) 6"
    using created py_round_mono [of 1 _ 6] round_half_even_of_int [of "10 ^ 6"] by (simp_all add: py_round_def)
  have "mr_scope ?r = scope" by (simp add: updated_record_def Let_def)
  then show ?thesis
    using written_reads_back [OF _ ok, of env later] round assms(1)
    by (auto simp: fine_config_def sound_config_def same_record_def)
qed


lemma readable_option: "pred_option (\<lambda>r. readable r \<and> length (mr_hits r) \<le> n) current \<Longrightarrow> pred_option readable current"
  by (cases current) auto

text \<open>
  C22: Recording hits. An update of a sidecar that can be locked and read writes a record of the next
  generation that every later read gets back, up to rounding to microseconds; it has at most the
  configured number of pages, the counter of a page that was hit is its faded old counter plus the
  increment, the others have faded only, and no page that was hit is left out while there is room.
\<close>
theorem recorded_hits_read_back:
  assumes "fine_config c" and "keys \<noteq> [] \<and> list_all opaque_key keys" and "1 \<le> now"
    and "lock_acquired sc (record_path env scope)"
    and "read_file_record env c scope now (map_of (sc_files sc) (record_path env scope)) = Inr current"
    and "pred_option (\<lambda>r. 1 \<le> mr_created r) current"
    and "me_json_size env (managed_record_to_payload env (updated_record c scope now keys current)) \<le> SIDECAR_RECORD_READ_MAX_BYTES"
  shows "fst (update_hits env c scope now keys sc) = Inr () \<and>
    (\<exists>r. store_read env c scope later (snd (update_hits env c scope now keys sc)) = Inr (Some r) \<and>
      same_record (updated_record c scope now keys current) r \<and>
      mr_generation r = (case current of Some old \<Rightarrow> mr_generation old + 1 | None \<Rightarrow> 1) \<and>
      length (mr_hits (updated_record c scope now keys current)) \<le> nat (mc_max_entries c) \<and>
      (let old = (case current of Some old \<Rightarrow> mr_hits old | None \<Rightarrow> []);
           left = faded c (case current of Some old \<Rightarrow> max now (mr_updated old) | None \<Rightarrow> now) old
       in (\<forall>k hit. map_of (mr_hits r) k = Some hit \<longrightarrow>
             hit_counter hit = (if k \<in> set keys then py_round (min (mc_max_counter c) (left k + mc_increment c)) 6 else left k)) \<and>
          (length old + length (dedupe_on id {} keys) \<le> nat (mc_max_entries c) \<longrightarrow>
             (\<forall>k\<in>set keys. map_of (mr_hits r) k \<noteq> None))))"
proof -
  let ?r = "updated_record c scope now keys current"
  note old = file_record_readable [OF assms(5)]
  obtain r where r: "managed_record_from_payload env c scope later (managed_record_to_payload env ?r) = Inr (Some r)"
    and same: "same_record ?r r"
    using later_record [OF assms(1) _ readable_option [OF old] assms(3,6), of keys env scope later] assms(2) by blast
  have wrote: "update_hits env c scope now keys sc =
      (Inr (), atomic_write_json env (record_path env scope) (managed_record_to_payload env ?r) sc)"
    using assms(2,4,5) by (simp add: update_hits_def next_record_def)
  have dict: "managed_record_to_payload env ?r \<noteq> PNone" by (simp add: managed_record_to_payload_def)
  have "\<not> sidecar_lock_present sc (record_path env scope)" using assms(4) by (simp add: lock_acquired_def)
  then have read: "store_read env c scope later (snd (update_hits env c scope now keys sc)) = Inr (Some r)"
    unfolding wrote using r dict assms(7)
    by (simp add: store_read_def atomic_write_json_def sidecar_lock_present_def read_file_record_def read_json_payload_def)
  have ok: "writable_record c ?r"
    using assms(1,2) readable_option [OF old] by (intro updated_record_writable(1)) (simp_all add: fine_config_def)
  have stamp: "mr_updated ?r = (case current of Some old \<Rightarrow> max now (mr_updated old) | None \<Rightarrow> now)"
    and gen: "mr_generation ?r = (case current of Some old \<Rightarrow> mr_generation old + 1 | None \<Rightarrow> 1)"
    by (simp_all add: updated_record_def Let_def)
  have lookup: "map_of (mr_hits r) = map_option stored_hit \<circ> map_of (mr_hits ?r)"
    and same_gen: "mr_generation r = mr_generation ?r" using same by (simp_all add: same_record_def)
  note counters = updated_record_counters [OF old refl refl, where scope = scope and now = now and keys = keys, unfolded stamp]
  show ?thesis
    unfolding Let_def
  proof (intro conjI exI [of _ r] allI impI ballI)
    fix k hit
    assume "map_of (mr_hits r) k = Some hit"
    then obtain h where "map_of (mr_hits ?r) k = Some h" "hit = stored_hit h" by (auto simp: lookup)
    then show "hit_counter hit = (if k \<in> set keys
        then py_round (min (mc_max_counter c) (faded c (case current of Some old \<Rightarrow> max now (mr_updated old) | None \<Rightarrow> now)
               (case current of Some old \<Rightarrow> mr_hits old | None \<Rightarrow> []) k + mc_increment c)) 6
        else faded c (case current of Some old \<Rightarrow> max now (mr_updated old) | None \<Rightarrow> now)
               (case current of Some old \<Rightarrow> mr_hits old | None \<Rightarrow> []) k)"
      using counters(1) by (simp add: stored_hit_def)
  next
    fix k
    assume "length (case current of Some old \<Rightarrow> mr_hits old | None \<Rightarrow> []) + length (dedupe_on id {} keys) \<le> nat (mc_max_entries c)"
      and "k \<in> set keys"
    then have "map_of (mr_hits ?r) k \<noteq> None" by (rule counters(2))
    then show "map_of (mr_hits r) k \<noteq> None" by (simp add: lookup)
  qed (use wrote read same same_gen gen ok in \<open>simp_all add: writable_record_def\<close>)
qed

text \<open>An empty sidecar under the default configuration, for the concrete runs.\<close>

definition demo_env :: managed_env where
  "demo_env = \<lparr>me_sha = id, me_hmac = (\<lambda>secret message. message), me_float = (\<lambda>s. None), me_int = (\<lambda>s. None),
     me_json_size = (\<lambda>v. 0)\<rparr>"

definition demo_scope :: managed_scope where
  "demo_scope = \<lparr>ms_namespace = lit ''default'', ms_source_id = lit ''wiki'', ms_adapter = lit ''generic-markdown'',
     ms_projection = [], ms_source = []\<rparr>"

definition empty_sidecar :: sidecar where
  "empty_sidecar = \<lparr>sc_files = [], sc_locks = [], sc_writable = True\<rparr>"

lemma default_fine: "fine_config default_managed_config"
  by (simp add: fine_config_def sound_config_def default_managed_config_def)

lemma recorded_hits_read_back_witness:
  "\<exists>r. store_read demo_env default_managed_config demo_scope 9
      (snd (update_hits demo_env default_managed_config demo_scope 5 [lit ''pk_a''] empty_sidecar)) = Inr (Some r) \<and>
    mr_generation r = 1"
  using recorded_hits_read_back [of default_managed_config "[lit ''pk_a'']" 5 empty_sidecar demo_env demo_scope None 9]
    default_fine
  by (auto simp: opaque_key_def lock_acquired_def empty_sidecar_def sidecar_lock_present_def read_file_record_def
      read_json_payload_def demo_env_def py_eval)


section \<open>Many processes\<close>











text \<open>
  A lock left behind is left behind for good. When the owner of the lock dies inside the critical
  section, then in every state that follows the lock directory is there, so that reading skips the
  record, nobody enters the critical section, and the file and the number of updates stay as they are.
\<close>
theorem dead_owner_blocks_forever:
  assumes "lock_reachable allowed (update_job env c scope) None s" and "in_critical (sh_client s p)"
    and "(lock_step allowed (update_job env c scope))\<^sup>*\<^sup>* (s\<lparr>sh_client := (sh_client s)(p := Dead)\<rparr>) s'"
  shows "sh_lock s' = Some p \<and> sh_file s' = sh_file s \<and> sh_log s' = sh_log s \<and>
    (\<forall>q. \<not> in_critical (sh_client s' q)) \<and>
    (\<forall>files stale now. store_read env c scope now
       \<lparr>sc_files = files, sc_locks = [(record_path env scope, stale)], sc_writable = True\<rparr> = Inr None)"
proof -
  note ok = lock_reachable_ok [OF assms(1)]
  have "blocked p (s\<lparr>sh_client := (sh_client s)(p := Dead)\<rparr>)"
    using lock_okD(1) [OF ok assms(2)] only_owner [OF ok assms(2)] by (simp add: blocked_def)
  from blocked_steps [OF assms(3) this] show ?thesis
    by (simp add: blocked_def store_read_def sidecar_lock_present_def)
qed

lemma dead_owner_blocks_forever_witness:
  "\<exists>s s'. lock_reachable (\<lambda>request. True) (update_job demo_env default_managed_config demo_scope) None s \<and>
     (lock_step (\<lambda>request. True) (update_job demo_env default_managed_config demo_scope))\<^sup>*\<^sup>*
       (s\<lparr>sh_client := (sh_client s)(0 := Dead)\<rparr>) s' \<and> sh_lock s' = Some 0 \<and> length (sh_log s') = 1"
proof -
  let ?job = "update_job demo_env default_managed_config demo_scope"
  have "\<exists>new. ?job (5, [lit ''pk_a'']) None = Some new"
    by (simp add: update_job_def next_record_def read_file_record_def read_json_payload_def)
  then obtain s where s: "lock_reachable (\<lambda>request. True) ?job None s" "in_critical (sh_client s 0)"
    and "length (sh_log s) = 1"
    using lone_job [of "\<lambda>request. True" "(5, [lit ''pk_a''])" ?job _ 0] by fastforce
  then show ?thesis
    using dead_owner_blocks_forever [OF s, of "s\<lparr>sh_client := (sh_client s)(0 := Dead)\<rparr>"] by fastforce
qed

section \<open>The salt\<close>

definition salted_file :: "nat \<Rightarrow> sidecar_file option \<Rightarrow> bool" where
  "salted_file n seen \<longleftrightarrow> (n = 0 \<and> seen = None) \<or> (n = 1 \<and> read_salt seen \<noteq> None)"

definition fresh_salt :: "managed_env \<Rightarrow> ustr \<Rightarrow> bool" where
  "fresh_salt env salt \<longleftrightarrow> salt \<noteq> [] \<and> me_json_size env (salt_payload salt) \<le> SIDECAR_SALT_READ_MAX_BYTES"

lemma read_written_salt:
  "fresh_salt env salt \<Longrightarrow> read_salt (Some (Json_text (salt_payload salt) (me_json_size env (salt_payload salt)))) = Some salt"
  by (simp add: fresh_salt_def read_salt_def read_json_payload_def salt_payload_def pget_def dict_get_def inj_lit not_less)

lemma read_no_salt [simp]: "read_salt None = None"
  by (simp add: read_salt_def read_json_payload_def)

interpretation salt_file: locked_file "fresh_salt env" "salt_job env" salted_file
  for env
proof unfold_locales
  show "salted_file 0 None" by (simp add: salted_file_def)
  show "salted_file (Suc n) (Some new)" if "fresh_salt env j" "salted_file n seen" "salt_job env j seen = Some new" for j n seen new
    using that read_written_salt [of env j] by (auto simp: salted_file_def salt_job_def split: if_splits)
qed

text \<open>
  All processes agree on the salt of the page keys. At most one salt is ever written, by whichever
  process came first, and from then on every read of the salt file finds that one.
\<close>
theorem one_salt:
  assumes "lock_reachable (fresh_salt env) (salt_job env) None s"
  shows "case sh_log s of
      [] \<Rightarrow> read_salt (sh_file s) = None
    | [(p, salt)] \<Rightarrow> read_salt (sh_file s) = Some salt
    | _ \<Rightarrow> False"
proof -
  have contents: "sh_file s = serial (salt_job env) None (sh_log s)"
    using lock_okD(3) [OF lock_reachable_ok [OF assms]] .
  have good: "salted_file (length (sh_log s)) (sh_file s)" by (rule salt_file.good_reachable [OF assms])
  show ?thesis
  proof (cases "sh_log s")
    case Nil
    then show ?thesis using contents by simp
  next
    case (Cons entry entries)
    then have "entries = []" using good by (simp add: salted_file_def)
    moreover obtain p salt where entry: "entry = (p, salt)" by (cases entry)
    moreover have "fresh_salt env salt"
      using reachable_jobs_allowed [OF assms] Cons entry by (simp add: jobs_allowed_def)
    ultimately show ?thesis using contents Cons read_written_salt [of env salt] by (simp add: salt_job_def)
  qed
qed


lemma one_salt_witness:
  "\<exists>s. lock_reachable (fresh_salt demo_env) (salt_job demo_env) None s \<and> read_salt (sh_file s) = Some (lit ''5a'')"
proof -
  have "fresh_salt demo_env (lit ''5a'')" by (simp add: fresh_salt_def demo_env_def py_eval)
  moreover have "\<exists>new. salt_job demo_env (lit ''5a'') None = Some new" by (simp add: salt_job_def)
  ultimately obtain s where s: "lock_reachable (fresh_salt demo_env) (salt_job demo_env) None s"
    and "sh_log s = [(0, lit ''5a'')]"
    using lone_job [of "fresh_salt demo_env" "lit ''5a''" "salt_job demo_env"] by blast
  then show ?thesis using one_salt [OF s] by auto
qed

section \<open>The derived orientation\<close>

text \<open>A page that the evidence of a query found and that has one of its significant words.\<close>

definition evidence_page ::
  "(ustr \<Rightarrow> ustr) \<Rightarrow> managed_config \<Rightarrow> wiki_index \<Rightarrow> ustr \<Rightarrow> search_result list \<Rightarrow> bool \<Rightarrow> ustr \<Rightarrow> bool" where
  "evidence_page stem c index query evidence include_drafts i \<longleftrightarrow>
     (\<exists>r\<in>set evidence. res_page_id r = i \<and> mc_min_evidence c \<le> res_score r \<and>
       (\<exists>p\<in>set (visible_pages (idx_pages index) include_drafts). page_id p = i \<and>
          page_matches_query stem p (significant_query_tokens stem query)))"

definition page_neighbour :: "wiki_index \<Rightarrow> ustr \<Rightarrow> ustr \<Rightarrow> bool" where
  "page_neighbour index i j \<longleftrightarrow>
     (\<exists>e\<in>set (idx_edges index). {edge_source e, edge_target e} = {lit ''page:'' @ i, lit ''page:'' @ j})"

lemma visible_by_id_page:
  "map_of (visible_by_id index include_drafts) i = Some p \<Longrightarrow>
   p \<in> set (visible_pages (idx_pages index) include_drafts) \<and> page_id p = i"
  unfolding visible_by_id_def map_of_dict_of by (auto dest!: map_of_SomeD)

lemma matched_evidence_page:
  "i \<in> set (matched_evidence stem index include_drafts (mc_min_evidence c) (significant_query_tokens stem query) evidence) \<Longrightarrow>
   evidence_page stem c index query evidence include_drafts i"
  using visible_by_id_page
  by (fastforce simp: matched_evidence_def evidence_page_def not_less split: if_splits option.splits)

lemma adjacent_step_origin:
  assumes "i \<in> set (adjacent_step ids e related)"
  shows "i \<in> set related \<or> (\<exists>j\<in>set ids. {edge_source e, edge_target e} = {lit ''page:'' @ j, lit ''page:'' @ i})"
proof -
  have drop: "lit ''page:'' @ drop 5 x = x" if "starts_with x (lit ''page:'')" for x
    using that by (auto simp: starts_with_iff lit_def)
  show ?thesis
    using assms by (fastforce simp: adjacent_step_def Let_def drop split: if_splits)
qed

lemma adjacent_ids_origin:
  assumes "i \<in> set (fold (adjacent_step ids) edges related)" and "set edges \<subseteq> set (idx_edges index)"
  shows "i \<in> set related \<or> (\<exists>j\<in>set ids. page_neighbour index j i)"
  using assms
proof (induction edges arbitrary: related)
  case (Cons e edges)
  from Cons.IH [of "adjacent_step ids e related"] Cons.prems
  have "i \<in> set (adjacent_step ids e related) \<or> (\<exists>j\<in>set ids. page_neighbour index j i)" by simp
  then show ?case
  proof
    assume "i \<in> set (adjacent_step ids e related)"
    then show ?thesis using adjacent_step_origin [of i ids e related] Cons.prems(2) by (auto simp: page_neighbour_def)
  qed simp
qed simp

lemma related_pages:
  assumes "query_related_orientation_page_ids stem index query evidence include_drafts (mc_min_evidence c) = Some ids"
    and "j \<in> set ids"
  shows "\<exists>i. evidence_page stem c index query evidence include_drafts i \<and> (j = i \<or> page_neighbour index i j)"
proof -
  let ?matched = "matched_evidence stem index include_drafts (mc_min_evidence c) (significant_query_tokens stem query) evidence"
  have "j \<in> set (adjacent_page_ids ?matched (idx_edges index))"
    using assms by (auto simp: query_related_orientation_page_ids_def Let_def split: if_splits)
  then have "j \<in> set ?matched \<or> (\<exists>i\<in>set ?matched. page_neighbour index i j)"
    unfolding adjacent_page_ids_def by (rule adjacent_ids_origin) simp
  then show ?thesis using matched_evidence_page by blast
qed

lemma sorted_fst: "sorted (map f xs) \<Longrightarrow> sorted (map (\<lambda>x. fst (f x)) xs)"
proof -
  assume "sorted (map f xs)"
  then have "sorted_wrt (\<lambda>x y. f x \<le> f y) xs" by (simp add: sorted_wrt_map)
  then have "sorted_wrt (\<lambda>x y. fst (f x) \<le> fst (f y)) xs"
    by (rule sorted_wrt_mono_rel [rotated]) (auto simp: less_eq_prod_def)
  then show ?thesis by (simp add: sorted_wrt_map)
qed

lemma sorted_chosen:
  "sorted (map (\<lambda>x. fst (f x)) (take n (filter P (sort_key f xs))))"
  by (intro sorted_fst sorted_take_key sorted_filter) simp

text \<open>
  The derived orientation. It lists pages that may be served, the best by the orientation score
  first, no more than the configured number; with a query every one of them is a page that the evidence
  found with a sufficient score and that has a significant word of the query, or is linked with such a
  page; a query without such evidence gets an empty orientation.
\<close>
theorem orientation_is_relevant:
  "case managed_orientation env stem c scope index query evidence include_drafts chars now sc of
     Inr (Some results) \<Rightarrow>
       (\<exists>pages chars' boosts. results = ranked_results ''orientation'' chars' pages \<and>
          set pages \<subseteq> set (visible_pages (idx_pages index) include_drafts) \<and>
          length pages \<le> nat (mc_orientation_limit c) \<and>
          sorted (map (\<lambda>p. - orientation_score (fst (page_degree_counts (idx_edges index)))
             (snd (page_degree_counts (idx_edges index))) p (dict_get boosts (page_id p) 0)) pages) \<and>
          list_all (\<lambda>p. strip query = [] \<or>
             (\<exists>i. evidence_page stem c index query evidence include_drafts i \<and> (page_id p = i \<or> page_neighbour index i (page_id p)))) pages)
   | Inr None \<Rightarrow> \<not> active_for_index c index
   | Inl e \<Rightarrow> store_read env c scope now sc = Inl e"
proof (cases "active_for_index c index")
  case active: True
  define related where "related = query_related_orientation_page_ids stem index query evidence include_drafts (mc_min_evidence c)"
  show ?thesis
  proof (cases "related = Some []")
    case True
    then have "managed_orientation env stem c scope index query evidence include_drafts chars now sc = Inr (Some [])"
      using active by (simp add: managed_orientation_def related_def)
    moreover have "[] = ranked_results ''orientation'' None []" by (simp add: ranked_results_def)
    ultimately show ?thesis by (auto intro: exI [of _ "[]"])
  next
    case False
    show ?thesis
    proof (cases "store_read env c scope now sc")
      case (Inl e)
      then show ?thesis using active False by (simp add: managed_orientation_def related_def [symmetric])
    next
      case (Inr found)
      define boosts where "boosts = prior_boosts env c scope now found (fst (store_secret env c [] False sc))
          (visible_pages (idx_pages index) include_drafts)"
      define key where "key = (\<lambda>p :: wiki_page. (- orientation_score (fst (page_degree_counts (idx_edges index)))
          (snd (page_degree_counts (idx_edges index))) p (dict_get boosts (page_id p) 0), role_rank (page_role p), page_path p))"
      define wanted where "wanted = (\<lambda>p :: wiki_page. case related of None \<Rightarrow> True | Some ids \<Rightarrow> page_id p \<in> set ids)"
      define limit where "limit = (case related of None \<Rightarrow> mc_orientation_limit c
          | Some ids \<Rightarrow> min (mc_orientation_limit c) (mc_query_orientation_limit c))"
      define pages where "pages = take (nat limit) (filter wanted (sort_key key (visible_pages (idx_pages index) include_drafts)))"
      have derived: "derived_orientation_pages env c scope index include_drafts now found (fst (store_secret env c [] False sc)) =
          sort_key key (visible_pages (idx_pages index) include_drafts)"
        by (simp add: derived_orientation_pages_def Let_def key_def boosts_def split: prod.split)
      have result: "managed_orientation env stem c scope index query evidence include_drafts chars now sc =
          Inr (Some (ranked_results ''orientation'' (case chars of Some n \<Rightarrow> Some n | None \<Rightarrow> Some (mc_snippet_chars c)) pages))"
        using active False Inr
        by (cases related) (simp_all add: managed_orientation_def related_def [symmetric] Let_def derived pages_def limit_def wanted_def)
      have served: "set pages \<subseteq> set (visible_pages (idx_pages index) include_drafts)"
        by (auto simp: pages_def dest!: in_set_takeD)
      have few: "length pages \<le> nat (mc_orientation_limit c)"
        by (cases related) (simp_all add: pages_def limit_def le_diff_conv nat_mono min_le_iff_disj)
      have order: "sorted (map (\<lambda>p. fst (key p)) pages)" unfolding pages_def by (rule sorted_chosen)
      have "strip query = [] \<or>
          (\<exists>i. evidence_page stem c index query evidence include_drafts i \<and> (page_id p = i \<or> page_neighbour index i (page_id p)))"
        if "p \<in> set pages" for p
      proof (cases related)
        case None
        then show ?thesis by (auto simp: related_def query_related_orientation_page_ids_def Let_def split: if_splits)
      next
        case (Some ids)
        then have "page_id p \<in> set ids" using that by (auto simp: pages_def wanted_def dest!: in_set_takeD)
        then show ?thesis using related_pages [OF Some [unfolded related_def]] by blast
      qed
      then show ?thesis
        unfolding result using served few order
        by (simp add: key_def list_all_iff) blast
    qed
  qed
qed (simp add: managed_orientation_def)


section \<open>A sidecar that breaks requests\<close>

text \<open>A record of the current scope with one counter that is too large for a float.\<close>

definition overflowing_record :: "managed_env \<Rightarrow> managed_scope \<Rightarrow> pyval" where
  "overflowing_record env scope = PDict (scope_fields env scope @
     [(lit ''page_hit_prior'', PList [PDict [(lit ''page_key'', PStr (lit ''pk_a'')), (lit ''counter'', PInt (2 ^ 1024)),
        (lit ''last_hit_at'', PInt 0)]])])"

definition overflowing_sidecar :: "managed_env \<Rightarrow> managed_scope \<Rightarrow> sidecar" where
  "overflowing_sidecar env scope = \<lparr>sc_files = [(record_path env scope, Json_text (overflowing_record env scope) 1000)],
     sc_locks = [], sc_writable = True\<rparr>"

lemma overflowing_read:
  "managed_record_from_payload env c scope now (overflowing_record env scope) =
     Inl (OverflowError ''int too large to convert to float'')"
proof -
  have prior: "pget (scope_fields env scope @ [(lit ''page_hit_prior'', h)]) ''page_hit_prior'' = h" for h
    by (simp add: pget_def dict_get_def scope_fields_def inj_lit)
  have key: "starts_with (lit ''pk_a'') (lit ''pk_'')" by (simp add: py_eval)
  show ?thesis
    by (simp add: overflowing_record_def managed_record_from_payload_def scope_fields_match prior read_hit_def
        pget_hit_payload key py_float_def try_conversion_def)
qed

text \<open>
  A sidecar record that is valid JSON can make requests fail: a counter, or another number, that is
  too large for a float raises OverflowError, which is not among the errors that skip the record, so
  that reading it, updating it and the orientation of a context request fail, and fail again, since
  the record stays as it is.
\<close>
theorem overflowing_record_breaks_requests:
  "let sc = overflowing_sidecar env scope; e = OverflowError ''int too large to convert to float''
   in store_read env c scope now sc = Inl e \<and>
      update_hits env c scope now (key # keys) sc = (Inl e, sc) \<and>
      (if active_for_index c index
       then managed_orientation env stem c scope index [] evidence include_drafts chars now sc = Inl e
       else True)"
proof -
  have read: "read_file_record env c scope now (map_of (sc_files (overflowing_sidecar env scope)) (record_path env scope)) =
      Inl (OverflowError ''int too large to convert to float'')"
    using overflowing_read
    by (simp add: read_file_record_def read_json_payload_def overflowing_sidecar_def SIDECAR_RECORD_READ_MAX_BYTES_def
        overflowing_record_def)
  have free: "\<not> sidecar_lock_present (overflowing_sidecar env scope) (record_path env scope)"
    "lock_acquired (overflowing_sidecar env scope) (record_path env scope)"
    by (simp_all add: sidecar_lock_present_def lock_acquired_def overflowing_sidecar_def)
  have blank: "query_related_orientation_page_ids stem index [] evidence include_drafts (mc_min_evidence c) = None"
    by (simp add: query_related_orientation_page_ids_def strip_def strip_by_def lstrip_by_def rstrip_by_def)
  show ?thesis
    using read free by (simp add: Let_def store_read_def update_hits_def next_record_def managed_orientation_def blank)
qed

end
