(* ===== verification/Regex.thy ===== *)
theory Regex
  imports PyStr
begin

text \<open>
  Matching as Python's \<open>re\<close> does it: greedy, leftmost, with backtracking. \<open>ends_of\<close> lists the ends of
  the matches of a pattern at a position in the order in which backtracking tries them, so that the
  first one is the match. The bodies of repetitions are patterns that match at least one character.
\<close>

section \<open>Patterns and their matches\<close>

datatype rx =
    Class "nat \<Rightarrow> bool"
  | Word_edge
  | Text_start
  | Nothing
  | Seq rx rx
  | Alt rx rx
  | Many rx

text \<open>\<open>fuel\<close> is the number of characters that are left; every round consumes one at least.\<close>

primrec many_ends :: "nat \<Rightarrow> (nat \<Rightarrow> nat list) \<Rightarrow> nat \<Rightarrow> nat list" where
  "many_ends 0 f i = [i]"
| "many_ends (Suc fuel) f i = concat (map (many_ends fuel f) (filter (\<lambda>j. i < j) (f i))) @ [i]"

definition word_at :: "ustr \<Rightarrow> nat \<Rightarrow> bool" where
  "word_at s i \<longleftrightarrow> i < length s \<and> is_word_char (s ! i)"

primrec ends_of :: "rx \<Rightarrow> ustr \<Rightarrow> nat \<Rightarrow> nat list" where
  "ends_of (Class p) s i = (if i < length s \<and> p (s ! i) then [i + 1] else [])"
| "ends_of Word_edge s i = (if (0 < i \<and> word_at s (i - 1)) \<noteq> word_at s i then [i] else [])"
| "ends_of Text_start s i = (if i = 0 then [i] else [])"
| "ends_of Nothing s i = [i]"
| "ends_of (Seq a b) s i = concat (map (ends_of b s) (ends_of a s i))"
| "ends_of (Alt a b) s i = ends_of a s i @ ends_of b s i"
| "ends_of (Many a) s i = many_ends (length s - i) (ends_of a s) i"

definition Opt :: "rx \<Rightarrow> rx" where "Opt a = Alt a Nothing"
definition Plus :: "rx \<Rightarrow> rx" where "Plus a = Seq a (Many a)"

primrec At_least :: "nat \<Rightarrow> rx \<Rightarrow> rx" where
  "At_least 0 a = Many a"
| "At_least (Suc n) a = Seq a (At_least n a)"

primrec seq_of :: "rx list \<Rightarrow> rx" where
  "seq_of [] = Nothing"
| "seq_of (a # as) = Seq a (seq_of as)"

fun alt_of :: "rx list \<Rightarrow> rx" where
  "alt_of [a] = a"
| "alt_of (a # as) = Alt a (alt_of as)"
| "alt_of [] = Nothing"

text \<open>A literal text, exactly or ignoring case; four letters outside ASCII fold to ASCII ones.\<close>

definition exactly :: "string \<Rightarrow> rx" where
  "exactly t = seq_of (map (\<lambda>c. Class (\<lambda>d. d = c)) (lit t))"

definition fold_case :: "nat \<Rightarrow> nat" where
  "fold_case c = (if ascii_upper c then c + 32 else if c = 304 \<or> c = 305 then 105 else if c = 383 then 115
     else if c = 8490 then 107 else c)"

definition any_case :: "string \<Rightarrow> rx" where
  "any_case t = seq_of (map (\<lambda>c. Class (\<lambda>d. fold_case d = fold_case c)) (lit t))"

definition matches_somewhere :: "rx \<Rightarrow> ustr \<Rightarrow> bool" where
  "matches_somewhere a s \<longleftrightarrow> list_ex (\<lambda>i. ends_of a s i \<noteq> []) [0..<Suc (length s)]"

section \<open>Substitution\<close>

text \<open>
  The match of a list of parts at a position, as the positions before the first, between the parts and
  after the last.
\<close>

primrec part_ends :: "rx list \<Rightarrow> ustr \<Rightarrow> nat \<Rightarrow> nat list list" where
  "part_ends [] s i = [[i]]"
| "part_ends (a # as) s i = concat (map (\<lambda>j. map ((#) i) (part_ends as s j)) (ends_of a s i))"

definition first_match :: "rx list \<Rightarrow> ustr \<Rightarrow> nat \<Rightarrow> nat list option" where
  "first_match parts s start =
     (case List.find (\<lambda>i. part_ends parts s i \<noteq> []) [start..<Suc (length s)] of
        None \<Rightarrow> None
      | Some i \<Rightarrow> Some (hd (part_ends parts s i)))"

text \<open>
  \<open>pattern.sub\<close> with a replacement that keeps the first \<open>front\<close> and the last \<open>back\<close> parts of a match
  and puts a text between them. \<open>emit\<close> is where the text that is not yet copied begins.
\<close>

function sub_from :: "rx list \<Rightarrow> nat \<Rightarrow> ustr \<Rightarrow> nat \<Rightarrow> ustr \<Rightarrow> nat \<Rightarrow> nat \<Rightarrow> ustr" where
  "sub_from parts front put back s emit start =
     (if start > length s then drop emit s
      else (case first_match parts s start of
              None \<Rightarrow> drop emit s
            | Some ends \<Rightarrow> take (ends ! front - emit) (drop emit s) @ put @
                sub_from parts front put back s (ends ! (length parts - back)) (max (last ends) (start + 1))))"
  by pat_completeness auto
termination
  by (relation "measure (\<lambda>(parts, front, put, back, s, emit, start). Suc (length s) - start)") auto

definition re_sub :: "rx list \<Rightarrow> nat \<Rightarrow> ustr \<Rightarrow> nat \<Rightarrow> ustr \<Rightarrow> ustr" where
  "re_sub parts front put back s = sub_from parts front put back s 0 0"

declare sub_from.simps [simp del]

text \<open>\<open>s.replace(old, new)\<close> for a text that is not empty.\<close>

function replace_all :: "ustr \<Rightarrow> ustr \<Rightarrow> ustr \<Rightarrow> ustr" where
  "replace_all old new s =
     (case find_sub s old of
        None \<Rightarrow> s
      | Some i \<Rightarrow> if old = [] then s else take i s @ new @ replace_all old new (drop (i + length old) s))"
  by pat_completeness auto
termination
proof (relation "measure (\<lambda>(old, new, s). length s)", goal_cases)
  case (2 old new s i)
  have "length s \<noteq> 0"
  proof
    assume "length s = 0"
    then show False using 2 by (cases old) auto
  qed
  then show ?case using 2 by simp
qed simp

declare replace_all.simps [simp del]

end
