(* ===== verification/Vector_Chunks.thy ===== *)
theory Vector_Chunks
  imports Search_Text Regex
begin

text \<open>
  The chunks that are embedded, \<open>vector.py\<close>: paragraphs of a page under their headings, cut at words.
  SHA-256 of the UTF-8 bytes in hexadecimal and \<open>json.dumps\<close> (compact, with sorted keys) are parameters.
\<close>

record digest_env =
  dg_sha :: "ustr \<Rightarrow> ustr"
  dg_json :: "pyval \<Rightarrow> ustr"

definition VECTOR_TEXT_SCHEMA_ID :: ustr where "VECTOR_TEXT_SCHEMA_ID = lit ''llmwiki-vector-text-v1''"
definition MAX_CHUNK_CHARS :: nat where "MAX_CHUNK_CHARS = 1200"
definition TARGET_CHUNK_TERMS :: nat where "TARGET_CHUNK_TERMS = 180"

record vector_chunk =
  ch_page :: wiki_page
  ch_id :: ustr
  ch_ordinal :: nat
  ch_start :: nat
  ch_end :: nat
  ch_heading_hash :: ustr
  ch_page_hash :: ustr
  ch_text :: ustr

record text_paragraph =
  par_text :: ustr
  par_start :: nat
  par_end :: nat
  par_breadcrumb :: "ustr list"

record segment =
  sg_text :: ustr
  sg_start :: nat
  sg_end :: nat

section \<open>Digests\<close>

definition stable_text_digest :: "digest_env \<Rightarrow> ustr \<Rightarrow> ustr" where
  "stable_text_digest env s = dg_sha env s"

definition stable_json_digest :: "digest_env \<Rightarrow> pyval \<Rightarrow> ustr" where
  "stable_json_digest env v = dg_sha env (dg_json env v)"

definition normalized_page_text :: "ustr \<Rightarrow> ustr" where
  "normalized_page_text s = replace_char 13 [10] (replace_all [13, 10] [10] s)"

definition page_hash_payload :: "wiki_page \<Rightarrow> pyval" where
  "page_hash_payload p = PDict
     [(lit ''id'', PStr (page_id p)), (lit ''title'', PStr (page_title p)), (lit ''role'', PStr (role_str (page_role p))),
      (lit ''text'', PStr (normalized_page_text (page_text p))), (lit ''summary'', PStr (page_summary p)),
      (lit ''review_state'', PStr (review_state_str (page_review_state p))), (lit ''status'', PStr (page_status p))]"

definition page_content_hash :: "digest_env \<Rightarrow> wiki_page \<Rightarrow> ustr" where
  "page_content_hash env p = lit ''sha256:'' @ stable_json_digest env (page_hash_payload p)"

definition pages_content_hash :: "digest_env \<Rightarrow> wiki_page list \<Rightarrow> ustr" where
  "pages_content_hash env ps = lit ''sha256:'' @ stable_json_digest env (PList (map page_hash_payload ps))"

section \<open>Headings and paragraphs\<close>

text \<open>What may follow a title on its line: white space, number signs, white space.\<close>

definition chunk_heading_tail :: "ustr \<Rightarrow> bool" where
  "chunk_heading_tail s \<longleftrightarrow> dropWhile is_space (dropWhile (\<lambda>c. c = 35) (dropWhile is_space s)) = []"

text \<open>\<open>_HEADING_RE\<close> on a line without white space at its ends: the shortest title that leaves a tail.\<close>

definition chunk_heading :: "ustr \<Rightarrow> (nat \<times> ustr) option" where
  "chunk_heading line =
     (let level = length (takeWhile (\<lambda>c. c = 35) line); rest = drop level line; title = dropWhile is_space rest
      in if level = 0 \<or> level > 6 \<or> rest = [] \<or> \<not> is_space (hd rest) \<or> title = [] then None
         else Some (level, take (hd (filter (\<lambda>k. chunk_heading_tail (drop k title)) [1..<Suc (length title)])) title))"

definition flush_paragraph :: "ustr \<Rightarrow> nat option \<Rightarrow> nat \<Rightarrow> ustr list \<Rightarrow> text_paragraph list" where
  "flush_paragraph s start end breadcrumb =
     (case start of
        None \<Rightarrow> []
      | Some a \<Rightarrow>
          (let body = slice s a end
           in if end \<le> a \<or> strip body = [] then []
              else [\<lparr>par_text = body, par_start = a, par_end = end, par_breadcrumb = breadcrumb\<rparr>]))"

definition chop_newline :: "ustr \<Rightarrow> ustr" where
  "chop_newline raw = (if raw \<noteq> [] \<and> last raw = 10 then butlast raw else raw)"

text \<open>The loop over the lines, from an offset, with the breadcrumb and the open paragraph.\<close>

fun scan_paragraphs :: "ustr \<Rightarrow> nat \<Rightarrow> ustr list \<Rightarrow> nat option \<Rightarrow> nat \<Rightarrow> ustr list \<Rightarrow> text_paragraph list" where
  "scan_paragraphs s offset breadcrumb start end [] = flush_paragraph s start end breadcrumb"
| "scan_paragraphs s offset breadcrumb start end (raw # lines) =
     (let line = chop_newline raw; after = offset + length raw
      in case chunk_heading (strip line) of
           Some (level, title) \<Rightarrow> flush_paragraph s start end breadcrumb @
             scan_paragraphs s after (take (level - 1) breadcrumb @ [collapse_ws title]) None end lines
         | None \<Rightarrow>
             if strip line = []
             then flush_paragraph s start end breadcrumb @ scan_paragraphs s after breadcrumb None end lines
             else scan_paragraphs s after breadcrumb (Some (case start of None \<Rightarrow> offset | Some a \<Rightarrow> a))
                    (offset + length line) lines)"

definition page_paragraphs :: "wiki_page \<Rightarrow> text_paragraph list" where
  "page_paragraphs p =
     (let s = normalized_page_text (page_text p) in scan_paragraphs s 0 [] None 0 (splitlines_keep s))"

section \<open>Segments\<close>

text \<open>The matches of \<open>\S+\<close> as (start, end), from a position, with the start of an open word.\<close>

fun word_spans :: "nat \<Rightarrow> nat option \<Rightarrow> ustr \<Rightarrow> (nat \<times> nat) list" where
  "word_spans i start [] = (case start of None \<Rightarrow> [] | Some a \<Rightarrow> [(a, i)])"
| "word_spans i start (c # s) =
     (if is_space c then (case start of None \<Rightarrow> [] | Some a \<Rightarrow> [(a, i)]) @ word_spans (i + 1) None s
      else word_spans (i + 1) (Some (case start of None \<Rightarrow> i | Some a \<Rightarrow> a)) s)"

function cut_blocks :: "nat \<Rightarrow> ustr \<Rightarrow> segment list" where
  "cut_blocks position s =
     (if s = [] then []
      else \<lparr>sg_text = take MAX_CHUNK_CHARS s, sg_start = position, sg_end = position + min (length s) MAX_CHUNK_CHARS\<rparr>
           # cut_blocks (position + min (length s) MAX_CHUNK_CHARS) (drop MAX_CHUNK_CHARS s))"
  by pat_completeness auto
termination
  by (relation "measure (\<lambda>(position, s). length s)") (auto simp: MAX_CHUNK_CHARS_def)

declare cut_blocks.simps [simp del]

lemmas cut_blocks_loop [py_loop] = cut_blocks.simps

definition paragraph_segment :: "text_paragraph \<Rightarrow> nat \<Rightarrow> nat \<Rightarrow> segment list" where
  "paragraph_segment para start end =
     (let s = slice (par_text para) start end
      in if length s \<le> MAX_CHUNK_CHARS
         then [\<lparr>sg_text = s, sg_start = par_start para + start, sg_end = par_start para + end\<rparr>]
         else cut_blocks (par_start para + start) s)"

text \<open>The loop over the words: the segment so far is from \<open>first\<close> to \<open>end\<close> and has \<open>count\<close> words.\<close>

fun fill_segments :: "text_paragraph \<Rightarrow> nat \<Rightarrow> nat \<Rightarrow> nat \<Rightarrow> nat \<Rightarrow> (nat \<times> nat) list \<Rightarrow> segment list" where
  "fill_segments para max_chars first end count [] = paragraph_segment para first end"
| "fill_segments para max_chars first end count ((a, b) # words) =
     (if count \<noteq> 0 \<and> (b - first > max_chars \<or> count \<ge> TARGET_CHUNK_TERMS)
      then paragraph_segment para first end @ fill_segments para max_chars a b 1 words
      else fill_segments para max_chars first b (count + 1) words)"

definition split_paragraph :: "text_paragraph \<Rightarrow> nat \<Rightarrow> segment list" where
  "split_paragraph para max_chars =
     (case word_spans 0 None (par_text para) of
        [] \<Rightarrow> []
      | (a, b) # words \<Rightarrow> fill_segments para max_chars a b 0 ((a, b) # words))"

section \<open>Chunk texts\<close>

definition chunk_prefix :: "wiki_page \<Rightarrow> ustr list \<Rightarrow> ustr" where
  "chunk_prefix p breadcrumb =
     (let title = strip (page_title p); heading = join (lit '' > '') (filter (\<lambda>x. strip x \<noteq> []) breadcrumb);
          parts = title # (if heading \<noteq> [] \<and> casefold heading \<noteq> casefold title then [heading] else [])
      in join [32] (map collapse_ws (filter (\<lambda>x. strip x \<noteq> []) parts)))"

definition bounded_chunk_text :: "ustr \<Rightarrow> ustr \<Rightarrow> ustr" where
  "bounded_chunk_text lead body =
     (let clean = collapse_ws (join [32] (filter (\<lambda>x. strip x \<noteq> []) [lead, body]));
          trimmed = take MAX_CHUNK_CHARS clean
      in if length clean \<le> MAX_CHUNK_CHARS then clean
         else rstrip (case rfind_char 32 trimmed of
                        Some boundary \<Rightarrow> if boundary \<ge> MAX_CHUNK_CHARS div 2 then take boundary trimmed else trimmed
                      | None \<Rightarrow> trimmed))"

definition heading_digest :: "digest_env \<Rightarrow> ustr list \<Rightarrow> ustr" where
  "heading_digest env breadcrumb = stable_text_digest env (join (lit '' > '') breadcrumb)"

text \<open>The texts of a page with their paragraphs and segments, in order; empty ones are left out.\<close>

definition chunk_pieces :: "wiki_page \<Rightarrow> (text_paragraph \<times> segment \<times> ustr) list" where
  "chunk_pieces p =
     filter (\<lambda>(para, sg, s). s \<noteq> [])
       (concat (map (\<lambda>para.
          let lead = chunk_prefix p (par_breadcrumb para)
          in map (\<lambda>sg. (para, sg, bounded_chunk_text lead (sg_text sg)))
               (split_paragraph para (max 200 (MAX_CHUNK_CHARS - length lead - 1))))
        (page_paragraphs p)))"

definition page_chunk :: "digest_env \<Rightarrow> wiki_page \<Rightarrow> nat \<Rightarrow> text_paragraph \<times> segment \<times> ustr \<Rightarrow> vector_chunk" where
  "page_chunk env p ordinal piece =
     (case piece of (para, sg, s) \<Rightarrow>
        (let page_hash = page_content_hash env p; heading_hash = heading_digest env (par_breadcrumb para)
         in \<lparr>ch_page = p,
             ch_id = stable_text_digest env (dg_json env (PList
               [PStr VECTOR_TEXT_SCHEMA_ID, PStr (page_id p), PStr page_hash, PStr heading_hash,
                PInt (int ordinal), PInt (int (sg_start sg)), PInt (int (sg_end sg))])),
             ch_ordinal = ordinal, ch_start = sg_start sg, ch_end = sg_end sg,
             ch_heading_hash = heading_hash, ch_page_hash = page_hash, ch_text = s\<rparr>))"

definition page_chunks :: "digest_env \<Rightarrow> wiki_page \<Rightarrow> vector_chunk list" where
  "page_chunks env p = map (\<lambda>(ordinal, piece). page_chunk env p ordinal piece) (List.enumerate 0 (chunk_pieces p))"

definition build_vector_chunks :: "digest_env \<Rightarrow> wiki_page list \<Rightarrow> vector_chunk list" where
  "build_vector_chunks env pages = concat (map (page_chunks env) pages)"

end
