(* ===== verification/Vector_Search.thy ===== *)
theory Vector_Search
  imports Vector_Chunks Search
begin

text \<open>
  Search in a vector index, \<open>vector.py\<close>: scores of the records with NumPy, in blocks or for selected rows,
  or in plain Python, the best record of a page, and the results. What NumPy computes for rows of the matrix
  is a parameter, as is the embedding provider; the arithmetic of Python's floats is exact.
\<close>

definition HYBRID_RRF_K :: nat where "HYBRID_RRF_K = 60"
definition VECTOR_FILTERED_COPY_MAX_ROWS :: nat where "VECTOR_FILTERED_COPY_MAX_ROWS = 128"
definition VECTOR_SCORE_BLOCK_ROWS :: nat where "VECTOR_SCORE_BLOCK_ROWS = 2048"

record chunk_record =
  vr_page_id :: ustr
  vr_chunk_id :: ustr
  vr_ordinal :: nat
  vr_start :: nat
  vr_end :: nat
  vr_heading_hash :: ustr
  vr_page_hash :: ustr
  vr_vector :: "real list"
  vr_norm :: real

record vector_index =
  vi_identity :: "(ustr, pyval) dict"
  vi_records :: "chunk_record list"
  vi_dimension :: nat
  vi_cache_hit :: bool
  vi_matrix :: "float_value list list option"
  vi_norms :: "float_value list option"

text \<open>
  The provider's embeddings, its dimension, and the quotients NumPy computes for rows and their norms (None:
  it is not installed or raises).
\<close>

record embedder =
  em_documents :: "ustr list \<Rightarrow> float_value list list res"
  em_query :: "ustr \<Rightarrow> float_value list res"
  em_dimension :: nat

type_synonym numpy_scores = "float_value list list \<Rightarrow> float_value list \<Rightarrow> real list \<Rightarrow> real \<Rightarrow> float_value list option"

section \<open>Vectors\<close>

fun is_finite :: "float_value \<Rightarrow> bool" where
  "is_finite (Finite x) = True"
| "is_finite v = False"

fun finite_part :: "float_value \<Rightarrow> real" where
  "finite_part (Finite x) = x"
| "finite_part v = 0"

definition vector_tuple :: "float_value list \<Rightarrow> nat \<Rightarrow> real list res" where
  "vector_tuple vector expected_dimension =
     (if length vector \<noteq> expected_dimension then Inl (VectorSearchError ''unexpected dimension'')
      else if \<not> list_all is_finite vector then Inl (VectorSearchError ''non-finite embedding value'')
      else Inr (map finite_part vector))"

definition vector_norm :: "real list \<Rightarrow> real" where
  "vector_norm v = sqrt (sum_list (map (\<lambda>x. x * x) v))"

text \<open>\<open>zip(strict=True)\<close> raises ValueError on different lengths.\<close>

definition cosine :: "real list \<Rightarrow> real \<Rightarrow> real list \<Rightarrow> real \<Rightarrow> real res" where
  "cosine query_vector query_norm document_vector document_norm =
     (if length query_vector \<noteq> length document_vector then Inl (ValueError ''zip() argument lengths differ'')
      else Inr (sum_list (map2 (*) query_vector document_vector) / (query_norm * document_norm)))"

definition embed_query_vector :: "embedder \<Rightarrow> ustr \<Rightarrow> (real list \<times> real) option res" where
  "embed_query_vector provider query =
     (if strip query = [] then Inr None
      else bind_res (em_query provider query) (\<lambda>raw.
           bind_res (vector_tuple raw (em_dimension provider)) (\<lambda>v.
             Inr (if vector_norm v \<le> 0 then None else Some (v, vector_norm v)))))"

section \<open>Scores\<close>

definition numpy_cosine_scores :: "numpy_scores \<Rightarrow> numpy_scores" where
  "numpy_cosine_scores np matrix norms query_vector query_norm =
     map_option (map (\<lambda>v. if is_finite v then v else Neg_inf)) (np matrix norms query_vector query_norm)"

definition rows_from :: "'a list \<Rightarrow> nat \<Rightarrow> nat \<Rightarrow> 'a list" where
  "rows_from xs start stop = take (stop - start) (drop start xs)"

text \<open>Blocks of a range of rows; None is \<open>_VectorScoreUnavailable\<close>.\<close>

function iter_numpy_cosine_score_range ::
  "numpy_scores \<Rightarrow> float_value list list \<Rightarrow> float_value list \<Rightarrow> nat \<Rightarrow> nat \<Rightarrow> real list \<Rightarrow> real \<Rightarrow> (nat \<times> float_value) list option" where
  "iter_numpy_cosine_score_range np matrix norms cursor stop qv qn =
     (if stop \<le> cursor then Some []
      else (let after = min stop (cursor + VECTOR_SCORE_BLOCK_ROWS)
            in case numpy_cosine_scores np (rows_from matrix cursor after) (rows_from norms cursor after) qv qn of
                 None \<Rightarrow> None
               | Some block \<Rightarrow>
                   if length block \<noteq> after - cursor then None
                   else map_option ((@) (List.enumerate cursor block))
                          (iter_numpy_cosine_score_range np matrix norms after stop qv qn)))"
  by pat_completeness auto
termination
  by (relation "measure (\<lambda>(np, matrix, norms, cursor, stop, qv, qn). stop - cursor)")
     (auto simp: VECTOR_SCORE_BLOCK_ROWS_def)

declare iter_numpy_cosine_score_range.simps [simp del]

lemmas score_range_loop [py_loop] = iter_numpy_cosine_score_range.simps

definition strictly_increasing :: "nat list \<Rightarrow> bool" where
  "strictly_increasing positions \<longleftrightarrow> list_all (\<lambda>(left, right). left < right) (zip positions (drop 1 positions))"

fun ranges_from :: "nat \<Rightarrow> nat \<Rightarrow> nat list \<Rightarrow> (nat \<times> nat) list" where
  "ranges_from start previous [] = [(start, previous + 1)]"
| "ranges_from start previous (position # positions) =
     (if position = previous + 1 then ranges_from start position positions
      else (start, previous + 1) # ranges_from position position positions)"

definition contiguous_position_ranges :: "nat list \<Rightarrow> (nat \<times> nat) list" where
  "contiguous_position_ranges positions =
     (case positions of [] \<Rightarrow> [] | start # rest \<Rightarrow> ranges_from start start rest)"

text \<open>\<open>matrix[list(positions)]\<close>: None when a position is out of range.\<close>

definition selected_rows :: "'a list \<Rightarrow> nat list \<Rightarrow> 'a list option" where
  "selected_rows xs positions = (if list_all (\<lambda>i. i < length xs) positions then Some (map (\<lambda>i. xs ! i) positions) else None)"

fun joined_options :: "'a list option list \<Rightarrow> 'a list option" where
  "joined_options [] = Some []"
| "joined_options (x # xs) = (case x of None \<Rightarrow> None | Some ys \<Rightarrow> map_option ((@) ys) (joined_options xs))"

definition iter_numpy_vector_record_score_items ::
  "numpy_scores \<Rightarrow> float_value list list \<Rightarrow> float_value list \<Rightarrow> nat list \<Rightarrow> real list \<Rightarrow> real \<Rightarrow> bool \<Rightarrow> (nat \<times> float_value) list option" where
  "iter_numpy_vector_record_score_items np matrix norms positions qv qn filtered =
     (if \<not> filtered then iter_numpy_cosine_score_range np matrix norms 0 (length positions) qv qn
      else if length positions \<le> VECTOR_FILTERED_COPY_MAX_ROWS
      then (case (selected_rows matrix positions, selected_rows norms positions) of
              (Some rows, Some ns) \<Rightarrow>
                (case numpy_cosine_scores np rows ns qv qn of
                   None \<Rightarrow> None
                 | Some scores \<Rightarrow> if length scores \<noteq> length positions then None else Some (zip positions scores))
            | _ \<Rightarrow> None)
      else if \<not> strictly_increasing positions then None
      else joined_options (map (\<lambda>(start, stop). iter_numpy_cosine_score_range np matrix norms start stop qv qn)
             (contiguous_position_ranges positions)))"

definition numpy_cosine_scores_for_positions ::
  "numpy_scores \<Rightarrow> float_value list list \<Rightarrow> float_value list \<Rightarrow> nat list \<Rightarrow> real list \<Rightarrow> real \<Rightarrow> float_value list option" where
  "numpy_cosine_scores_for_positions np matrix norms positions qv qn =
     map_option (map snd) (iter_numpy_vector_record_score_items np matrix norms positions qv qn True)"

definition vector_for_record_score :: "vector_index \<Rightarrow> nat \<Rightarrow> chunk_record \<Rightarrow> real list res" where
  "vector_for_record_score index position r =
     (if vr_vector r \<noteq> []
      then (if length (vr_vector r) \<noteq> vi_dimension index then Inl (VectorSearchError ''record has an unexpected dimension'')
            else Inr (vr_vector r))
      else (case vi_matrix index of
              None \<Rightarrow> Inl (VectorSearchError ''record is missing in-memory vectors'')
            | Some matrix \<Rightarrow>
                if position \<ge> length matrix then Inl (VectorSearchError ''matrix row could not be read'')
                else (case vector_tuple (matrix ! position) (vi_dimension index) of
                        Inl e \<Rightarrow> Inl (VectorSearchError ''matrix row has invalid shape or values'')
                      | Inr v \<Rightarrow> Inr v)))"

definition python_vector_record_score :: "vector_index \<Rightarrow> nat \<Rightarrow> real list \<Rightarrow> real \<Rightarrow> float_value res" where
  "python_vector_record_score index position qv qn =
     (if position \<ge> length (vi_records index) then Inl (VectorSearchError ''record positions are inconsistent'')
      else (let r = vi_records index ! position
            in if vr_norm r \<le> 0 then Inr Neg_inf
               else bind_res (vector_for_record_score index position r) (\<lambda>v.
                    bind_res (cosine qv qn v (vr_norm r)) (\<lambda>x. Inr (Finite x)))))"

definition python_scores :: "vector_index \<Rightarrow> nat list \<Rightarrow> real list \<Rightarrow> real \<Rightarrow> (nat \<times> float_value) list option res" where
  "python_scores index positions qv qn =
     bind_res (map_res (\<lambda>position. bind_res (python_vector_record_score index position qv qn) (\<lambda>x. Inr (position, x))) positions)
       (\<lambda>items. Inr (Some items))"

text \<open>The items of the generator, None when the scores are unavailable, or what it raises.\<close>

definition iter_vector_record_score_items ::
  "numpy_scores \<Rightarrow> vector_index \<Rightarrow> real list \<Rightarrow> real \<Rightarrow> nat list option \<Rightarrow> bool \<Rightarrow> (nat \<times> float_value) list option res" where
  "iter_vector_record_score_items np index qv qn record_positions use_numpy =
     (case record_positions of
        None \<Rightarrow>
          (case (vi_matrix index, vi_norms index) of
             (Some matrix, Some norms) \<Rightarrow>
               if vi_records index = [] then Inr (Some [])
               else if use_numpy then Inr (iter_numpy_cosine_score_range np matrix norms 0 (length (vi_records index)) qv qn)
               else python_scores index [0..<length (vi_records index)] qv qn
           | _ \<Rightarrow> python_scores index [0..<length (vi_records index)] qv qn)
      | Some positions \<Rightarrow>
          (case (vi_matrix index, vi_norms index) of
             (Some matrix, Some norms) \<Rightarrow>
               if positions = [] then Inr (Some [])
               else if use_numpy then Inr (iter_numpy_vector_record_score_items np matrix norms positions qv qn True)
               else python_scores index positions qv qn
           | _ \<Rightarrow> python_scores index positions qv qn))"

text \<open>\<open>vector_record_scores\<close>: with NumPy, and without it when that is not possible.\<close>

definition with_fallback :: "(bool \<Rightarrow> 'a option res) \<Rightarrow> 'a res" where
  "with_fallback run =
     bind_res (run True) (\<lambda>first. case first of
        Some x \<Rightarrow> Inr x
      | None \<Rightarrow> bind_res (run False) (\<lambda>second. case second of
                  Some x \<Rightarrow> Inr x | None \<Rightarrow> Inl (RuntimeError ''_VectorScoreUnavailable'')))"

definition vector_record_scores ::
  "numpy_scores \<Rightarrow> vector_index \<Rightarrow> real list \<Rightarrow> real \<Rightarrow> nat list option \<Rightarrow> float_value list res" where
  "vector_record_scores np index qv qn record_positions =
     (let positions = (case record_positions of None \<Rightarrow> [0..<length (vi_records index)] | Some ps \<Rightarrow> ps)
      in bind_res (with_fallback (iter_vector_record_score_items np index qv qn (Some positions))) (\<lambda>items. Inr (map snd items)))"

section \<open>The best record of a page\<close>

text \<open>At most 128 positions of records with a norm among some pages; None: more, or no restriction.\<close>

fun filter_rows :: "ustr set \<Rightarrow> nat \<Rightarrow> nat \<Rightarrow> chunk_record list \<Rightarrow> nat list option" where
  "filter_rows ids n i [] = Some []"
| "filter_rows ids n i (r # rs) =
     (if vr_page_id r \<notin> ids \<or> vr_norm r \<le> 0 then filter_rows ids n (i + 1) rs
      else if n \<ge> VECTOR_FILTERED_COPY_MAX_ROWS then None
      else map_option ((#) i) (filter_rows ids (n + 1) (i + 1) rs))"

definition effective_page_ids :: "(ustr, wiki_page) dict \<Rightarrow> ustr set \<Rightarrow> ustr set" where
  "effective_page_ids pages_by_id excluded =
     set (map page_id (filter (\<lambda>p. \<not> page_is_excluded p excluded) (map snd pages_by_id)))"

definition filtered_record_positions_for_small_page_subset ::
  "vector_index \<Rightarrow> (ustr, wiki_page) dict \<Rightarrow> ustr set \<Rightarrow> nat list option" where
  "filtered_record_positions_for_small_page_subset index pages_by_id excluded =
     (let ids = effective_page_ids pages_by_id excluded
      in if ids = {} then Some []
         else if list_all (\<lambda>r. vr_page_id r \<in> ids) (vi_records index) then None
         else filter_rows ids 0 0 (vi_records index))"

type_synonym best_records = "(ustr, real \<times> chunk_record) dict"

definition better :: "real \<Rightarrow> chunk_record \<Rightarrow> real \<times> chunk_record \<Rightarrow> bool" where
  "better score r previous \<longleftrightarrow>
     score > fst previous \<or> score = fst previous \<and> vr_ordinal r < vr_ordinal (snd previous)"

definition keep_best ::
  "vector_index \<Rightarrow> (ustr, wiki_page) dict \<Rightarrow> ustr set \<Rightarrow> nat \<times> float_value \<Rightarrow> best_records \<Rightarrow> best_records" where
  "keep_best index pages_by_id excluded item best =
     (case item of (position, score) \<Rightarrow>
        (let r = vi_records index ! position
         in case map_of pages_by_id (vr_page_id r) of
              None \<Rightarrow> best
            | Some p \<Rightarrow>
                if page_is_excluded p excluded \<or> vr_norm r \<le> 0 \<or> \<not> is_finite score then best
                else (case map_of best (vr_page_id r) of
                        None \<Rightarrow> AList.update (vr_page_id r) (finite_part score, r) best
                      | Some previous \<Rightarrow>
                          if better (finite_part score) r previous then AList.update (vr_page_id r) (finite_part score, r) best
                          else best)))"

definition best_vector_records_by_page_from_scores ::
  "numpy_scores \<Rightarrow> vector_index \<Rightarrow> (ustr, wiki_page) dict \<Rightarrow> ustr set \<Rightarrow> real list \<Rightarrow> real \<Rightarrow> nat list option \<Rightarrow> bool \<Rightarrow>
   best_records option res" where
  "best_vector_records_by_page_from_scores np index pages_by_id excluded qv qn record_positions use_numpy =
     bind_res (iter_vector_record_score_items np index qv qn record_positions use_numpy)
       (\<lambda>items. Inr (map_option (\<lambda>xs. fold (keep_best index pages_by_id excluded) xs []) items))"

definition best_vector_records_by_page ::
  "numpy_scores \<Rightarrow> vector_index \<Rightarrow> (ustr, wiki_page) dict \<Rightarrow> ustr set \<Rightarrow> real list \<Rightarrow> real \<Rightarrow> nat list option \<Rightarrow> best_records res" where
  "best_vector_records_by_page np index pages_by_id excluded qv qn record_positions =
     with_fallback (best_vector_records_by_page_from_scores np index pages_by_id excluded qv qn record_positions)"

definition vector_sort_key :: "real \<Rightarrow> wiki_page \<Rightarrow> chunk_record \<Rightarrow> real \<times> nat \<times> ustr \<times> ustr \<times> nat" where
  "vector_sort_key score p r = (- score, role_rank (page_role p), page_path p, page_id p, vr_ordinal r)"

section \<open>Results\<close>

definition vector_snippet_limit :: "int option \<Rightarrow> nat" where
  "vector_snippet_limit v = (case v of None \<Rightarrow> 280 | Some x \<Rightarrow> nat (max 0 (min x 2000)))"

definition clipped :: "nat \<Rightarrow> ustr \<Rightarrow> ustr" where
  "clipped limit clean = (if length clean \<le> limit then clean else rstrip (take (limit - 1) clean) @ lit ''...'')"

definition chunk_snippet :: "wiki_page \<Rightarrow> chunk_record \<Rightarrow> int option \<Rightarrow> ustr" where
  "chunk_snippet p r snippet_chars =
     (let limit = vector_snippet_limit snippet_chars; s = normalized_page_text (page_text p); start = vr_start r - 80
      in if limit = 0 then []
         else clipped limit
           (if vr_start r < vr_end r \<and> vr_end r \<le> length s
            then collapse_ws (rows_from s start (max (vr_end r) (start + limit)))
            else collapse_ws (if page_text p \<noteq> [] then page_text p else page_summary p)))"

definition vector_result :: "wiki_page \<Rightarrow> real \<Rightarrow> chunk_record \<Rightarrow> int option \<Rightarrow> search_result" where
  "vector_result p score r snippet_chars =
     \<lparr>res_page_id = page_id p, res_title = page_title p, res_path = page_path p, res_score = py_round score 4,
      res_snippet = chunk_snippet p r snippet_chars, res_role = page_role p, res_source_refs = page_source_refs p,
      res_route = lit ''vector''\<rparr>"

definition vector_query_fallback_results ::
  "wiki_page list \<Rightarrow> ustr \<Rightarrow> nat \<Rightarrow> int option \<Rightarrow> ustr list \<Rightarrow> search_result list" where
  "vector_query_fallback_results pages query limit snippet_chars exclude =
     (if strip query \<noteq> [] then [] else overview_results pages limit snippet_chars exclude)"

definition pages_by_id :: "wiki_page list \<Rightarrow> (ustr, wiki_page) dict" where
  "pages_by_id pages = dict_of (map (\<lambda>p. (page_id p, p)) pages)"

text \<open>A missing page cannot occur: the best records belong to pages of the dictionary.\<close>

definition blank_page :: wiki_page where
  "blank_page = mk_page [] [] [] Role_topic []"

definition page_of :: "(ustr, wiki_page) dict \<Rightarrow> ustr \<Rightarrow> wiki_page" where
  "page_of by_id i = dict_get by_id i blank_page"

definition ranked_records :: "(ustr, wiki_page) dict \<Rightarrow> best_records \<Rightarrow> (ustr \<times> real \<times> chunk_record) list" where
  "ranked_records by_id best = sort_key (\<lambda>(i, score, r). vector_sort_key score (page_of by_id i) r) best"

definition search_vector_index_with_query_vector ::
  "numpy_scores \<Rightarrow> vector_index \<Rightarrow> wiki_page list \<Rightarrow> ustr \<Rightarrow> (real list \<times> real) option \<Rightarrow> nat \<Rightarrow> int option \<Rightarrow> ustr list \<Rightarrow>
   search_result list res" where
  "search_vector_index_with_query_vector np index pages query query_state limit snippet_chars exclude =
     (case query_state of
        None \<Rightarrow> Inr (vector_query_fallback_results pages query limit snippet_chars exclude)
      | Some (qv, qn) \<Rightarrow>
          if qn \<le> 0 then Inr (vector_query_fallback_results pages query limit snippet_chars exclude)
          else (let by_id = pages_by_id pages; excluded = page_exclusion_set exclude;
                    positions = filtered_record_positions_for_small_page_subset index by_id excluded
                in if positions = Some [] then Inr []
                   else bind_res (best_vector_records_by_page np index by_id excluded qv qn positions) (\<lambda>best.
                     Inr (map (\<lambda>(i, score, r). vector_result (page_of by_id i) score r snippet_chars)
                            (take limit (ranked_records by_id best))))))"

definition search_vector_index ::
  "numpy_scores \<Rightarrow> embedder \<Rightarrow> vector_index \<Rightarrow> wiki_page list \<Rightarrow> ustr \<Rightarrow> nat \<Rightarrow> int option \<Rightarrow> ustr list \<Rightarrow>
   search_result list res" where
  "search_vector_index np provider index pages query limit snippet_chars exclude =
     bind_res (embed_query_vector provider query) (\<lambda>state.
       search_vector_index_with_query_vector np index pages query state limit snippet_chars exclude)"

end
