(* ===== verification/Vector_Relations.thy ===== *)
theory Vector_Relations
  imports Vector_Search Graph_View
begin

text \<open>
  Relations between an orientation page and other pages that the shown evidence or the query names,
  \<open>vector.py\<close>: labels of links, source references and tags, and the pages they lead to. NFC normalization is
  the parameter \<open>nf\<close>. Sets of page ids are lists without repetitions.
\<close>

definition HYBRID_ORIENTATION_ROLES :: "page_role list" where
  "HYBRID_ORIENTATION_ROLES = [Role_hot, Role_index, Role_overview]"

definition hybrid_orientation_page :: "wiki_page \<Rightarrow> bool" where
  "hybrid_orientation_page p \<longleftrightarrow> page_role p \<in> set HYBRID_ORIENTATION_ROLES"

record orientation_seed =
  sd_page :: wiki_page
  sd_rank :: nat
  sd_lexical_rank :: "nat option"
  sd_vector_rank :: "nat option"
  sd_evidence :: ustr

section \<open>Labels\<close>

definition without_md :: "ustr \<Rightarrow> ustr" where
  "without_md s = (if ends_with s (lit ''.md'') then take (length s - 3) s else s)"

definition normalized_relation_label :: "(ustr \<Rightarrow> ustr) \<Rightarrow> ustr \<Rightarrow> ustr" where
  "normalized_relation_label nf v =
     filter (\<lambda>c. ascii_lower c \<or> ascii_digit c \<or> hangul c) (casefold (without_md (nf v)))"

definition relation_label_candidates :: "(ustr \<Rightarrow> ustr) \<Rightarrow> ustr \<Rightarrow> ustr list" where
  "relation_label_candidates nf label =
     (let stripped = without_md (nf (strip label)) in [stripped, posix_stem stripped, rsplit_last 47 stripped])"

definition relation_char :: "nat \<Rightarrow> bool" where
  "relation_char c \<longleftrightarrow> ascii_alnum c \<or> hangul c"

text \<open>The matches of \<open>[0-9A-Za-z]+|[hangul]+\<close>.\<close>

function relation_runs :: "ustr \<Rightarrow> ustr list" where
  "relation_runs s =
     (case s of
        [] \<Rightarrow> []
      | c # rest \<Rightarrow>
          if ascii_alnum c then takeWhile ascii_alnum s # relation_runs (dropWhile ascii_alnum s)
          else if hangul c then takeWhile hangul s # relation_runs (dropWhile hangul s)
          else relation_runs rest)"
  by pat_completeness auto
termination
  by (relation "measure length") (auto simp: length_dropWhile_le le_imp_less_Suc)

declare relation_runs.simps [simp del]

lemmas relation_runs_loop [py_loop] = relation_runs.simps

definition relation_tokens :: "(ustr \<Rightarrow> ustr) \<Rightarrow> ustr \<Rightarrow> ustr list" where
  "relation_tokens nf v = map casefold (relation_runs (nf v))"

text \<open>
  The pattern of a phrase: its tokens in order with other characters between them, and no token character
  before and after. As tokens hold token characters only, what lies between them is skipped in one way.
\<close>

fun phrase_rest :: "ustr list \<Rightarrow> ustr \<Rightarrow> bool" where
  "phrase_rest [] s \<longleftrightarrow> s = [] \<or> \<not> relation_char (hd s)"
| "phrase_rest (t # ts) s \<longleftrightarrow>
     (let u = dropWhile (\<lambda>c. \<not> relation_char c) s in starts_with u t \<and> phrase_rest ts (drop (length t) u))"

definition phrase_at :: "ustr list \<Rightarrow> ustr \<Rightarrow> bool" where
  "phrase_at ts s \<longleftrightarrow> (case ts of [] \<Rightarrow> False | t # rest \<Rightarrow> starts_with s t \<and> phrase_rest rest (drop (length t) s))"

fun phrase_in :: "ustr list \<Rightarrow> bool \<Rightarrow> ustr \<Rightarrow> bool" where
  "phrase_in ts inside [] \<longleftrightarrow> \<not> inside \<and> phrase_at ts []"
| "phrase_in ts inside (c # s) \<longleftrightarrow> \<not> inside \<and> phrase_at ts (c # s) \<or> phrase_in ts (relation_char c) s"

definition relation_phrase_visible :: "(ustr \<Rightarrow> ustr) \<Rightarrow> ustr \<Rightarrow> ustr \<Rightarrow> bool" where
  "relation_phrase_visible nf label evidence \<longleftrightarrow>
     relation_tokens nf label \<noteq> [] \<and> phrase_in (relation_tokens nf label) False (casefold (nf evidence))"

text \<open>The parts of \<open>_WIKI_LINK_RE\<close> and \<open>_MARKDOWN_LINK_RE\<close>; the second part is the group.\<close>

definition wiki_link_parts :: "rx list" where
  "wiki_link_parts =
     [exactly ''[['', Plus (Class (\<lambda>c. c \<notin> {93, 124, 35})), Opt (Seq (Class (\<lambda>c. c = 35)) (Plus (Class (\<lambda>c. c \<notin> {93, 124})))),
      Opt (Seq (Class (\<lambda>c. c = 124)) (Many (Class (\<lambda>c. c \<noteq> 93)))), exactly '']]'']"

definition markdown_link_parts :: "rx list" where
  "markdown_link_parts =
     [seq_of [exactly ''['', Many (Class (\<lambda>c. c \<notin> {93, 10})), exactly ''](''], Plus (Class (\<lambda>c. c \<noteq> 41 \<and> \<not> is_space c)),
      Opt (seq_of [Plus (Class is_space), Class (\<lambda>c. c \<in> {34, 39}), Many (Class (\<lambda>c. c \<noteq> 41)), Class (\<lambda>c. c \<in> {34, 39})]),
      exactly '')'']"

text \<open>\<open>finditer\<close>: the text of the second part of each match.\<close>

function group_texts :: "rx list \<Rightarrow> ustr \<Rightarrow> nat \<Rightarrow> ustr list" where
  "group_texts parts s start =
     (if start > length s then []
      else (case first_match parts s start of
              None \<Rightarrow> []
            | Some ends \<Rightarrow> slice s (ends ! 1) (ends ! 2) # group_texts parts s (max (last ends) (start + 1))))"
  by pat_completeness auto
termination
  by (relation "measure (\<lambda>(parts, s, start). Suc (length s) - start)") auto

declare group_texts.simps [simp del]

lemmas group_texts_loop [py_loop] = group_texts.simps

definition explicit_relation_labels :: "(ustr \<Rightarrow> ustr) \<Rightarrow> ustr \<Rightarrow> ustr list" where
  "explicit_relation_labels nf s =
     filter (\<lambda>v. v \<noteq> []) (map (normalized_relation_label nf)
       (concat (map (\<lambda>g. relation_label_candidates nf (strip g)) (group_texts wiki_link_parts s 0)) @
        concat (map (\<lambda>g. relation_label_candidates nf
            (takeWhile (\<lambda>c. c \<noteq> 63) (takeWhile (\<lambda>c. c \<noteq> 35) (strip_chars (lit ''<>'') g))))
          (group_texts markdown_link_parts s 0))))"

definition relation_label_visible :: "(ustr \<Rightarrow> ustr) \<Rightarrow> ustr \<Rightarrow> ustr \<Rightarrow> bool" where
  "relation_label_visible nf label evidence \<longleftrightarrow>
     (let label_values = relation_label_candidates nf label
      in strip evidence \<noteq> [] \<and>
         (list_ex (\<lambda>v. normalized_relation_label nf v \<noteq> [] \<and>
              normalized_relation_label nf v \<in> set (explicit_relation_labels nf evidence)) label_values \<or>
          list_ex (\<lambda>v. relation_phrase_visible nf v evidence) label_values))"

section \<open>Related pages\<close>

definition label_visible :: "(ustr \<Rightarrow> ustr) \<Rightarrow> orientation_seed \<Rightarrow> ustr \<Rightarrow> ustr \<Rightarrow> bool" where
  "label_visible nf seed query label \<longleftrightarrow>
     relation_label_visible nf label (sd_evidence seed) \<or> relation_label_visible nf label query"

definition visible_seed_links :: "(ustr \<Rightarrow> ustr) \<Rightarrow> orientation_seed \<Rightarrow> ustr \<Rightarrow> ustr list" where
  "visible_seed_links nf seed query = filter (label_visible nf seed query) (page_links (sd_page seed))"

definition visible_seed_source_refs :: "(ustr \<Rightarrow> ustr) \<Rightarrow> orientation_seed \<Rightarrow> ustr \<Rightarrow> ustr list" where
  "visible_seed_source_refs nf seed query = filter (label_visible nf seed query) (page_source_refs (sd_page seed))"

definition visible_seed_tags :: "(ustr \<Rightarrow> ustr) \<Rightarrow> orientation_seed \<Rightarrow> ustr \<Rightarrow> ustr list" where
  "visible_seed_tags nf seed query = filter (label_visible nf seed query) (page_tags (sd_page seed))"

text \<open>\<open>page_lookup\<close> of vector.py: the first page of a label.\<close>

definition relation_page_keys :: "wiki_page \<Rightarrow> ustr list" where
  "relation_page_keys p = [page_id p, page_title p, page_path p, rsplit_last 47 (page_path p), posix_stem (page_path p)]"

definition relation_page_lookup :: "(ustr \<Rightarrow> ustr) \<Rightarrow> wiki_page list \<Rightarrow> (ustr, wiki_page) dict" where
  "relation_page_lookup nf pages =
     fold (\<lambda>(key, p) d. if normalized_relation_label nf key \<noteq> [] then dict_setdefault (normalized_relation_label nf key) p d else d)
       (concat (map (\<lambda>p. map (\<lambda>key. (key, p)) (relation_page_keys p)) pages)) []"

definition pages_by_label :: "(ustr \<Rightarrow> ustr) \<Rightarrow> (wiki_page \<Rightarrow> ustr list) \<Rightarrow> wiki_page list \<Rightarrow> (ustr, wiki_page list) dict" where
  "pages_by_label nf labels pages =
     fold (\<lambda>(label, p) d. dict_append (normalized_relation_label nf label) p d)
       (concat (map (\<lambda>p. map (\<lambda>label. (label, p)) (labels p)) pages)) []"

definition safe_related_page_id ::
  "(ustr, wiki_page) dict \<Rightarrow> ustr set \<Rightarrow> ustr \<Rightarrow> ustr \<Rightarrow> ustr list" where
  "safe_related_page_id by_id excluded seed_page_id i =
     (case map_of by_id i of
        None \<Rightarrow> []
      | Some p \<Rightarrow> if page_id p = seed_page_id \<or> page_is_excluded p excluded then [] else [page_id p])"

definition seed_pool ::
  "(ustr \<Rightarrow> ustr) \<Rightarrow> wiki_page list \<Rightarrow> ustr \<Rightarrow> ustr set \<Rightarrow> orientation_seed \<Rightarrow> ustr list" where
  "seed_pool nf pages query excluded seed =
     (let by_id = pages_by_id pages;
          safe = safe_related_page_id by_id excluded (page_id (sd_page seed));
          named = (\<lambda>links. concat (map (\<lambda>label. case map_of (relation_page_lookup nf pages) (normalized_relation_label nf label) of
                     None \<Rightarrow> [] | Some target \<Rightarrow> safe (page_id target)) links));
          sharing = (\<lambda>labels wanted. concat (map (\<lambda>label.
                       concat (map (\<lambda>p. safe (page_id p)) (dict_get (pages_by_label nf labels pages) (normalized_relation_label nf label) []))) wanted))
      in remdups (named (visible_seed_links nf seed query) @
                  sharing page_source_refs (visible_seed_source_refs nf seed query) @
                  sharing page_tags (visible_seed_tags nf seed query)))"

definition related_page_id_pools_from_orientation ::
  "(ustr \<Rightarrow> ustr) \<Rightarrow> wiki_page list \<Rightarrow> orientation_seed list \<Rightarrow> ustr \<Rightarrow> ustr set \<Rightarrow> ustr list list" where
  "related_page_id_pools_from_orientation nf pages seeds query excluded = map (seed_pool nf pages query excluded) seeds"

definition HYBRID_RELATED_PAGE_LIMIT :: nat where "HYBRID_RELATED_PAGE_LIMIT = 64"
definition HYBRID_RELATED_PER_SEED_LIMIT :: nat where "HYBRID_RELATED_PER_SEED_LIMIT = 16"

definition plain_related_key :: "wiki_page \<Rightarrow> nat \<times> ustr \<times> ustr" where
  "plain_related_key p = (role_rank (page_role p), page_path p, page_id p)"

definition related_page_ids_from_orientation ::
  "(ustr \<Rightarrow> ustr) \<Rightarrow> wiki_page list \<Rightarrow> orientation_seed list \<Rightarrow> ustr \<Rightarrow> ustr list \<Rightarrow> ustr list" where
  "related_page_ids_from_orientation nf pages seeds query exclude =
     take HYBRID_RELATED_PAGE_LIMIT (sort_key (\<lambda>i. plain_related_key (page_of (pages_by_id pages) i))
       (remdups (concat (related_page_id_pools_from_orientation nf pages seeds query (page_exclusion_set exclude)))))"

text \<open>For each pool at most 16 of its pages, and of these at most 64, best first.\<close>

definition related_selection ::
  "(ustr, wiki_page) dict \<Rightarrow> ustr list list \<Rightarrow> best_records \<Rightarrow> (ustr \<times> real \<times> chunk_record) list" where
  "related_selection by_id pools best =
     (let key = (\<lambda>(i, score, r). vector_sort_key score (page_of by_id i) r);
          capped = remdups (concat (map (\<lambda>pool.
            map fst (take HYBRID_RELATED_PER_SEED_LIMIT (sort_key key (filter (\<lambda>(i, x). i \<in> set pool) best)))) pools))
      in take HYBRID_RELATED_PAGE_LIMIT (sort_key key (filter (\<lambda>(i, x). i \<in> set capped) best)))"

text \<open>
  The selected related pages with a finite score: their ids, their results and their scores.
\<close>

definition related_vector_results_from_orientation ::
  "(ustr \<Rightarrow> ustr) \<Rightarrow> numpy_scores \<Rightarrow> wiki_page list \<Rightarrow> orientation_seed list \<Rightarrow> vector_index \<Rightarrow> ustr \<Rightarrow> (real list \<times> real) option \<Rightarrow>
   int option \<Rightarrow> ustr list \<Rightarrow> (ustr list \<times> search_result list \<times> (ustr, real) dict) res" where
  "related_vector_results_from_orientation nf np pages seeds index query query_state snippet_chars exclude =
     (case query_state of
        None \<Rightarrow> Inr ([], [], [])
      | Some (qv, qn) \<Rightarrow>
          (let excluded = page_exclusion_set exclude;
               pools = related_page_id_pools_from_orientation nf pages seeds query excluded;
               candidate_ids = remdups (concat pools);
               by_id = pages_by_id pages;
               candidates = filter (\<lambda>(i, p). i \<in> set candidate_ids) by_id;
               positions = filtered_record_positions_for_small_page_subset index candidates excluded
           in if seeds = [] \<or> qn \<le> 0 \<or> candidate_ids = [] \<or> positions = Some [] then Inr ([], [], [])
              else bind_res (best_vector_records_by_page np index candidates excluded qv qn positions) (\<lambda>best.
                let selected = related_selection by_id pools best
                in Inr (map fst selected,
                        map (\<lambda>(i, score, r). vector_result (page_of by_id i) score r snippet_chars) selected,
                        map (\<lambda>(i, score, r). (i, score)) selected))))"

end
