(* ===== verification/Vector_Hybrid.thy ===== *)
theory Vector_Hybrid
  imports Vector_Relations
begin

text \<open>
  Hybrid search, \<open>vector.py\<close>: channels of ranked results, fused by weighted reciprocal ranks; orientation pages
  are seeds, whose related pages get channels of their own. Diagnostics are returned with the results.
\<close>

definition HYBRID_LEXICAL_WEIGHT :: real where "HYBRID_LEXICAL_WEIGHT = 1"
definition HYBRID_RELATED_VECTOR_WEIGHT :: real where "HYBRID_RELATED_VECTOR_WEIGHT = 1"
definition HYBRID_GLOBAL_VECTOR_WEIGHT :: real where "HYBRID_GLOBAL_VECTOR_WEIGHT = 3 / 4"
definition HYBRID_ORIENTATION_DOC_WEIGHT :: real where "HYBRID_ORIENTATION_DOC_WEIGHT = 35 / 100"
definition HYBRID_GRAPH_PRIOR_WEIGHT :: real where "HYBRID_GRAPH_PRIOR_WEIGHT = 1 / 4"
definition HYBRID_ORIENTATION_SEED_LIMIT :: nat where "HYBRID_ORIENTATION_SEED_LIMIT = 3"
definition HYBRID_ORIENTATION_CANDIDATE_LIMIT :: nat where "HYBRID_ORIENTATION_CANDIDATE_LIMIT = 24"
definition HYBRID_CANDIDATE_DEPTH_MIN :: nat where "HYBRID_CANDIDATE_DEPTH_MIN = 256"
definition HYBRID_CANDIDATE_DEPTH_MULTIPLIER :: nat where "HYBRID_CANDIDATE_DEPTH_MULTIPLIER = 4"
definition HYBRID_CANDIDATE_DEPTH_CAP :: nat where "HYBRID_CANDIDATE_DEPTH_CAP = 1024"

datatype hybrid_mode = Plain_rrf | Orientation_seeded

record hybrid_diagnostics =
  hd_mode :: hybrid_mode
  hd_seeds :: nat
  hd_related :: nat
  hd_reason :: string

definition hybrid_candidate_depth :: "nat \<Rightarrow> nat \<Rightarrow> nat" where
  "hybrid_candidate_depth limit total_docs =
     (if total_docs = 0 then 0
      else let requested = max 1 limit;
               scaled = max HYBRID_CANDIDATE_DEPTH_MIN (HYBRID_CANDIDATE_DEPTH_MULTIPLIER * requested);
               bounded_overfetch = min HYBRID_CANDIDATE_DEPTH_CAP scaled
           in min total_docs (max requested bounded_overfetch))"

section \<open>Seeds\<close>

definition orientation_exclude_page_ids :: "wiki_page list \<Rightarrow> ustr list \<Rightarrow> ustr list" where
  "orientation_exclude_page_ids pages exclude =
     exclude @ map page_id (filter (\<lambda>p. \<not> hybrid_orientation_page p) pages)"

definition orientation_evidence_text :: "search_result option \<Rightarrow> search_result option \<Rightarrow> ustr" where
  "orientation_evidence_text lexical_hit vector_hit =
     join [32] (filter (\<lambda>s. s \<noteq> []) (map (\<lambda>r. strip (res_snippet r)) (List.map_filter id [lexical_hit, vector_hit])))"

definition ranks_of :: "search_result list \<Rightarrow> (ustr, nat) dict" where
  "ranks_of results = dict_of (map (\<lambda>(rank, r). (res_page_id r, rank)) (List.enumerate 1 results))"

definition bounded_rank :: "nat option \<Rightarrow> bool" where
  "bounded_rank rank = (case rank of None \<Rightarrow> False | Some n \<Rightarrow> n \<le> HYBRID_ORIENTATION_CANDIDATE_LIMIT)"

definition rank_or_limit :: "nat option \<Rightarrow> nat" where
  "rank_or_limit rank = (case rank of None \<Rightarrow> HYBRID_ORIENTATION_CANDIDATE_LIMIT + 1 | Some n \<Rightarrow> n)"

definition seed_key :: "orientation_seed \<Rightarrow> nat \<times> nat \<times> nat \<times> nat \<times> ustr \<times> ustr" where
  "seed_key seed = (sd_rank seed, rank_or_limit (sd_lexical_rank seed), rank_or_limit (sd_vector_rank seed),
     role_rank (page_role (sd_page seed)), page_path (sd_page seed), page_id (sd_page seed))"

definition seed_of_page ::
  "search_result list \<Rightarrow> search_result list \<Rightarrow> (ustr, wiki_page) dict \<Rightarrow> wiki_page \<Rightarrow> orientation_seed list" where
  "seed_of_page lexical_hits vector_results by_id p =
     (let by_page = (\<lambda>results. map_of (dict_of (map (\<lambda>r. (res_page_id r, r)) results)) (page_id p));
          lex_rank = map_of (ranks_of lexical_hits) (page_id p);
          vec_rank = map_of (ranks_of vector_results) (page_id p);
          evidence = orientation_evidence_text (by_page lexical_hits) (by_page vector_results)
      in if \<not> hybrid_orientation_page p \<or> \<not> bounded_rank lex_rank \<and> \<not> bounded_rank vec_rank \<or> evidence = [] then []
         else [\<lparr>sd_page = page_of by_id (page_id p), sd_rank = min (rank_or_limit lex_rank) (rank_or_limit vec_rank),
                sd_lexical_rank = lex_rank, sd_vector_rank = vec_rank, sd_evidence = evidence\<rparr>])"

definition orientation_seeds ::
  "search_result list \<Rightarrow> search_result list \<Rightarrow> wiki_page list \<Rightarrow> orientation_seed list" where
  "orientation_seeds lexical_hits vector_results pages =
     take HYBRID_ORIENTATION_SEED_LIMIT (sort_key seed_key
       (concat (map (seed_of_page lexical_hits vector_results (pages_by_id pages)) pages)))"

definition page_explicitly_matches_query :: "(ustr \<Rightarrow> ustr) \<Rightarrow> wiki_page \<Rightarrow> ustr \<Rightarrow> bool" where
  "page_explicitly_matches_query nf p query \<longleftrightarrow>
     normalized_relation_label nf query \<noteq> [] \<and>
     normalized_relation_label nf query \<in> set (map (normalized_relation_label nf) (relation_page_keys p))"

definition suppressed_orientation_answer_page_ids :: "(ustr \<Rightarrow> ustr) \<Rightarrow> wiki_page list \<Rightarrow> ustr \<Rightarrow> ustr set" where
  "suppressed_orientation_answer_page_ids nf pages query =
     set (map page_id (filter (\<lambda>p. hybrid_orientation_page p \<and> \<not> page_explicitly_matches_query nf p query) pages))"

section \<open>Fusion\<close>

definition blank_hybrid_result :: search_result where
  "blank_hybrid_result = \<lparr>res_page_id = [], res_title = [], res_path = [], res_score = 0, res_snippet = [],
     res_role = Role_topic, res_source_refs = [], res_route = []\<rparr>"

record hybrid_fusion =
  hf_results :: "(ustr, search_result) dict"
  hf_scores :: "(ustr, real) dict"

definition add_ranked :: "real \<Rightarrow> nat \<times> search_result \<Rightarrow> hybrid_fusion \<Rightarrow> hybrid_fusion" where
  "add_ranked weight ranked fu =
     (case ranked of (rank, r) \<Rightarrow>
        \<lparr>hf_results = dict_setdefault (res_page_id r) r (hf_results fu),
         hf_scores = AList.update (res_page_id r)
           (dict_get (hf_scores fu) (res_page_id r) 0 + weight / (real HYBRID_RRF_K + real rank)) (hf_scores fu)\<rparr>)"

definition add_hybrid_channel :: "real \<times> search_result list \<Rightarrow> hybrid_fusion \<Rightarrow> hybrid_fusion" where
  "add_hybrid_channel channel fu = (case channel of (weight, results) \<Rightarrow> fold (add_ranked weight) (List.enumerate 1 results) fu)"

definition first_of_page :: "search_result list \<Rightarrow> ustr \<Rightarrow> search_result option" where
  "first_of_page results i = List.find (\<lambda>r. res_page_id r = i) results"

definition hybrid_key :: "ustr set option \<Rightarrow> search_result list \<Rightarrow> hybrid_fusion \<Rightarrow> ustr \<Rightarrow> real \<times> int \<times> nat \<times> ustr \<times> ustr" where
  "hybrid_key required lexical fu i =
     (let r = dict_get (hf_results fu) i blank_hybrid_result
      in (- dict_get (hf_scores fu) i 0, if required \<noteq> None \<and> first_of_page lexical i \<noteq> None then - 1 else 0,
          role_rank (res_role r), res_path r, i))"

text \<open>The result of a page: the lexical one when the query requires an exact match.\<close>

definition hybrid_base :: "ustr set option \<Rightarrow> search_result list \<Rightarrow> hybrid_fusion \<Rightarrow> ustr \<Rightarrow> search_result" where
  "hybrid_base required lexical fu i =
     (case first_of_page lexical i of
        Some r \<Rightarrow> if required \<noteq> None then r else dict_get (hf_results fu) i blank_hybrid_result
      | None \<Rightarrow> dict_get (hf_results fu) i blank_hybrid_result)"

definition fused_results ::
  "ustr set option \<Rightarrow> search_result list \<Rightarrow> (real \<times> search_result list) list \<Rightarrow> nat \<Rightarrow> search_result list" where
  "fused_results required lexical channels limit =
     (let fu = fold add_hybrid_channel channels \<lparr>hf_results = [], hf_scores = []\<rparr>
      in map (\<lambda>i. (hybrid_base required lexical fu i)\<lparr>res_score := py_round (dict_get (hf_scores fu) i 0) 4, res_route := lit ''hybrid''\<rparr>)
           (take limit (sort_key (hybrid_key required lexical fu) (map fst (hf_scores fu)))))"

definition may_answer :: "ustr set option \<Rightarrow> ustr set \<Rightarrow> ustr \<Rightarrow> bool" where
  "may_answer allowed suppressed i \<longleftrightarrow> (case allowed of None \<Rightarrow> True | Some ids \<Rightarrow> i \<in> ids) \<and> i \<notin> suppressed"

definition answering :: "ustr set option \<Rightarrow> ustr set \<Rightarrow> search_result list \<Rightarrow> search_result list" where
  "answering allowed suppressed results = filter (\<lambda>r. may_answer allowed suppressed (res_page_id r)) results"

definition plain_hybrid_search_results ::
  "(ustr \<Rightarrow> ustr) \<Rightarrow> search_result list \<Rightarrow> search_result list \<Rightarrow> search_corpus \<Rightarrow> ustr \<Rightarrow> nat \<Rightarrow> bool \<Rightarrow> search_result list" where
  "plain_hybrid_search_results nf lexical_hits vector_results c query limit suppress =
     (let required = exact_required_page_ids_for_query c query;
          suppressed = (if suppress then suppressed_orientation_answer_page_ids nf (corpus_pages c) query else {});
          lexical = answering required suppressed lexical_hits;
          vectors = answering required suppressed vector_results
      in if required = Some {} then []
         else fused_results required lexical [(1, lexical), (1, vectors)] limit)"

definition related_vector_key ::
  "(ustr, real) dict \<Rightarrow> (ustr, nat) dict \<Rightarrow> nat \<Rightarrow> nat \<times> search_result \<Rightarrow> nat \<times> real \<times> nat \<times> nat \<times> ustr \<times> ustr" where
  "related_vector_key exact_scores lexical_ranks lexical_floor item =
     (case item of (original_rank, r) \<Rightarrow>
        (case map_of exact_scores (res_page_id r) of
           None \<Rightarrow> (1, 0, original_rank, role_rank (res_role r), res_path r, res_page_id r)
         | Some score \<Rightarrow> (0, - score, dict_get lexical_ranks (res_page_id r) lexical_floor, role_rank (res_role r), res_path r, res_page_id r)))"

definition rerank_related_vector_results ::
  "search_result list \<Rightarrow> (ustr, nat) dict \<Rightarrow> (ustr, real) dict option \<Rightarrow> search_result list" where
  "rerank_related_vector_results results lexical_ranks exact_scores =
     (case exact_scores of
        None \<Rightarrow> results
      | Some scores \<Rightarrow>
          if scores = [] then results
          else map snd (sort_key (related_vector_key scores lexical_ranks (length lexical_ranks + HYBRID_RRF_K + 1)) (List.enumerate 0 results)))"

definition page_result :: "wiki_page \<Rightarrow> real \<Rightarrow> ustr \<Rightarrow> search_result" where
  "page_result p score snippet =
     \<lparr>res_page_id = page_id p, res_title = page_title p, res_path = page_path p, res_score = score,
      res_snippet = clipped 280 snippet, res_role = page_role p, res_source_refs = page_source_refs p, res_route = lit ''hybrid''\<rparr>"

definition seed_result :: "orientation_seed \<Rightarrow> search_result" where
  "seed_result seed = page_result (sd_page seed) (1 / (real HYBRID_RRF_K + real (sd_rank seed))) (sd_evidence seed)"

definition first_page :: "wiki_page list \<Rightarrow> ustr \<Rightarrow> wiki_page" where
  "first_page pages i = (case List.find (\<lambda>p. page_id p = i) pages of Some p \<Rightarrow> p | None \<Rightarrow> blank_page)"

definition graph_prior_result :: "wiki_page list \<Rightarrow> ustr \<Rightarrow> search_result" where
  "graph_prior_result pages i =
     (let p = first_page pages i in page_result p 0 (collapse_ws (if page_summary p \<noteq> [] then page_summary p else page_text p)))"

definition graph_prior_key ::
  "(ustr, wiki_page) dict \<Rightarrow> search_result list \<Rightarrow> (ustr, real) dict option \<Rightarrow> ustr \<Rightarrow> nat \<times> real \<times> nat \<times> nat \<times> ustr \<times> ustr" where
  "graph_prior_key by_id results exact_scores i =
     (let p = page_of by_id i; own = map_of (dict_of (map (\<lambda>r. (res_page_id r, res_score r)) results)) i;
          exact = (case exact_scores of None \<Rightarrow> None | Some scores \<Rightarrow> map_of scores i)
      in case (map_of (ranks_of results) i, own) of
           (Some rank, Some score) \<Rightarrow>
             (0, - (case exact of Some x \<Rightarrow> x | None \<Rightarrow> score), rank, role_rank (page_role p), page_path p, page_id p)
         | _ \<Rightarrow> (1, 0, 0, role_rank (page_role p), page_path p, page_id p))"

definition graph_prior_results_by_vector_relevance ::
  "wiki_page list \<Rightarrow> ustr list \<Rightarrow> search_result list \<Rightarrow> (ustr, real) dict option \<Rightarrow> search_result list" where
  "graph_prior_results_by_vector_relevance pages related_ids results exact_scores =
     (let by_id = pages_by_id pages
      in map (graph_prior_result pages) (sort_key (graph_prior_key by_id results exact_scores)
           (remdups (filter (\<lambda>i. map_of by_id i \<noteq> None) related_ids))))"

text \<open>The channels of the seeded fusion, with their weights.\<close>

definition seeded_channels ::
  "ustr set option \<Rightarrow> ustr set \<Rightarrow> search_result list \<Rightarrow> search_result list \<Rightarrow> search_result list \<Rightarrow> orientation_seed list \<Rightarrow> ustr list \<Rightarrow>
   wiki_page list \<Rightarrow> (ustr, real) dict option \<Rightarrow> (real \<times> search_result list) list" where
  "seeded_channels required suppressed lexical_hits vector_results related_results seeds related_ids pages exact_scores =
     (let lexical = answering required suppressed lexical_hits;
          related = rerank_related_vector_results
            (filter (\<lambda>r. res_page_id r \<in> set related_ids) (answering required suppressed related_results)) (ranks_of lexical) exact_scores
      in [(HYBRID_LEXICAL_WEIGHT, lexical), (HYBRID_RELATED_VECTOR_WEIGHT, related),
          (HYBRID_GLOBAL_VECTOR_WEIGHT, answering required suppressed vector_results),
          (HYBRID_ORIENTATION_DOC_WEIGHT, answering required suppressed (map seed_result seeds)),
          (HYBRID_GRAPH_PRIOR_WEIGHT, answering required suppressed
            (graph_prior_results_by_vector_relevance pages related_ids related exact_scores))])"

definition orientation_seeded_hybrid_search_results ::
  "(ustr \<Rightarrow> ustr) \<Rightarrow> search_result list \<Rightarrow> search_result list \<Rightarrow> search_result list \<Rightarrow> orientation_seed list \<Rightarrow> ustr list \<Rightarrow>
   search_corpus \<Rightarrow> ustr \<Rightarrow> nat \<Rightarrow> (ustr, real) dict option \<Rightarrow> search_result list" where
  "orientation_seeded_hybrid_search_results nf lexical_hits vector_results related_results seeds related_ids c query limit exact_scores =
     (let required = exact_required_page_ids_for_query c query;
          suppressed = suppressed_orientation_answer_page_ids nf (corpus_pages c) query
      in if required = Some {} then []
         else fused_results required (answering required suppressed lexical_hits)
                (seeded_channels required suppressed lexical_hits vector_results related_results seeds related_ids (corpus_pages c) exact_scores)
                limit)"

section \<open>Search\<close>

text \<open>\<open>hybrid_search_results\<close>, without a vector index.\<close>

definition hybrid_search_results ::
  "(ustr \<Rightarrow> ustr) \<Rightarrow> search_result list \<Rightarrow> search_result list \<Rightarrow> search_corpus \<Rightarrow> ustr \<Rightarrow> nat \<Rightarrow> hybrid_diagnostics \<times> search_result list" where
  "hybrid_search_results nf lexical_hits vector_results c query limit =
     (\<lparr>hd_mode = Plain_rrf, hd_seeds = length (orientation_seeds lexical_hits vector_results (corpus_pages c)), hd_related = 0,
       hd_reason = ''no_exact_related_vector_scores''\<rparr>,
      plain_hybrid_search_results nf lexical_hits vector_results c query limit False)"

text \<open>The visible pages of a request are those of its corpus.\<close>

definition hybrid_search_results_for_vector_index ::
  "(ustr \<Rightarrow> ustr) \<Rightarrow> numpy_scores \<Rightarrow> embedder \<Rightarrow> search_result list \<Rightarrow> search_result list \<Rightarrow> vector_index \<Rightarrow> wiki_page list \<Rightarrow> search_corpus \<Rightarrow>
   ustr \<Rightarrow> nat \<Rightarrow> nat \<Rightarrow> int option \<Rightarrow> ustr list \<Rightarrow> (hybrid_diagnostics \<times> search_result list) res" where
  "hybrid_search_results_for_vector_index nf np provider lexical_hits orientation_lexical_results index pages c query limit
      candidate_limit snippet_chars exclude =
     bind_res (embed_query_vector provider query) (\<lambda>state.
     bind_res (search_vector_index_with_query_vector np index (filter hybrid_orientation_page pages) query state
                 HYBRID_ORIENTATION_CANDIDATE_LIMIT snippet_chars exclude) (\<lambda>orientation_vector_results.
       let seeds = orientation_seeds orientation_lexical_results orientation_vector_results (corpus_pages c)
       in bind_res (related_vector_results_from_orientation nf np (corpus_pages c) seeds index query state snippet_chars exclude)
            (\<lambda>(related_ids, related_results, related_scores).
          bind_res (search_vector_index_with_query_vector np index pages query state candidate_limit snippet_chars exclude)
            (\<lambda>global_results.
              Inr (if seeds = [] \<or> related_ids = []
                   then (\<lparr>hd_mode = Plain_rrf, hd_seeds = length seeds, hd_related = length related_ids, hd_reason = ''no_safe_related_set''\<rparr>,
                         plain_hybrid_search_results nf lexical_hits global_results c query limit True)
                   else (\<lparr>hd_mode = Orientation_seeded, hd_seeds = length seeds, hd_related = length related_ids, hd_reason = []\<rparr>,
                         orientation_seeded_hybrid_search_results nf lexical_hits global_results related_results seeds related_ids
                           c query limit (Some related_scores)))))))"

end
