(* ===== verification/Vector_Service.thy ===== *)
theory Vector_Service
  imports Vector_Hybrid Service_Queries
begin

text \<open>
  Vector and hybrid search in the service, \<open>service.py\<close>: the provider and the cache are made when they are
  first needed, the index is loaded for the pages that may be shown, and success is remembered. Making a
  provider, resolving the cache directory and loading an index are parameters.
\<close>

record vector_site =
  vx_nf :: "ustr \<Rightarrow> ustr"
  vx_np :: numpy_scores
  vx_create :: "embedding_provider res"
  vx_embedder :: "embedding_provider \<Rightarrow> embedder"
  vx_open_cache :: "unit res"
  vx_load :: "wiki_index \<Rightarrow> embedding_provider \<Rightarrow> wiki_page list \<Rightarrow> bool \<Rightarrow> vector_index res"

text \<open>A fallible step that leaves a state, then the next step.\<close>

definition then_state :: "'a res \<times> 's \<Rightarrow> ('a \<Rightarrow> 's \<Rightarrow> 'b res \<times> 's) \<Rightarrow> 'b res \<times> 's" where
  "then_state r f = (case r of (Inl e, st) \<Rightarrow> (Inl e, st) | (Inr x, st) \<Rightarrow> f x st)"

lemma then_state_Inr: "then_state r f = (Inr y, st') \<longleftrightarrow> (\<exists>x st. r = (Inr x, st) \<and> f x st = (Inr y, st'))"
  by (auto simp: then_state_def split: prod.splits sum.splits)

lemma then_state_simps [simp]: "then_state (Inl e, st) f = (Inl e, st)" "then_state (Inr x, st) f = f x st"
  by (simp_all add: then_state_def)

definition vector_provider_or_error :: "vector_site \<Rightarrow> vector_state \<Rightarrow> embedding_provider res \<times> vector_state" where
  "vector_provider_or_error vx vs =
     (if \<not> vec_enabled vs then (Inl (VectorSearchError ''not enabled''), vs)
      else case vec_provider vs of
             Some p \<Rightarrow> (Inr p, vs)
           | None \<Rightarrow> (case vx_create vx of Inl e \<Rightarrow> (Inl e, vs) | Inr p \<Rightarrow> (Inr p, vs\<lparr>vec_provider := Some p\<rparr>)))"

definition vector_index_cache :: "vector_site \<Rightarrow> vector_state \<Rightarrow> unit res \<times> vector_state" where
  "vector_index_cache vx vs =
     (if vec_cache vs then (Inr (), vs)
      else case vx_open_cache vx of Inl e \<Rightarrow> (Inl e, vs) | Inr x \<Rightarrow> (Inr x, vs\<lparr>vec_cache := True\<rparr>))"

definition remember_verified_vector_availability :: "embedding_provider \<Rightarrow> vector_state \<Rightarrow> vector_state" where
  "remember_verified_vector_availability p vs = vs\<lparr>vec_verified := vector_provider_is_usable vs (Some p)\<rparr>"

definition forget_verified_vector_availability :: "vector_state \<Rightarrow> vector_state" where
  "forget_verified_vector_availability vs = vs\<lparr>vec_verified := False\<rparr>"

text \<open>A search with the provider and the index of some pages; the state is kept when it fails.\<close>

definition with_vector_index ::
  "vector_site \<Rightarrow> wiki_index \<Rightarrow> wiki_page list \<Rightarrow> bool \<Rightarrow> (embedder \<Rightarrow> vector_index \<Rightarrow> 'a res) \<Rightarrow> vector_state \<Rightarrow> 'a res \<times> vector_state" where
  "with_vector_index vx index pages include_drafts run vs =
     then_state (vector_provider_or_error vx vs) (\<lambda>p vs1.
     then_state (vector_index_cache vx vs1) (\<lambda>_ vs2.
       case bind_res (vx_load vx index p pages include_drafts) (run (vx_embedder vx p)) of
         Inl e \<Rightarrow> (Inl e, vs2)
       | Inr x \<Rightarrow> (Inr x, remember_verified_vector_availability p vs2)))"

definition vector_result_objects ::
  "vector_site \<Rightarrow> wiki_index \<Rightarrow> ustr \<Rightarrow> bool \<Rightarrow> search_options \<Rightarrow> vector_state \<Rightarrow> search_result list res \<times> vector_state" where
  "vector_result_objects vx index query include_drafts opts vs =
     (let pages = visible_pages (idx_pages index) include_drafts
      in with_vector_index vx index pages include_drafts (\<lambda>provider vi.
           search_vector_index (vx_np vx) provider vi pages query (opt_limit opts) (opt_snippet_chars opts) (opt_exclude opts)) vs)"

text \<open>The lexical hits that hybrid search starts from: deeper than the limit, and orientation pages only.\<close>

definition candidate_hits ::
  "(ustr \<Rightarrow> ustr) \<Rightarrow> search_corpus \<Rightarrow> ustr \<Rightarrow> nat \<Rightarrow> ustr list \<Rightarrow> search_options \<Rightarrow> search_result list res" where
  "candidate_hits stem c query limit exclude opts =
     search_in_corpus stem c query Lexical
       \<lparr>opt_limit = limit, opt_snippet_chars = opt_snippet_chars opts, opt_min_score = None, opt_exclude = exclude,
        opt_prior = None, opt_band = 0\<rparr>"

definition hybrid_result_objects ::
  "vector_site \<Rightarrow> (ustr \<Rightarrow> ustr) \<Rightarrow> wiki_index \<Rightarrow> search_corpus \<Rightarrow> ustr \<Rightarrow> bool \<Rightarrow> search_options \<Rightarrow> vector_state \<Rightarrow>
   search_result list res \<times> vector_state" where
  "hybrid_result_objects vx stem index c query include_drafts opts vs =
     (let depth = hybrid_candidate_depth (opt_limit opts) (length (corpus_documents c))
      in then_state (candidate_hits stem c query HYBRID_ORIENTATION_CANDIDATE_LIMIT
             (orientation_exclude_page_ids (corpus_pages c) (opt_exclude opts)) opts, vs) (\<lambda>orientation_hits vs.
         then_state (candidate_hits stem c query depth (opt_exclude opts) opts, vs) (\<lambda>hits.
           with_vector_index vx index (corpus_pages c) include_drafts (\<lambda>provider vi.
             bind_res (hybrid_search_results_for_vector_index (vx_nf vx) (vx_np vx) provider hits orientation_hits vi
                 (corpus_pages c) c query (opt_limit opts) depth (opt_snippet_chars opts) (opt_exclude opts))
               (\<lambda>(diagnostics, rs). Inr rs)))))"

text \<open>\<open>_search_result_objects\<close> for the modes vector and hybrid.\<close>

definition vector_mode_results ::
  "vector_site \<Rightarrow> (ustr \<Rightarrow> ustr) \<Rightarrow> wiki_index \<Rightarrow> search_corpus \<Rightarrow> ustr \<Rightarrow> bool \<Rightarrow> search_mode \<Rightarrow> search_options \<Rightarrow> vector_state \<Rightarrow>
   search_result list res \<times> vector_state" where
  "vector_mode_results vx stem index c query include_drafts mode opts vs =
     (if opt_min_score opts \<noteq> None
      then (Inl (VectorSearchError ''min_score is not supported for vector or hybrid search''), vs)
      else if mode = Vector then vector_result_objects vx index query include_drafts opts vs
      else hybrid_result_objects vx stem index c query include_drafts opts vs)"

text \<open>\<open>_vector_capabilities\<close>: the manifest offers the modes once the provider has been tried.\<close>

definition capabilities_after :: "py_error \<Rightarrow> vector_state \<Rightarrow> ustr list res \<times> vector_state" where
  "capabilities_after e vs =
     (case e of VectorSearchError m \<Rightarrow> (Inr [], forget_verified_vector_availability vs) | _ \<Rightarrow> (Inl e, vs))"

definition vector_capabilities :: "vector_site \<Rightarrow> vector_state \<Rightarrow> ustr list res \<times> vector_state" where
  "vector_capabilities vx vs =
     (let offered = [lit ''llmwiki_search_mode_vector'', lit ''llmwiki_search_mode_hybrid'']
      in if \<not> vec_enabled vs then (Inr [], vs)
         else if verified_vector_available vs then (Inr offered, vs)
         else case vector_provider_or_error vx vs of
                (Inl e, vs1) \<Rightarrow> capabilities_after e vs1
              | (Inr p, vs1) \<Rightarrow>
                  (case vector_index_cache vx vs1 of
                     (Inl e, vs2) \<Rightarrow> capabilities_after e vs2
                   | (Inr _, vs2) \<Rightarrow>
                       if \<not> vector_provider_is_usable vs2 (Some p) then (Inr [], forget_verified_vector_availability vs2)
                       else (Inr offered, remember_verified_vector_availability p vs2)))"

end
