(* ===== verification/Io_Log.thy ===== *)
theory Io_Log
  imports Regex Models PyStr_Facts
begin

text \<open>
  The request log of \<open>io_logging.py\<close>: redaction of texts and JSON values, the summaries of bodies, and the
  middleware around one request as a run over the messages the application exchanges. UTF-8 decoding,
  \<open>json.loads\<close>, the time stamp, the request id and the duration are parameters; writing the line to the
  file is not modelled.
\<close>

section \<open>Redaction patterns\<close>

definition REDACTION :: ustr where "REDACTION = lit ''[REDACTED]''"
definition LOCAL_ROOT_REDACTION :: ustr where "LOCAL_ROOT_REDACTION = lit ''[REDACTED_LOCAL_ROOT]''"
definition MAX_BODY_CAPTURE_BYTES :: nat where "MAX_BODY_CAPTURE_BYTES = 65536"

definition one_of :: "string \<Rightarrow> nat \<Rightarrow> bool" where
  "one_of cs c \<longleftrightarrow> c \<in> set (lit cs)"

text \<open>Character sets under IGNORECASE, and the white space and quotes that end a value.\<close>

definition word_or :: "string \<Rightarrow> nat \<Rightarrow> bool" where
  "word_or cs c \<longleftrightarrow> ascii_alnum (fold_case c) \<or> one_of cs c"

definition value_char :: "nat \<Rightarrow> bool" where
  "value_char c \<longleftrightarrow> \<not> is_space c \<and> c \<notin> {34, 39, 60, 62}"

definition any_cases :: "string list \<Rightarrow> rx" where
  "any_cases ts = alt_of (map any_case ts)"

text \<open>\<open>api[-_]?key\<close> and its like.\<close>

definition joined :: "string \<Rightarrow> string \<Rightarrow> rx" where
  "joined a b = Seq (any_case a) (Seq (Opt (Class (one_of ''-_''))) (any_case b))"

definition SENSITIVE_KEY_RE :: rx where
  "SENSITIVE_KEY_RE = alt_of [any_cases [''authorization'', ''cookie'', ''token'', ''secret'', ''password'',
     ''passwd'', ''credential''], joined ''api'' ''key'', any_cases [''session'', ''jwt'', ''bearer'']]"

text \<open>A rule: the parts of the pattern, how many of them stay in front, the new text, how many stay behind.\<close>

record redaction_rule =
  rule_parts :: "rx list"
  rule_front :: nat
  rule_put :: ustr
  rule_back :: nat

definition rule :: "rx list \<Rightarrow> nat \<Rightarrow> ustr \<Rightarrow> nat \<Rightarrow> redaction_rule" where
  "rule parts front put back = \<lparr>rule_parts = parts, rule_front = front, rule_put = put, rule_back = back\<rparr>"

definition BEARER_RE :: redaction_rule where
  "BEARER_RE = rule [Word_edge, any_case ''Bearer'', Plus (Class is_space), Plus (Class (word_or ''._~+/=-''))]
     0 (lit ''Bearer '' @ REDACTION) 0"

definition BASIC_RE :: redaction_rule where
  "BASIC_RE = rule [Word_edge, any_case ''Basic'', Plus (Class is_space), Plus (Class (word_or ''+/=-''))]
     0 (lit ''Basic '' @ REDACTION) 0"

definition COOKIE_LINE_RE :: redaction_rule where
  "COOKIE_LINE_RE = rule [Seq Word_edge (any_cases [''Set-Cookie'', ''Cookie'']),
     seq_of [Many (Class is_space), Class (\<lambda>c. c = 58), Many (Class is_space), Plus (Class (\<lambda>c. c \<noteq> 13 \<and> c \<noteq> 10))]]
     1 (lit '': '' @ REDACTION) 0"

definition plain_or :: "string \<Rightarrow> nat \<Rightarrow> bool" where
  "plain_or cs c \<longleftrightarrow> ascii_alnum c \<or> one_of cs c"

definition OPENAI_KEY_RE :: redaction_rule where
  "OPENAI_KEY_RE = rule [Alt
     (seq_of [Word_edge, exactly ''sk-proj-'', At_least 8 (Class (plain_or ''_-'')), Word_edge])
     (seq_of [Word_edge, exactly ''sk-'', At_least 8 (Class (plain_or ''_-'')), Word_edge])] 0 REDACTION 0"

definition GITHUB_TOKEN_RE :: redaction_rule where
  "GITHUB_TOKEN_RE = rule [seq_of [Word_edge, alt_of (map exactly [''ghp'', ''gho'', ''ghu'', ''ghs'', ''github_pat'']),
     exactly ''_'', At_least 8 (Class (plain_or ''_'')), Word_edge]] 0 REDACTION 0"

definition QUERY_SECRET_RE :: redaction_rule where
  "QUERY_SECRET_RE = rule [seq_of [Alt Text_start (Class (one_of ''?&'')),
       alt_of [joined ''api'' ''key'', joined ''access'' ''token'', joined ''refresh'' ''token'', joined ''id'' ''token'',
         any_cases [''token'', ''key'', ''secret''], joined ''client'' ''secret'',
         any_cases [''password'', ''credential'', ''code'', ''sig'', ''signature'']], exactly ''=''],
     Plus (Class (\<lambda>c. value_char c \<and> c \<noteq> 38))] 1 REDACTION 0"

definition URL_RE :: redaction_rule where
  "URL_RE = rule [any_case ''http'', Opt (any_case ''s''), exactly ''://'', Plus (Class value_char)]
     0 (lit ''[REDACTED_URL]'') 0"

definition WINDOWS_PATH_RE :: redaction_rule where
  "WINDOWS_PATH_RE = rule [Word_edge, Class (\<lambda>c. ascii_upper c \<or> ascii_lower c), exactly '':'', Class (\<lambda>c. c = 92),
     Plus (Class value_char)] 0 LOCAL_ROOT_REDACTION 0"

definition UNC_PATH_RE :: redaction_rule where
  "UNC_PATH_RE = rule [Class (\<lambda>c. c = 92), Class (\<lambda>c. c = 92), Plus (Class (\<lambda>c. value_char c \<and> c \<noteq> 92)),
     Class (\<lambda>c. c = 92), Plus (Class value_char)] 0 LOCAL_ROOT_REDACTION 0"

definition POSIX_PRIVATE_PATH_RE :: redaction_rule where
  "POSIX_PRIVATE_PATH_RE = rule [exactly ''/'', alt_of (map exactly [''Users'', ''home'', ''var/folders'', ''var/tmp'', ''tmp'']),
     exactly ''/'', Plus (Class value_char)] 0 LOCAL_ROOT_REDACTION 0"

definition secret_name :: rx where
  "secret_name = seq_of [Many (Class (word_or ''_-'')),
     alt_of [any_cases [''token'', ''secret'', ''password'', ''credential''], joined ''api'' ''key''],
     Many (Class (word_or ''_-''))]"

definition quote_char :: "nat \<Rightarrow> bool" where
  "quote_char c \<longleftrightarrow> c = 34 \<or> c = 39"

definition assign_part :: rx where
  "assign_part = seq_of [Many (Class is_space), Class (one_of '':=''), Many (Class is_space)]"

definition QUOTED_SECRET_ASSIGNMENT_RE :: redaction_rule where
  "QUOTED_SECRET_ASSIGNMENT_RE = rule [seq_of [Opt (Class quote_char), secret_name, Opt (Class quote_char), assign_part,
       Class quote_char], Plus (Class (\<lambda>c. \<not> quote_char c)), Class quote_char] 1 REDACTION 1"

definition SECRET_ASSIGNMENT_RE :: redaction_rule where
  "SECRET_ASSIGNMENT_RE = rule [Seq Word_edge secret_name, assign_part,
     Plus (Class (\<lambda>c. \<not> is_space c \<and> \<not> one_of '',;&'' c \<and> \<not> quote_char c))] 2 REDACTION 0"

definition REDACTION_RULES :: "redaction_rule list" where
  "REDACTION_RULES = [BEARER_RE, BASIC_RE, COOKIE_LINE_RE, OPENAI_KEY_RE, GITHUB_TOKEN_RE, QUERY_SECRET_RE, URL_RE,
     WINDOWS_PATH_RE, UNC_PATH_RE, POSIX_PRIVATE_PATH_RE, QUOTED_SECRET_ASSIGNMENT_RE, SECRET_ASSIGNMENT_RE]"

definition apply_rule :: "redaction_rule \<Rightarrow> ustr \<Rightarrow> ustr" where
  "apply_rule r s = re_sub (rule_parts r) (rule_front r) (rule_put r) (rule_back r) s"

definition hide_root :: "ustr \<Rightarrow> ustr \<Rightarrow> ustr" where
  "hide_root dir s = (if dir \<noteq> [] then replace_all dir LOCAL_ROOT_REDACTION s else s)"

definition redact_string :: "ustr list \<Rightarrow> ustr \<Rightarrow> ustr" where
  "redact_string local_roots value = fold apply_rule REDACTION_RULES (fold hide_root local_roots value)"

definition is_sensitive_key :: "ustr \<Rightarrow> bool" where
  "is_sensitive_key key \<longleftrightarrow> matches_somewhere SENSITIVE_KEY_RE key"

fun redact_value :: "ustr list \<Rightarrow> pyval \<Rightarrow> pyval" where
  "redact_value roots (PDict kvs) =
     PDict (map (\<lambda>(k, v). (k, if is_sensitive_key k then PStr REDACTION else redact_value roots v)) kvs)"
| "redact_value roots (PList vs) = PList (map (redact_value roots) vs)"
| "redact_value roots (PStr s) = PStr (redact_string roots s)"
| "redact_value roots v = v"

text \<open>
  The configured roots as texts; \<open>resolve\<close> is \<open>expanduser().resolve()\<close>, None when it raises OSError. The
  source sorts a set by length, so that texts of one length come in any order.
\<close>

definition local_root_strings :: "(ustr \<Rightarrow> ustr option) \<Rightarrow> ustr list \<Rightarrow> ustr list" where
  "local_root_strings resolve dirs =
     (let candidates = concat (map (\<lambda>d. d # (case resolve d of Some r \<Rightarrow> [r] | None \<Rightarrow> [])) dirs);
          normalized = filter (\<lambda>c. c \<noteq> []) (map strip candidates)
      in sort_key (\<lambda>v. - int (length v)) (remdups (concat (map (\<lambda>v. [v, replace_char 92 [47] v]) normalized))))"

section \<open>The log path\<close>

datatype log_option = Log_default | Log_switch bool | Log_path ustr | Log_text ustr

definition DEFAULT_IO_LOG_PATH :: ustr where "DEFAULT_IO_LOG_PATH = lit ''.runtime-logs/llmwiki-serve-io.jsonl''"

definition IO_LOG_OFF_VALUES :: "ustr list" where
  "IO_LOG_OFF_VALUES = map lit [''0'', ''false'', ''no'', ''off'', ''none'', ''disabled'', ''disable'']"

definition IO_LOG_ON_VALUES :: "ustr list" where
  "IO_LOG_ON_VALUES = map lit [''1'', ''true'', ''yes'', ''on'']"

definition resolve_io_log_path :: "ustr option \<Rightarrow> log_option \<Rightarrow> ustr option" where
  "resolve_io_log_path env value =
     (case (if value = Log_default then (case env of None \<Rightarrow> Log_default | Some t \<Rightarrow> Log_text t) else value) of
        Log_default \<Rightarrow> Some DEFAULT_IO_LOG_PATH
      | Log_switch b \<Rightarrow> if b then Some DEFAULT_IO_LOG_PATH else None
      | Log_path p \<Rightarrow> Some p
      | Log_text t \<Rightarrow> (let n = strip t
          in if n = [] \<or> lower n \<in> set IO_LOG_ON_VALUES then Some DEFAULT_IO_LOG_PATH
             else if lower n \<in> set IO_LOG_OFF_VALUES then None else Some n))"

section \<open>Headers and bodies\<close>

type_synonym headers = "(ustr, ustr) dict"

text \<open>Latin-1 bytes are the code points of the text.\<close>

definition add_header :: "ustr \<times> ustr \<Rightarrow> headers \<Rightarrow> headers" where
  "add_header kv d =
     (let key = lower (fst kv)
      in AList.update key (case map_of d key of Some v \<Rightarrow> v @ lit '', '' @ snd kv | None \<Rightarrow> snd kv) d)"

definition decode_headers :: "(ustr \<times> ustr) list \<Rightarrow> headers" where
  "decode_headers raw = fold add_header raw []"

definition header_value :: "headers \<Rightarrow> string \<Rightarrow> ustr" where
  "header_value d name = dict_get d (lower (lit name)) []"

definition is_json_content :: "ustr \<Rightarrow> ustr \<Rightarrow> bool" where
  "is_json_content content_type body \<longleftrightarrow> contains (lower content_type) (lit ''json'') \<or>
     starts_with (lstrip_by is_space body) [123] \<or> starts_with (lstrip_by is_space body) [91]"

definition redact_headers :: "ustr list \<Rightarrow> headers \<Rightarrow> headers" where
  "redact_headers roots d = map (\<lambda>(k, v). (k, if is_sensitive_key k then REDACTION else redact_string roots v)) d"

record io_env =
  io_decode :: "nat list \<Rightarrow> ustr"
  io_loads :: "ustr \<Rightarrow> pyval option"

definition body_summary :: "io_env \<Rightarrow> ustr list \<Rightarrow> nat list \<Rightarrow> nat \<Rightarrow> headers \<Rightarrow> bool \<Rightarrow> (ustr, pyval) dict" where
  "body_summary env roots body total_size headers captured =
     (let summary = [(lit ''captured'', PBool captured), (lit ''size_bytes'', PInt (int total_size)),
            (lit ''captured_bytes'', PInt (int (length body))), (lit ''truncated'', PBool (total_size > length body))];
          content = io_decode env body;
          parsed = (if is_json_content (header_value headers ''content-type'') content \<and> \<not> total_size > length body
            then io_loads env content else None)
      in if \<not> captured \<or> total_size = 0 then summary
         else (case parsed of
                 Some v \<Rightarrow> summary @ [(lit ''json'', redact_value roots v)]
               | None \<Rightarrow> if content \<noteq> [] then summary @ [(lit ''text'', redact_value roots (PStr content))] else summary))"


section \<open>The middleware\<close>

text \<open>
  What the application does in the course of a request: it receives a message, sends one, or raises. For
  a message that is sent, the flag says whether the server's own \<open>send\<close> raises.
\<close>

datatype asgi_event =
    Received "nat list option"
  | Sent_start int "(ustr \<times> ustr) list" bool
  | Sent_body "nat list" bool bool
  | Sent_other bool
  | Raised

text \<open>One line of the log: the status, the bodies with their sizes, the headers, and the error.\<close>

record io_entry =
  ent_status :: int
  ent_request :: "nat list \<times> nat"
  ent_response_headers :: headers
  ent_response :: "nat list \<times> nat"
  ent_error :: bool

record io_state =
  io_captured :: "nat list"
  io_size :: nat
  io_resp_captured :: "nat list"
  io_resp_size :: nat
  io_resp_headers :: headers
  io_status :: int
  io_logged :: bool
  io_entries :: "io_entry list"

definition io_start :: io_state where
  "io_start = \<lparr>io_captured = [], io_size = 0, io_resp_captured = [], io_resp_size = 0, io_resp_headers = [],
     io_status = 500, io_logged = False, io_entries = []\<rparr>"

definition append_limited :: "nat list \<Rightarrow> nat list \<Rightarrow> nat list" where
  "append_limited target chunk =
     (if length target < MAX_BODY_CAPTURE_BYTES then target @ take (MAX_BODY_CAPTURE_BYTES - length target) chunk
      else target)"

definition BODY_CAPTURE_PATHS :: "ustr list" where
  "BODY_CAPTURE_PATHS = map lit [''/query'', ''/mcp'', ''/mcp/stream'', ''/message:send'']"

definition log_completed :: "io_state \<Rightarrow> io_state" where
  "log_completed st = st\<lparr>io_logged := True, io_entries := io_entries st @
     [\<lparr>ent_status = io_status st, ent_request = (io_captured st, io_size st), ent_response_headers = io_resp_headers st,
       ent_response = (io_resp_captured st, io_resp_size st), ent_error = False\<rparr>]\<rparr>"

definition log_failed :: "io_state \<Rightarrow> io_state" where
  "log_failed st = (if io_logged st then st else st\<lparr>io_entries := io_entries st @
     [\<lparr>ent_status = 500, ent_request = (io_captured st, io_size st), ent_response_headers = io_resp_headers st,
       ent_response = ([], 0), ent_error = True\<rparr>]\<rparr>)"

text \<open>\<open>logging_receive\<close> and \<open>logging_send\<close>; an exception of \<open>send\<close> goes to the application.\<close>

fun io_event :: "bool \<Rightarrow> asgi_event \<Rightarrow> io_state \<Rightarrow> io_state" where
  "io_event capture (Received None) st = st"
| "io_event capture (Received (Some body)) st = st\<lparr>io_size := io_size st + length body,
     io_captured := (if capture then append_limited (io_captured st) body else io_captured st)\<rparr>"
| "io_event capture (Sent_start status raw raises) st =
     st\<lparr>io_status := status, io_resp_headers := decode_headers raw\<rparr>"
| "io_event capture (Sent_body body unfinished raises) st =
     (let st' = st\<lparr>io_resp_size := io_resp_size st + length body,
            io_resp_captured := append_limited (io_resp_captured st) body\<rparr>
      in if \<not> raises \<and> \<not> unfinished then log_completed st' else st')"
| "io_event capture (Sent_other raises) st = st"
| "io_event capture Raised st = log_failed st"

text \<open>The application ends by returning or by raising.\<close>

fun io_run :: "bool \<Rightarrow> asgi_event list \<Rightarrow> io_state \<Rightarrow> io_state" where
  "io_run capture [] st = st"
| "io_run capture (e # events) st =
     (if e = Raised then io_event capture e st else io_run capture events (io_event capture e st))"

definition serve_request :: "ustr \<Rightarrow> asgi_event list \<Rightarrow> io_state" where
  "serve_request path events = io_run (path \<in> set BODY_CAPTURE_PATHS) events io_start"

text \<open>The event that is written for an entry; \<open>stamp\<close> are the id, time and duration.\<close>

record io_request =
  rq_method :: ustr
  rq_path :: ustr
  rq_query_string :: ustr
  rq_headers :: headers

definition headers_payload :: "headers \<Rightarrow> pyval" where
  "headers_payload d = PDict (map (\<lambda>(k, v). (k, PStr v)) d)"

definition event_payload ::
  "io_env \<Rightarrow> ustr list \<Rightarrow> io_request \<Rightarrow> (ustr, pyval) dict \<Rightarrow> io_entry \<Rightarrow> pyval" where
  "event_payload env roots rq stamp e = PDict
     ([(lit ''schema'', PStr (lit ''llmwiki-serve-io-log-v1'')), (lit ''event'', PStr (lit ''serve_io''))] @ stamp @
      [(lit ''method'', PStr (rq_method rq)), (lit ''path'', PStr (rq_path rq)),
       (lit ''query_string'', PStr (rq_query_string rq)), (lit ''status'', PInt (ent_status e)),
       (lit ''request'', PDict [(lit ''headers'', headers_payload (redact_headers roots (rq_headers rq))),
          (lit ''body'', PDict (body_summary env roots (fst (ent_request e)) (snd (ent_request e)) (rq_headers rq)
             (rq_path rq \<in> set BODY_CAPTURE_PATHS)))]),
       (lit ''response'', PDict [(lit ''headers'', headers_payload (redact_headers roots (ent_response_headers e))),
          (lit ''body'', PDict (body_summary env roots (fst (ent_response e)) (snd (ent_response e))
             (ent_response_headers e) True))])] @
      (if ent_error e then [(lit ''error'', PStr (lit ''unhandled_exception''))] else []))"

definition written_event ::
  "io_env \<Rightarrow> ustr list \<Rightarrow> io_request \<Rightarrow> (ustr, pyval) dict \<Rightarrow> io_entry \<Rightarrow> pyval" where
  "written_event env roots rq stamp e = redact_value roots (event_payload env roots rq stamp e)"

end
