(* ===== verification/Action_Judgment.thy ===== *)
theory Action_Judgment
  imports Io_Log Read_Focus
begin

text \<open>
  The optional judgment of the next retrieval action of \<open>query_action_judgment.py\<close>: its configuration,
  the minimised state that is sent to an external provider, and the guidance read from the answer. The
  environment is a function, as are \<open>int\<close> and \<open>float\<close> on texts, the JSON encoding of the request, the
  HTTP exchange and the decoding of the answer (UTF-8 and \<open>json.loads\<close>).
\<close>

section \<open>Configuration\<close>

definition DEFAULT_QUERY_ACTION_JUDGE_ENDPOINT :: ustr where
  "DEFAULT_QUERY_ACTION_JUDGE_ENDPOINT = lit ''https://api.typesafe.ai/v1/systemone''"

definition DEFAULT_QUERY_ACTION_JUDGE_MODEL :: ustr where "DEFAULT_QUERY_ACTION_JUDGE_MODEL = lit ''jev-latest''"
definition DEFAULT_QUERY_ACTION_JUDGE_TIMEOUT_MS :: int where "DEFAULT_QUERY_ACTION_JUDGE_TIMEOUT_MS = 3000"
definition MAX_PROVIDER_RESPONSE_BYTES :: nat where "MAX_PROVIDER_RESPONSE_BYTES = 1000000"
definition MAX_ACTION_TARGETS :: nat where "MAX_ACTION_TARGETS = 3"

definition OFF_VALUES :: "ustr list" where
  "OFF_VALUES = map lit ['''', ''0'', ''false'', ''no'', ''off'', ''none'', ''disabled'', ''disable'']"

definition SYSTEM_ONE_VALUES :: "ustr list" where
  "SYSTEM_ONE_VALUES = map lit [''system-one'', ''system_one'', ''systemone'', ''jev'', ''typesafe'']"

record judge_config =
  jc_mode :: ustr
  jc_endpoint :: ustr
  jc_model :: ustr
  jc_api_key :: "ustr option"
  jc_timeout_ms :: int

definition default_judge_config :: judge_config where
  "default_judge_config = \<lparr>jc_mode = lit ''off'', jc_endpoint = DEFAULT_QUERY_ACTION_JUDGE_ENDPOINT,
     jc_model = DEFAULT_QUERY_ACTION_JUDGE_MODEL, jc_api_key = None,
     jc_timeout_ms = DEFAULT_QUERY_ACTION_JUDGE_TIMEOUT_MS\<rparr>"

definition judge_enabled :: "judge_config \<Rightarrow> bool" where
  "judge_enabled c \<longleftrightarrow> jc_mode c = lit ''system-one''"

record 'body judge_env =
  je_getenv :: "string \<Rightarrow> ustr option"
  je_int :: "ustr \<Rightarrow> int option"
  je_float :: "ustr \<Rightarrow> float_value option"
  je_encode :: "pyval \<Rightarrow> 'body option"
  je_http :: "judge_config \<Rightarrow> 'body \<Rightarrow> (int \<times> nat list) option"
  je_loads :: "nat list \<Rightarrow> pyval option"

definition normalize_query_action_judge_mode :: "ustr option \<Rightarrow> ustr res" where
  "normalize_query_action_judge_mode v =
     (let normalized = lower (strip (case v of None \<Rightarrow> [] | Some s \<Rightarrow> s))
      in if normalized \<in> set OFF_VALUES then Inr (lit ''off'')
         else if normalized \<in> set SYSTEM_ONE_VALUES then Inr (lit ''system-one'')
         else Inl (ValueError ''LLMWIKI_QUERY_ACTION_JUDGE must be off or system-one''))"

definition string_env :: "'b judge_env \<Rightarrow> string \<Rightarrow> ustr option" where
  "string_env env name =
     (case je_getenv env name of None \<Rightarrow> None
      | Some v \<Rightarrow> if strip v = [] then None else Some (strip v))"

fun first_string_env :: "'b judge_env \<Rightarrow> string list \<Rightarrow> ustr option" where
  "first_string_env env [] = None"
| "first_string_env env (name # names) =
     (case string_env env name of Some v \<Rightarrow> Some v | None \<Rightarrow> first_string_env env names)"

definition endpoint_from_env :: "'b judge_env \<Rightarrow> ustr" where
  "endpoint_from_env env =
     (case string_env env ''LLMWIKI_QUERY_ACTION_JUDGE_ENDPOINT'' of
        Some e \<Rightarrow> e
      | None \<Rightarrow>
          (case string_env env ''LLMWIKI_QUERY_ACTION_JUDGE_BASE_URL'' of
             Some base \<Rightarrow> (let trimmed = rstrip_by (\<lambda>c. c = 47) base
                in if ends_with trimmed (lit ''/systemone'') then trimmed else trimmed @ lit ''/systemone'')
           | None \<Rightarrow> DEFAULT_QUERY_ACTION_JUDGE_ENDPOINT))"

definition timeout_ms_from_env :: "'b judge_env \<Rightarrow> int res" where
  "timeout_ms_from_env env =
     (case string_env env ''LLMWIKI_QUERY_ACTION_JUDGE_TIMEOUT_MS'' of
        None \<Rightarrow> Inr DEFAULT_QUERY_ACTION_JUDGE_TIMEOUT_MS
      | Some v \<Rightarrow>
          (case je_int env v of
             None \<Rightarrow> Inl (ValueError ''LLMWIKI_QUERY_ACTION_JUDGE_TIMEOUT_MS must be an integer'')
           | Some n \<Rightarrow>
               if n \<le> 0 then Inl (ValueError ''LLMWIKI_QUERY_ACTION_JUDGE_TIMEOUT_MS must be positive'')
               else Inr n))"

datatype judge_option = Judge_default | Judge_text ustr | Judge_config judge_config

definition checked_judge_config :: "judge_config \<Rightarrow> judge_config res" where
  "checked_judge_config c =
     bind_res (normalize_query_action_judge_mode (Some (jc_mode c))) (\<lambda>mode.
       let endpoint = (if strip (jc_endpoint c) = [] then DEFAULT_QUERY_ACTION_JUDGE_ENDPOINT else strip (jc_endpoint c));
           model = (if strip (jc_model c) = [] then DEFAULT_QUERY_ACTION_JUDGE_MODEL else strip (jc_model c))
       in if jc_timeout_ms c \<le> 0 then Inl (ValueError ''query_action_judge timeout_ms must be positive'')
          else Inr (c\<lparr>jc_mode := mode, jc_endpoint := endpoint, jc_model := model\<rparr>))"

text \<open>The configuration with a given mode and the rest from the environment.\<close>

definition judge_config_with_mode :: "'b judge_env \<Rightarrow> ustr option \<Rightarrow> judge_config res" where
  "judge_config_with_mode env v =
     bind_res (normalize_query_action_judge_mode v) (\<lambda>mode.
     bind_res (timeout_ms_from_env env) (\<lambda>timeout.
       checked_judge_config \<lparr>jc_mode = mode, jc_endpoint = endpoint_from_env env,
         jc_model = (case string_env env ''LLMWIKI_QUERY_ACTION_JUDGE_MODEL'' of
                       None \<Rightarrow> DEFAULT_QUERY_ACTION_JUDGE_MODEL | Some m \<Rightarrow> m),
         jc_api_key = first_string_env env [''LLMWIKI_QUERY_ACTION_JUDGE_API_KEY'', ''TYPESAFE_API_KEY'', ''JEV_API_KEY''],
         jc_timeout_ms = timeout\<rparr>))"

definition query_action_judge_config_from_env :: "'b judge_env \<Rightarrow> judge_config res" where
  "query_action_judge_config_from_env env =
     judge_config_with_mode env (je_getenv env ''LLMWIKI_QUERY_ACTION_JUDGE'')"

fun validate_query_action_judge_config :: "'b judge_env \<Rightarrow> judge_option \<Rightarrow> judge_config res" where
  "validate_query_action_judge_config env Judge_default = Inr default_judge_config"
| "validate_query_action_judge_config env (Judge_text t) = judge_config_with_mode env (Some t)"
| "validate_query_action_judge_config env (Judge_config c) = checked_judge_config c"

section \<open>The context that is judged\<close>

text \<open>
  A result after the projection to the requested fields: a field that was not requested has its
  default.
\<close>

record context_item =
  ci_page_id :: ustr
  ci_title :: ustr
  ci_path :: ustr
  ci_score :: real
  ci_snippet :: ustr
  ci_role :: ustr
  ci_source_refs :: "ustr list"
  ci_route :: ustr

definition context_item_of :: "ustr list option \<Rightarrow> search_result \<Rightarrow> context_item" where
  "context_item_of wanted r =
     (let has = (\<lambda>f. case normalize_search_result_fields wanted of None \<Rightarrow> True | Some fs \<Rightarrow> lit f \<in> set fs)
      in \<lparr>ci_page_id = (if has ''page_id'' then res_page_id r else []),
          ci_title = (if has ''title'' then res_title r else []),
          ci_path = (if has ''path'' then res_path r else []),
          ci_score = (if has ''score'' then res_score r else 0),
          ci_snippet = (if has ''snippet'' then res_snippet r else []),
          ci_role = (if has ''role'' then role_str (res_role r) else []),
          ci_source_refs = (if has ''source_refs'' then res_source_refs r else []),
          ci_route = (if has ''route'' then res_route r else [])\<rparr>)"

record context_pack =
  cp_query :: ustr
  cp_wiki_title :: ustr
  cp_description :: ustr
  cp_adapter :: ustr
  cp_implementation :: ustr
  cp_page_count :: nat
  cp_approved_page_count :: nat
  cp_answerable :: bool
  cp_orientation :: "context_item list"
  cp_evidence :: "context_item list"
  cp_limitations :: "ustr list"
  cp_graph :: "graph_node list \<times> graph_edge list"
  cp_guidance :: "retrieval_guidance option"
  cp_action :: "retrieval_action_guidance option"

section \<open>The minimised state\<close>

definition score_bucket :: "real \<Rightarrow> string" where
  "score_bucket score =
     (if score \<le> 0 then ''zero'' else if score < 1 then ''low'' else if score < 3 then ''medium''
      else if score < 8 then ''high'' else ''very_high'')"

definition path_depth :: "ustr \<Rightarrow> nat" where
  "path_depth path =
     (let normalized = strip_chars [47] (replace_char 92 [47] path)
      in if normalized = [] then 0 else length (filter (\<lambda>part. part \<noteq> []) (split_char 47 normalized)))"

definition tokenize_for_overlap :: "ustr \<Rightarrow> ustr list" where
  "tokenize_for_overlap s = map lower (word_tokens s)"

definition query_overlap_ratio :: "ustr \<Rightarrow> ustr list \<Rightarrow> real" where
  "query_overlap_ratio query texts =
     (let query_tokens = remdups (tokenize_for_overlap query);
          text_tokens = concat (map tokenize_for_overlap texts)
      in if query_tokens = [] then 0
         else py_round (real (length (filter (\<lambda>t. t \<in> set text_tokens) query_tokens)) / real (length query_tokens)) 3)"

definition EMAIL_RE :: redaction_rule where
  "EMAIL_RE = rule [Word_edge, Plus (Class (word_or ''._%+-'')), exactly ''@'', Plus (Class (word_or ''.-'')), exactly ''.'',
     At_least 2 (Class (\<lambda>c. ascii_lower (fold_case c))), Word_edge] 0 (lit ''[REDACTED_EMAIL]'') 0"

definition redact_provider_string :: "ustr list \<Rightarrow> ustr \<Rightarrow> ustr" where
  "redact_provider_string local_roots s = apply_rule EMAIL_RE (redact_string local_roots s)"

definition evidence_structural_summary :: "ustr \<Rightarrow> nat \<times> context_item \<Rightarrow> pyval" where
  "evidence_structural_summary query = (\<lambda>(i, item). PDict
     [(lit ''ordinal'', PInt (int i)), (lit ''role'', PStr (ci_role item)), (lit ''route'', PStr (ci_route item)),
      (lit ''score_bucket'', PStr (lit (score_bucket (ci_score item)))),
      (lit ''snippet_character_count'', PInt (int (length (ci_snippet item)))),
      (lit ''source_ref_count'', PInt (int (length (ci_source_refs item)))),
      (lit ''path_depth'', PInt (int (path_depth (ci_path item)))),
      (lit ''query_overlap_ratio'', PFloat (query_overlap_ratio query [ci_title item, ci_snippet item]))])"

definition text_dict :: "(string \<times> string) list \<Rightarrow> pyval" where
  "text_dict kvs = PDict (map (\<lambda>(k, v). (lit k, PStr (lit v))) kvs)"

definition query_action_judgment_questions :: pyval where
  "query_action_judgment_questions = PDict
     [(lit ''next_action'', PDict
        [(lit ''type'', PStr (lit ''choice'')),
         (lit ''instructions'', PStr (lit ''Choose the next read-only LLMWiki retrieval action after this masked query result.'')),
         (lit ''criteria'', text_dict
           [(''stop'', ''The current structural evidence appears sufficient; no immediate follow-up retrieval is needed.''),
            (''read'', ''One or more returned evidence pages should be read for deeper support before answering.''),
            (''search'', ''A refined lexical, vector, or hybrid search is likely more useful than reading the current evidence.''),
            (''graph'', ''Relationship structure, dependencies, source refs, tags, or links are likely important enough to inspect graph data.''),
            (''ask_clarification'', ''The query or structural evidence is too ambiguous for a useful next retrieval action.'')])]),
      (lit ''evidence_sufficiency_score'', PDict
        [(lit ''type'', PStr (lit ''score'')),
         (lit ''instructions'', PStr (lit ''Score whether the masked LLMWiki query result appears sufficient without another source-tool action.'')),
         (lit ''criteria'', PList (map (\<lambda>t. PStr (lit t))
           [''0 means the result is absent, weak, contradictory, or needs more retrieval.'',
            ''1 means the result is likely sufficient to stop retrieval for now.'']))]),
      (lit ''graph_context_useful'', PDict
        [(lit ''type'', PStr (lit ''bool'')),
         (lit ''instructions'', PStr (lit ''Does the structural state indicate graph context may improve the next step?'')),
         (lit ''criteria'', text_dict
           [(''true'', ''Graph counts, relation distribution, or source spread suggest graph inspection may help.''),
            (''false'', ''Graph context appears unnecessary or uninformative for this query.'')])])]"

definition summaries :: "ustr \<Rightarrow> context_item list \<Rightarrow> pyval" where
  "summaries query items =
     PList (map (evidence_structural_summary query) (List.enumerate 0 (take MAX_ACTION_TARGETS items)))"

definition build_system_one_payload :: "ustr list \<Rightarrow> judge_config \<Rightarrow> context_pack \<Rightarrow> pyval" where
  "build_system_one_payload local_roots c cp = PDict
     [(lit ''model'', PStr (jc_model c)),
      (lit ''state'', PDict
        [(lit ''schema_version'', PStr (lit ''llmwiki.query_action_judgment.state.v1'')),
         (lit ''gate'', PStr (lit ''query_action_guidance'')),
         (lit ''data_minimized'', PBool True),
         (lit ''query'', PDict
           [(lit ''redacted_text'', PStr (redact_provider_string local_roots (cp_query cp))),
            (lit ''character_count'', PInt (int (length (cp_query cp)))),
            (lit ''token_count'', PInt (int (length (tokenize_for_overlap (cp_query cp)))))]),
         (lit ''result'', PDict
           [(lit ''answerable'', PBool (cp_answerable cp)),
            (lit ''evidence_count'', PInt (int (length (cp_evidence cp)))),
            (lit ''orientation_count'', PInt (int (length (cp_orientation cp)))),
            (lit ''limitation_count'', PInt (int (length (cp_limitations cp)))),
            (lit ''graph_node_count'', PInt (int (length (fst (cp_graph cp))))),
            (lit ''graph_edge_count'', PInt (int (length (snd (cp_graph cp))))),
            (lit ''retrieval_guidance_present'', PBool (cp_guidance cp \<noteq> None))]),
         (lit ''evidence'', summaries (cp_query cp) (cp_evidence cp)),
         (lit ''orientation'', summaries (cp_query cp) (cp_orientation cp)),
         (lit ''allowed_actions'', PList (map (\<lambda>t. PStr (lit t))
            [''stop'', ''read'', ''search'', ''graph'', ''ask_clarification''])),
         (lit ''omitted_fields'', PList (map (\<lambda>t. PStr (lit t))
            [''raw_page_text'', ''raw_snippet_text'', ''page_id'', ''source_ref_labels'', ''raw_paths'', ''local_roots'']))]),
      (lit ''questions'', query_action_judgment_questions)]"

section \<open>The answer of the provider\<close>

text \<open>The answer read at most one byte beyond the limit; every failure raises.\<close>

definition call_system_one_provider :: "'b judge_env \<Rightarrow> pyval \<Rightarrow> judge_config \<Rightarrow> (ustr, pyval) dict res" where
  "call_system_one_provider env payload c =
     (case je_encode env payload of
        None \<Rightarrow> Inl (ValueError ''the payload cannot be encoded'')
      | Some body \<Rightarrow>
          (case je_http env c body of
             None \<Rightarrow> Inl (RuntimeError ''provider request failed'')
           | Some (status, answer) \<Rightarrow>
               let response_body = take (MAX_PROVIDER_RESPONSE_BYTES + 1) answer
               in if status < 200 \<or> status \<ge> 300 then Inl (RuntimeError ''provider returned non-success status'')
                  else if length response_body > MAX_PROVIDER_RESPONSE_BYTES
                  then Inl (RuntimeError ''provider response exceeded size limit'')
                  else (case je_loads env response_body of
                          None \<Rightarrow> Inl (RuntimeError ''provider returned invalid json'')
                        | Some (PDict d) \<Rightarrow> Inr d
                        | Some v \<Rightarrow> Inl (RuntimeError ''provider returned non-object json''))))"

fun dict_value :: "pyval \<Rightarrow> (ustr, pyval) dict" where
  "dict_value (PDict d) = d"
| "dict_value v = []"

fun answer_choice_in :: "(ustr, pyval) dict \<Rightarrow> string list \<Rightarrow> ustr option" where
  "answer_choice_in answer [] = None"
| "answer_choice_in answer (key # keys) =
     (case pget answer key of PStr s \<Rightarrow> Some s | _ \<Rightarrow> answer_choice_in answer keys)"

definition answer_choice :: "(ustr, pyval) dict \<Rightarrow> ustr option" where
  "answer_choice answer = answer_choice_in answer [''choice'', ''answer'', ''value'']"

definition ACTION_ALIASES :: "(ustr \<times> action_decision) list" where
  "ACTION_ALIASES = map (\<lambda>(k, a). (lit k, a))
     [(''none'', Act_stop), (''stop'', Act_stop), (''done'', Act_stop), (''read'', Act_read), (''read_page'', Act_read),
      (''search'', Act_search), (''query'', Act_search), (''refine_search'', Act_search), (''graph'', Act_graph),
      (''inspect_graph'', Act_graph), (''expand_neighbors'', Act_graph), (''graph_neighbors'', Act_graph),
      (''ask_clarification'', Act_ask_clarification), (''clarify'', Act_ask_clarification)]"

definition normalize_action :: "ustr option \<Rightarrow> action_decision option" where
  "normalize_action v =
     map_of ACTION_ALIASES (replace_char 45 [95] (lower (strip (case v of None \<Rightarrow> [] | Some s \<Rightarrow> s))))"

fun action_str :: "action_decision \<Rightarrow> string" where
  "action_str Act_stop = ''stop''"
| "action_str Act_read = ''read''"
| "action_str Act_search = ''search''"
| "action_str Act_graph = ''graph''"
| "action_str Act_ask_clarification = ''ask_clarification''"

text \<open>\<open>max(0.0, min(1.0, value))\<close>: both keep their first argument when the comparison with NaN fails.\<close>

fun clamp_score :: "float_value \<Rightarrow> real" where
  "clamp_score (Finite x) = max 0 (min 1 x)"
| "clamp_score Pos_inf = 1"
| "clamp_score Neg_inf = 0"
| "clamp_score Not_a_number = 1"

definition numeric_answer :: "'b judge_env \<Rightarrow> (ustr, pyval) dict \<Rightarrow> string \<Rightarrow> real option res" where
  "numeric_answer env answer key =
     (case pget answer key of
        PBool b \<Rightarrow> Inr (Some (if b then 1 else 0))
      | PInt i \<Rightarrow>
          if \<bar>i\<bar> < 2 ^ 1024 - 2 ^ 970 then Inr (Some (clamp_score (Finite (of_int i))))
          else Inl (OverflowError ''int too large to convert to float'')
      | PFloat x \<Rightarrow> Inr (Some (clamp_score (Finite x)))
      | PStr s \<Rightarrow> Inr (map_option clamp_score (je_float env s))
      | _ \<Rightarrow> Inr None)"

definition add_target :: "ustr \<Rightarrow> ustr list \<Rightarrow> ustr list" where
  "add_target i ids = (if i \<noteq> [] \<and> i \<notin> set ids then ids @ [i] else ids)"

fun top_page_ids_from :: "ustr list \<Rightarrow> context_item list \<Rightarrow> ustr list" where
  "top_page_ids_from ids [] = ids"
| "top_page_ids_from ids (item # items) =
     (let ids' = add_target (ci_page_id item) ids
      in if length ids' \<ge> MAX_ACTION_TARGETS then ids' else top_page_ids_from ids' items)"

definition top_page_ids :: "context_item list \<Rightarrow> ustr list" where
  "top_page_ids items = top_page_ids_from [] items"

definition action_guidance :: "guidance_status \<Rightarrow> ustr list \<Rightarrow> retrieval_action_guidance" where
  "action_guidance status diagnostics = \<lparr>ag_status = status, ag_recommended_action = None, ag_confidence = None,
     ag_evidence_sufficiency_score = None, ag_read_page_ids = [], ag_search_queries = [], ag_graph_seeds = [],
     ag_reasons = [], ag_diagnostics = diagnostics\<rparr>"

definition guidance_from_provider_response ::
  "'b judge_env \<Rightarrow> context_pack \<Rightarrow> (ustr, pyval) dict \<Rightarrow> retrieval_action_guidance res" where
  "guidance_from_provider_response env cp response =
     (let answers = dict_value (pget response ''answers'');
          next_action = dict_value (pget answers ''next_action'');
          targets = top_page_ids (cp_evidence cp)
      in case normalize_action (answer_choice next_action) of
           None \<Rightarrow> Inl (RuntimeError ''provider returned invalid action'')
         | Some action \<Rightarrow>
             bind_res (numeric_answer env (dict_value (pget answers ''evidence_sufficiency_score'')) ''score'') (\<lambda>sufficiency.
             bind_res (numeric_answer env next_action ''confidence'') (\<lambda>confidence.
               Inr \<lparr>ag_status = Gs_ok, ag_recommended_action = Some action, ag_confidence = confidence,
                 ag_evidence_sufficiency_score = sufficiency,
                 ag_read_page_ids = (if action = Act_read then targets else []),
                 ag_search_queries = (if action = Act_search then [cp_query cp] else []),
                 ag_graph_seeds = (if action = Act_graph then targets else []),
                 ag_reasons = [lit ''System-One selected '' @ lit (action_str action) @
                                 lit '' from masked query-action judgment.''],
                 ag_diagnostics = []\<rparr>)))"

definition judged_guidance ::
  "'b judge_env \<Rightarrow> ustr list \<Rightarrow> judge_config \<Rightarrow> context_pack \<Rightarrow> retrieval_action_guidance" where
  "judged_guidance env local_roots c cp =
     (case bind_res (call_system_one_provider env (build_system_one_payload local_roots c cp) c)
             (guidance_from_provider_response env cp) of
        Inl e \<Rightarrow> action_guidance Gs_failed [lit ''provider_failed'']
      | Inr g \<Rightarrow> g)"

definition apply_query_action_judgment ::
  "'b judge_env \<Rightarrow> ustr list \<Rightarrow> judge_option \<Rightarrow> context_pack \<Rightarrow> context_pack res" where
  "apply_query_action_judgment env local_roots option cp =
     bind_res (validate_query_action_judge_config env option) (\<lambda>c.
       if \<not> judge_enabled c then Inr cp
       else if jc_api_key c = None \<or> jc_api_key c = Some []
       then Inr (cp\<lparr>cp_action := Some (action_guidance Gs_unconfigured [lit ''missing_api_key''])\<rparr>)
       else Inr (cp\<lparr>cp_action := Some (judged_guidance env local_roots c cp)\<rparr>))"

end
