(* ===== verification/Service_Context.thy ===== *)
theory Service_Context
  imports Vector_Service Managed_Runtime Action_Judgment
begin

text \<open>
  The three requests of \<open>LlmWikiService\<close> that use the managed context: \<open>search\<close>, \<open>context\<close> and \<open>read\<close>,
  each composed as the source composes it of the index snapshot, the views, the ranking with the prior,
  the orientation, the recording of hits, the retrieval guidance and the judgment of the next action. The
  state of a request is that of the service and of the sidecar.
\<close>

record 'b site =
  site_externals :: externals
  site_cfg :: service_config
  site_guide :: guide_env
  site_managed :: managed_env
  site_mc :: managed_config
  site_vector :: vector_site
  site_judge_env :: "'b judge_env"
  site_judge :: judge_config
  site_roots :: "ustr list"
  site_graph_limit :: nat
  site_dump :: "okf_metadata \<Rightarrow> pyval"
  site_nfkc :: "ustr \<Rightarrow> ustr"

record site_state =
  ss_service :: service_state
  ss_sidecar :: sidecar
  ss_vector :: vector_state

text \<open>What a request finds: the directory, the clock, the git generation, the wall clock and a fresh salt.\<close>

record moment =
  at_tree :: source_tree
  at_clock :: real
  at_generation :: nat
  at_time :: real
  at_salt :: ustr

record query_request =
  qr_query :: ustr
  qr_include_drafts :: bool
  qr_mode :: search_mode
  qr_variants :: pyval
  qr_limit :: nat
  qr_fields :: "ustr list option"
  qr_snippet_chars :: "int option"
  qr_min_score :: "real option"
  qr_exclude :: "ustr list"

definition request_options :: "query_request \<Rightarrow> search_options" where
  "request_options q = \<lparr>opt_limit = qr_limit q, opt_snippet_chars = qr_snippet_chars q,
     opt_min_score = qr_min_score q, opt_exclude = qr_exclude q, opt_prior = None, opt_band = 0\<rparr>"

definition managed_context_scope :: "'b site \<Rightarrow> retrieval_snapshot \<Rightarrow> managed_scope" where
  "managed_context_scope s snapshot =
     \<lparr>ms_namespace = mc_namespace (site_mc s), ms_source_id = service_source_id (site_cfg s) (rs_index snapshot),
      ms_adapter = idx_adapter (rs_index snapshot),
      ms_projection = managed_projection_signature_digest (site_externals s) (rs_projection snapshot),
      ms_source = source_signature_digest (site_managed s) (rs_entries snapshot)\<rparr>"

section \<open>Ranked results\<close>

text \<open>The results without a prior. Only a vector or hybrid search changes the state of the provider.\<close>

definition plain_results ::
  "'b site \<Rightarrow> wiki_index \<Rightarrow> search_corpus \<Rightarrow> query_request \<Rightarrow> search_options \<Rightarrow> vector_state \<Rightarrow> search_result list res \<times> vector_state" where
  "plain_results s index c q opts vs =
     (let (found, vs') = vector_mode_results (site_vector s) (ext_stem (site_externals s)) index c (qr_query q)
            (qr_include_drafts q) (qr_mode q) opts vs
      in (search_result_objects (site_externals s) (site_guide s) (\<lambda>_. found) c (qr_query q) (qr_mode q) (qr_variants q) opts,
          if qr_mode q = Lexical \<or> qr_mode q = Literal
          then vs
          else case effective_lexical_query_channels (site_guide s) (qr_query q) (qr_variants q) (qr_mode q) of
                 Inl e \<Rightarrow> vs | Inr _ \<Rightarrow> vs'))"

text \<open>
  Whether the ranking asks the prior for a boost: only a lexical or literal ranking of two results or more
  does, and only with a positive band. Overview results are not ranked.
\<close>

definition ranked_together :: "search_result list \<Rightarrow> bool" where
  "ranked_together rs \<longleftrightarrow> 2 \<le> length (filter (\<lambda>r. res_route r \<noteq> lit ''overview'') rs)"

definition prior_asked :: "'b site \<Rightarrow> search_corpus \<Rightarrow> query_request \<Rightarrow> bool" where
  "prior_asked s c q \<longleftrightarrow>
     (let all_results = (request_options q)\<lparr>opt_limit := length (corpus_pages c)\<rparr>
      in mc_tie_band (site_mc s) > 0 \<and>
         (case effective_lexical_query_channels (site_guide s) (qr_query q) (qr_variants q) (qr_mode q) of
            Inl e \<Rightarrow> False
          | Inr channels \<Rightarrow>
              if qr_mode q = Lexical \<and> length channels > 1
              then list_ex (\<lambda>channel. ranked_together (lexical_search_corpus (ext_stem (site_externals s)) c channel all_results)) channels
              else (case search_in_corpus (ext_stem (site_externals s)) c (qr_query q) (qr_mode q) all_results of
                      Inl e \<Rightarrow> False | Inr rs \<Rightarrow> ranked_together rs)))"

text \<open>The prior reads the sidecar when it is first asked; a failure raises then.\<close>

definition managed_results ::
  "'b site \<Rightarrow> wiki_index \<Rightarrow> search_corpus \<Rightarrow> query_request \<Rightarrow> managed_scope \<Rightarrow> real \<Rightarrow> sidecar \<Rightarrow> vector_state \<Rightarrow>
   search_result list res \<times> vector_state" where
  "managed_results s index c q scope now sc vs =
     (case managed_prior_function (site_managed s) (site_mc s) scope index now sc of
        Inr prior \<Rightarrow> plain_results s index c q ((request_options q)\<lparr>opt_prior := prior, opt_band := mc_tie_band (site_mc s)\<rparr>) vs
      | Inl e \<Rightarrow> then_state (plain_results s index c q (request_options q) vs)
          (\<lambda>rs vs'. (if prior_asked s c q then Inl e else Inr rs, vs')))"

section \<open>Search\<close>

text \<open>The snapshot and the corpus of a request, with the state after they were obtained.\<close>

definition request_corpus ::
  "'b site \<Rightarrow> moment \<Rightarrow> bool \<Rightarrow> service_state \<Rightarrow> (retrieval_snapshot \<times> search_corpus) res \<times> service_state" where
  "request_corpus s m include_drafts st =
     (case index_snapshot (site_externals s) (site_cfg s) (at_tree m) (at_clock m) (at_generation m) False st of
        (Inl e, st') \<Rightarrow> (Inl e, st')
      | (Inr snapshot, st') \<Rightarrow>
          (let (v, st1) = index_views_for (site_cfg s) (rs_index snapshot) st';
               (c, v') = views_search_corpus (site_externals s) include_drafts v
           in (Inr (snapshot, c), st1\<lparr>svc_views := Some v'\<rparr>)))"

definition record_result_hits ::
  "'b site \<Rightarrow> retrieval_snapshot \<Rightarrow> query_request \<Rightarrow> moment \<Rightarrow> search_result list \<Rightarrow> sidecar \<Rightarrow> unit res \<times> sidecar" where
  "record_result_hits s snapshot q m rs sc =
     record_hits (site_managed s) (site_mc s) (managed_context_scope s snapshot) (rs_index snapshot) (at_salt m)
       (managed_context_hit_page_ids rs) (qr_include_drafts q) (at_time m) sc"

definition search_request ::
  "'b site \<Rightarrow> moment \<Rightarrow> query_request \<Rightarrow> site_state \<Rightarrow> (ustr, pyval) dict list res \<times> site_state" where
  "search_request s m q st =
     (case request_corpus s m (qr_include_drafts q) (ss_service st) of
        (Inl e, svc) \<Rightarrow> (Inl e, st\<lparr>ss_service := svc\<rparr>)
      | (Inr (snapshot, c), svc) \<Rightarrow>
          (case managed_results s (rs_index snapshot) c q (managed_context_scope s snapshot) (at_time m) (ss_sidecar st) (ss_vector st) of
             (Inl e, vs) \<Rightarrow> (Inl e, st\<lparr>ss_service := svc, ss_vector := vs\<rparr>)
           | (Inr rs, vs) \<Rightarrow>
               (let (recorded, sc) = record_result_hits s snapshot q m rs (ss_sidecar st)
                in (bind_res recorded (\<lambda>_. Inr (map (\<lambda>r. project_search_result r (qr_fields q)) rs)),
                    st\<lparr>ss_service := svc, ss_sidecar := sc, ss_vector := vs\<rparr>))))"

section \<open>Context\<close>

text \<open>
  The results that choose the orientation are ranked without the prior, so that hits do not reinforce
  themselves.
\<close>

definition orientation_evidence ::
  "'b site \<Rightarrow> wiki_index \<Rightarrow> search_corpus \<Rightarrow> query_request \<Rightarrow> vector_state \<Rightarrow> search_result list option res \<times> vector_state" where
  "orientation_evidence s index c q vs =
     (if active_for_index (site_mc s) index \<and> strip (qr_query q) \<noteq> []
      then then_state (plain_results s index c q (request_options q) vs) (\<lambda>rs vs'. (Inr (Some rs), vs'))
      else (Inr None, vs))"

definition context_pack_of ::
  "'b site \<Rightarrow> wiki_index \<Rightarrow> query_request \<Rightarrow> search_result list \<Rightarrow> search_result list \<Rightarrow>
   graph_node list \<times> graph_edge list \<Rightarrow> retrieval_guidance \<Rightarrow> context_pack" where
  "context_pack_of s index q orientation evidence graph guidance =
     \<lparr>cp_query = qr_query q, cp_wiki_title = idx_title index, cp_description = idx_description index,
      cp_adapter = idx_adapter index, cp_implementation = idx_implementation index,
      cp_page_count = length (idx_pages index),
      cp_approved_page_count = length (filter approved_for_serving (idx_pages index)),
      cp_answerable = (evidence \<noteq> []), cp_orientation = map (context_item_of (qr_fields q)) orientation,
      cp_evidence = map (context_item_of (qr_fields q)) evidence,
      cp_limitations = context_limitations index (qr_include_drafts q) evidence, cp_graph = graph,
      cp_guidance = Some guidance, cp_action = None\<rparr>"

text \<open>The evidence of a context and the orientation that was derived for it, if any.\<close>

definition evidence_and_orientation ::
  "'b site \<Rightarrow> retrieval_snapshot \<Rightarrow> search_corpus \<Rightarrow> moment \<Rightarrow> query_request \<Rightarrow> sidecar \<Rightarrow> vector_state \<Rightarrow>
   (search_result list \<times> search_result list option) res \<times> vector_state" where
  "evidence_and_orientation s snapshot c m q sc vs =
     (let index = rs_index snapshot; scope = managed_context_scope s snapshot
      in then_state (orientation_evidence s index c q vs) (\<lambda>unranked vs1.
         then_state (managed_results s index c q scope (at_time m) sc vs1) (\<lambda>evidence vs2.
           (bind_res (managed_orientation (site_managed s) (ext_stem (site_externals s)) (site_mc s) scope index (qr_query q)
               (case unranked of Some rs \<Rightarrow> rs | None \<Rightarrow> evidence) (qr_include_drafts q) (qr_snippet_chars q) (at_time m) sc)
             (\<lambda>managed. Inr (evidence, managed)), vs2))))"

text \<open>The orientation and the evidence of a context, and the sidecar after the hits are recorded.\<close>

definition context_results ::
  "'b site \<Rightarrow> retrieval_snapshot \<Rightarrow> search_corpus \<Rightarrow> moment \<Rightarrow> query_request \<Rightarrow> sidecar \<Rightarrow> vector_state \<Rightarrow>
   (search_result list \<times> search_result list) res \<times> sidecar \<times> vector_state" where
  "context_results s snapshot c m q sc vs =
     (case evidence_and_orientation s snapshot c m q sc vs of
        (Inl e, vs') \<Rightarrow> (Inl e, sc, vs')
      | (Inr (evidence, managed), vs') \<Rightarrow>
          (let orientation = (case managed of
                 None \<Rightarrow> context_orientation (idx_pages (rs_index snapshot)) (qr_include_drafts q) (qr_snippet_chars q)
               | Some rs \<Rightarrow> rs);
               (recorded, sc') = (if managed = Some [] then (Inr (), sc) else record_result_hits s snapshot q m evidence sc)
           in (bind_res recorded (\<lambda>_. Inr (orientation, evidence)), sc', vs')))"

definition cached_graph_view :: "bool \<Rightarrow> service_state \<Rightarrow> graph_view \<times> service_state" where
  "cached_graph_view include_drafts st =
     (let (g, v) = views_graph_view include_drafts (the (svc_views st)) in (g, st\<lparr>svc_views := Some v\<rparr>))"

definition context_request ::
  "'b site \<Rightarrow> moment \<Rightarrow> query_request \<Rightarrow> site_state \<Rightarrow> context_pack res \<times> site_state" where
  "context_request s m q st =
     (case request_corpus s m (qr_include_drafts q) (ss_service st) of
        (Inl e, svc) \<Rightarrow> (Inl e, st\<lparr>ss_service := svc\<rparr>)
      | (Inr (snapshot, c), svc) \<Rightarrow>
          (case context_results s snapshot c m q (ss_sidecar st) (ss_vector st) of
             (Inl e, sc, vs) \<Rightarrow> (Inl e, st\<lparr>ss_service := svc, ss_sidecar := sc, ss_vector := vs\<rparr>)
           | (Inr (orientation, evidence), sc, vs) \<Rightarrow>
               (let (g, svc') = cached_graph_view (qr_include_drafts q) svc
                in (bind_res (build_retrieval_guidance (site_guide s) (rs_index snapshot) (qr_query q) (qr_include_drafts q)
                        (retrieval_fallback_modes vs)) (\<lambda>guidance.
                      apply_query_action_judgment (site_judge_env s) (site_roots s) (Judge_config (site_judge s))
                        (context_pack_of s (rs_index snapshot) q orientation evidence (view_payload g (site_graph_limit s)) guidance)),
                    st\<lparr>ss_service := svc', ss_sidecar := sc, ss_vector := vs\<rparr>))))"

section \<open>Reading\<close>

record read_request =
  rr_page :: ustr
  rr_include_drafts :: bool
  rr_fields :: "ustr list option"
  rr_query :: ustr
  rr_sections :: "ustr list"
  rr_max_chars :: "nat option"
  rr_include_links :: "bool option"

definition requested_page :: "wiki_index \<Rightarrow> read_request \<Rightarrow> wiki_page option" where
  "requested_page index r = List.find (\<lambda>p. page_id p = rr_page r \<or> page_path p = rr_page r) (idx_pages index)"

text \<open>A page that is found and may be served counts as hit before its payload is made.\<close>

definition read_hits_recorded ::
  "'b site \<Rightarrow> retrieval_snapshot \<Rightarrow> moment \<Rightarrow> read_request \<Rightarrow> sidecar \<Rightarrow> unit res \<times> sidecar" where
  "read_hits_recorded s snapshot m r sc =
     (case requested_page (rs_index snapshot) r of
        None \<Rightarrow> (Inr (), sc)
      | Some p \<Rightarrow>
          if \<not> rr_include_drafts r \<and> \<not> approved_for_serving p then (Inr (), sc)
          else record_hits (site_managed s) (site_mc s) (managed_context_scope s snapshot) (rs_index snapshot) (at_salt m)
                 [page_id p] (rr_include_drafts r) (at_time m) sc)"

definition read_request_result ::
  "'b site \<Rightarrow> moment \<Rightarrow> read_request \<Rightarrow> site_state \<Rightarrow> read_result res \<times> site_state" where
  "read_request_result s m r st =
     (case index_snapshot (site_externals s) (site_cfg s) (at_tree m) (at_clock m) (at_generation m) False (ss_service st) of
        (Inl e, svc) \<Rightarrow> (Inl e, st\<lparr>ss_service := svc\<rparr>)
      | (Inr snapshot, svc) \<Rightarrow>
          (let (recorded, sc) = read_hits_recorded s snapshot m r (ss_sidecar st)
           in (bind_res recorded (\<lambda>_. read_page (site_nfkc s) (site_dump s) (rs_index snapshot) (rr_page r)
                 (rr_include_drafts r) (rr_fields r) (rr_query r) (rr_sections r) (rr_max_chars r) (rr_include_links r)),
               st\<lparr>ss_service := svc, ss_sidecar := sc\<rparr>)))"

end
