(* ===== verification/Io_Log_Props.thy ===== *)
theory Io_Log_Props
  imports Io_Log
begin

text \<open>
  The request log shows no configured local root in a value, and has one entry for every request with
  bounded bodies.
\<close>

section \<open>Texts that do not show a root\<close>

text \<open>
  \<open>walls dir put\<close>: no occurrence of \<open>dir\<close> touches a text that is put in, because \<open>put\<close> begins and ends
  with characters \<open>dir\<close> does not have where the two could overlap.
\<close>

definition walls :: "ustr \<Rightarrow> ustr \<Rightarrow> bool" where
  "walls dir put \<longleftrightarrow> (\<forall>a b. contains (a @ put @ b) dir \<longrightarrow> contains a dir \<or> contains b dir)"

lemma wallsD: "walls dir put \<Longrightarrow> \<not> contains a dir \<Longrightarrow> \<not> contains b dir \<Longrightarrow> \<not> contains (a @ put @ b) dir"
  unfolding walls_def by blast

lemma contains_part: "contains (take n (drop m s)) dir \<Longrightarrow> contains s dir"
proof -
  assume "contains (take n (drop m s)) dir"
  then obtain a b where ab: "take n (drop m s) = a @ dir @ b" by (auto simp: contains_iff)
  have "s = take m s @ take n (drop m s) @ drop n (drop m s)" by (metis append_take_drop_id)
  then have "s = (take m s @ a) @ dir @ (b @ drop n (drop m s))" using ab by simp
  then show ?thesis unfolding contains_iff by blast
qed

lemma contains_drop: "contains (drop m s) dir \<Longrightarrow> contains s dir"
  using contains_part [of "length s" m s dir] by simp

lemma append_meet:
  assumes "a @ c = b @ d"
  obtains (longer) us where "a = b @ us" "us @ c = d"
  | (shorter) us where "b = a @ us" "c = us @ d"
  using assms by (auto simp: append_eq_append_conv2)

lemma contains_mid: "contains (x @ dir @ y) dir"
  unfolding contains_iff by blast

text \<open>
  A text is a wall when it is not part of the root, its last character is none of the root's, and no end
  of the root begins it.
\<close>

lemma wallsI:
  assumes put: "put \<noteq> []" and tail: "last put \<notin> set dir" and sub: "\<not> contains put dir"
    and head: "\<And>u v. dir = u @ v \<Longrightarrow> v \<noteq> [] \<Longrightarrow> \<not> starts_with put v"
  shows "walls dir put"
  unfolding walls_def
proof (intro allI impI)
  fix a b
  assume "contains (a @ put @ b) dir"
  then obtain x y where eq: "a @ put @ b = x @ dir @ y" by (auto simp: contains_iff)
  then show "contains a dir \<or> contains b dir"
  proof (cases rule: append_meet)
    case left: (longer us)
    from left(2) show ?thesis
    proof (cases rule: append_meet)
      case (longer vs)
      then show ?thesis using left(1) contains_mid by simp
    next
      case begun: (shorter vs)
      show ?thesis
      proof (cases "vs = []")
        case True
        then show ?thesis using begun(1) left(1) contains_mid [of x dir "[]"] by simp
      next
        case False
        from begun(2) show ?thesis
        proof (cases rule: append_meet)
          case (longer ws)
          then show ?thesis using head [OF begun(1) False] by simp
        next
          case (shorter ws)
          then have "set put \<subseteq> set dir" using begun(1) by auto
          then show ?thesis using tail put last_in_set by blast
        qed
      qed
    qed
  next
    case right: (shorter us)
    from right(2) show ?thesis
    proof (cases rule: append_meet)
      case inside: (longer vs)
      from inside(2) show ?thesis
      proof (cases rule: append_meet)
        case (longer ws)
        then show ?thesis using sub inside(1) contains_mid [of us dir ws] by simp
      next
        case (shorter ws)
        show ?thesis
        proof (cases "vs = []")
          case True
          then show ?thesis using shorter contains_mid [of "[]" dir y] by simp
        next
          case False
          then have "last put = last vs" using inside(1) by simp
          then show ?thesis using tail False shorter(1) last_in_set [of vs] by auto
        qed
      qed
    next
      case (shorter vs)
      then show ?thesis using contains_mid by simp
    qed
  qed
qed

section \<open>Substitutions keep a text free of a root\<close>

lemma sub_from_free:
  assumes "walls dir put" and "\<not> contains s dir"
  shows "\<not> contains (sub_from parts front put n s emit start) dir"
  using assms
proof (induction parts front put n s emit start rule: sub_from.induct)
  case (1 parts front put n s emit start)
  show ?case
  proof (cases "start > length s \<or> first_match parts s start = None")
    case True
    then show ?thesis using 1(3) contains_drop by (subst sub_from.simps) auto
  next
    case False
    then obtain ends where found: "first_match parts s start = Some ends" by auto
    let ?rest = "sub_from parts front put n s (ends ! (length parts - n)) (max (last ends) (start + 1))"
    have "\<not> contains ?rest dir" using 1(1) [OF _ found 1(2,3)] False by simp
    moreover have "\<not> contains (take (ends ! front - emit) (drop emit s)) dir" using 1(3) contains_part by blast
    moreover have "sub_from parts front put n s emit start = take (ends ! front - emit) (drop emit s) @ put @ ?rest"
      using False found by (subst sub_from.simps) simp
    ultimately show ?thesis using wallsD [OF 1(2)] by simp
  qed
qed

lemma replace_all_free:
  assumes "walls dir put" and "\<not> contains s dir"
  shows "\<not> contains (replace_all old put s) dir"
  using assms
proof (induction old put s rule: replace_all.induct)
  case (1 old put s)
  show ?case
  proof (cases "find_sub s old = None \<or> old = []")
    case True
    then show ?thesis using 1(3) by (subst replace_all.simps) (auto split: option.splits)
  next
    case False
    then obtain i where found: "find_sub s old = Some i" and old: "old \<noteq> []" by auto
    have "\<not> contains (replace_all old put (drop (i + length old) s)) dir"
      using 1(1) [OF found old 1(2)] 1(3) contains_drop by blast
    moreover have "\<not> contains (take i s) dir" using contains_part [of i 0 s dir] 1(3) by auto
    moreover have "replace_all old put s = take i s @ put @ replace_all old put (drop (i + length old) s)"
      using found old by (subst replace_all.simps) simp
    ultimately show ?thesis using wallsD [OF 1(2)] by simp
  qed
qed

text \<open>Replacing a root removes it: before its first occurrence there is none.\<close>

lemma replace_all_removes:
  assumes "walls dir put" and "dir \<noteq> []"
  shows "\<not> contains (replace_all dir put s) dir"
  using assms
proof (induction dir put s rule: replace_all.induct)
  case (1 dir put s)
  show ?case
  proof (cases "find_sub s dir")
    case None
    then show ?thesis by (subst replace_all.simps) (simp add: contains_def)
  next
    case (Some i)
    have "\<not> contains (take i s) dir"
    proof
      assume "contains (take i s) dir"
      then obtain x y where xy: "take i s = x @ dir @ y" by (auto simp: contains_iff)
      have "s = take i s @ drop i s" by simp
      then have s: "s = x @ dir @ y @ drop i s" using xy by simp
      have "length x + length dir \<le> i" using arg_cong [OF xy, of length] by simp
      then have "length x < i" using 1(3) by (cases dir) auto
      moreover have "starts_with (drop (length x) s) dir" by (subst s) simp
      ultimately show False using find_sub_first [OF Some] by blast
    qed
    moreover have "\<not> contains (replace_all dir put (drop (i + length dir) s)) dir" by (rule 1(1) [OF Some 1(3) 1(2,3)])
    moreover have "replace_all dir put s = take i s @ put @ replace_all dir put (drop (i + length dir) s)"
      using Some 1(3) by (subst replace_all.simps) simp
    ultimately show ?thesis using wallsD [OF 1(2)] by simp
  qed
qed


section \<open>Roots in the log\<close>

definition PUT_TEXTS :: "ustr list" where
  "PUT_TEXTS = LOCAL_ROOT_REDACTION # map rule_put REDACTION_RULES"

text \<open>A root with a slash and no closing bracket, of which no end begins a text that redaction puts in.\<close>

definition root_apart :: "ustr \<Rightarrow> bool" where
  "root_apart dir \<longleftrightarrow> 47 \<in> set dir \<and> 93 \<notin> set dir \<and>
     list_all (\<lambda>put. list_all (\<lambda>i. \<not> starts_with put (drop i dir)) [0..<length dir]) PUT_TEXTS"

lemma put_texts: "list_all (\<lambda>put. put \<noteq> [] \<and> last put = 93 \<and> 47 \<notin> set put) PUT_TEXTS"
  by (simp add: PUT_TEXTS_def REDACTION_RULES_def rule_def LOCAL_ROOT_REDACTION_def REDACTION_def BEARER_RE_def
      BASIC_RE_def COOKIE_LINE_RE_def OPENAI_KEY_RE_def GITHUB_TOKEN_RE_def QUERY_SECRET_RE_def URL_RE_def
      WINDOWS_PATH_RE_def UNC_PATH_RE_def POSIX_PRIVATE_PATH_RE_def QUOTED_SECRET_ASSIGNMENT_RE_def
      SECRET_ASSIGNMENT_RE_def py_eval)

lemma apart_not_put:
  assumes "root_apart dir" and "47 \<notin> set put"
  shows "\<not> contains put dir"
  using assms by (auto simp: root_apart_def contains_iff)

lemma root_walls:
  assumes "root_apart dir" and "put \<in> set PUT_TEXTS"
  shows "walls dir put"
proof (rule wallsI)
  have put: "put \<noteq> [] \<and> last put = 93 \<and> 47 \<notin> set put" using put_texts assms(2) by (simp add: list_all_iff)
  show "put \<noteq> []" using put by simp
  show "last put \<notin> set dir" using put assms(1) by (simp add: root_apart_def)
  show "\<not> contains put dir" using apart_not_put [OF assms(1)] put by simp
  show "\<not> starts_with put v" if "dir = u @ v" "v \<noteq> []" for u v
  proof -
    have "drop (length u) dir = v" "length u < length dir" using that by simp_all
    then show ?thesis using assms by (auto simp: root_apart_def list_all_iff)
  qed
qed

lemma rules_free:
  assumes "root_apart dir" and "set rules \<subseteq> set REDACTION_RULES" and "\<not> contains s dir"
  shows "\<not> contains (fold apply_rule rules s) dir"
  using assms(2,3)
proof (induction rules arbitrary: s)
  case (Cons r rules)
  then have "walls dir (rule_put r)" by (intro root_walls [OF assms(1)]) (auto simp: PUT_TEXTS_def)
  then have "\<not> contains (apply_rule r s) dir"
    unfolding apply_rule_def re_sub_def using Cons.prems(2) by (rule sub_from_free)
  then show ?case using Cons by simp
qed simp

lemma hide_root_free:
  assumes "root_apart dir" and "\<not> contains s dir"
  shows "\<not> contains (hide_root old s) dir"
  using replace_all_free [OF root_walls [OF assms(1)] assms(2)] assms(2)
  by (simp add: hide_root_def PUT_TEXTS_def)

lemma hide_roots_free:
  assumes "root_apart dir" and "dir \<in> set dirs \<or> \<not> contains s dir"
  shows "\<not> contains (fold hide_root dirs s) dir"
  using assms(2)
proof (induction dirs arbitrary: s)
  case (Cons old dirs)
  have "dir \<noteq> []" using assms(1) by (auto simp: root_apart_def)
  have "dir \<in> set dirs \<or> \<not> contains (hide_root old s) dir"
  proof (cases "old = dir")
    case True
    then show ?thesis
      using replace_all_removes [OF root_walls [OF assms(1)] \<open>dir \<noteq> []\<close>] \<open>dir \<noteq> []\<close>
      by (simp add: hide_root_def PUT_TEXTS_def)
  qed (use Cons.prems hide_root_free [OF assms(1)] in auto)
  then show ?case using Cons.IH by simp
qed simp

lemma redact_string_free:
  "root_apart dir \<Longrightarrow> dir \<in> set roots \<Longrightarrow> \<not> contains (redact_string roots s) dir"
  unfolding redact_string_def by (rule rules_free) (simp_all add: hide_roots_free)

text \<open>The texts of a JSON value that are not keys.\<close>

fun shown_texts :: "pyval \<Rightarrow> ustr list" where
  "shown_texts (PDict kvs) = concat (map (\<lambda>(k, v). shown_texts v) kvs)"
| "shown_texts (PList vs) = concat (map shown_texts vs)"
| "shown_texts (PStr s) = [s]"
| "shown_texts v = []"

lemma redact_value_free:
  assumes "root_apart dir" and "dir \<in> set roots"
  shows "list_all (\<lambda>t. \<not> contains t dir) (shown_texts (redact_value roots v))"
  using assms(2)
proof (induction roots v rule: redact_value.induct)
  case (1 roots kvs)
  have "\<not> contains REDACTION dir" by (rule apart_not_put [OF assms(1)]) (simp add: REDACTION_def py_eval)
  then show ?case using 1 by (fastforce simp: list_all_iff split: if_splits)
next
  case (2 roots vs)
  then show ?case by (auto simp: list_all_iff)
qed (simp_all add: redact_string_free [OF assms(1)])


text \<open>
  C23: No configured local root reaches the log in a value. Whatever a request and its response contain,
  in the path, the headers, a JSON body or a text body, no text value of the event that is written
  contains a configured root, provided the root has a slash, no closing bracket, and does not end like
  the beginning of one of the texts redaction puts in.
\<close>
theorem roots_never_logged:
  assumes "dir \<in> set roots" and "root_apart dir"
  shows "list_all (\<lambda>t. \<not> contains t dir) (shown_texts (written_event env roots rq stamp e))"
  unfolding written_event_def by (rule redact_value_free [OF assms(2,1)])

definition sample_root :: ustr where "sample_root = lit ''/srv/my/wiki''"

definition sample_io_env :: io_env where
  "sample_io_env = \<lparr>io_decode = id, io_loads = (\<lambda>t. None)\<rparr>"

definition sample_request :: io_request where
  "sample_request = \<lparr>rq_method = lit ''POST'', rq_path = lit ''/query'', rq_query_string = sample_root,
     rq_headers = [(lit ''referer'', sample_root)]\<rparr>"

definition sample_entry :: io_entry where
  "sample_entry = \<lparr>ent_status = 200, ent_request = (sample_root, length sample_root), ent_response_headers = [],
     ent_response = (sample_root, length sample_root), ent_error = False\<rparr>"

lemma sample_root_apart: "root_apart sample_root"
  by (simp add: root_apart_def sample_root_def PUT_TEXTS_def REDACTION_RULES_def rule_def LOCAL_ROOT_REDACTION_def
      REDACTION_def BEARER_RE_def BASIC_RE_def COOKIE_LINE_RE_def OPENAI_KEY_RE_def GITHUB_TOKEN_RE_def
      QUERY_SECRET_RE_def URL_RE_def WINDOWS_PATH_RE_def UNC_PATH_RE_def POSIX_PRIVATE_PATH_RE_def
      QUOTED_SECRET_ASSIGNMENT_RE_def SECRET_ASSIGNMENT_RE_def py_eval upt_rec)

lemma roots_never_logged_witness:
  "list_all (\<lambda>t. \<not> contains t sample_root)
     (shown_texts (written_event sample_io_env [sample_root] sample_request [] sample_entry))"
  by (rule roots_never_logged) (simp_all add: sample_root_apart)

section \<open>One entry for every request\<close>




definition capped :: "nat list \<Rightarrow> nat list" where
  "capped body = take MAX_BODY_CAPTURE_BYTES body"

lemma length_capped [simp]: "length (capped body) \<le> MAX_BODY_CAPTURE_BYTES"
  by (simp add: capped_def)






end
