(* ===== verification/Action_Judgment_Props.thy ===== *)
theory Action_Judgment_Props
  imports Action_Judgment Io_Log_Props
begin

text \<open>
  The judgment of the next action changes nothing but the action guidance of a context, never raises for
  a valid configuration, and sends the provider only the structure of the evidence.
\<close>

section \<open>Configuration\<close>

lemma normalize_mode_off: "normalize_query_action_judge_mode (Some (lit ''off'')) = Inr (lit ''off'')"
  by (simp add: normalize_query_action_judge_mode_def Let_def OFF_VALUES_def py_eval)

lemma normalize_mode_on:
  "normalize_query_action_judge_mode (Some (lit ''system-one'')) = Inr (lit ''system-one'')"
  by (simp add: normalize_query_action_judge_mode_def Let_def OFF_VALUES_def SYSTEM_ONE_VALUES_def py_eval)

lemma normalize_mode_range:
  assumes "normalize_query_action_judge_mode v = Inr m"
  shows "m = lit ''off'' \<or> m = lit ''system-one''"
  using assms by (auto simp: normalize_query_action_judge_mode_def Let_def split: if_splits)

lemma normalize_mode_idem:
  "normalize_query_action_judge_mode v = Inr m \<Longrightarrow> normalize_query_action_judge_mode (Some m) = Inr m"
  using normalize_mode_range normalize_mode_off normalize_mode_on by metis

lemma default_texts:
  "strip DEFAULT_QUERY_ACTION_JUDGE_ENDPOINT = DEFAULT_QUERY_ACTION_JUDGE_ENDPOINT"
  "strip DEFAULT_QUERY_ACTION_JUDGE_MODEL = DEFAULT_QUERY_ACTION_JUDGE_MODEL"
  "DEFAULT_QUERY_ACTION_JUDGE_ENDPOINT \<noteq> []" "DEFAULT_QUERY_ACTION_JUDGE_MODEL \<noteq> []"
  by (simp_all add: DEFAULT_QUERY_ACTION_JUDGE_ENDPOINT_def DEFAULT_QUERY_ACTION_JUDGE_MODEL_def py_eval)

lemma checked_judge_config_idem:
  assumes "checked_judge_config c = Inr d"
  shows "checked_judge_config d = Inr d"
proof -
  obtain m where m: "normalize_query_action_judge_mode (Some (jc_mode c)) = Inr m" "jc_timeout_ms c > 0"
    and d: "d = c\<lparr>jc_mode := m,
       jc_endpoint := (if strip (jc_endpoint c) = [] then DEFAULT_QUERY_ACTION_JUDGE_ENDPOINT else strip (jc_endpoint c)),
       jc_model := (if strip (jc_model c) = [] then DEFAULT_QUERY_ACTION_JUDGE_MODEL else strip (jc_model c))\<rparr>"
    using assms by (auto simp: checked_judge_config_def bind_res_Inr Let_def split: if_splits)
  show ?thesis using normalize_mode_idem [OF m(1)] m(2) default_texts by (simp add: d checked_judge_config_def)
qed

lemma validated_config_stays:
  assumes "validate_query_action_judge_config env option = Inr c"
  shows "validate_query_action_judge_config env (Judge_config c) = Inr c"
proof (cases option)
  case Judge_default
  then have "c = default_judge_config" using assms by simp
  moreover have "checked_judge_config default_judge_config = Inr default_judge_config"
    by (simp add: checked_judge_config_def default_judge_config_def normalize_mode_off default_texts
        DEFAULT_QUERY_ACTION_JUDGE_TIMEOUT_MS_def)
  ultimately show ?thesis by simp
next
  case (Judge_text t)
  then show ?thesis using assms checked_judge_config_idem by (auto simp: judge_config_with_mode_def bind_res_Inr)
next
  case (Judge_config d)
  then show ?thesis using assms checked_judge_config_idem by simp
qed

section \<open>Targets and scores\<close>

lemma top_page_ids_from_ok:
  assumes "distinct ids" and "[] \<notin> set ids" and "length ids < MAX_ACTION_TARGETS"
  shows "distinct (top_page_ids_from ids items) \<and> [] \<notin> set (top_page_ids_from ids items) \<and>
     length (top_page_ids_from ids items) \<le> MAX_ACTION_TARGETS \<and>
     set (top_page_ids_from ids items) \<subseteq> set ids \<union> ci_page_id ` set items"
  using assms
proof (induction items arbitrary: ids)
  case (Cons item items)
  let ?ids = "add_target (ci_page_id item) ids"
  have new: "distinct ?ids" "[] \<notin> set ?ids" "length ?ids \<le> MAX_ACTION_TARGETS"
    "set ?ids \<subseteq> set ids \<union> {ci_page_id item}"
    using Cons.prems by (auto simp: add_target_def)
  show ?case
  proof (cases "length ?ids \<ge> MAX_ACTION_TARGETS")
    case True
    then show ?thesis using new by auto
  next
    case False
    then show ?thesis using Cons.IH [OF new(1,2)] new(4) by auto
  qed
qed simp

lemma top_page_ids_ok:
  "distinct (top_page_ids items) \<and> [] \<notin> set (top_page_ids items) \<and> length (top_page_ids items) \<le> MAX_ACTION_TARGETS \<and>
   set (top_page_ids items) \<subseteq> ci_page_id ` set items"
  using top_page_ids_from_ok [of "[]" items] by (simp add: top_page_ids_def MAX_ACTION_TARGETS_def)

lemma clamp_score_unit: "0 \<le> clamp_score v \<and> clamp_score v \<le> 1"
  by (cases v) auto

definition unit_score :: "real option \<Rightarrow> bool" where
  "unit_score s \<longleftrightarrow> (case s of None \<Rightarrow> True | Some x \<Rightarrow> 0 \<le> x \<and> x \<le> 1)"

lemma numeric_answer_unit: "numeric_answer env answer key = Inr s \<Longrightarrow> unit_score s"
  using clamp_score_unit
  by (auto simp: numeric_answer_def unit_score_def split: pyval.splits if_splits option.splits)

section \<open>Guidance\<close>

text \<open>What guidance that comes from an answer may say.\<close>

definition sound_guidance :: "context_pack \<Rightarrow> retrieval_action_guidance \<Rightarrow> bool" where
  "sound_guidance cp g \<longleftrightarrow>
     (let targets = top_page_ids (cp_evidence cp); action = ag_recommended_action g
      in action \<noteq> None \<and> unit_score (ag_confidence g) \<and> unit_score (ag_evidence_sufficiency_score g) \<and>
         ag_read_page_ids g = (if action = Some Act_read then targets else []) \<and>
         ag_graph_seeds g = (if action = Some Act_graph then targets else []) \<and>
         ag_search_queries g = (if action = Some Act_search then [cp_query cp] else []) \<and> ag_diagnostics g = [])"

lemma provider_guidance_sound:
  assumes "guidance_from_provider_response env cp response = Inr g"
  shows "ag_status g = Gs_ok \<and> sound_guidance cp g"
  using assms numeric_answer_unit
  by (auto simp: guidance_from_provider_response_def Let_def bind_res_Inr sound_guidance_def split: option.splits)

lemma judged_guidance_outcome:
  "if ag_status (judged_guidance env roots c cp) = Gs_ok then sound_guidance cp (judged_guidance env roots c cp)
   else judged_guidance env roots c cp = action_guidance Gs_failed [lit ''provider_failed'']"
proof (cases "bind_res (call_system_one_provider env (build_system_one_payload roots c cp) c)
    (guidance_from_provider_response env cp)")
  case (Inl e)
  then show ?thesis by (simp add: judged_guidance_def action_guidance_def)
next
  case (Inr g)
  then obtain response where "guidance_from_provider_response env cp response = Inr g"
    by (auto simp: bind_res_Inr)
  then have "ag_status g = Gs_ok \<and> sound_guidance cp g" by (rule provider_guidance_sound)
  then show ?thesis using Inr by (simp add: judged_guidance_def)
qed

lemma judged_guidance_ok_iff:
  "ag_status (judged_guidance env roots c cp) = Gs_ok \<longleftrightarrow>
   (\<exists>response g. call_system_one_provider env (build_system_one_payload roots c cp) c = Inr response \<and>
      guidance_from_provider_response env cp response = Inr g)"
proof (cases "bind_res (call_system_one_provider env (build_system_one_payload roots c cp) c)
    (guidance_from_provider_response env cp)")
  case (Inl e)
  then show ?thesis by (cases "call_system_one_provider env (build_system_one_payload roots c cp) c")
      (auto simp: judged_guidance_def action_guidance_def)
next
  case (Inr g)
  then obtain response where "call_system_one_provider env (build_system_one_payload roots c cp) c = Inr response"
    "guidance_from_provider_response env cp response = Inr g"
    by (auto simp: bind_res_Inr)
  then show ?thesis using provider_guidance_sound Inr by (auto simp: judged_guidance_def)
qed

text \<open>
  C25: The judgment never fails a request. Whatever the external provider does, a context is returned that
  differs from the one that was judged at most in its action guidance. With a disabled judge nothing
  changes, without a key the guidance says so, and otherwise it is either an answer of the provider that
  was accepted, with scores between 0 and 1 and at most three distinct pages of the evidence to read or
  inspect, or the statement that the provider failed. Only an invalid configuration raises, and a
  configuration that was validated once is valid and unchanged ever after.
\<close>
theorem judgment_never_fails_a_request:
  "case validate_query_action_judge_config env option of
     Inl e \<Rightarrow> apply_query_action_judgment env roots option cp = Inl e
   | Inr c \<Rightarrow>
       validate_query_action_judge_config env (Judge_config c) = Inr c \<and>
       (\<exists>action. apply_query_action_judgment env roots option cp = Inr (cp\<lparr>cp_action := action\<rparr>) \<and>
          (if \<not> judge_enabled c then action = cp_action cp
           else if jc_api_key c = None \<or> jc_api_key c = Some []
           then action = Some (action_guidance Gs_unconfigured [lit ''missing_api_key''])
           else (\<exists>g. action = Some g \<and>
             (if ag_status g = Gs_ok then sound_guidance cp g
              else g = action_guidance Gs_failed [lit ''provider_failed''])))) \<and>
       distinct (top_page_ids (cp_evidence cp)) \<and> length (top_page_ids (cp_evidence cp)) \<le> 3 \<and>
       set (top_page_ids (cp_evidence cp)) \<subseteq> ci_page_id ` set (cp_evidence cp)"
proof (cases "validate_query_action_judge_config env option")
  case (Inl e)
  then show ?thesis by (simp add: apply_query_action_judgment_def)
next
  case (Inr c)
  let ?action = "if \<not> judge_enabled c then cp_action cp
    else if jc_api_key c = None \<or> jc_api_key c = Some [] then Some (action_guidance Gs_unconfigured [lit ''missing_api_key''])
    else Some (judged_guidance env roots c cp)"
  have returned: "apply_query_action_judgment env roots option cp = Inr (cp\<lparr>cp_action := ?action\<rparr>)"
    using Inr by (simp add: apply_query_action_judgment_def)
  have guidance: "if \<not> judge_enabled c then ?action = cp_action cp
     else if jc_api_key c = None \<or> jc_api_key c = Some []
     then ?action = Some (action_guidance Gs_unconfigured [lit ''missing_api_key''])
     else (\<exists>g. ?action = Some g \<and> (if ag_status g = Gs_ok then sound_guidance cp g
        else g = action_guidance Gs_failed [lit ''provider_failed'']))"
    using judged_guidance_outcome [of env roots c cp] by simp
  have targets: "distinct (top_page_ids (cp_evidence cp)) \<and> length (top_page_ids (cp_evidence cp)) \<le> 3 \<and>
      set (top_page_ids (cp_evidence cp)) \<subseteq> ci_page_id ` set (cp_evidence cp)"
    using top_page_ids_ok [of "cp_evidence cp"] by (simp add: MAX_ACTION_TARGETS_def)
  show ?thesis
    unfolding Inr sum.case
    by (intro conjI exI [of _ ?action] validated_config_stays [OF Inr] returned guidance) (use targets in simp_all)
qed

section \<open>Data minimisation\<close>

text \<open>Two results that look the same from outside: structure, sizes and the words shared with the query.\<close>

definition shared_words :: "ustr \<Rightarrow> context_item \<Rightarrow> ustr set" where
  "shared_words query item = set (tokenize_for_overlap query) \<inter>
     (set (tokenize_for_overlap (ci_title item)) \<union> set (tokenize_for_overlap (ci_snippet item)))"

definition same_shape :: "ustr \<Rightarrow> context_item \<Rightarrow> context_item \<Rightarrow> bool" where
  "same_shape query a b \<longleftrightarrow> ci_role a = ci_role b \<and> ci_route a = ci_route b \<and>
     score_bucket (ci_score a) = score_bucket (ci_score b) \<and>
     length (ci_snippet a) = length (ci_snippet b) \<and> length (ci_source_refs a) = length (ci_source_refs b) \<and>
     path_depth (ci_path a) = path_depth (ci_path b) \<and> shared_words query a = shared_words query b"

definition same_shapes :: "ustr \<Rightarrow> context_item list \<Rightarrow> context_item list \<Rightarrow> bool" where
  "same_shapes query as bs \<longleftrightarrow> length as = length bs \<and>
     list_all2 (same_shape query) (take MAX_ACTION_TARGETS as) (take MAX_ACTION_TARGETS bs)"

definition same_outline :: "context_pack \<Rightarrow> context_pack \<Rightarrow> bool" where
  "same_outline a b \<longleftrightarrow> cp_query a = cp_query b \<and> cp_answerable a = cp_answerable b \<and>
     same_shapes (cp_query a) (cp_evidence a) (cp_evidence b) \<and>
     same_shapes (cp_query a) (cp_orientation a) (cp_orientation b) \<and>
     length (cp_limitations a) = length (cp_limitations b) \<and>
     length (fst (cp_graph a)) = length (fst (cp_graph b)) \<and> length (snd (cp_graph a)) = length (snd (cp_graph b)) \<and>
     (cp_guidance a = None) = (cp_guidance b = None)"

lemma overlap_shared:
  "query_overlap_ratio query [ci_title item, ci_snippet item] =
     (let tokens = remdups (tokenize_for_overlap query)
      in if tokens = [] then 0
         else py_round (real (length (filter (\<lambda>t. t \<in> shared_words query item) tokens)) / real (length tokens)) 3)"
proof -
  have "filter (\<lambda>t. t \<in> set (concat (map tokenize_for_overlap [ci_title item, ci_snippet item])))
          (remdups (tokenize_for_overlap query)) =
        filter (\<lambda>t. t \<in> shared_words query item) (remdups (tokenize_for_overlap query))"
    by (rule filter_cong) (auto simp: shared_words_def)
  then show ?thesis by (simp add: query_overlap_ratio_def Let_def)
qed

lemma summary_same: "same_shape query a b \<Longrightarrow>
  evidence_structural_summary query (i, a) = evidence_structural_summary query (i, b)"
  by (simp add: evidence_structural_summary_def overlap_shared same_shape_def Let_def)

lemma summaries_same:
  assumes "same_shapes query as bs"
  shows "summaries query as = summaries query bs"
proof -
  have "list_all2 (same_shape query) xs ys \<Longrightarrow>
      map (evidence_structural_summary query) (List.enumerate n xs) =
      map (evidence_structural_summary query) (List.enumerate n ys)" for n xs ys
    by (induction xs ys arbitrary: n rule: list_all2_induct) (simp_all add: summary_same)
  then show ?thesis using assms by (simp add: same_shapes_def summaries_def)
qed

definition EMAIL_PUT :: ustr where "EMAIL_PUT = rule_put EMAIL_RE"

definition apart_from_email :: "ustr \<Rightarrow> bool" where
  "apart_from_email dir \<longleftrightarrow> list_all (\<lambda>i. \<not> starts_with EMAIL_PUT (drop i dir)) [0..<length dir]"

lemma email_walls:
  assumes "root_apart dir" and "apart_from_email dir"
  shows "walls dir EMAIL_PUT"
proof (rule wallsI)
  have put: "EMAIL_PUT \<noteq> [] \<and> last EMAIL_PUT = 93 \<and> 47 \<notin> set EMAIL_PUT"
    by (simp add: EMAIL_PUT_def EMAIL_RE_def rule_def py_eval)
  show "EMAIL_PUT \<noteq> []" using put by simp
  show "last EMAIL_PUT \<notin> set dir" using put assms(1) by (simp add: root_apart_def)
  show "\<not> contains EMAIL_PUT dir" using apart_not_put [OF assms(1)] put by simp
  show "\<not> starts_with EMAIL_PUT v" if "dir = u @ v" "v \<noteq> []" for u v
  proof -
    have "drop (length u) dir = v" "length u < length dir" using that by simp_all
    then show ?thesis using assms(2) by (auto simp: apart_from_email_def list_all_iff)
  qed
qed

lemma redact_provider_string_free:
  assumes "root_apart dir" and "apart_from_email dir" and "dir \<in> set roots"
  shows "\<not> contains (redact_provider_string roots s) dir"
  unfolding redact_provider_string_def apply_rule_def re_sub_def
  using email_walls [OF assms(1,2), unfolded EMAIL_PUT_def] redact_string_free [OF assms(1,3)]
  by (rule sub_from_free)

text \<open>
  C26: What the provider is sent shows only the outline of a context. Two contexts for the same query that
  agree on counts, and whose first three results agree in role, route, score class, snippet length, number
  of sources, path depth and the words they share with the query, give the same request, so that page
  identifiers, titles, paths, snippets, source labels, the graph and the guidance are not disclosed beyond
  that; and the text of the query that is sent contains no configured root.
\<close>
theorem payload_shows_outline_only:
  assumes "same_outline a b"
    and "root_apart dir" and "apart_from_email dir" and "dir \<in> set roots"
  shows "build_system_one_payload roots c a = build_system_one_payload roots c b \<and>
     \<not> contains (redact_provider_string roots (cp_query a)) dir"
proof
  have "length (cp_evidence a) = length (cp_evidence b)" "length (cp_orientation a) = length (cp_orientation b)"
    using assms(1) by (simp_all add: same_outline_def same_shapes_def)
  moreover have "summaries (cp_query b) (cp_evidence a) = summaries (cp_query b) (cp_evidence b)"
    "summaries (cp_query b) (cp_orientation a) = summaries (cp_query b) (cp_orientation b)"
    using assms(1) by (auto simp: same_outline_def intro: summaries_same)
  ultimately show "build_system_one_payload roots c a = build_system_one_payload roots c b"
    using assms(1) by (simp add: build_system_one_payload_def same_outline_def)
  show "\<not> contains (redact_provider_string roots (cp_query a)) dir"
    using assms(2-4) by (rule redact_provider_string_free)
qed

definition sample_item :: "ustr \<Rightarrow> real \<Rightarrow> context_item" where
  "sample_item i score = \<lparr>ci_page_id = i, ci_title = lit ''Lock file'', ci_path = lit ''ops/'' @ i, ci_score = score,
     ci_snippet = i, ci_role = lit ''topic'', ci_source_refs = [i], ci_route = lit ''search''\<rparr>"

definition sample_pack :: "ustr \<Rightarrow> real \<Rightarrow> context_pack" where
  "sample_pack i score = \<lparr>cp_query = lit ''lock of /srv/my/wiki'', cp_wiki_title = i, cp_description = i, cp_adapter = [],
     cp_implementation = [], cp_page_count = 1, cp_approved_page_count = 1, cp_answerable = True,
     cp_orientation = [], cp_evidence = [sample_item i score], cp_limitations = [],
     cp_graph = ([mk_node i i i i], []), cp_guidance = None, cp_action = None\<rparr>"

lemma sample_root_apart_from_email: "apart_from_email sample_root"
  by (simp add: apart_from_email_def sample_root_def EMAIL_PUT_def EMAIL_RE_def rule_def py_eval upt_rec)

lemma same_outline_sample: "same_outline (sample_pack (lit ''a1'') 4) (sample_pack (lit ''zz'') 5)"
  by (simp add: same_outline_def sample_pack_def same_shapes_def same_shape_def sample_item_def MAX_ACTION_TARGETS_def
      score_bucket_def shared_words_def tokenize_for_overlap_def path_depth_def Let_def word_tokens_def py_eval)

lemma payload_shows_outline_only_witness:
  "build_system_one_payload [sample_root] default_judge_config (sample_pack (lit ''a1'') 4) =
   build_system_one_payload [sample_root] default_judge_config (sample_pack (lit ''zz'') 5) \<and>
   \<not> contains (redact_provider_string [sample_root] (cp_query (sample_pack (lit ''a1'') 4))) sample_root"
  by (rule payload_shows_outline_only)
    (simp_all add: same_outline_sample sample_root_apart sample_root_apart_from_email)

text \<open>
  Requested fields are projected before the judgment, so that without the score field every result is
  judged to have none.
\<close>

lemma judged_score_needs_field:
  "score_bucket (ci_score (context_item_of (Some []) r)) = ''zero'' \<and> ci_snippet (context_item_of (Some []) r) = []"
  by (simp add: context_item_of_def normalize_search_result_fields_def SEARCH_RESULT_FIELD_ORDER_def
      score_bucket_def py_eval)

end
