(* ===== verification/Vector_Search_Props.thy ===== *)
theory Vector_Search_Props
  imports Vector_Search Search_Props
begin

text \<open>
  Vector search: every way the scores are computed (blocks of the matrix, selected rows, runs of rows, plain
  Python) gives the cosine of each record, and a search returns the best record of each page, best page first.
\<close>

section \<open>Runs of positions\<close>

lemma ranges_from_positions:
  assumes "sorted_wrt (<) (previous # positions)" and "start \<le> previous"
  shows "concat (map (\<lambda>(a, b). [a..<b]) (ranges_from start previous positions)) = [start..<previous] @ previous # positions"
  using assms
proof (induction start previous positions rule: ranges_from.induct)
  case (1 start previous)
  then show ?case by (simp add: upt_Suc_append del: upt_Suc)
next
  case (2 start previous position positions)
  show ?case
  proof (cases "position = previous + 1")
    case True
    then have "[start..<position] = [start..<previous] @ [previous]" using 2(4) by (simp add: upt_Suc_append del: upt_Suc)
    then show ?thesis using 2 True by simp
  next
    case False
    then show ?thesis using 2 by (simp add: upt_Suc_append del: upt_Suc)
  qed
qed

lemma strictly_increasing_sorted: "strictly_increasing positions \<longleftrightarrow> sorted_wrt (<) positions"
proof (induction positions)
  case (Cons i positions)
  then show ?case by (cases positions) (auto simp: strictly_increasing_def intro: less_trans)
qed (simp add: strictly_increasing_def)

lemma contiguous_ranges_exact:
  "strictly_increasing positions \<Longrightarrow> concat (map (\<lambda>(a, b). [a..<b]) (contiguous_position_ranges positions)) = positions"
  by (cases positions) (simp_all add: contiguous_position_ranges_def strictly_increasing_sorted ranges_from_positions)

section \<open>What NumPy and the index are taken to hold\<close>

definition dot :: "real list \<Rightarrow> real list \<Rightarrow> real" where
  "dot v w = sum_list (map2 (*) v w)"

text \<open>
  NumPy divides the products of the rows by the product of the norms, row by row; the quotient by a norm
  that is not positive is no number.
\<close>

definition numpy_divides :: "numpy_scores \<Rightarrow> bool" where
  "numpy_divides np \<longleftrightarrow> (\<forall>vectors norms qv qn. length vectors = length norms \<and> 0 < qn \<and> list_all (\<lambda>v. length v = length qv) vectors \<longrightarrow>
     (\<exists>quotients. np (map (map Finite) vectors) (map Finite norms) qv qn = Some quotients \<and> length quotients = length vectors \<and>
       (\<forall>i<length vectors. if 0 < norms ! i then quotients ! i = Finite (dot qv (vectors ! i) / (qn * norms ! i))
                           else \<not> is_finite (quotients ! i))))"

text \<open>The matrix holds the vectors of the records, \<open>vectors\<close>, and the norms are theirs.\<close>

definition index_holds :: "vector_index \<Rightarrow> real list list \<Rightarrow> bool" where
  "index_holds index vectors \<longleftrightarrow> length vectors = length (vi_records index) \<and> 0 < vi_dimension index \<and>
     list_all (\<lambda>v. length v = vi_dimension index) vectors \<and>
     list_all2 (\<lambda>r v. vr_vector r = v \<or> vr_vector r = [] \<and> vi_matrix index \<noteq> None) (vi_records index) vectors \<and>
     (vi_matrix index = None \<or> vi_matrix index = Some (map (map Finite) vectors)) \<and>
     (vi_norms index = None \<or> vi_norms index = Some (map (\<lambda>r. Finite (vr_norm r)) (vi_records index)))"

text \<open>The score of the record at a position.\<close>

definition record_score :: "vector_index \<Rightarrow> real list list \<Rightarrow> real list \<Rightarrow> real \<Rightarrow> nat \<Rightarrow> float_value" where
  "record_score index vectors qv qn i =
     (if vr_norm (vi_records index ! i) \<le> 0 then Neg_inf
      else Finite (dot qv (vectors ! i) / (qn * vr_norm (vi_records index ! i))))"

section \<open>The paths agree\<close>

lemma numpy_dividesE:
  assumes "numpy_divides np" and "length vectors = length norms" and "0 < qn" and "list_all (\<lambda>v. length v = length qv) vectors"
  obtains quotients where "np (map (map Finite) vectors) (map Finite norms) qv qn = Some quotients" "length quotients = length vectors"
    "\<forall>i<length vectors. if 0 < norms ! i then quotients ! i = Finite (dot qv (vectors ! i) / (qn * norms ! i))
       else \<not> is_finite (quotients ! i)"
  using assms unfolding numpy_divides_def by blast

lemma numpy_rows_scores:
  assumes np: "numpy_divides np" and qn: "0 < qn" and ok: "index_holds index vectors" and dim: "length qv = vi_dimension index"
    and ps: "list_all (\<lambda>i. i < length vectors) ps"
  shows "numpy_cosine_scores np (map (\<lambda>i. map Finite (vectors ! i)) ps) (map (\<lambda>i. Finite (vr_norm (vi_records index ! i))) ps) qv qn =
    Some (map (record_score index vectors qv qn) ps)"
proof -
  let ?vs = "map (\<lambda>i. vectors ! i) ps" and ?ns = "map (\<lambda>i. vr_norm (vi_records index ! i)) ps"
  have len: "length ?vs = length ?ns" by simp
  have all: "list_all (\<lambda>v. length v = length qv) ?vs"
    using ok ps dim by (auto simp: index_holds_def list_all_iff)
  obtain quotients where q: "np (map (map Finite) ?vs) (map Finite ?ns) qv qn = Some quotients" "length quotients = length ?vs"
    and each: "\<forall>i<length ?vs. if 0 < ?ns ! i then quotients ! i = Finite (dot qv (?vs ! i) / (qn * ?ns ! i)) else \<not> is_finite (quotients ! i)"
    by (rule numpy_dividesE [OF np len qn all])
  have "map (\<lambda>v. if is_finite v then v else Neg_inf) quotients = map (record_score index vectors qv qn) ps"
  proof (rule nth_equalityI)
    fix i assume "i < length (map (\<lambda>v. if is_finite v then v else Neg_inf) quotients)"
    then have i: "i < length ?vs" using q(2) by simp
    then show "map (\<lambda>v. if is_finite v then v else Neg_inf) quotients ! i = map (record_score index vectors qv qn) ps ! i"
      using each i q(2) by (auto simp: record_score_def split: if_splits)
  qed (simp add: q(2))
  then show ?thesis using q(1) by (simp add: numpy_cosine_scores_def comp_def)
qed

lemma rows_from_map: "b \<le> length xs \<Longrightarrow> rows_from (map g xs) a b = map (\<lambda>i. g (xs ! i)) [a..<b]"
  by (rule nth_equalityI) (auto simp: rows_from_def)

lemma range_scores:
  assumes np: "numpy_divides np" and qn: "0 < qn" and ok: "index_holds index vectors" and dim: "length qv = vi_dimension index"
    and "stop \<le> length vectors"
  shows "iter_numpy_cosine_score_range np (map (map Finite) vectors) (map (\<lambda>r. Finite (vr_norm r)) (vi_records index)) start stop qv qn =
    Some (map (\<lambda>i. (i, record_score index vectors qv qn i)) [start..<stop])"
  using assms(5)
proof (induction "stop - start" arbitrary: start rule: less_induct)
  case less
  show ?case
  proof (cases "stop \<le> start")
    case True
    then show ?thesis by (simp add: iter_numpy_cosine_score_range.simps)
  next
    case False
    define after where "after = min stop (start + VECTOR_SCORE_BLOCK_ROWS)"
    have after: "start < after" "after \<le> stop" using False by (auto simp: after_def VECTOR_SCORE_BLOCK_ROWS_def)
    have len: "length (vi_records index) = length vectors" using ok by (simp add: index_holds_def)
    have stop: "after \<le> length vectors" "after \<le> length (vi_records index)" using after less.prems len by auto
    have "list_all (\<lambda>i. i < length vectors) [start..<after]" using stop by (auto simp: list_all_iff)
    then have block: "numpy_cosine_scores np (rows_from (map (map Finite) vectors) start after)
        (rows_from (map (\<lambda>r. Finite (vr_norm r)) (vi_records index)) start after) qv qn =
        Some (map (record_score index vectors qv qn) [start..<after])"
      unfolding rows_from_map [OF stop(1)] rows_from_map [OF stop(2)] by (rule numpy_rows_scores [OF np qn ok dim])
    have rest: "iter_numpy_cosine_score_range np (map (map Finite) vectors) (map (\<lambda>r. Finite (vr_norm r)) (vi_records index)) after stop qv qn =
        Some (map (\<lambda>i. (i, record_score index vectors qv qn i)) [after..<stop])"
      using less.hyps [of after] less.prems after False by simp
    have "List.enumerate start (map (record_score index vectors qv qn) [start..<after]) =
        map (\<lambda>i. (i, record_score index vectors qv qn i)) [start..<after]"
      using after by (intro nth_equalityI) (auto simp: nth_enumerate_eq)
    moreover have "[start..<stop] = [start..<after] @ [after..<stop]" using after by (metis le_add_diff_inverse less_imp_le upt_add_eq_append)
    ultimately show ?thesis
      using False block rest by (subst iter_numpy_cosine_score_range.simps) (simp add: after_def [symmetric] Let_def)
  qed
qed

lemma ranges_from_nonempty:
  "(a, b) \<in> set (ranges_from start previous positions) \<Longrightarrow> sorted_wrt (<) (previous # positions) \<Longrightarrow> start \<le> previous \<Longrightarrow> a < b"
  by (induction start previous positions rule: ranges_from.induct) (auto split: if_splits)

lemma contiguous_ranges_bounded:
  assumes "strictly_increasing positions" and "list_all (\<lambda>i. i < n) positions" and "(a, b) \<in> set (contiguous_position_ranges positions)"
  shows "b \<le> n"
proof -
  have "a < b"
    using assms(1,3) ranges_from_nonempty by (cases positions) (auto simp: contiguous_position_ranges_def strictly_increasing_sorted)
  then have "b - 1 \<in> set (concat (map (\<lambda>(a, b). [a..<b]) (contiguous_position_ranges positions)))"
    using assms(3) by (auto intro!: bexI [of _ "(a, b)"])
  then have "b - 1 < n" using assms(2) contiguous_ranges_exact [OF assms(1)] by (simp add: list_all_iff)
  then show ?thesis by simp
qed

lemma joined_ranges:
  "list_all (\<lambda>(a, b). f a b = Some (map g [a..<b])) rs \<Longrightarrow>
   joined_options (map (\<lambda>(a, b). f a b) rs) = Some (map g (concat (map (\<lambda>(a, b). [a..<b]) rs)))"
  by (induction rs) auto

lemma vector_tuple_Finite [simp]: "length v = n \<Longrightarrow> vector_tuple (map Finite v) n = Inr v"
  by (simp add: vector_tuple_def list_all_iff comp_def)

lemma python_score:
  assumes ok: "index_holds index vectors" and dim: "length qv = vi_dimension index" and i: "i < length vectors"
  shows "python_vector_record_score index i qv qn = Inr (record_score index vectors qv qn i)"
proof -
  let ?r = "vi_records index ! i"
  have len: "length (vi_records index) = length vectors" and v: "length (vectors ! i) = vi_dimension index"
    and pos: "0 < vi_dimension index"
    using ok nth_mem [OF i] by (auto simp: index_holds_def list_all_iff)
  then have "vectors ! i \<noteq> []" by auto
  note v = v this
  have "vr_vector ?r = vectors ! i \<or> vr_vector ?r = [] \<and> vi_matrix index = Some (map (map Finite) vectors)"
    using ok i len by (auto simp: index_holds_def list_all2_conv_all_nth)
  then have "vector_for_record_score index i ?r = Inr (vectors ! i)"
    using v i by (auto simp: vector_for_record_score_def)
  then show ?thesis
    using i len v dim by (auto simp: python_vector_record_score_def record_score_def cosine_def dot_def Let_def)
qed

lemma python_scores_items:
  assumes "index_holds index vectors" and "length qv = vi_dimension index" and "list_all (\<lambda>i. i < length vectors) positions"
  shows "python_scores index positions qv qn = Inr (Some (map (\<lambda>i. (i, record_score index vectors qv qn i)) positions))"
proof -
  have "map_res (\<lambda>i. bind_res (python_vector_record_score index i qv qn) (\<lambda>x. Inr (i, x))) positions =
      Inr (map (\<lambda>i. (i, record_score index vectors qv qn i)) positions)"
    using assms(3) by (induction positions) (simp_all add: python_score [OF assms(1,2)])
  then show ?thesis by (simp add: python_scores_def)
qed

lemma numpy_items:
  assumes np: "numpy_divides np" and qn: "0 < qn" and ok: "index_holds index vectors" and dim: "length qv = vi_dimension index"
    and ps: "list_all (\<lambda>i. i < length vectors) ps" "strictly_increasing ps"
  shows "iter_numpy_vector_record_score_items np (map (map Finite) vectors) (map (\<lambda>r. Finite (vr_norm r)) (vi_records index)) ps qv qn True =
    Some (map (\<lambda>i. (i, record_score index vectors qv qn i)) ps)"
proof (cases "length ps \<le> VECTOR_FILTERED_COPY_MAX_ROWS")
  case True
  have len: "length (vi_records index) = length vectors" using ok by (simp add: index_holds_def)
  have rows: "selected_rows (map (map Finite) vectors) ps = Some (map (\<lambda>i. map Finite (vectors ! i)) ps)"
    "selected_rows (map (\<lambda>r. Finite (vr_norm r)) (vi_records index)) ps = Some (map (\<lambda>i. Finite (vr_norm (vi_records index ! i))) ps)"
    using ps(1) len by (auto simp: selected_rows_def list_all_iff)
  have "zip ps (map (record_score index vectors qv qn) ps) = map (\<lambda>i. (i, record_score index vectors qv qn i)) ps"
    by (simp add: zip_map2 zip_same_conv_map comp_def)
  then show ?thesis
    using True by (simp add: iter_numpy_vector_record_score_items_def rows numpy_rows_scores [OF np qn ok dim ps(1)])
next
  case False
  have "list_all (\<lambda>(a, b). iter_numpy_cosine_score_range np (map (map Finite) vectors) (map (\<lambda>r. Finite (vr_norm r)) (vi_records index)) a b qv qn =
      Some (map (\<lambda>i. (i, record_score index vectors qv qn i)) [a..<b])) (contiguous_position_ranges ps)"
    using range_scores [OF np qn ok dim] contiguous_ranges_bounded [OF ps(2,1)] by (auto simp: list_all_iff)
  then show ?thesis
    using False ps(2) joined_ranges contiguous_ranges_exact [OF ps(2)] by (fastforce simp: iter_numpy_vector_record_score_items_def)
qed

text \<open>The positions that are scored.\<close>

definition scored_positions :: "vector_index \<Rightarrow> nat list option \<Rightarrow> nat list" where
  "scored_positions index record_positions =
     (case record_positions of None \<Rightarrow> [0..<length (vi_records index)] | Some ps \<Rightarrow> ps)"

lemma scored_positions_simps [simp]:
  "scored_positions index None = [0..<length (vi_records index)]" "scored_positions index (Some ps) = ps"
  by (simp_all add: scored_positions_def)

lemma score_items:
  assumes np: "numpy_divides np" and qn: "0 < qn" and ok: "index_holds index vectors" and dim: "length qv = vi_dimension index"
    and ps: "list_all (\<lambda>i. i < length vectors) (scored_positions index rp)" "strictly_increasing (scored_positions index rp)"
  shows "iter_vector_record_score_items np index qv qn rp use_numpy =
    Inr (Some (map (\<lambda>i. (i, record_score index vectors qv qn i)) (scored_positions index rp)))"
proof -
  let ?g = "\<lambda>i. (i, record_score index vectors qv qn i)"
  have len: "length (vi_records index) = length vectors" using ok by (simp add: index_holds_def)
  have py: "python_scores index (scored_positions index rp) qv qn = Inr (Some (map ?g (scored_positions index rp)))"
    by (rule python_scores_items [OF ok dim ps(1)])
  have m: "vi_matrix index = None \<or> vi_matrix index = Some (map (map Finite) vectors)"
    and ns: "vi_norms index = None \<or> vi_norms index = Some (map (\<lambda>r. Finite (vr_norm r)) (vi_records index))"
    using ok by (auto simp: index_holds_def)
  show ?thesis
  proof (cases rp)
    case None
    have "iter_numpy_cosine_score_range np (map (map Finite) vectors) (map (\<lambda>r. Finite (vr_norm r)) (vi_records index)) 0 (length (vi_records index)) qv qn =
        Some (map ?g [0..<length (vi_records index)])"
      by (rule range_scores [OF np qn ok dim]) (simp add: len)
    then show ?thesis
      using m ns py unfolding iter_vector_record_score_items_def None by (auto split: option.splits)
  next
    case (Some positions)
    then show ?thesis
      using m ns py numpy_items [OF np qn ok dim ps] unfolding iter_vector_record_score_items_def
      by (auto split: option.splits)
  qed
qed


section \<open>The best record of a page\<close>

text \<open>The records that count: with a norm, and of a page that may be shown.\<close>

definition counts :: "vector_index \<Rightarrow> (ustr, wiki_page) dict \<Rightarrow> ustr set \<Rightarrow> nat \<Rightarrow> bool" where
  "counts index by_id excluded i \<longleftrightarrow> i < length (vi_records index) \<and> 0 < vr_norm (vi_records index ! i) \<and>
     (case map_of by_id (vr_page_id (vi_records index ! i)) of None \<Rightarrow> False | Some p \<Rightarrow> \<not> page_is_excluded p excluded)"

text \<open>A higher cosine is better, then a lower ordinal, then the earlier position.\<close>

definition beats :: "(nat \<Rightarrow> real) \<Rightarrow> vector_index \<Rightarrow> nat \<Rightarrow> nat \<Rightarrow> bool" where
  "beats value index i j \<longleftrightarrow>
     (if i < j then \<not> better (value j) (vi_records index ! j) (value i, vi_records index ! i)
      else better (value i) (vi_records index ! i) (value j, vi_records index ! j))"

definition winner :: "(nat \<Rightarrow> real) \<Rightarrow> vector_index \<Rightarrow> (nat \<Rightarrow> bool) \<Rightarrow> nat set \<Rightarrow> ustr \<Rightarrow> nat \<Rightarrow> bool" where
  "winner value index ok positions page i \<longleftrightarrow> i \<in> positions \<and> ok i \<and> vr_page_id (vi_records index ! i) = page \<and>
     (\<forall>j\<in>positions. ok j \<and> vr_page_id (vi_records index ! j) = page \<and> j \<noteq> i \<longrightarrow> beats value index i j)"

lemma beats_antisym: "beats value index i j \<Longrightarrow> beats value index j i \<Longrightarrow> i = j"
  by (cases i j rule: linorder_cases) (auto simp: beats_def better_def split: if_splits)

lemma winner_unique: "winner value index ok ps page i \<Longrightarrow> winner value index ok ps page j \<Longrightarrow> i = j"
  using beats_antisym by (fastforce simp: winner_def)

lemma winner_step:
  assumes "\<forall>j\<in>ps. j < k" and "winner value index ok ps page i" and "ok k" and "vr_page_id (vi_records index ! k) = page"
  shows "winner value index ok (insert k ps) page
    (if better (value k) (vi_records index ! k) (value i, vi_records index ! i) then k else i)"
proof (cases "better (value k) (vi_records index ! k) (value i, vi_records index ! i)")
  case True
  have "beats value index k j" if "j \<in> ps" "ok j" "vr_page_id (vi_records index ! j) = page" for j
  proof -
    have "j < k" using assms(1) that(1) by blast
    moreover have "j = i \<or> beats value index i j" using assms(2) that by (auto simp: winner_def)
    ultimately show ?thesis using True by (auto simp: beats_def better_def split: if_splits)
  qed
  then show ?thesis using True assms by (auto simp: winner_def)
next
  case False
  have "i < k" using assms(1,2) by (auto simp: winner_def)
  then have "beats value index i k" using False by (simp add: beats_def)
  then show ?thesis using False assms by (auto simp: winner_def)
qed

definition best_ok :: "(nat \<Rightarrow> real) \<Rightarrow> vector_index \<Rightarrow> (nat \<Rightarrow> bool) \<Rightarrow> nat set \<Rightarrow> best_records \<Rightarrow> bool" where
  "best_ok value index ok ps best \<longleftrightarrow> distinct (map fst best) \<and>
     (\<forall>page. case map_of best page of
        None \<Rightarrow> \<forall>i\<in>ps. ok i \<longrightarrow> vr_page_id (vi_records index ! i) \<noteq> page
      | Some (s, r) \<Rightarrow> \<exists>i. winner value index ok ps page i \<and> s = value i \<and> r = vi_records index ! i)"

lemma best_ok_None: "best_ok value index ok ps best \<Longrightarrow> map_of best page = None \<Longrightarrow>
    \<forall>i\<in>ps. ok i \<longrightarrow> vr_page_id (vi_records index ! i) \<noteq> page"
  unfolding best_ok_def by (drule conjunct2, drule spec [of _ page]) simp

lemma best_ok_Some: "best_ok value index ok ps best \<Longrightarrow> map_of best page = Some (s, r) \<Longrightarrow>
    \<exists>i. winner value index ok ps page i \<and> s = value i \<and> r = vi_records index ! i"
  unfolding best_ok_def by (drule conjunct2, drule spec [of _ page]) simp

lemma best_okI:
  assumes "distinct (map fst best)"
    and "\<And>page. map_of best page = None \<Longrightarrow> \<forall>i\<in>ps. ok i \<longrightarrow> vr_page_id (vi_records index ! i) \<noteq> page"
    and "\<And>page s r. map_of best page = Some (s, r) \<Longrightarrow> \<exists>i. winner value index ok ps page i \<and> s = value i \<and> r = vi_records index ! i"
  shows "best_ok value index ok ps best"
  unfolding best_ok_def using assms by (simp split: option.split)

lemma keep_best_ok:
  assumes "best_ok value index (counts index by_id excluded) ps best" and "\<forall>j\<in>ps. j < k"
    and "k < length (vi_records index)" and "counts index by_id excluded k \<Longrightarrow> score = Finite (value k)"
  shows "best_ok value index (counts index by_id excluded) (insert k ps) (keep_best index by_id excluded (k, score) best)"
proof (cases "counts index by_id excluded k")
  case False
  then have "keep_best index by_id excluded (k, score) best = best"
    using assms(3) by (auto simp: keep_best_def counts_def Let_def split: option.splits)
  moreover have same: "winner value index (counts index by_id excluded) (insert k ps) page i = winner value index (counts index by_id excluded) ps page i" for page i
    using False by (auto simp: winner_def)
  have "best_ok value index (counts index by_id excluded) (insert k ps) best = best_ok value index (counts index by_id excluded) ps best"
    unfolding best_ok_def same using False by (simp only: ball_simps simp_thms)
  ultimately show ?thesis using assms(1) by simp
next
  case True
  let ?ok = "counts index by_id excluded" and ?r = "vi_records index ! k"
  have score: "score = Finite (value k)" by (rule assms(4) [OF True])
  have other: "winner value index ?ok (insert k ps) page i = winner value index ?ok ps page i" if "page \<noteq> vr_page_id ?r" for page i
    using that by (auto simp: winner_def)
  have d: "distinct (map fst best)" using assms(1) by (simp add: best_ok_def)
  show ?thesis
  proof (cases "map_of best (vr_page_id ?r)")
    case None
    then have none: "\<forall>i\<in>ps. ?ok i \<longrightarrow> vr_page_id (vi_records index ! i) \<noteq> vr_page_id ?r"
      by (rule best_ok_None [OF assms(1)])
    have new: "keep_best index by_id excluded (k, score) best = AList.update (vr_page_id ?r) (value k, ?r) best"
      using True None by (auto simp: keep_best_def counts_def Let_def score split: option.splits)
    have w: "winner value index ?ok (insert k ps) (vr_page_id ?r) k"
      using none True by (auto simp: winner_def)
    show ?thesis
      unfolding new
    proof (rule best_okI)
      fix page assume "map_of (AList.update (vr_page_id ?r) (value k, ?r) best) page = None"
      then have "page \<noteq> vr_page_id ?r" "map_of best page = None" by (auto split: if_splits)
      then show "\<forall>i\<in>insert k ps. ?ok i \<longrightarrow> vr_page_id (vi_records index ! i) \<noteq> page" using best_ok_None [OF assms(1)] by auto
    next
      fix page s r assume m: "map_of (AList.update (vr_page_id ?r) (value k, ?r) best) page = Some (s, r)"
      show "\<exists>i. winner value index ?ok (insert k ps) page i \<and> s = value i \<and> r = vi_records index ! i"
        using m w other [of page] best_ok_Some [OF assms(1), of page s r] by (cases "page = vr_page_id ?r") auto
    qed (simp add: d distinct_update)
  next
    case (Some previous)
    obtain s r where pre: "previous = (s, r)" by (rule prod.exhaust)
    obtain i where i: "winner value index ?ok ps (vr_page_id ?r) i" "s = value i" "r = vi_records index ! i"
      using best_ok_Some [OF assms(1) Some [unfolded pre]] by blast
    let ?w = "if better (value k) ?r (s, r) then k else i" and ?new = "keep_best index by_id excluded (k, score) best"
    have w: "winner value index ?ok (insert k ps) (vr_page_id ?r) ?w"
      using winner_step [OF assms(2) i(1) True refl] i by simp
    have new: "map_of ?new = (map_of best)(vr_page_id ?r \<mapsto> (value ?w, vi_records index ! ?w))"
      using True Some i by (auto simp: keep_best_def counts_def Let_def score pre fun_upd_idem split: option.splits)
    show ?thesis
    proof (rule best_okI)
      show "distinct (map fst ?new)"
        using d by (auto simp: keep_best_def Let_def distinct_update split: option.splits)
    next
      fix page assume "map_of ?new page = None"
      then have "page \<noteq> vr_page_id ?r" "map_of best page = None" by (auto simp: new split: if_splits)
      then show "\<forall>i\<in>insert k ps. ?ok i \<longrightarrow> vr_page_id (vi_records index ! i) \<noteq> page" using best_ok_None [OF assms(1)] by auto
    next
      fix page s' r' assume m: "map_of ?new page = Some (s', r')"
      show "\<exists>i. winner value index ?ok (insert k ps) page i \<and> s' = value i \<and> r' = vi_records index ! i"
      proof (cases "page = vr_page_id ?r")
        case True
        then show ?thesis using m w by (intro exI [of _ ?w]) (simp add: new)
      next
        case False
        then show ?thesis using m other [OF False] best_ok_Some [OF assms(1), of page s' r'] by (simp add: new)
      qed
    qed
  qed
qed

lemma fold_keep_best_ok:
  assumes "best_ok value index (counts index by_id excluded) ps best" and "\<forall>i\<in>ps. \<forall>j\<in>set qs. i < j" and "sorted_wrt (<) qs"
    and "\<forall>i\<in>set qs. i < length (vi_records index)" and "\<And>i. counts index by_id excluded i \<Longrightarrow> score i = Finite (value i)"
  shows "best_ok value index (counts index by_id excluded) (ps \<union> set qs)
    (fold (keep_best index by_id excluded) (map (\<lambda>i. (i, score i)) qs) best)"
  using assms(1-4)
proof (induction qs arbitrary: ps best)
  case (Cons q qs)
  have "best_ok value index (counts index by_id excluded) (insert q ps) (keep_best index by_id excluded (q, score q) best)"
    by (rule keep_best_ok [OF Cons.prems(1)]) (use Cons.prems assms(5) in auto)
  then have "best_ok value index (counts index by_id excluded) (insert q ps \<union> set qs)
      (fold (keep_best index by_id excluded) (map (\<lambda>i. (i, score i)) qs) (keep_best index by_id excluded (q, score q) best))"
    by (rule Cons.IH) (use Cons.prems in auto)
  then show ?case by simp
qed simp

section \<open>The positions of a small set of pages\<close>

lemma filter_rows_exact:
  "filter_rows ids n i rs = Some ps \<Longrightarrow>
   ps = map (\<lambda>j. i + j) (filter (\<lambda>j. vr_page_id (rs ! j) \<in> ids \<and> 0 < vr_norm (rs ! j)) [0..<length rs])"
proof (induction rs arbitrary: n i ps)
  case (Cons r rs)
  have "[0..<length (r # rs)] = 0 # map Suc [0..<length rs]" by (simp add: upt_conv_Cons map_Suc_upt del: upt_Suc)
  then show ?case using Cons.prems by (auto simp: filter_map comp_def split: if_splits dest!: Cons.IH simp del: upt_Suc)
qed simp

lemma map_of_pages_by_id: "map_of (pages_by_id pages) i = Some p \<Longrightarrow> page_id p = i \<and> p \<in> set pages"
  by (auto simp: pages_by_id_def map_of_dict_of dest!: map_of_SomeD)

lemma distinct_pages_by_id: "distinct (map fst (pages_by_id pages))"
  by (simp add: pages_by_id_def distinct_dict_of)

lemma effective_ids:
  "i \<in> effective_page_ids (pages_by_id pages) excluded \<longleftrightarrow>
   (case map_of (pages_by_id pages) i of None \<Rightarrow> False | Some p \<Rightarrow> \<not> page_is_excluded p excluded)"
proof -
  have "(j, p) \<in> set (pages_by_id pages) \<longleftrightarrow> map_of (pages_by_id pages) j = Some p" for j p
    by (rule map_of_eq_Some_iff [OF distinct_pages_by_id, symmetric])
  then show ?thesis
    using map_of_pages_by_id by (fastforce simp: effective_page_ids_def image_iff split: option.splits)
qed

lemma filtered_positions_enough:
  fixes index pages excluded
  defines "sp \<equiv> scored_positions index (filtered_record_positions_for_small_page_subset index (pages_by_id pages) excluded)"
  shows "strictly_increasing sp" and "list_all (\<lambda>i. i < length (vi_records index)) sp"
    and "counts index (pages_by_id pages) excluded i \<Longrightarrow> i \<in> set sp"
proof -
  let ?ids = "effective_page_ids (pages_by_id pages) excluded" and ?rs = "vi_records index"
  consider (all) "sp = [0..<length ?rs]"
    | (some) "sp = filter (\<lambda>j. vr_page_id (?rs ! j) \<in> ?ids \<and> 0 < vr_norm (?rs ! j)) [0..<length ?rs]"
    | (none) "?ids = {}" "sp = []"
    by (fastforce simp: sp_def filtered_record_positions_for_small_page_subset_def scored_positions_def Let_def
        dest: filter_rows_exact split: option.splits if_splits)
  note c = this
  show "strictly_increasing sp"
    using c by cases (auto simp: strictly_increasing_sorted sorted_wrt_filter)
  show "list_all (\<lambda>i. i < length ?rs) sp"
    using c by cases (auto simp: list_all_iff)
  show "counts index (pages_by_id pages) excluded i \<Longrightarrow> i \<in> set sp"
    using c by cases (auto simp: counts_def effective_ids [symmetric])
qed

section \<open>Search\<close>

text \<open>The record at \<open>i\<close> is the best one of a page that may be shown; \<open>p\<close> is the last page with its id.\<close>

definition best_position ::
  "vector_index \<Rightarrow> real list list \<Rightarrow> real list \<Rightarrow> real \<Rightarrow> wiki_page list \<Rightarrow> ustr set \<Rightarrow> wiki_page \<Rightarrow> nat \<Rightarrow> bool" where
  "best_position index vectors qv qn pages excluded p i \<longleftrightarrow>
     map_of (pages_by_id pages) (page_id p) = Some p \<and>
     winner (\<lambda>i. finite_part (record_score index vectors qv qn i)) index (counts index (pages_by_id pages) excluded)
       {i. i < length (vi_records index)} (page_id p) i"

lemma winner_restrict:
  "(\<And>i. ok i \<Longrightarrow> i \<in> ps) \<Longrightarrow> (\<And>i. ok i \<Longrightarrow> i \<in> qs) \<Longrightarrow> winner value index ok ps page i = winner value index ok qs page i"
  by (auto simp: winner_def)

text \<open>The best records a search finds, over all positions.\<close>

lemma searched_best:
  fixes pages excluded
  assumes "numpy_divides np" and "0 < qn" and "index_holds index vectors" and "length qv = vi_dimension index"
  defines "rp \<equiv> filtered_record_positions_for_small_page_subset index (pages_by_id pages) excluded"
  shows "\<exists>best. best_vector_records_by_page np index (pages_by_id pages) excluded qv qn rp = Inr best \<and> (rp = Some [] \<longrightarrow> best = []) \<and>
    best_ok (\<lambda>i. finite_part (record_score index vectors qv qn i)) index (counts index (pages_by_id pages) excluded)
      {i. i < length (vi_records index)} best"
proof -
  let ?by = "pages_by_id pages" and ?n = "length (vi_records index)"
  let ?val = "\<lambda>i. finite_part (record_score index vectors qv qn i)"
  let ?ok = "counts index ?by excluded"
  define sp where "sp = scored_positions index rp"
  have sp: "strictly_increasing sp" "list_all (\<lambda>i. i < ?n) sp" "\<And>i. ?ok i \<Longrightarrow> i \<in> set sp"
    using filtered_positions_enough [of index pages excluded] by (simp_all add: sp_def rp_def)
  have lens: "length vectors = ?n" using assms(3) by (simp add: index_holds_def)
  define best where "best = fold (keep_best index ?by excluded) (map (\<lambda>i. (i, record_score index vectors qv qn i)) sp) []"
  have "best_vector_records_by_page_from_scores np index ?by excluded qv qn rp True = Inr (Some best)"
    using score_items [OF assms(1-4), of rp True] sp(1,2) lens
    by (simp add: best_vector_records_by_page_from_scores_def sp_def [symmetric] best_def)
  then have "best_vector_records_by_page np index ?by excluded qv qn rp = Inr best"
    by (simp add: best_vector_records_by_page_def with_fallback_def)
  moreover have "record_score index vectors qv qn i = Finite (?val i)" if "?ok i" for i
    using that by (auto simp: counts_def record_score_def)
  then have "best_ok ?val index ?ok ({} \<union> set sp) best"
    unfolding best_def
    by (intro fold_keep_best_ok) (use sp in \<open>auto simp: best_ok_def strictly_increasing_sorted list_all_iff\<close>)
  then have ok: "best_ok ?val index ?ok (set sp) best" by simp
  have win: "winner ?val index ?ok (set sp) page i = winner ?val index ?ok {i. i < ?n} page i" for page i
    by (rule winner_restrict) (use sp(3) in \<open>auto simp: counts_def\<close>)
  have "best_ok ?val index ?ok {i. i < ?n} best"
  proof (rule best_okI)
    fix page assume "map_of best page = None"
    then show "\<forall>i\<in>{i. i < ?n}. ?ok i \<longrightarrow> vr_page_id (vi_records index ! i) \<noteq> page"
      using best_ok_None [OF ok] sp(3) by blast
  next
    fix page s r assume "map_of best page = Some (s, r)"
    then show "\<exists>i. winner ?val index ?ok {i. i < ?n} page i \<and> s = ?val i \<and> r = vi_records index ! i"
      using best_ok_Some [OF ok] win by metis
  qed (use ok in \<open>simp add: best_ok_def\<close>)
  moreover have "rp = Some [] \<longrightarrow> best = []" by (simp add: best_def sp_def)
  ultimately show ?thesis by blast
qed

text \<open>An entry of the best records: the position it stands for, and its page.\<close>

lemma best_entry:
  assumes "best_ok value index (counts index (pages_by_id pages) excluded) ps best" and "(page, s, r) \<in> set best"
  shows "\<exists>i. winner value index (counts index (pages_by_id pages) excluded) ps page i \<and> s = value i \<and> r = vi_records index ! i"
    and "map_of (pages_by_id pages) page = Some (page_of (pages_by_id pages) page)"
    and "page_id (page_of (pages_by_id pages) page) = page"
proof -
  have "map_of best page = Some (s, r)" using assms by (simp add: best_ok_def map_of_eq_Some_iff)
  then show w: "\<exists>i. winner value index (counts index (pages_by_id pages) excluded) ps page i \<and> s = value i \<and> r = vi_records index ! i"
    by (rule best_ok_Some [OF assms(1)])
  then obtain i where "counts index (pages_by_id pages) excluded i" "vr_page_id (vi_records index ! i) = page"
    by (auto simp: winner_def)
  then obtain p where "map_of (pages_by_id pages) page = Some p" by (auto simp: counts_def split: option.splits)
  then show "map_of (pages_by_id pages) page = Some (page_of (pages_by_id pages) page)"
    and "page_id (page_of (pages_by_id pages) page) = page"
    using map_of_pages_by_id by (auto simp: page_of_def dict_get_def)
qed

text \<open>
  C32: A vector search shows, for every visible page with a record, the record of the highest cosine (the
  first of the lowest ordinal among equals), best page first and at most \<open>limit\<close> of them, although only the
  records of a small set of pages are scored, in any of the ways above.
\<close>
theorem vector_search_exact:
  assumes "numpy_divides np" and "0 < qn" and "index_holds index vectors" and "length qv = vi_dimension index"
  shows "\<exists>ranked. search_vector_index_with_query_vector np index pages query (Some (qv, qn)) limit chars exclude =
      Inr (map (\<lambda>(p, i). vector_result p (finite_part (record_score index vectors qv qn i)) (vi_records index ! i) chars) (take limit ranked)) \<and>
    sorted (map (\<lambda>(p, i). vector_sort_key (finite_part (record_score index vectors qv qn i)) p (vi_records index ! i)) ranked) \<and>
    distinct (map (page_id \<circ> fst) ranked) \<and>
    set ranked = {(p, i). best_position index vectors qv qn pages (page_exclusion_set exclude) p i}"
proof -
  let ?by = "pages_by_id pages" and ?ex = "page_exclusion_set exclude" and ?all = "{i. i < length (vi_records index)}"
  let ?val = "\<lambda>i. finite_part (record_score index vectors qv qn i)"
  let ?ok = "counts index ?by ?ex"
  define rp where "rp = filtered_record_positions_for_small_page_subset index ?by ?ex"
  obtain best where bests: "best_vector_records_by_page np index ?by ?ex qv qn rp = Inr best" "rp = Some [] \<Longrightarrow> best = []"
    and ok: "best_ok ?val index ?ok ?all best"
    using searched_best [OF assms, of pages ?ex] unfolding rp_def by blast
  define pos where "pos page = (THE i. winner ?val index ?ok ?all page i)" for page
  have pos: "pos page = i" if "winner ?val index ?ok ?all page i" for page i
    unfolding pos_def using that by (intro the_equality) (auto intro: winner_unique)
  have entry: "s = ?val (pos page) \<and> r = vi_records index ! pos page \<and> winner ?val index ?ok ?all page (pos page)"
    if "(page, s, r) \<in> set best" for page s r using best_entry(1) [OF ok that] pos by auto
  note shown = best_entry(2,3) [OF ok]
  define ranked where "ranked = map (\<lambda>(page, s, r). (page_of ?by page, pos page)) (ranked_records ?by best)"
  have sets: "set (ranked_records ?by best) = set best" by (simp add: ranked_records_def)
  show ?thesis
  proof (intro exI [of _ ranked] conjI)
    have "map (\<lambda>(p, i). vector_result p (?val i) (vi_records index ! i) chars) (take limit ranked) =
        map (\<lambda>(i, score, r). vector_result (page_of ?by i) score r chars) (take limit (ranked_records ?by best))"
      unfolding ranked_def take_map map_map
      by (rule map_cong [OF refl]) (use entry sets in \<open>fastforce dest: in_set_takeD\<close>)
    then show "search_vector_index_with_query_vector np index pages query (Some (qv, qn)) limit chars exclude =
        Inr (map (\<lambda>(p, i). vector_result p (?val i) (vi_records index ! i) chars) (take limit ranked))"
      using assms(2) bests
      by (auto simp: search_vector_index_with_query_vector_def Let_def rp_def [symmetric] ranked_records_def)
    have "map (\<lambda>(p, i). vector_sort_key (?val i) p (vi_records index ! i)) ranked =
        map (\<lambda>(i, score, r). vector_sort_key score (page_of ?by i) r) (ranked_records ?by best)"
      unfolding ranked_def map_map by (rule map_cong [OF refl]) (use entry sets in fastforce)
    then show "sorted (map (\<lambda>(p, i). vector_sort_key (?val i) p (vi_records index ! i)) ranked)"
      by (simp add: ranked_records_def)
    have "map (page_id \<circ> fst) ranked = map fst (ranked_records ?by best)"
      unfolding ranked_def map_map by (rule map_cong [OF refl]) (use shown sets in fastforce)
    then show "distinct (map (page_id \<circ> fst) ranked)"
      using ok by (simp add: ranked_records_def best_ok_def distinct_map inj_on_def)
    show "set ranked = {(p, i). best_position index vectors qv qn pages ?ex p i}"
    proof (intro set_eqI iffI; clarify)
      fix p i assume "(p, i) \<in> set ranked"
      then obtain page s r where e: "(page, s, r) \<in> set best" "p = page_of ?by page" "i = pos page"
        by (auto simp: ranked_def sets)
      then show "best_position index vectors qv qn pages ?ex p i"
        using entry [OF e(1)] shown [OF e(1)] by (auto simp: best_position_def)
    next
      fix p i assume "best_position index vectors qv qn pages ?ex p i"
      then have w: "winner ?val index ?ok ?all (page_id p) i" and p: "page_of ?by (page_id p) = p"
        by (simp_all add: best_position_def page_of_def dict_get_def)
      have "map_of best (page_id p) \<noteq> None" using best_ok_None [OF ok] w unfolding winner_def by blast
      then obtain s r where "(page_id p, s, r) \<in> set best" by (auto dest: map_of_SomeD)
      then show "(p, i) \<in> set ranked" using pos [OF w] p by (force simp: ranked_def sets)
    qed
  qed
qed

section \<open>A concrete index\<close>

text \<open>What NumPy computes, row by row, for finite rows and norms.\<close>

definition row_quotients :: numpy_scores where
  "row_quotients rows norms qv qn =
     Some (map2 (\<lambda>row n. if 0 < finite_part n then Finite (dot qv (map finite_part row) / (qn * finite_part n)) else Not_a_number) rows norms)"

lemma row_quotients_divide: "numpy_divides row_quotients"
  by (auto simp: numpy_divides_def row_quotients_def comp_def)

definition sample_record :: "string \<Rightarrow> nat \<Rightarrow> chunk_record" where
  "sample_record page i = \<lparr>vr_page_id = lit page, vr_chunk_id = [], vr_ordinal = i, vr_start = 0, vr_end = 1,
     vr_heading_hash = [], vr_page_hash = [], vr_vector = [], vr_norm = 1\<rparr>"

definition sample_index :: vector_index where
  "sample_index = \<lparr>vi_identity = [], vi_records = [sample_record ''a'' 0, sample_record ''b'' 0], vi_dimension = 2, vi_cache_hit = True,
     vi_matrix = Some [[Finite 1, Finite 0], [Finite 0, Finite 1]], vi_norms = Some [Finite 1, Finite 1]\<rparr>"

lemma sample_index_holds: "index_holds sample_index [[1, 0], [0, 1]]"
  by (simp add: index_holds_def sample_index_def sample_record_def)


lemma vector_search_exact_witness:
  "\<exists>ranked. search_vector_index_with_query_vector row_quotients sample_index [mk_page (lit ''a'') [] [] Role_topic []] (lit ''q'') (Some ([3, 4], 5)) 9 None [] =
      Inr (map (\<lambda>(p, i). vector_result p (finite_part (record_score sample_index [[1, 0], [0, 1]] [3, 4] 5 i)) (vi_records sample_index ! i) None) (take 9 ranked)) \<and>
    set ranked = {(p, i). best_position sample_index [[1, 0], [0, 1]] [3, 4] 5 [mk_page (lit ''a'') [] [] Role_topic []] (page_exclusion_set []) p i}"
  using vector_search_exact [OF row_quotients_divide _ sample_index_holds, of 5 "[3, 4]" "[mk_page (lit ''a'') [] [] Role_topic []]" "lit ''q''" 9 None "[]"]
  by (simp add: sample_index_def) blast

end
