(* ===== verification/Vector_Hybrid_Props.thy ===== *)
theory Vector_Hybrid_Props
  imports Vector_Hybrid Vector_Search_Props
begin

text \<open>
  What hybrid search computes and shows: scores that are sums of weighted reciprocal ranks, and results that
  come from the given pages.
\<close>

section \<open>Reciprocal ranks\<close>

text \<open>What a channel contributes: for each result, the weight over 60 plus its rank.\<close>

definition contributions :: "real \<times> search_result list \<Rightarrow> (real \<times> search_result) list" where
  "contributions channel = map (\<lambda>(rank, r). (fst channel / (60 + real rank), r)) (List.enumerate 1 (snd channel))"

definition share :: "ustr \<Rightarrow> (real \<times> search_result) list \<Rightarrow> real" where
  "share i es = sum_list (map (\<lambda>(x, r). if res_page_id r = i then x else 0) es)"

definition fused_score :: "(real \<times> search_result list) list \<Rightarrow> ustr \<Rightarrow> real" where
  "fused_score channels i = share i (concat (map contributions channels))"

lemma share_simps [simp]: "share i [] = 0" "share i (es @ fs) = share i es + share i fs"
  "share i ((x, r) # es) = (if res_page_id r = i then x else 0) + share i es"
  by (simp_all add: share_def)

definition fusion_of :: "(real \<times> search_result) list \<Rightarrow> hybrid_fusion \<Rightarrow> bool" where
  "fusion_of es fu \<longleftrightarrow> distinct (map fst (hf_scores fu)) \<and> set (map fst (hf_scores fu)) = res_page_id ` snd ` set es \<and>
     (\<forall>i. dict_get (hf_scores fu) i 0 = share i es) \<and>
     (\<forall>i. map_of (hf_results fu) i = List.find (\<lambda>r. res_page_id r = i) (map snd es))"

lemma find_append: "List.find P (xs @ ys) = (case List.find P xs of Some x \<Rightarrow> Some x | None \<Rightarrow> List.find P ys)"
  by (induction xs) auto

lemma find_SomeD: "List.find P xs = Some x \<Longrightarrow> x \<in> set xs \<and> P x"
  by (auto simp: find_Some_iff)

lemma add_ranked_fusion:
  "fusion_of es fu \<Longrightarrow> fusion_of (es @ [(w / (60 + real rank), r)]) (add_ranked w (rank, r) fu)"
  by (auto simp: fusion_of_def add_ranked_def HYBRID_RRF_K_def distinct_update dom_update dict_get_def map_of_setdefault find_append
      split: option.splits)

lemma add_ranked_list_fusion:
  "fusion_of es fu \<Longrightarrow>
   fusion_of (es @ map (\<lambda>(rank, r). (w / (60 + real rank), r)) ranked) (fold (add_ranked w) ranked fu)"
proof (induction ranked arbitrary: es fu)
  case (Cons x ranked)
  obtain rank r where x: "x = (rank, r)" by (rule prod.exhaust)
  show ?case using Cons.IH [OF add_ranked_fusion [OF Cons.prems, of w rank r]] by (simp add: x)
qed simp

lemma channels_fusion:
  "fusion_of es fu \<Longrightarrow> fusion_of (es @ concat (map contributions channels)) (fold add_hybrid_channel channels fu)"
proof (induction channels arbitrary: es fu)
  case (Cons c channels)
  obtain w rs where c: "c = (w, rs)" by (rule prod.exhaust)
  have "fusion_of (es @ contributions c) (add_hybrid_channel c fu)"
    using add_ranked_list_fusion [OF Cons.prems] by (simp add: c contributions_def add_hybrid_channel_def)
  from Cons.IH [OF this] show ?case by simp
qed simp

lemma all_fusion: "fusion_of (concat (map contributions channels)) (fold add_hybrid_channel channels \<lparr>hf_results = [], hf_scores = []\<rparr>)"
  using channels_fusion [of "[]" "\<lparr>hf_results = [], hf_scores = []\<rparr>" channels] by (simp add: fusion_of_def dict_get_def)

definition channel_results :: "(real \<times> search_result list) list \<Rightarrow> search_result list" where
  "channel_results channels = concat (map snd channels)"

lemma contributed_results: "map snd (concat (map contributions channels)) = channel_results channels"
  by (induction channels) (simp_all add: channel_results_def contributions_def comp_def split_beta)

text \<open>
  A list is the fusion of channels: the ids of their results in the order of their scores, the exact lexical
  matches first among equals, then by role and path, with the scores rounded.
\<close>

definition fused_by :: "(real \<times> search_result list) list \<Rightarrow> nat \<Rightarrow> search_result list \<Rightarrow> bool" where
  "fused_by channels limit rs \<longleftrightarrow> (\<exists>ranked. distinct ranked \<and> set ranked = res_page_id ` set (channel_results channels) \<and>
     sorted (map (\<lambda>i. - fused_score channels i) ranked) \<and>
     map (\<lambda>r. (res_page_id r, res_score r)) rs = map (\<lambda>i. (i, py_round (fused_score channels i) 4)) (take limit ranked) \<and>
     list_all (\<lambda>r. \<exists>q\<in>set (channel_results channels). r = q\<lparr>res_score := res_score r, res_route := lit ''hybrid''\<rparr>) rs)"

lemma fused_results_by:
  assumes "set lexical \<subseteq> set (channel_results channels)"
  shows "fused_by channels limit (fused_results required lexical channels limit)"
proof -
  define fu where "fu = fold add_hybrid_channel channels \<lparr>hf_results = [], hf_scores = []\<rparr>"
  have fu: "fusion_of (concat (map contributions channels)) fu" unfolding fu_def by (rule all_fusion)
  let ?key = "hybrid_key required lexical fu"
  define ranked where "ranked = sort_key ?key (map fst (hf_scores fu))"
  have scores: "dict_get (hf_scores fu) i 0 = fused_score channels i" for i
    using fu by (simp add: fusion_of_def fused_score_def)
  have ids: "set (map fst (hf_scores fu)) = res_page_id ` set (channel_results channels)"
    using fu by (simp add: fusion_of_def contributed_results [symmetric])
  have base: "hybrid_base required lexical fu i \<in> set (channel_results channels) \<and> res_page_id (hybrid_base required lexical fu i) = i"
    if "i \<in> res_page_id ` set (channel_results channels)" for i
  proof -
    have "List.find (\<lambda>r. res_page_id r = i) (channel_results channels) \<noteq> None"
      using that by (auto simp: find_None_iff)
    then obtain r where found: "List.find (\<lambda>r. res_page_id r = i) (channel_results channels) = Some r" by blast
    then have r: "map_of (hf_results fu) i = Some r" "r \<in> set (channel_results channels)" "res_page_id r = i"
      using fu find_SomeD [OF found] by (simp_all add: fusion_of_def contributed_results)
    show ?thesis
      using r assms by (auto simp: hybrid_base_def first_of_page_def dict_get_def split: option.splits dest!: find_SomeD)
  qed
  have "sorted (map ?key ranked)" by (simp add: ranked_def)
  then have "sorted_wrt (\<lambda>i j. ?key i \<le> ?key j) ranked" by (simp add: sorted_map)
  then have "sorted_wrt (\<lambda>i j. - fused_score channels i \<le> - fused_score channels j) ranked"
    by (rule sorted_wrt_mono_rel [rotated]) (auto simp: hybrid_key_def Let_def scores less_eq_prod_def)
  then have sorted: "sorted (map (\<lambda>i. - fused_score channels i) ranked)" by (simp add: sorted_map)
  have all: "i \<in> res_page_id ` set (channel_results channels)" if "i \<in> set (take limit ranked)" for i
    using in_set_takeD [OF that] ids by (simp add: ranked_def)
  have eq: "fused_results required lexical channels limit =
      map (\<lambda>i. (hybrid_base required lexical fu i)\<lparr>res_score := py_round (fused_score channels i) 4, res_route := lit ''hybrid''\<rparr>) (take limit ranked)"
    by (simp add: fused_results_def fu_def [symmetric] ranked_def Let_def scores)
  show ?thesis
    unfolding fused_by_def
  proof (intro exI [of _ ranked] conjI)
    show "distinct ranked" using fu by (simp add: ranked_def fusion_of_def)
    show "set ranked = res_page_id ` set (channel_results channels)" using ids by (simp add: ranked_def)
    show "sorted (map (\<lambda>i. - fused_score channels i) ranked)" by (rule sorted)
    show "map (\<lambda>r. (res_page_id r, res_score r)) (fused_results required lexical channels limit) =
        map (\<lambda>i. (i, py_round (fused_score channels i) 4)) (take limit ranked)"
      unfolding eq map_map by (rule map_cong [OF refl]) (use all base in auto)
    show "list_all (\<lambda>r. \<exists>q\<in>set (channel_results channels). r = q\<lparr>res_score := res_score r, res_route := lit ''hybrid''\<rparr>)
        (fused_results required lexical channels limit)"
      unfolding eq list_all_iff using all base by fastforce
  qed
qed

lemma hybrid_rank_fusion_lemma:
  "let required = exact_required_page_ids_for_query c query;
       suppressed = (\<lambda>on. if on then suppressed_orientation_answer_page_ids nf (corpus_pages c) query else {});
       plain = plain_hybrid_search_results nf hits vectors c query limit suppress;
       seeded = orientation_seeded_hybrid_search_results nf hits vectors related seeds related_ids c query limit exact_scores
   in if required = Some {} then plain = [] \<and> seeded = []
      else fused_by [(1, answering required (suppressed suppress) hits), (1, answering required (suppressed suppress) vectors)] limit plain \<and>
        fused_by (seeded_channels required (suppressed True) hits vectors related seeds related_ids (corpus_pages c) exact_scores) limit seeded"
proof -
  have plain: "fused_by [(1, xs), (1, ys)] limit (fused_results required xs [(1, xs), (1, ys)] limit)" for required xs ys
    by (rule fused_results_by) (simp add: channel_results_def)
  have seeded: "fused_by (seeded_channels required off hits vectors related seeds related_ids pages exact_scores) limit
      (fused_results required (answering required off hits)
        (seeded_channels required off hits vectors related seeds related_ids pages exact_scores) limit)" for required off pages
    by (rule fused_results_by) (simp add: channel_results_def seeded_channels_def Let_def)
  show ?thesis
    unfolding plain_hybrid_search_results_def orientation_seeded_hybrid_search_results_def Let_def
    using plain seeded by (simp only: if_True if_False split: if_split) simp
qed


section \<open>Results come from the given pages\<close>

text \<open>A result shows one of the pages, and a page with its id is not excluded.\<close>

definition permitted :: "ustr set \<Rightarrow> wiki_page list \<Rightarrow> search_result \<Rightarrow> bool" where
  "permitted excluded pages r \<longleftrightarrow> (\<exists>p\<in>set pages. from_page p r) \<and>
     (\<exists>p\<in>set pages. page_id p = res_page_id r \<and> \<not> page_is_excluded p excluded)"

lemma permittedI: "p \<in> set pages \<Longrightarrow> from_page p r \<Longrightarrow> \<not> page_is_excluded p excluded \<Longrightarrow> permitted excluded pages r"
  by (auto simp: permitted_def from_page_def)

lemma permitted_mono: "permitted excluded ps r \<Longrightarrow> set ps \<subseteq> set pages \<Longrightarrow> permitted excluded pages r"
  by (auto simp: permitted_def)

lemma results_from_permitted:
  "results_from opts pages rs \<Longrightarrow> list_all (permitted (page_exclusion_set (opt_exclude opts)) pages) rs \<and> length rs \<le> opt_limit opts"
  by (auto simp: results_from_def list_all_iff intro: permittedI)

lemma permitted_unique:
  "distinct (map page_id pages) \<Longrightarrow> permitted excluded pages r \<Longrightarrow>
   \<exists>p\<in>set pages. from_page p r \<and> \<not> page_is_excluded p excluded"
  by (fastforce simp: permitted_def from_page_def distinct_map inj_on_def)

definition allowed_id :: "ustr set \<Rightarrow> wiki_page list \<Rightarrow> ustr \<Rightarrow> bool" where
  "allowed_id excluded pages i \<longleftrightarrow> (\<exists>p\<in>set pages. page_id p = i \<and> \<not> page_is_excluded p excluded)"

lemma permitted_iff: "permitted excluded pages r \<longleftrightarrow> (\<exists>p\<in>set pages. from_page p r) \<and> allowed_id excluded pages (res_page_id r)"
  by (simp add: permitted_def allowed_id_def)

lemma page_of_member: "map_of (pages_by_id pages) i = Some p \<Longrightarrow> page_of (pages_by_id pages) i = p \<and> p \<in> set pages \<and> page_id p = i"
  using map_of_pages_by_id by (simp add: page_of_def dict_get_def)

lemma pages_by_id_dom: "p \<in> set pages \<Longrightarrow> \<exists>q. map_of (pages_by_id pages) (page_id p) = Some q"
proof -
  assume "p \<in> set pages"
  then have "page_id p \<in> dom (map_of (pages_by_id pages))" by (simp add: pages_by_id_def dom_dict_of image_iff) blast
  then show ?thesis by blast
qed

lemma from_page_vector_result [simp]: "from_page p (vector_result p score r chars)"
  by (simp add: from_page_def vector_result_def)

subsection \<open>Vector search\<close>

text \<open>Whatever the scores are, a best record belongs to a page that is known and not excluded.\<close>

definition known_pages :: "(ustr, wiki_page) dict \<Rightarrow> ustr set \<Rightarrow> best_records \<Rightarrow> bool" where
  "known_pages by_id excluded best \<longleftrightarrow> list_all (\<lambda>(i, x). case map_of by_id i of None \<Rightarrow> False | Some p \<Rightarrow> \<not> page_is_excluded p excluded) best"

lemma list_all_update: "list_all P d \<Longrightarrow> P (k, v) \<Longrightarrow> list_all P (AList.update k v d)"
  by (induction d) auto

lemma keep_best_known: "known_pages by_id excluded best \<Longrightarrow> known_pages by_id excluded (keep_best index by_id excluded item best)"
  by (auto simp: known_pages_def keep_best_def Let_def split: option.splits prod.splits intro!: list_all_update)

lemma fold_keep_best_known: "known_pages by_id excluded best \<Longrightarrow> known_pages by_id excluded (fold (keep_best index by_id excluded) items best)"
  by (induction items arbitrary: best) (simp_all add: keep_best_known)

lemma best_known: "best_vector_records_by_page np index by_id excluded qv qn positions = Inr best \<Longrightarrow> known_pages by_id excluded best"
  by (auto simp: best_vector_records_by_page_def with_fallback_def best_vector_records_by_page_from_scores_def bind_res_Inr
      split: option.splits intro!: fold_keep_best_known) (simp_all add: known_pages_def)

lemma known_permitted:
  assumes "known_pages by_id excluded best" and "(i, score, r) \<in> set best" and "\<And>j p. map_of by_id j = Some p \<Longrightarrow> map_of (pages_by_id pages) j = Some p"
  shows "permitted excluded pages (vector_result (page_of (pages_by_id pages) i) score r chars) \<and> allowed_id excluded pages i"
proof -
  obtain p where p: "map_of by_id i = Some p" "\<not> page_is_excluded p excluded"
    using assms(1,2) by (auto simp: known_pages_def list_all_iff split: option.splits)
  then have "page_of (pages_by_id pages) i = p" "p \<in> set pages" "page_id p = i"
    using page_of_member [OF assms(3) [OF p(1)]] by simp_all
  then show ?thesis using p(2) by (auto simp: allowed_id_def intro: permittedI)
qed

lemma vector_search_permitted:
  assumes "search_vector_index_with_query_vector np index pages query state limit chars exclude = Inr rs"
  shows "list_all (permitted (page_exclusion_set exclude) pages) rs \<and> length rs \<le> limit"
proof -
  let ?ex = "page_exclusion_set exclude" and ?by = "pages_by_id pages"
  let ?opts = "\<lparr>opt_limit = limit, opt_snippet_chars = chars, opt_min_score = None, opt_exclude = exclude, opt_prior = None, opt_band = 0\<rparr>"
  have fallback: "list_all (permitted ?ex pages) (vector_query_fallback_results pages query limit chars exclude) \<and>
      length (vector_query_fallback_results pages query limit chars exclude) \<le> limit"
    using results_from_permitted [OF overview_results_from [of pages pages ?opts]]
    by (simp add: vector_query_fallback_results_def)
  have ranked: "list_all (permitted ?ex pages) rs \<and> length rs \<le> limit"
    if "best_vector_records_by_page np index ?by ?ex qv qn positions = Inr best"
      "rs = map (\<lambda>(i, score, r). vector_result (page_of ?by i) score r chars) (take limit (ranked_records ?by best))" for qv qn positions best
    using known_permitted [OF best_known [OF that(1)]] unfolding that(2)
    by (auto simp: list_all_iff ranked_records_def dest!: in_set_takeD)
  show ?thesis
  proof (cases state)
    case None
    then show ?thesis using assms fallback by (simp add: search_vector_index_with_query_vector_def)
  next
    case (Some v)
    then show ?thesis
      using assms fallback ranked
      by (auto simp: search_vector_index_with_query_vector_def Let_def bind_res_Inr split: if_splits prod.splits)
  qed
qed

subsection \<open>Seeds and related pages\<close>

text \<open>The ids of results are those of pages that are not excluded.\<close>

definition allowed_results :: "ustr set \<Rightarrow> wiki_page list \<Rightarrow> search_result list \<Rightarrow> bool" where
  "allowed_results excluded pages rs \<longleftrightarrow> list_all (permitted excluded pages) rs"

lemma allowed_results_id: "allowed_results excluded pages rs \<Longrightarrow> r \<in> set rs \<Longrightarrow> allowed_id excluded pages (res_page_id r)"
  by (auto simp: allowed_results_def list_all_iff permitted_iff)

lemma ranks_of_dom: "map_of (ranks_of rs) i = Some n \<Longrightarrow> \<exists>r\<in>set rs. res_page_id r = i"
  by (auto simp: ranks_of_def map_of_dict_of dest!: map_of_SomeD enumerate_member)

lemma seeds_allowed:
  assumes "allowed_results excluded pages hits" and "allowed_results excluded pages vectors" and "seed \<in> set (orientation_seeds hits vectors pages)"
  shows "sd_page seed \<in> set pages \<and> allowed_id excluded pages (page_id (sd_page seed))"
proof -
  obtain p where p: "p \<in> set pages" "seed \<in> set (seed_of_page hits vectors (pages_by_id pages) p)"
    using assms(3) by (auto simp: orientation_seeds_def dest!: in_set_takeD)
  then have bounded: "bounded_rank (map_of (ranks_of hits) (page_id p)) \<or> bounded_rank (map_of (ranks_of vectors) (page_id p))"
    and seed: "sd_page seed = page_of (pages_by_id pages) (page_id p)"
    by (auto simp: seed_of_page_def Let_def split: if_splits)
  obtain q where "map_of (pages_by_id pages) (page_id p) = Some q" using pages_by_id_dom [OF p(1)] by blast
  then have "sd_page seed \<in> set pages" "page_id (sd_page seed) = page_id p" using page_of_member seed by auto
  moreover have "allowed_id excluded pages (page_id p)"
    using bounded allowed_results_id [OF assms(1)] allowed_results_id [OF assms(2)] ranks_of_dom
    by (auto simp: bounded_rank_def split: option.splits) metis+
  ultimately show ?thesis by simp
qed

lemma else_branch:
  "(if c then Inr ([], [], []) else r) = Inr (ids, rs, scores) \<Longrightarrow> \<not> (rs = [] \<and> ids = []) \<Longrightarrow> r = Inr (ids, rs, scores)"
  by (auto split: if_splits)

lemma related_results_allowed:
  assumes "related_vector_results_from_orientation nf np pages seeds index query state chars exclude = Inr (ids, rs, scores)"
  shows "allowed_results (page_exclusion_set exclude) pages rs" and "list_all (allowed_id (page_exclusion_set exclude) pages) ids"
proof -
  let ?ex = "page_exclusion_set exclude" and ?by = "pages_by_id pages"
  have filtered: "map_of (filter (\<lambda>(i, p). i \<in> A) ?by) j = Some p \<Longrightarrow> map_of ?by j = Some p" for A j p
    by (metis (no_types, lifting) distinct_pages_by_id map_of_SomeD map_of_is_SomeI mem_Collect_eq set_filter)
  have selection: "set (related_selection ?by pools best) \<subseteq> set best" for pools best
    by (auto simp: related_selection_def Let_def dest!: in_set_takeD)
  have good: "permitted ?ex pages (vector_result (page_of ?by i) score r chars) \<and> allowed_id ?ex pages i"
    if "best_vector_records_by_page np index (filter (\<lambda>(i, p). i \<in> A) ?by) ?ex qv qn positions = Inr best"
      "(i, score, r) \<in> set (related_selection ?by pools best)" for A qv qn positions best pools i score r
    by (rule known_permitted [OF best_known [OF that(1)]]) (use that(2) selection in blast, rule filtered)
  have "allowed_results ?ex pages rs \<and> list_all (allowed_id ?ex pages) ids"
  proof (cases "rs = [] \<and> ids = []")
    case True
    then show ?thesis by (simp add: allowed_results_def)
  next
    case False
    then obtain qv qn where state: "state = Some (qv, qn)"
      using assms by (cases state) (auto simp: related_vector_results_from_orientation_def)
    let ?pools = "related_page_id_pools_from_orientation nf pages seeds query ?ex"
    let ?cand = "filter (\<lambda>(i, p). i \<in> set (remdups (concat ?pools))) ?by"
    let ?pos = "filtered_record_positions_for_small_page_subset index ?cand ?ex"
    have run: "(if seeds = [] \<or> qn \<le> 0 \<or> remdups (concat ?pools) = [] \<or> ?pos = Some [] then Inr ([], [], [])
        else bind_res (best_vector_records_by_page np index ?cand ?ex qv qn ?pos) (\<lambda>best.
          Inr (map fst (related_selection ?by ?pools best),
               map (\<lambda>(i, score, r). vector_result (page_of ?by i) score r chars) (related_selection ?by ?pools best),
               map (\<lambda>(i, score, r). (i, score)) (related_selection ?by ?pools best)))) = Inr (ids, rs, scores)"
      using assms unfolding state related_vector_results_from_orientation_def Let_def option.case prod.case .
    then obtain best where best: "best_vector_records_by_page np index ?cand ?ex qv qn ?pos = Inr best"
      and out: "ids = map fst (related_selection ?by ?pools best)"
        "rs = map (\<lambda>(i, score, r). vector_result (page_of ?by i) score r chars) (related_selection ?by ?pools best)"
      using else_branch [OF run False] unfolding bind_res_Inr by blast
    show ?thesis using good [OF best] by (auto simp: out allowed_results_def list_all_iff)
  qed
  then show "allowed_results ?ex pages rs" and "list_all (allowed_id ?ex pages) ids" by blast+
qed

subsection \<open>Hybrid search\<close>

lemma permitted_update [simp]: "permitted excluded pages (r\<lparr>res_score := x, res_route := route\<rparr>) = permitted excluded pages r"
  by (simp add: permitted_def from_page_def)

lemma fused_permitted:
  assumes "fused_by channels limit rs" and "allowed_results excluded pages (channel_results channels)"
  shows "allowed_results excluded pages rs \<and> length rs \<le> limit"
proof -
  obtain ranked where eq: "map (\<lambda>r. (res_page_id r, res_score r)) rs = map (\<lambda>i. (i, py_round (fused_score channels i) 4)) (take limit ranked)"
    and origin: "list_all (\<lambda>r. \<exists>q\<in>set (channel_results channels). r = q\<lparr>res_score := res_score r, res_route := lit ''hybrid''\<rparr>) rs"
    using assms(1) by (auto simp: fused_by_def)
  have "length rs = length (take limit ranked)" by (rule map_eq_imp_length_eq [OF eq])
  moreover have "permitted excluded pages r" if r: "r \<in> set rs" for r
  proof -
    obtain q where q: "q \<in> set (channel_results channels)" "r = q\<lparr>res_score := res_score r, res_route := lit ''hybrid''\<rparr>"
      using origin r by (auto simp: list_all_iff)
    have "permitted excluded pages q" using assms(2) q(1) by (simp add: allowed_results_def list_all_iff)
    then have "permitted excluded pages (q\<lparr>res_score := res_score r, res_route := lit ''hybrid''\<rparr>)" by simp
    then show ?thesis using q(2) by metis
  qed
  ultimately show ?thesis by (simp add: allowed_results_def list_all_iff)
qed

lemma allowed_answering: "allowed_results excluded pages rs \<Longrightarrow> allowed_results excluded pages (answering required off rs)"
  by (simp add: allowed_results_def answering_def list_all_iff)

lemma seed_results_allowed:
  "allowed_results excluded pages hits \<Longrightarrow> allowed_results excluded pages vectors \<Longrightarrow>
   allowed_results excluded pages (map seed_result (orientation_seeds hits vectors pages))"
  using seeds_allowed [of excluded pages hits vectors]
  by (auto simp: allowed_results_def list_all_iff permitted_iff seed_result_def page_result_def from_page_def)

lemma rerank_allowed: "allowed_results excluded pages rs \<Longrightarrow> allowed_results excluded pages (rerank_related_vector_results rs ranks scores)"
  by (auto simp: allowed_results_def list_all_iff rerank_related_vector_results_def split: option.splits dest!: enumerate_member)

lemma graph_priors_allowed:
  assumes "list_all (allowed_id excluded pages) ids"
  shows "allowed_results excluded pages (graph_prior_results_by_vector_relevance pages ids rs scores)"
proof -
  have "permitted excluded pages (graph_prior_result pages i)" if "i \<in> set ids" for i
  proof -
    have allowed: "allowed_id excluded pages i" using assms that by (simp add: list_all_iff)
    then have "List.find (\<lambda>p. page_id p = i) pages \<noteq> None" by (auto simp: find_None_iff allowed_id_def)
    then obtain p where p: "List.find (\<lambda>p. page_id p = i) pages = Some p" by blast
    then have "p \<in> set pages" "page_id p = i" using find_SomeD [OF p] by simp_all
    then show ?thesis
      using allowed p by (auto simp: permitted_iff graph_prior_result_def first_page_def page_result_def from_page_def Let_def)
  qed
  then show ?thesis by (auto simp: allowed_results_def list_all_iff graph_prior_results_by_vector_relevance_def Let_def)
qed

lemma seeded_channels_allowed:
  assumes "allowed_results excluded pages hits" and "allowed_results excluded pages vectors" and "allowed_results excluded pages related"
    and "allowed_results excluded pages (map seed_result seeds)" and "list_all (allowed_id excluded pages) ids"
  shows "allowed_results excluded pages (channel_results (seeded_channels required off hits vectors related seeds ids pages scores))"
proof -
  define answered where "answered = filter (\<lambda>r. res_page_id r \<in> set ids) (answering required off related)"
  have "allowed_results excluded pages answered"
    using allowed_answering [OF assms(3), of required off] by (simp add: answered_def allowed_results_def list_all_iff)
  then have "allowed_results excluded pages (rerank_related_vector_results answered (ranks_of (answering required off hits)) scores)"
    by (rule rerank_allowed)
  moreover have app: "allowed_results excluded pages (xs @ ys) \<longleftrightarrow> allowed_results excluded pages xs \<and> allowed_results excluded pages ys" for xs ys
    by (simp add: allowed_results_def)
  ultimately show ?thesis
    using allowed_answering [OF assms(1)] allowed_answering [OF assms(2)] allowed_answering [OF assms(4)]
      allowed_answering [OF graph_priors_allowed [OF assms(5)]]
    by (simp add: channel_results_def seeded_channels_def Let_def app answered_def)
qed

lemma hybrid_permitted:
  assumes "allowed_results (page_exclusion_set exclude) pages hits" and "allowed_results (page_exclusion_set exclude) pages orientation_hits"
    and "corpus_pages c = pages"
    and "hybrid_search_results_for_vector_index nf np provider hits orientation_hits index pages c query limit depth chars exclude = Inr (d, rs)"
  shows "allowed_results (page_exclusion_set exclude) pages rs \<and> length rs \<le> limit"
proof -
  let ?ex = "page_exclusion_set exclude"
  obtain state ovs ids related scores gs where
    ovs: "search_vector_index_with_query_vector np index (filter hybrid_orientation_page pages) query state
      HYBRID_ORIENTATION_CANDIDATE_LIMIT chars exclude = Inr ovs" and
    related: "related_vector_results_from_orientation nf np pages (orientation_seeds orientation_hits ovs pages) index query state chars exclude =
      Inr (ids, related, scores)" and
    gs: "search_vector_index_with_query_vector np index pages query state depth chars exclude = Inr gs" and
    rs: "rs = plain_hybrid_search_results nf hits gs c query limit True \<or>
      rs = orientation_seeded_hybrid_search_results nf hits gs related (orientation_seeds orientation_hits ovs pages) ids c query limit (Some scores)"
    using assms(4) by (auto simp: hybrid_search_results_for_vector_index_def assms(3) bind_res_Inr Let_def split: if_splits)
  have "allowed_results ?ex (filter hybrid_orientation_page pages) ovs"
    using vector_search_permitted [OF ovs] by (simp add: allowed_results_def)
  then have ov: "allowed_results ?ex pages ovs"
    by (auto simp: allowed_results_def list_all_iff intro: permitted_mono)
  have g: "allowed_results ?ex pages gs" using vector_search_permitted [OF gs] by (simp add: allowed_results_def)
  note seeds = seed_results_allowed [OF assms(2) ov]
  have fused: "allowed_results ?ex pages xs \<and> length xs \<le> limit"
    if "xs = [] \<or> (\<exists>channels. fused_by channels limit xs \<and> allowed_results ?ex pages (channel_results channels))" for xs
    using that fused_permitted by (auto simp: allowed_results_def)
  show ?thesis
  proof (rule fused)
    have plain: "allowed_results ?ex pages (channel_results [(1, answering required off hits), (1, answering required off gs)])" for required off
      using allowed_answering [OF assms(1)] allowed_answering [OF g] by (simp add: channel_results_def allowed_results_def)
    note seeded = seeded_channels_allowed [OF assms(1) g related_results_allowed(1) [OF related] seeds related_results_allowed(2) [OF related]]
    show "rs = [] \<or> (\<exists>channels. fused_by channels limit rs \<and> allowed_results ?ex pages (channel_results channels))"
      using rs hybrid_rank_fusion_lemma [of c query nf hits gs limit True related "orientation_seeds orientation_hits ovs pages" ids "Some scores"]
        plain seeded
      by (auto simp: Let_def assms(3) split: if_splits)
  qed
qed

end
