(* ===== verification/Service_Context_Props.thy ===== *)
theory Service_Context_Props
  imports Service_Context Action_Judgment_Props Managed_Props Fusion_Props Search_Props Service_Props Vector_Hybrid_Props
begin

text \<open>
  What the composed requests of the service show and record: only pages that may be served, from the index
  as it is or was at the last check, through every cache, ranking, orientation and judgment.
\<close>

section \<open>Results come from the pages of the corpus\<close>

text \<open>
  A ranked text search shows pages of the corpus that are not excluded; what a vector or hybrid search shows
  may be the first of several pages with one identifier, of which one is not excluded.
\<close>

definition evidence_from :: "search_mode \<Rightarrow> search_options \<Rightarrow> wiki_page list \<Rightarrow> search_result list \<Rightarrow> bool" where
  "evidence_from mode opts pages rs \<longleftrightarrow>
     (if mode = Lexical \<or> mode = Literal then results_from opts pages rs
      else length rs \<le> opt_limit opts \<and> list_all (permitted (page_exclusion_set (opt_exclude opts)) pages) rs)"

lemma evidence_from_prior [simp]:
  "evidence_from mode (opts\<lparr>opt_prior := prior, opt_band := band\<rparr>) pages rs = evidence_from mode opts pages rs"
  by (simp add: evidence_from_def results_from_def)

lemma results_from_cong:
  "opt_limit a = opt_limit b \<Longrightarrow> opt_exclude a = opt_exclude b \<Longrightarrow> results_from a pages rs = results_from b pages rs"
  by (simp add: results_from_def)

lemma from_page_score [simp]: "from_page p (r\<lparr>res_score := x\<rparr>) = from_page p r"
  by (simp add: from_page_def)




subsection \<open>Vector and hybrid search\<close>






subsection \<open>Results with and without the prior\<close>



section \<open>Orientation\<close>






section \<open>The state a request leaves\<close>



section \<open>Context\<close>













end
