(* ===== verification/Okf.thy ===== *)
theory Okf
  imports Parser Projection
begin

text \<open>
  Open Knowledge Format bundles, \<open>okf.py\<close>: the strict front matter, the normalisation of the metadata, and
  the pages of a bundle. YAML is a parameter (None: it does not parse), and a YAML time stamp is represented
  by the text \<open>scalar_text\<close> has for it. A file is given by its parts below the root and what reading it as
  UTF-8 returns, which may be an error. Messages leave out the file names the source puts in.
\<close>

definition OKF_V02_VERSION :: ustr where "OKF_V02_VERSION = lit ''0.2''"
definition OKF_ROOT_VERSION_KEYS :: "string list" where "OKF_ROOT_VERSION_KEYS = [''okf_version'', ''okfVersion'']"

definition OKF_SOURCE_FIELDS :: "ustr list" where
  "OKF_SOURCE_FIELDS = map lit [''id'', ''resource'', ''title'', ''author'', ''usage_count'', ''last_modified'', ''usage_window'']"

definition OKF_METADATA_FIELDS :: "ustr list" where
  "OKF_METADATA_FIELDS = map lit [''type'', ''title'', ''description'', ''resource'', ''tags'', ''generated'', ''verified'',
     ''status'', ''stale_after'', ''sources'', ''usage_window'', ''runtime'', ''parameters'', ''computation'', ''executor'', ''attester'']"

text \<open>The interpreter's \<open>repr\<close> and the YAML loader.\<close>

record okf_env =
  oe_repr :: "pyval \<Rightarrow> ustr"
  oe_yaml :: "ustr \<Rightarrow> pyval option"

section \<open>Values\<close>

definition scalar_text :: "okf_env \<Rightarrow> pyval \<Rightarrow> ustr" where
  "scalar_text env v = (if v = PNone then [] else clean_text (py_str (oe_repr env) v))"

fun mapping_value :: "pyval \<Rightarrow> (ustr, pyval) dict" where
  "mapping_value (PDict d) = d"
| "mapping_value v = []"

fun usage_count_value :: "pyval \<Rightarrow> real option" where
  "usage_count_value (PInt i) = Some (of_int i)"
| "usage_count_value (PFloat x) = Some x"
| "usage_count_value v = None"

fun is_mapping :: "pyval \<Rightarrow> bool" where
  "is_mapping (PDict d) = True"
| "is_mapping v = False"

definition list_of_mappings :: "pyval \<Rightarrow> (ustr, pyval) dict list res" where
  "list_of_mappings v =
     (case v of
        PNone \<Rightarrow> Inr []
      | PList items \<Rightarrow>
          if list_all is_mapping items then Inr (map mapping_value items)
          else Inl (OkfV02ValidationError ''OKF entries must be mappings'')
      | _ \<Rightarrow> Inl (OkfV02ValidationError ''OKF field must be a list''))"

definition root_okf_version :: "okf_env \<Rightarrow> (ustr, pyval) dict \<Rightarrow> ustr" where
  "root_okf_version env fm =
     (case List.find (\<lambda>k. scalar_text env (pget fm k) \<noteq> []) OKF_ROOT_VERSION_KEYS of
        Some k \<Rightarrow> scalar_text env (pget fm k) | None \<Rightarrow> [])"

definition okf_document_role :: "ustr list \<Rightarrow> okf_document_role" where
  "okf_document_role path =
     (let name = casefold (last path)
      in if name = lit ''index.md'' then Okf_index else if name = lit ''log.md'' then Okf_log else Okf_concept)"

definition okf_page_role :: "okf_document_role \<Rightarrow> page_role" where
  "okf_page_role role = (if role = Okf_index then Role_index else Role_topic)"

section \<open>Front matter\<close>

text \<open>Unlike the plain parser, front matter that is not closed or not a mapping is an error.\<close>

definition split_okf_frontmatter :: "okf_env \<Rightarrow> ustr \<Rightarrow> ((ustr, pyval) dict \<times> ustr) res" where
  "split_okf_frontmatter env raw =
     (if \<not> starts_with raw (lit ''---'' @ [10]) then Inr ([], raw)
      else (case find_from raw (10 # lit ''---'') 4 of
              None \<Rightarrow> Inl (OkfV02ValidationError ''OKF frontmatter is not closed'')
            | Some end \<Rightarrow>
                (case oe_yaml env (drop 4 (take end raw)) of
                   None \<Rightarrow> Inl (OkfV02ValidationError ''OKF frontmatter is invalid'')
                 | Some v \<Rightarrow>
                     (case por v (PDict []) of
                        PDict data \<Rightarrow> Inr (data, drop (end + 4) raw)
                      | _ \<Rightarrow> Inl (OkfV02ValidationError ''OKF frontmatter must be a mapping'')))))"

definition normalize_okf_actor_event :: "okf_env \<Rightarrow> pyval \<Rightarrow> okf_actor_event option res" where
  "normalize_okf_actor_event env v =
     (case v of
        PNone \<Rightarrow> Inr None
      | PDict d \<Rightarrow>
          (let who = scalar_text env (pget d ''by'')
           in if who = [] then Inl (OkfV02ValidationError ''OKF by is required'')
              else Inr (Some \<lparr>event_by = who, event_at = scalar_text env (pget d ''at'')\<rparr>))
      | _ \<Rightarrow> Inl (OkfV02ValidationError ''OKF event must be a mapping''))"

definition somes :: "'a option list \<Rightarrow> 'a list" where
  "somes xs = map the (filter (\<lambda>x. x \<noteq> None) xs)"

definition normalize_okf_verified :: "okf_env \<Rightarrow> pyval \<Rightarrow> okf_actor_event list res" where
  "normalize_okf_verified env v =
     (case v of
        PNone \<Rightarrow> Inr []
      | PDict d \<Rightarrow> bind_res (normalize_okf_actor_event env v) (\<lambda>e. Inr (somes [e]))
      | PList items \<Rightarrow> bind_res (map_res (normalize_okf_actor_event env) items) (\<lambda>es. Inr (somes es))
      | _ \<Rightarrow> Inl (OkfV02ValidationError ''OKF verified must be a mapping or list''))"

definition human_event :: "okf_actor_event \<Rightarrow> bool" where
  "human_event e \<longleftrightarrow> starts_with (event_by e) (lit ''human:'')"

definition okf_trust_tier :: "okf_actor_event list \<Rightarrow> okf_trust_tier" where
  "okf_trust_tier verified =
     (if verified = [] then Unverified else if list_ex human_event verified then Human_reviewed else Machine_confirmed)"

definition normalize_okf_source :: "okf_env \<Rightarrow> (ustr, pyval) dict \<Rightarrow> pyval \<Rightarrow> okf_source res" where
  "normalize_okf_source env shared item =
     (case item of
        PDict d \<Rightarrow>
          (let resource = scalar_text env (pget d ''resource''); own = mapping_value (pget d ''usage_window'')
           in if resource = [] then Inl (OkfV02ValidationError ''OKF sources entries require resource'')
              else Inr \<lparr>src_id = scalar_text env (pget d ''id''), src_resource = resource,
                src_title = scalar_text env (pget d ''title''), src_author = scalar_text env (pget d ''author''),
                src_usage_count = usage_count_value (pget d ''usage_count''),
                src_last_modified = scalar_text env (pget d ''last_modified''),
                src_usage_window = (if own \<noteq> [] then own else shared),
                src_extra = filter (\<lambda>(k, v). k \<notin> set OKF_SOURCE_FIELDS) d\<rparr>)
      | _ \<Rightarrow> Inl (OkfV02ValidationError ''OKF sources entries must be mappings''))"

definition normalize_okf_sources :: "okf_env \<Rightarrow> pyval \<Rightarrow> (ustr, pyval) dict \<Rightarrow> okf_source list res" where
  "normalize_okf_sources env v shared =
     (case v of
        PNone \<Rightarrow> Inr []
      | PList items \<Rightarrow> map_res (normalize_okf_source env shared) items
      | _ \<Rightarrow> Inl (OkfV02ValidationError ''OKF sources must be a list''))"

definition is_attested :: "ustr \<Rightarrow> bool" where
  "is_attested concept_type \<longleftrightarrow> casefold concept_type = lit ''attested computation''"

definition normalize_okf_metadata ::
  "okf_env \<Rightarrow> (ustr, pyval) dict \<Rightarrow> okf_document_role \<Rightarrow> ustr \<Rightarrow> okf_metadata res" where
  "normalize_okf_metadata env fm role concept_type =
     (let shared = mapping_value (pget fm ''usage_window''); runtime = scalar_text env (pget fm ''runtime'');
          status = scalar_text env (pget fm ''status'')
      in bind_res (normalize_okf_sources env (pget fm ''sources'') shared) (\<lambda>sources.
         bind_res (normalize_okf_actor_event env (pget fm ''generated'')) (\<lambda>generated.
         bind_res (normalize_okf_verified env (pget fm ''verified'')) (\<lambda>verified.
           if is_attested concept_type \<and> runtime = []
           then Inl (OkfV02ValidationError ''OKF Attested Computation is missing required runtime'')
           else bind_res (list_of_mappings (pget fm ''parameters'')) (\<lambda>parameters.
             Inr \<lparr>okf_version = OKF_V02_VERSION, okf_role = role, okf_concept_type = concept_type,
               okf_description = scalar_text env (pget fm ''description''), okf_resource = scalar_text env (pget fm ''resource''),
               okf_generated = generated, okf_verified = verified, okf_tier = okf_trust_tier verified,
               okf_status = (if status \<noteq> [] then status else lit ''stable''),
               okf_stale_after = scalar_text env (pget fm ''stale_after''), okf_usage_window = shared, okf_runtime = runtime,
               okf_parameters = parameters, okf_computation = scalar_text env (pget fm ''computation''),
               okf_executor = mapping_value (pget fm ''executor''), okf_attester = mapping_value (pget fm ''attester''),
               okf_sources = sources,
               okf_extra = filter (\<lambda>(k, v). k \<notin> set OKF_METADATA_FIELDS \<and> k \<notin> set (map lit OKF_ROOT_VERSION_KEYS)) fm\<rparr>)))))"

section \<open>Pages\<close>

text \<open>A file of a bundle: its parts below the root and the text, or what reading it raises.\<close>

type_synonym bundle_file = "ustr list \<times> ustr res"

definition unsupported_root_version :: "okf_env \<Rightarrow> ustr list \<Rightarrow> (ustr, pyval) dict \<Rightarrow> bool" where
  "unsupported_root_version env path fm \<longleftrightarrow>
     path = [lit ''index.md''] \<and> root_okf_version env fm \<noteq> [] \<and> root_okf_version env fm \<noteq> OKF_V02_VERSION"

definition required_concept_type :: "okf_env \<Rightarrow> okf_document_role \<Rightarrow> (ustr, pyval) dict \<Rightarrow> ustr res" where
  "required_concept_type env role fm =
     (if role = Okf_concept
      then (if scalar_text env (pget fm ''type'') = [] then Inl (OkfV02ValidationError ''OKF concept is missing required type'')
            else Inr (scalar_text env (pget fm ''type'')))
      else Inr [])"

definition or_text :: "ustr \<Rightarrow> ustr \<Rightarrow> ustr" where
  "or_text a b = (if a \<noteq> [] then a else b)"

definition okf_page ::
  "okf_env \<Rightarrow> ustr list \<Rightarrow> okf_document_role \<Rightarrow> (ustr, pyval) dict \<Rightarrow> ustr \<Rightarrow> okf_metadata \<Rightarrow> wiki_page" where
  "okf_page env path role fm body okf =
     (let rel = join [47] path
      in \<lparr>page_id = clean_id (or_text (scalar_text env (pget fm ''id'')) rel),
          page_title = clean_text (or_text (scalar_text env (pget fm ''title''))
            (or_text (first_heading body) (title_from_path False (last path)))),
          page_path = rel, page_role = okf_page_role role, page_text = strip body,
          page_summary = or_text (scalar_text env (pget fm ''description'')) (summary_text body),
          page_frontmatter = fm, page_review_state = Unknown, page_status = okf_status okf,
          page_source_refs = unique (map okf_source_ref_key (okf_sources okf) @
            string_list (oe_repr env) (pget fm ''source_refs'')),
          page_tags = unique (string_list (oe_repr env) (pget fm ''tags'') @ extract_inline_tags body),
          page_links = extract_links Target_first body, page_headings = take 40 (headings_of body),
          page_updated_at = (case okf_generated okf of Some e \<Rightarrow> event_at e | None \<Rightarrow> []),
          page_okf = Some okf\<rparr>)"

definition parse_okf_v02_page :: "okf_env \<Rightarrow> okf_document_role \<Rightarrow> bundle_file \<Rightarrow> wiki_page res" where
  "parse_okf_v02_page env role file =
     (case file of (path, contents) \<Rightarrow>
        bind_res contents (\<lambda>raw.
        bind_res (split_okf_frontmatter env raw) (\<lambda>(fm, body).
          if unsupported_root_version env path fm
          then Inl (OkfV02ValidationError ''root index.md declares an unsupported OKF version'')
          else bind_res (required_concept_type env role fm) (\<lambda>concept_type.
               bind_res (normalize_okf_metadata env fm role concept_type) (\<lambda>okf.
                 Inr (okf_page env path role fm body okf))))))"

definition okf_page_files :: "bundle_file list \<Rightarrow> bundle_file list" where
  "okf_page_files files = filter (\<lambda>file. okf_document_role (fst file) \<noteq> Okf_log) (sort_key fst files)"

definition parse_okf_v02_pages :: "okf_env \<Rightarrow> bundle_file list \<Rightarrow> wiki_page list res" where
  "parse_okf_v02_pages env files =
     bind_res (map_res (\<lambda>file. parse_okf_v02_page env (okf_document_role (fst file)) file) (okf_page_files files))
       (\<lambda>pages. if pages = [] then Inl (OkfV02ValidationError ''OKF bundle has no serveable markdown pages'') else Inr pages)"

text \<open>\<open>is_okf_v02_root\<close> on the root's index.md (None: missing, no file or a link). Only a validation error is caught.\<close>

definition is_okf_v02_root :: "okf_env \<Rightarrow> ustr res option \<Rightarrow> bool res" where
  "is_okf_v02_root env index =
     (case index of
        None \<Rightarrow> Inr False
      | Some contents \<Rightarrow> bind_res contents (\<lambda>raw.
          case split_okf_frontmatter env raw of
            Inl e \<Rightarrow> Inr False
          | Inr (fm, body) \<Rightarrow> Inr (root_okf_version env fm = OKF_V02_VERSION)))"

end
