(* ===== verification/Adapters.thy ===== *)
theory Adapters
  imports Okf
begin

text \<open>
  Detection and loading of the supported wiki layouts, \<open>adapters.py\<close>. The file system is the record of
  what \<open>pathlib\<close> answers; a path is the list of its parts. YAML, \<open>json.loads\<close> and \<open>repr\<close> are parameters. A
  \<open>WikiRootError\<close> is a \<open>FileNotFoundError\<close>, here an OSError with its code.
\<close>

type_synonym path = "ustr list"

section \<open>The file system\<close>

text \<open>
  \<open>resolve\<close> is None when it raises; \<open>read\<close> fails with an OSError, or with the ValueError of a text that is
  no UTF-8.
\<close>

record file_system =
  fs_exists :: "path \<Rightarrow> bool"
  fs_link :: "path \<Rightarrow> bool"
  fs_dir :: "path \<Rightarrow> bool"
  fs_file :: "path \<Rightarrow> bool"
  fs_resolve :: "path \<Rightarrow> path option"
  fs_iterdir :: "path \<Rightarrow> path list"
  fs_rglob :: "path \<Rightarrow> path list"
  fs_read :: "path \<Rightarrow> ustr res"

record adapter_env =
  ae_okf :: okf_env
  ae_json :: "ustr \<Rightarrow> pyval option"

definition below :: "path \<Rightarrow> path \<Rightarrow> bool" where
  "below base p \<longleftrightarrow> take (length base) p = base"

definition relative_to :: "path \<Rightarrow> path \<Rightarrow> path" where
  "relative_to base p = drop (length base) p"

definition posix_or_dot :: "path \<Rightarrow> path \<Rightarrow> ustr" where
  "posix_or_dot base p = (if p = base then [46] else join [47] (relative_to base p))"

definition name_of :: "path \<Rightarrow> ustr" where
  "name_of p = (if p = [] then [] else last p)"

definition suffix_of :: "ustr \<Rightarrow> ustr" where
  "suffix_of name =
     (case rfind_char 46 name of Some i \<Rightarrow> if 0 < i \<and> i < length name - 1 then drop i name else [] | None \<Rightarrow> [])"

definition IGNORED_ADAPTER_PARTS :: "ustr list" where
  "IGNORED_ADAPTER_PARTS = map lit [''.git'', ''.obsidian'', ''.foam'', ''node_modules'', ''.venv'', ''__pycache__'', ''dist'', ''build'']"

definition IGNORED_HUB_ROOT_NAMES :: "ustr list" where
  "IGNORED_HUB_ROOT_NAMES = IGNORED_ADAPTER_PARTS @ [lit ''.vscode'']"

definition page_suffix :: "ustr \<Rightarrow> bool" where
  "page_suffix name \<longleftrightarrow> lower (suffix_of name) \<in> {lit ''.md'', lit ''.org''}"

definition include_adapter_path :: "file_system \<Rightarrow> path \<Rightarrow> path \<Rightarrow> bool" where
  "include_adapter_path fs base p \<longleftrightarrow> fs_exists fs p \<and> \<not> fs_link fs p \<and>
     (case (fs_resolve fs p, fs_resolve fs base) of (Some q, Some r) \<Rightarrow> below r q | _ \<Rightarrow> False)"

definition include_adapter_dir :: "file_system \<Rightarrow> path \<Rightarrow> path \<Rightarrow> bool" where
  "include_adapter_dir fs base p \<longleftrightarrow> include_adapter_path fs base p \<and> fs_dir fs p"

definition include_adapter_file :: "file_system \<Rightarrow> path \<Rightarrow> path \<Rightarrow> bool" where
  "include_adapter_file fs base p \<longleftrightarrow> include_adapter_path fs base p \<and> fs_file fs p \<and>
     set (relative_to base p) \<inter> set IGNORED_ADAPTER_PARTS = {} \<and>
     \<not> (lit ''.vscode'' \<in> set (relative_to base p) \<and> page_suffix (name_of p))"

text \<open>\<open>rglob("*.md")\<close>.\<close>

definition md_files :: "file_system \<Rightarrow> path \<Rightarrow> path list" where
  "md_files fs base = filter (\<lambda>p. ends_with (name_of p) (lit ''.md'')) (fs_rglob fs base)"

section \<open>Pages\<close>

definition read_page_file ::
  "adapter_env \<Rightarrow> file_system \<Rightarrow> wikilink_alias \<Rightarrow> bool \<Rightarrow> path list \<Rightarrow> path \<Rightarrow> path \<Rightarrow> wiki_page res" where
  "read_page_file env fs alias decode hubs page_root p =
     bind_res (fs_read fs p) (\<lambda>raw. Inr (parse_page (oe_yaml (ae_okf env)) (oe_repr (ae_okf env)) alias decode hubs page_root p raw))"

definition parse_markdown_pages ::
  "adapter_env \<Rightarrow> file_system \<Rightarrow> wikilink_alias \<Rightarrow> path list \<Rightarrow> path \<Rightarrow> path \<Rightarrow> wiki_page list res" where
  "parse_markdown_pages env fs alias hubs page_root base =
     map_res (read_page_file env fs alias False hubs page_root)
       (filter (include_adapter_file fs page_root) (sort (md_files fs base)))"

definition parse_markdown_pages_for_roots ::
  "adapter_env \<Rightarrow> file_system \<Rightarrow> wikilink_alias \<Rightarrow> path \<Rightarrow> path list \<Rightarrow> wiki_page list res" where
  "parse_markdown_pages_for_roots env fs alias path_root roots =
     bind_res (map_res (parse_markdown_pages env fs alias [] path_root) roots) (\<lambda>pages. Inr (concat pages))"

definition markdown_metadata :: "adapter_env \<Rightarrow> path \<Rightarrow> wiki_page list \<Rightarrow> ustr \<times> ustr" where
  "markdown_metadata env base pages = wiki_metadata (oe_repr (ae_okf env)) (name_of base) pages"

section \<open>LLMWiki roots\<close>

definition LLMWIKI_TYPED_DIRS :: "ustr list" where
  "LLMWIKI_TYPED_DIRS = map lit [''concepts'', ''entities'', ''sources'', ''queries'', ''comparisons'', ''synthesis'',
     ''syntheses'', ''projects'', ''categories'', ''questions'']"

definition LLMWIKI_HUB_FILES :: "ustr list" where
  "LLMWIKI_HUB_FILES = map lit [''index.md'', ''overview.md'', ''hot.md'', ''critical_facts.md'', ''quickstart.md'']"

definition LLMWIKI_SOURCE_ROOT_NAMES :: "ustr list" where
  "LLMWIKI_SOURCE_ROOT_NAMES = map lit [''wiki'', ''openwiki'']"

text \<open>The marker file, the names of the Markdown files, and whether a typed directory has pages.\<close>

definition llmwiki_root_signals :: "file_system \<Rightarrow> path \<Rightarrow> bool \<times> ustr set \<times> bool" where
  "llmwiki_root_signals fs base =
     (include_adapter_file fs base (base @ [lit ''.wiki-compiler.json'']),
      set (map (\<lambda>p. casefold (name_of p)) (filter (\<lambda>p. lower (suffix_of (name_of p)) = lit ''.md'' \<and> include_adapter_file fs base p)
        (fs_iterdir fs base))),
      list_ex (\<lambda>d. include_adapter_dir fs base (base @ [d]) \<and>
        list_ex (include_adapter_file fs base) (md_files fs (base @ [d]))) LLMWIKI_TYPED_DIRS)"

definition hub_names :: "ustr set \<Rightarrow> ustr list" where
  "hub_names names = filter (\<lambda>n. n \<in> names) LLMWIKI_HUB_FILES"

definition is_named_llmwiki_source_root :: "path \<Rightarrow> ustr set \<Rightarrow> bool" where
  "is_named_llmwiki_source_root base names \<longleftrightarrow>
     casefold (name_of base) \<in> set LLMWIKI_SOURCE_ROOT_NAMES \<and> lit ''quickstart.md'' \<in> names"

definition is_llmwiki_markdown_root :: "file_system \<Rightarrow> bool \<Rightarrow> path \<Rightarrow> bool" where
  "is_llmwiki_markdown_root fs nested base \<longleftrightarrow> fs_dir fs base \<and> \<not> fs_link fs base \<and>
     (case llmwiki_root_signals fs base of (marker, names, typed) \<Rightarrow>
        marker \<or> (if nested then hub_names names \<noteq> [] \<or> typed
                  else is_named_llmwiki_source_root base names \<or>
                    lit ''hot.md'' \<in> names \<and> (lit ''index.md'' \<in> names \<or> lit ''overview.md'' \<in> names) \<or>
                    hub_names names \<noteq> [] \<and> typed))"

definition llmwiki_source_root :: "file_system \<Rightarrow> path \<Rightarrow> path option" where
  "llmwiki_source_root fs base =
     (case List.find (\<lambda>name. is_llmwiki_markdown_root fs True (base @ [name])) LLMWIKI_SOURCE_ROOT_NAMES of
        Some name \<Rightarrow> Some (base @ [name])
      | None \<Rightarrow> if is_llmwiki_markdown_root fs False base then Some base else None)"

definition is_probable_nested_llmwiki_source_root :: "file_system \<Rightarrow> path \<Rightarrow> bool" where
  "is_probable_nested_llmwiki_source_root fs base \<longleftrightarrow> fs_dir fs base \<and> \<not> fs_link fs base \<and>
     (case llmwiki_root_signals fs base of (marker, names, typed) \<Rightarrow>
        marker \<or> typed \<or> is_named_llmwiki_source_root base names \<or> length (hub_names names) \<ge> 2)"

definition llmwiki_hub_source_roots :: "file_system \<Rightarrow> path \<Rightarrow> path list" where
  "llmwiki_hub_source_roots fs base =
     (let preferred = map (\<lambda>name. base @ [name]) LLMWIKI_SOURCE_ROOT_NAMES
      in if \<not> fs_dir fs base \<or> fs_link fs base then []
         else filter (is_llmwiki_markdown_root fs True) preferred @
              filter (\<lambda>child. child \<notin> set preferred \<and> name_of child \<notin> set IGNORED_HUB_ROOT_NAMES \<and>
                  include_adapter_dir fs base child \<and> is_probable_nested_llmwiki_source_root fs child)
                (sort (fs_iterdir fs base)))"

section \<open>Graph sidecars\<close>

definition graph_edges :: "pyval \<Rightarrow> (ustr, pyval) dict list" where
  "graph_edges data =
     (let candidates = (case data of
            PList items \<Rightarrow> items
          | PDict d \<Rightarrow> (case pget d ''edges'' of PList items \<Rightarrow> items | _ \<Rightarrow> [])
          | _ \<Rightarrow> [])
      in map mapping_value (filter is_mapping candidates))"

definition graph_edge_confidence :: "(ustr, pyval) dict \<Rightarrow> pyval option" where
  "graph_edge_confidence edge =
     (case pget edge ''confidence'' of PInt i \<Rightarrow> Some (PInt i) | PFloat x \<Rightarrow> Some (PFloat x) | _ \<Rightarrow> None)"

text \<open>The two candidates without those that cannot be resolved or lead to one that was taken.\<close>

definition graph_json_paths :: "file_system \<Rightarrow> path \<Rightarrow> path \<Rightarrow> path list" where
  "graph_json_paths fs base source_root =
     dedupe_on (fs_resolve fs) {} (filter (include_adapter_file fs base)
       (map (\<lambda>r. r @ [lit ''graph'', lit ''graph.json'']) [base, source_root]))"

text \<open>Of the errors only OSError and a JSON error are skipped.\<close>

definition sidecar_facts :: "adapter_env \<Rightarrow> file_system \<Rightarrow> path \<Rightarrow> path \<Rightarrow> sidecar_fact list res" where
  "sidecar_facts env fs base p =
     (case fs_read fs p of
        Inl (OSError e) \<Rightarrow> Inr []
      | Inl e \<Rightarrow> Inl e
      | Inr raw \<Rightarrow>
          (case ae_json env raw of
             None \<Rightarrow> Inr []
           | Some data \<Rightarrow> Inr (map (\<lambda>edge. \<lparr>fact_data = edge, fact_path = join [47] (relative_to base p),
               fact_source = lit ''graph.json'', fact_confidence = graph_edge_confidence edge\<rparr>) (graph_edges data))))"

definition load_sidecar_graph_edges :: "adapter_env \<Rightarrow> file_system \<Rightarrow> path \<Rightarrow> path \<Rightarrow> sidecar_fact list res" where
  "load_sidecar_graph_edges env fs base source_root =
     bind_res (map_res (sidecar_facts env fs base) (graph_json_paths fs base source_root)) (\<lambda>fs. Inr (concat fs))"

definition load_sidecar_graph_edges_for_roots ::
  "adapter_env \<Rightarrow> file_system \<Rightarrow> path \<Rightarrow> path list \<Rightarrow> sidecar_fact list res" where
  "load_sidecar_graph_edges_for_roots env fs base source_roots =
     bind_res (map_res (sidecar_facts env fs base)
       (dedupe_on (fs_resolve fs) {} (concat (map (graph_json_paths fs base) source_roots)))) (\<lambda>fs. Inr (concat fs))"

definition source_root_metadata :: "path \<Rightarrow> path \<Rightarrow> (ustr, pyval) dict" where
  "source_root_metadata base source_root = [(lit ''source_root'', PStr (posix_or_dot base source_root))]"

section \<open>Dendron vaults\<close>

definition list_value :: "pyval \<Rightarrow> pyval list" where
  "list_value v = (case v of PList items \<Rightarrow> items | _ \<Rightarrow> [])"

definition dendron_vault_entries :: "(ustr, pyval) dict \<Rightarrow> pyval list" where
  "dendron_vault_entries data =
     list_value (pget (mapping_value (pget data ''workspace'')) ''vaults'') @ list_value (pget data ''vaults'')"

text \<open>\<open>root / text\<close>: an absolute text replaces the root; \<open>..\<close> is left to \<open>resolve\<close>.\<close>

definition join_text :: "path \<Rightarrow> ustr \<Rightarrow> path" where
  "join_text base s =
     (let parts = filter (\<lambda>part. part \<noteq> [] \<and> part \<noteq> [46]) (split_char 47 s)
      in if starts_with s [47] then parts else base @ parts)"

definition dendron_vault_path :: "file_system \<Rightarrow> path \<Rightarrow> pyval \<Rightarrow> path option res" where
  "dendron_vault_path fs base vault =
     (case vault of
        PDict d \<Rightarrow>
          (case pget d ''fsPath'' of
             PStr s \<Rightarrow>
               if strip s = [] then Inr None
               else (case fs_resolve fs (join_text base (replace_char 92 [47] s)) of
                       None \<Rightarrow> Inl (OSError ''resolve'')
                     | Some p \<Rightarrow> Inr (if below base p then Some p else None))
           | _ \<Rightarrow> Inr None)
      | _ \<Rightarrow> Inr None)"

definition dendron_vaults :: "file_system \<Rightarrow> path \<Rightarrow> (ustr, pyval) dict \<Rightarrow> path list res" where
  "dendron_vaults fs base data =
     bind_res (map_res (dendron_vault_path fs base) (dendron_vault_entries data))
       (\<lambda>paths. Inr (dedupe_on id {} (somes paths)))"

text \<open>The existing vaults, and the number of those that are configured.\<close>

definition dendron_source_roots :: "adapter_env \<Rightarrow> file_system \<Rightarrow> path \<Rightarrow> (path list \<times> nat) res" where
  "dendron_source_roots env fs base =
     (let config = base @ [lit ''dendron.yml'']
      in if \<not> include_adapter_file fs base config then Inr ([], 0)
         else (case fs_read fs config of
                 Inl (OSError e) \<Rightarrow> Inr ([], 0)
               | Inl e \<Rightarrow> Inl e
               | Inr raw \<Rightarrow>
                   (case oe_yaml (ae_okf env) raw of
                      None \<Rightarrow> Inr ([], 0)
                    | Some v \<Rightarrow>
                        (case por v (PDict []) of
                           PDict data \<Rightarrow> bind_res (dendron_vaults fs base data)
                             (\<lambda>vaults. Inr (filter (fs_dir fs) vaults, length vaults))
                         | _ \<Rightarrow> Inr ([], 0)))))"

definition dendron_source_metadata :: "path \<Rightarrow> path list \<Rightarrow> path \<Rightarrow> bool \<Rightarrow> (ustr, pyval) dict" where
  "dendron_source_metadata base source_roots source_root use_workspace_paths =
     source_root_metadata base source_root @
     (if use_workspace_paths
      then [(lit ''vault_roots'', PStr (join [44] (map (posix_or_dot base) source_roots)))] else [])"

section \<open>Editor hints\<close>

text \<open>What a \<open>for\<close> loop over a JSON value runs through.\<close>

definition iterated :: "pyval \<Rightarrow> pyval list res" where
  "iterated v =
     (case v of
        PList items \<Rightarrow> Inr items
      | PStr s \<Rightarrow> Inr (map (\<lambda>c. PStr [c]) s)
      | PDict d \<Rightarrow> Inr (map (\<lambda>(k, x). PStr k) d)
      | _ \<Rightarrow> Inl (TypeError ''object is not iterable''))"

definition has_vscode_extension_hint :: "adapter_env \<Rightarrow> file_system \<Rightarrow> path \<Rightarrow> string \<Rightarrow> bool res" where
  "has_vscode_extension_hint env fs base needle =
     (let extensions = base @ [lit ''.vscode'', lit ''extensions.json'']
      in if \<not> include_adapter_file fs base extensions then Inr False
         else bind_res (fs_read fs extensions) (\<lambda>raw.
           case ae_json env raw of
             None \<Rightarrow> Inr False
           | Some data \<Rightarrow>
               bind_res (case data of PDict d \<Rightarrow> iterated (dict_get d (lit ''recommendations'') (PList [])) | _ \<Rightarrow> Inr [])
                 (\<lambda>items. Inr (list_ex (\<lambda>v. contains (lower (py_str (oe_repr (ae_okf env)) v)) (lower (lit needle))) items))))"

section \<open>Adapters\<close>

datatype adapter = Okf_v02 | Obsidian | Logseq | Dendron | Foam | Quartz | Llmwiki_markdown | Generic_markdown

fun adapter_name :: "adapter \<Rightarrow> string" where
  "adapter_name Okf_v02 = ''okf-v0.2''"
| "adapter_name Obsidian = ''obsidian''"
| "adapter_name Logseq = ''logseq''"
| "adapter_name Dendron = ''dendron''"
| "adapter_name Foam = ''foam''"
| "adapter_name Quartz = ''quartz''"
| "adapter_name Llmwiki_markdown = ''llmwiki-markdown''"
| "adapter_name Generic_markdown = ''generic-markdown''"

fun adapter_implementation :: "adapter \<Rightarrow> string" where
  "adapter_implementation Okf_v02 = ''Open Knowledge Format v0.2''"
| "adapter_implementation Obsidian = ''Obsidian vault''"
| "adapter_implementation Logseq = ''logseq/logseq''"
| "adapter_implementation Dendron = ''dendronhq/dendron''"
| "adapter_implementation Foam = ''foambubble/foam''"
| "adapter_implementation Quartz = ''jackyzha0/quartz''"
| "adapter_implementation Llmwiki_markdown = ''llmwiki-markdown''"
| "adapter_implementation Generic_markdown = ''generic-markdown''"

definition has_markdown :: "file_system \<Rightarrow> path \<Rightarrow> bool" where
  "has_markdown fs base \<longleftrightarrow> list_ex (include_adapter_file fs base) (md_files fs base)"

definition okf_root_index :: "file_system \<Rightarrow> path \<Rightarrow> ustr res option" where
  "okf_root_index fs base =
     (let index = base @ [lit ''index.md'']
      in if \<not> fs_file fs index \<or> fs_link fs index then None else Some (fs_read fs index))"

fun detect :: "adapter_env \<Rightarrow> file_system \<Rightarrow> path \<Rightarrow> adapter \<Rightarrow> bool res" where
  "detect env fs base Okf_v02 = is_okf_v02_root (ae_okf env) (okf_root_index fs base)"
| "detect env fs base Obsidian = Inr (include_adapter_dir fs base (base @ [lit ''.obsidian'']) \<and> has_markdown fs base)"
| "detect env fs base Logseq = Inr (include_adapter_file fs base (base @ [lit ''logseq'', lit ''config.edn'']) \<or>
     include_adapter_dir fs base (base @ [lit ''pages'']) \<and> include_adapter_dir fs base (base @ [lit ''journals'']))"
| "detect env fs base Dendron = Inr (include_adapter_file fs base (base @ [lit ''dendron.yml'']))"
| "detect env fs base Foam =
     (if include_adapter_path fs base (base @ [lit ''.foam'']) then Inr True else has_vscode_extension_hint env fs base ''foam'')"
| "detect env fs base Quartz = Inr (list_ex (\<lambda>name. include_adapter_file fs base (base @ [lit name]))
     [''quartz.config.ts'', ''quartz.config.js'', ''quartz.config.yaml'', ''quartz.config.yml''])"
| "detect env fs base Llmwiki_markdown = Inr (llmwiki_source_root fs base \<noteq> None)"
| "detect env fs base Generic_markdown = Inr (has_markdown fs base)"

definition loaded ::
  "adapter_env \<Rightarrow> path \<Rightarrow> adapter \<Rightarrow> wiki_page list \<Rightarrow> path \<Rightarrow> (ustr, pyval) dict \<Rightarrow> sidecar_fact list \<Rightarrow> loaded_wiki" where
  "loaded env base a pages title_root metadata facts =
     (let (title, description) = markdown_metadata env title_root pages
      in \<lparr>lw_root_name = name_of base, lw_pages = pages, lw_title = title, lw_description = description,
          lw_adapter = lit (adapter_name a), lw_implementation = lit (adapter_implementation a),
          lw_metadata = metadata, lw_sidecar = facts\<rparr>)"

text \<open>A validation error of a bundle becomes the error of an invalid root.\<close>

definition okf_bundle_files :: "file_system \<Rightarrow> path \<Rightarrow> bundle_file list" where
  "okf_bundle_files fs base =
     map (\<lambda>p. (relative_to base p, fs_read fs p)) (filter (include_adapter_file fs base) (md_files fs base))"

definition load_okf :: "adapter_env \<Rightarrow> file_system \<Rightarrow> path \<Rightarrow> loaded_wiki res" where
  "load_okf env fs base =
     (case parse_okf_v02_pages (ae_okf env) (okf_bundle_files fs base) of
        Inl (OkfV02ValidationError e) \<Rightarrow> Inl (OSError ''okf_v0_2_invalid'')
      | Inl e \<Rightarrow> Inl e
      | Inr pages \<Rightarrow> bind_res (load_sidecar_graph_edges env fs base base) (\<lambda>facts.
          Inr (loaded env base Okf_v02 pages base (source_root_metadata base base @
            [(lit ''source_profile'', PStr (lit (adapter_name Okf_v02))), (lit ''format_version'', PStr OKF_V02_VERSION)]) facts)))"

definition load_markdown :: "adapter_env \<Rightarrow> file_system \<Rightarrow> path \<Rightarrow> adapter \<Rightarrow> loaded_wiki res" where
  "load_markdown env fs base a =
     bind_res (parse_markdown_pages env fs Target_first (llmwiki_hub_source_roots fs base) base base) (\<lambda>pages.
     bind_res (load_sidecar_graph_edges env fs base base) (\<lambda>facts.
       Inr (loaded env base a pages base (source_root_metadata base base) facts)))"

definition load_llmwiki :: "adapter_env \<Rightarrow> file_system \<Rightarrow> path \<Rightarrow> loaded_wiki res" where
  "load_llmwiki env fs base =
     (let source_root = (case llmwiki_source_root fs base of Some p \<Rightarrow> p | None \<Rightarrow> base)
      in bind_res (parse_markdown_pages env fs Target_first [] source_root source_root) (\<lambda>pages.
         bind_res (load_sidecar_graph_edges env fs base source_root) (\<lambda>facts.
           Inr (loaded env base Llmwiki_markdown pages source_root (source_root_metadata base source_root) facts))))"

text \<open>With several configured vaults the paths are those of the workspace.\<close>

definition load_dendron :: "adapter_env \<Rightarrow> file_system \<Rightarrow> path \<Rightarrow> loaded_wiki res" where
  "load_dendron env fs base =
     bind_res (dendron_source_roots env fs base) (\<lambda>(source_roots, configured).
       let workspace = configured > 1;
           source_root = (if length source_roots = 1 \<and> \<not> workspace then hd source_roots else base);
           path_root = (if workspace then base else source_root);
           scan_roots = (if source_roots \<noteq> [] then source_roots else if configured \<noteq> 0 then [] else [base])
       in bind_res (parse_markdown_pages_for_roots env fs Target_last path_root scan_roots) (\<lambda>pages.
          bind_res (load_sidecar_graph_edges_for_roots env fs base scan_roots) (\<lambda>facts.
            Inr (loaded env base Dendron pages path_root (dendron_source_metadata base source_roots source_root workspace) facts))))"

text \<open>The pages, title and description are those of the generic adapter for the content directory.\<close>

definition load_quartz :: "adapter_env \<Rightarrow> file_system \<Rightarrow> path \<Rightarrow> loaded_wiki res" where
  "load_quartz env fs base =
     (let content = base @ [lit ''content''];
          source_root = (if include_adapter_dir fs base content then content else base)
      in bind_res (load_markdown env fs source_root Generic_markdown) (\<lambda>inner.
         bind_res (load_sidecar_graph_edges env fs base source_root) (\<lambda>facts.
           Inr (inner\<lparr>lw_root_name := name_of base, lw_adapter := lit (adapter_name Quartz),
             lw_implementation := lit (adapter_implementation Quartz),
             lw_metadata := (lit ''content_root'', PStr (posix_or_dot base source_root)) # source_root_metadata base source_root,
             lw_sidecar := facts\<rparr>))))"

definition logseq_files :: "file_system \<Rightarrow> path \<Rightarrow> path list" where
  "logseq_files fs base =
     concat (map (\<lambda>scan_root. filter (\<lambda>p. page_suffix (name_of p) \<and> include_adapter_file fs base p) (sort (fs_rglob fs scan_root)))
       (filter (include_adapter_dir fs base) [base @ [lit ''pages''], base @ [lit ''journals'']]))"

definition load_logseq :: "adapter_env \<Rightarrow> file_system \<Rightarrow> path \<Rightarrow> loaded_wiki res" where
  "load_logseq env fs base =
     bind_res (map_res (read_page_file env fs Target_first True [] base) (logseq_files fs base)) (\<lambda>pages.
     bind_res (load_sidecar_graph_edges env fs base base) (\<lambda>facts.
       Inr (loaded env base Logseq pages base (source_root_metadata base base) facts)))"

fun load_with :: "adapter_env \<Rightarrow> file_system \<Rightarrow> path \<Rightarrow> adapter \<Rightarrow> loaded_wiki res" where
  "load_with env fs base Okf_v02 = load_okf env fs base"
| "load_with env fs base Logseq = load_logseq env fs base"
| "load_with env fs base Dendron = load_dendron env fs base"
| "load_with env fs base Quartz = load_quartz env fs base"
| "load_with env fs base Llmwiki_markdown = load_llmwiki env fs base"
| "load_with env fs base a = load_markdown env fs base a"

definition ADAPTERS :: "adapter list" where
  "ADAPTERS = [Okf_v02, Obsidian, Logseq, Dendron, Foam, Quartz, Llmwiki_markdown, Generic_markdown]"

text \<open>The first adapter that detects its layout loads the wiki.\<close>

fun first_detected :: "adapter_env \<Rightarrow> file_system \<Rightarrow> path \<Rightarrow> adapter list \<Rightarrow> adapter option res" where
  "first_detected env fs base [] = Inr None"
| "first_detected env fs base (a # as) =
     bind_res (detect env fs base a) (\<lambda>found. if found then Inr (Some a) else first_detected env fs base as)"

datatype source_profile = Profile_auto | Profile_okf

definition served :: "loaded_wiki \<Rightarrow> loaded_wiki res" where
  "served w = (if lw_pages w = [] then Inl (OSError ''wiki_root_unsupported'') else Inr w)"

text \<open>\<open>base\<close> is the configured root after \<open>expanduser().resolve()\<close>.\<close>

definition load_wiki :: "adapter_env \<Rightarrow> file_system \<Rightarrow> source_profile \<Rightarrow> path \<Rightarrow> loaded_wiki res" where
  "load_wiki env fs profile base =
     (if \<not> fs_exists fs base \<or> \<not> fs_dir fs base then Inl (OSError ''wiki_root_missing'')
      else if profile = Profile_okf then bind_res (load_okf env fs base) served
      else bind_res (first_detected env fs base ADAPTERS) (\<lambda>found.
        case found of
          None \<Rightarrow> Inl (OSError ''wiki_root_unsupported'')
        | Some a \<Rightarrow> bind_res (load_with env fs base a) served))"

end
