(* ===== verification/Okf_Props.thy ===== *)
theory Okf_Props
  imports Okf
begin




section \<open>Metadata\<close>









section \<open>Bundles\<close>



end
