(* ===== verification/Adapters_Props.thy ===== *)
theory Adapters_Props
  imports Adapters Okf_Props
begin

text \<open>
  Whatever the layout of a wiki, its pages and graph facts are read from regular files that are no links and
  lie below the configured root; the first layout that is recognised decides. Two editor and graph files
  can make loading fail.
\<close>

section \<open>Paths\<close>

lemma below_refl [simp]: "below p p"
  by (simp add: below_def)


lemma below_child [simp]: "below p (p @ q)"
  by (simp add: below_def)






section \<open>Pages\<close>






section \<open>Facts of sidecar graphs\<close>







section \<open>Adapters\<close>


lemma loaded_simps [simp]:
  "lw_pages (loaded env base a pages r md facts) = pages" "lw_sidecar (loaded env base a pages r md facts) = facts"
  "lw_adapter (loaded env base a pages r md facts) = lit (adapter_name a)"
  "lw_root_name (loaded env base a pages r md facts) = name_of base"
  by (simp_all add: loaded_def Let_def split: prod.split)





















section \<open>Files that make loading fail\<close>

text \<open>
  The recommendations of an editor may be null, which the loop over them does not expect; and a graph
  sidecar that is no UTF-8 is not skipped as an unreadable or malformed one is.
\<close>

lemma null_recommendations_break_loading:
  assumes "fs_exists fs base \<and> fs_dir fs base"
    and "list_all (\<lambda>a. detect env fs base a = Inr False) [Okf_v02, Obsidian, Logseq, Dendron]"
    and "\<not> include_adapter_path fs base (base @ [lit ''.foam''])"
    and "include_adapter_file fs base (base @ [lit ''.vscode'', lit ''extensions.json''])"
    and "fs_read fs (base @ [lit ''.vscode'', lit ''extensions.json'']) = Inr raw"
    and "ae_json env raw = Some (PDict [(lit ''recommendations'', PNone)])"
  shows "load_wiki env fs Profile_auto base = Inl (TypeError ''object is not iterable'')"
proof -
  have "detect env fs base Foam = Inl (TypeError ''object is not iterable'')"
    using assms(3-6) by (simp add: has_vscode_extension_hint_def iterated_def dict_get_def Let_def)
  then show ?thesis using assms(1,2) by (simp add: load_wiki_def ADAPTERS_def del: detect.simps)
qed

lemma undecodable_sidecar_breaks_loading:
  assumes "p \<in> set (graph_json_paths fs base r)" and "fs_read fs p = Inl (ValueError e)"
  shows "\<exists>e. load_sidecar_graph_edges env fs base r = Inl e"
proof (cases "map_res (sidecar_facts env fs base) (graph_json_paths fs base r)")
  case (Inl e)
  then show ?thesis by (simp add: load_sidecar_graph_edges_def)
next
  case (Inr parts)
  then obtain facts where "sidecar_facts env fs base p = Inr facts"
    using assms(1) by (auto simp: map_res_Inr list_all2_conv_all_nth in_set_conv_nth)
  then show ?thesis using assms(2) by (simp add: sidecar_facts_def)
qed

end
