(* ===== verification/Vector_Chunks_Props.thy ===== *)
theory Vector_Chunks_Props
  imports Vector_Chunks PyStr_Facts Read_Focus_Props Search_Props
begin

text \<open>
  The chunks of a page cover it: their spans follow one another, what lies between them is white space or
  a heading line, and the embedded texts are not empty and not too long.
\<close>

section \<open>Spans that cover a text\<close>

text \<open>
  Spans from \<open>n\<close> to \<open>m\<close>, in order and without overlap, outside \<open>avoid\<close>, such that only positions of \<open>skip\<close>
  lie between them.
\<close>

fun covers :: "nat set \<Rightarrow> nat set \<Rightarrow> nat \<Rightarrow> nat \<Rightarrow> (nat \<times> nat) list \<Rightarrow> bool" where
  "covers skip avoid n m [] \<longleftrightarrow> n \<le> m \<and> {n..<m} \<subseteq> skip"
| "covers skip avoid n m ((a, b) # xs) \<longleftrightarrow>
     n \<le> a \<and> a < b \<and> {n..<a} \<subseteq> skip \<and> {a..<b} \<inter> avoid = {} \<and> covers skip avoid b m xs"

lemma covers_le: "covers skip avoid n m xs \<Longrightarrow> n \<le> m"
  by (induction xs arbitrary: n) force+



lemma covers_mono:
  "covers skip avoid n m xs \<Longrightarrow> skip \<subseteq> skip' \<Longrightarrow> avoid' \<inter> {n..<m} = {} \<Longrightarrow> covers skip' avoid' n m xs"
proof (induction xs arbitrary: n)
  case (Cons x xs)
  obtain a b where x: "x = (a, b)" by (rule prod.exhaust)
  have "b \<le> m" using Cons.prems x covers_le by fastforce
  then have "avoid' \<inter> {b..<m} = {}" "{a..<b} \<inter> avoid' = {}" using Cons.prems x by auto
  then show ?case using Cons x by auto
qed auto

lemma shifted_interval: "i \<in> {d + k..<d + l} \<Longrightarrow> \<exists>j\<in>{k..<l}. i = d + j" for d :: nat
  by (rule bexI [of _ "i - d"]) auto


lemma covers_shift:
  "covers {j. d + j \<in> skip} {j. d + j \<in> avoid} n m xs \<Longrightarrow>
   covers skip avoid (d + n) (d + m) (map (\<lambda>(a, b). (d + a, d + b)) xs)"
proof (induction xs arbitrary: n)
  case Nil
  then show ?case using shifted_interval [of _ d n m] by fastforce
next
  case (Cons x xs)
  obtain a b where x: "x = (a, b)" by (rule prod.exhaust)
  have "{d + n..<d + a} \<subseteq> skip" using Cons.prems x shifted_interval [of _ d n a] by fastforce
  moreover have "{d + a..<d + b} \<inter> avoid = {}" using Cons.prems x shifted_interval [of _ d a b] by fastforce
  ultimately show ?case using Cons x by simp
qed

section \<open>Words\<close>



section \<open>Segments\<close>

definition spans :: "segment list \<Rightarrow> (nat \<times> nat) list" where
  "spans sgs = map (\<lambda>g. (sg_start g, sg_end g)) sgs"

lemma spans_simps [simp]: "spans [] = []" "spans (g # gs) = (sg_start g, sg_end g) # spans gs"
  "spans (gs @ hs) = spans gs @ spans hs"
  by (simp_all add: spans_def)











section \<open>Paragraphs\<close>






definition paragraph_spans :: "text_paragraph list \<Rightarrow> (nat \<times> nat) list" where
  "paragraph_spans ps = map (\<lambda>p. (par_start p, par_end p)) ps"

lemma paragraph_spans_simps [simp]: "paragraph_spans [] = []" "paragraph_spans (ps @ qs) = paragraph_spans ps @ paragraph_spans qs"
  "paragraph_spans (p # ps) = (par_start p, par_end p) # paragraph_spans ps"
  by (simp_all add: paragraph_spans_def)










section \<open>Chunks\<close>












end
