(* ===== verification/Api_Args.thy ===== *)
theory Api_Args
  imports Service_Context
begin

text \<open>
  The arguments of requests and of the command line as \<open>api.py\<close> reads them: numbers clamped to their
  bounds, lists of texts from a list or a comma-separated text, modes, the choice of tools and the hosts
  that are allowed. \<open>int\<close> and \<open>float\<close> of a text and \<open>repr\<close> are parameters; JSON numbers are finite.
\<close>

definition QUERY_LIMIT_MIN :: int where "QUERY_LIMIT_MIN = 1"
definition QUERY_LIMIT_MAX :: int where "QUERY_LIMIT_MAX = 30"
definition DEFAULT_CONTEXT_LIMIT :: int where "DEFAULT_CONTEXT_LIMIT = 8"
definition SNIPPET_CHARS_MAX :: int where "SNIPPET_CHARS_MAX = 2000"
definition GRAPH_LIMIT_MIN :: int where "GRAPH_LIMIT_MIN = 1"
definition GRAPH_LIMIT_MAX :: int where "GRAPH_LIMIT_MAX = 2000"
definition GRAPH_NEIGHBOR_DEPTH_MAX :: int where "GRAPH_NEIGHBOR_DEPTH_MAX = 4"
definition GRAPH_NEIGHBOR_LIMIT_DEFAULT :: int where "GRAPH_NEIGHBOR_LIMIT_DEFAULT = 50"
definition GRAPH_NEIGHBOR_LIMIT_MAX :: int where "GRAPH_NEIGHBOR_LIMIT_MAX = 500"
definition DEFAULT_GRAPH_LIMIT :: int where "DEFAULT_GRAPH_LIMIT = 100"
definition READ_MAX_CHARS_MIN :: int where "READ_MAX_CHARS_MIN = 200"
definition READ_MAX_CHARS_MAX :: int where "READ_MAX_CHARS_MAX = 1000000"

record api_env =
  ap_int :: "ustr \<Rightarrow> int option"
  ap_float :: "ustr \<Rightarrow> float_value option"
  ap_repr :: "pyval \<Rightarrow> ustr"

section \<open>Numbers and switches\<close>

text \<open>\<open>int(v)\<close>; None for TypeError and ValueError, which every caller catches.\<close>

fun int_arg :: "api_env \<Rightarrow> pyval \<Rightarrow> int option" where
  "int_arg env (PBool b) = Some (if b then 1 else 0)"
| "int_arg env (PInt i) = Some i"
| "int_arg env (PFloat x) = Some (if x < 0 then \<lceil>x\<rceil> else \<lfloor>x\<rfloor>)"
| "int_arg env (PStr s) = ap_int env s"
| "int_arg env v = None"

definition clamp_int :: "api_env \<Rightarrow> pyval \<Rightarrow> int \<Rightarrow> int \<Rightarrow> int \<Rightarrow> int" where
  "clamp_int env v default_value minimum maximum =
     (let parsed = (case int_arg env (if v = PNone then PInt default_value else v) of Some i \<Rightarrow> i | None \<Rightarrow> default_value)
      in max minimum (min parsed maximum))"

definition validate_default_limit :: "api_env \<Rightarrow> pyval \<Rightarrow> int \<Rightarrow> int \<Rightarrow> int \<Rightarrow> int res" where
  "validate_default_limit env v default_value minimum maximum =
     (if v = PNone then Inr default_value
      else case int_arg env v of
             None \<Rightarrow> Inl (ValueError ''must be an integer'')
           | Some parsed \<Rightarrow>
               if parsed < minimum \<or> parsed > maximum then Inl (ValueError ''must be between minimum and maximum'')
               else Inr parsed)"

fun bool_arg :: "pyval \<Rightarrow> bool" where
  "bool_arg (PBool b) = b"
| "bool_arg (PStr s) = (lower (strip s) \<in> set (map lit [''1'', ''true'', ''yes'', ''on'']))"
| "bool_arg v = truthy v"

definition optional_clamped_int :: "api_env \<Rightarrow> pyval \<Rightarrow> int \<Rightarrow> int \<Rightarrow> int option" where
  "optional_clamped_int env v minimum maximum =
     (if v = PNone \<or> v = PStr [] then None
      else map_option (\<lambda>parsed. max minimum (min parsed maximum)) (int_arg env v))"

text \<open>\<open>float(v)\<close>: None for TypeError and ValueError; an integer beyond the floats raises OverflowError.\<close>

fun float_arg :: "api_env \<Rightarrow> pyval \<Rightarrow> float_value option res" where
  "float_arg env (PInt i) =
     (if \<bar>i\<bar> < 2 ^ 1024 - 2 ^ 970 then Inr (Some (Finite (of_int i))) else Inl (OverflowError ''int too large to convert to float''))"
| "float_arg env (PFloat x) = Inr (Some (Finite x))"
| "float_arg env (PStr s) = Inr (ap_float env s)"
| "float_arg env v = Inr None"

definition optional_nonnegative_float :: "api_env \<Rightarrow> pyval \<Rightarrow> real option res" where
  "optional_nonnegative_float env v =
     (let refused = Inl (LlmWikiUserError ''min_score must be a non-negative number'')
      in if v = PNone \<or> v = PStr [] then Inr None
         else case v of
                PBool b \<Rightarrow> refused
              | _ \<Rightarrow> bind_res (float_arg env v) (\<lambda>parsed. case parsed of
                         Some (Finite x) \<Rightarrow> if x < 0 then refused else Inr (Some x)
                       | _ \<Rightarrow> refused))"

section \<open>Texts\<close>

definition add_text :: "ustr \<Rightarrow> ustr list \<Rightarrow> ustr list" where
  "add_text s found = (if s \<noteq> [] \<and> s \<notin> set found then found @ [s] else found)"

fun text_candidates :: "api_env \<Rightarrow> pyval \<Rightarrow> ustr list" where
  "text_candidates env (PStr s) = map strip (split_char 44 s)"
| "text_candidates env (PList items) = map (\<lambda>item. strip (py_str (ap_repr env) item)) items"
| "text_candidates env v = []"

definition collect_string_args :: "api_env \<Rightarrow> pyval list \<Rightarrow> ustr list" where
  "collect_string_args env vs = fold add_text (concat (map (text_candidates env) vs)) []"

definition optional_string_args :: "api_env \<Rightarrow> pyval \<Rightarrow> ustr list option" where
  "optional_string_args env v = (if v = PNone then None else Some (collect_string_args env [v]))"

text \<open>Both branches of \<open>result if result or value == [] else []\<close> are the result.\<close>

definition parse_optional_string_list :: "api_env \<Rightarrow> pyval \<Rightarrow> ustr list option" where
  "parse_optional_string_list env v =
     (if v = PNone then None
      else let found = collect_string_args env [v] in Some (if found \<noteq> [] \<or> v = PList [] then found else []))"

definition query_variants_arg :: "(ustr, pyval) dict \<Rightarrow> ustr list option res" where
  "query_variants_arg args =
     (case map_of args (lit ''query_variants'') of
        None \<Rightarrow> Inr None
      | Some v \<Rightarrow> bind_res (validate_public_query_variants v) (\<lambda>variants. Inr (Some variants)))"

definition search_mode_arg :: "api_env \<Rightarrow> pyval \<Rightarrow> search_mode res" where
  "search_mode_arg env v =
     (let normalized = lower (strip (py_str (ap_repr env) (por v (PStr (lit ''lexical'')))))
      in if normalized = lit ''lexical'' then Inr Lexical
         else if normalized = lit ''literal'' then Inr Literal
         else if normalized = lit ''vector'' then Inr Vector
         else if normalized = lit ''hybrid'' then Inr Hybrid
         else Inl (LlmWikiUserError ''unknown search mode: expected lexical, literal, vector, or hybrid''))"

definition graph_direction_arg :: "api_env \<Rightarrow> pyval \<Rightarrow> direction" where
  "graph_direction_arg env v =
     (let normalized = lower (strip (py_str (ap_repr env) (por v (PStr (lit ''both'')))))
      in if normalized = lit ''out'' then Dir_out else if normalized = lit ''in'' then Dir_in else Dir_both)"

text \<open>Drafts are shown over the network only if the operator allows them and the request asks for them.\<close>

definition network_include_drafts :: "bool \<Rightarrow> pyval \<Rightarrow> bool" where
  "network_include_drafts allow_drafts requested \<longleftrightarrow> allow_drafts \<and> bool_arg requested"

section \<open>Options of the server\<close>

text \<open>None, one text or a sequence; \<open>list(v)\<close> of anything else raises TypeError.\<close>

fun option_items :: "api_env \<Rightarrow> pyval \<Rightarrow> ustr list res" where
  "option_items env PNone = Inr []"
| "option_items env (PStr s) = Inr [s]"
| "option_items env (PList items) = Inr (map (py_str (ap_repr env)) items)"
| "option_items env (PDict kvs) = Inr (map fst kvs)"
| "option_items env v = Inl (TypeError ''object is not iterable'')"

definition split_option_values :: "api_env \<Rightarrow> pyval \<Rightarrow> ustr list res" where
  "split_option_values env v =
     bind_res (option_items env v) (\<lambda>items. Inr (fold add_text (concat (map (\<lambda>item. map strip (split_char 44 item)) items)) []))"

definition MCP_TOOLS :: "ustr list" where
  "MCP_TOOLS = map lit [''llmwiki_context'', ''llmwiki_search'', ''llmwiki_read'', ''llmwiki_graph'', ''llmwiki_graph_neighbors'',
     ''llmwiki_source_refs'', ''llmwiki_source_bundle'']"

text \<open>The enabled tools; None when every tool stays enabled.\<close>

definition resolve_mcp_tool_selection :: "api_env \<Rightarrow> pyval \<Rightarrow> pyval \<Rightarrow> ustr list option res" where
  "resolve_mcp_tool_selection env included_value excluded_value =
     bind_res (split_option_values env included_value) (\<lambda>included.
     bind_res (split_option_values env excluded_value) (\<lambda>excluded.
      let enabled = filter (\<lambda>name. (included = [] \<or> name \<in> set included) \<and> name \<notin> set excluded) MCP_TOOLS
      in if included = [] \<and> excluded = [] then Inr None
         else if \<not> list_all (\<lambda>name. name \<in> set MCP_TOOLS) (included @ excluded) then Inl (ValueError ''Unknown MCP tool name(s)'')
         else if enabled = [] then Inl (ValueError ''MCP tool selection leaves no tools enabled'')
         else Inr (Some enabled)))"

definition MCP_DEFAULT_ALLOWED_HOSTS :: "ustr list" where
  "MCP_DEFAULT_ALLOWED_HOSTS = map lit [''127.0.0.1:*'', ''localhost:*'', ''[::1]:*'']"

definition MCP_DEFAULT_ALLOWED_ORIGINS :: "ustr list" where
  "MCP_DEFAULT_ALLOWED_ORIGINS = map lit [''http://127.0.0.1:*'', ''http://localhost:*'', ''http://[::1]:*'']"

datatype rebinding_settings = Sdk_default | Unprotected | Protected "ustr list" "ustr list"

definition mcp_transport_security_settings :: "api_env \<Rightarrow> pyval \<Rightarrow> pyval \<Rightarrow> rebinding_settings res" where
  "mcp_transport_security_settings env allowed_hosts allowed_origins =
     bind_res (split_option_values env allowed_hosts) (\<lambda>hosts.
     bind_res (split_option_values env allowed_origins) (\<lambda>origins.
      let host_origins = concat (map (\<lambda>host. map (\<lambda>scheme. lit scheme @ lit ''://'' @ host) [''http'', ''https'']) hosts)
      in Inr (if hosts = [] \<and> origins = [] then Sdk_default
         else if lit ''*'' \<in> set hosts then Unprotected
         else Protected (dedupe_on id {} (MCP_DEFAULT_ALLOWED_HOSTS @ hosts))
                (dedupe_on id {} (MCP_DEFAULT_ALLOWED_ORIGINS @ host_origins @ origins)))))"

definition validate_read_default_max_chars :: "pyval \<Rightarrow> int option res" where
  "validate_read_default_max_chars v =
     (case v of
        PNone \<Rightarrow> Inr None
      | PInt i \<Rightarrow> if READ_MAX_CHARS_MIN \<le> i \<and> i \<le> READ_MAX_CHARS_MAX then Inr (Some i)
                  else Inl (ValueError ''read_default_max_chars must be between minimum and maximum'')
      | _ \<Rightarrow> Inl (ValueError ''read_default_max_chars must be an integer''))"

end
