(* ===== verification/Api_Mcp.thy ===== *)
theory Api_Mcp
  imports Api_Surface
begin

text \<open>
  The JSON-RPC surface of \<open>api.py\<close>: \<open>handle_mcp\<close> reads the arguments of a tool and calls the service, and
  the endpoint \<open>mcp\<close> turns what it returns or raises into a response. A tool call is a value of
  \<open>mcp_call\<close>; running it on a site is a step of its own. \<open>model_dump\<close> of a result is left to the caller.
\<close>

section \<open>Calls\<close>

record neighbor_request =
  nq_seeds :: "ustr list"
  nq_depth :: int
  nq_direction :: direction
  nq_relations :: "ustr list"
  nq_limit :: int
  nq_include_drafts :: bool

datatype mcp_call =
    Call_context query_request
  | Call_search query_request
  | Call_read read_request
  | Call_graph int bool
  | Call_neighbors neighbor_request
  | Call_source_refs bool
  | Call_source_bundle bool

datatype mcp_failure =
    Unsupported_method
  | Unknown_tool
  | Disabled_tool ustr
  | Raised py_error

record api_options =
  ao_allow_drafts :: bool
  ao_a2a :: bool
  ao_graph_limit :: int
  ao_context_limit :: int
  ao_overrides :: surface_overrides
  ao_enabled :: "ustr list option"
  ao_read_chars :: "int option"

text \<open>\<open>create_app\<close> checks the limits, the tools and the characters of a read.\<close>

definition api_options_for ::
  "api_env \<Rightarrow> bool \<Rightarrow> bool \<Rightarrow> pyval \<Rightarrow> pyval \<Rightarrow> surface_overrides \<Rightarrow> pyval \<Rightarrow> pyval \<Rightarrow> pyval \<Rightarrow> api_options res" where
  "api_options_for env allow_drafts a2a graph_default context_default overrides tools exclude_tools read_chars =
     bind_res (validate_default_limit env graph_default DEFAULT_GRAPH_LIMIT GRAPH_LIMIT_MIN GRAPH_LIMIT_MAX) (\<lambda>graph_limit.
     bind_res (validate_default_limit env context_default DEFAULT_CONTEXT_LIMIT QUERY_LIMIT_MIN QUERY_LIMIT_MAX) (\<lambda>context_limit.
     bind_res (resolve_mcp_tool_selection env tools exclude_tools) (\<lambda>enabled.
     bind_res (validate_read_default_max_chars read_chars) (\<lambda>chars.
       Inr \<lparr>ao_allow_drafts = allow_drafts, ao_a2a = a2a, ao_graph_limit = graph_limit, ao_context_limit = context_limit,
            ao_overrides = overrides, ao_enabled = enabled, ao_read_chars = chars\<rparr>))))"

definition text_of :: "api_env \<Rightarrow> pyval \<Rightarrow> ustr" where
  "text_of env v = py_str (ap_repr env) (por v (PStr []))"

text \<open>\<open>query_variants\<close> of None and of an empty list mean the same to the service.\<close>

definition variants_value :: "ustr list option \<Rightarrow> pyval" where
  "variants_value variants = (case variants of None \<Rightarrow> PNone | Some vs \<Rightarrow> PList (map PStr vs))"

definition ranked_request ::
  "api_env \<Rightarrow> api_options \<Rightarrow> (ustr, pyval) dict \<Rightarrow> ustr list option \<Rightarrow> query_request res" where
  "ranked_request env ao args variants =
     bind_res (search_mode_arg env (pget args ''mode'')) (\<lambda>mode.
     bind_res (optional_nonnegative_float env (pget args ''min_score'')) (\<lambda>min_score.
       Inr \<lparr>qr_query = text_of env (pget args ''query''),
            qr_include_drafts = network_include_drafts (ao_allow_drafts ao) (pget args ''include_drafts''),
            qr_mode = mode, qr_variants = variants_value variants,
            qr_limit = nat (clamp_int env (pget args ''limit'') (ao_context_limit ao) QUERY_LIMIT_MIN QUERY_LIMIT_MAX),
            qr_fields = optional_string_args env (pget args ''fields''),
            qr_snippet_chars = optional_clamped_int env (pget args ''snippet_chars'') 0 SNIPPET_CHARS_MAX,
            qr_min_score = min_score,
            qr_exclude = collect_string_args env [pget args ''exclude_page_id'', pget args ''exclude_page_ids'']\<rparr>))"

definition read_with_options ::
  "api_env \<Rightarrow> ustr \<Rightarrow> bool \<Rightarrow> ustr list option \<Rightarrow> pyval \<Rightarrow> pyval \<Rightarrow> pyval \<Rightarrow> pyval \<Rightarrow> int option \<Rightarrow> read_request res" where
  "read_with_options env wanted include_drafts wanted_fields query sections max_chars include_links default_chars =
     (let requested = optional_clamped_int env max_chars READ_MAX_CHARS_MIN READ_MAX_CHARS_MAX
      in bind_res (split_option_values env sections) (\<lambda>wanted_sections.
           Inr \<lparr>rr_page = wanted, rr_include_drafts = include_drafts, rr_fields = wanted_fields,
                rr_query = (case query of PStr s \<Rightarrow> if strip s \<noteq> [] then s else [] | _ \<Rightarrow> []),
                rr_sections = wanted_sections,
                rr_max_chars = map_option nat (if requested \<noteq> None then requested else default_chars),
                rr_include_links = (if include_links = PNone then None else Some (bool_arg include_links))\<rparr>))"

definition tool_arguments :: "(ustr, pyval) dict \<Rightarrow> (ustr, pyval) dict" where
  "tool_arguments params = (case pget params ''arguments'' of PDict args \<Rightarrow> args | _ \<Rightarrow> [])"

definition tool_disabled :: "api_options \<Rightarrow> ustr \<Rightarrow> bool" where
  "tool_disabled ao name \<longleftrightarrow> (case ao_enabled ao of None \<Rightarrow> False | Some names \<Rightarrow> name \<in> set MCP_TOOLS \<and> name \<notin> set names)"

definition raised :: "'a res \<Rightarrow> mcp_failure + 'a" where
  "raised r = (case r of Inl e \<Rightarrow> Inl (Raised e) | Inr x \<Rightarrow> Inr x)"

text \<open>\<open>tools/call\<close> of \<open>handle_mcp\<close>, up to the call of the service.\<close>

definition tool_call :: "api_env \<Rightarrow> api_options \<Rightarrow> (ustr, pyval) dict \<Rightarrow> mcp_failure + mcp_call" where
  "tool_call env ao params =
     (let name = text_of env (pget params ''name''); args = tool_arguments params;
          drafts = network_include_drafts (ao_allow_drafts ao) (pget args ''include_drafts'')
      in if tool_disabled ao name then Inl (Disabled_tool name)
         else if name = lit ''llmwiki_context''
         then raised (bind_res (query_variants_arg args) (\<lambda>vs. bind_res (ranked_request env ao args vs) (\<lambda>q. Inr (Call_context q))))
         else if name = lit ''llmwiki_search''
         then raised (bind_res (query_variants_arg args) (\<lambda>vs. bind_res (ranked_request env ao args vs) (\<lambda>q. Inr (Call_search q))))
         else if name = lit ''llmwiki_read''
         then raised (bind_res (read_with_options env (text_of env (por (pget args ''page_id'') (pget args ''id''))) drafts
                (optional_string_args env (pget args ''fields'')) (pget args ''query'')
                (dict_get args (lit ''sections'') (pget args ''section'')) (pget args ''max_chars'') (pget args ''include_links'')
                (ao_read_chars ao)) (\<lambda>r. Inr (Call_read r)))
         else if name = lit ''llmwiki_graph''
         then Inr (Call_graph (clamp_int env (pget args ''limit'') (ao_graph_limit ao) GRAPH_LIMIT_MIN GRAPH_LIMIT_MAX) drafts)
         else if name = lit ''llmwiki_graph_neighbors''
         then Inr (Call_neighbors
           \<lparr>nq_seeds = collect_string_args env [pget args ''seed'', pget args ''seeds''],
            nq_depth = clamp_int env (pget args ''depth'') 1 0 GRAPH_NEIGHBOR_DEPTH_MAX,
            nq_direction = graph_direction_arg env (pget args ''direction''),
            nq_relations = collect_string_args env [pget args ''relation'', pget args ''relations''],
            nq_limit = clamp_int env (pget args ''limit'') GRAPH_NEIGHBOR_LIMIT_DEFAULT GRAPH_LIMIT_MIN GRAPH_NEIGHBOR_LIMIT_MAX,
            nq_include_drafts = drafts\<rparr>)
         else if name = lit ''llmwiki_source_refs'' then Inr (Call_source_refs drafts)
         else if name = lit ''llmwiki_source_bundle'' then Inr (Call_source_bundle drafts)
         else Inl Unknown_tool)"

section \<open>Requests of the service\<close>

text \<open>
  A site with its graph store (an operation may raise) and what else its manifest depends on; the state of
  the service and of the store. \<open>as_git_status\<close> is the status of the git synchronisation, if there is one.
\<close>

record ('b, 's) api_site =
  as_site :: "'b site"
  as_env :: api_env
  as_policy :: failure_policy
  as_has_store :: bool
  as_get :: "'s \<Rightarrow> graph_store_key \<Rightarrow> graph_record option res"
  as_put :: "graph_record \<Rightarrow> 's \<Rightarrow> 's res"
  as_deployment :: deployment
  as_git_status :: "pyval option"

record 's api_state =
  st_site :: site_state
  st_store :: 's

record source_refs_response =
  sr_source_id :: ustr
  sr_bundle_id :: ustr
  sr_refs :: "source_ref list"

datatype call_result =
    Got_context context_pack
  | Got_results "(ustr, pyval) dict list"
  | Got_page read_result
  | Got_graph "graph_node list \<times> graph_edge list"
  | Got_neighbors neighborhood_response
  | Got_source_refs source_refs_response
  | Got_bundle wiki_manifest "source_ref list"

definition with_site :: "(site_state \<Rightarrow> 'r res \<times> site_state) \<Rightarrow> 's api_state \<Rightarrow> 'r res \<times> 's api_state" where
  "with_site f st = (let (r, site) = f (st_site st) in (r, st\<lparr>st_site := site\<rparr>))"

definition snapshot_request :: "('b, 's) api_site \<Rightarrow> moment \<Rightarrow> 's api_state \<Rightarrow> retrieval_snapshot res \<times> 's api_state" where
  "snapshot_request a m = with_site (\<lambda>site.
     let (r, svc) = index_snapshot (site_externals (as_site a)) (site_cfg (as_site a)) (at_tree m) (at_clock m) (at_generation m)
                      False (ss_service site)
     in (r, site\<lparr>ss_service := svc\<rparr>))"

definition capabilities_request :: "('b, 's) api_site \<Rightarrow> 's api_state \<Rightarrow> ustr list res \<times> 's api_state" where
  "capabilities_request a = with_site (\<lambda>site.
     let (r, vs) = vector_capabilities (site_vector (as_site a)) (ss_vector site) in (r, site\<lparr>ss_vector := vs\<rparr>))"

definition manifest_request :: "('b, 's) api_site \<Rightarrow> moment \<Rightarrow> bool \<Rightarrow> 's api_state \<Rightarrow> wiki_manifest res \<times> 's api_state" where
  "manifest_request a m a2a st =
     then_state (snapshot_request a m st) (\<lambda>snapshot st1.
     then_state (capabilities_request a st1) (\<lambda>offered st2.
       (Inr (service_manifest (site_externals (as_site a)) (site_cfg (as_site a))
          ((as_deployment a)\<lparr>dep_vector_available := offered \<noteq> [], dep_a2a := a2a\<rparr>) snapshot), st2)))"

definition source_refs_request :: "('b, 's) api_site \<Rightarrow> moment \<Rightarrow> bool \<Rightarrow> 's api_state \<Rightarrow> source_refs_response res \<times> 's api_state" where
  "source_refs_request a m include_drafts st =
     then_state (snapshot_request a m st) (\<lambda>snapshot st1.
     then_state (manifest_request a m False st1) (\<lambda>man st2.
       (Inr \<lparr>sr_source_id = man_source_id man, sr_bundle_id = man_bundle_id man,
             sr_refs = source_refs (site_externals (as_site a)) (site_cfg (as_site a)) (rs_index snapshot) include_drafts\<rparr>, st2)))"

definition source_bundle_request ::
  "('b, 's) api_site \<Rightarrow> moment \<Rightarrow> bool \<Rightarrow> bool \<Rightarrow> 's api_state \<Rightarrow> (wiki_manifest \<times> source_ref list) res \<times> 's api_state" where
  "source_bundle_request a m include_drafts a2a st =
     then_state (manifest_request a m a2a st) (\<lambda>man st1.
     then_state (source_refs_request a m include_drafts st1) (\<lambda>refs st2. (Inr (man, sr_refs refs), st2)))"

definition graph_view_request :: "('b, 's) api_site \<Rightarrow> moment \<Rightarrow> bool \<Rightarrow> 's api_state \<Rightarrow> graph_view res \<times> 's api_state" where
  "graph_view_request a m include_drafts st =
     then_state (snapshot_request a m st) (\<lambda>snapshot st1.
       let (g, store, svc) = service_graph_view (site_externals (as_site a)) (site_cfg (as_site a)) (as_policy a) (as_get a) (as_put a)
             (as_has_store a) snapshot include_drafts (st_store st1) (ss_service (st_site st1))
       in (g, st1\<lparr>st_store := store, st_site := (st_site st1)\<lparr>ss_service := svc\<rparr>\<rparr>))"

definition call_answered :: "('a \<Rightarrow> call_result) \<Rightarrow> 'a res \<times> 's \<Rightarrow> call_result res \<times> 's" where
  "call_answered f r = then_state r (\<lambda>x st. (Inr (f x), st))"

fun run_call :: "('b, 's) api_site \<Rightarrow> bool \<Rightarrow> moment \<Rightarrow> mcp_call \<Rightarrow> 's api_state \<Rightarrow> call_result res \<times> 's api_state" where
  "run_call a a2a m (Call_context q) st = call_answered Got_context (with_site (context_request (as_site a) m q) st)"
| "run_call a a2a m (Call_search q) st = call_answered Got_results (with_site (search_request (as_site a) m q) st)"
| "run_call a a2a m (Call_read r) st = call_answered Got_page (with_site (read_request_result (as_site a) m r) st)"
| "run_call a a2a m (Call_graph limit drafts) st =
     call_answered (\<lambda>g. Got_graph (service_graph g (nat limit))) (graph_view_request a m drafts st)"
| "run_call a a2a m (Call_neighbors nq) st =
     call_answered (\<lambda>g. Got_neighbors (graph_neighbors g (nq_seeds nq) (nq_depth nq) (nq_direction nq) (nq_relations nq) (nq_limit nq)))
       (graph_view_request a m (nq_include_drafts nq) st)"
| "run_call a a2a m (Call_source_refs drafts) st = call_answered Got_source_refs (source_refs_request a m drafts st)"
| "run_call a a2a m (Call_source_bundle drafts) st =
     call_answered (\<lambda>(man, refs). Got_bundle man refs) (source_bundle_request a m drafts a2a st)"

section \<open>The endpoint\<close>

datatype mcp_result = Tools_listed "(ustr \<times> ustr) list" | Tool_answer call_result

definition listed_tools :: "api_options \<Rightarrow> wiki_manifest option \<Rightarrow> (ustr \<times> ustr) list" where
  "listed_tools ao manifest =
     filter (\<lambda>(name, d). case ao_enabled ao of None \<Rightarrow> True | Some names \<Rightarrow> name \<in> set names)
       (sm_descriptions (mcp_surface_metadata manifest (ao_overrides ao) (ao_graph_limit ao) (ao_context_limit ao) (ao_enabled ao)))"

definition handle_mcp ::
  "('b, 's) api_site \<Rightarrow> api_options \<Rightarrow> moment \<Rightarrow> ustr \<Rightarrow> (ustr, pyval) dict \<Rightarrow> 's api_state \<Rightarrow> (mcp_failure + mcp_result) \<times> 's api_state" where
  "handle_mcp a ao m method params st =
     (if method = lit ''tools/list''
      then (let (man, st') = manifest_request a m (ao_a2a ao) st
            in (Inr (Tools_listed (listed_tools ao (case man of Inl e \<Rightarrow> None | Inr x \<Rightarrow> Some x))), st'))
      else if method \<noteq> lit ''tools/call'' then (Inl Unsupported_method, st)
      else case tool_call (as_env a) ao params of
             Inl failure \<Rightarrow> (Inl failure, st)
           | Inr call \<Rightarrow>
               (let (r, st') = run_call a (ao_a2a ao) m call st
                in (case r of Inl e \<Rightarrow> Inl (Raised e) | Inr x \<Rightarrow> Inr (Tool_answer x), st')))"

datatype rpc_answer = Rpc_result mcp_result "pyval option" | Rpc_error int ustr

definition MCP_UNSUPPORTED_METHOD_MESSAGE :: ustr where "MCP_UNSUPPORTED_METHOD_MESSAGE = lit ''Unsupported MCP-style method.''"
definition MCP_UNKNOWN_TOOL_MESSAGE :: ustr where "MCP_UNKNOWN_TOOL_MESSAGE = lit ''Unknown MCP-style tool.''"
definition MCP_INTERNAL_FAILURE_MESSAGE :: ustr where "MCP_INTERNAL_FAILURE_MESSAGE = lit ''Internal MCP-style error.''"

definition mcp_disabled_tool_message :: "ustr \<Rightarrow> ustr" where
  "mcp_disabled_tool_message name =
     lit ''MCP tool '' @ [39] @ name @ [39] @ lit '' is disabled on this server (see --mcp-tools / --mcp-exclude-tools).''"

text \<open>A user error and its subclass VectorSearchError show their own message.\<close>

fun rpc_failure :: "mcp_failure \<Rightarrow> rpc_answer" where
  "rpc_failure Unsupported_method = Rpc_error (- 32601) MCP_UNSUPPORTED_METHOD_MESSAGE"
| "rpc_failure (Disabled_tool name) = Rpc_error (- 32602) (mcp_disabled_tool_message name)"
| "rpc_failure Unknown_tool = Rpc_error (- 32602) MCP_UNKNOWN_TOOL_MESSAGE"
| "rpc_failure (Raised (LlmWikiUserError message)) = Rpc_error (- 32602) (lit message)"
| "rpc_failure (Raised (VectorSearchError message)) = Rpc_error (- 32602) (lit message)"
| "rpc_failure (Raised e) = Rpc_error (- 32000) MCP_INTERNAL_FAILURE_MESSAGE"

definition mcp_endpoint ::
  "('b, 's) api_site \<Rightarrow> api_options \<Rightarrow> moment \<Rightarrow> ustr \<Rightarrow> (ustr, pyval) dict \<Rightarrow> 's api_state \<Rightarrow> rpc_answer \<times> 's api_state" where
  "mcp_endpoint a ao m method params st =
     (let (r, st') = handle_mcp a ao m method params st
      in (case r of
            Inl failure \<Rightarrow> rpc_failure failure
          | Inr result \<Rightarrow> Rpc_result result (if method = lit ''tools/call'' then as_git_status a else None), st'))"

end
