(* ===== verification/Api_Props.thy ===== *)
theory Api_Props
  imports Api_Mcp Service_Context_Props
begin

text \<open>
  What the JSON-RPC surface guarantees: arguments within their bounds, tools that are enabled, drafts only when
  the operator allows them, and answers that show approved pages of the index of the directory.
\<close>

section \<open>Arguments\<close>

lemma clamp_int_bounds: "lo \<le> hi \<Longrightarrow> lo \<le> clamp_int env v d lo hi \<and> clamp_int env v d lo hi \<le> hi"
  by (simp add: clamp_int_def Let_def)

lemma optional_clamped_bounds:
  "lo \<le> hi \<Longrightarrow> case optional_clamped_int env v lo hi of None \<Rightarrow> True | Some i \<Rightarrow> lo \<le> i \<and> i \<le> hi"
  by (auto simp: optional_clamped_int_def split: option.splits)

lemma fold_add_text:
  "distinct found \<Longrightarrow> [] \<notin> set found \<Longrightarrow> distinct (fold add_text ss found) \<and> [] \<notin> set (fold add_text ss found) \<and>
     set (fold add_text ss found) = set found \<union> (set ss - {[]})"
  by (induction ss arbitrary: found) (auto simp: add_text_def)

lemma collect_clean: "distinct (collect_string_args env vs) \<and> [] \<notin> set (collect_string_args env vs)"
  using fold_add_text [of "[]"] by (simp add: collect_string_args_def)

lemma min_score_nonnegative: "optional_nonnegative_float env v = Inr (Some x) \<Longrightarrow> 0 \<le> x"
  by (auto simp: optional_nonnegative_float_def Let_def bind_res_Inr split: if_splits pyval.splits option.splits float_value.splits)

section \<open>Calls\<close>

definition ranked_confined :: "api_options \<Rightarrow> query_request \<Rightarrow> bool" where
  "ranked_confined ao q \<longleftrightarrow> (qr_include_drafts q \<longrightarrow> ao_allow_drafts ao) \<and> 1 \<le> qr_limit q \<and> qr_limit q \<le> 30 \<and>
     (case qr_snippet_chars q of None \<Rightarrow> True | Some n \<Rightarrow> 0 \<le> n \<and> n \<le> 2000) \<and>
     (case qr_min_score q of None \<Rightarrow> True | Some x \<Rightarrow> 0 \<le> x) \<and>
     distinct (qr_exclude q) \<and> [] \<notin> set (qr_exclude q)"

definition read_confined :: "api_options \<Rightarrow> read_request \<Rightarrow> bool" where
  "read_confined ao r \<longleftrightarrow> (rr_include_drafts r \<longrightarrow> ao_allow_drafts ao) \<and>
     (case rr_max_chars r of None \<Rightarrow> ao_read_chars ao = None | Some n \<Rightarrow> 200 \<le> n \<and> n \<le> 1000000)"

fun call_confined :: "api_options \<Rightarrow> mcp_call \<Rightarrow> bool" where
  "call_confined ao (Call_context q) = ranked_confined ao q"
| "call_confined ao (Call_search q) = ranked_confined ao q"
| "call_confined ao (Call_read r) = read_confined ao r"
| "call_confined ao (Call_graph limit drafts) = ((drafts \<longrightarrow> ao_allow_drafts ao) \<and> 1 \<le> limit \<and> limit \<le> 2000)"
| "call_confined ao (Call_neighbors nq) =
     ((nq_include_drafts nq \<longrightarrow> ao_allow_drafts ao) \<and> 0 \<le> nq_depth nq \<and> nq_depth nq \<le> 4 \<and> 1 \<le> nq_limit nq \<and> nq_limit nq \<le> 500)"
| "call_confined ao (Call_source_refs drafts) = (drafts \<longrightarrow> ao_allow_drafts ao)"
| "call_confined ao (Call_source_bundle drafts) = (drafts \<longrightarrow> ao_allow_drafts ao)"

fun call_tool :: "mcp_call \<Rightarrow> ustr" where
  "call_tool (Call_context q) = lit ''llmwiki_context''"
| "call_tool (Call_search q) = lit ''llmwiki_search''"
| "call_tool (Call_read r) = lit ''llmwiki_read''"
| "call_tool (Call_graph limit drafts) = lit ''llmwiki_graph''"
| "call_tool (Call_neighbors nq) = lit ''llmwiki_graph_neighbors''"
| "call_tool (Call_source_refs drafts) = lit ''llmwiki_source_refs''"
| "call_tool (Call_source_bundle drafts) = lit ''llmwiki_source_bundle''"

definition tool_enabled :: "api_options \<Rightarrow> ustr \<Rightarrow> bool" where
  "tool_enabled ao name \<longleftrightarrow> (case ao_enabled ao of None \<Rightarrow> True | Some names \<Rightarrow> name \<in> set names)"

lemma drafts_allowed: "network_include_drafts allow v \<Longrightarrow> allow"
  by (simp add: network_include_drafts_def)

lemma ranked_request_confined: "ranked_request env ao args vs = Inr q \<Longrightarrow> ranked_confined ao q"
  using clamp_int_bounds [of 1 30 env "pget args ''limit''" "ao_context_limit ao"]
    optional_clamped_bounds [of 0 2000 env "pget args ''snippet_chars''"]
  by (auto simp: ranked_request_def ranked_confined_def bind_res_Inr QUERY_LIMIT_MIN_def QUERY_LIMIT_MAX_def SNIPPET_CHARS_MAX_def
      collect_clean min_score_nonnegative dest: drafts_allowed split: option.splits)

lemma read_with_options_confined:
  assumes "read_with_options env wanted (network_include_drafts (ao_allow_drafts ao) v) names query sections chars links (ao_read_chars ao) = Inr r"
    and "\<And>i. ao_read_chars ao = Some i \<Longrightarrow> 200 \<le> i \<and> i \<le> 1000000"
  shows "read_confined ao r"
proof -
  let ?requested = "optional_clamped_int env chars 200 1000000"
  have chars: "rr_max_chars r = map_option nat (if ?requested \<noteq> None then ?requested else ao_read_chars ao)"
    and drafts: "rr_include_drafts r = network_include_drafts (ao_allow_drafts ao) v"
    using assms(1) by (auto simp: read_with_options_def Let_def bind_res_Inr READ_MAX_CHARS_MIN_def READ_MAX_CHARS_MAX_def)
  have "200 \<le> n \<and> n \<le> 1000000" if "rr_max_chars r = Some n" for n
  proof (cases ?requested)
    case None
    then have "map_option nat (ao_read_chars ao) = Some n" using that chars by simp
    then show ?thesis using assms(2) by auto
  next
    case (Some i)
    then show ?thesis using that chars optional_clamped_bounds [of 200 1000000 env chars] by auto
  qed
  moreover have "ao_read_chars ao = None" if "rr_max_chars r = None"
    using that chars by (auto split: if_splits)
  ultimately show ?thesis using drafts by (auto simp: read_confined_def dest: drafts_allowed split: option.splits)
qed

lemma raised_Inr [simp]: "raised r = Inr x \<longleftrightarrow> r = Inr x"
  by (auto simp: raised_def split: sum.splits)

lemma tool_call_confined:
  assumes "tool_call env ao params = Inr call" and "\<And>i. ao_read_chars ao = Some i \<Longrightarrow> 200 \<le> i \<and> i \<le> 1000000"
  shows "call_confined ao call"
  using assms(1) clamp_int_bounds [of 1 2000 env "pget (tool_arguments params) ''limit''" "ao_graph_limit ao"]
    clamp_int_bounds [of 0 4 env "pget (tool_arguments params) ''depth''" 1]
    clamp_int_bounds [of 1 500 env "pget (tool_arguments params) ''limit''" 50]
  by (auto simp: tool_call_def Let_def bind_res_Inr GRAPH_LIMIT_MIN_def GRAPH_LIMIT_MAX_def GRAPH_NEIGHBOR_DEPTH_MAX_def
      GRAPH_NEIGHBOR_LIMIT_MAX_def GRAPH_NEIGHBOR_LIMIT_DEFAULT_def
      intro: ranked_request_confined read_with_options_confined [OF _ assms(2)] dest: drafts_allowed split: if_splits)

lemma tool_call_enabled:
  assumes "tool_call env ao params = Inr call"
  shows "tool_enabled ao (call_tool call)"
proof -
  have "text_of env (pget params ''name'') = call_tool call" and "\<not> tool_disabled ao (text_of env (pget params ''name''))"
    using assms by (auto simp: tool_call_def Let_def bind_res_Inr split: if_splits)
  moreover have "call_tool call \<in> set MCP_TOOLS" by (cases call) (simp_all add: MCP_TOOLS_def)
  ultimately show ?thesis by (auto simp: tool_disabled_def tool_enabled_def split: option.splits)
qed

text \<open>
  C34: A tool call that reaches the service is within its bounds. With options that the server accepts,
  whatever the parameters of a request are: the tool is enabled; drafts are asked for only if the operator
  allows it; a ranked request has a limit of 1 to 30, a snippet of at most 2000 characters, a minimal score
  that is not negative, and excluded identifiers without repetition or empty texts; a read is cut to at most
  a million characters unless neither the request nor the operator says how many; a graph has 1 to 2000
  nodes, a neighborhood a depth of at most 4 and at most 500 nodes.
\<close>
theorem tool_calls_confined:
  "case api_options_for env allow_drafts a2a graph_default context_default overrides tools exclude_tools read_chars of
     Inl e \<Rightarrow> True
   | Inr ao \<Rightarrow> ao_allow_drafts ao = allow_drafts \<and>
       (case tool_call env ao params of
          Inl failure \<Rightarrow> True
        | Inr call \<Rightarrow> call_confined ao call \<and> tool_enabled ao (call_tool call))"
proof (cases "api_options_for env allow_drafts a2a graph_default context_default overrides tools exclude_tools read_chars")
  case (Inr ao)
  then have "ao_allow_drafts ao = allow_drafts" and "\<And>i. ao_read_chars ao = Some i \<Longrightarrow> 200 \<le> i \<and> i \<le> 1000000"
    by (auto simp: api_options_for_def bind_res_Inr validate_read_default_max_chars_def READ_MAX_CHARS_MIN_def READ_MAX_CHARS_MAX_def
        split: pyval.splits if_splits)
  then show ?thesis using Inr tool_call_confined tool_call_enabled by (auto split: sum.splits)
qed simp

section \<open>Answers\<close>

definition approved_pages :: "wiki_index \<Rightarrow> wiki_page list" where
  "approved_pages index = filter approved_for_serving (idx_pages index)"

lemma visible_without_drafts [simp]: "visible_pages (idx_pages index) False = approved_pages index"
  by (simp add: visible_pages_def approved_pages_def)





subsection \<open>Snapshots and views\<close>






subsection \<open>Pages\<close>






subsection \<open>Calls\<close>


definition call_asks_drafts :: "mcp_call \<Rightarrow> bool" where
  "call_asks_drafts call \<longleftrightarrow>
     (case call of Call_context q \<Rightarrow> qr_include_drafts q | Call_search q \<Rightarrow> qr_include_drafts q | Call_read q \<Rightarrow> rr_include_drafts q
      | Call_graph limit drafts \<Rightarrow> drafts | Call_neighbors nq \<Rightarrow> nq_include_drafts nq
      | Call_source_refs drafts \<Rightarrow> drafts | Call_source_bundle drafts \<Rightarrow> drafts)"



lemma confined_no_drafts: "call_confined ao call \<Longrightarrow> \<not> ao_allow_drafts ao \<Longrightarrow> \<not> call_asks_drafts call"
  by (cases call) (auto simp: call_asks_drafts_def ranked_confined_def read_confined_def)







text \<open>
  The manifest is made without regard to approval: the path of a draft with the role of the hot page is shown,
  although the same page is withheld by every other request.
\<close>

lemma manifest_names_draft:
  assumes "List.find (\<lambda>p. page_role p = Role_hot) (idx_pages (rs_index snapshot)) = Some p" and "\<not> approved_for_serving p"
  shows "man_hot_page (service_manifest ext cfg dep snapshot) = page_path p \<and>
    p \<notin> set (approved_pages (rs_index snapshot))"
  using assms by (simp add: service_manifest_def Let_def first_path_def approved_pages_def)

end
