(* ===== verification/Api_Http.thy ===== *)
theory Api_Http
  imports Api_Args Regex
begin

text \<open>
  What \<open>api.py\<close> does with an HTTP request before the SDK sees it: the origin check, the validation of the
  MCP headers against the body, and the mirrored headers and metadata that are added. The body is read by
  \<open>json.loads\<close> after UTF-8 decoding and written by \<open>json.dumps\<close>, base64 with UTF-8 and the versions the
  SDK supports are parameters. A header value is decoded as Latin-1; \<open>None\<close> for the body is a text that is
  no JSON object.
\<close>

type_synonym mcp_headers = "(ustr, ustr list) dict"
type_synonym json_object = "(ustr, pyval) dict"

record 'raw mcp_env =
  mx_loads :: "'raw \<Rightarrow> json_object option"
  mx_dumps :: "json_object \<Rightarrow> 'raw"
  mx_encode64 :: "ustr \<Rightarrow> ustr"
  mx_decode64 :: "ustr \<Rightarrow> ustr option"
  mx_handshake_versions :: "ustr list"
  mx_modern_versions :: "ustr list"

section \<open>Origins\<close>

text \<open>\<open>^https?://(localhost|127\.0\.0\.1|\[::1\])(?::\d+)?$\<close>, matched against the whole origin.\<close>

definition LOCAL_CORS_ORIGIN_REGEX :: rx where
  "LOCAL_CORS_ORIGIN_REGEX =
     seq_of [exactly ''http'', Opt (exactly ''s''), exactly ''://'',
       Alt (exactly ''localhost'') (Alt (exactly ''127.0.0.1'') (exactly ''[::1]'')),
       Opt (Seq (exactly '':'') (Plus (Class is_decimal_char)))]"

definition is_allowed_origin :: "ustr \<Rightarrow> ustr list \<Rightarrow> bool" where
  "is_allowed_origin origin explicit_origins =
     (if explicit_origins \<noteq> [] then origin \<in> set explicit_origins
      else length origin \<in> set (ends_of LOCAL_CORS_ORIGIN_REGEX origin 0))"

text \<open>\<open>validate_origin_header\<close>: a request without an origin passes.\<close>

definition origin_passes :: "ustr option \<Rightarrow> ustr list \<Rightarrow> bool" where
  "origin_passes origin explicit_origins \<longleftrightarrow>
     (case origin of None \<Rightarrow> True | Some s \<Rightarrow> s = [] \<or> is_allowed_origin s explicit_origins)"

section \<open>Headers\<close>

definition asgi_header_values :: "(ustr \<times> ustr) list \<Rightarrow> mcp_headers" where
  "asgi_header_values raw = fold (\<lambda>(name, v) d. dict_append (lower name) v d) raw []"

definition mcp_header_value :: "mcp_headers \<Rightarrow> string \<Rightarrow> ustr" where
  "mcp_header_value hs name = join (lit '', '') (dict_get hs (lower (lit name)) [])"

definition mcp_accept_header_is_valid :: "ustr \<Rightarrow> bool" where
  "mcp_accept_header_is_valid v \<longleftrightarrow>
     (let media_types = map (\<lambda>item. lower (strip (takeWhile (\<lambda>c. c \<noteq> 59) item))) (filter (\<lambda>item. strip item \<noteq> []) (split_char 44 v))
      in lit ''application/json'' \<in> set media_types \<and> lit ''text/event-stream'' \<in> set media_types)"

definition invalid_plain_header_value :: "ustr \<Rightarrow> bool" where
  "invalid_plain_header_value v \<longleftrightarrow> list_ex (\<lambda>c. c < 32 \<and> c \<noteq> 9 \<or> c > 126) v"

definition base64_open :: ustr where "base64_open = lit ''=?base64?''"
definition base64_close :: ustr where "base64_close = lit ''?=''"

definition decode_mcp_header_value :: "'raw mcp_env \<Rightarrow> ustr \<Rightarrow> ustr option" where
  "decode_mcp_header_value env v =
     (if invalid_plain_header_value v then None
      else if starts_with v base64_open \<and> ends_with v base64_close
      then mx_decode64 env (take (length v - length base64_open - 2) (drop (length base64_open) v))
      else Some v)"

definition encode_mcp_header_value :: "'raw mcp_env \<Rightarrow> ustr \<Rightarrow> ustr" where
  "encode_mcp_header_value env v =
     (if invalid_plain_header_value v then base64_open @ mx_encode64 env v @ base64_close else v)"

definition mcp_required_name_value :: "ustr \<Rightarrow> pyval \<Rightarrow> ustr option" where
  "mcp_required_name_value method params =
     (if method \<notin> set (map lit [''tools/call'', ''resources/read'', ''prompts/get'']) then None
      else case params of
             PDict kvs \<Rightarrow>
               (case pget kvs (if method = lit ''resources/read'' then ''uri'' else ''name'') of PStr s \<Rightarrow> Some s | _ \<Rightarrow> Some [])
           | _ \<Rightarrow> Some [])"

section \<open>Validation\<close>

definition MCP_PROTOCOL_VERSION :: ustr where "MCP_PROTOCOL_VERSION = lit ''2026-07-28''"
definition MCP_META_PROTOCOL_VERSION :: string where "MCP_META_PROTOCOL_VERSION = ''io.modelcontextprotocol/protocolVersion''"
definition MCP_META_CLIENT_INFO :: string where "MCP_META_CLIENT_INFO = ''io.modelcontextprotocol/clientInfo''"
definition MCP_META_CLIENT_CAPABILITIES :: string where "MCP_META_CLIENT_CAPABILITIES = ''io.modelcontextprotocol/clientCapabilities''"
definition MCP_HEADER_MISMATCH_CODE :: int where "MCP_HEADER_MISMATCH_CODE = - 32020"
definition MCP_UNSUPPORTED_PROTOCOL_VERSION_CODE :: int where "MCP_UNSUPPORTED_PROTOCOL_VERSION_CODE = - 32022"

definition MCP_COMPAT_PROTOCOL_VERSIONS :: "'raw mcp_env \<Rightarrow> ustr list" where
  "MCP_COMPAT_PROTOCOL_VERSIONS env = dedupe_on id {} (lit ''2025-06-18'' # rev (mx_handshake_versions env))"

definition MCP_SUPPORTED_PROTOCOL_VERSIONS :: "'raw mcp_env \<Rightarrow> ustr list" where
  "MCP_SUPPORTED_PROTOCOL_VERSIONS env =
     dedupe_on id {} (MCP_PROTOCOL_VERSION # rev (mx_modern_versions env) @ MCP_COMPAT_PROTOCOL_VERSIONS env)"

text \<open>A refusal is answered with status 400.\<close>

record mcp_refusal =
  mf_id :: pyval
  mf_code :: int
  mf_message :: ustr
  mf_versions :: "(ustr list \<times> ustr) option"

fun json_rpc_request_id :: "pyval \<Rightarrow> pyval" where
  "json_rpc_request_id (PInt i) = PInt i"
| "json_rpc_request_id (PBool b) = PBool b"
| "json_rpc_request_id (PStr s) = PStr s"
| "json_rpc_request_id v = PNone"

definition mcp_header_mismatch :: "pyval \<Rightarrow> string \<Rightarrow> mcp_refusal" where
  "mcp_header_mismatch i message = \<lparr>mf_id = i, mf_code = MCP_HEADER_MISMATCH_CODE, mf_message = lit message, mf_versions = None\<rparr>"

definition mcp_unsupported_protocol_version :: "'raw mcp_env \<Rightarrow> pyval \<Rightarrow> ustr \<Rightarrow> mcp_refusal" where
  "mcp_unsupported_protocol_version env i requested =
     \<lparr>mf_id = i, mf_code = MCP_UNSUPPORTED_PROTOCOL_VERSION_CODE, mf_message = lit ''Unsupported protocol version'',
      mf_versions = Some (MCP_SUPPORTED_PROTOCOL_VERSIONS env, requested)\<rparr>"

definition is_legacy_initialize_request :: "'raw mcp_env \<Rightarrow> ustr \<Rightarrow> pyval \<Rightarrow> ustr \<Rightarrow> ustr \<Rightarrow> bool" where
  "is_legacy_initialize_request env method body_meta protocol_header method_header \<longleftrightarrow>
     (if method \<noteq> lit ''initialize'' \<or> protocol_header \<noteq> [] then False
      else if method_header \<noteq> [] \<and> decode_mcp_header_value env method_header \<noteq> Some (lit ''initialize'') then False
      else case body_meta of
             PNone \<Rightarrow> True
           | PDict meta \<Rightarrow> map_of meta (lit MCP_META_PROTOCOL_VERSION) = None
           | _ \<Rightarrow> False)"

definition no_dict :: "pyval \<Rightarrow> bool" where
  "no_dict v \<longleftrightarrow> (case v of PNone \<Rightarrow> False | PDict kvs \<Rightarrow> False | _ \<Rightarrow> True)"

text \<open>The checks of a \<open>_meta\<close> that was supplied.\<close>

definition meta_refusal :: "pyval \<Rightarrow> ustr \<Rightarrow> pyval \<Rightarrow> mcp_refusal option" where
  "meta_refusal request_id protocol_header body_meta =
     (case body_meta of
        PDict meta \<Rightarrow>
          (let version = pget meta MCP_META_PROTOCOL_VERSION
           in if version \<noteq> PNone \<and> (case version of PStr s \<Rightarrow> s = [] | _ \<Rightarrow> True)
              then Some (mcp_header_mismatch request_id (''request params._meta.'' @ MCP_META_PROTOCOL_VERSION @ '' is malformed''))
              else if version \<noteq> PNone \<and> version \<noteq> PStr protocol_header
              then Some (mcp_header_mismatch request_id
                ''MCP-Protocol-Version header does not match request params._meta protocolVersion'')
              else if no_dict (pget meta MCP_META_CLIENT_INFO)
              then Some (mcp_header_mismatch request_id (''request params._meta.'' @ MCP_META_CLIENT_INFO @ '' is malformed''))
              else if no_dict (pget meta MCP_META_CLIENT_CAPABILITIES)
              then Some (mcp_header_mismatch request_id (''request params._meta.'' @ MCP_META_CLIENT_CAPABILITIES @ '' is malformed''))
              else None)
      | _ \<Rightarrow> Some (mcp_header_mismatch request_id ''request params._meta must be an object''))"

definition name_refusal :: "'raw mcp_env \<Rightarrow> mcp_headers \<Rightarrow> pyval \<Rightarrow> ustr option \<Rightarrow> mcp_refusal option" where
  "name_refusal env hs request_id expected_name =
     (case expected_name of
        None \<Rightarrow> None
      | Some name \<Rightarrow>
          (let name_header = mcp_header_value hs ''mcp-name''
           in if name_header \<noteq> [] \<and> decode_mcp_header_value env name_header \<noteq> Some name
              then Some (mcp_header_mismatch request_id ''Mcp-Name header does not match the request body name'')
              else None))"

fun or_refusal :: "mcp_refusal option \<Rightarrow> mcp_refusal option \<Rightarrow> mcp_refusal option" where
  "or_refusal (Some r) other = Some r"
| "or_refusal None other = other"

text \<open>The checks of a request that is no handshake of an earlier revision.\<close>

definition modern_refusal :: "'raw mcp_env \<Rightarrow> mcp_headers \<Rightarrow> pyval \<Rightarrow> ustr \<Rightarrow> pyval \<Rightarrow> bool \<Rightarrow> pyval \<Rightarrow> mcp_refusal option" where
  "modern_refusal env hs request_id method params meta_supplied body_meta =
     (let protocol_header = mcp_header_value hs ''mcp-protocol-version''; method_header = mcp_header_value hs ''mcp-method''
      in if protocol_header = [] then Some (mcp_header_mismatch request_id ''MCP-Protocol-Version header is required'')
         else if invalid_plain_header_value protocol_header
         then Some (mcp_header_mismatch request_id ''MCP-Protocol-Version header is malformed'')
         else if protocol_header \<notin> set (MCP_SUPPORTED_PROTOCOL_VERSIONS env)
         then Some (mcp_unsupported_protocol_version env request_id protocol_header)
         else if method_header \<noteq> [] \<and> decode_mcp_header_value env method_header \<noteq> Some method
         then Some (mcp_header_mismatch request_id ''Mcp-Method header does not match the request body method'')
         else or_refusal (if meta_supplied then meta_refusal request_id protocol_header body_meta else None)
                (name_refusal env hs request_id (mcp_required_name_value method params)))"

definition validate_mcp_streamable_http_request :: "'raw mcp_env \<Rightarrow> mcp_headers \<Rightarrow> json_object option \<Rightarrow> mcp_refusal option" where
  "validate_mcp_streamable_http_request env hs body =
     (case body of
        None \<Rightarrow> None
      | Some request \<Rightarrow>
          (let request_id = json_rpc_request_id (pget request ''id''); params = pget request ''params'';
               supplied = (case params of PDict kvs \<Rightarrow> map_of kvs (lit ''_meta'') | _ \<Rightarrow> None);
               body_meta = (case supplied of None \<Rightarrow> PNone | Some v \<Rightarrow> v)
           in if \<not> mcp_accept_header_is_valid (mcp_header_value hs ''accept'')
              then Some (mcp_header_mismatch request_id ''Accept header must include application/json and text/event-stream'')
              else case pget request ''method'' of
                     PStr method \<Rightarrow>
                       if method = [] then None
                       else if is_legacy_initialize_request env method body_meta (mcp_header_value hs ''mcp-protocol-version'')
                                 (mcp_header_value hs ''mcp-method'') then None
                       else modern_refusal env hs request_id method params (supplied \<noteq> None) body_meta
                   | _ \<Rightarrow> None))"

section \<open>What is forwarded\<close>

definition dict_merge :: "('k, 'v) dict \<Rightarrow> ('k, 'v) dict \<Rightarrow> ('k, 'v) dict" where
  "dict_merge a b = fold (\<lambda>(k, v) d. AList.update k v d) b a"

definition synthesized_mcp_request_meta :: "ustr \<Rightarrow> json_object" where
  "synthesized_mcp_request_meta version =
     [(lit MCP_META_PROTOCOL_VERSION, PStr version),
      (lit MCP_META_CLIENT_INFO, PDict [(lit ''name'', PStr (lit ''current-mcp-client'')), (lit ''version'', PStr (lit ''unknown''))]),
      (lit MCP_META_CLIENT_CAPABILITIES, PDict [])]"

definition params_with_meta :: "ustr \<Rightarrow> pyval \<Rightarrow> json_object option" where
  "params_with_meta version params =
     (let meta = synthesized_mcp_request_meta version
      in case params of
           PDict kvs \<Rightarrow>
             (case map_of kvs (lit ''_meta'') of
                None \<Rightarrow> Some (AList.update (lit ''_meta'') (PDict meta) kvs)
              | Some (PDict own) \<Rightarrow> Some (AList.update (lit ''_meta'') (PDict (dict_merge meta own)) kvs)
              | Some v \<Rightarrow> None)
         | PNone \<Rightarrow> Some [(lit ''_meta'', PDict meta)]
         | _ \<Rightarrow> None)"

definition body_with_synthesized_mcp_request_meta :: "'raw mcp_env \<Rightarrow> mcp_headers \<Rightarrow> 'raw \<Rightarrow> 'raw" where
  "body_with_synthesized_mcp_request_meta env hs raw =
     (let version = mcp_header_value hs ''mcp-protocol-version''
      in if version \<notin> set (MCP_SUPPORTED_PROTOCOL_VERSIONS env) then raw
         else case mx_loads env raw of
                None \<Rightarrow> raw
              | Some request \<Rightarrow>
                  (case pget request ''method'' of
                     PStr method \<Rightarrow>
                       if method = [] then raw
                       else (case params_with_meta version (pget request ''params'') of
                               None \<Rightarrow> raw
                             | Some params \<Rightarrow> mx_dumps env (AList.update (lit ''params'') (PDict params) request))
                   | _ \<Rightarrow> raw))"

definition scope_with_mcp_mirror_headers :: "'raw mcp_env \<Rightarrow> (ustr \<times> ustr) list \<Rightarrow> json_object option \<Rightarrow> (ustr \<times> ustr) list" where
  "scope_with_mcp_mirror_headers env raw_headers body =
     (case body of
        None \<Rightarrow> raw_headers
      | Some request \<Rightarrow>
          (case pget request ''method'' of
             PStr method \<Rightarrow>
               if method = [] then raw_headers
               else (let hs = asgi_header_values raw_headers;
                         expected_name = mcp_required_name_value method (pget request ''params'')
                     in raw_headers @
                        (if mcp_header_value hs ''mcp-method'' = [] then [(lit ''mcp-method'', encode_mcp_header_value env method)] else []) @
                        (case expected_name of
                           None \<Rightarrow> []
                         | Some name \<Rightarrow>
                             if name \<noteq> [] \<and> mcp_header_value hs ''mcp-name'' = []
                             then [(lit ''mcp-name'', encode_mcp_header_value env name)] else []))
           | _ \<Rightarrow> raw_headers))"

record 'raw http_request =
  hq_method :: ustr
  hq_path :: ustr
  hq_headers :: "(ustr \<times> ustr) list"
  hq_body :: 'raw

definition MCP_STREAM_PATHS :: "ustr list" where "MCP_STREAM_PATHS = map lit [''/mcp/stream'', ''/stream'']"

text \<open>\<open>McpStreamableHttpValidationMiddleware\<close>: a refusal, or the request as the SDK sees it.\<close>

definition mcp_middleware :: "'raw mcp_env \<Rightarrow> 'raw http_request \<Rightarrow> mcp_refusal + 'raw http_request" where
  "mcp_middleware env r =
     (if hq_method r \<noteq> lit ''POST'' \<or> hq_path r \<notin> set MCP_STREAM_PATHS then Inr r
      else let hs = asgi_header_values (hq_headers r)
           in case validate_mcp_streamable_http_request env hs (mx_loads env (hq_body r)) of
                Some refusal \<Rightarrow> Inl refusal
              | None \<Rightarrow>
                  (let body = body_with_synthesized_mcp_request_meta env hs (hq_body r)
                   in Inr (r\<lparr>hq_headers := scope_with_mcp_mirror_headers env (hq_headers r) (mx_loads env body), hq_body := body\<rparr>)))"

end
