(* ===== verification/Instances.thy ===== *)
theory Instances
  imports Api_Args Regex
begin

text \<open>
  Processes and addresses of local servers, \<open>instances.py\<close>: command lines and their arguments, the endpoint of a
  host and a port, listening sockets, and the process that an endpoint belongs to. What psutil, \<open>ps\<close>,
  PowerShell and procfs report are arguments; \<open>Path\<close> operations, \<open>int\<close> of a text and UTF-8 decoding are
  parameters.
\<close>

section \<open>Command lines\<close>

text \<open>
  \<open>split_windows_command_line\<close>: the text that is left, the current argument, whether a quote is open,
  and whether an argument has begun. A run of backslashes is read at once.
\<close>

function (sequential) windows_args :: "ustr \<Rightarrow> ustr \<Rightarrow> bool \<Rightarrow> bool \<Rightarrow> ustr list" where
  "windows_args [] current in_quotes had_token = (if had_token then [current] else [])"
| "windows_args (c # s) current in_quotes had_token =
     (if (c = 32 \<or> c = 9) \<and> \<not> in_quotes then
        (if had_token then current # windows_args s [] in_quotes False else windows_args s current in_quotes False)
      else if c = 92 then
        (let slash_count = Suc (length (takeWhile (\<lambda>d. d = 92) s)); rest = dropWhile (\<lambda>d. d = 92) s
         in if rest \<noteq> [] \<and> hd rest = 34
            then windows_args (tl rest) (current @ replicate (slash_count div 2) 92 @ (if odd slash_count then [34] else []))
                   (if odd slash_count then in_quotes else \<not> in_quotes) True
            else windows_args rest (current @ replicate slash_count 92) in_quotes True)
      else if c = 34 then windows_args s current (\<not> in_quotes) True
      else windows_args s (current @ [c]) in_quotes True)"
  by pat_completeness auto

termination
  by (relation "measure (\<lambda>(s, current, in_quotes, had_token). length s)")
    (auto simp: less_Suc_eq_le length_dropWhile_le intro: le_trans [OF diff_le_self])

declare windows_args.simps(2) [simp del]

lemmas windows_args_loop [py_loop] = windows_args.simps(2)

definition split_windows_command_line :: "ustr \<Rightarrow> ustr list" where
  "split_windows_command_line command_line = windows_args command_line [] False False"

text \<open>
  \<open>shlex.split\<close>: the token that has begun, and the open quote. None for a missing closing quote or a
  backslash at the end (\<open>ValueError\<close>).
\<close>

datatype quote_state = Unquoted | In_single | In_double

fun emit_token :: "ustr option \<Rightarrow> ustr list \<Rightarrow> ustr list" where
  "emit_token None ts = ts"
| "emit_token (Some t) ts = t # ts"

definition grow_token :: "ustr option \<Rightarrow> ustr \<Rightarrow> ustr option" where
  "grow_token current s = Some ((case current of None \<Rightarrow> [] | Some t \<Rightarrow> t) @ s)"

fun shlex_tokens :: "ustr \<Rightarrow> ustr option \<Rightarrow> quote_state \<Rightarrow> ustr list option" where
  "shlex_tokens [] current q = (if q = Unquoted then Some (emit_token current []) else None)"
| "shlex_tokens (c # s) current Unquoted =
     (if c \<in> {32, 9, 13, 10} then map_option (emit_token current) (shlex_tokens s None Unquoted)
      else if c = 92 then (case s of [] \<Rightarrow> None | d # s' \<Rightarrow> shlex_tokens s' (grow_token current [d]) Unquoted)
      else if c = 39 then shlex_tokens s (grow_token current []) In_single
      else if c = 34 then shlex_tokens s (grow_token current []) In_double
      else shlex_tokens s (grow_token current [c]) Unquoted)"
| "shlex_tokens (c # s) current In_single =
     (if c = 39 then shlex_tokens s current Unquoted else shlex_tokens s (grow_token current [c]) In_single)"
| "shlex_tokens (c # s) current In_double =
     (if c = 34 then shlex_tokens s current Unquoted
      else if c = 92 then (case s of [] \<Rightarrow> None
        | d # s' \<Rightarrow> shlex_tokens s' (grow_token current (if d = 34 \<or> d = 92 then [d] else [92, d])) In_double)
      else shlex_tokens s (grow_token current [c]) In_double)"

definition split_posix_command_line :: "ustr \<Rightarrow> ustr list" where
  "split_posix_command_line command_line =
     (case shlex_tokens command_line None Unquoted of None \<Rightarrow> [] | Some tokens \<Rightarrow> tokens)"

section \<open>Arguments of a server process\<close>

definition DEFAULT_SERVE_HOST :: ustr where "DEFAULT_SERVE_HOST = lit ''127.0.0.1''"
definition DEFAULT_SERVE_PORT :: int where "DEFAULT_SERVE_PORT = 8765"
definition MANUAL_PROBE_HOST :: ustr where "MANUAL_PROBE_HOST = lit ''127.0.0.1''"

text \<open>\<open>value.replace("\\", "/").rstrip("/").rsplit("/", 1)[-1]\<close>\<close>

definition command_basename :: "ustr \<Rightarrow> ustr" where
  "command_basename token = rsplit_last 47 (rstrip_by (\<lambda>c. c = 47) (replace_char 92 [47] token))"

definition without_suffix :: "ustr \<Rightarrow> ustr list \<Rightarrow> ustr" where
  "without_suffix name endings =
     (case List.find (ends_with name) endings of None \<Rightarrow> name | Some s \<Rightarrow> take (length name - length s) name)"

definition is_llmwiki_serve_command :: "ustr \<Rightarrow> bool" where
  "is_llmwiki_serve_command token \<longleftrightarrow>
     without_suffix (lower (command_basename token)) (map lit [''.exe'', ''.cmd'', ''.bat'', ''.ps1'']) = lit ''llmwiki-serve''"

definition is_llmwiki_serve_module :: "ustr \<Rightarrow> bool" where
  "is_llmwiki_serve_module token \<longleftrightarrow>
     ends_with (replace_char 92 [47] token) (lit ''/llmwiki_serve/cli.py'') \<or>
     token \<in> set (map lit [''llmwiki_serve'', ''llmwiki_serve.cli''])"

text \<open>\<open>for index, token in enumerate(argv)\<close>, on what is left of the arguments.\<close>

fun serve_args_from_argv :: "ustr list \<Rightarrow> ustr list option" where
  "serve_args_from_argv [] = None"
| "serve_args_from_argv (token # rest) =
     (if token = lit ''-m'' \<and> length rest \<ge> 2 \<and> rest ! 0 \<in> set (map lit [''llmwiki_serve'', ''llmwiki_serve.cli'']) \<and>
         rest ! 1 = lit ''serve'' then Some (drop 2 rest)
      else if (is_llmwiki_serve_command token \<or> is_llmwiki_serve_module token) \<and> rest \<noteq> [] \<and> hd rest = lit ''serve''
      then Some (tl rest)
      else serve_args_from_argv rest)"

definition SERVE_OPTIONS_WITH_VALUES :: "ustr list" where
  "SERVE_OPTIONS_WITH_VALUES = map lit
     [''--host'', ''--port'', ''--cors-origin'', ''--refresh-interval-seconds'', ''--producer-manifest'', ''--io-log'',
      ''--projection-store'', ''--redis-url'', ''--redis-failure-policy'', ''--cache-namespace'', ''--source-id'',
      ''--graph-default-limit'', ''--context-default-limit'', ''--mcp-server-name'', ''--mcp-title'',
      ''--mcp-instructions'', ''--mcp-tool-description-prefix'', ''--managed-context-state-dir'',
      ''--managed-context-namespace'']"

definition port_ok :: "int \<Rightarrow> bool" where
  "port_ok port \<longleftrightarrow> 0 < port \<and> port \<le> 65535"

definition parse_port :: "api_env \<Rightarrow> ustr \<Rightarrow> int option" where
  "parse_port env v = (case ap_int env v of Some port \<Rightarrow> if port_ok port then Some port else None | None \<Rightarrow> None)"

text \<open>\<open>token.partition("=")\<close>: the option, whether it has a value inline, and the value.\<close>

definition partition_option :: "ustr \<Rightarrow> ustr \<times> bool \<times> ustr" where
  "partition_option token =
     (let option = takeWhile (\<lambda>c. c \<noteq> 61) token
      in (option, 61 \<in> set token, drop (Suc (length option)) token))"

definition option_text :: "ustr \<Rightarrow> ustr \<Rightarrow> ustr" where
  "option_text v other = (if v \<noteq> [] then v else other)"

text \<open>The loop of \<open>parse_serve_args\<close>; after \<open>--\<close> the arguments are the root and what is ignored.\<close>

fun serve_args_loop :: "api_env \<Rightarrow> ustr list \<Rightarrow> ustr \<Rightarrow> int \<Rightarrow> ustr \<Rightarrow> (ustr \<times> int \<times> ustr) option" where
  "serve_args_loop env [] host port root_arg = Some (host, port, root_arg)"
| "serve_args_loop env (token # rest) host port root_arg =
     (if token = lit ''--'' then Some (host, port, fold (\<lambda>t root_arg. if root_arg = [] then t else root_arg) rest root_arg)
      else if starts_with token (lit ''--'') then
        (case partition_option token of
           (option, has_value, inline_value) \<Rightarrow>
             if option = lit ''--host'' then
               (if has_value then serve_args_loop env rest (option_text inline_value host) port root_arg
                else case rest of
                       [] \<Rightarrow> None
                     | v # rest' \<Rightarrow> serve_args_loop env rest' (option_text v host) port root_arg)
             else if option = lit ''--port'' then
               (if has_value then
                  (case parse_port env inline_value of None \<Rightarrow> None | Some p \<Rightarrow> serve_args_loop env rest host p root_arg)
                else case rest of
                       [] \<Rightarrow> None
                     | v # rest' \<Rightarrow> (case parse_port env v of None \<Rightarrow> None | Some p \<Rightarrow> serve_args_loop env rest' host p root_arg))
             else if option \<in> set SERVE_OPTIONS_WITH_VALUES \<and> \<not> has_value then
               (case rest of [] \<Rightarrow> serve_args_loop env [] host port root_arg | v # rest' \<Rightarrow> serve_args_loop env rest' host port root_arg)
             else serve_args_loop env rest host port root_arg)
      else if starts_with token (lit ''-'') \<and> token \<noteq> lit ''-'' then serve_args_loop env rest host port root_arg
      else serve_args_loop env rest host port (if root_arg = [] then token else root_arg))"

definition parse_serve_args :: "api_env \<Rightarrow> ustr list \<Rightarrow> (ustr \<times> int \<times> ustr) option" where
  "parse_serve_args env args =
     (case serve_args_loop env args DEFAULT_SERVE_HOST DEFAULT_SERVE_PORT [] of
        None \<Rightarrow> None
      | Some (host, port, r) \<Rightarrow> if port_ok port then Some (host, port, r) else None)"

section \<open>Endpoints\<close>

definition in_brackets :: "ustr \<Rightarrow> bool" where
  "in_brackets host \<longleftrightarrow> starts_with host (lit ''['') \<and> ends_with host (lit '']'')"

definition without_brackets :: "ustr \<Rightarrow> ustr" where
  "without_brackets host = (if in_brackets host then take (length host - 2) (tl host) else host)"

definition url_host :: "ustr \<Rightarrow> ustr" where
  "url_host host =
     (let stripped = strip host
      in if in_brackets stripped then stripped
         else if 58 \<in> set stripped then lit ''['' @ stripped @ lit '']''
         else option_text stripped DEFAULT_SERVE_HOST)"

definition instance_url :: "ustr \<Rightarrow> int \<Rightarrow> ustr" where
  "instance_url host port = lit ''http://'' @ url_host host @ lit '':'' @ int_str port"

definition normalized_endpoint_host :: "ustr \<Rightarrow> ustr" where
  "normalized_endpoint_host host =
     (let normalized = without_brackets (lower (strip host))
      in if normalized \<in> set (map lit ['''', ''0.0.0.0'', ''::'', ''localhost'']) then DEFAULT_SERVE_HOST else normalized)"

type_synonym endpoint = "ustr \<times> int"

definition endpoint_key :: "ustr \<Rightarrow> int \<Rightarrow> endpoint" where
  "endpoint_key host port = (normalized_endpoint_host host, port)"

definition normalized_listener_host :: "ustr \<Rightarrow> ustr" where
  "normalized_listener_host host = without_brackets (lower (strip host))"

definition listener_probe_host :: "ustr \<Rightarrow> ustr" where
  "listener_probe_host host =
     (let normalized = normalized_listener_host host
      in if normalized = lit ''::'' then lit ''::1''
         else if normalized \<in> set (map lit ['''', ''0.0.0.0'', ''localhost'']) then DEFAULT_SERVE_HOST else normalized)"

definition listener_endpoint_keys :: "ustr \<Rightarrow> int \<Rightarrow> endpoint set" where
  "listener_endpoint_keys host port =
     (let normalized = without_brackets (lower (strip host))
      in {endpoint_key host port} \<union>
         (if normalized \<in> set (map lit [''0.0.0.0'', ''::'', '''']) then {(DEFAULT_SERVE_HOST, port)} else {}) \<union>
         (if normalized \<in> set (map lit [''::'', ''::1'', '''']) then {(lit ''::1'', port)} else {}))"

record listener_endpoint =
  le_pid :: int
  le_host :: ustr
  le_port :: int
  le_probe_host :: ustr

definition listener_of :: "int \<Rightarrow> ustr \<Rightarrow> int \<Rightarrow> listener_endpoint" where
  "listener_of pid host port = \<lparr>le_pid = pid, le_host = host, le_port = port, le_probe_host = listener_probe_host host\<rparr>"

text \<open>The dict comprehension of \<open>listener_endpoints_from_pids\<close>.\<close>

definition listener_endpoints_from_pids :: "(endpoint, int) dict \<Rightarrow> (endpoint, listener_endpoint) dict" where
  "listener_endpoints_from_pids pids =
     map (\<lambda>((host, port), pid). ((host, port), listener_of pid host port)) (filter (\<lambda>(e, pid). pid > 0) pids)"

text \<open>
  A connection as psutil lists it: whether it listens, its process, its local address. The first listener of
  an endpoint is kept; the keys of one listener are different, so that their order does not matter.
\<close>

record tcp_connection =
  tc_listens :: bool
  tc_pid :: "int option"
  tc_laddr :: "(ustr \<times> int) option"

definition socket_laddr_host_port :: "(ustr \<times> int) option \<Rightarrow> (ustr \<times> int) option" where
  "socket_laddr_host_port laddr =
     (case laddr of Some (host, port) \<Rightarrow> if port_ok port then Some (host, port) else None | None \<Rightarrow> None)"

definition add_listener :: "tcp_connection \<Rightarrow> (endpoint \<Rightarrow> listener_endpoint option) \<Rightarrow> endpoint \<Rightarrow> listener_endpoint option" where
  "add_listener c listeners =
     (if \<not> tc_listens c then listeners
      else case (tc_pid c, socket_laddr_host_port (tc_laddr c)) of
             (Some pid, Some (host, port)) \<Rightarrow>
               (\<lambda>e. case listeners e of
                      Some l \<Rightarrow> Some l
                    | None \<Rightarrow> if e \<in> listener_endpoint_keys host port then Some (listener_of pid host port) else None)
           | _ \<Rightarrow> listeners)"

definition psutil_listeners_by_endpoint :: "tcp_connection list \<Rightarrow> endpoint \<Rightarrow> listener_endpoint option" where
  "psutil_listeners_by_endpoint connections = fold add_listener connections Map.empty"

section \<open>Processes\<close>

record process_entry =
  pe_pid :: int
  pe_argv :: "ustr list"
  pe_command_line :: ustr
  pe_cwd :: ustr
  pe_create_time :: "real option"
  pe_ppid :: "int option"

definition process_entry_from_command_line :: "int \<Rightarrow> ustr \<Rightarrow> bool \<Rightarrow> process_entry option" where
  "process_entry_from_command_line pid command_line windows =
     (let argv = (if windows then split_windows_command_line command_line else split_posix_command_line command_line)
      in if argv = [] then None
         else Some \<lparr>pe_pid = pid, pe_argv = argv, pe_command_line = command_line, pe_cwd = [], pe_create_time = None, pe_ppid = None\<rparr>)"

text \<open>The lines of \<open>ps -axo pid=,args=\<close>.\<close>

definition ps_line :: "api_env \<Rightarrow> ustr \<Rightarrow> process_entry list" where
  "ps_line env line =
     (let stripped = strip line; pid_text = takeWhile (\<lambda>c. \<not> is_space c) stripped;
          command_line = dropWhile is_space (dropWhile (\<lambda>c. \<not> is_space c) stripped)
      in if pid_text = [] \<or> command_line = [] then []
         else case ap_int env pid_text of
                None \<Rightarrow> []
              | Some pid \<Rightarrow> (case process_entry_from_command_line pid command_line False of None \<Rightarrow> [] | Some entry \<Rightarrow> [entry]))"

definition ps_process_entries :: "api_env \<Rightarrow> (int \<times> ustr) option \<Rightarrow> process_entry list \<times> ustr list" where
  "ps_process_entries env result =
     (case result of
        None \<Rightarrow> ([], [lit ''process discovery degraded: POSIX process provider unavailable''])
      | Some (returncode, stdout) \<Rightarrow>
          if returncode \<noteq> 0 then ([], [lit ''process discovery degraded: POSIX process provider failed''])
          else (concat (map (ps_line env) (splitlines stdout)), []))"

text \<open>The answer of PowerShell; None for a text that is no JSON.\<close>

definition windows_item :: "api_env \<Rightarrow> pyval \<Rightarrow> process_entry list" where
  "windows_item env item =
     (case item of
        PDict kvs \<Rightarrow>
          (case int_arg env (pget kvs ''ProcessId'') of
             None \<Rightarrow> []
           | Some pid \<Rightarrow>
               (case pget kvs ''CommandLine'' of
                  PStr command_line \<Rightarrow>
                    if strip command_line = [] then []
                    else (case process_entry_from_command_line pid command_line True of None \<Rightarrow> [] | Some entry \<Rightarrow> [entry])
                | _ \<Rightarrow> []))
      | _ \<Rightarrow> [])"

definition windows_process_entries_from_json :: "api_env \<Rightarrow> pyval option \<Rightarrow> process_entry list" where
  "windows_process_entries_from_json env payload =
     (case payload of
        Some (PDict kvs) \<Rightarrow> windows_item env (PDict kvs)
      | Some (PList items) \<Rightarrow> concat (map (windows_item env) items)
      | _ \<Rightarrow> [])"

text \<open>
  \<open>/proc\<close>: the entries with the decoded, non-empty arguments of \<open>cmdline\<close> and the resolved \<open>cwd\<close>, None
  where reading failed.
\<close>

definition procfs_entry :: "api_env \<Rightarrow> ustr \<times> ustr list option \<times> ustr option \<Rightarrow> process_entry list" where
  "procfs_entry env = (\<lambda>(name, argv, cwd).
     if \<not> is_digits name then []
     else case (argv, ap_int env name) of
            (Some (a # as), Some pid) \<Rightarrow>
              [\<lparr>pe_pid = pid, pe_argv = a # as, pe_command_line = [], pe_cwd = (case cwd of None \<Rightarrow> [] | Some d \<Rightarrow> d),
                pe_create_time = None, pe_ppid = None\<rparr>]
          | _ \<Rightarrow> [])"

definition procfs_process_entries :: "api_env \<Rightarrow> (ustr \<times> ustr list option \<times> ustr option) list \<Rightarrow> process_entry list \<times> ustr list" where
  "procfs_process_entries env children =
     (let pids = filter (\<lambda>(name, argv, cwd). is_digits name) children
      in (concat (map (procfs_entry env) children),
          (if list_ex (\<lambda>(name, argv, cwd). argv = None) pids
           then [lit ''process discovery degraded: procfs could not read some process command lines''] else []) @
          (if list_ex (\<lambda>(name, argv, cwd). cwd = None \<and> (case argv of Some (a # as) \<Rightarrow> True | _ \<Rightarrow> False)) pids
           then [lit ''process discovery degraded: procfs could not read some process cwd values''] else [])))"

text \<open>A field of a psutil process: its value, \<open>AccessDenied\<close>, or any of the other errors that are caught.\<close>

datatype 'a ps_field = Got 'a | Denied | Gone

record ps_process =
  pp_pid :: int
  pp_cmdline :: "ustr list ps_field"
  pp_cwd :: "ustr ps_field"
  pp_create_time :: "real ps_field"
  pp_ppid :: "int ps_field"

fun got :: "'a ps_field \<Rightarrow> 'a option" where
  "got (Got x) = Some x"
| "got Denied = None"
| "got Gone = None"

definition named_arguments :: "ps_process \<Rightarrow> ustr list" where
  "named_arguments p = (case pp_cmdline p of Got raw_argv \<Rightarrow> filter (\<lambda>item. item \<noteq> []) raw_argv | _ \<Rightarrow> [])"

definition psutil_entry :: "ps_process \<Rightarrow> process_entry list" where
  "psutil_entry p =
     (if named_arguments p = [] then []
      else [\<lparr>pe_pid = pp_pid p, pe_argv = named_arguments p, pe_command_line = [],
             pe_cwd = (case got (pp_cwd p) of None \<Rightarrow> [] | Some d \<Rightarrow> d), pe_create_time = got (pp_create_time p),
             pe_ppid = got (pp_ppid p)\<rparr>])"

text \<open>A process without arguments is skipped before its other fields are asked for.\<close>

definition psutil_warnings :: "ps_process list \<Rightarrow> ustr list" where
  "psutil_warnings ps =
     (let named = filter (\<lambda>p. case pp_cmdline p of Got raw_argv \<Rightarrow> raw_argv \<noteq> [] | _ \<Rightarrow> False) ps;
          warning = (\<lambda>denied what. if denied then [lit (''process discovery degraded: psutil denied access to some process '' @ what)] else [])
      in warning (list_ex (\<lambda>p. pp_cmdline p = Denied) ps) ''command lines'' @
         warning (list_ex (\<lambda>p. pp_cwd p = Denied) named) ''cwd values'' @
         warning (list_ex (\<lambda>p. pp_create_time p = Denied) named) ''create_time values'' @
         warning (list_ex (\<lambda>p. pp_ppid p = Denied) named) ''parent PIDs'')"

text \<open>
  \<open>psutil_process_entries\<close>, for a psutil that is installed: None for a provider that fails, and the connections
  or the warning of the socket provider.
\<close>

definition psutil_process_entries ::
    "ps_process list option \<Rightarrow> ustr + tcp_connection list \<Rightarrow> process_entry list \<times> ustr list \<times> (endpoint \<Rightarrow> listener_endpoint option)" where
  "psutil_process_entries processes connections =
     (case processes of
        None \<Rightarrow> ([], [lit ''process discovery degraded: psutil process provider failed''], Map.empty)
      | Some ps \<Rightarrow>
          (concat (map psutil_entry ps),
           (case connections of Inl w \<Rightarrow> [w] | Inr cs \<Rightarrow> []) @ psutil_warnings ps,
           (case connections of Inl w \<Rightarrow> Map.empty | Inr cs \<Rightarrow> psutil_listeners_by_endpoint cs)))"

end
