(* ===== verification/Instance_Discovery.thy ===== *)
theory Instance_Discovery
  imports Instances
begin

text \<open>
  The registry of local servers and their discovery, \<open>instances.py\<close>: the records that servers leave in the
  state directory, the processes that look like servers, the health probes, and the notes on what was found.
  Processes, the clock of a process, HTTP and \<open>Path\<close> operations are parameters.
\<close>

section \<open>Parameters\<close>

text \<open>The answer to a GET: its status, whether the body is over the limit, and its JSON value; or why there is none.\<close>

datatype probe_answer = Http_answer int bool "pyval option" | Http_error_answer | Http_timeout | Http_unreachable

record serve_candidate =
  sc_pid :: int
  sc_host :: ustr
  sc_port :: int
  sc_root :: ustr
  sc_listener_pid_verified :: bool
  sc_probe_host :: ustr

text \<open>
  \<open>dx_within_budget\<close> tells which probes are done in time, \<open>dx_json_float\<close> how a float is read back from JSON, and
  the \<open>Path\<close> operations work on the text of a path.
\<close>

record discovery_env =
  dx_args :: api_env
  dx_running :: "int \<Rightarrow> bool"
  dx_create_time :: "int \<Rightarrow> float_value option"
  dx_get :: "ustr \<Rightarrow> probe_answer"
  dx_within_budget :: "serve_candidate \<Rightarrow> bool"
  dx_json_float :: "float_value \<Rightarrow> pyval"
  dx_expanduser :: "ustr \<Rightarrow> ustr res"
  dx_resolve :: "ustr \<Rightarrow> ustr res"
  dx_is_absolute :: "ustr \<Rightarrow> bool"
  dx_join :: "ustr \<Rightarrow> ustr \<Rightarrow> ustr"
  dx_parts :: "ustr \<Rightarrow> ustr list"
  dx_normcase :: "ustr \<Rightarrow> ustr"

section \<open>Processes that look like servers\<close>

fun path_error_caught :: "py_error \<Rightarrow> bool" where
  "path_error_caught (OSError m) = True"
| "path_error_caught (ValueError m) = True"
| "path_error_caught e = False"

definition resolve_process_root :: "discovery_env \<Rightarrow> ustr \<Rightarrow> ustr \<Rightarrow> ustr res" where
  "resolve_process_root env r cwd =
     (if r = [] then Inr []
      else let resolved = bind_res (dx_expanduser env r) (\<lambda>path.
             if dx_is_absolute env path then dx_resolve env path
             else if cwd = [] then Inr r
             else bind_res (dx_expanduser env cwd) (\<lambda>d. dx_resolve env (dx_join env d path)))
           in case resolved of Inr path \<Rightarrow> Inr path | Inl e \<Rightarrow> if path_error_caught e then Inr r else Inl e)"

definition parse_serve_process_candidate :: "discovery_env \<Rightarrow> process_entry \<Rightarrow> serve_candidate option res" where
  "parse_serve_process_candidate env entry =
     (case serve_args_from_argv (pe_argv entry) of
        None \<Rightarrow> Inr None
      | Some serve_args \<Rightarrow>
          (case parse_serve_args (dx_args env) serve_args of
             None \<Rightarrow> Inr None
           | Some (host, port, r) \<Rightarrow>
               bind_res (resolve_process_root env r (pe_cwd entry)) (\<lambda>resolved.
                 Inr (Some \<lparr>sc_pid = pe_pid entry, sc_host = host, sc_port = port, sc_root = resolved,
                   sc_listener_pid_verified = False, sc_probe_host = []\<rparr>))))"

text \<open>The loop of \<open>pid_matches_candidate_tree\<close>: every round sees a process for the first time that has a parent.\<close>

function pid_tree :: "(int, int) dict \<Rightarrow> int set \<Rightarrow> int set \<Rightarrow> int \<Rightarrow> bool" where
  "pid_tree parent_pids candidate_pids seen current =
     (if current \<in> seen then False
      else case map_of parent_pids current of
             None \<Rightarrow> False
           | Some parent \<Rightarrow>
               if parent \<le> 0 then False
               else if parent \<in> candidate_pids then True
               else pid_tree parent_pids candidate_pids (insert current seen) parent)"
  by pat_completeness auto

termination
proof (relation "measure (\<lambda>(ps, cs, seen, current). card (fst ` set ps - seen))", goal_cases)
  case 1
  then show ?case by simp
next
  case (2 ps cs seen current parent)
  then have new: "current \<in> fst ` set ps - seen" by (force dest: map_of_SomeD)
  have "fst ` set ps - insert current seen \<subset> fst ` set ps - seen" using new by blast
  then show ?case by (simp add: psubset_card_mono)
qed

declare pid_tree.simps [simp del]

lemmas pid_tree_loop [py_loop] = pid_tree.simps

definition pid_matches_candidate_tree :: "int \<Rightarrow> int set \<Rightarrow> (int, int) dict \<Rightarrow> bool" where
  "pid_matches_candidate_tree pid candidate_pids parent_pids \<longleftrightarrow>
     pid \<in> candidate_pids \<or> pid_tree parent_pids candidate_pids {} pid"

definition select_endpoint_candidate ::
    "serve_candidate list \<Rightarrow> listener_endpoint option \<Rightarrow> (int, int) dict \<Rightarrow> serve_candidate" where
  "select_endpoint_candidate candidates listener parent_pids =
     (let selected = hd candidates
      in case listener of
           None \<Rightarrow> selected
         | Some l \<Rightarrow>
             if le_pid l \<le> 0 then selected
             else let listener_candidate = List.find (\<lambda>c. sc_pid c = le_pid l) candidates;
                      chosen = (case listener_candidate of Some c \<Rightarrow> c | None \<Rightarrow> selected)
                  in \<lparr>sc_pid = le_pid l, sc_host = sc_host chosen, sc_port = sc_port chosen,
                      sc_root = (case listener_candidate of Some c \<Rightarrow> sc_root c | None \<Rightarrow> []),
                      sc_listener_pid_verified =
                        pid_matches_candidate_tree (le_pid l) (set (map sc_pid candidates)) parent_pids,
                      sc_probe_host = le_probe_host l\<rparr>)"

definition candidate_endpoint :: "serve_candidate \<Rightarrow> endpoint" where
  "candidate_endpoint c = endpoint_key (sc_host c) (sc_port c)"

text \<open>The candidates of one endpoint, endpoints in the order in which they are found.\<close>

definition candidate_groups :: "serve_candidate list \<Rightarrow> (endpoint, serve_candidate list) dict" where
  "candidate_groups candidates = fold (\<lambda>c groups. dict_append (candidate_endpoint c) c groups) candidates []"

definition parent_pids_of :: "process_entry list \<Rightarrow> (int, int) dict" where
  "parent_pids_of entries =
     dict_of (concat (map (\<lambda>e. case pe_ppid e of None \<Rightarrow> [] | Some ppid \<Rightarrow> [(pe_pid e, ppid)]) entries))"

definition discover_serve_processes ::
    "discovery_env \<Rightarrow> process_entry list \<Rightarrow> (endpoint \<Rightarrow> listener_endpoint option) \<Rightarrow> serve_candidate list res" where
  "discover_serve_processes env entries listener_endpoints =
     bind_res (map_res (parse_serve_process_candidate env) entries) (\<lambda>parsed.
       Inr (map (\<lambda>(e, group). select_endpoint_candidate group (listener_endpoints e) (parent_pids_of entries))
              (candidate_groups (concat (map (\<lambda>c. case c of None \<Rightarrow> [] | Some x \<Rightarrow> [x]) parsed)))))"

section \<open>Records\<close>

record instance_record =
  in_pid :: int
  in_host :: ustr
  in_port :: int
  in_root :: ustr
  in_url :: ustr
  in_source_id :: ustr
  in_bundle_id :: ustr
  in_adapter :: ustr
  in_implementation :: ustr
  in_page_count :: int
  in_approved_page_count :: int
  in_started_at :: ustr
  in_process_create_time :: "float_value option"
  in_schema_version :: int

definition REGISTRY_SCHEMA_VERSION :: int where "REGISTRY_SCHEMA_VERSION = 2"
definition UNKNOWN_PID :: int where "UNKNOWN_PID = 0"

definition int_value :: "api_env \<Rightarrow> pyval \<Rightarrow> int \<Rightarrow> int" where
  "int_value env v default_value = (case int_arg env v of Some i \<Rightarrow> i | None \<Rightarrow> default_value)"

text \<open>\<open>str(payload.get(key) or other)\<close>\<close>

definition text_value :: "api_env \<Rightarrow> (ustr, pyval) dict \<Rightarrow> string \<Rightarrow> ustr \<Rightarrow> ustr" where
  "text_value env payload key other = py_str (ap_repr env) (por (pget payload key) (PStr other))"

definition with_health :: "api_env \<Rightarrow> (ustr, pyval) dict \<Rightarrow> instance_record \<Rightarrow> instance_record" where
  "with_health env source r = r\<lparr>
     in_source_id := text_value env source ''source_id'' (in_source_id r),
     in_bundle_id := text_value env source ''bundle_id'' (in_bundle_id r),
     in_adapter := text_value env source ''adapter'' (in_adapter r),
     in_implementation := text_value env source ''implementation'' (in_implementation r),
     in_page_count := int_value env (pget source ''page_count'') (in_page_count r),
     in_approved_page_count := int_value env (pget source ''approved_page_count'') (in_approved_page_count r)\<rparr>"

text \<open>A record that has no manifest.\<close>

definition probe_record :: "int \<Rightarrow> ustr \<Rightarrow> int \<Rightarrow> ustr \<Rightarrow> instance_record" where
  "probe_record pid host port r = \<lparr>in_pid = pid, in_host = host, in_port = port, in_root = r, in_url = instance_url host port,
     in_source_id = [], in_bundle_id = [], in_adapter = [], in_implementation = [], in_page_count = 0,
     in_approved_page_count = 0, in_started_at = [], in_process_create_time = None,
     in_schema_version = REGISTRY_SCHEMA_VERSION\<rparr>"

definition record_from_health :: "api_env \<Rightarrow> int \<Rightarrow> ustr \<Rightarrow> int \<Rightarrow> ustr \<Rightarrow> (ustr, pyval) dict \<Rightarrow> instance_record" where
  "record_from_health env pid host port r source = (probe_record pid host port r)\<lparr>
     in_source_id := text_value env source ''source_id'' [],
     in_bundle_id := text_value env source ''bundle_id'' [],
     in_adapter := text_value env source ''adapter'' [],
     in_implementation := text_value env source ''implementation'' [],
     in_page_count := int_value env (pget source ''page_count'') 0,
     in_approved_page_count := int_value env (pget source ''approved_page_count'') 0\<rparr>"

section \<open>The registry\<close>

text \<open>
  A file of the registry directory: JSON as it is read, a text that is none or cannot be read, or bytes that
  are no UTF-8 (a \<open>UnicodeDecodeError\<close>, which is no \<open>JSONDecodeError\<close>).
\<close>

datatype registry_file = Json_file pyval | No_json | No_utf8

type_synonym registry = "(ustr, registry_file) dict"

text \<open>\<open>float_value\<close>: an integer beyond the floats raises.\<close>

definition float_value_of :: "api_env \<Rightarrow> pyval \<Rightarrow> float_value option res" where
  "float_value_of env v =
     (case v of PNone \<Rightarrow> Inr None | PBool b \<Rightarrow> Inr (Some (Finite (if b then 1 else 0))) | _ \<Rightarrow> float_arg env v)"

definition instance_record_from_payload :: "api_env \<Rightarrow> (ustr, pyval) dict \<Rightarrow> instance_record option res" where
  "instance_record_from_payload env payload =
     (case (int_arg env (pget payload ''pid''), int_arg env (pget payload ''port'')) of
        (Some pid, Some port) \<Rightarrow>
          if pid \<le> 0 \<or> \<not> port_ok port then Inr None
          else let host = text_value env payload ''host'' []
               in bind_res (float_value_of env (pget payload ''process_create_time'')) (\<lambda>created.
                    Inr (Some \<lparr>in_pid = pid, in_host = host, in_port = port,
                      in_root = text_value env payload ''root'' [],
                      in_url = text_value env payload ''url'' (instance_url host port),
                      in_source_id = text_value env payload ''source_id'' [],
                      in_bundle_id = text_value env payload ''bundle_id'' [],
                      in_adapter = text_value env payload ''adapter'' [],
                      in_implementation = text_value env payload ''implementation'' [],
                      in_page_count = int_value env (pget payload ''page_count'') 0,
                      in_approved_page_count = int_value env (pget payload ''approved_page_count'') 0,
                      in_started_at = text_value env payload ''started_at'' [],
                      in_process_create_time = created,
                      in_schema_version = int_value env (pget payload ''schema_version'') REGISTRY_SCHEMA_VERSION\<rparr>))
      | _ \<Rightarrow> Inr None)"

text \<open>The JSON of a record, as it is read back.\<close>

definition record_payload :: "discovery_env \<Rightarrow> instance_record \<Rightarrow> (ustr, pyval) dict" where
  "record_payload env r = map (\<lambda>(k, v). (lit k, v))
     [(''adapter'', PStr (in_adapter r)), (''approved_page_count'', PInt (in_approved_page_count r)),
      (''bundle_id'', PStr (in_bundle_id r)), (''host'', PStr (in_host r)), (''implementation'', PStr (in_implementation r)),
      (''page_count'', PInt (in_page_count r)), (''pid'', PInt (in_pid r)), (''port'', PInt (in_port r)),
      (''process_create_time'', case in_process_create_time r of None \<Rightarrow> PNone | Some x \<Rightarrow> dx_json_float env x),
      (''root'', PStr (in_root r)), (''schema_version'', PInt (in_schema_version r)),
      (''source_id'', PStr (in_source_id r)), (''started_at'', PStr (in_started_at r)), (''url'', PStr (in_url r))]"

definition instance_record_filename :: "instance_record \<Rightarrow> ustr" where
  "instance_record_filename r =
     (let host = strip_chars (lit ''_'')
            (sub_runs (\<lambda>c. \<not> (ascii_alnum c \<or> c = 95 \<or> c = 46 \<or> c = 45)) (lit ''_'') False (in_host r))
      in option_text host (lit ''host'') @ lit ''-'' @ int_str (in_port r) @ lit ''-'' @ int_str (in_pid r) @ lit ''.json'')"

definition stored_record :: "api_env \<Rightarrow> ustr \<times> registry_file \<Rightarrow> (ustr \<times> instance_record) list res" where
  "stored_record env = (\<lambda>(name, content).
     case content of
       No_utf8 \<Rightarrow> Inl (ValueError ''invalid utf-8'')
     | Json_file (PDict payload) \<Rightarrow>
         bind_res (instance_record_from_payload env payload) (\<lambda>r. Inr (case r of None \<Rightarrow> [] | Some x \<Rightarrow> [(name, x)]))
     | _ \<Rightarrow> Inr [])"

definition read_instance_records :: "api_env \<Rightarrow> registry \<Rightarrow> (ustr \<times> instance_record) list res" where
  "read_instance_records env files =
     bind_res (map_res (stored_record env) (sort_key fst (filter (\<lambda>(name, content). ends_with name (lit ''.json'')) files)))
       (\<lambda>records. Inr (concat records))"

definition unregister_instance :: "ustr \<Rightarrow> registry \<Rightarrow> registry" where
  "unregister_instance path files = AList.delete path files"

definition cleanup_replaced_records :: "api_env \<Rightarrow> instance_record \<Rightarrow> registry \<Rightarrow> registry res" where
  "cleanup_replaced_records env r files =
     bind_res (read_instance_records env files) (\<lambda>records.
       Inr (fold (\<lambda>(path, s) files.
              if in_pid s = in_pid r \<or> in_host s = in_host r \<and> in_port s = in_port r
              then unregister_instance path files else files) records files))"

definition register_instance :: "discovery_env \<Rightarrow> instance_record \<Rightarrow> registry \<Rightarrow> registry res" where
  "register_instance env r files =
     bind_res (cleanup_replaced_records (dx_args env) r files) (\<lambda>files.
       Inr (AList.update (instance_record_filename r) (Json_file (PDict (record_payload env r))) files))"

end
