(* ===== verification/Instance_Listing.thy ===== *)
theory Instance_Listing
  imports Instance_Discovery
begin

text \<open>
  What \<open>llmwiki-serve list\<close> shows, \<open>discover_local_instances\<close> of \<open>instances.py\<close>: the registered servers with
  their health, processes that look like servers, ports that are probed by hand, and notes on duplicates.
\<close>

section \<open>Health probes\<close>

datatype health_outcome = Health_result "(ustr, pyval) dict" ustr | Health_failure string

definition probe_base_url :: "instance_record \<Rightarrow> ustr" where
  "probe_base_url r =
     (let host = strip (in_host r)
      in lit ''http://'' @ url_host (if host \<in> set (map lit [''0.0.0.0'', ''::'', ''[::]'']) then DEFAULT_SERVE_HOST else host) @
         lit '':'' @ int_str (in_port r))"

definition health_url :: "instance_record \<Rightarrow> ustr" where
  "health_url r = probe_base_url r @ lit ''/health''"

definition probe_llmwiki_health_outcome :: "discovery_env \<Rightarrow> instance_record \<Rightarrow> health_outcome" where
  "probe_llmwiki_health_outcome env r =
     (case dx_get env (health_url r) of
        Http_error_answer \<Rightarrow> Health_failure ''health-http-error''
      | Http_timeout \<Rightarrow> Health_failure ''health-timeout''
      | Http_unreachable \<Rightarrow> Health_failure ''health-connection-failed''
      | Http_answer status over_limit body \<Rightarrow>
          if status \<noteq> 200 then Health_failure ''health-http-error''
          else if over_limit then Health_failure ''health-invalid-response''
          else case body of
                 Some (PDict payload) \<Rightarrow>
                   if pget payload ''service'' \<noteq> PStr (lit ''llmwiki-serve'') then Health_failure ''health-non-llmwiki-service''
                   else Health_result (case pget payload ''source'' of PDict source \<Rightarrow> source | _ \<Rightarrow> [])
                          (text_value (dx_args env) payload ''version'' [])
               | _ \<Rightarrow> Health_failure ''health-invalid-response'')"

definition probe_llmwiki_health :: "discovery_env \<Rightarrow> instance_record \<Rightarrow> ((ustr, pyval) dict \<times> ustr) option" where
  "probe_llmwiki_health env r =
     (case probe_llmwiki_health_outcome env r of
        Health_result source version \<Rightarrow> Some (source, version)
      | Health_failure reason \<Rightarrow> None)"

section \<open>Instances\<close>

datatype instance_status = Healthy | Unhealthy | Running | Stale

datatype discovery_source = From_registry | From_process | From_manual_probe

datatype root_source = Root_registry | Root_process_args | Root_unknown

record instance_info =
  ii_record :: instance_record
  ii_status :: instance_status
  ii_healthy :: bool
  ii_stale :: bool
  ii_notes :: "string list"
  ii_pruned :: bool
  ii_registered :: bool
  ii_orphan :: bool
  ii_version :: ustr
  ii_discovery_source :: discovery_source
  ii_root_source :: root_source
  ii_service_verified :: bool

definition info_endpoint :: "instance_info \<Rightarrow> endpoint" where
  "info_endpoint i = endpoint_key (in_host (ii_record i)) (in_port (ii_record i))"

definition active_endpoint_keys :: "instance_info list \<Rightarrow> endpoint set" where
  "active_endpoint_keys infos = set (map info_endpoint (filter (\<lambda>i. \<not> ii_stale i) infos))"

definition process_is_running :: "discovery_env \<Rightarrow> int \<Rightarrow> bool" where
  "process_is_running env pid \<longleftrightarrow> pid > 0 \<and> dx_running env pid"

definition current_process_create_time :: "discovery_env \<Rightarrow> int \<Rightarrow> float_value option" where
  "current_process_create_time env pid = (if pid \<le> 0 then None else dx_create_time env pid)"

fun same_process_create_time :: "float_value \<Rightarrow> float_value \<Rightarrow> bool" where
  "same_process_create_time (Finite x) (Finite y) = (\<bar>x - y\<bar> < 1 / 1000)"
| "same_process_create_time x y = False"

section \<open>Registered servers\<close>

text \<open>A process with the number of a record that was started at another time is another process.\<close>

definition pid_reused :: "discovery_env \<Rightarrow> instance_record \<Rightarrow> bool" where
  "pid_reused env r \<longleftrightarrow> process_is_running env (in_pid r) \<and>
     (case (in_process_create_time r, current_process_create_time env (in_pid r)) of
        (Some recorded, Some active) \<Rightarrow> \<not> same_process_create_time active recorded
      | _ \<Rightarrow> False)"

definition listener_corrects :: "discovery_env \<Rightarrow> instance_record \<Rightarrow> int option \<Rightarrow> int option" where
  "listener_corrects env r listener_pid =
     (case listener_pid of
        Some pid \<Rightarrow> if pid > 0 \<and> pid \<noteq> in_pid r \<and> process_is_running env pid then Some pid else None
      | None \<Rightarrow> None)"

definition registry_info ::
    "discovery_env \<Rightarrow> bool \<Rightarrow> bool \<Rightarrow> (endpoint \<Rightarrow> int option) \<Rightarrow> endpoint set \<Rightarrow> instance_record \<Rightarrow> instance_info" where
  "registry_info env probe prune_stale listener_pids verified r =
     (let running = process_is_running env (in_pid r) \<and> \<not> pid_reused env r;
          e = endpoint_key (in_host r) (in_port r);
          corrected = (if running then listener_corrects env r (listener_pids e) else None);
          notes = (if pid_reused env r then [''pid-reused''] else []) @
            (case corrected of None \<Rightarrow> []
             | Some pid \<Rightarrow> ''listener-pid-corrected'' # (if e \<in> verified then [] else [''listener-pid-unverified'']));
          r = (case corrected of None \<Rightarrow> r | Some pid \<Rightarrow> r\<lparr>in_pid := pid\<rparr>);
          health = (if running \<and> probe then probe_llmwiki_health env r else None)
      in \<lparr>ii_record = (case health of None \<Rightarrow> r | Some (source, version) \<Rightarrow> with_health (dx_args env) source r),
          ii_status = (if \<not> running then Stale else if \<not> probe then Running else if health = None then Unhealthy else Healthy),
          ii_healthy = (health \<noteq> None), ii_stale = (\<not> running), ii_notes = notes,
          ii_pruned = (\<not> running \<and> prune_stale), ii_registered = True, ii_orphan = False,
          ii_version = (case health of None \<Rightarrow> [] | Some (source, version) \<Rightarrow> version),
          ii_discovery_source = From_registry, ii_root_source = Root_registry, ii_service_verified = (health \<noteq> None)\<rparr>)"

section \<open>Processes\<close>

definition process_probe_host :: "serve_candidate \<Rightarrow> ustr" where
  "process_probe_host c = option_text (sc_probe_host c) (sc_host c)"

definition process_probe_record :: "serve_candidate \<Rightarrow> instance_record" where
  "process_probe_record c = probe_record (sc_pid c) (process_probe_host c) (sc_port c) (sc_root c)"

definition process_candidate_notes :: "serve_candidate \<Rightarrow> string list" where
  "process_candidate_notes c =
     [''orphan'', ''process-discovered''] @ (if sc_listener_pid_verified c then [] else [''listener-pid-unverified''])"

definition process_candidate_info_from_failure :: "serve_candidate \<Rightarrow> string \<Rightarrow> instance_info" where
  "process_candidate_info_from_failure c reason =
     \<lparr>ii_record = process_probe_record c, ii_status = Unhealthy, ii_healthy = False, ii_stale = False,
      ii_notes = process_candidate_notes c @ [''service-unverified'', reason], ii_pruned = False, ii_registered = False,
      ii_orphan = True, ii_version = [], ii_discovery_source = From_process,
      ii_root_source = (if sc_root c \<noteq> [] then Root_process_args else Root_unknown), ii_service_verified = False\<rparr>"

definition process_candidate_info_from_outcome :: "discovery_env \<Rightarrow> serve_candidate \<Rightarrow> health_outcome \<Rightarrow> instance_info option" where
  "process_candidate_info_from_outcome env c outcome =
     (case outcome of
        Health_failure reason \<Rightarrow>
          if reason = ''health-non-llmwiki-service'' then None else Some (process_candidate_info_from_failure c reason)
      | Health_result source version \<Rightarrow>
          Some \<lparr>ii_record = record_from_health (dx_args env) (sc_pid c) (process_probe_host c) (sc_port c) (sc_root c) source,
            ii_status = Healthy, ii_healthy = True, ii_stale = False,
            ii_notes = process_candidate_notes c @ (if version = [] then [''version-unknown''] else []), ii_pruned = False,
            ii_registered = False, ii_orphan = True, ii_version = version, ii_discovery_source = From_process,
            ii_root_source = (if sc_root c \<noteq> [] then Root_process_args else Root_unknown), ii_service_verified = True\<rparr>)"

text \<open>\<open>probe_process_candidates_concurrently\<close>: an outcome of each candidate, those out of time included.\<close>

definition candidate_outcome :: "discovery_env \<Rightarrow> serve_candidate \<Rightarrow> health_outcome" where
  "candidate_outcome env c =
     (if dx_within_budget env c then probe_llmwiki_health_outcome env (process_probe_record c)
      else Health_failure ''health-probe-budget-exceeded'')"

text \<open>The first loop: candidates that nothing listens for are listed at once, the others are left to be probed.\<close>

fun unprobed_candidates :: "serve_candidate list \<Rightarrow> endpoint set \<Rightarrow> instance_info list \<times> serve_candidate list \<times> endpoint set" where
  "unprobed_candidates [] seen = ([], [], seen)"
| "unprobed_candidates (c # cs) seen =
     (if candidate_endpoint c \<in> seen then unprobed_candidates cs seen
      else if sc_probe_host c = [] then
        (case unprobed_candidates cs (insert (candidate_endpoint c) seen) of
           (infos, pending, seen') \<Rightarrow> (process_candidate_info_from_failure c ''health-local-listener-unverified'' # infos, pending, seen'))
      else (case unprobed_candidates cs seen of (infos, pending, seen') \<Rightarrow> (infos, c # pending, seen')))"

definition probed_infos :: "discovery_env \<Rightarrow> serve_candidate list \<Rightarrow> (endpoint \<times> instance_info) list" where
  "probed_infos env pending =
     concat (map (\<lambda>c. case process_candidate_info_from_outcome env c (candidate_outcome env c) of
       None \<Rightarrow> [] | Some i \<Rightarrow> [(candidate_endpoint c, i)]) pending)"

definition probe_process_candidates :: "discovery_env \<Rightarrow> serve_candidate list \<Rightarrow> endpoint set \<Rightarrow> instance_info list \<times> endpoint set" where
  "probe_process_candidates env candidates seen_endpoints =
     (case unprobed_candidates candidates seen_endpoints of
        (infos, pending, seen) \<Rightarrow>
          (infos @ map snd (probed_infos env pending), seen \<union> fst ` set (probed_infos env pending)))"

section \<open>Ports\<close>

fun probe_manual_ports :: "discovery_env \<Rightarrow> int list \<Rightarrow> endpoint set \<Rightarrow> instance_info list" where
  "probe_manual_ports env [] seen = []"
| "probe_manual_ports env (port # ports) seen =
     (let e = endpoint_key MANUAL_PROBE_HOST port
      in if \<not> port_ok port \<or> e \<in> seen then probe_manual_ports env ports seen
         else case probe_llmwiki_health env (probe_record UNKNOWN_PID MANUAL_PROBE_HOST port []) of
                None \<Rightarrow> probe_manual_ports env ports seen
              | Some (source, version) \<Rightarrow>
                  \<lparr>ii_record = record_from_health (dx_args env) UNKNOWN_PID MANUAL_PROBE_HOST port [] source,
                   ii_status = Healthy, ii_healthy = True, ii_stale = False,
                   ii_notes = [''orphan'', ''manual-probe''] @ (if version = [] then [''version-unknown''] else []),
                   ii_pruned = False, ii_registered = False, ii_orphan = True, ii_version = version,
                   ii_discovery_source = From_manual_probe, ii_root_source = Root_unknown, ii_service_verified = True\<rparr> #
                  probe_manual_ports env ports (insert e seen))"

section \<open>Notes\<close>

definition append_note :: "string \<Rightarrow> instance_info \<Rightarrow> instance_info" where
  "append_note note i = (if note \<in> set (ii_notes i) then i else i\<lparr>ii_notes := ii_notes i @ [note]\<rparr>)"

definition resolved_root :: "discovery_env \<Rightarrow> ustr \<Rightarrow> ustr option res" where
  "resolved_root env r =
     (if r = [] then Inr None
      else case bind_res (dx_expanduser env r) (dx_resolve env) of
             Inr path \<Rightarrow> Inr (Some path)
           | Inl (OSError m) \<Rightarrow> Inr None
           | Inl e \<Rightarrow> Inl e)"

definition normalized_root_key :: "discovery_env \<Rightarrow> ustr option \<Rightarrow> ustr" where
  "normalized_root_key env resolved = (case resolved of None \<Rightarrow> [] | Some path \<Rightarrow> dx_normcase env path)"

definition same_path :: "discovery_env \<Rightarrow> ustr \<Rightarrow> ustr \<Rightarrow> bool" where
  "same_path env a b \<longleftrightarrow> dx_normcase env a = dx_normcase env b"

definition is_relative_to :: "discovery_env \<Rightarrow> ustr \<Rightarrow> ustr \<Rightarrow> bool" where
  "is_relative_to env child parent \<longleftrightarrow>
     take (length (dx_parts env parent)) (dx_parts env child) = dx_parts env parent"

text \<open>An instance with the resolved path of its root.\<close>

type_synonym rooted_info = "instance_info \<times> ustr option"

definition grouped_by :: "(rooted_info \<Rightarrow> ustr) \<Rightarrow> rooted_info list \<Rightarrow> (ustr, rooted_info list) dict" where
  "grouped_by key_func infos =
     fold (\<lambda>i groups. if key_func i = [] then groups else dict_append (key_func i) i groups) infos []"

text \<open>\<open>add_note\<close> for every group with two members.\<close>

definition note_groups :: "string \<Rightarrow> (rooted_info \<Rightarrow> ustr) \<Rightarrow> rooted_info list \<Rightarrow> rooted_info list" where
  "note_groups note key_func infos =
     map (\<lambda>i. if length (dict_get (grouped_by key_func infos) (key_func i) []) > 1 then (append_note note (fst i), snd i) else i) infos"

definition note_pair :: "discovery_env \<Rightarrow> rooted_info \<Rightarrow> rooted_info \<Rightarrow> rooted_info \<times> rooted_info" where
  "note_pair env a b =
     (case (snd a, snd b) of
        (Some left_root, Some right_root) \<Rightarrow>
          if same_path env left_root right_root then (a, b)
          else if is_relative_to env right_root left_root
          then ((append_note ''parent-root'' (fst a), snd a), (append_note ''subfolder-root'' (fst b), snd b))
          else if is_relative_to env left_root right_root
          then ((append_note ''subfolder-root'' (fst a), snd a), (append_note ''parent-root'' (fst b), snd b))
          else (a, b)
      | _ \<Rightarrow> (a, b))"

text \<open>The inner loop for one \<open>left\<close>, then the outer loop.\<close>

fun note_pairs_of :: "discovery_env \<Rightarrow> rooted_info \<Rightarrow> rooted_info list \<Rightarrow> rooted_info \<times> rooted_info list" where
  "note_pairs_of env a [] = (a, [])"
| "note_pairs_of env a (b # bs) =
     (case note_pair env a b of
        (a', b') \<Rightarrow> (case note_pairs_of env a' bs of (a'', bs') \<Rightarrow> (a'', b' # bs')))"

lemma note_pairs_of_length [simp]: "length (snd (note_pairs_of env a bs)) = length bs"
  by (induction bs arbitrary: a) (simp_all add: case_prod_beta)

function note_all_pairs :: "discovery_env \<Rightarrow> rooted_info list \<Rightarrow> rooted_info list" where
  "note_all_pairs env [] = []"
| "note_all_pairs env (a # bs) =
     fst (note_pairs_of env a bs) # note_all_pairs env (snd (note_pairs_of env a bs))"
  by pat_completeness auto

termination by (relation "measure (\<lambda>(env, is). length is)") simp_all

text \<open>
  The instances that are not stale, in their places: the roots are resolved once, since \<open>Path.resolve\<close> is taken to
  answer the same throughout a listing.
\<close>

fun put_active :: "instance_info list \<Rightarrow> instance_info list \<Rightarrow> instance_info list" where
  "put_active [] active = []"
| "put_active (i # is) active =
     (if ii_stale i then i # put_active is active
      else case active of [] \<Rightarrow> i # is | a # active' \<Rightarrow> a # put_active is active')"

definition annotate_instance_notes :: "discovery_env \<Rightarrow> instance_info list \<Rightarrow> instance_info list res" where
  "annotate_instance_notes env infos =
     (let active = filter (\<lambda>i. \<not> ii_stale i) infos
      in bind_res (map_res (\<lambda>i. resolved_root env (in_root (ii_record i))) active) (\<lambda>roots.
           Inr (put_active infos (map fst (note_all_pairs env
             (note_groups ''same-root'' (\<lambda>i. normalized_root_key env (snd i))
               (note_groups ''duplicate-bundle'' (\<lambda>i. in_bundle_id (ii_record (fst i))) (zip active roots))))))))"

section \<open>The listing\<close>

text \<open>What process discovery found: entries, warnings, listeners and their processes.\<close>

record process_scan =
  sn_entries :: "process_entry list"
  sn_warnings :: "ustr list"
  sn_listener_pids :: "endpoint \<Rightarrow> int option"
  sn_listeners :: "endpoint \<Rightarrow> listener_endpoint option"

record list_options =
  lo_probe :: bool
  lo_prune_stale :: bool
  lo_manual_ports :: "int list"

text \<open>\<open>current_platform_process_entries\<close>: psutil, or the platform's own provider when psutil fails.\<close>

definition current_platform_process_entries ::
    "ps_process list option \<Rightarrow> ustr + tcp_connection list \<Rightarrow> process_entry list \<times> ustr list \<Rightarrow> process_scan" where
  "current_platform_process_entries processes connections fallback =
     (case psutil_process_entries processes connections of
        (entries, warnings, listeners) \<Rightarrow>
          if \<not> list_ex (\<lambda>w. contains w (lit ''psutil process provider'')) warnings
          then \<lparr>sn_entries = entries, sn_warnings = warnings, sn_listener_pids = (\<lambda>e. map_option le_pid (listeners e)), sn_listeners = listeners\<rparr>
          else \<lparr>sn_entries = fst fallback, sn_warnings = warnings @ snd fallback, sn_listener_pids = Map.empty, sn_listeners = Map.empty\<rparr>)"

definition prune_files :: "bool \<Rightarrow> (ustr \<times> instance_info) list \<Rightarrow> registry \<Rightarrow> registry" where
  "prune_files prune_stale registered files =
     fold (\<lambda>(path, i) files. if ii_stale i \<and> prune_stale then unregister_instance path files else files) registered files"

definition found_instances ::
    "discovery_env \<Rightarrow> list_options \<Rightarrow> instance_info list \<Rightarrow> serve_candidate list \<Rightarrow> instance_info list" where
  "found_instances env opts registered candidates =
     (case probe_process_candidates env candidates (active_endpoint_keys registered) of
        (process_infos, seen_endpoints) \<Rightarrow>
          registered @ process_infos @
          probe_manual_ports env (lo_manual_ports opts) (seen_endpoints \<union> set (map info_endpoint process_infos)))"

definition discover_local_instances ::
    "discovery_env \<Rightarrow> list_options \<Rightarrow> registry \<Rightarrow> process_scan option \<Rightarrow> (instance_info list \<times> ustr list \<times> registry) res" where
  "discover_local_instances env opts files scan =
     bind_res (read_instance_records (dx_args env) files) (\<lambda>stored.
     bind_res (case scan of None \<Rightarrow> Inr [] | Some s \<Rightarrow> discover_serve_processes env (sn_entries s) (sn_listeners s)) (\<lambda>candidates.
       let verified = set (map candidate_endpoint (filter sc_listener_pid_verified candidates));
           listener_pids = (case scan of None \<Rightarrow> Map.empty | Some s \<Rightarrow> sn_listener_pids s);
           registered = map (\<lambda>(path, r). (path, registry_info env (lo_probe opts) (lo_prune_stale opts) listener_pids verified r)) stored
       in bind_res (annotate_instance_notes env (found_instances env opts (map snd registered) candidates)) (\<lambda>infos.
            Inr (sort_key (\<lambda>i. (in_host (ii_record i), in_port (ii_record i), in_pid (ii_record i))) infos,
                 (case scan of None \<Rightarrow> [] | Some s \<Rightarrow> sn_warnings s),
                 prune_files (lo_prune_stale opts) registered files))))"

end
