(* ===== verification/Instances_Props.thy ===== *)
theory Instances_Props
  imports Instance_Listing "HOL-Library.Multiset"
begin

text \<open>
  Discovery of local servers: command lines are read as they were quoted, the registry returns what was registered,
  a listener belongs to the processes it descends from, and a listing shows what was probed.
\<close>

section \<open>Windows command lines\<close>

text \<open>
  The documented way to quote an argument: backslashes before a quote and at the end are doubled, and a quote
  is escaped by one more.
\<close>

fun windows_escaped :: "nat \<Rightarrow> ustr \<Rightarrow> ustr" where
  "windows_escaped n [] = replicate n 92"
| "windows_escaped n (c # s) =
     (if c = 92 then 92 # windows_escaped (Suc n) s
      else if c = 34 then replicate (Suc n) 92 @ 34 # windows_escaped 0 s
      else c # windows_escaped 0 s)"

definition windows_quoted :: "ustr \<Rightarrow> ustr" where
  "windows_quoted arg = 34 # windows_escaped 0 arg @ [34]"

lemma escaped_run: "windows_escaped n (replicate k 92 @ s) = replicate k 92 @ windows_escaped (n + k) s"
  by (induction k arbitrary: n) simp_all

lemma takeWhile_run: "rest = [] \<or> hd rest \<noteq> x \<Longrightarrow> takeWhile (\<lambda>d. d = x) (replicate k x @ rest) = replicate k x"
  by (induction k) (cases rest; simp)+

lemma dropWhile_run: "rest = [] \<or> hd rest \<noteq> x \<Longrightarrow> dropWhile (\<lambda>d. d = x) (replicate k x @ rest) = rest"
  by (induction k) (cases rest; simp)+

lemma windows_run_other:
  assumes "rest = [] \<or> hd rest \<noteq> 92" and "rest = [] \<or> hd rest \<noteq> 34"
  shows "windows_args (replicate (Suc k) 92 @ rest) current q had = windows_args rest (current @ replicate (Suc k) 92) q True"
  using assms by (subst replicate_Suc, subst append_Cons, subst windows_args.simps(2))
    (auto simp: takeWhile_run dropWhile_run Let_def)

lemma windows_run_quote:
  "windows_args (replicate (Suc k) 92 @ 34 # rest) current q had =
     windows_args rest (current @ replicate (Suc k div 2) 92 @ (if odd (Suc k) then [34] else [])) (if odd (Suc k) then q else \<not> q) True"
  by (subst replicate_Suc, subst append_Cons, subst windows_args.simps(2)) (simp add: takeWhile_run dropWhile_run Let_def)

lemma windows_plain:
  "windows_args (34 # rest) current q had = windows_args rest current (\<not> q) True"
  "c \<noteq> 34 \<Longrightarrow> c \<noteq> 92 \<Longrightarrow> windows_args (c # rest) current True had = windows_args rest (current @ [c]) True True"
  by (simp_all add: windows_args.simps(2))

lemma split_run: "\<exists>k s'. s = replicate k (92 :: nat) @ s' \<and> (s' = [] \<or> hd s' \<noteq> 92)"
proof (intro exI conjI)
  show "s = replicate (length (takeWhile (\<lambda>d. d = 92) s)) 92 @ dropWhile (\<lambda>d. d = 92) s"
    by (metis (mono_tags, lifting) replicate_length_same set_takeWhileD takeWhile_dropWhile_id)
  show "dropWhile (\<lambda>d. d = 92) s = [] \<or> hd (dropWhile (\<lambda>d. d = 92) s) \<noteq> 92"
    using hd_dropWhile [of "\<lambda>d. d = 92" s] by blast
qed

lemma windows_args_escaped:
  "windows_args (windows_escaped 0 s @ 34 # rest) current True True = windows_args rest (current @ s) False True"
proof (induction "length s" arbitrary: s current rule: less_induct)
  case less
  obtain k s' where s: "s = replicate k 92 @ s'" and no: "s' = [] \<or> hd s' \<noteq> 92" using split_run [of s] by blast
  show ?case
  proof (cases s')
    case Nil
    then have whole: "windows_escaped 0 s @ 34 # rest = replicate (k + k) 92 @ 34 # rest"
      using escaped_run [of 0 k "[]"] by (simp add: s replicate_add)
    show ?thesis
    proof (cases k)
      case 0
      then show ?thesis using Nil s by (simp add: windows_plain)
    next
      case (Suc j)
      show ?thesis unfolding whole using windows_run_quote [of "j + Suc j" rest current True True] Nil s Suc by simp
    qed
  next
    case (Cons c t)
    have IH: "\<And>current. windows_args (windows_escaped 0 t @ 34 # rest) current True True = windows_args rest (current @ t) False True"
      using less.hyps [of t] s Cons by simp
    have c: "c \<noteq> 92" using no Cons by simp
    show ?thesis
    proof (cases "c = 34")
      case True
      then have whole: "windows_escaped 0 s @ 34 # rest = replicate (Suc (k + k)) 92 @ 34 # windows_escaped 0 t @ 34 # rest"
        using escaped_run [of 0 k s'] c Cons by (simp add: s replicate_add replicate_app_Cons_same)
      have "windows_args (windows_escaped 0 s @ 34 # rest) current True True =
          windows_args (windows_escaped 0 t @ 34 # rest) (current @ replicate k 92 @ [34]) True True"
        unfolding whole using windows_run_quote [of "k + k" "windows_escaped 0 t @ 34 # rest" current True True] by simp
      then show ?thesis using IH s Cons True by simp
    next
      case False
      then have whole: "windows_escaped 0 s @ 34 # rest = replicate k 92 @ c # windows_escaped 0 t @ 34 # rest"
        using escaped_run [of 0 k s'] c Cons by (simp add: s)
      have "windows_args (replicate k 92 @ c # windows_escaped 0 t @ 34 # rest) current True True =
          windows_args (c # windows_escaped 0 t @ 34 # rest) (current @ replicate k 92) True True"
        using windows_run_other [of "c # windows_escaped 0 t @ 34 # rest" "k - 1" current True True] c False by (cases k) simp_all
      then show ?thesis unfolding whole using IH s Cons c False by (simp add: windows_plain)
    qed
  qed
qed

lemma windows_args_quoted:
  "windows_args (windows_quoted arg @ rest) [] False False = windows_args rest arg False True"
  by (simp add: windows_quoted_def windows_plain windows_args_escaped)

text \<open>
  C37: A Windows command line in which every argument is quoted the documented way is split into exactly these
  arguments, whatever blanks, quotes and backslashes they contain, empty arguments included.
\<close>

theorem windows_command_line_splits: "split_windows_command_line (join (lit '' '') (map windows_quoted args)) = args"
proof -
  have "windows_args (join [32] (map windows_quoted args)) [] False False = args"
  proof (induction args)
    case Nil
    then show ?case by simp
  next
    case (Cons a args)
    then show ?case
      using windows_args_quoted [of a "[]"] windows_args_quoted [of a "32 # join [32] (map windows_quoted args)"]
      by (cases args) (simp_all add: windows_args.simps(2))
  qed
  then show ?thesis by (simp add: split_windows_command_line_def lit_def)
qed

section \<open>The process that listens\<close>














section \<open>The registry\<close>

text \<open>A float is read back from JSON as it was written, and a record is one that a server makes of itself.\<close>

definition json_floats :: "discovery_env \<Rightarrow> bool" where
  "json_floats env \<longleftrightarrow> (\<forall>x. float_value_of (dx_args env) (dx_json_float env x) = Inr (Some x))"

definition proper_record :: "instance_record \<Rightarrow> bool" where
  "proper_record r \<longleftrightarrow> 0 < in_pid r \<and> port_ok (in_port r) \<and> in_url r \<noteq> []"

lemma record_read_back:
  assumes "json_floats env" and "proper_record r"
  shows "instance_record_from_payload (dx_args env) (record_payload env r) = Inr (Some r)"
proof -
  have get: "pget (record_payload env r) ''pid'' = PInt (in_pid r)" "pget (record_payload env r) ''port'' = PInt (in_port r)"
    "pget (record_payload env r) ''host'' = PStr (in_host r)" "pget (record_payload env r) ''root'' = PStr (in_root r)"
    "pget (record_payload env r) ''url'' = PStr (in_url r)" "pget (record_payload env r) ''source_id'' = PStr (in_source_id r)"
    "pget (record_payload env r) ''bundle_id'' = PStr (in_bundle_id r)" "pget (record_payload env r) ''adapter'' = PStr (in_adapter r)"
    "pget (record_payload env r) ''implementation'' = PStr (in_implementation r)"
    "pget (record_payload env r) ''page_count'' = PInt (in_page_count r)"
    "pget (record_payload env r) ''approved_page_count'' = PInt (in_approved_page_count r)"
    "pget (record_payload env r) ''started_at'' = PStr (in_started_at r)"
    "pget (record_payload env r) ''schema_version'' = PInt (in_schema_version r)"
    "pget (record_payload env r) ''process_create_time'' =
      (case in_process_create_time r of None \<Rightarrow> PNone | Some x \<Rightarrow> dx_json_float env x)"
    by (simp_all add: pget_def dict_get_def record_payload_def lit_def)
  have texts: "text_value (dx_args env) (record_payload env r) key other = (if s = [] then other else s)"
    if "pget (record_payload env r) key = PStr s" for key s other
    using that by (simp add: text_value_def por_def)
  have created: "float_value_of (dx_args env) (case in_process_create_time r of None \<Rightarrow> PNone | Some x \<Rightarrow> dx_json_float env x) =
      Inr (in_process_create_time r)"
    using assms(1) by (cases "in_process_create_time r") (simp_all add: json_floats_def float_value_of_def)
  show ?thesis using assms(2) created
    by (simp add: instance_record_from_payload_def get texts [OF get(3)] texts [OF get(4)] texts [OF get(5)] texts [OF get(6)]
        texts [OF get(7)] texts [OF get(8)] texts [OF get(9)] texts [OF get(12)] int_value_def proper_record_def)
qed

lemma end_digits:
  assumes "a @ [45] @ d = b @ [45] @ e" and "45 \<notin> set d" and "45 \<notin> set e"
  shows "d = (e :: ustr)"
proof -
  have "takeWhile (\<lambda>c. c \<noteq> 45) (rev d @ 45 # rev a) = rev d" using assms(2) by (subst takeWhile_append2) auto
  moreover have "takeWhile (\<lambda>c. c \<noteq> 45) (rev e @ 45 # rev b) = rev e" using assms(3) by (subst takeWhile_append2) auto
  moreover have "rev d @ 45 # rev a = rev e @ 45 # rev b" using arg_cong [OF assms(1), of rev] by simp
  ultimately show ?thesis by simp
qed

lemma filename_form:
  assumes "0 < in_pid r"
  shows "\<exists>p. instance_record_filename r = p @ [45] @ nat_str (nat (in_pid r)) @ lit ''.json''"
proof -
  define host where "host = option_text (strip_chars (lit ''_'')
    (sub_runs (\<lambda>c. \<not> (ascii_alnum c \<or> c = 95 \<or> c = 46 \<or> c = 45)) (lit ''_'') False (in_host r))) (lit ''host'')"
  have "instance_record_filename r = (host @ lit ''-'' @ int_str (in_port r)) @ [45] @ nat_str (nat (in_pid r)) @ lit ''.json''"
    using assms by (simp add: instance_record_filename_def Let_def host_def int_str_def lit_def)
  then show ?thesis by blast
qed

lemma filename_names_pid:
  assumes "instance_record_filename r = instance_record_filename s" and "0 < in_pid r" and "0 < in_pid s"
  shows "in_pid r = in_pid s"
proof -
  have digits: "45 \<notin> set (nat_str n)" for n using nat_str_digits [of 45 n] by auto
  obtain p q where "instance_record_filename r = p @ [45] @ nat_str (nat (in_pid r)) @ lit ''.json''"
    "instance_record_filename s = q @ [45] @ nat_str (nat (in_pid s)) @ lit ''.json''"
    using filename_form assms(2,3) by blast
  then have "(p @ [45] @ nat_str (nat (in_pid r))) @ lit ''.json'' = (q @ [45] @ nat_str (nat (in_pid s))) @ lit ''.json''"
    using assms(1) by simp
  then have "p @ [45] @ nat_str (nat (in_pid r)) = q @ [45] @ nat_str (nat (in_pid s))" by (subst (asm) append_same_eq)
  then have "nat_str (nat (in_pid r)) = nat_str (nat (in_pid s))" by (rule end_digits [OF _ digits digits])
  then have "nat (in_pid r) = nat (in_pid s)" by (rule nat_str_inj)
  then show ?thesis using assms(2,3) by simp
qed

lemma filename_json: "0 < in_pid r \<Longrightarrow> ends_with (instance_record_filename r) (lit ''.json'')"
  using filename_form [of r] by (auto simp: ends_with_iff)

lemma map_res_each: "map_res f xs = Inr ys \<Longrightarrow> \<forall>x\<in>set xs. \<exists>y\<in>set ys. f x = Inr y"
  by (induction xs arbitrary: ys) (auto simp: bind_res_Inr)

lemma map_res_sort:
  assumes "map_res f (sort_key k xs) = Inr ys"
  shows "\<forall>x\<in>set xs. \<exists>y\<in>set ys. f x = Inr y"
  using map_res_each [OF assms] by simp

lemma map_res_back: "map_res f xs = Inr ys \<Longrightarrow> y \<in> set ys \<Longrightarrow> \<exists>x\<in>set xs. f x = Inr y"
  by (induction xs arbitrary: ys) (auto simp: bind_res_Inr)

text \<open>What is read: the records of the JSON files, each under the name of its file.\<close>

lemma records_read:
  assumes "read_instance_records env files = Inr records"
  shows "(p, x) \<in> set records \<longleftrightarrow>
    (\<exists>content. (p, content) \<in> set files \<and> ends_with p (lit ''.json'') \<and> stored_record env (p, content) = Inr [(p, x)])"
    and "(p, content) \<in> set files \<Longrightarrow> ends_with p (lit ''.json'') \<Longrightarrow> \<exists>rs. stored_record env (p, content) = Inr rs"
proof -
  let ?files = "sort_key fst (filter (\<lambda>(name, content). ends_with name (lit ''.json'')) files)"
  obtain rss where rss: "map_res (stored_record env) ?files = Inr rss" "records = concat rss"
    using assms by (auto simp: read_instance_records_def bind_res_Inr)
  have names: "stored_record env (n, c) = Inr rs \<Longrightarrow> (p, x) \<in> set rs \<Longrightarrow> p = n \<and> rs = [(p, x)]" for n c rs p x
    by (auto simp: stored_record_def bind_res_Inr split: registry_file.splits pyval.splits option.splits)
  show "(p, content) \<in> set files \<Longrightarrow> ends_with p (lit ''.json'') \<Longrightarrow> \<exists>rs. stored_record env (p, content) = Inr rs"
    using map_res_sort [OF rss(1)] by auto
  show "(p, x) \<in> set records \<longleftrightarrow>
    (\<exists>content. (p, content) \<in> set files \<and> ends_with p (lit ''.json'') \<and> stored_record env (p, content) = Inr [(p, x)])"
  proof
    assume "(p, x) \<in> set records"
    then obtain rs where rs: "rs \<in> set rss" "(p, x) \<in> set rs" unfolding rss(2) by auto
    obtain f where f: "f \<in> set ?files" "stored_record env f = Inr rs"
      using map_res_back [OF rss(1) rs(1)] by blast
    obtain n c where nc: "f = (n, c)" by (rule prod.exhaust)
    have "f \<in> set (filter (\<lambda>(name, content). ends_with name (lit ''.json'')) files)" using f(1) by (simp only: set_sort)
    then show "\<exists>content. (p, content) \<in> set files \<and> ends_with p (lit ''.json'') \<and> stored_record env (p, content) = Inr [(p, x)]"
      using names [of n c rs p x] rs(2) f(2) unfolding nc by auto
  next
    assume "\<exists>content. (p, content) \<in> set files \<and> ends_with p (lit ''.json'') \<and> stored_record env (p, content) = Inr [(p, x)]"
    then obtain content where content: "(p, content) \<in> set files" "ends_with p (lit ''.json'')"
      "stored_record env (p, content) = Inr [(p, x)]" by blast
    then show "(p, x) \<in> set records" using map_res_sort [OF rss(1)] unfolding rss(2) by force
  qed
qed

lemma readable:
  assumes "\<And>p content. (p, content) \<in> set files \<Longrightarrow> ends_with p (lit ''.json'') \<Longrightarrow> \<exists>rs. stored_record env (p, content) = Inr rs"
  shows "\<exists>records. read_instance_records env files = Inr records"
proof -
  have "\<exists>ys. map_res f xs = Inr ys" if "\<forall>x\<in>set xs. \<exists>y. f x = Inr y" for f :: "ustr \<times> registry_file \<Rightarrow> (ustr \<times> instance_record) list res" and xs
    using that by (induction xs) (auto simp: bind_res_Inr)
  from this [of "sort_key fst (filter (\<lambda>(name, content). ends_with name (lit ''.json'')) files)" "stored_record env"]
  show ?thesis using assms by (auto simp: read_instance_records_def)
qed

text \<open>A registry in which every record lies in the file that is named after it.\<close>

definition registry_named :: "api_env \<Rightarrow> registry \<Rightarrow> bool" where
  "registry_named env files \<longleftrightarrow> distinct (map fst files) \<and>
     (case read_instance_records env files of
        Inl e \<Rightarrow> False
      | Inr records \<Rightarrow> list_all (\<lambda>(p, s). p = instance_record_filename s) records)"

definition replaced_by :: "instance_record \<Rightarrow> instance_record \<Rightarrow> bool" where
  "replaced_by r s \<longleftrightarrow> in_pid s = in_pid r \<or> in_host s = in_host r \<and> in_port s = in_port r"

lemma cleaned_files:
  "map_of (fold (\<lambda>(path, s) files. if P s then unregister_instance path files else files) records files) p =
     (if \<exists>s. (p, s) \<in> set records \<and> P s then None else map_of files p)"
  "distinct (map fst files) \<Longrightarrow>
     distinct (map fst (fold (\<lambda>(path, s) files. if P s then unregister_instance path files else files) records files))"
  by (induction records arbitrary: files) (auto simp: unregister_instance_def delete_conv' distinct_delete)

lemma stored_pid: "stored_record env (p, content) = Inr [(p, x)] \<Longrightarrow> 0 < in_pid x"
  by (auto simp: stored_record_def instance_record_from_payload_def bind_res_Inr Let_def
      split: registry_file.splits pyval.splits option.splits if_splits)

lemma register_instance_reads:
  assumes "json_floats env" and "proper_record r" and "registry_named (dx_args env) files"
  shows "\<exists>files' records records'. register_instance env r files = Inr files' \<and>
    read_instance_records (dx_args env) files = Inr records \<and> read_instance_records (dx_args env) files' = Inr records' \<and>
    registry_named (dx_args env) files' \<and>
    set records' = insert (instance_record_filename r, r) {(p, s) \<in> set records. \<not> replaced_by r s}"
proof -
  let ?env = "dx_args env" and ?name = "instance_record_filename r"
  obtain records where read: "read_instance_records ?env files = Inr records"
    and named: "\<forall>(p, s)\<in>set records. p = instance_record_filename s" and names: "distinct (map fst files)"
    using assms(3) by (auto simp: registry_named_def list_all_iff split: sum.splits)
  define kept where "kept = fold (\<lambda>(path, s) files. if replaced_by r s then unregister_instance path files else files) records files"
  define new where "new = Json_file (PDict (record_payload env r))"
  define files' where "files' = AList.update ?name new kept"
  have run: "register_instance env r files = Inr files'"
    using read by (simp add: register_instance_def cleanup_replaced_records_def replaced_by_def kept_def new_def files'_def)
  have kept_map: "map_of kept p = (if \<exists>s. (p, s) \<in> set records \<and> replaced_by r s then None else map_of files p)" for p
    unfolding kept_def by (rule cleaned_files(1))
  have kept_names: "distinct (map fst kept)" unfolding kept_def by (rule cleaned_files(2) [OF names])
  have names': "distinct (map fst files')" unfolding files'_def using kept_names by (rule distinct_update)
  have held: "(p, c) \<in> set files \<longleftrightarrow> map_of files p = Some c" for p c using names by (rule map_of_eq_Some_iff [symmetric])
  have held': "(p, c) \<in> set files' \<longleftrightarrow> (if p = ?name then c = new else map_of kept p = Some c)" for p c
    using map_of_eq_Some_iff [OF names', of p c, symmetric] by (auto simp: files'_def)
  have stored: "stored_record ?env (?name, new) = Inr [(?name, r)]"
    using record_read_back [OF assms(1,2)] by (simp add: stored_record_def new_def)
  have "\<exists>rs. stored_record ?env (p, c) = Inr rs" if "(p, c) \<in> set files'" "ends_with p (lit ''.json'')" for p c
    using that stored records_read(2) [OF read, of p c] by (auto simp: held' kept_map held split: if_splits)
  then obtain records' where read': "read_instance_records ?env files' = Inr records'" using readable by blast
  have own: "(p, x) \<in> set records' \<longleftrightarrow> x = r" if "p = ?name" for p x
    using records_read(1) [OF read', of p x] stored filename_json [of r] assms(2) that
    by (auto simp: held' proper_record_def)
  have other: "(p, x) \<in> set records' \<longleftrightarrow> (p, x) \<in> set records \<and> \<not> replaced_by r x" if "p \<noteq> ?name" for p x
  proof -
    have "(p, x) \<in> set records' \<longleftrightarrow> (\<exists>c. map_of kept p = Some c \<and> ends_with p (lit ''.json'') \<and> stored_record ?env (p, c) = Inr [(p, x)])"
      using records_read(1) [OF read', of p x] that by (simp add: held')
    also have "\<dots> \<longleftrightarrow> (p, x) \<in> set records \<and> \<not> (\<exists>s. (p, s) \<in> set records \<and> replaced_by r s)"
      using records_read(1) [OF read, of p x] by (auto simp: kept_map held)
    also have "\<dots> \<longleftrightarrow> (p, x) \<in> set records \<and> \<not> replaced_by r x"
      using records_read(1) [OF read, of p] by (auto simp: held)
    finally show ?thesis .
  qed
  have elsewhere: "p \<noteq> ?name" if "(p, x) \<in> set records" "\<not> replaced_by r x" for p x
  proof
    assume "p = ?name"
    moreover have "p = instance_record_filename x" using named that(1) by blast
    moreover have "0 < in_pid x" using records_read(1) [OF read, of p x] that(1) stored_pid by blast
    ultimately have "in_pid x = in_pid r" using filename_names_pid [of x r] assms(2) by (simp add: proper_record_def)
    then show False using that(2) by (simp add: replaced_by_def)
  qed
  have records': "set records' = insert (?name, r) {(p, s) \<in> set records. \<not> replaced_by r s}"
  proof (rule set_eqI)
    fix px :: "ustr \<times> instance_record"
    obtain p x where px: "px = (p, x)" by (rule prod.exhaust)
    show "px \<in> set records' \<longleftrightarrow> px \<in> insert (?name, r) {(p, s) \<in> set records. \<not> replaced_by r s}"
      unfolding px using own [of p x] other [of p x] elsewhere [of p x] by auto
  qed
  have "registry_named ?env files'" using names' read' named records' by (auto simp: registry_named_def list_all_iff)
  then show ?thesis using run read read' records' by blast
qed

section \<open>The listing\<close>

text \<open>An instance that may have got more notes.\<close>

definition annotated :: "instance_info \<Rightarrow> instance_info \<Rightarrow> bool" where
  "annotated i j \<longleftrightarrow> (\<exists>notes. j = i\<lparr>ii_notes := notes\<rparr>) \<and> set (ii_notes i) \<subseteq> set (ii_notes j)"

lemma annotated_refl [simp]: "annotated i i"
  by (auto simp: annotated_def intro: exI [of _ "ii_notes i"])

lemma annotated_trans [trans]: "annotated i j \<Longrightarrow> annotated j k \<Longrightarrow> annotated i k"
  by (auto simp: annotated_def)

lemma annotated_note [simp]: "annotated i (append_note note i)"
  by (auto simp: annotated_def append_note_def intro: exI [of _ "ii_notes i"])

lemma note_pair_annotates: "note_pair env a b = (a', b') \<Longrightarrow> annotated (fst a) (fst a') \<and> annotated (fst b) (fst b')"
  by (auto simp: note_pair_def split: option.splits if_splits)

lemma note_pairs_annotate:
  "annotated (fst a) (fst (fst (note_pairs_of env a bs))) \<and>
   list_all2 (\<lambda>b b'. annotated (fst b) (fst b')) bs (snd (note_pairs_of env a bs))"
proof (induction bs arbitrary: a)
  case Nil
  then show ?case by simp
next
  case (Cons b bs)
  obtain a' b' where pair: "note_pair env a b = (a', b')" by (rule prod.exhaust)
  obtain a'' bs' where rest: "note_pairs_of env a' bs = (a'', bs')" by (rule prod.exhaust)
  show ?case using Cons [of a'] note_pair_annotates [OF pair] pair rest by (auto intro: annotated_trans)
qed

lemma list_all2_annotated_trans:
  assumes "list_all2 (\<lambda>a b. annotated (fst a) (fst b)) xs ys" and "list_all2 (\<lambda>a b. annotated (fst a) (fst b)) ys zs"
  shows "list_all2 (\<lambda>a b. annotated (fst a) (fst b)) xs zs"
  by (rule list_all2_trans [OF _ assms]) (rule annotated_trans)

lemma note_all_pairs_annotate: "list_all2 (\<lambda>a b. annotated (fst a) (fst b)) is (note_all_pairs env is)"
proof (induction env "is" rule: note_all_pairs.induct)
  case (1 env)
  then show ?case by simp
next
  case (2 env a bs)
  have "list_all2 (\<lambda>a b. annotated (fst a) (fst b)) bs (note_all_pairs env (snd (note_pairs_of env a bs)))"
    using note_pairs_annotate [of a env bs] by (intro list_all2_annotated_trans [OF _ 2]) simp
  then show ?case using note_pairs_annotate [of a env bs] by simp
qed

lemma note_groups_annotate: "list_all2 (\<lambda>a b. annotated (fst a) (fst b)) is (note_groups note key is)"
  by (auto simp: note_groups_def list_all2_map2 list_all2_same)

lemma put_active_annotates:
  "list_all2 annotated (filter (\<lambda>i. \<not> ii_stale i) infos) active \<Longrightarrow> list_all2 annotated infos (put_active infos active)"
  by (induction infos active rule: put_active.induct) (auto simp: list_all2_Cons1 list_all2_refl split: list.splits)

lemma annotate_only_notes:
  assumes "annotate_instance_notes env infos = Inr infos'"
  shows "list_all2 annotated infos infos'"
proof -
  let ?active = "filter (\<lambda>i. \<not> ii_stale i) infos"
  obtain roots where roots: "map_res (\<lambda>i. resolved_root env (in_root (ii_record i))) ?active = Inr roots"
    and infos': "infos' = put_active infos (map fst (note_all_pairs env
             (note_groups ''same-root'' (\<lambda>i. normalized_root_key env (snd i))
               (note_groups ''duplicate-bundle'' (\<lambda>i. in_bundle_id (ii_record (fst i))) (zip ?active roots)))))"
    using assms by (auto simp: annotate_instance_notes_def Let_def bind_res_Inr)
  have "length roots = length ?active" using roots by (auto simp: map_res_Inr dest: list_all2_lengthD)
  then have active: "map fst (zip ?active roots) = ?active" by simp
  have "list_all2 (\<lambda>a b. annotated (fst a) (fst b)) (zip ?active roots) (note_all_pairs env
             (note_groups ''same-root'' (\<lambda>i. normalized_root_key env (snd i))
               (note_groups ''duplicate-bundle'' (\<lambda>i. in_bundle_id (ii_record (fst i))) (zip ?active roots))))"
    by (rule list_all2_annotated_trans [OF list_all2_annotated_trans [OF note_groups_annotate note_groups_annotate] note_all_pairs_annotate])
  then have "list_all2 annotated (map fst (zip ?active roots)) (map fst (note_all_pairs env
             (note_groups ''same-root'' (\<lambda>i. normalized_root_key env (snd i))
               (note_groups ''duplicate-bundle'' (\<lambda>i. in_bundle_id (ii_record (fst i))) (zip ?active roots)))))"
    by (simp add: list_all2_map1 list_all2_map2)
  then show ?thesis unfolding infos' active by (rule put_active_annotates)
qed

text \<open>An instance up to its notes.\<close>

definition core :: "instance_info \<Rightarrow> instance_info" where
  "core i = i\<lparr>ii_notes := []\<rparr>"

lemma core_fields [simp]:
  "ii_record (core i) = ii_record i" "ii_status (core i) = ii_status i" "ii_healthy (core i) = ii_healthy i"
  "ii_stale (core i) = ii_stale i" "ii_pruned (core i) = ii_pruned i" "ii_registered (core i) = ii_registered i"
  "ii_orphan (core i) = ii_orphan i" "ii_service_verified (core i) = ii_service_verified i"
  "ii_discovery_source (core i) = ii_discovery_source i" "info_endpoint (core i) = info_endpoint i"
  by (simp_all add: core_def info_endpoint_def)

lemma annotated_core: "list_all2 annotated xs ys \<Longrightarrow> map core ys = map core xs"
  by (induction rule: list_all2_induct) (auto simp: annotated_def core_def)

lemma core_image:
  assumes "mset (map core ys) = mset (map core xs)" and "\<And>i. P (core i) = P i"
  shows "(\<forall>i\<in>set ys. P i) \<longleftrightarrow> (\<forall>i\<in>set xs. P i)"
proof -
  have "core ` set ys = core ` set xs" using arg_cong [OF assms(1), of set_mset] by simp
  then have "(\<forall>i\<in>core ` set ys. P i) \<longleftrightarrow> (\<forall>i\<in>core ` set xs. P i)" by simp
  then show ?thesis by (simp add: assms(2))
qed

lemma core_filtered:
  assumes "mset (map core ys) = mset (map core xs)" and "\<And>i. P (core i) = P i" and "\<And>i. f (core i) = f i"
  shows "mset (map f (filter P ys)) = mset (map f (filter P xs))"
proof -
  have "mset (map f (filter P zs)) = image_mset f (filter_mset P (mset (map core zs)))" for zs :: "instance_info list"
    by (induction zs) (simp_all add: assms(2,3))
  then show ?thesis using assms(1) by simp
qed

text \<open>What an instance says of itself is so.\<close>

definition truthful :: "discovery_env \<Rightarrow> bool \<Rightarrow> instance_info \<Rightarrow> bool" where
  "truthful env prune_stale i \<longleftrightarrow>
     ii_healthy i = (ii_status i = Healthy) \<and> ii_service_verified i = ii_healthy i \<and>
     (if ii_healthy i then probe_llmwiki_health env (ii_record i) \<noteq> None else True) \<and>
     ii_stale i = (ii_status i = Stale) \<and> ii_pruned i = (ii_stale i \<and> prune_stale) \<and>
     ii_orphan i = (\<not> ii_registered i) \<and> ii_registered i = (ii_discovery_source i = From_registry) \<and>
     (if ii_stale i then ii_registered i else True)"

lemma probe_by_address:
  "in_host r = in_host s \<Longrightarrow> in_port r = in_port s \<Longrightarrow> probe_llmwiki_health env r = probe_llmwiki_health env s"
  by (simp add: probe_llmwiki_health_def probe_llmwiki_health_outcome_def health_url_def probe_base_url_def)

lemma registry_info_truthful: "truthful env prune (registry_info env probe prune pids verified r)"
proof -
  have "probe_llmwiki_health env (with_health (dx_args env) source s) = probe_llmwiki_health env s" for source s
    by (rule probe_by_address) (simp_all add: with_health_def)
  then show ?thesis by (auto simp: truthful_def registry_info_def Let_def split: option.splits)
qed

lemma failure_truthful: "truthful env prune (process_candidate_info_from_failure c reason)"
  by (simp add: truthful_def process_candidate_info_from_failure_def)

lemma outcome_truthful:
  assumes "process_candidate_info_from_outcome env c (candidate_outcome env c) = Some i"
  shows "truthful env prune i"
proof (cases "candidate_outcome env c")
  case (Health_failure reason)
  then show ?thesis using assms failure_truthful by (auto simp: process_candidate_info_from_outcome_def split: if_splits)
next
  case (Health_result source version)
  have "probe_llmwiki_health env (record_from_health (dx_args env) (sc_pid c) (process_probe_host c) (sc_port c) (sc_root c) source) =
      probe_llmwiki_health env (process_probe_record c)"
    by (rule probe_by_address) (simp_all add: record_from_health_def probe_record_def process_probe_record_def)
  moreover have "probe_llmwiki_health env (process_probe_record c) \<noteq> None"
    using Health_result by (auto simp: candidate_outcome_def probe_llmwiki_health_def split: if_splits)
  ultimately show ?thesis using assms Health_result by (auto simp: process_candidate_info_from_outcome_def truthful_def)
qed

lemma outcome_fields:
  assumes "process_candidate_info_from_outcome env c outcome = Some i"
  shows "in_pid (ii_record i) = sc_pid c \<and> in_port (ii_record i) = sc_port c \<and> in_host (ii_record i) = process_probe_host c \<and>
    in_root (ii_record i) = sc_root c \<and> ii_discovery_source i = From_process \<and> \<not> ii_stale i"
  using assms by (auto simp: process_candidate_info_from_outcome_def process_candidate_info_from_failure_def
      process_probe_record_def record_from_health_def probe_record_def split: health_outcome.splits if_splits)

definition unprobed_of :: "serve_candidate list \<Rightarrow> endpoint set \<Rightarrow> instance_info \<Rightarrow> bool" where
  "unprobed_of cs seen i \<longleftrightarrow> (\<exists>c\<in>set cs. candidate_endpoint c \<notin> seen \<and>
     i = process_candidate_info_from_failure c ''health-local-listener-unverified'')"

lemma unprobed_of_mono: "unprobed_of cs seen i \<Longrightarrow> unprobed_of (c # cs) seen i"
  "unprobed_of cs (insert e seen) i \<Longrightarrow> unprobed_of cs seen i"
  by (auto simp: unprobed_of_def)

lemma unprobed_here:
  "candidate_endpoint c \<notin> seen \<Longrightarrow>
   unprobed_of (c # cs) seen (process_candidate_info_from_failure c ''health-local-listener-unverified'')"
  by (auto simp: unprobed_of_def)

lemma unprobed:
  assumes "unprobed_candidates cs seen = (infos, pending, seen')"
  shows "(\<forall>i\<in>set infos. unprobed_of cs seen i) \<and> (\<forall>c\<in>set pending. c \<in> set cs \<and> candidate_endpoint c \<notin> seen)"
  using assms
proof (induction cs arbitrary: seen infos pending seen')
  case Nil
  then show ?case by simp
next
  case (Cons c cs)
  obtain infos1 pending1 seen1 where skip: "unprobed_candidates cs seen = (infos1, pending1, seen1)" by (rule prod_cases3)
  obtain infos2 pending2 seen2 where listed: "unprobed_candidates cs (insert (candidate_endpoint c) seen) = (infos2, pending2, seen2)"
    by (rule prod_cases3)
  note skipped = Cons.IH [OF skip] and rest = Cons.IH [OF listed]
  consider "candidate_endpoint c \<in> seen" | "candidate_endpoint c \<notin> seen" "sc_probe_host c = []"
    | "candidate_endpoint c \<notin> seen" "sc_probe_host c \<noteq> []" by blast
  then show ?case
  proof cases
    case 1
    then have "infos = infos1" "pending = pending1" using Cons.prems skip by simp_all
    then show ?thesis using skipped unprobed_of_mono(1) by simp
  next
    case 2
    then have "infos = process_candidate_info_from_failure c ''health-local-listener-unverified'' # infos2" "pending = pending2"
      using Cons.prems listed by simp_all
    moreover have "\<forall>i\<in>set infos2. unprobed_of (c # cs) seen i"
      using rest unprobed_of_mono(1) [OF unprobed_of_mono(2)] by blast
    ultimately show ?thesis using rest unprobed_here [OF 2(1)] by simp
  next
    case 3
    then have "infos = infos1" "pending = c # pending1" using Cons.prems skip by simp_all
    then show ?thesis using skipped 3 unprobed_of_mono(1) by simp
  qed
qed

text \<open>A process that is listed is a candidate for an endpoint that no registered server is active at.\<close>

definition from_candidate :: "serve_candidate list \<Rightarrow> endpoint set \<Rightarrow> instance_info \<Rightarrow> bool" where
  "from_candidate candidates taken i \<longleftrightarrow>
     (\<exists>c\<in>set candidates. candidate_endpoint c \<notin> taken \<and> in_pid (ii_record i) = sc_pid c \<and> in_port (ii_record i) = sc_port c \<and>
        in_host (ii_record i) = process_probe_host c \<and> in_root (ii_record i) = sc_root c)"

lemma process_infos:
  assumes "probe_process_candidates env candidates taken = (infos, seen)" and "i \<in> set infos"
  shows "truthful env prune i \<and> from_candidate candidates taken i \<and> ii_discovery_source i = From_process \<and> \<not> ii_stale i"
proof -
  obtain infos1 pending seen1 where first: "unprobed_candidates candidates taken = (infos1, pending, seen1)" by (rule prod_cases3)
  have infos: "infos = infos1 @ map snd (probed_infos env pending)" using assms(1) first by (simp add: probe_process_candidates_def)
  show ?thesis
  proof (cases "i \<in> set infos1")
    case True
    then obtain c where c: "c \<in> set candidates" "candidate_endpoint c \<notin> taken"
      "i = process_candidate_info_from_failure c ''health-local-listener-unverified''"
      using unprobed [OF first] unfolding unprobed_of_def by blast
    have "from_candidate candidates taken i" unfolding from_candidate_def
      by (rule bexI [OF _ c(1)]) (simp add: c(2,3) process_candidate_info_from_failure_def process_probe_record_def probe_record_def)
    then show ?thesis unfolding c(3) using failure_truthful by (simp add: process_candidate_info_from_failure_def)
  next
    case False
    then have "i \<in> snd ` set (probed_infos env pending)" using assms(2) by (simp add: infos)
    then obtain c where c: "c \<in> set pending" "process_candidate_info_from_outcome env c (candidate_outcome env c) = Some i"
      by (auto simp: probed_infos_def split: option.splits)
    then have open': "c \<in> set candidates" "candidate_endpoint c \<notin> taken" using unprobed [OF first] by blast+
    have "from_candidate candidates taken i" unfolding from_candidate_def
      by (rule bexI [OF _ open'(1)]) (simp add: open'(2) outcome_fields [OF c(2)])
    then show ?thesis using outcome_truthful [OF c(2)] outcome_fields [OF c(2)] by simp
  qed
qed

text \<open>A port that is probed by hand is listed once, and only if nothing else is listed there.\<close>

definition by_hand :: "instance_info \<Rightarrow> bool" where
  "by_hand i \<longleftrightarrow> ii_discovery_source i = From_manual_probe"

lemma manual_infos:
  "(\<forall>i\<in>set (probe_manual_ports env ports seen). truthful env prune i \<and> by_hand i \<and> info_endpoint i \<notin> seen) \<and>
   distinct (map info_endpoint (probe_manual_ports env ports seen))"
proof (induction ports arbitrary: seen)
  case Nil
  then show ?case by simp
next
  case (Cons port ports)
  let ?e = "endpoint_key MANUAL_PROBE_HOST port"
  show ?case
  proof (cases "\<not> port_ok port \<or> ?e \<in> seen \<or> probe_llmwiki_health env (probe_record UNKNOWN_PID MANUAL_PROBE_HOST port []) = None")
    case True
    then have "probe_manual_ports env (port # ports) seen = probe_manual_ports env ports seen" by (auto simp: Let_def)
    then show ?thesis using Cons.IH [of seen] by simp
  next
    case False
    then obtain source version where health: "probe_llmwiki_health env (probe_record UNKNOWN_PID MANUAL_PROBE_HOST port []) = Some (source, version)"
      by auto
    obtain i where i: "probe_manual_ports env (port # ports) seen = i # probe_manual_ports env ports (insert ?e seen)"
      and fields: "ii_record i = record_from_health (dx_args env) UNKNOWN_PID MANUAL_PROBE_HOST port [] source" "ii_status i = Healthy"
        "ii_healthy i" "\<not> ii_stale i" "\<not> ii_pruned i" "\<not> ii_registered i" "ii_orphan i" "ii_service_verified i"
        "ii_discovery_source i = From_manual_probe"
      using False health by (simp add: Let_def)
    have address: "in_host (ii_record i) = MANUAL_PROBE_HOST" "in_port (ii_record i) = port"
      by (simp_all add: fields record_from_health_def probe_record_def)
    then have "probe_llmwiki_health env (ii_record i) = probe_llmwiki_health env (probe_record UNKNOWN_PID MANUAL_PROBE_HOST port [])"
      by (intro probe_by_address) (simp_all add: probe_record_def)
    then have "truthful env prune i" using health fields by (simp add: truthful_def)
    moreover have "info_endpoint i = ?e" by (simp add: info_endpoint_def address)
    moreover have "by_hand i" by (simp add: by_hand_def fields)
    ultimately show ?thesis unfolding i using False Cons.IH [of "insert ?e seen"] by auto
  qed
qed

text \<open>The process of a record is not running, or its number is that of a later process.\<close>

definition gone :: "discovery_env \<Rightarrow> instance_record \<Rightarrow> bool" where
  "gone env r \<longleftrightarrow> \<not> process_is_running env (in_pid r) \<or> pid_reused env r"

definition address :: "instance_record \<Rightarrow> ustr \<times> int \<times> ustr \<times> ustr" where
  "address r = (in_host r, in_port r, in_root r, in_started_at r)"

definition listing_ok :: "discovery_env \<Rightarrow> list_options \<Rightarrow> (ustr \<times> instance_record) list \<Rightarrow> serve_candidate list \<Rightarrow> instance_info list \<Rightarrow> bool" where
  "listing_ok env opts records candidates infos \<longleftrightarrow>
     (let active = {i \<in> set infos. \<not> ii_stale i}
      in (\<forall>i\<in>set infos. truthful env (lo_prune_stale opts) i) \<and>
         mset (map (\<lambda>i. (address (ii_record i), ii_stale i)) (filter ii_registered infos)) =
           mset (map (\<lambda>(path, r). (address r, gone env r)) records) \<and>
         (\<forall>i\<in>set infos. ii_discovery_source i = From_process \<longrightarrow>
            from_candidate candidates (info_endpoint ` {j \<in> active. ii_registered j}) i) \<and>
         distinct (map info_endpoint (filter by_hand infos)) \<and>
         (\<forall>i\<in>set infos. by_hand i \<longrightarrow> info_endpoint i \<notin> info_endpoint ` {j \<in> active. \<not> by_hand j}))"

lemma registered_fields:
  "ii_registered (registry_info env probe prune pids verified r)"
  "ii_stale (registry_info env probe prune pids verified r) = gone env r"
  "ii_discovery_source (registry_info env probe prune pids verified r) = From_registry"
  "address (ii_record (registry_info env probe prune pids verified r)) = address r"
  by (auto simp: registry_info_def gone_def Let_def address_def with_health_def split: option.splits)

lemma truthful_source: "truthful env prune i \<Longrightarrow> ii_registered i = (ii_discovery_source i = From_registry)"
  by (simp add: truthful_def)

lemma unprobed_seen: "unprobed_candidates cs seen = (infos, pending, seen') \<Longrightarrow> seen \<subseteq> seen'"
proof (induction cs arbitrary: seen infos pending seen')
  case Nil
  then show ?case by simp
next
  case (Cons c cs)
  obtain infos1 pending1 seen1 where skip: "unprobed_candidates cs seen = (infos1, pending1, seen1)" by (rule prod_cases3)
  obtain infos2 pending2 seen2 where listed: "unprobed_candidates cs (insert (candidate_endpoint c) seen) = (infos2, pending2, seen2)"
    by (rule prod_cases3)
  have "seen' = seen1 \<or> seen' = seen2" using Cons.prems skip listed by (auto split: if_splits)
  then show ?case using Cons.IH [OF skip] Cons.IH [OF listed] by blast
qed

lemma probed_seen:
  assumes "probe_process_candidates env candidates taken = (infos, seen)"
  shows "taken \<subseteq> seen"
proof -
  obtain infos1 pending seen1 where first: "unprobed_candidates candidates taken = (infos1, pending, seen1)" by (rule prod_cases3)
  then have "seen1 \<subseteq> seen" using assms by (auto simp: probe_process_candidates_def)
  then show ?thesis using unprobed_seen [OF first] by blast
qed

lemma found_ok:
  fixes records :: "(ustr \<times> instance_record) list"
  assumes "registered = map (\<lambda>(path, r). registry_info env probe (lo_prune_stale opts) pids verified r) records"
  shows "listing_ok env opts records candidates (found_instances env opts registered candidates)"
proof -
  obtain infos seen where infos: "probe_process_candidates env candidates (active_endpoint_keys registered) = (infos, seen)"
    by (rule prod.exhaust)
  define manual where "manual = probe_manual_ports env (lo_manual_ports opts) (seen \<union> set (map info_endpoint infos))"
  let ?prune = "lo_prune_stale opts"
  have found: "found_instances env opts registered candidates = registered @ infos @ manual"
    by (simp add: found_instances_def infos manual_def)
  have reg: "truthful env ?prune i \<and> ii_discovery_source i = From_registry \<and> ii_registered i" if "i \<in> set registered" for i
    using that by (auto simp: assms registry_info_truthful registered_fields)
  have pro: "truthful env ?prune i \<and> from_candidate candidates (active_endpoint_keys registered) i \<and>
      ii_discovery_source i = From_process \<and> \<not> ii_stale i" if "i \<in> set infos" for i
    using process_infos [OF infos that] .
  have man: "(\<forall>i\<in>set manual. truthful env ?prune i \<and> by_hand i \<and> info_endpoint i \<notin> seen \<union> set (map info_endpoint infos)) \<and>
      distinct (map info_endpoint manual)"
    unfolding manual_def by (rule manual_infos)
  have taken: "active_endpoint_keys registered \<subseteq> seen" using probed_seen [OF infos] .
  have sources: "ii_registered i = (ii_discovery_source i = From_registry)" if "i \<in> set infos \<union> set manual" for i
    using that pro man truthful_source by blast
  have registered_only: "filter ii_registered (registered @ infos @ manual) = registered"
    using reg pro man sources by (auto simp: by_hand_def filter_empty_conv intro!: filter_True)
  have manual_only: "filter by_hand (registered @ infos @ manual) = manual"
    using reg pro man by (auto simp: by_hand_def filter_empty_conv intro!: filter_True)
  have active: "info_endpoint ` {j \<in> {i \<in> set (registered @ infos @ manual). \<not> ii_stale i}. ii_registered j} = active_endpoint_keys registered"
    using reg pro man sources by (force simp: active_endpoint_keys_def by_hand_def)
  have others: "info_endpoint ` {j \<in> {i \<in> set (registered @ infos @ manual). \<not> ii_stale i}. \<not> by_hand j} \<subseteq>
      active_endpoint_keys registered \<union> set (map info_endpoint infos)"
    using man by (auto simp: active_endpoint_keys_def)
  show ?thesis unfolding listing_ok_def Let_def found registered_only manual_only active
  proof (intro conjI ballI impI)
    show "truthful env ?prune i" if "i \<in> set (registered @ infos @ manual)" for i using that reg pro man by auto
    show "mset (map (\<lambda>i. (address (ii_record i), ii_stale i)) registered) = mset (map (\<lambda>(path, r). (address r, gone env r)) records)"
    proof -
      have "map (\<lambda>i. (address (ii_record i), ii_stale i)) registered = map (\<lambda>(path, r). (address r, gone env r)) records"
        unfolding assms by (simp add: registered_fields split: prod.splits)
      then show ?thesis by (rule arg_cong)
    qed
    show "from_candidate candidates (active_endpoint_keys registered) i"
      if "i \<in> set (registered @ infos @ manual)" "ii_discovery_source i = From_process" for i
      using that reg pro man by (auto simp: by_hand_def)
    show "distinct (map info_endpoint manual)" using man by blast
    show "info_endpoint i \<notin> info_endpoint ` {j \<in> {i \<in> set (registered @ infos @ manual). \<not> ii_stale i}. \<not> by_hand j}"
      if "i \<in> set (registered @ infos @ manual)" "by_hand i" for i
    proof -
      have "i \<in> set manual" using that reg pro by (auto simp: by_hand_def)
      then have "info_endpoint i \<notin> seen \<union> set (map info_endpoint infos)" using man by blast
      then show ?thesis using others taken by blast
    qed
  qed
qed

lemma listing_ok_up_to_notes:
  assumes "mset (map core ys) = mset (map core xs)" and "listing_ok env opts records candidates xs"
  shows "listing_ok env opts records candidates ys"
proof -
  have endpoints: "info_endpoint ` {j \<in> {i \<in> set ys. \<not> ii_stale i}. P j} = info_endpoint ` {j \<in> {i \<in> set xs. \<not> ii_stale i}. P j}"
    if "\<And>i. P (core i) = P i" for P
  proof -
    have "mset (map info_endpoint (filter (\<lambda>i. \<not> ii_stale i \<and> P i) ys)) = mset (map info_endpoint (filter (\<lambda>i. \<not> ii_stale i \<and> P i) xs))"
      by (rule core_filtered [OF assms(1)]) (simp_all add: that)
    from arg_cong [OF this, of set_mset] show ?thesis by (simp add: conj_assoc Collect_conj_eq Int_assoc) 
  qed
  have truth: "truthful env prune (core i) = truthful env prune i" for prune i by (simp add: truthful_def)
  have hand: "by_hand (core i) = by_hand i" for i by (simp add: by_hand_def)
  have from_cand: "from_candidate candidates E (core i) = from_candidate candidates E i" for E i by (simp add: from_candidate_def)
  have "mset (map (\<lambda>i. (address (ii_record i), ii_stale i)) (filter ii_registered ys)) =
      mset (map (\<lambda>i. (address (ii_record i), ii_stale i)) (filter ii_registered xs))"
    by (rule core_filtered [OF assms(1)]) simp_all
  moreover have "distinct (map info_endpoint (filter by_hand ys)) = distinct (map info_endpoint (filter by_hand xs))"
    by (rule mset_eq_imp_distinct_iff, rule core_filtered [OF assms(1)]) (simp_all add: hand)
  moreover have "(\<forall>i\<in>set ys. truthful env (lo_prune_stale opts) i) = (\<forall>i\<in>set xs. truthful env (lo_prune_stale opts) i)"
    by (rule core_image [OF assms(1)]) (simp add: truth)
  moreover have "(\<forall>i\<in>set ys. ii_discovery_source i = From_process \<longrightarrow> from_candidate candidates E i) =
      (\<forall>i\<in>set xs. ii_discovery_source i = From_process \<longrightarrow> from_candidate candidates E i)" for E
    by (rule core_image [OF assms(1)]) (simp add: from_cand)
  moreover have "(\<forall>i\<in>set ys. by_hand i \<longrightarrow> info_endpoint i \<notin> E) = (\<forall>i\<in>set xs. by_hand i \<longrightarrow> info_endpoint i \<notin> E)" for E
    by (rule core_image [OF assms(1)]) (simp add: hand)
  ultimately show ?thesis using assms(2) endpoints [of ii_registered] endpoints [of "\<lambda>i. \<not> by_hand i"]
    by (simp add: listing_ok_def hand)
qed

lemma pruned_files:
  "map_of (prune_files prune registered files) p =
     (if \<exists>i. (p, i) \<in> set registered \<and> ii_stale i \<and> prune then None else map_of files p)"
  by (induction registered arbitrary: files) (auto simp: prune_files_def unregister_instance_def delete_conv')

text \<open>
  C40: What a listing of local servers says is so. Every record of the registry is listed once, as stale exactly if its
  process is gone; an instance counts as healthy only if something at its address answered as this service;
  a process is listed only for an endpoint at which no registered server is active, and a port that was probed
  by hand once and only where nothing else is listed. With pruning exactly the files of stale records are deleted,
  and without it none.
\<close>

theorem listing_is_truthful:
  "case discover_local_instances env opts files scan of
     Inl e \<Rightarrow> True
   | Inr (infos, warnings, files') \<Rightarrow>
       \<exists>records candidates. read_instance_records (dx_args env) files = Inr records \<and>
         (case scan of None \<Rightarrow> candidates = [] | Some s \<Rightarrow> discover_serve_processes env (sn_entries s) (sn_listeners s) = Inr candidates) \<and>
         listing_ok env opts records candidates infos \<and>
         (\<forall>p. map_of files' p =
            (if lo_prune_stale opts \<and> (\<exists>r. (p, r) \<in> set records \<and> gone env r) then None else map_of files p))"
proof (cases "discover_local_instances env opts files scan")
  case (Inl e)
  then show ?thesis by simp
next
  case (Inr result)
  obtain infos warnings files' where result: "result = (infos, warnings, files')" by (rule prod_cases3)
  obtain records where records: "read_instance_records (dx_args env) files = Inr records"
    using Inr by (cases "read_instance_records (dx_args env) files") (simp_all add: discover_local_instances_def)
  obtain candidates where candidates: "(case scan of None \<Rightarrow> Inr [] | Some s \<Rightarrow> discover_serve_processes env (sn_entries s) (sn_listeners s)) = Inr candidates"
    using Inr records unfolding discover_local_instances_def bind_res_Inr by auto
  define verified where "verified = set (map candidate_endpoint (filter sc_listener_pid_verified candidates))"
  define pids where "pids = (case scan of None \<Rightarrow> Map.empty | Some s \<Rightarrow> sn_listener_pids s)"
  define registered where "registered = map (\<lambda>(path, r). (path, registry_info env (lo_probe opts) (lo_prune_stale opts) pids verified r)) records"
  obtain noted where noted: "annotate_instance_notes env (found_instances env opts (map snd registered) candidates) = Inr noted"
    and infos: "infos = sort_key (\<lambda>i. (in_host (ii_record i), in_port (ii_record i), in_pid (ii_record i))) noted"
    and files': "files' = prune_files (lo_prune_stale opts) registered files"
    using Inr records candidates
    by (auto simp: discover_local_instances_def result bind_res_Inr Let_def verified_def pids_def registered_def)
  have only: "map snd registered = map (\<lambda>(path, r). registry_info env (lo_probe opts) (lo_prune_stale opts) pids verified r) records"
    by (simp add: registered_def split: prod.splits)
  have "mset (map core infos) = mset (map core (found_instances env opts (map snd registered) candidates))"
  proof -
    have "mset (map core infos) = mset (map core noted)" unfolding infos by simp
    then show ?thesis using annotated_core [OF annotate_only_notes [OF noted]] by simp
  qed
  then have "listing_ok env opts records candidates infos"
    by (rule listing_ok_up_to_notes) (rule found_ok [OF only])
  moreover have "map_of files' p =
      (if lo_prune_stale opts \<and> (\<exists>r. (p, r) \<in> set records \<and> gone env r) then None else map_of files p)" for p
    unfolding files' pruned_files by (auto simp: registered_def registered_fields image_iff)
  moreover have "case scan of None \<Rightarrow> candidates = [] | Some s \<Rightarrow> discover_serve_processes env (sn_entries s) (sn_listeners s) = Inr candidates"
    using candidates by (cases scan) simp_all
  ultimately show ?thesis using Inr result records by auto
qed

text \<open>
  C39: The registry returns what was registered. Registering a server succeeds, afterwards the registry holds its
  record exactly as it was, in the file that is named after it, and of the other records exactly those of other
  processes and other endpoints; every record still lies in the file that is named after it.
\<close>

theorem registered_servers_read:
  assumes "json_floats env" and "proper_record r" and "registry_named (dx_args env) files"
  shows "\<exists>files' records records'. register_instance env r files = Inr files' \<and>
    read_instance_records (dx_args env) files = Inr records \<and> read_instance_records (dx_args env) files' = Inr records' \<and>
    registry_named (dx_args env) files' \<and>
    set records' = insert (instance_record_filename r, r) {(p, s) \<in> set records. \<not> replaced_by r s}"
  using assms by (rule register_instance_reads)

definition demo_float :: "float_value \<Rightarrow> pyval" where
  "demo_float x = (case x of Finite y \<Rightarrow> PFloat y | Pos_inf \<Rightarrow> PStr (lit ''inf'') | Neg_inf \<Rightarrow> PStr (lit ''-inf'') | Not_a_number \<Rightarrow> PStr (lit ''nan''))"

definition demo_args :: api_env where
  "demo_args = \<lparr>ap_int = (\<lambda>s. None),
     ap_float = (\<lambda>s. if s = lit ''inf'' then Some Pos_inf else if s = lit ''-inf'' then Some Neg_inf else Some Not_a_number),
     ap_repr = (\<lambda>v. [])\<rparr>"

definition demo_discovery :: discovery_env where
  "demo_discovery = \<lparr>dx_args = demo_args, dx_running = (\<lambda>pid. True), dx_create_time = (\<lambda>pid. None),
     dx_get = (\<lambda>url. Http_unreachable), dx_within_budget = (\<lambda>c. True), dx_json_float = demo_float,
     dx_expanduser = Inr, dx_resolve = Inr, dx_is_absolute = (\<lambda>p. True), dx_join = (\<lambda>a b. a @ b),
     dx_parts = split_char 47, dx_normcase = (\<lambda>p. p)\<rparr>"

definition demo_record :: instance_record where
  "demo_record = probe_record 12 (lit ''127.0.0.1'') 8765 (lit ''/wiki'')"

theorem registered_servers_read_witness:
  "\<exists>files' records'. register_instance demo_discovery demo_record [] = Inr files' \<and>
     read_instance_records demo_args files' = Inr records' \<and> set records' = {(instance_record_filename demo_record, demo_record)}"
proof -
  have floats: "json_floats demo_discovery"
    unfolding json_floats_def
  proof
    show "float_value_of (dx_args demo_discovery) (dx_json_float demo_discovery x) = Inr (Some x)" for x
      by (cases x) (simp_all add: demo_discovery_def demo_args_def demo_float_def float_value_of_def lit_def)
  qed
  have proper: "proper_record demo_record"
    by (simp add: proper_record_def demo_record_def probe_record_def port_ok_def instance_url_def lit_def)
  have empty: "read_instance_records (dx_args demo_discovery) [] = Inr []" by (simp add: read_instance_records_def)
  then have named: "registry_named (dx_args demo_discovery) []" by (simp add: registry_named_def)
  have args: "dx_args demo_discovery = demo_args" by (simp add: demo_discovery_def)
  obtain files' records records' where run: "register_instance demo_discovery demo_record [] = Inr files'"
    "read_instance_records (dx_args demo_discovery) [] = Inr records" "read_instance_records (dx_args demo_discovery) files' = Inr records'"
    "set records' = insert (instance_record_filename demo_record, demo_record) {(p, s) \<in> set records. \<not> replaced_by demo_record s}"
    using registered_servers_read [OF floats proper named] by (elim exE conjE) (rule that)
  have "records = []" using run(2) empty by simp
  then show ?thesis using run unfolding args by simp
qed

text \<open>
  An option of the server with a value that the table of such options lacks: its value is taken for the root.
\<close>

lemma option_value_taken_as_root:
  "parse_serve_args env (map lit [''--git-sync-remote'', ''origin'', ''/wiki'']) =
     Some (DEFAULT_SERVE_HOST, DEFAULT_SERVE_PORT, lit ''origin'')"
  by (simp add: parse_serve_args_def SERVE_OPTIONS_WITH_VALUES_def partition_option_def lit_def port_ok_def
      DEFAULT_SERVE_PORT_def)

end
