(* ===== verification/Spec2Isabelle.thy ===== *)
theory Spec2Isabelle
  imports Projection_Props Validation_Props Parser Graph_View_Props Search_Props
    Guided_Retrieval_Props Stores_Props Service_Graph_Props Source_Refs_Props Fusion_Props
    Git_Threads Read_Focus_Props Managed_Claims Service_Context_Props Adapters_Props Okf_Props Vector_Chunks_Props Vector_Hybrid_Props
    Api_Props Api_Http_Props Instances_Props
begin

text \<open>
  A verification development for llmwiki-serve, a read-only server for directories of Markdown files
  ("wikis"): it loads a directory into an index of pages and a graph, and answers searches, context packs,
  page reads and graph queries over the command line, HTTP, MCP and A2A. File names are those below
  \<open>src/llmwiki_serve/\<close>.

  \<^bold>\<open>How the program works, and which theory models what.\<close> A definition has the name of the function or class it
  models; a helper definition with another name models the loop body or expression that the comment before it names.

  \<^item> Strings and values. \<open>PyStr\<close> has Python's \<open>str\<close> (lists of code points, with the tables of
    \<open>Unicode_Tables\<close>), \<open>Regex\<close> a backtracking matcher that behaves as \<open>re\<close>, \<open>Models\<close> the YAML and JSON values
    (\<open>pyval\<close>) and the records of \<open>models.py\<close>, \<open>Validation\<close> its validators and the visibility rule
    \<open>approved_for_serving\<close>. \<open>Prelude\<close> has the errors (\<open>py_error\<close>; an operation that may raise returns
    \<open>py_error + 'a\<close>), insertion-ordered dictionaries (association lists) and the collections of hints.
  \<^item> Loading. \<open>Adapters\<close> (\<open>adapters.py\<close>) detects one of eight layouts and reads files below the root,
    \<open>Parser\<close> (\<open>parser.py\<close>) reads one file, \<open>Okf\<close> (\<open>okf.py\<close>) a strict bundle, and \<open>Projection\<close>
    (\<open>projection.py\<close>) makes the \<open>wiki_index\<close>: pages, graph, provider facts.
  \<^item> Graphs. \<open>Graph_Engine\<close> (\<open>graph_engine.py\<close>) answers the five graph operations; \<open>Graph_View\<close>
    (\<open>service.py\<close>) has the approved view and the bounded neighbourhood walk.
  \<^item> Search. \<open>Search_Text\<close> has the analyzers, \<open>Search_Corpus\<close> postings and document frequencies, \<open>Search\<close> the
    scores, the ranking, snippets and orientation (all of \<open>search.py\<close>). \<open>Vector_Chunks\<close>, \<open>Vector_Search\<close>,
    \<open>Vector_Relations\<close> and \<open>Vector_Hybrid\<close> model \<open>vector.py\<close>: what is embedded, how records are scored,
    relations of orientation pages, and the fusion of channels.
  \<^item> Reading. \<open>Read_Focus\<close> (\<open>read_focus.py\<close>) cuts pages into sections and selects within a budget;
    \<open>Guided_Retrieval\<close> (\<open>guided_retrieval.py\<close>) makes the cards and terms of a context pack.
  \<^item> State beside the index. \<open>Stores\<close> has the projection stores (\<open>projection_store.py\<close>) and the SQLite graph
    store (\<open>graph_store.py\<close>); \<open>Managed_Context\<close>, \<open>Managed_Runtime\<close> and \<open>Sidecar_Lock\<close>
    (\<open>managed_context.py\<close>) the hit counters, their file and its lock; \<open>Git_Sync\<close> and \<open>Git_Threads\<close>
    (\<open>git_sync.py\<close>) the synchronisation of the checkout and its threads.
  \<^item> The service (\<open>service.py\<close>). \<open>Service\<close> is the index cache with its refresh rule, \<open>Service_Queries\<close> searches with
    query variants, source references and graph requests, \<open>Vector_Service\<close> the vector provider and index,
    \<open>Service_Context\<close> the requests \<open>search\<close>, \<open>context\<close> and \<open>read\<close>: each calls the cache, the views, the rankings,
    the managed context and \<open>Action_Judgment\<close> (\<open>query_action_judgment.py\<close>), threading one \<open>site_state\<close>.
  \<^item> The network (\<open>api.py\<close>). \<open>Api_Args\<close> reads arguments and options, \<open>Api_Surface\<close> what the server says about
    itself, \<open>Api_Mcp\<close> the JSON-RPC endpoint and its tools, \<open>Api_Http\<close> the checks of MCP requests;
    \<open>Io_Log\<close> (\<open>io_logging.py\<close>) is the request log with its redaction.
  \<^item> Local servers (\<open>instances.py\<close>). \<open>Instances\<close> splits command lines, reads the arguments of server processes and
    names endpoints, \<open>Instance_Discovery\<close> keeps the registry of servers and attributes listeners to processes,
    \<open>Instance_Listing\<close> probes, annotates and lists.

  \<^bold>\<open>What is shown.\<close> The theories \<open>..._Props\<close>, \<open>Managed_Claims\<close> and \<open>Git_Threads\<close> hold the theorems; the
  text before a theorem states it. In groups:

  \<^item> Who sees what: pages that may not be served appear in no search, read, context, graph view or tool answer
    without the leave of the operator (\<open>Graph_View_Props\<close>, \<open>Read_Focus_Props\<close>, \<open>Service_Context_Props\<close>,
    \<open>Api_Props\<close>); files outside the root are never read (\<open>Adapters_Props\<close>); the log shows no root
    (\<open>Io_Log_Props\<close>), the judging provider no page text (\<open>Action_Judgment_Props\<close>), a git message no
    credentials (\<open>Git_Sync_Props\<close>).
  \<^item> Answers are exact: graph queries and walks against inductive definitions of walks and paths, postings
    and results against the counts of token lists, vector and hybrid scores against cosines and sums of
    reciprocal ranks, sections and chunks against the text they cut, source references against the pages.
  \<^item> Caches refine their absence: an index is that of the directory now or within the refresh interval
    (\<open>Service_Props\<close>), a stored graph view is the derived one (\<open>Service_Graph_Props\<close>).
  \<^item> Concurrency: updates of a sidecar by any interleaving of processes are serial (\<open>Sidecar_Lock\<close>,
    \<open>Managed_Claims\<close>), fetches are rate limited and a request that is not told stale was synchronised
    (\<open>Git_Threads\<close>); both over step relations with invariants by rule induction.
  \<^item> Local servers: quoted command lines are split into their arguments, the registry returns what was
    registered, listeners are attributed by descent, and a listing is true (\<open>Instances_Props\<close>).
  \<^item> Bounds and errors: arguments within their bounds, budgets kept, which inputs raise which error. Theorems that
    exhibit an unintended behaviour (a collision of keys, a limit exceeded by one) stand beside the ones they limit.

  \<^bold>\<open>Interfaces.\<close> \<open>record_store\<close> (\<open>Stores\<close>: interpreted on the in-memory and the SQLite store),
  \<open>graph_engine\<close> (\<open>Graph_Engine_Props\<close>: on the in-memory engine) and \<open>locked_file\<close> (\<open>Sidecar_Lock\<close>: on the hit
  counters and on the salt) state what their clients rely on.

  \<^bold>\<open>Parameters.\<close> Code outside the repository is an argument of the definitions that use it: the YAML and JSON
  readers, \<open>repr\<close>, SHA-256 and HMAC, NFC and NFKC, \<open>int\<close> and \<open>float\<close> of a text, base64, the stemmer, NumPy,
  the embedding provider, Redis, SQLite's storage classes, git, the judging provider, the clock and the file
  system. Hypotheses about them are named definitions that state documented behaviour (an injective digest, a
  reader that returns what was written), and have witnesses.

  \<^bold>\<open>Numbers and bounds.\<close> Integers are \<open>int\<close> or \<open>nat\<close>, as Python's are unbounded. Floats are exact reals, so that
  equalities of scores hold up to rounding; where NaN and infinities reach the code, \<open>float_value\<close> has them.
  JSON numbers that are read as \<open>PFloat\<close> are finite. Loops that are not structural are functions
  with a termination proof; fuel appears only in the matcher, for repetitions, where it is the number of characters
  that are left and every round consumes one.

  \<^bold>\<open>Not modelled.\<close> The command line (\<open>cli.py\<close>) declares options and calls the operations above. Of
  \<open>api.py\<close>, FastAPI's routing and validation of the REST endpoints, the response models, the MCP SDK and the A2A
  endpoint, which wraps the same calls; of \<open>vector.py\<close>, the FastEmbed wrapper and the cache files with
  their locks; of \<open>service.py\<close>, the scan of the directory behind a signature, which is a parameter; of
  \<open>instances.py\<close>, running \<open>ps\<close> and PowerShell, HTTP and the thread pool. The scripts under \<open>scripts/\<close> are tools of the
  release and offline experiments, and no part of the server.
\<close>

end
